(* ===== verification/Prelude.thy ===== *)
theory Prelude
  imports Main "HOL-Library.Word" "HOL-Library.Monad_Syntax"
begin

text \<open>
  Shared vocabulary of the development.

  \<^item> The C integer types of the flight software (\<^verbatim>\<open>uint8\<close>, \<^verbatim>\<open>uint16\<close>, \<^verbatim>\<open>uint32\<close>) as words,
    so that wrap-around is the wrap-around of the target.  The target is the BeagleBone Black of
    \<^verbatim>\<open>src/yonix_defs\<close>: 32-bit, little-endian; addresses are 32-bit words.
  \<^item> \<open>bytes\<close>: the memory a C pointer designates, as the function from the offset to the byte found
    there.  A pointer carries no length, so neither does the model.
  \<^item> \<open>option\<close> as the result of an operation that dereferences pointers: \<open>None\<close> is a dereference of
    \<^verbatim>\<open>NULL\<close> or of an object that is not there.
  \<^item> Bit-blasting lemmas for 8, 16 and 32-bit words, in the collection \<open>word_blast\<close>.
\<close>

unbundle bit_operations_syntax

section \<open>Types\<close>

type_synonym u8 = "8 word"
type_synonym u16 = "16 word"
type_synonym u32 = "32 word"
type_synonym u64 = "64 word"

type_synonym addr = "32 word"
type_synonym bytes = "nat \<Rightarrow> 8 word"

text \<open>The return codes of the cFE services that the development models (\<^verbatim>\<open>cfe_error.h\<close>);
  \<open>OS_STATUS\<close> is a code that a service passes on from the operating system layer.\<close>

datatype CFE_Status =
    CFE_SUCCESS
  | CFE_SB_TIME_OUT
  | CFE_SB_NO_MESSAGE
  | CFE_SB_BAD_ARGUMENT
  | CFE_SB_MAX_PIPES_MET
  | CFE_SB_PIPE_CR_ERR
  | CFE_SB_PIPE_RD_ERR
  | CFE_SB_MSG_TOO_BIG
  | CFE_SB_BUF_ALOC_ERR
  | CFE_SB_MAX_MSGS_MET
  | CFE_SB_MAX_DESTS_MET
  | CFE_SB_WRONG_MSG_TYPE
  | CFE_SB_BUFFER_INVALID
  | CFE_ES_ERR_APPID
  | CFE_ES_BAD_ARGUMENT
  | CFE_ES_ERR_MEM_HANDLE
  | CFE_ES_ERR_MEM_BLOCK_SIZE
  | CFE_ES_BUFFER_NOT_IN_POOL
  | CFE_TIME_TOO_MANY_SYNCH_CALLBACKS
  | CFE_TIME_CALLBACK_NOT_REGISTERED
  | CFE_ES_ERR_BUFFER
  | CFE_ES_ERR_SYS_LOG_FULL
  | CFE_ES_ERR_SYS_LOG_TRUNCATED
  | CFE_ES_FILE_IO_ERR
  | CFE_EVS_UNKNOWN_FILTER
  | CFE_EVS_APP_NOT_REGISTERED
  | CFE_EVS_APP_ILLEGAL_APP_ID
  | CFE_EVS_APP_FILTER_OVERLOAD
  | CFE_EVS_EVT_NOT_REGISTERED
  | CFE_EVS_FILE_WRITE_ERROR
  | CFE_EVS_INVALID_PARAMETER
  | CFE_EVS_FUNCTION_DISABLED
  | CFE_STATUS_NO_COUNTER_INCREMENT
  | CFE_STATUS_WRONG_MSG_LENGTH
  | CFE_STATUS_BAD_COMMAND_CODE
  | OS_STATUS int

named_theorems word_blast "bitwise equality of fixed-width words"
named_theorems hdr_defs "definitions of the CCSDS header field macros"

section \<open>Bitwise equality of fixed-width words\<close>

lemma all_less_8 [word_blast]:
  "(\<forall>n<8. P n) \<longleftrightarrow> P 0 \<and> P 1 \<and> P 2 \<and> P 3 \<and> P 4 \<and> P 5 \<and> P 6 \<and> P (7::nat)"
  by (simp add: numeral_eq_Suc All_less_Suc2)

lemma all_less_16 [word_blast]:
  "(\<forall>n<16. P n) \<longleftrightarrow> (\<forall>n<8. P n) \<and> P 8 \<and> P 9 \<and> P 10 \<and> P 11 \<and> P 12 \<and> P 13 \<and> P 14 \<and> P (15::nat)"
  by (simp add: numeral_eq_Suc All_less_Suc2)

lemma all_less_32 [word_blast]:
  "(\<forall>n<32. P n) \<longleftrightarrow> (\<forall>n<16. P n) \<and> P 16 \<and> P 17 \<and> P 18 \<and> P 19 \<and> P 20 \<and> P 21 \<and> P 22 \<and> P 23
     \<and> P 24 \<and> P 25 \<and> P 26 \<and> P 27 \<and> P 28 \<and> P 29 \<and> P 30 \<and> P (31::nat)"
  by (simp add: numeral_eq_Suc All_less_Suc2 conj_assoc)

lemma word8_eq_iff [word_blast]: "(x::u8) = y \<longleftrightarrow> (\<forall>n<8. bit x n = bit y n)"
  by (auto intro: bit_word_eqI)

lemma word16_eq_iff [word_blast]: "(x::u16) = y \<longleftrightarrow> (\<forall>n<16. bit x n = bit y n)"
  by (auto intro: bit_word_eqI)

lemma word32_eq_iff [word_blast]: "(x::u32) = y \<longleftrightarrow> (\<forall>n<32. bit x n = bit y n)"
  by (auto intro: bit_word_eqI)

lemma bit_u8_out [simp, word_blast]: "8 \<le> n \<Longrightarrow> \<not> bit (x::u8) n"
  using bit_imp_le_length [of x n] by auto

lemma bit_u16_out [simp, word_blast]: "16 \<le> n \<Longrightarrow> \<not> bit (x::u16) n"
  using bit_imp_le_length [of x n] by auto

lemma bit_u32_out [simp, word_blast]: "32 \<le> n \<Longrightarrow> \<not> bit (x::u32) n"
  using bit_imp_le_length [of x n] by auto

declare bit_simps [word_blast]

lemma ucast_up_down [simp]:
  "ucast (ucast (x::u8) :: u16) = x" "ucast (ucast (x::u8) :: u32) = x"
  "ucast (ucast (y::u16) :: u32) = y"
  by (simp_all add: word_blast)

lemma ucast_down_add: "ucast (a + b :: u32) = (ucast a + ucast b :: u16)"
  by (transfer, subst (2) take_bit_add [symmetric], simp add: take_bit_add)

lemma ucast_down_diff: "ucast (a - b :: u32) = (ucast a - ucast b :: u16)"
  by (transfer, subst (2) take_bit_diff [symmetric], simp add: take_bit_diff)

text \<open>The two bytes of a 16-bit value, and the value of two bytes.\<close>

definition hi8 :: "'a::len word \<Rightarrow> u8" where
  "hi8 v = ucast (drop_bit 8 v)"

definition lo8 :: "'a::len word \<Rightarrow> u8" where
  "lo8 v = ucast v"

definition join16 :: "u8 \<Rightarrow> u8 \<Rightarrow> u16" where
  "join16 h l = push_bit 8 (ucast h) OR ucast l"

lemma join16_hi_lo [simp]: "join16 (hi8 v) (lo8 v) = (v::u16)"
  by (simp add: join16_def hi8_def lo8_def word_blast)

lemma hi8_join16 [simp]: "hi8 (join16 h l) = h"
  by (simp add: join16_def hi8_def word_blast)

lemma lo8_join16 [simp]: "lo8 (join16 h l) = l"
  by (simp add: join16_def lo8_def word_blast)

lemma join16_eq_iff [simp]: "join16 h l = join16 h' l' \<longleftrightarrow> h = h' \<and> l = l'"
  by (metis hi8_join16 lo8_join16)

lemma join16_add: "push_bit 8 (ucast h) + ucast l = join16 h l"
  unfolding join16_def by (rule disjunctive_add) (auto simp: bit_simps)

lemma xor_eq_0_iff: "(x::u8) XOR y = 0 \<longleftrightarrow> x = y"
  by (auto simp: word_blast)

section \<open>The option monad of fallible operations\<close>

lemma bind_Some_conv [simp]:
  "(x \<bind> f) = Some y \<longleftrightarrow> (\<exists>z. x = Some z \<and> f z = Some y)"
  by (cases x) auto

lemma bind_None_conv: "(x \<bind> f) = None \<longleftrightarrow> x = None \<or> (\<exists>z. x = Some z \<and> f z = None)"
  by (cases x) auto

end
