(* ===== verification/CCSDS.thy ===== *)
theory CCSDS
  imports Prelude
begin

text \<open>
  The CCSDS packet headers: the field macros of \<^verbatim>\<open>src/cfe/fsw/cfe-core/src/inc/ccsds.h\<close> and the
  checksum functions of \<^verbatim>\<open>sb/ccsds.c\<close>.

  A message is the memory at its pointer.  Bytes 0 and 1 are \<^verbatim>\<open>StreamId\<close>, 2 and 3 \<^verbatim>\<open>Sequence\<close>,
  4 and 5 \<^verbatim>\<open>Length\<close>; bytes 6 and 7 hold the \<^verbatim>\<open>uint16\<close> \<^verbatim>\<open>Command\<close> word of a command packet, in
  the byte order of the little-endian target; bytes 6 to 11 the \<^verbatim>\<open>Time\<close> field of a telemetry packet
  (\<^verbatim>\<open>CFE_MISSION_SB_TIME_32_16_SUBS\<close>).

  The locale \<open>hdr_field\<close> is the contract of a header field (reading returns what was written,
  truncated to the field; writing what was read changes nothing; the last write wins), and
  \<open>hdr_field_pair\<close> the contract of two fields that do not overlap.  Every field of the primary and of
  the command header is an interpretation.
\<close>

unbundle bit_operations_syntax

section \<open>Field macros\<close>

definition CCSDS_RD_SID :: "bytes \<Rightarrow> u16" where
  "CCSDS_RD_SID m = push_bit 8 (ucast (m 0)) + ucast (m 1)"

definition CCSDS_WR_SID :: "u16 \<Rightarrow> bytes \<Rightarrow> bytes" where
  "CCSDS_WR_SID v m = m(0 := hi8 v, 1 := lo8 (v AND 0xff))"

definition CCSDS_RD_APID :: "bytes \<Rightarrow> u16" where
  "CCSDS_RD_APID m = CCSDS_RD_SID m AND 0x07FF"

definition CCSDS_WR_APID :: "u16 \<Rightarrow> bytes \<Rightarrow> bytes" where
  "CCSDS_WR_APID v m = m(0 := (m 0 AND 0xF8) OR (hi8 v AND 0x07), 1 := lo8 (v AND 0xff))"

definition CCSDS_RD_SHDR :: "bytes \<Rightarrow> u8" where
  "CCSDS_RD_SHDR m = drop_bit 3 (m 0 AND 0x08)"

definition CCSDS_WR_SHDR :: "u8 \<Rightarrow> bytes \<Rightarrow> bytes" where
  "CCSDS_WR_SHDR v m = m(0 := (m 0 AND 0xf7) OR (push_bit 3 v AND 0x08))"

definition CCSDS_RD_TYPE :: "bytes \<Rightarrow> u8" where
  "CCSDS_RD_TYPE m = drop_bit 4 (m 0 AND 0x10)"

definition CCSDS_WR_TYPE :: "u8 \<Rightarrow> bytes \<Rightarrow> bytes" where
  "CCSDS_WR_TYPE v m = m(0 := (m 0 AND 0xEF) OR (push_bit 4 v AND 0x10))"

definition CCSDS_RD_VERS :: "bytes \<Rightarrow> u8" where
  "CCSDS_RD_VERS m = drop_bit 5 (m 0 AND 0xE0)"

definition CCSDS_WR_VERS :: "u8 \<Rightarrow> bytes \<Rightarrow> bytes" where
  "CCSDS_WR_VERS v m = m(0 := (m 0 AND 0x1F) OR (push_bit 5 v AND 0xE0))"

definition CCSDS_RD_SEQ :: "bytes \<Rightarrow> u16" where
  "CCSDS_RD_SEQ m = push_bit 8 (ucast (m 2 AND 0x3F)) + ucast (m 3)"

text \<open>The sequence count is written from a \<^verbatim>\<open>uint16\<close> and from a \<^verbatim>\<open>uint32\<close> counter.\<close>

definition CCSDS_WR_SEQ :: "'a::len word \<Rightarrow> bytes \<Rightarrow> bytes" where
  "CCSDS_WR_SEQ v m = m(2 := (m 2 AND 0xC0) OR (hi8 v AND 0x3f), 3 := lo8 (v AND 0xff))"

definition CCSDS_RD_SEQFLG :: "bytes \<Rightarrow> u8" where
  "CCSDS_RD_SEQFLG m = drop_bit 6 (m 2 AND 0xC0)"

definition CCSDS_WR_SEQFLG :: "u8 \<Rightarrow> bytes \<Rightarrow> bytes" where
  "CCSDS_WR_SEQFLG v m = m(2 := (m 2 AND 0x3F) OR (push_bit 6 v AND 0xC0))"

text \<open>\<^verbatim>\<open>CCSDS_RD_LEN\<close> is an \<^verbatim>\<open>int\<close> between 7 and 65542: it does not fit the \<^verbatim>\<open>uint16\<close> its callers keep.\<close>

definition CCSDS_RD_LEN :: "bytes \<Rightarrow> u32" where
  "CCSDS_RD_LEN m = push_bit 8 (ucast (m 4)) + ucast (m 5) + 7"

definition CCSDS_WR_LEN :: "u32 \<Rightarrow> bytes \<Rightarrow> bytes" where
  "CCSDS_WR_LEN v m = m(4 := hi8 (v - 7), 5 := lo8 ((v - 7) AND 0xff))"

text \<open>The \<^verbatim>\<open>Command\<close> word of the command secondary header.\<close>

definition Command :: "bytes \<Rightarrow> u16" where
  "Command m = join16 (m 7) (m 6)"

definition set_Command :: "u16 \<Rightarrow> bytes \<Rightarrow> bytes" where
  "set_Command v m = m(6 := lo8 v, 7 := hi8 v)"

definition CCSDS_RD_BITS :: "u16 \<Rightarrow> u16 \<Rightarrow> nat \<Rightarrow> u16" where
  "CCSDS_RD_BITS w msk shift = drop_bit shift (w AND msk)"

definition CCSDS_WR_BITS :: "u16 \<Rightarrow> u16 \<Rightarrow> nat \<Rightarrow> u16 \<Rightarrow> u16" where
  "CCSDS_WR_BITS w msk shift v = (w AND NOT msk) OR push_bit shift (v AND drop_bit shift msk)"

definition CCSDS_RD_FC :: "bytes \<Rightarrow> u16" where
  "CCSDS_RD_FC m = CCSDS_RD_BITS (Command m) 0x7F00 8"

definition CCSDS_WR_FC :: "u16 \<Rightarrow> bytes \<Rightarrow> bytes" where
  "CCSDS_WR_FC v m = set_Command (CCSDS_WR_BITS (Command m) 0x7F00 8 v) m"

definition CCSDS_RD_CHECKSUM :: "bytes \<Rightarrow> u16" where
  "CCSDS_RD_CHECKSUM m = CCSDS_RD_BITS (Command m) 0x00FF 0"

definition CCSDS_WR_CHECKSUM :: "u16 \<Rightarrow> bytes \<Rightarrow> bytes" where
  "CCSDS_WR_CHECKSUM v m = set_Command (CCSDS_WR_BITS (Command m) 0x00FF 0 v) m"

definition CCSDS_CLR_PRI_HDR :: "bytes \<Rightarrow> bytes" where
  "CCSDS_CLR_PRI_HDR m = m(0 := 0, 1 := 0, 2 := push_bit 6 3, 3 := 0, 4 := 0, 5 := 0)"

definition CCSDS_INC_SEQ :: "bytes \<Rightarrow> bytes" where
  "CCSDS_INC_SEQ m = CCSDS_WR_SEQ (CCSDS_RD_SEQ m + 1) m"

lemmas CCSDS_field_defs [hdr_defs] =
  CCSDS_RD_SID_def CCSDS_WR_SID_def CCSDS_RD_APID_def CCSDS_WR_APID_def CCSDS_RD_SHDR_def
  CCSDS_WR_SHDR_def CCSDS_RD_TYPE_def CCSDS_WR_TYPE_def CCSDS_RD_VERS_def CCSDS_WR_VERS_def
  CCSDS_RD_SEQ_def CCSDS_WR_SEQ_def CCSDS_RD_SEQFLG_def CCSDS_WR_SEQFLG_def
  CCSDS_RD_FC_def CCSDS_WR_FC_def CCSDS_RD_CHECKSUM_def CCSDS_WR_CHECKSUM_def
  CCSDS_RD_BITS_def CCSDS_WR_BITS_def Command_def set_Command_def
  hi8_def lo8_def join16_add join16_def

section \<open>The checksum functions of ccsds.c\<close>

text \<open>\<^verbatim>\<open>while (PktLen--) CheckSum ^= *(BytePtr++)\<close>: the bytes are folded from offset \<open>i\<close> on.\<close>

primrec CheckSum_loop :: "nat \<Rightarrow> nat \<Rightarrow> bytes \<Rightarrow> u8 \<Rightarrow> u8" where
  "CheckSum_loop 0 i m c = c"
| "CheckSum_loop (Suc n) i m c = CheckSum_loop n (Suc i) m (c XOR m i)"

definition CCSDS_ComputeCheckSum :: "bytes \<Rightarrow> u8" where
  "CCSDS_ComputeCheckSum m =
     (let PktLen = (ucast (CCSDS_RD_LEN m) :: u16)
      in CheckSum_loop (unat PktLen) 0 m 0xFF)"

definition CCSDS_LoadCheckSum :: "bytes \<Rightarrow> bytes" where
  "CCSDS_LoadCheckSum m =
     (let m = CCSDS_WR_CHECKSUM 0 m; CheckSum = CCSDS_ComputeCheckSum m
      in CCSDS_WR_CHECKSUM (ucast CheckSum) m)"

definition CCSDS_ValidCheckSum :: "bytes \<Rightarrow> bool" where
  "CCSDS_ValidCheckSum m \<longleftrightarrow> CCSDS_ComputeCheckSum m = 0"

section \<open>The contract of a header field\<close>

locale hdr_field =
  fixes rd :: "bytes \<Rightarrow> 'v" and wr :: "'v \<Rightarrow> bytes \<Rightarrow> bytes" and trunc :: "'v \<Rightarrow> 'v"
  assumes rd_wr: "rd (wr v m) = trunc v"
    and wr_rd: "wr (rd m) m = m"
    and wr_wr: "wr v (wr u m) = wr v m"
begin

lemma trunc_rd: "trunc (rd m) = rd m"
  using rd_wr [of "rd m" m] by (simp add: wr_rd)

lemma rd_wr_rd: "rd (wr (rd m') m) = rd m'"
  by (simp add: rd_wr trunc_rd)

lemma wr_id_iff: "wr v m = m \<Longrightarrow> trunc v = rd m"
  using rd_wr [of v m] by simp

end

locale hdr_field_pair =
  f: hdr_field rd wr trunc + g: hdr_field rd' wr' trunc'
  for rd :: "bytes \<Rightarrow> 'v" and wr :: "'v \<Rightarrow> bytes \<Rightarrow> bytes" and trunc :: "'v \<Rightarrow> 'v"
    and rd' :: "bytes \<Rightarrow> 'w" and wr' :: "'w \<Rightarrow> bytes \<Rightarrow> bytes" and trunc' :: "'w \<Rightarrow> 'w" +
  assumes wr_comm: "wr v (wr' w m) = wr' w (wr v m)"
begin

lemma rd_wr_other: "rd (wr' w m) = rd m"
proof -
  have "rd (wr' w m) = rd (wr' w (wr (rd m) m))"
    by (simp add: f.wr_rd)
  also have "\<dots> = rd (wr (rd m) (wr' w m))"
    by (simp add: wr_comm)
  finally show ?thesis
    by (simp add: f.rd_wr f.trunc_rd)
qed

lemma rd_other_wr: "rd' (wr v m) = rd' m"
proof -
  have "rd' (wr v m) = rd' (wr v (wr' (rd' m) m))"
    by (simp add: g.wr_rd)
  also have "\<dots> = rd' (wr' (rd' m) (wr v m))"
    by (simp add: wr_comm)
  finally show ?thesis
    by (simp add: g.rd_wr g.trunc_rd)
qed

end

section \<open>The fields of the headers satisfy the contract\<close>

interpretation sid: hdr_field CCSDS_RD_SID CCSDS_WR_SID "\<lambda>v. v"
  by unfold_locales (auto simp: hdr_defs fun_eq_iff word_blast)

interpretation apid: hdr_field CCSDS_RD_APID CCSDS_WR_APID "\<lambda>v. v AND 0x7FF"
  by unfold_locales (auto simp: hdr_defs fun_eq_iff word_blast)

interpretation shdr: hdr_field CCSDS_RD_SHDR CCSDS_WR_SHDR "\<lambda>v. v AND 1"
  by unfold_locales (auto simp: hdr_defs fun_eq_iff word_blast)

interpretation pkttype: hdr_field CCSDS_RD_TYPE CCSDS_WR_TYPE "\<lambda>v. v AND 1"
  by unfold_locales (auto simp: hdr_defs fun_eq_iff word_blast)

interpretation vers: hdr_field CCSDS_RD_VERS CCSDS_WR_VERS "\<lambda>v. v AND 7"
  by unfold_locales (auto simp: hdr_defs fun_eq_iff word_blast)

interpretation seqcnt: hdr_field CCSDS_RD_SEQ CCSDS_WR_SEQ "\<lambda>v. v AND 0x3FFF"
  by unfold_locales (auto simp: hdr_defs fun_eq_iff word_blast)

interpretation seqflg: hdr_field CCSDS_RD_SEQFLG CCSDS_WR_SEQFLG "\<lambda>v. v AND 3"
  by unfold_locales (auto simp: hdr_defs fun_eq_iff word_blast)

interpretation fc: hdr_field CCSDS_RD_FC CCSDS_WR_FC "\<lambda>v. v AND 0x7F"
  by unfold_locales (auto simp: hdr_defs fun_eq_iff word_blast)

interpretation cksum: hdr_field CCSDS_RD_CHECKSUM CCSDS_WR_CHECKSUM "\<lambda>v. v AND 0xFF"
  by unfold_locales (auto simp: hdr_defs fun_eq_iff word_blast)

text \<open>The length field: sums are not bitwise, so its two bytes are rejoined first.\<close>

lemma CCSDS_RD_LEN_join: "CCSDS_RD_LEN m = ucast (join16 (m 4) (m 5)) + 7"
proof -
  have "push_bit 8 (ucast (m 4)) + ucast (m 5) = (ucast (join16 (m 4) (m 5)) :: u32)"
    by (subst disjunctive_add) (auto simp: join16_def word_blast)
  then show ?thesis
    by (simp add: CCSDS_RD_LEN_def)
qed

lemma CCSDS_WR_LEN_join:
  "CCSDS_WR_LEN v m = m(4 := hi8 (ucast (v - 7) :: u16), 5 := lo8 (ucast (v - 7) :: u16))"
  by (auto simp: CCSDS_WR_LEN_def hi8_def lo8_def fun_eq_iff word_blast)

interpretation len: hdr_field CCSDS_RD_LEN CCSDS_WR_LEN "\<lambda>v. ucast (ucast (v - 7) :: u16) + 7"
  by unfold_locales (auto simp: CCSDS_RD_LEN_join CCSDS_WR_LEN_join fun_eq_iff)

interpretation shdr_type: hdr_field_pair CCSDS_RD_SHDR CCSDS_WR_SHDR "\<lambda>v. v AND 1"
    CCSDS_RD_TYPE CCSDS_WR_TYPE "\<lambda>v. v AND 1"
  by unfold_locales (auto simp: hdr_defs fun_eq_iff word_blast)

interpretation apid_type: hdr_field_pair CCSDS_RD_APID CCSDS_WR_APID "\<lambda>v. v AND 0x7FF"
    CCSDS_RD_TYPE CCSDS_WR_TYPE "\<lambda>v. v AND 1"
  by unfold_locales (auto simp: hdr_defs fun_eq_iff word_blast)

interpretation seq_flg: hdr_field_pair CCSDS_RD_SEQ CCSDS_WR_SEQ "\<lambda>v. v AND 0x3FFF"
    CCSDS_RD_SEQFLG CCSDS_WR_SEQFLG "\<lambda>v. v AND 3"
  by unfold_locales (auto simp: hdr_defs fun_eq_iff word_blast)

interpretation seq_sid: hdr_field_pair CCSDS_RD_SEQ CCSDS_WR_SEQ "\<lambda>v. v AND 0x3FFF"
    CCSDS_RD_SID CCSDS_WR_SID "\<lambda>v. v"
  by unfold_locales (auto simp: CCSDS_WR_SEQ_def CCSDS_WR_SID_def fun_eq_iff)

interpretation seq_len: hdr_field_pair CCSDS_RD_SEQ CCSDS_WR_SEQ "\<lambda>v. v AND 0x3FFF"
    CCSDS_RD_LEN CCSDS_WR_LEN "\<lambda>v. ucast (ucast (v - 7) :: u16) + 7"
  by unfold_locales (auto simp: CCSDS_WR_SEQ_def CCSDS_WR_LEN_def fun_eq_iff)

interpretation len_sid: hdr_field_pair CCSDS_RD_LEN CCSDS_WR_LEN
    "\<lambda>v. ucast (ucast (v - 7) :: u16) + 7" CCSDS_RD_SID CCSDS_WR_SID "\<lambda>v. v"
  by unfold_locales (auto simp: CCSDS_WR_LEN_def CCSDS_WR_SID_def fun_eq_iff)

interpretation len_flg: hdr_field_pair CCSDS_RD_LEN CCSDS_WR_LEN
    "\<lambda>v. ucast (ucast (v - 7) :: u16) + 7" CCSDS_RD_SEQFLG CCSDS_WR_SEQFLG "\<lambda>v. v AND 3"
  by unfold_locales (auto simp: CCSDS_WR_LEN_def CCSDS_WR_SEQFLG_def fun_eq_iff)

interpretation sid_flg: hdr_field_pair CCSDS_RD_SID CCSDS_WR_SID "\<lambda>v. v"
    CCSDS_RD_SEQFLG CCSDS_WR_SEQFLG "\<lambda>v. v AND 3"
  by unfold_locales (auto simp: CCSDS_WR_SID_def CCSDS_WR_SEQFLG_def fun_eq_iff)

interpretation fc_cksum: hdr_field_pair CCSDS_RD_FC CCSDS_WR_FC "\<lambda>v. v AND 0x7F"
    CCSDS_RD_CHECKSUM CCSDS_WR_CHECKSUM "\<lambda>v. v AND 0xFF"
  by unfold_locales (auto simp: hdr_defs fun_eq_iff word_blast)

lemmas hdr_field_simps =
  sid.rd_wr apid.rd_wr shdr.rd_wr pkttype.rd_wr vers.rd_wr seqcnt.rd_wr seqflg.rd_wr fc.rd_wr
  cksum.rd_wr len.rd_wr
  shdr_type.rd_wr_other shdr_type.rd_other_wr apid_type.rd_wr_other apid_type.rd_other_wr
  seq_flg.rd_wr_other seq_flg.rd_other_wr seq_sid.rd_wr_other seq_sid.rd_other_wr
  seq_len.rd_wr_other seq_len.rd_other_wr len_sid.rd_wr_other len_sid.rd_other_wr
  len_flg.rd_wr_other len_flg.rd_other_wr sid_flg.rd_wr_other sid_flg.rd_other_wr
  fc_cksum.rd_wr_other fc_cksum.rd_other_wr

section \<open>The checksum\<close>

text \<open>The loop is the exclusive or of the bytes it covers: a loop-free reference.\<close>

lemma CheckSum_loop_fold:
  "CheckSum_loop n i m c = fold (\<lambda>b a. a XOR b) (map m [i..<i+n]) c"
proof (induction n arbitrary: i c)
  case (Suc n)
  have "[i..<i + Suc n] = i # [Suc i..<Suc i + n]"
    by (simp add: upt_conv_Cons)
  then show ?case
    by (simp add: Suc.IH del: upt_Suc)
qed simp

lemma CheckSum_loop_init: "CheckSum_loop n i m c = c XOR CheckSum_loop n i m 0"
proof (induction n arbitrary: i c)
  case (Suc n)
  have "CheckSum_loop (Suc n) i m c = (c XOR m i) XOR CheckSum_loop n (Suc i) m 0"
    by (simp add: Suc.IH [of "Suc i" "c XOR m i"])
  moreover have "CheckSum_loop (Suc n) i m 0 = m i XOR CheckSum_loop n (Suc i) m 0"
    by (simp add: Suc.IH [of "Suc i" "m i"])
  ultimately show ?case
    by (simp add: ac_simps)
qed simp

lemma CheckSum_loop_cong:
  "(\<And>j. i \<le> j \<Longrightarrow> j < i + n \<Longrightarrow> m j = m' j) \<Longrightarrow> CheckSum_loop n i m c = CheckSum_loop n i m' c"
proof (induction n arbitrary: i c)
  case (Suc n)
  then show ?case by simp
qed simp

text \<open>Replacing one covered byte changes the sum by the exclusive or of the old and the new byte.\<close>

lemma CheckSum_loop_upd:
  "CheckSum_loop n i (m(j := b)) c =
     (if i \<le> j \<and> j < i + n then CheckSum_loop n i m c XOR (m j XOR b) else CheckSum_loop n i m c)"
proof (induction n arbitrary: i c)
  case (Suc n)
  show ?case
  proof (cases "j = i")
    case True
    have "CheckSum_loop n (Suc i) (m(i := b)) (c XOR b) = CheckSum_loop n (Suc i) m (c XOR b)"
      by (rule CheckSum_loop_cong) auto
    also have "\<dots> = CheckSum_loop n (Suc i) m (c XOR m i) XOR (m i XOR b)"
      by (subst CheckSum_loop_init, subst (2) CheckSum_loop_init) (simp add: ac_simps)
    finally show ?thesis
      using True by (simp del: fun_upd_apply add: fun_upd_same)
  next
    case False
    then show ?thesis
      using Suc.IH [of "Suc i" "c XOR m i"] by (auto split: if_splits)
  qed
qed auto

text \<open>The length the checksum covers, as the \<^verbatim>\<open>uint16\<close> kept in \<^verbatim>\<open>PktLen\<close>.\<close>

abbreviation PktLen :: "bytes \<Rightarrow> nat" where
  "PktLen m \<equiv> unat (ucast (CCSDS_RD_LEN m) :: u16)"

lemma CCSDS_WR_CHECKSUM_upd: "CCSDS_WR_CHECKSUM v m = m(6 := lo8 v)"
  by (auto simp: hdr_defs fun_eq_iff word_blast)

lemma CCSDS_RD_LEN_cong: "m 4 = m' 4 \<Longrightarrow> m 5 = m' 5 \<Longrightarrow> CCSDS_RD_LEN m = CCSDS_RD_LEN m'"
  by (simp add: CCSDS_RD_LEN_def)

lemma CCSDS_RD_LEN_upd [simp]: "i \<noteq> 4 \<Longrightarrow> i \<noteq> 5 \<Longrightarrow> CCSDS_RD_LEN (m(i := b)) = CCSDS_RD_LEN m"
  by (rule CCSDS_RD_LEN_cong) auto

lemma CCSDS_ComputeCheckSum_upd:
  assumes "i \<noteq> 4" and "i \<noteq> 5"
  shows "CCSDS_ComputeCheckSum (m(i := b)) =
    (if i < PktLen m then CCSDS_ComputeCheckSum m XOR (m i XOR b) else CCSDS_ComputeCheckSum m)"
  using assms by (simp add: CCSDS_ComputeCheckSum_def CheckSum_loop_upd)

lemma CCSDS_LoadCheckSum_upd:
  "CCSDS_LoadCheckSum m = m(6 := CCSDS_ComputeCheckSum (m(6 := 0)))"
  by (simp add: CCSDS_LoadCheckSum_def CCSDS_WR_CHECKSUM_upd lo8_def)

lemma CCSDS_LoadCheckSum_valid:
  assumes "6 < PktLen m"
  shows "CCSDS_ValidCheckSum (CCSDS_LoadCheckSum m)"
proof -
  let ?m = "m(6 := 0)"
  have "CCSDS_ComputeCheckSum (?m(6 := CCSDS_ComputeCheckSum ?m)) = 0"
    using assms by (subst CCSDS_ComputeCheckSum_upd) simp_all
  then show ?thesis
    by (simp add: CCSDS_ValidCheckSum_def CCSDS_LoadCheckSum_upd)
qed

lemma CCSDS_ValidCheckSum_upd:
  assumes "CCSDS_ValidCheckSum m" and "i < PktLen m" and "i \<noteq> 4" and "i \<noteq> 5"
  shows "CCSDS_ValidCheckSum (m(i := b)) \<longleftrightarrow> b = m i"
  using assms by (auto simp: CCSDS_ValidCheckSum_def CCSDS_ComputeCheckSum_upd xor_eq_0_iff)

end
