(* ===== verification/SB_Msg.thy ===== *)
theory SB_Msg
  imports CCSDS
begin

text \<open>
  The message utilities of the software bus: \<^verbatim>\<open>sb/cfe_sb_util.c\<close> and \<^verbatim>\<open>sb/cfe_sb_msg_id_util.c\<close>,
  over the header macros of theory CCSDS, in the configuration of \<^verbatim>\<open>src/yonix_defs\<close>
  (\<^verbatim>\<open>MESSAGE_FORMAT_IS_CCSDS\<close> without version 2, packet times of 32 + 16 bits).

  A function that writes through \<^verbatim>\<open>MsgPtr\<close> takes the message and returns it updated.
  \<^verbatim>\<open>memcpy\<close> between an integer and the message uses the little-endian byte order of the target.
\<close>

unbundle bit_operations_syntax

section \<open>Types and constants\<close>

record CFE_TIME_SysTime_t =
  Seconds :: u32
  Subseconds :: u32

definition CCSDS_TLM :: u8 where "CCSDS_TLM = 0"
definition CCSDS_CMD :: u8 where "CCSDS_CMD = 1"
definition CCSDS_INIT_SEQFLG :: u8 where "CCSDS_INIT_SEQFLG = 3"

definition sizeof_CCSDS_PriHdr_t :: u16 where "sizeof_CCSDS_PriHdr_t = 6"
definition CFE_SB_CMD_HDR_SIZE :: u16 where "CFE_SB_CMD_HDR_SIZE = 8"
definition CFE_SB_TLM_HDR_SIZE :: u16 where "CFE_SB_TLM_HDR_SIZE = 12"

lemmas sb_msg_consts =
  CCSDS_TLM_def CCSDS_CMD_def CCSDS_INIT_SEQFLG_def sizeof_CCSDS_PriHdr_t_def
  CFE_SB_CMD_HDR_SIZE_def CFE_SB_TLM_HDR_SIZE_def

text \<open>\<^verbatim>\<open>memset (p, 0, n)\<close>, and the copies of an integer into and out of a message.\<close>

definition memset0 :: "nat \<Rightarrow> bytes \<Rightarrow> bytes" where
  "memset0 n m = (\<lambda>i. if i < n then 0 else m i)"

definition put_le32 :: "nat \<Rightarrow> u32 \<Rightarrow> bytes \<Rightarrow> bytes" where
  "put_le32 i v m = m(i := ucast v, i + 1 := ucast (drop_bit 8 v),
     i + 2 := ucast (drop_bit 16 v), i + 3 := ucast (drop_bit 24 v))"

definition get_le32 :: "nat \<Rightarrow> bytes \<Rightarrow> u32" where
  "get_le32 i m = ucast (m i) OR push_bit 8 (ucast (m (i + 1)))
     OR push_bit 16 (ucast (m (i + 2))) OR push_bit 24 (ucast (m (i + 3)))"

definition put_le16 :: "nat \<Rightarrow> u16 \<Rightarrow> bytes \<Rightarrow> bytes" where
  "put_le16 i v m = m(i := lo8 v, i + 1 := hi8 v)"

definition get_le16 :: "nat \<Rightarrow> bytes \<Rightarrow> u16" where
  "get_le16 i m = join16 (m (i + 1)) (m i)"

section \<open>Message identifiers\<close>

definition CFE_SB_GetMsgId :: "bytes \<Rightarrow> u16" where
  "CFE_SB_GetMsgId m = CCSDS_RD_SID m"

definition CFE_SB_SetMsgId :: "u16 \<Rightarrow> bytes \<Rightarrow> bytes" where
  "CFE_SB_SetMsgId MsgId m = CCSDS_WR_SID MsgId m"

section \<open>Message utilities\<close>

definition CFE_SB_InitMsg :: "u16 \<Rightarrow> u16 \<Rightarrow> bool \<Rightarrow> bytes \<Rightarrow> bytes" where
  "CFE_SB_InitMsg MsgId Length Clear m =
     (let SeqCount = CCSDS_RD_SEQ m;
          m = (if Clear then memset0 (unat Length) m else CCSDS_CLR_PRI_HDR m);
          m = CCSDS_WR_LEN (ucast Length) m;
          m = CCSDS_WR_SHDR 1 m;
          m = CFE_SB_SetMsgId MsgId m
      in if \<not> Clear then CCSDS_WR_SEQ SeqCount m
         else CCSDS_WR_SEQFLG CCSDS_INIT_SEQFLG m)"

definition CFE_SB_MsgHdrSize :: "bytes \<Rightarrow> u16" where
  "CFE_SB_MsgHdrSize m =
     (if CCSDS_RD_SHDR m = 0 then sizeof_CCSDS_PriHdr_t
      else if CCSDS_RD_TYPE m = CCSDS_CMD then CFE_SB_CMD_HDR_SIZE
      else CFE_SB_TLM_HDR_SIZE)"

text \<open>The user data begins \<^verbatim>\<open>HdrSize\<close> bytes after the message pointer: the result is that offset.\<close>

definition CFE_SB_GetUserData :: "bytes \<Rightarrow> nat" where
  "CFE_SB_GetUserData m = unat (CFE_SB_MsgHdrSize m)"

definition CFE_SB_GetTotalMsgLength :: "bytes \<Rightarrow> u16" where
  "CFE_SB_GetTotalMsgLength m = ucast (CCSDS_RD_LEN m)"

definition CFE_SB_SetTotalMsgLength :: "u16 \<Rightarrow> bytes \<Rightarrow> bytes" where
  "CFE_SB_SetTotalMsgLength TotalLength m = CCSDS_WR_LEN (ucast TotalLength) m"

definition CFE_SB_GetUserDataLength :: "bytes \<Rightarrow> u16" where
  "CFE_SB_GetUserDataLength m =
     (let TotalMsgSize = CFE_SB_GetTotalMsgLength m; HdrSize = CFE_SB_MsgHdrSize m
      in TotalMsgSize - HdrSize)"

definition CFE_SB_SetUserDataLength :: "u16 \<Rightarrow> bytes \<Rightarrow> bytes" where
  "CFE_SB_SetUserDataLength DataLength m =
     (let HdrSize = (ucast (CFE_SB_MsgHdrSize m) :: u32);
          TotalMsgSize = HdrSize + ucast DataLength
      in CCSDS_WR_LEN TotalMsgSize m)"

definition CFE_SB_GetMsgTime :: "bytes \<Rightarrow> CFE_TIME_SysTime_t" where
  "CFE_SB_GetMsgTime m =
     (if CCSDS_RD_TYPE m \<noteq> CCSDS_CMD \<and> CCSDS_RD_SHDR m \<noteq> 0
      then let LocalSecs32 = get_le32 6 m; LocalSubs16 = get_le16 10 m
           in \<lparr>Seconds = LocalSecs32, Subseconds = push_bit 16 (ucast LocalSubs16)\<rparr>
      else \<lparr>Seconds = 0, Subseconds = 0\<rparr>)"

definition CFE_SB_SetMsgTime :: "CFE_TIME_SysTime_t \<Rightarrow> bytes \<Rightarrow> CFE_Status \<times> bytes" where
  "CFE_SB_SetMsgTime NewTime m =
     (if CCSDS_RD_TYPE m \<noteq> CCSDS_CMD \<and> CCSDS_RD_SHDR m \<noteq> 0
      then let LocalSubs16 = ucast (drop_bit 16 (Subseconds NewTime))
           in (CFE_SUCCESS, put_le16 10 LocalSubs16 (put_le32 6 (Seconds NewTime) m))
      else (CFE_SB_WRONG_MSG_TYPE, m))"

text \<open>\<^verbatim>\<open>CFE_SB_TimeStampMsg\<close>: the time of the call (\<^verbatim>\<open>CFE_TIME_GetTime\<close>) is an argument.\<close>

definition CFE_SB_TimeStampMsg :: "CFE_TIME_SysTime_t \<Rightarrow> bytes \<Rightarrow> bytes" where
  "CFE_SB_TimeStampMsg now m = snd (CFE_SB_SetMsgTime now m)"

definition CFE_SB_GetCmdCode :: "bytes \<Rightarrow> u16" where
  "CFE_SB_GetCmdCode m =
     (if CCSDS_RD_TYPE m = CCSDS_TLM \<or> CCSDS_RD_SHDR m = 0 then 0 else CCSDS_RD_FC m)"

definition CFE_SB_SetCmdCode :: "u16 \<Rightarrow> bytes \<Rightarrow> CFE_Status \<times> bytes" where
  "CFE_SB_SetCmdCode CmdCode m =
     (if CCSDS_RD_TYPE m = CCSDS_TLM \<or> CCSDS_RD_SHDR m = 0 then (CFE_SB_WRONG_MSG_TYPE, m)
      else (CFE_SUCCESS, CCSDS_WR_FC CmdCode m))"

definition CFE_SB_GetChecksum :: "bytes \<Rightarrow> u16" where
  "CFE_SB_GetChecksum m =
     (if CCSDS_RD_TYPE m = CCSDS_TLM \<or> CCSDS_RD_SHDR m = 0 then 0 else CCSDS_RD_CHECKSUM m)"

definition CFE_SB_GenerateChecksum :: "bytes \<Rightarrow> bytes" where
  "CFE_SB_GenerateChecksum m =
     (if CCSDS_RD_TYPE m = CCSDS_TLM \<or> CCSDS_RD_SHDR m = 0 then m else CCSDS_LoadCheckSum m)"

definition CFE_SB_ValidateChecksum :: "bytes \<Rightarrow> bool" where
  "CFE_SB_ValidateChecksum m =
     (if CCSDS_RD_TYPE m = CCSDS_TLM \<or> CCSDS_RD_SHDR m = 0 then False else CCSDS_ValidCheckSum m)"

section \<open>String copies in and out of messages\<close>

text \<open>
  The copy loop of both functions: \<open>sn\<close> and \<open>dn\<close> are the remaining source and destination sizes,
  \<open>si\<close> and \<open>di\<close> the offsets the two pointers have reached.  The result is the number of
  characters copied and the destination memory.
\<close>

fun StringCopy_loop :: "nat \<Rightarrow> nat \<Rightarrow> bytes \<Rightarrow> nat \<Rightarrow> nat \<Rightarrow> bytes \<Rightarrow> nat \<times> bytes" where
  "StringCopy_loop (Suc sn) (Suc dn) src si di dst =
     (if src si \<noteq> 0
      then let (r, dst') = StringCopy_loop sn dn src (Suc si) (Suc di) (dst(di := src si))
           in (Suc r, dst')
      else (0, dst))"
| "StringCopy_loop sn dn src si di dst = (0, dst)"

primrec StringFill_loop :: "nat \<Rightarrow> nat \<Rightarrow> bytes \<Rightarrow> bytes" where
  "StringFill_loop 0 di dst = dst"
| "StringFill_loop (Suc dn) di dst = StringFill_loop dn (Suc di) (dst(di := 0))"

text \<open>The \<^verbatim>\<open>int32\<close> result is a negative error code or the number of characters copied.\<close>

definition CFE_SB_MessageStringGet ::
  "bytes \<Rightarrow> bytes \<Rightarrow> bytes option \<Rightarrow> u32 \<Rightarrow> u32 \<Rightarrow> (CFE_Status + nat) \<times> bytes" where
  "CFE_SB_MessageStringGet Dest Source DefaultString DestMaxSize SourceMaxSize =
     (if DestMaxSize = 0 then (Inl CFE_SB_BAD_ARGUMENT, Dest)
      else
        let (src, srcmax) =
              (case DefaultString of
                 Some d \<Rightarrow> if SourceMaxSize = 0 \<or> Source 0 = 0 then (d, DestMaxSize)
                           else (Source, SourceMaxSize)
               | None \<Rightarrow> (Source, SourceMaxSize));
            (Result, Dest') = StringCopy_loop (unat srcmax) (unat (DestMaxSize - 1)) src 0 0 Dest
        in (Inr Result, Dest'(Result := 0)))"

definition CFE_SB_MessageStringSet ::
  "bytes \<Rightarrow> bytes \<Rightarrow> u32 \<Rightarrow> u32 \<Rightarrow> nat \<times> bytes" where
  "CFE_SB_MessageStringSet Dest Source DestMaxSize SourceMaxSize =
     (let (Result, Dest') =
            StringCopy_loop (unat SourceMaxSize) (unat DestMaxSize) Source 0 0 Dest
      in (Result, StringFill_loop (unat DestMaxSize - Result) Result Dest'))"

section \<open>Lemmas\<close>

lemma CCSDS_RD_TYPE_cong: "m 0 = m' 0 \<Longrightarrow> CCSDS_RD_TYPE m = CCSDS_RD_TYPE m'"
  by (simp add: CCSDS_RD_TYPE_def)

lemma CCSDS_RD_SHDR_cong: "m 0 = m' 0 \<Longrightarrow> CCSDS_RD_SHDR m = CCSDS_RD_SHDR m'"
  by (simp add: CCSDS_RD_SHDR_def)

lemma CCSDS_flags_upd [simp]:
  "i \<noteq> 0 \<Longrightarrow> CCSDS_RD_TYPE (m(i := b)) = CCSDS_RD_TYPE m"
  "i \<noteq> 0 \<Longrightarrow> CCSDS_RD_SHDR (m(i := b)) = CCSDS_RD_SHDR m"
  by (simp_all add: CCSDS_RD_TYPE_def CCSDS_RD_SHDR_def)

lemma CCSDS_RD_TYPE_cases: "CCSDS_RD_TYPE m = CCSDS_TLM \<or> CCSDS_RD_TYPE m = CCSDS_CMD"
  by (simp add: hdr_defs sb_msg_consts word_blast)

lemma CFE_SB_MsgHdrSize_WR_LEN [simp]: "CFE_SB_MsgHdrSize (CCSDS_WR_LEN v m) = CFE_SB_MsgHdrSize m"
  by (simp add: CFE_SB_MsgHdrSize_def CCSDS_WR_LEN_def)

lemma GetTotalMsgLength_WR_LEN [simp]:
  "CFE_SB_GetTotalMsgLength (CCSDS_WR_LEN v m) = ucast v"
proof -
  have "ucast (ucast (ucast (v - 7) :: u16) + 7 :: u32) = (ucast v :: u16)"
    by (simp add: ucast_down_add ucast_down_diff)
  then show ?thesis
    by (simp add: CFE_SB_GetTotalMsgLength_def len.rd_wr)
qed

lemma get_put_le32 [simp]: "get_le32 i (put_le32 i v m) = v"
  by (simp add: get_le32_def put_le32_def word_blast)

lemma get_put_le16 [simp]: "get_le16 i (put_le16 i v m) = v"
  by (simp add: get_le16_def put_le16_def)

lemma StringCopy_loop_spec:
  assumes "StringCopy_loop sn dn src si di dst = (r, dst')"
  shows "r \<le> sn \<and> r \<le> dn
    \<and> (\<forall>k<r. src (si + k) \<noteq> 0 \<and> dst' (di + k) = src (si + k))
    \<and> (\<forall>j. j < di \<or> di + r \<le> j \<longrightarrow> dst' j = dst j)
    \<and> (r < sn \<and> r < dn \<longrightarrow> src (si + r) = 0)"
  using assms
proof (induction sn dn src si di dst arbitrary: r dst' rule: StringCopy_loop.induct)
  case (1 sn dn src si di dst)
  show ?case
  proof (cases "src si = 0")
    case True
    with "1.prems" show ?thesis by simp
  next
    case False
    with "1.prems" obtain r' where r: "r = Suc r'" and
      eq: "StringCopy_loop sn dn src (Suc si) (Suc di) (dst(di := src si)) = (r', dst')"
      by (auto split: prod.splits)
    note IH = "1.IH" [OF False eq]
    have "\<forall>k<r. src (si + k) \<noteq> 0 \<and> dst' (di + k) = src (si + k)"
    proof (intro allI impI)
      fix k assume "k < r"
      then show "src (si + k) \<noteq> 0 \<and> dst' (di + k) = src (si + k)"
        using IH False r by (cases k) auto
    qed
    with IH r show ?thesis by auto
  qed
qed auto

lemma StringFill_loop_apply:
  "StringFill_loop n di dst j = (if di \<le> j \<and> j < di + n then 0 else dst j)"
  by (induction n arbitrary: di dst) auto

section \<open>Properties\<close>

text \<open>
  C1. \<^verbatim>\<open>CFE_SB_InitMsg\<close> builds the header it is asked for: the message identifier and the total length
  read back, the segmentation flags are \<^verbatim>\<open>CCSDS_INIT_SEQFLG\<close>, the sequence count is kept unless the
  message is cleared (then it is 0), and beyond the primary header exactly the bytes of a cleared
  message are zeroed.  A cleared message must be at least as long as the primary header.
\<close>

theorem CFE_SB_InitMsg_header:
  assumes "Clear \<Longrightarrow> 6 \<le> unat Length"
  shows "CFE_SB_GetMsgId (CFE_SB_InitMsg MsgId Length Clear m) = MsgId
    \<and> CFE_SB_GetTotalMsgLength (CFE_SB_InitMsg MsgId Length Clear m) = Length
    \<and> CCSDS_RD_SEQFLG (CFE_SB_InitMsg MsgId Length Clear m) = CCSDS_INIT_SEQFLG
    \<and> CCSDS_RD_SEQ (CFE_SB_InitMsg MsgId Length Clear m) = (if Clear then 0 else CCSDS_RD_SEQ m)
    \<and> (\<forall>i\<ge>6. CFE_SB_InitMsg MsgId Length Clear m i
              = (if Clear \<and> i < unat Length then 0 else m i))"
proof -
  let ?m = "CFE_SB_InitMsg MsgId Length Clear m"
  have id: "CFE_SB_GetMsgId ?m = MsgId"
    by (simp add: CFE_SB_InitMsg_def CFE_SB_GetMsgId_def CFE_SB_SetMsgId_def Let_def hdr_field_simps)
  have len: "CFE_SB_GetTotalMsgLength ?m = Length"
    by (simp add: CFE_SB_InitMsg_def CFE_SB_SetMsgId_def Let_def CFE_SB_GetTotalMsgLength_def
        CCSDS_WR_SHDR_def hdr_field_simps ucast_down_add ucast_down_diff)
  have flg: "CCSDS_RD_SEQFLG ?m = CCSDS_INIT_SEQFLG"
    by (simp add: CFE_SB_InitMsg_def CFE_SB_SetMsgId_def Let_def CCSDS_INIT_SEQFLG_def
        CCSDS_CLR_PRI_HDR_def CCSDS_WR_LEN_def hdr_defs word_blast)
  have seq: "CCSDS_RD_SEQ ?m = (if Clear then 0 else CCSDS_RD_SEQ m)"
  proof (cases Clear)
    case True
    with assms have "3 < unat Length" by simp
    with True show ?thesis
      by (simp add: CFE_SB_InitMsg_def CFE_SB_SetMsgId_def Let_def memset0_def
          CCSDS_INIT_SEQFLG_def CCSDS_WR_LEN_def hdr_defs word_blast)
  next
    case False
    then show ?thesis
      by (simp add: CFE_SB_InitMsg_def Let_def seqcnt.rd_wr_rd)
  qed
  have rest: "\<forall>i\<ge>6. ?m i = (if Clear \<and> i < unat Length then 0 else m i)"
    by (auto simp: CFE_SB_InitMsg_def CFE_SB_SetMsgId_def Let_def memset0_def CCSDS_WR_LEN_def
        CCSDS_CLR_PRI_HDR_def CCSDS_WR_SHDR_def CCSDS_WR_SID_def CCSDS_WR_SEQ_def
        CCSDS_WR_SEQFLG_def)
  show ?thesis
    using id len flg seq rest by blast
qed

theorem CFE_SB_InitMsg_header_witness:
  "CFE_SB_GetMsgId (CFE_SB_InitMsg 0x1806 12 True (\<lambda>_. 0xAA)) = 0x1806
    \<and> CCSDS_RD_SEQ (CFE_SB_InitMsg 0x1806 12 True (\<lambda>_. 0xAA)) = 0"
  using CFE_SB_InitMsg_header [where Clear = True and Length = 12 and MsgId = "0x1806"
      and m = "\<lambda>_. 0xAA"] by simp

text \<open>
  C2. A command message whose length field does not overflow the \<^verbatim>\<open>uint16\<close> packet length validates
  after \<^verbatim>\<open>CFE_SB_GenerateChecksum\<close>, and then every corruption of a single covered byte (outside the
  length field itself) is detected; generating the checksum changes the checksum byte only.
\<close>

theorem CFE_SB_checksum_detects:
  assumes cmd: "CCSDS_RD_TYPE m = CCSDS_CMD" and sec: "CCSDS_RD_SHDR m \<noteq> 0"
    and len: "6 < unat (CFE_SB_GetTotalMsgLength m)"
  shows "CFE_SB_ValidateChecksum (CFE_SB_GenerateChecksum m)
    \<and> (\<forall>i. i \<noteq> 6 \<longrightarrow> CFE_SB_GenerateChecksum m i = m i)
    \<and> (\<forall>i b. i < unat (CFE_SB_GetTotalMsgLength m) \<and> i \<noteq> 4 \<and> i \<noteq> 5
          \<and> b \<noteq> CFE_SB_GenerateChecksum m i
        \<longrightarrow> \<not> CFE_SB_ValidateChecksum ((CFE_SB_GenerateChecksum m)(i := b)))"
proof -
  let ?g = "CFE_SB_GenerateChecksum m"
  have load: "?g = CCSDS_LoadCheckSum m"
    using cmd sec by (simp add: CFE_SB_GenerateChecksum_def sb_msg_consts)
  have valid: "CCSDS_ValidCheckSum ?g"
    using len by (simp add: load CFE_SB_GetTotalMsgLength_def CCSDS_LoadCheckSum_valid)
  have plen: "PktLen ?g = unat (CFE_SB_GetTotalMsgLength m)"
    by (simp add: load CCSDS_LoadCheckSum_upd CFE_SB_GetTotalMsgLength_def)
  have "CFE_SB_ValidateChecksum ?g"
    using cmd sec valid
    by (simp add: CFE_SB_ValidateChecksum_def load CCSDS_LoadCheckSum_upd sb_msg_consts)
  moreover have "\<forall>i. i \<noteq> 6 \<longrightarrow> ?g i = m i"
    by (simp add: load CCSDS_LoadCheckSum_upd)
  moreover have "\<not> CFE_SB_ValidateChecksum (?g(i := b))"
    if "i < unat (CFE_SB_GetTotalMsgLength m)" "i \<noteq> 4" "i \<noteq> 5" "b \<noteq> ?g i" for i b
    using CCSDS_ValidCheckSum_upd [OF valid] that by (simp add: CFE_SB_ValidateChecksum_def plen)
  ultimately show ?thesis by blast
qed

theorem CFE_SB_checksum_detects_witness:
  "CFE_SB_ValidateChecksum (CFE_SB_GenerateChecksum (CFE_SB_InitMsg 0x1806 12 True (\<lambda>_. 0)))"
proof -
  let ?m = "CFE_SB_InitMsg 0x1806 12 True (\<lambda>_. 0)"
  have "CCSDS_RD_TYPE ?m = CCSDS_CMD" "CCSDS_RD_SHDR ?m \<noteq> 0"
    by (simp_all add: CFE_SB_InitMsg_def CFE_SB_SetMsgId_def Let_def CCSDS_WR_LEN_def sb_msg_consts
        hdr_defs)
  moreover have "6 < unat (CFE_SB_GetTotalMsgLength ?m)"
    by (simp add: CFE_SB_InitMsg_def CFE_SB_SetMsgId_def Let_def CCSDS_WR_LEN_def sb_msg_consts
        hdr_defs CFE_SB_GetTotalMsgLength_def CCSDS_RD_LEN_def)
  ultimately show ?thesis
    using CFE_SB_checksum_detects [of ?m] by blast
qed

text \<open>
  User data lengths round trip: after \<^verbatim>\<open>CFE_SB_SetUserDataLength\<close> the user data length is the
  one set, for every \<^verbatim>\<open>uint16\<close>, the total length is larger by the header size (modulo \<open>2 ^ 16\<close>),
  and no byte but those of the length field changes.
\<close>

theorem CFE_SB_UserDataLength_roundtrip:
  "CFE_SB_GetUserDataLength (CFE_SB_SetUserDataLength n m) = n
    \<and> CFE_SB_GetTotalMsgLength (CFE_SB_SetUserDataLength n m) = CFE_SB_MsgHdrSize m + n
    \<and> CFE_SB_GetUserData (CFE_SB_SetUserDataLength n m) = CFE_SB_GetUserData m
    \<and> CFE_SB_SetUserDataLength n m =
        m(4 := hi8 (CFE_SB_MsgHdrSize m + n - 7), 5 := lo8 (CFE_SB_MsgHdrSize m + n - 7))"
  by (simp add: CFE_SB_GetUserDataLength_def CFE_SB_SetUserDataLength_def Let_def ucast_down_add
      CFE_SB_GetUserData_def) (simp add: CCSDS_WR_LEN_join ucast_down_add ucast_down_diff)

text \<open>
  C4. Packet times round trip: on a telemetry message with a secondary header \<^verbatim>\<open>CFE_SB_SetMsgTime\<close>
  succeeds and \<^verbatim>\<open>CFE_SB_GetMsgTime\<close> returns the seconds exactly and the subseconds truncated to their
  upper 16 bits; on any other message the call is refused and the message unchanged.
\<close>

theorem CFE_SB_MsgTime_roundtrip:
  "CFE_SB_SetMsgTime t m =
     (if CCSDS_RD_TYPE m = CCSDS_TLM \<and> CCSDS_RD_SHDR m \<noteq> 0
      then (CFE_SUCCESS, CFE_SB_TimeStampMsg t m) else (CFE_SB_WRONG_MSG_TYPE, m))
   \<and> CFE_SB_GetMsgTime (CFE_SB_TimeStampMsg t m) =
     (if CCSDS_RD_TYPE m = CCSDS_TLM \<and> CCSDS_RD_SHDR m \<noteq> 0
      then \<lparr>Seconds = Seconds t, Subseconds = Subseconds t AND 0xFFFF0000\<rparr>
      else \<lparr>Seconds = 0, Subseconds = 0\<rparr>)"
proof -
  have type: "CCSDS_RD_TYPE m = CCSDS_TLM \<longleftrightarrow> CCSDS_RD_TYPE m \<noteq> CCSDS_CMD"
    using CCSDS_RD_TYPE_cases [of m] by (auto simp: sb_msg_consts)
  let ?m = "put_le16 10 (ucast (drop_bit 16 (Subseconds t))) (put_le32 6 (Seconds t) m)"
  have flags: "CCSDS_RD_TYPE ?m = CCSDS_RD_TYPE m" "CCSDS_RD_SHDR ?m = CCSDS_RD_SHDR m"
    by (simp_all add: put_le16_def put_le32_def)
  have secs: "get_le32 6 ?m = Seconds t"
    using get_put_le32 [of 6 "Seconds t" m] by (simp add: get_le32_def put_le16_def)
  have subs: "push_bit 16 (ucast (get_le16 10 ?m)) = Subseconds t AND 0xFFFF0000"
    by (simp add: word_blast)
  show ?thesis
    using flags secs subs
    by (auto simp: type CFE_SB_GetMsgTime_def CFE_SB_SetMsgTime_def CFE_SB_TimeStampMsg_def Let_def)
qed

text \<open>
  C5. \<^verbatim>\<open>CFE_SB_MessageStringGet\<close> into a buffer of \<^verbatim>\<open>DestMaxSize > 0\<close> bytes copies a NUL-free prefix of
  the source (or of the default string, when the source is empty), stops at a NUL, at the source size
  or at the last destination byte, terminates the copy there, writes nothing at or beyond
  \<^verbatim>\<open>DestMaxSize\<close>, and returns the length of the string it stored.
\<close>

theorem CFE_SB_MessageStringGet_safe:
  assumes "0 < DestMaxSize"
    and "(src, srcmax) = (case DefaultString of
           Some d \<Rightarrow> if SourceMaxSize = 0 \<or> Source 0 = 0 then (d, DestMaxSize) else (Source, SourceMaxSize)
         | None \<Rightarrow> (Source, SourceMaxSize))"
  shows "\<exists>r Dest'. CFE_SB_MessageStringGet Dest Source DefaultString DestMaxSize SourceMaxSize
            = (Inr r, Dest')
    \<and> r < unat DestMaxSize \<and> r \<le> unat srcmax \<and> Dest' r = 0
    \<and> (\<forall>k<r. Dest' k = src k \<and> src k \<noteq> 0)
    \<and> (\<forall>j>r. Dest' j = Dest j)
    \<and> (r < unat srcmax \<and> Suc r < unat DestMaxSize \<longrightarrow> src r = 0)"
proof -
  obtain r d where loop: "StringCopy_loop (unat srcmax) (unat (DestMaxSize - 1)) src 0 0 Dest = (r, d)"
    by fastforce
  have size: "unat (DestMaxSize - 1) = unat DestMaxSize - 1" "0 < unat DestMaxSize"
    using assms(1) by (auto simp: unat_minus_one unat_gt_0)
  have eq: "CFE_SB_MessageStringGet Dest Source DefaultString DestMaxSize SourceMaxSize
      = (Inr r, d(r := 0))"
    using assms loop by (simp add: CFE_SB_MessageStringGet_def flip: assms(2))
  show ?thesis
    using StringCopy_loop_spec [OF loop] size unfolding eq
    by (intro exI [of _ r] exI [of _ "d(r := 0)"]) auto
qed

theorem CFE_SB_MessageStringGet_safe_witness:
  "\<exists>r Dest'. CFE_SB_MessageStringGet (\<lambda>_. 0) (\<lambda>_. 65) None 3 8 = (Inr r, Dest') \<and> r < 3 \<and> Dest' r = 0"
  using CFE_SB_MessageStringGet_safe [where DestMaxSize = 3 and src = "\<lambda>_. 65" and srcmax = 8
      and DefaultString = None and SourceMaxSize = 8 and Source = "\<lambda>_. 65" and Dest = "\<lambda>_. 0"]
  by auto

end
