(* ===== verification/ES_MemPool.thy ===== *)
theory ES_MemPool
  imports Prelude "HOL-Library.Multiset"
begin

text \<open>
  The memory pools of the executive services: \<^verbatim>\<open>es/cfe_esmempool.c\<close> and \<^verbatim>\<open>es/cfe_esmempool.h\<close>.

  A pool is the management structure \<^verbatim>\<open>Pool_t\<close> at its handle together with the block descriptors
  \<^verbatim>\<open>BD_t\<close> that lie in the pool memory, each just below the user block it describes: \<open>bds\<close> gives the
  descriptor found at an address.  Sizes and addresses are the 32-bit values of the target, and the
  fit test of \<^verbatim>\<open>CFE_ES_GetPoolBuf\<close> uses their wrap-around.  \<open>MutexHeld\<close> counts the takes of the
  pool's mutex that were not given back.  System log texts are not modelled.

  The locale \<open>block_allocator\<close> is what a client may rely on; its interpretation on the pool functions is
  the correctness of the pool: blocks handed out are fresh, large enough, disjoint, and can be given
  back exactly once.
\<close>

unbundle bit_operations_syntax

section \<open>Data\<close>

definition CFE_ES_CHECK_PATTERN :: u16 where "CFE_ES_CHECK_PATTERN = 0x5a5a"
definition CFE_ES_MEMORY_ALLOCATED :: u16 where "CFE_ES_MEMORY_ALLOCATED = 0xaaaa"
definition CFE_ES_MEMORY_DEALLOCATED :: u16 where "CFE_ES_MEMORY_DEALLOCATED = 0xdddd"

definition sizeof_BD_t :: u32 where "sizeof_BD_t = 12"
definition sizeof_Pool_t :: u32 where "sizeof_Pool_t = 308"

abbreviation (input) MAX_MEMPOOL_BLOCK_SIZES :: nat where
  "MAX_MEMPOOL_BLOCK_SIZES \<equiv> 17"

record BD_t =
  CheckBits :: u16
  Allocated :: u16
  BdSize :: u32
  BdNext :: "addr option"

record BlockSizeDesc_t =
  Top :: "addr option"
  NumCreated :: u32
  NumFree :: u32
  MaxSize :: u32

record Pool_t =
  PoolHandle :: addr
  PoolSize :: u32
  PoolEnd :: addr
  CurrentAddr :: addr
  AlignMask :: u32
  SizeDescPtr :: "nat option"
  CheckErrCntr :: u16
  RequestCntr :: u16
  UseMutex :: u32
  MutexHeld :: int
  SizeDesc :: "nat \<Rightarrow> BlockSizeDesc_t"
  bds :: "addr \<Rightarrow> BD_t"

definition CFE_ES_NO_MUTEX :: u16 where "CFE_ES_NO_MUTEX = 0"
definition CFE_ES_USE_MUTEX :: u16 where "CFE_ES_USE_MUTEX = 1"

text \<open>\<^verbatim>\<open>OS_MutSemTake\<close> and \<^verbatim>\<open>OS_MutSemGive\<close> on the pool's mutex, when the pool uses one.\<close>

definition pool_take :: "Pool_t \<Rightarrow> Pool_t" where
  "pool_take p = (if UseMutex p = ucast CFE_ES_USE_MUTEX then p\<lparr>MutexHeld := MutexHeld p + 1\<rparr> else p)"

definition pool_give :: "Pool_t \<Rightarrow> Pool_t" where
  "pool_give p = (if UseMutex p = ucast CFE_ES_USE_MUTEX then p\<lparr>MutexHeld := MutexHeld p - 1\<rparr> else p)"

section \<open>Creation\<close>

text \<open>The default block sizes (\<^verbatim>\<open>CFE_ES_MemPoolDefSize\<close>, with the sizes of the platform configuration).\<close>

definition CFE_ES_MemPoolDefSize :: "u32 list" where
  "CFE_ES_MemPoolDefSize =
     [80000, 32768, 16384, 8192, 4096, 2048, 1024, 512, 256, 160, 128, 96, 64, 48, 32, 16, 8]"

text \<open>The inner loops of the insertion of one block size: find the position, shift the smaller sizes.\<close>

primrec SizeDesc_find :: "nat \<Rightarrow> nat \<Rightarrow> u32 \<Rightarrow> (nat \<Rightarrow> BlockSizeDesc_t) \<Rightarrow> nat option" where
  "SizeDesc_find 0 j b sd = None"
| "SizeDesc_find (Suc n) j b sd =
     (if b > MaxSize (sd j) then Some j else SizeDesc_find n (Suc j) b sd)"

primrec SizeDesc_shift :: "nat \<Rightarrow> nat \<Rightarrow> (nat \<Rightarrow> BlockSizeDesc_t) \<Rightarrow> (nat \<Rightarrow> BlockSizeDesc_t)" where
  "SizeDesc_shift 0 j sd = sd"
| "SizeDesc_shift (Suc k) j sd =
     (if Suc k > j
      then SizeDesc_shift k j (sd(Suc k := (sd (Suc k))\<lparr>MaxSize := MaxSize (sd k)\<rparr>))
      else sd)"

definition SizeDesc_insert :: "nat \<Rightarrow> u32 \<Rightarrow> (nat \<Rightarrow> BlockSizeDesc_t) \<Rightarrow> (nat \<Rightarrow> BlockSizeDesc_t)" where
  "SizeDesc_insert i b sd =
     (case SizeDesc_find MAX_MEMPOOL_BLOCK_SIZES 0 b sd of
        None \<Rightarrow> sd
      | Some j \<Rightarrow> let sd = SizeDesc_shift i j sd in sd(j := (sd j)\<lparr>MaxSize := b\<rparr>))"

fun SizeDesc_fill :: "nat \<Rightarrow> u32 list \<Rightarrow> (nat \<Rightarrow> BlockSizeDesc_t) \<Rightarrow> (nat \<Rightarrow> BlockSizeDesc_t)" where
  "SizeDesc_fill i [] sd = sd"
| "SizeDesc_fill i (b # bs) sd = SizeDesc_fill (Suc i) bs (SizeDesc_insert i b sd)"

definition empty_SizeDesc :: BlockSizeDesc_t where
  "empty_SizeDesc = \<lparr>Top = None, NumCreated = 0, NumFree = 0, MaxSize = 0\<rparr>"

text \<open>
  \<^verbatim>\<open>BlockSizes\<close> is the array of at least \<^verbatim>\<open>NumBlockSizes\<close> sizes, \<open>None\<close> for \<^verbatim>\<open>NULL\<close>; \<open>mem\<close> is the pool memory as
  the caller supplies it.  \<^verbatim>\<open>ALIGN_OF (Pool_t)\<close> is 4 and \<^verbatim>\<open>ALIGN_OF (CFE_ES_PoolAlign_t)\<close> is 8 on the
  target, so the two alignment masks computed by the shifts are 3 and 7; the smallest pool holds
  \<^verbatim>\<open>Pool_t\<close>, one descriptor and one 8-byte aligned block.
\<close>

definition CFE_ES_PoolCreateEx ::
  "addr \<Rightarrow> u32 \<Rightarrow> u32 \<Rightarrow> u32 list option \<Rightarrow> u16 \<Rightarrow> (addr \<Rightarrow> BD_t) \<Rightarrow> CFE_Status + Pool_t" where
  "CFE_ES_PoolCreateEx MemPtr Size NumBlockSizes BlockSizes UseMutexOpt mem =
     (let MinBlockSize = sizeof_Pool_t + sizeof_BD_t + 8
      in if Size < MinBlockSize then Inl CFE_ES_BAD_ARGUMENT
         else if NumBlockSizes > 17 then Inl CFE_ES_BAD_ARGUMENT
         else if UseMutexOpt \<noteq> CFE_ES_USE_MUTEX \<and> UseMutexOpt \<noteq> CFE_ES_NO_MUTEX
         then Inl CFE_ES_BAD_ARGUMENT
         else
           let MemAddr = (MemPtr + 3) AND NOT 3;
               End = MemPtr + Size;
               sizes = (case BlockSizes of None \<Rightarrow> CFE_ES_MemPoolDefSize
                        | Some bs \<Rightarrow> if NumBlockSizes = 0 then CFE_ES_MemPoolDefSize
                                   else take (unat NumBlockSizes) bs)
           in Inr \<lparr>PoolHandle = MemAddr, PoolSize = End - MemAddr, PoolEnd = End,
                   CurrentAddr = MemAddr + sizeof_Pool_t, AlignMask = 7, SizeDescPtr = None,
                   CheckErrCntr = 0, RequestCntr = 0, UseMutex = ucast UseMutexOpt, MutexHeld = 0,
                   SizeDesc = SizeDesc_fill 0 sizes (\<lambda>_. empty_SizeDesc), bds = mem\<rparr>)"

definition CFE_ES_PoolCreate :: "addr \<Rightarrow> u32 \<Rightarrow> (addr \<Rightarrow> BD_t) \<Rightarrow> CFE_Status + Pool_t" where
  "CFE_ES_PoolCreate MemPtr Size mem =
     CFE_ES_PoolCreateEx MemPtr Size 17 (Some CFE_ES_MemPoolDefSize) CFE_ES_USE_MUTEX mem"

definition CFE_ES_PoolCreateNoSem :: "addr \<Rightarrow> u32 \<Rightarrow> (addr \<Rightarrow> BD_t) \<Rightarrow> CFE_Status + Pool_t" where
  "CFE_ES_PoolCreateNoSem MemPtr Size mem =
     CFE_ES_PoolCreateEx MemPtr Size 17 (Some CFE_ES_MemPoolDefSize) CFE_ES_NO_MUTEX mem"

section \<open>Allocation and release\<close>

text \<open>The search of \<^verbatim>\<open>CFE_ES_GetBlockSize\<close>: at most 16 steps remain when \<open>i\<close> is 0.\<close>

primrec GetBlockSize_loop :: "nat \<Rightarrow> nat \<Rightarrow> u32 \<Rightarrow> (nat \<Rightarrow> BlockSizeDesc_t) \<Rightarrow> nat" where
  "GetBlockSize_loop 0 i Size sd = i"
| "GetBlockSize_loop (Suc n) i Size sd =
     (if Size \<le> MaxSize (sd (Suc i)) then GetBlockSize_loop n (Suc i) Size sd else i)"

definition CFE_ES_GetBlockSize :: "u32 \<Rightarrow> Pool_t \<Rightarrow> u32 \<times> Pool_t" where
  "CFE_ES_GetBlockSize Size p =
     (let p = p\<lparr>SizeDescPtr := None\<rparr>
      in if Size > MaxSize (SizeDesc p 0) then (0xFFFFFFFF, p)
         else let i = GetBlockSize_loop (MAX_MEMPOOL_BLOCK_SIZES - 1) 0 Size (SizeDesc p)
              in (MaxSize (SizeDesc p i), p\<lparr>SizeDescPtr := Some i\<rparr>))"

text \<open>Updates through \<^verbatim>\<open>PoolPtr->SizeDescPtr\<close> and through a descriptor pointer.\<close>

definition upd_SizeDesc :: "nat \<Rightarrow> (BlockSizeDesc_t \<Rightarrow> BlockSizeDesc_t) \<Rightarrow> Pool_t \<Rightarrow> Pool_t" where
  "upd_SizeDesc i f p = p\<lparr>SizeDesc := (SizeDesc p)(i := f (SizeDesc p i))\<rparr>"

definition upd_bd :: "addr \<Rightarrow> (BD_t \<Rightarrow> BD_t) \<Rightarrow> Pool_t \<Rightarrow> Pool_t" where
  "upd_bd a f p = p\<lparr>bds := (bds p)(a := f (bds p a))\<rparr>"

text \<open>
  The result is an error or the block size with the address stored in \<^verbatim>\<open>*BufPtr\<close>.  The block size is
  at most \<^verbatim>\<open>MaxSize\<close> of the first size, far below \<open>2 ^ 31\<close>, so the cast to \<^verbatim>\<open>int32\<close> keeps it.
\<close>

definition CFE_ES_GetPoolBuf :: "addr \<Rightarrow> u32 \<Rightarrow> Pool_t \<Rightarrow> (CFE_Status + u32 \<times> addr) \<times> Pool_t" where
  "CFE_ES_GetPoolBuf Handle Size p =
     (if Handle = 0 then (Inl CFE_ES_ERR_MEM_HANDLE, p)
      else if Handle \<noteq> PoolHandle p then (Inl CFE_ES_ERR_MEM_HANDLE, p)
      else
        let p = pool_take p; (BlockSize, p) = CFE_ES_GetBlockSize Size p
        in if BlockSize > MaxSize (SizeDesc p 0)
           then (Inl CFE_ES_ERR_MEM_BLOCK_SIZE, pool_give p)
           else
             let i = the (SizeDescPtr p) in
             case Top (SizeDesc p i) of
               Some bd \<Rightarrow>
                 let p = upd_SizeDesc i (\<lambda>d. d\<lparr>Top := BdNext (bds p bd), NumFree := NumFree d - 1\<rparr>) p;
                     p = upd_bd bd (\<lambda>b. b\<lparr>CheckBits := CFE_ES_CHECK_PATTERN,
                           Allocated := CFE_ES_MEMORY_ALLOCATED, BdSize := BlockSize, BdNext := None\<rparr>) p
                 in (Inr (BlockSize, bd + sizeof_BD_t), pool_give p)
             | None \<Rightarrow>
                 let BlockAddr = (CurrentAddr p + sizeof_BD_t + AlignMask p) AND NOT (AlignMask p)
                 in if PoolEnd p - (BlockAddr + BlockSize) \<ge> PoolSize p
                    then (Inl CFE_ES_ERR_MEM_BLOCK_SIZE, pool_give p)
                    else
                      let p = p\<lparr>CurrentAddr := BlockAddr + BlockSize\<rparr>;
                          p = upd_SizeDesc i (\<lambda>d. d\<lparr>NumCreated := NumCreated d + 1\<rparr>) p;
                          p = p\<lparr>RequestCntr := RequestCntr p + 1\<rparr>;
                          p = upd_bd (BlockAddr - sizeof_BD_t) (\<lambda>b. b\<lparr>CheckBits := CFE_ES_CHECK_PATTERN,
                                Allocated := CFE_ES_MEMORY_ALLOCATED, BdSize := BlockSize, BdNext := None\<rparr>) p
                      in (Inr (BlockSize, BlockAddr), pool_give p))"

definition CFE_ES_GetPoolBufInfo :: "addr \<Rightarrow> addr \<Rightarrow> Pool_t \<Rightarrow> (CFE_Status + u32) \<times> Pool_t" where
  "CFE_ES_GetPoolBufInfo Handle BufPtr p =
     (if Handle = 0 \<or> Handle \<noteq> PoolHandle p then (Inl CFE_ES_ERR_MEM_HANDLE, p)
      else if BufPtr < Handle + sizeof_Pool_t + sizeof_BD_t \<or> BufPtr \<ge> PoolEnd p
      then (Inl CFE_ES_BUFFER_NOT_IN_POOL, p)
      else
        let bd = BufPtr - sizeof_BD_t; p = pool_take p;
            Status = (if Allocated (bds p bd) \<noteq> CFE_ES_MEMORY_ALLOCATED
                         \<or> CheckBits (bds p bd) \<noteq> CFE_ES_CHECK_PATTERN
                      then Inl CFE_ES_ERR_MEM_HANDLE else Inr (BdSize (bds p bd)))
        in (Status, pool_give p))"

definition CFE_ES_PutPoolBuf :: "addr \<Rightarrow> addr \<Rightarrow> Pool_t \<Rightarrow> (CFE_Status + u32) \<times> Pool_t" where
  "CFE_ES_PutPoolBuf Handle BufPtr p =
     (if Handle = 0 \<or> Handle \<noteq> PoolHandle p then (Inl CFE_ES_ERR_MEM_HANDLE, p)
      else if BufPtr < Handle + sizeof_Pool_t + sizeof_BD_t \<or> BufPtr \<ge> PoolEnd p
      then (Inl CFE_ES_ERR_MEM_HANDLE, p)
      else
        let bd = BufPtr - sizeof_BD_t; p = pool_take p
        in if Allocated (bds p bd) \<noteq> CFE_ES_MEMORY_ALLOCATED
           then (Inl CFE_ES_ERR_MEM_HANDLE, pool_give (p\<lparr>CheckErrCntr := CheckErrCntr p + 1\<rparr>))
           else if CheckBits (bds p bd) \<noteq> CFE_ES_CHECK_PATTERN
           then (Inl CFE_ES_ERR_MEM_HANDLE, pool_give (p\<lparr>CheckErrCntr := CheckErrCntr p + 1\<rparr>))
           else
             let (BlockSize, p) = CFE_ES_GetBlockSize (BdSize (bds p bd)) p
             in if BlockSize > MaxSize (SizeDesc p 0)
                then (Inl CFE_ES_ERR_MEM_HANDLE, pool_give (p\<lparr>CheckErrCntr := CheckErrCntr p + 1\<rparr>))
                else
                  let i = the (SizeDescPtr p);
                      p = upd_bd bd (\<lambda>b. b\<lparr>Allocated := CFE_ES_MEMORY_DEALLOCATED,
                                           BdNext := Top (SizeDesc p i)\<rparr>) p;
                      p = upd_SizeDesc i (\<lambda>d. d\<lparr>Top := Some bd, NumFree := NumFree d + 1\<rparr>) p
                  in (Inr BlockSize, pool_give p))"

section \<open>Statistics and validation\<close>

record CFE_ES_MemPoolStats_t =
  st_PoolSize :: u32
  st_NumBlocksRequested :: u32
  st_CheckErrCtr :: u32
  st_NumFreeBytes :: u32
  st_BlockStats :: "nat \<Rightarrow> u32 \<times> u32 \<times> u32"

definition CFE_ES_GetMemPoolStats :: "addr \<Rightarrow> Pool_t \<Rightarrow> CFE_Status + CFE_ES_MemPoolStats_t" where
  "CFE_ES_GetMemPoolStats Handle p =
     (if Handle = 0 \<or> Handle \<noteq> PoolHandle p then Inl CFE_ES_ERR_MEM_HANDLE
      else Inr \<lparr>st_PoolSize = PoolSize p, st_NumBlocksRequested = ucast (RequestCntr p),
                st_CheckErrCtr = ucast (CheckErrCntr p),
                st_NumFreeBytes = PoolEnd p - CurrentAddr p,
                st_BlockStats = (\<lambda>i. (MaxSize (SizeDesc p i), NumCreated (SizeDesc p i),
                                       NumFree (SizeDesc p i)))\<rparr>)"

text \<open>\<^verbatim>\<open>CFE_PSP_MemValidateRange\<close> belongs to the platform: its answer is an argument.\<close>

definition CFE_ES_ValidateHandle :: "(addr \<Rightarrow> u32 \<Rightarrow> bool) \<Rightarrow> addr \<Rightarrow> Pool_t \<Rightarrow> bool" where
  "CFE_ES_ValidateHandle MemValidateRange Handle p =
     (if Handle = 0 then False
      else if \<not> MemValidateRange Handle sizeof_Pool_t then False
      else if Handle \<noteq> PoolHandle p then False
      else if PoolHandle p + PoolSize p \<noteq> PoolEnd p then False
      else True)"

section \<open>The interface of a block allocator\<close>

locale block_allocator =
  fixes alloc :: "u32 \<Rightarrow> 'p \<Rightarrow> (CFE_Status + u32 \<times> addr) \<times> 'p"
    and free :: "addr \<Rightarrow> 'p \<Rightarrow> (CFE_Status + u32) \<times> 'p"
    and info :: "addr \<Rightarrow> 'p \<Rightarrow> (CFE_Status + u32) \<times> 'p"
    and live :: "'p \<Rightarrow> addr \<rightharpoonup> u32"
    and invar :: "'p \<Rightarrow> bool"
  assumes alloc_ok: "invar p \<Longrightarrow> alloc n p = (Inr (sz, a), p') \<Longrightarrow>
      live p a = None \<and> live p' = (live p)(a \<mapsto> sz) \<and> n \<le> sz \<and> a \<noteq> 0 \<and> invar p'"
    and alloc_err: "invar p \<Longrightarrow> alloc n p = (Inl e, p') \<Longrightarrow> live p' = live p \<and> invar p'"
    and free_ok: "invar p \<Longrightarrow> live p a = Some sz \<Longrightarrow> 0 < sz \<Longrightarrow>
      \<exists>p'. free a p = (Inr sz, p') \<and> live p' = (live p)(a := None) \<and> invar p'"
    and free_err: "invar p \<Longrightarrow> live p a = None \<Longrightarrow>
      \<exists>e p'. free a p = (Inl e, p') \<and> live p' = live p \<and> invar p'"
    and info_ok: "invar p \<Longrightarrow> live p a = Some sz \<Longrightarrow> 0 < sz \<Longrightarrow> info a p = (Inr sz, p)"
    and info_err: "invar p \<Longrightarrow> live p a = None \<Longrightarrow> \<exists>e. info a p = (Inl e, p)"
    and live_disjoint: "invar p \<Longrightarrow> live p a = Some m \<Longrightarrow> live p b = Some n \<Longrightarrow> a \<noteq> b \<Longrightarrow>
      unat a + unat m \<le> unat b \<or> unat b + unat n \<le> unat a"
begin

text \<open>A block that was given back is not live any more: giving it back again is refused.\<close>

lemma double_free_refused:
  assumes "invar p" and "live p a = Some sz" and "0 < sz"
  obtains p' p'' e where "free a p = (Inr sz, p')" and "free a p' = (Inl e, p'')"
    and "live p'' = live p'"
proof -
  from free_ok [OF assms] obtain p' where p': "free a p = (Inr sz, p')"
    "live p' = (live p)(a := None)" "invar p'" by blast
  with free_err [of p' a] show thesis using that by (metis fun_upd_same)
qed

text \<open>Allocating and giving back restores the set of live blocks.\<close>

lemma alloc_free:
  assumes "invar p" and "alloc n p = (Inr (sz, a), p')" and "0 < n"
  shows "\<exists>p''. free a p' = (Inr sz, p'') \<and> live p'' = live p \<and> invar p''"
proof -
  from alloc_ok [OF assms(1,2)] have l: "live p a = None" "live p' = (live p)(a \<mapsto> sz)"
    "n \<le> sz" "invar p'" by auto
  have "0 < sz" using assms(3) l(3) by (rule less_le_trans)
  with free_ok [of p' a sz] l show ?thesis by (auto simp: fun_upd_idem)
qed

end

section \<open>The pool invariant\<close>

definition pool_blocks :: "Pool_t \<Rightarrow> addr set" where
  "pool_blocks p = {bd. CheckBits (bds p bd) = CFE_ES_CHECK_PATTERN}"

definition size_class :: "Pool_t \<Rightarrow> u32 \<Rightarrow> nat" where
  "size_class p n = GetBlockSize_loop 16 0 n (SizeDesc p)"

fun free_chain :: "(addr \<Rightarrow> BD_t) \<Rightarrow> addr option \<Rightarrow> addr list \<Rightarrow> bool" where
  "free_chain m q [] \<longleftrightarrow> q = None"
| "free_chain m q (x # xs) \<longleftrightarrow> q = Some x \<and> free_chain m (BdNext (m x)) xs"

definition pool_sizes_ok :: "Pool_t \<Rightarrow> bool" where
  "pool_sizes_ok p \<longleftrightarrow> (\<forall>i<16. MaxSize (SizeDesc p (Suc i)) \<le> MaxSize (SizeDesc p i))"

definition pool_geom :: "Pool_t \<Rightarrow> bool" where
  "pool_geom p \<longleftrightarrow> PoolHandle p \<noteq> 0 \<and> AlignMask p = 7 \<and> PoolSize p = PoolEnd p - PoolHandle p
     \<and> unat (PoolHandle p) + 308 \<le> unat (CurrentAddr p) \<and> unat (CurrentAddr p) \<le> unat (PoolEnd p)
     \<and> unat (PoolEnd p) + 19 + unat (MaxSize (SizeDesc p 0)) < 2 ^ 32"

definition block_ok :: "Pool_t \<Rightarrow> addr \<Rightarrow> bool" where
  "block_ok p bd \<longleftrightarrow> unat (PoolHandle p) + 308 \<le> unat bd
     \<and> unat bd + 12 + unat (BdSize (bds p bd)) \<le> unat (CurrentAddr p)
     \<and> (\<exists>n \<le> MaxSize (SizeDesc p 0). BdSize (bds p bd) = MaxSize (SizeDesc p (size_class p n)))
     \<and> (Allocated (bds p bd) = CFE_ES_MEMORY_ALLOCATED
        \<or> Allocated (bds p bd) = CFE_ES_MEMORY_DEALLOCATED)"

definition blocks_apart :: "Pool_t \<Rightarrow> addr \<Rightarrow> addr \<Rightarrow> bool" where
  "blocks_apart p a b \<longleftrightarrow> unat a + 12 + unat (BdSize (bds p a)) \<le> unat b
     \<or> unat b + 12 + unat (BdSize (bds p b)) \<le> unat a"

definition free_blocks :: "Pool_t \<Rightarrow> nat \<Rightarrow> addr set" where
  "free_blocks p i = {bd \<in> pool_blocks p. Allocated (bds p bd) = CFE_ES_MEMORY_DEALLOCATED
     \<and> size_class p (BdSize (bds p bd)) = i}"

definition pool_inv :: "Pool_t \<Rightarrow> (nat \<Rightarrow> addr list) \<Rightarrow> bool" where
  "pool_inv p F \<longleftrightarrow> pool_geom p \<and> pool_sizes_ok p
     \<and> (\<forall>bd \<in> pool_blocks p. block_ok p bd)
     \<and> (\<forall>a \<in> pool_blocks p. \<forall>b \<in> pool_blocks p. a \<noteq> b \<longrightarrow> blocks_apart p a b)
     \<and> (\<forall>i<17. free_chain (bds p) (Top (SizeDesc p i)) (F i) \<and> distinct (F i)
          \<and> set (F i) = free_blocks p i \<and> NumFree (SizeDesc p i) = of_nat (length (F i)))"

definition pool_wf :: "Pool_t \<Rightarrow> bool" where
  "pool_wf p \<longleftrightarrow> (\<exists>F. pool_inv p F)"

text \<open>The live blocks: those whose descriptor, just below the user block, is valid and allocated.\<close>

definition pool_live :: "Pool_t \<Rightarrow> addr \<rightharpoonup> u32" where
  "pool_live p a = (let bd = bds p (a - sizeof_BD_t) in
     if CheckBits bd = CFE_ES_CHECK_PATTERN \<and> Allocated bd = CFE_ES_MEMORY_ALLOCATED
     then Some (BdSize bd) else None)"

lemmas pool_consts =
  CFE_ES_CHECK_PATTERN_def CFE_ES_MEMORY_ALLOCATED_def CFE_ES_MEMORY_DEALLOCATED_def
  sizeof_BD_t_def sizeof_Pool_t_def

section \<open>Sizes\<close>

lemma GetBlockSize_loop_spec:
  "i \<le> GetBlockSize_loop n i S sd \<and> GetBlockSize_loop n i S sd \<le> i + n
   \<and> (\<forall>j. i < j \<and> j \<le> GetBlockSize_loop n i S sd \<longrightarrow> S \<le> MaxSize (sd j))
   \<and> (GetBlockSize_loop n i S sd < i + n \<longrightarrow> \<not> S \<le> MaxSize (sd (Suc (GetBlockSize_loop n i S sd))))"
proof (induction n arbitrary: i)
  case (Suc n)
  show ?case
  proof (cases "S \<le> MaxSize (sd (Suc i))")
    case True
    have "S \<le> MaxSize (sd j)" if "i < j" "j \<le> GetBlockSize_loop n (Suc i) S sd" for j
      using Suc.IH [of "Suc i"] True that by (cases "j = Suc i") auto
    then show ?thesis
      using Suc.IH [of "Suc i"] True by auto
  qed auto
qed auto

lemma size_class_le: "size_class p n \<le> 16"
  using GetBlockSize_loop_spec [of 0 16 n "SizeDesc p"] by (simp add: size_class_def)

lemma size_class_fits:
  assumes "n \<le> MaxSize (SizeDesc p 0)"
  shows "n \<le> MaxSize (SizeDesc p (size_class p n))"
  using GetBlockSize_loop_spec [of 0 16 n "SizeDesc p"] assms
  by (cases "size_class p n") (auto simp: size_class_def)

lemma pool_sizes_mono:
  assumes "pool_sizes_ok p" and "i \<le> j" and "j \<le> 16"
  shows "MaxSize (SizeDesc p j) \<le> MaxSize (SizeDesc p i)"
  using assms(2,3)
proof (induction j rule: dec_induct)
  case (step j)
  then have "MaxSize (SizeDesc p (Suc j)) \<le> MaxSize (SizeDesc p j)"
    using assms(1) by (simp add: pool_sizes_ok_def)
  with step show ?case by (meson Suc_leD order_trans)
qed simp

text \<open>The size of a block of a class belongs to that class again: blocks return to their own list.\<close>

lemma size_class_MaxSize:
  assumes "pool_sizes_ok p" and "n \<le> MaxSize (SizeDesc p 0)"
  shows "size_class p (MaxSize (SizeDesc p (size_class p n))) = size_class p n"
proof -
  let ?k = "size_class p n" let ?S = "MaxSize (SizeDesc p ?k)" let ?k' = "size_class p ?S"
  note k = GetBlockSize_loop_spec [of 0 16 n "SizeDesc p", folded size_class_def, simplified]
  note k' = GetBlockSize_loop_spec [of 0 16 ?S "SizeDesc p", folded size_class_def, simplified]
  have fits: "n \<le> ?S" using assms(2) by (rule size_class_fits)
  show ?thesis
  proof (rule ccontr)
    assume "?k' \<noteq> ?k"
    then consider "?k' < ?k" | "?k < ?k'" by linarith
    then show False
    proof cases
      case 1
      then have "?S \<le> MaxSize (SizeDesc p (Suc ?k'))"
        using pool_sizes_mono [OF assms(1), of "Suc ?k'" ?k] size_class_le [of p n] by simp
      moreover have "?k' < 16" using 1 size_class_le [of p n] by simp
      ultimately show False using k' by blast
    next
      case 2
      then have "?S \<le> MaxSize (SizeDesc p (Suc ?k))" using k' by auto
      with fits have "n \<le> MaxSize (SizeDesc p (Suc ?k))" by simp
      moreover have "?k < 16" using 2 size_class_le [of p ?S] by simp
      ultimately show False using k by blast
    qed
  qed
qed

lemma CFE_ES_GetBlockSize_fits:
  "n \<le> MaxSize (SizeDesc p 0) \<Longrightarrow>
   CFE_ES_GetBlockSize n p =
     (MaxSize (SizeDesc p (size_class p n)), p\<lparr>SizeDescPtr := Some (size_class p n)\<rparr>)"
  by (auto simp: CFE_ES_GetBlockSize_def size_class_def Let_def not_less)

lemma CFE_ES_GetBlockSize_big:
  "\<not> n \<le> MaxSize (SizeDesc p 0) \<Longrightarrow> CFE_ES_GetBlockSize n p = (0xFFFFFFFF, p\<lparr>SizeDescPtr := None\<rparr>)"
  by (simp add: CFE_ES_GetBlockSize_def Let_def not_le)

section \<open>Steps of the pool\<close>

text \<open>The part of a pool that the invariant speaks of, and the three ways it changes.\<close>

definition core :: "Pool_t \<Rightarrow> Pool_t" where
  "core p = p\<lparr>MutexHeld := 0, SizeDescPtr := None, RequestCntr := 0, CheckErrCntr := 0\<rparr>"

definition pool_extend :: "nat \<Rightarrow> addr \<Rightarrow> u32 \<Rightarrow> Pool_t \<Rightarrow> Pool_t" where
  "pool_extend i A BS p =
     upd_bd (A - sizeof_BD_t) (\<lambda>b. b\<lparr>CheckBits := CFE_ES_CHECK_PATTERN,
         Allocated := CFE_ES_MEMORY_ALLOCATED, BdSize := BS, BdNext := None\<rparr>)
       (upd_SizeDesc i (\<lambda>d. d\<lparr>NumCreated := NumCreated d + 1\<rparr>) (p\<lparr>CurrentAddr := A + BS\<rparr>))"

definition pool_recycle :: "nat \<Rightarrow> addr \<Rightarrow> u32 \<Rightarrow> Pool_t \<Rightarrow> Pool_t" where
  "pool_recycle i bd BS p =
     upd_bd bd (\<lambda>b. b\<lparr>CheckBits := CFE_ES_CHECK_PATTERN,
         Allocated := CFE_ES_MEMORY_ALLOCATED, BdSize := BS, BdNext := None\<rparr>)
       (upd_SizeDesc i (\<lambda>d. d\<lparr>Top := BdNext (bds p bd), NumFree := NumFree d - 1\<rparr>) p)"

definition pool_release :: "nat \<Rightarrow> addr \<Rightarrow> Pool_t \<Rightarrow> Pool_t" where
  "pool_release i bd p =
     upd_SizeDesc i (\<lambda>d. d\<lparr>Top := Some bd, NumFree := NumFree d + 1\<rparr>)
       (upd_bd bd (\<lambda>b. b\<lparr>Allocated := CFE_ES_MEMORY_DEALLOCATED, BdNext := Top (SizeDesc p i)\<rparr>) p)"

lemmas pool_step_defs =
  pool_extend_def pool_recycle_def pool_release_def upd_bd_def upd_SizeDesc_def

lemma core_fields:
  "core p = core p' \<Longrightarrow>
     PoolHandle p = PoolHandle p' \<and> PoolSize p = PoolSize p' \<and> PoolEnd p = PoolEnd p'
     \<and> CurrentAddr p = CurrentAddr p' \<and> AlignMask p = AlignMask p' \<and> SizeDesc p = SizeDesc p'
     \<and> bds p = bds p' \<and> UseMutex p = UseMutex p'"
  unfolding core_def by (cases p, cases p') simp

lemma pool_inv_core: "core p = core p' \<Longrightarrow> pool_inv p F = pool_inv p' F"
  using core_fields [of p p']
  by (simp add: pool_inv_def pool_geom_def pool_sizes_ok_def pool_blocks_def block_ok_def
      blocks_apart_def free_blocks_def size_class_def)

lemma pool_live_core: "core p = core p' \<Longrightarrow> pool_live p = pool_live p'"
  using core_fields [of p p'] by (simp add: pool_live_def fun_eq_iff)

lemma core_take_give [simp]:
  "core (pool_take p) = core p" "core (pool_give p) = core p"
  "core (p\<lparr>SizeDescPtr := x\<rparr>) = core p" "core (p\<lparr>CheckErrCntr := c\<rparr>) = core p"
  by (simp_all add: core_def pool_take_def pool_give_def)

lemma size_class_cong:
  "(\<And>i. MaxSize (SizeDesc p' i) = MaxSize (SizeDesc p i)) \<Longrightarrow> size_class p' = size_class p"
proof -
  assume eq: "\<And>i. MaxSize (SizeDesc p' i) = MaxSize (SizeDesc p i)"
  have "GetBlockSize_loop n i S (SizeDesc p') = GetBlockSize_loop n i S (SizeDesc p)" for n i S
    by (induction n arbitrary: i) (simp_all add: eq)
  then show ?thesis by (simp add: size_class_def fun_eq_iff)
qed

lemma pool_step_simps [simp]:
  "MaxSize (SizeDesc (pool_extend i A BS p) j) = MaxSize (SizeDesc p j)"
  "MaxSize (SizeDesc (pool_recycle i bd BS p) j) = MaxSize (SizeDesc p j)"
  "MaxSize (SizeDesc (pool_release i bd p) j) = MaxSize (SizeDesc p j)"
  "PoolHandle (pool_extend i A BS p) = PoolHandle p"
  "PoolHandle (pool_recycle i bd BS p) = PoolHandle p"
  "PoolHandle (pool_release i bd p) = PoolHandle p"
  "PoolEnd (pool_extend i A BS p) = PoolEnd p"
  "PoolEnd (pool_recycle i bd BS p) = PoolEnd p"
  "PoolEnd (pool_release i bd p) = PoolEnd p"
  "PoolSize (pool_extend i A BS p) = PoolSize p"
  "PoolSize (pool_recycle i bd BS p) = PoolSize p"
  "PoolSize (pool_release i bd p) = PoolSize p"
  "AlignMask (pool_extend i A BS p) = AlignMask p"
  "AlignMask (pool_recycle i bd BS p) = AlignMask p"
  "AlignMask (pool_release i bd p) = AlignMask p"
  "CurrentAddr (pool_extend i A BS p) = A + BS"
  "CurrentAddr (pool_recycle i bd BS p) = CurrentAddr p"
  "CurrentAddr (pool_release i bd p) = CurrentAddr p"
  by (simp_all add: pool_step_defs)

lemma size_class_step [simp]:
  "size_class (pool_extend i A BS p) = size_class p"
  "size_class (pool_recycle i bd BS p) = size_class p"
  "size_class (pool_release i bd p) = size_class p"
  by (rule size_class_cong; simp)+

lemma free_chain_upd:
  "bd \<notin> set xs \<Longrightarrow> free_chain (m(bd := v)) q xs = free_chain m q xs"
  by (induction xs arbitrary: q) auto

lemma free_chain_same_Next:
  "(\<And>x. x \<in> set xs \<Longrightarrow> BdNext (m' x) = BdNext (m x)) \<Longrightarrow> free_chain m' q xs = free_chain m q xs"
  by (induction xs arbitrary: q) auto

lemma pool_invD:
  assumes "pool_inv p F"
  shows "pool_geom p" and "pool_sizes_ok p" and "bd \<in> pool_blocks p \<Longrightarrow> block_ok p bd"
    and "a \<in> pool_blocks p \<Longrightarrow> b \<in> pool_blocks p \<Longrightarrow> a \<noteq> b \<Longrightarrow> blocks_apart p a b"
    and "i < 17 \<Longrightarrow> free_chain (bds p) (Top (SizeDesc p i)) (F i)" and "i < 17 \<Longrightarrow> distinct (F i)"
    and "i < 17 \<Longrightarrow> set (F i) = free_blocks p i"
    and "i < 17 \<Longrightarrow> NumFree (SizeDesc p i) = of_nat (length (F i))"
  using assms by (auto simp: pool_inv_def)

text \<open>The size recorded in the descriptor of a block is the size of its class.\<close>

lemma block_size_class:
  assumes "pool_inv p F" and "bd \<in> pool_blocks p"
  shows "MaxSize (SizeDesc p (size_class p (BdSize (bds p bd)))) = BdSize (bds p bd)"
    and "BdSize (bds p bd) \<le> MaxSize (SizeDesc p 0)"
proof -
  obtain n where n: "n \<le> MaxSize (SizeDesc p 0)"
    and eq: "BdSize (bds p bd) = MaxSize (SizeDesc p (size_class p n))"
    using pool_invD(3) [OF assms] by (auto simp: block_ok_def)
  note sizes = pool_invD(2) [OF assms(1)]
  show "MaxSize (SizeDesc p (size_class p (BdSize (bds p bd)))) = BdSize (bds p bd)"
    by (simp add: eq size_class_MaxSize [OF sizes n])
  show "BdSize (bds p bd) \<le> MaxSize (SizeDesc p 0)"
    using pool_sizes_mono [OF sizes, of 0 "size_class p n"] size_class_le [of p n] by (simp add: eq)
qed

subsection \<open>Taking a block from a free list\<close>

lemma pool_recycle_inv:
  assumes inv: "pool_inv p F" and i: "i < 17" and Fi: "F i = bd # rest"
    and BS: "BS = MaxSize (SizeDesc p i)"
  shows "pool_inv (pool_recycle i bd BS p) (F(i := rest))"
    and "bd \<in> free_blocks p i" and "BdSize (bds p bd) = BS"
proof -
  let ?p = "pool_recycle i bd BS p"
  note D = pool_invD [OF inv]
  from D(7) [OF i] Fi show bd: "bd \<in> free_blocks p i" by auto
  then have blk: "bd \<in> pool_blocks p" and cls: "size_class p (BdSize (bds p bd)) = i"
    by (auto simp: free_blocks_def)
  show size: "BdSize (bds p bd) = BS"
    using block_size_class(1) [OF inv blk] by (simp add: cls BS)
  have bds: "bds ?p = (bds p)(bd := (bds p bd)\<lparr>CheckBits := CFE_ES_CHECK_PATTERN,
      Allocated := CFE_ES_MEMORY_ALLOCATED, BdSize := BS, BdNext := None\<rparr>)"
    by (simp add: pool_step_defs)
  have blocks: "pool_blocks ?p = pool_blocks p"
    using blk by (auto simp: pool_blocks_def bds)
  have sz: "BdSize (bds ?p x) = BdSize (bds p x)" for x
    by (simp add: bds size)
  have alloc: "Allocated (bds ?p x) = (if x = bd then CFE_ES_MEMORY_ALLOCATED else Allocated (bds p x))" for x
    by (simp add: bds)
  have ne: "CFE_ES_MEMORY_ALLOCATED \<noteq> CFE_ES_MEMORY_DEALLOCATED" by (simp add: pool_consts)
  have free: "free_blocks ?p j = (if j = i then free_blocks p i - {bd} else free_blocks p j)" for j
    unfolding free_blocks_def blocks sz size_class_step alloc using ne cls by auto
  have "pool_geom ?p" using D(1) by (simp add: pool_geom_def)
  moreover have "pool_sizes_ok ?p" using D(2) by (simp add: pool_sizes_ok_def)
  moreover have "\<forall>x \<in> pool_blocks ?p. block_ok ?p x"
    using D(3) by (simp add: blocks block_ok_def sz alloc)
  moreover have "\<forall>a \<in> pool_blocks ?p. \<forall>b \<in> pool_blocks ?p. a \<noteq> b \<longrightarrow> blocks_apart ?p a b"
    using D(4) by (simp add: blocks blocks_apart_def sz)
  moreover have "free_chain (bds ?p) (Top (SizeDesc ?p j)) ((F(i := rest)) j)
      \<and> distinct ((F(i := rest)) j) \<and> set ((F(i := rest)) j) = free_blocks ?p j
      \<and> NumFree (SizeDesc ?p j) = of_nat (length ((F(i := rest)) j))" if j: "j < 17" for j
  proof (cases "j = i")
    case True
    have "bd \<notin> set rest" using D(6) [OF i] Fi by simp
    then show ?thesis
      using D(5-8) [OF i] Fi True
      by (auto simp: bds free_chain_upd free) (auto simp: pool_step_defs)
  next
    case False
    have "bd \<notin> set (F j)" using D(7) [OF j] bd False by (auto simp: free_blocks_def)
    then show ?thesis
      using D(5-8) [OF j] False by (auto simp: bds free_chain_upd free) (auto simp: pool_step_defs)
  qed
  ultimately show "pool_inv ?p (F(i := rest))"
    unfolding pool_inv_def by blast
qed

subsection \<open>Giving a block back\<close>

lemma pool_release_inv:
  assumes inv: "pool_inv p F" and i: "i < 17" and blk: "bd \<in> pool_blocks p"
    and cls: "size_class p (BdSize (bds p bd)) = i"
    and busy: "Allocated (bds p bd) = CFE_ES_MEMORY_ALLOCATED"
  shows "pool_inv (pool_release i bd p) (F(i := bd # F i))"
proof -
  let ?p = "pool_release i bd p"
  note D = pool_invD [OF inv]
  have bds: "bds ?p = (bds p)(bd := (bds p bd)\<lparr>Allocated := CFE_ES_MEMORY_DEALLOCATED,
      BdNext := Top (SizeDesc p i)\<rparr>)"
    by (simp add: pool_step_defs)
  have blocks: "pool_blocks ?p = pool_blocks p"
    using blk by (auto simp: pool_blocks_def bds)
  have sz: "BdSize (bds ?p x) = BdSize (bds p x)" for x
    by (simp add: bds)
  have alloc: "Allocated (bds ?p x) = (if x = bd then CFE_ES_MEMORY_DEALLOCATED else Allocated (bds p x))" for x
    by (simp add: bds)
  have free: "free_blocks ?p j = (if j = i then insert bd (free_blocks p i) else free_blocks p j)" for j
    unfolding free_blocks_def blocks sz size_class_step alloc using blk cls by auto
  have new: "bd \<notin> set (F j)" if "j < 17" for j
    using D(7) [OF that] busy by (auto simp: free_blocks_def pool_consts)
  have "pool_geom ?p" using D(1) by (simp add: pool_geom_def)
  moreover have "pool_sizes_ok ?p" using D(2) by (simp add: pool_sizes_ok_def)
  moreover have "\<forall>x \<in> pool_blocks ?p. block_ok ?p x"
    using D(3) by (simp add: blocks block_ok_def sz alloc)
  moreover have "\<forall>a \<in> pool_blocks ?p. \<forall>b \<in> pool_blocks ?p. a \<noteq> b \<longrightarrow> blocks_apart ?p a b"
    using D(4) by (simp add: blocks blocks_apart_def sz)
  moreover have "free_chain (bds ?p) (Top (SizeDesc ?p j)) ((F(i := bd # F i)) j)
      \<and> distinct ((F(i := bd # F i)) j) \<and> set ((F(i := bd # F i)) j) = free_blocks ?p j
      \<and> NumFree (SizeDesc ?p j) = of_nat (length ((F(i := bd # F i)) j))" if j: "j < 17" for j
  proof -
    have "SizeDesc ?p j = (if j = i then (SizeDesc p i)\<lparr>Top := Some bd,
        NumFree := NumFree (SizeDesc p i) + 1\<rparr> else SizeDesc p j)"
      by (simp add: pool_step_defs)
    then show ?thesis
      using D(5-8) [OF j] new [OF j]
      by (cases "j = i") (auto simp: bds free_chain_upd free add.commute)
  qed
  ultimately show ?thesis
    unfolding pool_inv_def by blast
qed

subsection \<open>Creating a block\<close>

text \<open>Rounding up to a multiple of 8, and the fit test that relies on unsigned wrap-around.\<close>

lemma align8:
  assumes "unat (x::u32) + 7 < 2 ^ 32"
  shows "unat x \<le> unat ((x + 7) AND NOT 7)" and "unat ((x + 7) AND NOT 7) \<le> unat x + 7"
proof -
  let ?w = "x + 7" let ?t = "take_bit 3 ?w"
  have "?w AND NOT 7 = ?w - ?t"
  proof -
    have "?w = push_bit 3 (drop_bit 3 ?w) + ?t" by (simp only: bits_ident)
    moreover have "push_bit 3 (drop_bit 3 ?w) = ?w AND NOT 7"
      by (simp add: word_blast del: bit_not_iff) 
    ultimately show ?thesis by (metis add_diff_cancel_right')
  qed
  moreover have t: "unat ?t = unat ?w mod 8"
    by (simp add: take_bit_eq_mod unat_mod_distrib)
  moreover have "?t \<le> ?w" using t by (simp add: word_le_nat_alt)
  ultimately have "unat (?w AND NOT 7) = unat ?w - unat ?w mod 8"
    by (simp add: unat_sub)
  moreover have "unat ?w = unat x + 7" 
    using assms by (simp add: unat_plus_if')
  moreover have "unat ?w mod 8 < 8" by simp
  ultimately show "unat x \<le> unat ((x + 7) AND NOT 7)" and "unat ((x + 7) AND NOT 7) \<le> unat x + 7"
    by linarith+
qed

lemma unat_less_32: "unat (x::u32) < 2 ^ 32"
  using unsigned_less [of x] by simp

lemma fit_test:
  assumes "unat (h::u32) < unat x" and "unat h \<le> unat e"
  shows "e - h \<le> e - x \<longleftrightarrow> unat e < unat x"
proof -
  have "unat (e - h) = unat e - unat h" using assms by (simp add: unat_sub_if')
  moreover have "unat (e - x) = (if unat x \<le> unat e then unat e - unat x else unat e + 2 ^ 32 - unat x)"
    by (simp add: unat_sub_if')
  moreover have "unat x < 2 ^ 32" by (rule unat_less_32)
  ultimately show ?thesis using assms by (auto simp: word_le_nat_alt)
qed

text \<open>Where the next new block of a class would lie, and the fit test on it.\<close>

lemma pool_new_block:
  assumes geom: "pool_geom p" and sizes: "pool_sizes_ok p" and "i < 17"
    and BS: "BS = MaxSize (SizeDesc p i)"
    and A: "A = (CurrentAddr p + sizeof_BD_t + AlignMask p) AND NOT (AlignMask p)"
  shows "unat (CurrentAddr p) + 12 \<le> unat A" and "unat (A + BS) = unat A + unat BS"
    and "PoolSize p \<le> PoolEnd p - (A + BS) \<longleftrightarrow> unat (PoolEnd p) < unat A + unat BS"
proof -
  note g = geom [unfolded pool_geom_def]
  have BSle: "unat BS \<le> unat (MaxSize (SizeDesc p 0))"
    using pool_sizes_mono [OF sizes, of 0 i] \<open>i < 17\<close> BS by (simp add: word_le_nat_alt)
  have cur: "unat (CurrentAddr p + 12) = unat (CurrentAddr p) + 12"
    using g by (simp add: unat_plus_if')
  show lo: "unat (CurrentAddr p) + 12 \<le> unat A"
    using align8 [of "CurrentAddr p + 12"] cur g by (simp add: A sizeof_BD_t_def)
  have "unat A \<le> unat (CurrentAddr p) + 19"
    using align8 [of "CurrentAddr p + 12"] cur g by (simp add: A sizeof_BD_t_def)
  then show end': "unat (A + BS) = unat A + unat BS"
    using BSle g by (simp add: unat_plus_if')
  show "PoolSize p \<le> PoolEnd p - (A + BS) \<longleftrightarrow> unat (PoolEnd p) < unat A + unat BS"
    using fit_test [of "PoolHandle p" "A + BS" "PoolEnd p"] g lo end' by simp
qed

lemma pool_extend_inv:
  assumes inv: "pool_inv p F" and i: "i = size_class p n" and n: "n \<le> MaxSize (SizeDesc p 0)"
    and BS: "BS = MaxSize (SizeDesc p i)"
    and A: "A = (CurrentAddr p + sizeof_BD_t + AlignMask p) AND NOT (AlignMask p)"
    and fit: "\<not> PoolSize p \<le> PoolEnd p - (A + BS)"
  shows "pool_inv (pool_extend i A BS p) F"
    and "A - sizeof_BD_t \<notin> pool_blocks p"
    and "unat (A - sizeof_BD_t) = unat A - 12" and "12 \<le> unat A"
proof -
  let ?p = "pool_extend i A BS p" let ?bd = "A - sizeof_BD_t"
  note D = pool_invD [OF inv]
  note geom = D(1) [unfolded pool_geom_def]
  have "i < 17" using i size_class_le [of p n] by simp
  note new = pool_new_block [OF D(1,2) this BS A]
  note Alo = new(1) and end' = new(2)
  have "unat A + unat BS \<le> unat (PoolEnd p)"
    using fit new(3) by simp
  then have bound: "unat (A + BS) \<le> unat (PoolEnd p)" by (simp add: end')
  show bd: "unat ?bd = unat A - 12" and "12 \<le> unat A"
    using Alo by (simp_all add: sizeof_BD_t_def unat_sub_if')
  have fresh: "unat x + 12 + unat (BdSize (bds p x)) \<le> unat ?bd" if "x \<in> pool_blocks p" for x
    using D(3) [OF that] Alo unfolding block_ok_def bd by linarith
  then show new: "?bd \<notin> pool_blocks p" by fastforce
  have bds: "bds ?p = (bds p)(?bd := (bds p ?bd)\<lparr>CheckBits := CFE_ES_CHECK_PATTERN,
      Allocated := CFE_ES_MEMORY_ALLOCATED, BdSize := BS, BdNext := None\<rparr>)"
    by (simp add: pool_step_defs)
  have blocks: "pool_blocks ?p = insert ?bd (pool_blocks p)"
    by (auto simp: pool_blocks_def bds)
  have old: "bds ?p x = bds p x" if "x \<in> pool_blocks p" for x
    using that new by (auto simp: bds)
  have nd: "Allocated (bds ?p ?bd) = CFE_ES_MEMORY_ALLOCATED" "BdSize (bds ?p ?bd) = BS"
    by (simp_all add: bds)
  have free: "free_blocks ?p j = free_blocks p j" for j
    using new old nd by (auto simp: free_blocks_def blocks pool_consts)
  have "pool_geom ?p"
    using geom bound Alo end' by (simp add: pool_geom_def)
  moreover have "pool_sizes_ok ?p" using D(2) by (simp add: pool_sizes_ok_def)
  moreover have "block_ok ?p ?bd"
    unfolding block_ok_def using geom Alo bd end' nd n i BS by auto
  moreover have "block_ok ?p x" if "x \<in> pool_blocks p" for x
    using D(3) [OF that] old [OF that] Alo end' by (simp add: block_ok_def)
  moreover have "blocks_apart ?p a b" if "a \<in> pool_blocks ?p" "b \<in> pool_blocks ?p" "a \<noteq> b" for a b
    using that D(4) [of a b] fresh [of a] fresh [of b] old nd
    by (auto simp: blocks blocks_apart_def)
  moreover have "free_chain (bds ?p) (Top (SizeDesc ?p j)) (F j)
      \<and> distinct (F j) \<and> set (F j) = free_blocks ?p j
      \<and> NumFree (SizeDesc ?p j) = of_nat (length (F j))" if j: "j < 17" for j
  proof -
    have "?bd \<notin> set (F j)" using D(7) [OF j] new by (auto simp: free_blocks_def)
    moreover have "Top (SizeDesc ?p j) = Top (SizeDesc p j)" "NumFree (SizeDesc ?p j) = NumFree (SizeDesc p j)"
      by (simp_all add: pool_step_defs)
    ultimately show ?thesis
      using D(5-8) [OF j] by (simp add: bds free_chain_upd free)
  qed
  ultimately show "pool_inv ?p F"
    unfolding pool_inv_def by (auto simp: blocks)
qed

section \<open>The pool functions in terms of the steps\<close>

lemma take_give_fields [simp]:
  "SizeDesc (pool_take p) = SizeDesc p" "SizeDesc (pool_give p) = SizeDesc p"
  "bds (pool_take p) = bds p" "bds (pool_give p) = bds p"
  "PoolHandle (pool_take p) = PoolHandle p" "PoolHandle (pool_give p) = PoolHandle p"
  "PoolEnd (pool_take p) = PoolEnd p" "PoolSize (pool_take p) = PoolSize p"
  "CurrentAddr (pool_take p) = CurrentAddr p" "AlignMask (pool_take p) = AlignMask p"
  "UseMutex (pool_take p) = UseMutex p" "UseMutex (pool_give p) = UseMutex p"
  "CheckErrCntr (pool_take p) = CheckErrCntr p" "RequestCntr (pool_take p) = RequestCntr p"
  "MutexHeld (pool_give (pool_take p)) = MutexHeld p" "pool_give (pool_take p) = p"
  by (simp_all add: pool_take_def pool_give_def)

lemma size_class_take [simp]: "size_class (pool_take p) n = size_class p n"
  by (simp add: size_class_def)

lemma core_step_cong:
  "core p = core p' \<Longrightarrow> core (pool_recycle i bd BS p) = core (pool_recycle i bd BS p')"
  "core p = core p' \<Longrightarrow> core (pool_extend i A BS p) = core (pool_extend i A BS p')"
  "core p = core p' \<Longrightarrow> core (pool_release i bd p) = core (pool_release i bd p')"
  by (cases p; cases p'; simp add: core_def pool_step_defs)+

lemma core_RequestCntr [simp]: "core (p\<lparr>RequestCntr := r\<rparr>) = core p"
  by (simp add: core_def)

lemma pool_size_top:
  assumes "pool_inv p F"
  shows "MaxSize (SizeDesc p 0) < 0xFFFFFFFF \<and> PoolHandle p \<noteq> 0
    \<and> \<not> MaxSize (SizeDesc p 0) < MaxSize (SizeDesc p (size_class p n))"
  using pool_invD(1) [OF assms] pool_sizes_mono [OF pool_invD(2) [OF assms], of 0 "size_class p n"]
    size_class_le [of p n]
  by (auto simp: pool_geom_def word_less_nat_alt word_le_nat_alt not_less)

lemma free_list_top:
  "pool_inv p F \<Longrightarrow> i < 17 \<Longrightarrow> Top (SizeDesc p i) = (case F i of [] \<Rightarrow> None | bd # _ \<Rightarrow> Some bd)"
  by (drule (1) pool_invD(5)) (auto split: list.splits)

lemma GetPoolBuf_cases:
  assumes inv: "pool_inv p F" and res: "CFE_ES_GetPoolBuf (PoolHandle p) n p = (r, p')"
  defines "i \<equiv> size_class p n" and "BS \<equiv> MaxSize (SizeDesc p (size_class p n))"
  defines "A \<equiv> (CurrentAddr p + sizeof_BD_t + AlignMask p) AND NOT (AlignMask p)"
  obtains (error) "r = Inl CFE_ES_ERR_MEM_BLOCK_SIZE" and "core p' = core p"
    and "\<not> n \<le> MaxSize (SizeDesc p 0) \<or> F i = [] \<and> PoolSize p \<le> PoolEnd p - (A + BS)"
  | (recycle) bd rest where "n \<le> MaxSize (SizeDesc p 0)" and "F i = bd # rest"
    and "r = Inr (BS, bd + sizeof_BD_t)" and "core p' = core (pool_recycle i bd BS p)"
  | (extend) "n \<le> MaxSize (SizeDesc p 0)" and "F i = []" and "\<not> PoolSize p \<le> PoolEnd p - (A + BS)"
    and "r = Inr (BS, A)" and "core p' = core (pool_extend i A BS p)"
proof (cases "n \<le> MaxSize (SizeDesc p 0)")
  case False
  then show thesis
    using res pool_size_top [OF inv, of n] by (intro error)
      (auto simp: CFE_ES_GetPoolBuf_def Let_def CFE_ES_GetBlockSize_big)
next
  case fits: True
  note top = pool_size_top [OF inv, of n]
  have "i < 17" using size_class_le [of p n] by (simp add: i_def)
  note Top = free_list_top [OF inv this]
  note get = CFE_ES_GetBlockSize_fits [of n "pool_take p", simplified, OF fits]
  show thesis
  proof (cases "F i")
    case (Cons bd rest)
    then have "r = Inr (BS, bd + sizeof_BD_t)" and "core p' = core (pool_recycle i bd BS p)"
      using res top Top
      by (auto simp: CFE_ES_GetPoolBuf_def Let_def get i_def [symmetric] BS_def)
        (auto simp: core_def pool_step_defs pool_take_def pool_give_def)
    with fits Cons show thesis by (rule recycle)
  next
    case Nil
    show thesis
    proof (cases "PoolSize p \<le> PoolEnd p - (A + BS)")
      case True
      then show thesis
        using res top Top Nil by (intro error)
          (auto simp: CFE_ES_GetPoolBuf_def Let_def get i_def BS_def A_def)
    next
      case False
      then have "r = Inr (BS, A)" and "core p' = core (pool_extend i A BS p)"
        using res top Top Nil
        by (auto simp: CFE_ES_GetPoolBuf_def Let_def get i_def [symmetric] BS_def A_def)
          (auto simp: core_def pool_step_defs pool_take_def pool_give_def)
      with fits Nil False show thesis by (intro extend)
    qed
  qed
qed

lemma pool_live_Some:
  "pool_live p a = Some sz \<longleftrightarrow> a - sizeof_BD_t \<in> pool_blocks p
     \<and> Allocated (bds p (a - sizeof_BD_t)) = CFE_ES_MEMORY_ALLOCATED
     \<and> BdSize (bds p (a - sizeof_BD_t)) = sz"
  by (auto simp: pool_live_def pool_blocks_def Let_def)

lemma pool_live_None:
  "pool_live p a = None \<longleftrightarrow> a - sizeof_BD_t \<notin> pool_blocks p
     \<or> Allocated (bds p (a - sizeof_BD_t)) \<noteq> CFE_ES_MEMORY_ALLOCATED"
  by (auto simp: pool_live_def pool_blocks_def Let_def)

lemma live_block:
  assumes inv: "pool_inv p F" and live: "pool_live p a = Some sz"
  shows "unat a = unat (a - sizeof_BD_t) + 12" and "unat (PoolHandle p) + 320 \<le> unat a"
    and "unat a + unat sz \<le> unat (CurrentAddr p)"
    and "unat (CurrentAddr p) \<le> unat (PoolEnd p)"
proof -
  let ?bd = "a - sizeof_BD_t"
  have ok: "block_ok p ?bd" and sz: "BdSize (bds p ?bd) = sz"
    using live pool_invD(3) [OF inv] by (auto simp: pool_live_Some)
  have "unat ?bd + 12 < 2 ^ 32"
    using ok pool_invD(1) [OF inv] by (simp add: block_ok_def pool_geom_def)
  then show a: "unat a = unat ?bd + 12"
    using unat_plus_if' [of ?bd sizeof_BD_t] by (simp add: sizeof_BD_t_def)
  show "unat (PoolHandle p) + 320 \<le> unat a" and "unat a + unat sz \<le> unat (CurrentAddr p)"
    using ok sz a by (simp_all add: block_ok_def)
  show "unat (CurrentAddr p) \<le> unat (PoolEnd p)"
    using pool_invD(1) [OF inv] by (simp add: pool_geom_def)
qed

text \<open>A live block with at least one byte passes the range test of the functions that take a buffer.\<close>

lemma live_in_range:
  assumes inv: "pool_inv p F" and live: "pool_live p a = Some sz" and "0 < sz"
  shows "\<not> a < PoolHandle p + sizeof_Pool_t + sizeof_BD_t \<and> \<not> PoolEnd p \<le> a \<and> PoolHandle p \<noteq> 0"
proof -
  have "unat (PoolHandle p) + 308 + 12 < 2 ^ 32"
    using live_block(2) [OF inv live] unat_less_32 [of a] by simp
  then have "unat (PoolHandle p + sizeof_Pool_t + sizeof_BD_t) = unat (PoolHandle p) + 320"
    by (simp add: unat_plus_if' pool_consts)
  moreover have "0 < unat sz" using \<open>0 < sz\<close> by (simp add: word_less_nat_alt)
  ultimately show ?thesis
    using live_block [OF inv live] pool_size_top [OF inv] by (simp add: word_less_nat_alt word_le_nat_alt)
qed

lemma PutPoolBuf_live:
  assumes inv: "pool_inv p F" and live: "pool_live p a = Some sz"
    and range: "\<not> a < PoolHandle p + sizeof_Pool_t + sizeof_BD_t \<and> \<not> PoolEnd p \<le> a"
  obtains p' where "CFE_ES_PutPoolBuf (PoolHandle p) a p = (Inr sz, p')"
    and "core p' = core (pool_release (size_class p sz) (a - sizeof_BD_t) p)"
proof -
  let ?bd = "a - sizeof_BD_t" let ?i = "size_class p sz"
  have blk: "?bd \<in> pool_blocks p" and sz: "BdSize (bds p ?bd) = sz"
    and st: "Allocated (bds p ?bd) = CFE_ES_MEMORY_ALLOCATED" "CheckBits (bds p ?bd) = CFE_ES_CHECK_PATTERN"
    using live by (auto simp: pool_live_Some pool_blocks_def)
  have cls: "MaxSize (SizeDesc p ?i) = sz" "sz \<le> MaxSize (SizeDesc p 0)"
    using block_size_class [OF inv blk] by (simp_all add: sz)
  note get = CFE_ES_GetBlockSize_fits [of sz "pool_take p", simplified, OF cls(2)]
  obtain r p' where res: "CFE_ES_PutPoolBuf (PoolHandle p) a p = (r, p')" by fastforce
  then have "r = Inr sz" "core p' = core (pool_release ?i ?bd p)"
    using range cls st pool_size_top [OF inv, of sz]
    by (auto simp: CFE_ES_PutPoolBuf_def Let_def sz get)
      (auto simp: core_def pool_step_defs pool_take_def pool_give_def)
  with res show thesis using that by blast
qed

lemma PutPoolBuf_not_live:
  assumes "pool_live p a = None"
  shows "\<exists>p'. CFE_ES_PutPoolBuf (PoolHandle p) a p = (Inl CFE_ES_ERR_MEM_HANDLE, p') \<and> core p' = core p"
  using assms by (auto simp: CFE_ES_PutPoolBuf_def Let_def pool_live_None pool_blocks_def)

section \<open>The pool as a block allocator\<close>

lemma live_upd_same:
  assumes "bds p' = (bds p)(bd := v)" and "CheckBits v = CFE_ES_CHECK_PATTERN"
  shows "pool_live p' = (pool_live p)(bd + sizeof_BD_t :=
    if Allocated v = CFE_ES_MEMORY_ALLOCATED then Some (BdSize v) else None)"
  using assms by (auto simp: pool_live_def fun_eq_iff Let_def)

lemma pool_alloc_ok:
  assumes wf: "pool_wf p" and res: "CFE_ES_GetPoolBuf (PoolHandle p) n p = (Inr (sz, a), p')"
  shows "pool_live p a = None \<and> pool_live p' = (pool_live p)(a \<mapsto> sz) \<and> n \<le> sz \<and> a \<noteq> 0 \<and> pool_wf p'"
proof -
  obtain F where inv: "pool_inv p F" using wf by (auto simp: pool_wf_def)
  let ?i = "size_class p n" let ?BS = "MaxSize (SizeDesc p ?i)"
  have i: "?i < 17" using size_class_le [of p n] by simp
  from inv res show ?thesis
  proof (cases rule: GetPoolBuf_cases)
    case (recycle bd rest)
    note R = pool_recycle_inv [OF inv i recycle(2) refl]
    have bds: "bds (pool_recycle ?i bd ?BS p) = (bds p)(bd := (bds p bd)\<lparr>CheckBits := CFE_ES_CHECK_PATTERN,
        Allocated := CFE_ES_MEMORY_ALLOCATED, BdSize := ?BS, BdNext := None\<rparr>)"
      by (simp add: pool_step_defs)
    have blk: "bd \<in> pool_blocks p" and free: "Allocated (bds p bd) = CFE_ES_MEMORY_DEALLOCATED"
      using R(2) by (auto simp: free_blocks_def)
    have "unat bd + 12 < 2 ^ 32"
      using pool_invD(3) [OF inv blk] pool_invD(1) [OF inv] by (simp add: block_ok_def pool_geom_def)
    then have "unat a = unat bd + 12"
      using recycle(3) by (simp add: sizeof_BD_t_def unat_plus_if')
    then have "a \<noteq> 0" by auto
    moreover have "pool_live p a = None"
      using recycle(3) free by (simp add: pool_live_None pool_consts)
    moreover have "pool_live p' = (pool_live p)(a \<mapsto> sz)"
      using pool_live_core [OF recycle(4)] live_upd_same [OF bds] recycle(3) by simp
    moreover have "pool_wf p'"
      using R(1) pool_inv_core [OF recycle(4)] by (auto simp: pool_wf_def)
    ultimately show ?thesis using recycle(1,3) size_class_fits [of n p] by simp
  next
    case extend
    let ?A = "(CurrentAddr p + sizeof_BD_t + AlignMask p) AND NOT (AlignMask p)"
    note E = pool_extend_inv [OF inv refl extend(1) refl refl extend(3)]
    have bds: "bds (pool_extend ?i ?A ?BS p) = (bds p)(?A - sizeof_BD_t := (bds p (?A - sizeof_BD_t))
        \<lparr>CheckBits := CFE_ES_CHECK_PATTERN,
        Allocated := CFE_ES_MEMORY_ALLOCATED, BdSize := ?BS, BdNext := None\<rparr>)"
      by (simp add: pool_step_defs)
    have a: "a = ?A" "sz = ?BS" using extend(4) by simp_all
    have "a \<noteq> 0" using E(4) a by auto
    moreover have "pool_live p a = None" using E(2) a by (simp add: pool_live_None)
    moreover have "pool_live p' = (pool_live p)(a \<mapsto> sz)"
      using pool_live_core [OF extend(5)] live_upd_same [OF bds] a by simp
    moreover have "pool_wf p'"
      using E(1) pool_inv_core [OF extend(5)] by (auto simp: pool_wf_def)
    ultimately show ?thesis using extend(1) size_class_fits [of n p] a by simp
  qed simp
qed

lemma pool_alloc_err:
  assumes wf: "pool_wf p" and res: "CFE_ES_GetPoolBuf (PoolHandle p) n p = (Inl e, p')"
  shows "pool_live p' = pool_live p \<and> pool_wf p'"
proof -
  obtain F where inv: "pool_inv p F" using wf by (auto simp: pool_wf_def)
  from inv res show ?thesis
  proof (cases rule: GetPoolBuf_cases)
    case error
    then show ?thesis
      using inv pool_live_core [OF error(2)] pool_inv_core [OF error(2)] by (auto simp: pool_wf_def)
  qed simp_all
qed

lemma PutPoolBuf_in_range:
  assumes wf: "pool_wf p" and live: "pool_live p a = Some sz"
    and range: "\<not> a < PoolHandle p + sizeof_Pool_t + sizeof_BD_t \<and> \<not> PoolEnd p \<le> a"
  shows "\<exists>p'. CFE_ES_PutPoolBuf (PoolHandle p) a p = (Inr sz, p')
    \<and> pool_live p' = (pool_live p)(a := None) \<and> pool_wf p'"
proof -
  obtain F where inv: "pool_inv p F" using wf by (auto simp: pool_wf_def)
  let ?i = "size_class p sz" let ?bd = "a - sizeof_BD_t"
  obtain p' where res: "CFE_ES_PutPoolBuf (PoolHandle p) a p = (Inr sz, p')"
    and core: "core p' = core (pool_release ?i ?bd p)"
    using PutPoolBuf_live [OF inv live range] by blast
  have blk: "?bd \<in> pool_blocks p" and sz: "BdSize (bds p ?bd) = sz"
    and st: "Allocated (bds p ?bd) = CFE_ES_MEMORY_ALLOCATED"
    using live by (auto simp: pool_live_Some)
  have "bds (pool_release ?i ?bd p) = (bds p)(?bd := (bds p ?bd)\<lparr>Allocated := CFE_ES_MEMORY_DEALLOCATED,
      BdNext := Top (SizeDesc p ?i)\<rparr>)"
    by (simp add: pool_step_defs)
  from live_upd_same [OF this] blk have "pool_live (pool_release ?i ?bd p) = (pool_live p)(a := None)"
    by (simp add: pool_blocks_def pool_consts)
  moreover have "pool_inv (pool_release ?i ?bd p) (F(?i := ?bd # F ?i))"
    using pool_release_inv [OF inv _ blk _ st] size_class_le [of p sz] sz by simp
  ultimately show ?thesis
    using res pool_live_core [OF core] pool_inv_core [OF core] by (auto simp: pool_wf_def)
qed

lemma pool_free_ok:
  assumes wf: "pool_wf p" and live: "pool_live p a = Some sz" and "0 < sz"
  shows "\<exists>p'. CFE_ES_PutPoolBuf (PoolHandle p) a p = (Inr sz, p')
    \<and> pool_live p' = (pool_live p)(a := None) \<and> pool_wf p'"
  using PutPoolBuf_in_range [OF wf live] live_in_range [OF _ live \<open>0 < sz\<close>] wf
  by (metis pool_wf_def)

lemma pool_live_disjoint:
  assumes wf: "pool_wf p" and a: "pool_live p a = Some m" and b: "pool_live p b = Some n" and "a \<noteq> b"
  shows "unat a + unat m \<le> unat b \<or> unat b + unat n \<le> unat a"
proof -
  obtain F where inv: "pool_inv p F" using wf by (auto simp: pool_wf_def)
  have "blocks_apart p (a - sizeof_BD_t) (b - sizeof_BD_t)"
    using pool_invD(4) [OF inv] a b \<open>a \<noteq> b\<close> by (simp add: pool_live_Some)
  then show ?thesis
    using live_block(1) [OF inv a] live_block(1) [OF inv b] a b
    by (auto simp: blocks_apart_def pool_live_Some)
qed

interpretation pool: block_allocator
  "\<lambda>n p. CFE_ES_GetPoolBuf (PoolHandle p) n p" "\<lambda>a p. CFE_ES_PutPoolBuf (PoolHandle p) a p"
  "\<lambda>a p. CFE_ES_GetPoolBufInfo (PoolHandle p) a p" pool_live pool_wf
proof (unfold_locales, goal_cases)
  case (1 p n sz a p') then show ?case by (rule pool_alloc_ok)
next
  case (2 p n e p') then show ?case by (rule pool_alloc_err)
next
  case (3 p a sz) then show ?case by (rule pool_free_ok)
next
  case (4 p a)
  then show ?case
    using PutPoolBuf_not_live [of p a] by (metis pool_live_core pool_inv_core pool_wf_def)
next
  case (5 p a sz)
  then obtain F where inv: "pool_inv p F" by (auto simp: pool_wf_def)
  from 5 live_in_range [OF inv] show ?case
    by (auto simp: CFE_ES_GetPoolBufInfo_def Let_def pool_live_Some pool_blocks_def)
next
  case (6 p a)
  then show ?case
    by (auto simp: CFE_ES_GetPoolBufInfo_def Let_def pool_live_None pool_blocks_def)
next
  case (7 p a m b n) then show ?case by (rule pool_live_disjoint)
qed

section \<open>Creation of a pool\<close>

lemma SizeDesc_find_Some:
  "SizeDesc_find n j b sd = Some k \<Longrightarrow>
     j \<le> k \<and> k < j + n \<and> MaxSize (sd k) < b \<and> (\<forall>m. j \<le> m \<and> m < k \<longrightarrow> b \<le> MaxSize (sd m))"
proof (induction n arbitrary: j)
  case (Suc n)
  show ?case
  proof (cases "MaxSize (sd j) < b")
    case False
    then have "SizeDesc_find n (Suc j) b sd = Some k" using Suc.prems by simp
    from Suc.IH [OF this] False show ?thesis
      by (metis Suc_leD Suc_leI add_Suc_shift le_neq_implies_less not_less)
  qed (use Suc.prems in auto)
qed simp

lemma SizeDesc_find_None:
  "SizeDesc_find n j b sd = None \<Longrightarrow> j \<le> m \<Longrightarrow> m < j + n \<Longrightarrow> b \<le> MaxSize (sd m)"
proof (induction n arbitrary: j)
  case (Suc n)
  then have "\<not> MaxSize (sd j) < b" "SizeDesc_find n (Suc j) b sd = None"
    by (auto split: if_splits)
  with Suc show ?case by (cases "m = j") auto
qed simp

lemma SizeDesc_shift_MaxSize:
  "MaxSize (SizeDesc_shift i j sd k) = (if j < k \<and> k \<le> i then MaxSize (sd (k - 1)) else MaxSize (sd k))"
  by (induction i arbitrary: sd) (auto simp: le_Suc_eq)

lemma SizeDesc_shift_rest:
  "Top (SizeDesc_shift i j sd k) = Top (sd k)" "NumFree (SizeDesc_shift i j sd k) = NumFree (sd k)"
  "NumCreated (SizeDesc_shift i j sd k) = NumCreated (sd k)"
  by (induction i arbitrary: sd) auto

text \<open>The block sizes of a descriptor table, and what the insertion loop keeps of it.\<close>

definition table_sizes :: "(nat \<Rightarrow> BlockSizeDesc_t) \<Rightarrow> u32 list" where
  "table_sizes sd = map (\<lambda>i. MaxSize (sd i)) [0..<17]"

definition table_desc :: "nat \<Rightarrow> (nat \<Rightarrow> BlockSizeDesc_t) \<Rightarrow> bool" where
  "table_desc i sd \<longleftrightarrow> (\<forall>a b. a \<le> b \<longrightarrow> MaxSize (sd b) \<le> MaxSize (sd a)) \<and> (\<forall>k\<ge>i. MaxSize (sd k) = 0)"

lemma SizeDesc_insert_Some:
  assumes desc: "table_desc i sd" and i: "i < 17" and b: "0 < b"
  obtains j where "j \<le> i" and "MaxSize (sd j) < b" and "\<And>m. m < j \<Longrightarrow> b \<le> MaxSize (sd m)"
    and "\<And>k. MaxSize (SizeDesc_insert i b sd k) =
           (if k < j then MaxSize (sd k) else if k = j then b else MaxSize (sd (k - 1)))"
proof -
  have zero: "MaxSize (sd k) = 0" if "i \<le> k" for k using desc that by (simp add: table_desc_def)
  obtain j where j: "SizeDesc_find 17 0 b sd = Some j"
    using SizeDesc_find_None [of 17 0 b sd i] zero [of i] i b
    by (cases "SizeDesc_find 17 0 b sd") auto
  note J = SizeDesc_find_Some [OF j]
  have "j \<le> i" using J zero [of i] b by (auto simp: not_le [symmetric])
  moreover have "MaxSize (SizeDesc_insert i b sd k) =
      (if k < j then MaxSize (sd k) else if k = j then b else MaxSize (sd (k - 1)))" for k
    using \<open>j \<le> i\<close> zero [of k] zero [of "k - 1"]
    by (auto simp: SizeDesc_insert_def j Let_def SizeDesc_shift_MaxSize)
  ultimately show thesis using J that by simp
qed

lemma SizeDesc_insert_desc:
  assumes desc: "table_desc i sd" and i: "i < 17"
  shows "table_desc (Suc i) (SizeDesc_insert i b sd)"
    and "add_mset 0 (mset (table_sizes (SizeDesc_insert i b sd))) = add_mset b (mset (table_sizes sd))"
proof -
  have "table_desc (Suc i) (SizeDesc_insert i b sd)
    \<and> add_mset 0 (mset (table_sizes (SizeDesc_insert i b sd))) = add_mset b (mset (table_sizes sd))"
  proof (cases "b = 0")
    case True
    then have "SizeDesc_insert i b sd = sd"
      using SizeDesc_find_Some [of 17 0 b sd] by (auto simp: SizeDesc_insert_def split: option.split)
    then show ?thesis using desc True by (auto simp: table_desc_def)
  next
    case False
    then have "0 < b" by (simp add: word_neq_0_conv)
    then obtain j where j: "j \<le> i" "MaxSize (sd j) < b" "\<And>m. m < j \<Longrightarrow> b \<le> MaxSize (sd m)"
      and M: "\<And>k. MaxSize (SizeDesc_insert i b sd k) =
           (if k < j then MaxSize (sd k) else if k = j then b else MaxSize (sd (k - 1)))"
      using SizeDesc_insert_Some [OF desc i] by blast
    have mono: "MaxSize (sd y) \<le> MaxSize (sd x)" if "x \<le> y" for x y
      using desc that by (simp add: table_desc_def)
    have ord: "MaxSize (SizeDesc_insert i b sd y) \<le> MaxSize (SizeDesc_insert i b sd x)" if "x \<le> y" for x y
    proof (cases "x = y")
      case False
      with that have le: "x \<le> y - 1" "x - 1 \<le> y - 1" "x < y" by auto
      show ?thesis
        using le j mono [of x y] mono [OF le(1)] mono [OF le(2)] mono [of j "y - 1"]
        by (auto simp: M)
    qed simp
    moreover have "MaxSize (SizeDesc_insert i b sd k) = 0" if "Suc i \<le> k" for k
      using that j desc by (auto simp: M table_desc_def)
    ultimately have T: "table_desc (Suc i) (SizeDesc_insert i b sd)" by (simp add: table_desc_def)
    have split: "[0..<17] = [0..<j] @ [j..<16] @ [16]"
      using j(1) i upt_add_eq_append [of 0 j "16 - j"] by (simp add: numeral_eq_Suc)
    have "map (\<lambda>k. MaxSize (SizeDesc_insert i b sd k)) [0..<17]
        = map (\<lambda>k. MaxSize (sd k)) [0..<j] @ b # map (\<lambda>k. MaxSize (sd k)) [j..<16]"
      using j(1) i by (intro nth_equalityI) (auto simp: M nth_append nth_Cons')
    moreover have "map (\<lambda>k. MaxSize (sd k)) [0..<17]
        = map (\<lambda>k. MaxSize (sd k)) [0..<j] @ map (\<lambda>k. MaxSize (sd k)) [j..<16] @ [0]"
      using desc i by (simp add: split table_desc_def)
    ultimately have "add_mset 0 (mset (table_sizes (SizeDesc_insert i b sd))) = add_mset b (mset (table_sizes sd))"
      unfolding table_sizes_def by simp
    with T show ?thesis by blast
  qed
  then show "table_desc (Suc i) (SizeDesc_insert i b sd)"
    and "add_mset 0 (mset (table_sizes (SizeDesc_insert i b sd))) = add_mset b (mset (table_sizes sd))"
    by auto
qed

lemma SizeDesc_insert_rest:
  "Top (SizeDesc_insert i b sd k) = Top (sd k)" "NumFree (SizeDesc_insert i b sd k) = NumFree (sd k)"
  by (auto simp: SizeDesc_insert_def Let_def SizeDesc_shift_rest split: option.split)

lemma SizeDesc_fill_rest:
  "Top (SizeDesc_fill i bs sd k) = Top (sd k)" "NumFree (SizeDesc_fill i bs sd k) = NumFree (sd k)"
  by (induction i bs sd rule: SizeDesc_fill.induct) (simp_all add: SizeDesc_insert_rest)

lemma SizeDesc_fill_desc:
  assumes "table_desc i sd" and "i + length bs \<le> 17"
  shows "table_desc (i + length bs) (SizeDesc_fill i bs sd)
    \<and> mset (table_sizes (SizeDesc_fill i bs sd)) + replicate_mset (length bs) 0
      = mset (table_sizes sd) + mset bs"
  using assms
proof (induction i bs sd rule: SizeDesc_fill.induct)
  case (2 i b bs sd)
  have i: "i < 17" using "2.prems" by simp
  note I = SizeDesc_insert_desc [OF "2.prems"(1) i, of b]
  from "2.IH" [OF I(1)] "2.prems"(2) I(2) show ?case
    by (simp add: add_mset_add_single [symmetric])
qed simp

text \<open>The insertion loop is a sort: the table lists the given sizes in decreasing order, padded with zeros.\<close>

lemma SizeDesc_fill_sorts:
  assumes "length bs \<le> 17"
  shows "table_sizes (SizeDesc_fill 0 bs (\<lambda>_. empty_SizeDesc)) = rev (sort (bs @ replicate (17 - length bs) 0))"
proof -
  let ?sd = "SizeDesc_fill 0 bs (\<lambda>_. empty_SizeDesc)"
  have empty: "table_desc 0 (\<lambda>_. empty_SizeDesc)" by (simp add: table_desc_def empty_SizeDesc_def)
  have fill: "table_desc (length bs) ?sd"
    "mset (table_sizes ?sd) + replicate_mset (length bs) 0 = mset (table_sizes (\<lambda>_. empty_SizeDesc)) + mset bs"
    using SizeDesc_fill_desc [OF empty, of bs] assms by simp_all
  have "mset (table_sizes (\<lambda>_. empty_SizeDesc)) = replicate_mset 17 0"
    by (simp add: table_sizes_def empty_SizeDesc_def map_replicate_const)
  also have "\<dots> = replicate_mset (17 - length bs) 0 + replicate_mset (length bs) 0"
    using assms by (auto simp: multiset_eq_iff)
  finally have "mset (table_sizes ?sd) = mset (bs @ replicate (17 - length bs) 0)"
    using fill(2) by simp
  moreover have "sorted (rev (table_sizes ?sd))"
    using fill(1) by (auto simp: table_sizes_def table_desc_def sorted_iff_nth_mono rev_nth
        simp del: upt_rec_numeral)
  ultimately have "sort (bs @ replicate (17 - length bs) 0) = rev (table_sizes ?sd)"
    by (intro properties_for_sort) simp_all
  then show ?thesis by simp
qed

lemma table_sizes_nth: "i < 17 \<Longrightarrow> table_sizes sd ! i = MaxSize (sd i)"
  by (simp add: table_sizes_def del: upt_rec_numeral)

text \<open>\<^verbatim>\<open>(MemPtr + 3) AND NOT 3\<close> rounds up to a multiple of 4.\<close>

lemma align4:
  assumes "unat (x::u32) + 3 < 2 ^ 32"
  shows "unat x \<le> unat ((x + 3) AND NOT 3) \<and> unat ((x + 3) AND NOT 3) \<le> unat x + 3"
proof -
  let ?w = "x + 3" let ?t = "take_bit 2 ?w"
  have "push_bit 2 (drop_bit 2 ?w) = ?w AND NOT 3"
    by (simp add: word_blast del: bit_not_iff) (simp add: numeral_2_eq_2 numeral_3_eq_3)
  then have "?w AND NOT 3 = ?w - ?t" by (metis bits_ident add_diff_cancel_right')
  moreover have t: "unat ?t = unat ?w mod 4"
    by (simp add: take_bit_eq_mod unat_mod_distrib)
  moreover have "?t \<le> ?w" using t by (simp add: word_le_nat_alt)
  ultimately have "unat (?w AND NOT 3) = unat ?w - unat ?w mod 4"
    by (simp add: unat_sub)
  moreover have "unat ?w = unat x + 3" using assms by (simp add: unat_plus_if')
  moreover have "unat ?w mod 4 < 4" by simp
  ultimately show ?thesis by linarith
qed

definition pool_args_ok :: "addr \<Rightarrow> u32 \<Rightarrow> u32 list \<Rightarrow> u16 \<Rightarrow> (addr \<Rightarrow> BD_t) \<Rightarrow> bool" where
  "pool_args_ok MemPtr Size bs opt mem \<longleftrightarrow> MemPtr \<noteq> 0 \<and> 328 \<le> Size \<and> bs \<noteq> [] \<and> length bs \<le> 17
     \<and> (opt = CFE_ES_USE_MUTEX \<or> opt = CFE_ES_NO_MUTEX)
     \<and> (\<forall>b \<in> set bs. unat MemPtr + unat Size + 19 + unat b < 2 ^ 32)
     \<and> (\<forall>a. CheckBits (mem a) \<noteq> CFE_ES_CHECK_PATTERN)"

lemma PoolCreateEx_wf:
  assumes args: "pool_args_ok MemPtr Size bs opt mem"
  shows "\<exists>p. CFE_ES_PoolCreateEx MemPtr Size (of_nat (length bs)) (Some bs) opt mem = Inr p \<and> pool_wf p
    \<and> pool_live p = Map.empty \<and> MutexHeld p = 0
    \<and> table_sizes (SizeDesc p) = rev (sort (bs @ replicate (17 - length bs) 0))"
proof -
  let ?sd = "SizeDesc_fill 0 bs (\<lambda>_. empty_SizeDesc)" let ?H = "(MemPtr + 3) AND NOT 3"
  note A = args [unfolded pool_args_ok_def]
  have num: "unat (of_nat (length bs) :: u32) = length bs" "(of_nat (length bs) :: u32) \<noteq> 0"
    using A by (auto simp: unat_of_nat unat_eq_0 [symmetric] simp del: unat_eq_0)
  have le: "\<not> 17 < (of_nat (length bs) :: u32)"
    using A num by (simp add: word_less_nat_alt)
  obtain p where p: "CFE_ES_PoolCreateEx MemPtr Size (of_nat (length bs)) (Some bs) opt mem = Inr p"
    and f: "PoolHandle p = ?H" "PoolEnd p = MemPtr + Size" "PoolSize p = MemPtr + Size - ?H"
      "CurrentAddr p = ?H + sizeof_Pool_t" "AlignMask p = 7" "SizeDesc p = ?sd" "bds p = mem" "MutexHeld p = 0"
    using A num le by (auto simp: CFE_ES_PoolCreateEx_def Let_def pool_consts not_less)
  note sorts = SizeDesc_fill_sorts [of bs]
  have b0: "set bs \<noteq> {}" using A by simp
  then have small: "unat MemPtr + unat Size + 19 < 2 ^ 32" using A by (metis add_lessD1 ex_in_conv)
  have "MaxSize (?sd 0) \<in> set (table_sizes ?sd)"
    by (simp add: table_sizes_def)
  then have "MaxSize (?sd 0) \<in> set bs \<or> MaxSize (?sd 0) = 0"
    using A sorts by (auto split: if_splits)
  then have "unat MemPtr + unat Size + 19 + unat (MaxSize (?sd 0)) < 2 ^ 32"
    using A small by auto
  moreover have e: "unat (MemPtr + Size) = unat MemPtr + unat Size"
    using small by (simp add: unat_plus_if')
  moreover have al: "unat MemPtr \<le> unat ?H" "unat ?H \<le> unat MemPtr + 3"
    using align4 [of MemPtr] small by simp_all
  moreover have "328 \<le> unat Size" using A by (simp add: word_le_nat_alt)
  moreover have "unat (?H + 308) = unat ?H + 308"
    using al small \<open>328 \<le> unat Size\<close> by (simp add: unat_plus_if')
  moreover have "?H \<noteq> 0" using al A by (metis le_zero_eq unat_eq_zero unat_0)
  ultimately have "pool_geom p" by (simp add: pool_geom_def f sizeof_Pool_t_def)
  moreover have "pool_sizes_ok p"
    using SizeDesc_fill_desc [of 0 "\<lambda>_. empty_SizeDesc" bs] A
    by (simp add: pool_sizes_ok_def f table_desc_def empty_SizeDesc_def)
  moreover have "pool_blocks p = {}" using A by (simp add: pool_blocks_def f)
  moreover from this have "free_blocks p i = {}" for i by (simp add: free_blocks_def)
  moreover have "Top (SizeDesc p i) = None \<and> NumFree (SizeDesc p i) = 0" for i
    by (simp add: f SizeDesc_fill_rest empty_SizeDesc_def)
  ultimately have "pool_inv p (\<lambda>_. [])" by (simp add: pool_inv_def)
  moreover have "pool_live p = Map.empty"
    using \<open>pool_blocks p = {}\<close> by (auto simp: pool_live_None)
  ultimately show ?thesis using p f sorts A by (auto simp: pool_wf_def)
qed

section \<open>The life of a pool\<close>

lemma pool_fields_kept:
  "PoolHandle (snd (CFE_ES_GetPoolBuf h n p)) = PoolHandle p"
  "MutexHeld (snd (CFE_ES_GetPoolBuf h n p)) = MutexHeld p"
  "PoolHandle (snd (CFE_ES_PutPoolBuf h a p)) = PoolHandle p"
  "MutexHeld (snd (CFE_ES_PutPoolBuf h a p)) = MutexHeld p"
  "PoolHandle (snd (CFE_ES_GetPoolBufInfo h a p)) = PoolHandle p"
  "MutexHeld (snd (CFE_ES_GetPoolBufInfo h a p)) = MutexHeld p"
  by (auto simp: CFE_ES_GetPoolBuf_def CFE_ES_PutPoolBuf_def CFE_ES_GetPoolBufInfo_def Let_def
      CFE_ES_GetBlockSize_def pool_take_def pool_give_def upd_bd_def upd_SizeDesc_def split: option.split)

text \<open>Every history of calls on a pool: any handle, any size, any address.\<close>

inductive pool_reach :: "Pool_t \<Rightarrow> bool" where
  created: "pool_args_ok MemPtr Size bs opt mem \<Longrightarrow>
     CFE_ES_PoolCreateEx MemPtr Size (of_nat (length bs)) (Some bs) opt mem = Inr p \<Longrightarrow> pool_reach p"
| got: "pool_reach p \<Longrightarrow> CFE_ES_GetPoolBuf h n p = (r, p') \<Longrightarrow> pool_reach p'"
| put: "pool_reach p \<Longrightarrow> CFE_ES_PutPoolBuf h a p = (r', p') \<Longrightarrow> pool_reach p'"
| info: "pool_reach p \<Longrightarrow> CFE_ES_GetPoolBufInfo h a p = (r', p') \<Longrightarrow> pool_reach p'"

inductive_cases pool_reachE: "pool_reach p"

lemma pool_wrong_handle:
  "h \<noteq> PoolHandle p \<Longrightarrow> CFE_ES_GetPoolBuf h n p = (Inl CFE_ES_ERR_MEM_HANDLE, p)"
  "h \<noteq> PoolHandle p \<Longrightarrow> CFE_ES_PutPoolBuf h a p = (Inl CFE_ES_ERR_MEM_HANDLE, p)"
  "h \<noteq> PoolHandle p \<Longrightarrow> CFE_ES_GetPoolBufInfo h a p = (Inl CFE_ES_ERR_MEM_HANDLE, p)"
  by (simp_all add: CFE_ES_GetPoolBuf_def CFE_ES_PutPoolBuf_def CFE_ES_GetPoolBufInfo_def)

lemma pool_wf_step:
  assumes "pool_wf p"
  shows "pool_wf (snd (CFE_ES_GetPoolBuf h n p))" and "pool_wf (snd (CFE_ES_GetPoolBufInfo h a p))"
proof -
  show "pool_wf (snd (CFE_ES_GetPoolBuf h n p))"
  proof (cases "h = PoolHandle p")
    case True
    obtain r p' where res: "CFE_ES_GetPoolBuf (PoolHandle p) n p = (r, p')" by fastforce
    have "pool_wf p'"
    proof (cases r)
      case (Inl e)
      then show ?thesis using pool.alloc_err [OF assms] res by blast
    next
      case (Inr x)
      then show ?thesis using pool.alloc_ok [OF assms] res by (cases x) blast
    qed
    then show ?thesis using True res by simp
  qed (simp add: pool_wrong_handle assms)
  show "pool_wf (snd (CFE_ES_GetPoolBufInfo h a p))"
    using assms by (simp add: CFE_ES_GetPoolBufInfo_def Let_def)
qed

text \<open>
  A live block of size 0 exists only in a pool with fewer than 17 block sizes, after a request for 0
  bytes; if it lies at the very end of the pool, giving it back is refused and nothing changes.
\<close>

lemma PutPoolBuf_wf:
  assumes wf: "pool_wf p"
  shows "pool_wf (snd (CFE_ES_PutPoolBuf h a p))"
proof (cases "h = PoolHandle p")
  case h: True
  obtain F where inv: "pool_inv p F" using wf by (auto simp: pool_wf_def)
  show ?thesis
  proof (cases "pool_live p a")
    case None
    from pool.free_err [OF wf this] h show ?thesis by auto
  next
    case (Some sz)
    show ?thesis
    proof (cases "a < PoolHandle p + sizeof_Pool_t + sizeof_BD_t \<or> PoolEnd p \<le> a")
      case True
      then show ?thesis using h wf by (auto simp: CFE_ES_PutPoolBuf_def)
    next
      case False
      then show ?thesis
        using pool.free_ok [OF wf Some] h PutPoolBuf_in_range [OF wf Some] by auto
    qed
  qed
qed (simp add: pool_wrong_handle wf)

lemma pool_reach_wf: "pool_reach p \<Longrightarrow> pool_wf p \<and> MutexHeld p = 0"
proof (induction rule: pool_reach.induct)
  case (created MemPtr Size bs opt mem p)
  with PoolCreateEx_wf [OF created(1)] show ?case by auto
next
  case (got p h n r p')
  with pool_wf_step(1) [of p h n] pool_fields_kept(2) [of h n p] show ?case by simp
next
  case (put p h a r' p')
  with PutPoolBuf_wf [of p h a] pool_fields_kept(4) [of h a p] show ?case by simp
next
  case (info p h a r' p')
  with pool_wf_step(2) [of p h a] pool_fields_kept(6) [of h a p] show ?case by simp
qed

section \<open>Properties\<close>

text \<open>A small pool in zeroed memory, for the witnesses.\<close>

definition demo_pool :: Pool_t where
  "demo_pool = projr (CFE_ES_PoolCreateEx 0x10001 0x1000 3 (Some [64, 16, 32]) CFE_ES_USE_MUTEX
     (\<lambda>_. \<lparr>CheckBits = 0, Allocated = 0, BdSize = 0, BdNext = None\<rparr>))"

lemma demo_args:
  "pool_args_ok 0x10001 0x1000 [64, 16, 32] CFE_ES_USE_MUTEX
     (\<lambda>_. \<lparr>CheckBits = 0, Allocated = 0, BdSize = 0, BdNext = None\<rparr>)"
  by (simp add: pool_args_ok_def CFE_ES_CHECK_PATTERN_def)

lemma demo_pool_reach: "pool_reach demo_pool"
  using PoolCreateEx_wf [OF demo_args] pool_reach.created [OF demo_args]
  by (auto simp: demo_pool_def)

lemma demo_pool_get:
  "fst (CFE_ES_GetPoolBuf 0x10004 20 demo_pool) = Inr (32, 0x10148)"
  by code_simp

text \<open>
  C6: \<^verbatim>\<open>CFE_ES_GetPoolBuf\<close>, after any history of calls on the pool, returns a block that is large enough,
  was not live before, lies inside the pool behind the management structure, and overlaps no other
  live block; the live blocks afterwards are those before and this one, and the mutex is free.
\<close>

theorem CFE_ES_GetPoolBuf_fresh:
  assumes "pool_reach p" and "CFE_ES_GetPoolBuf h n p = (Inr (sz, a), p')"
  shows "n \<le> sz \<and> pool_live p a = None \<and> pool_live p' = (pool_live p)(a \<mapsto> sz)
    \<and> unat (PoolHandle p) + 308 + 12 \<le> unat a \<and> unat a + unat sz \<le> unat (PoolEnd p')
    \<and> (\<forall>b m. pool_live p b = Some m \<longrightarrow> unat a + unat sz \<le> unat b \<or> unat b + unat m \<le> unat a)
    \<and> MutexHeld p' = 0"
proof -
  have wf: "pool_wf p" and reach: "pool_reach p'"
    using pool_reach_wf [OF assms(1)] pool_reach.got [OF assms] by auto
  have h: "h = PoolHandle p"
    using assms(2) pool_wrong_handle(1) [of h p n] by auto
  note A = pool.alloc_ok [OF wf assms(2) [unfolded h]]
  obtain F where inv: "pool_inv p' F" using A by (auto simp: pool_wf_def)
  have live: "pool_live p' a = Some sz" using A by simp
  have "PoolHandle p' = PoolHandle p" using pool_fields_kept(1) [of h n p] assms(2) by simp
  then have "unat (PoolHandle p) + 320 \<le> unat a" "unat a + unat sz \<le> unat (PoolEnd p')"
    using live_block [OF inv live] by auto
  moreover have "unat a + unat sz \<le> unat b \<or> unat b + unat m \<le> unat a" if "pool_live p b = Some m" for b m
    using that A pool.live_disjoint [of p' a sz b m] by (cases "b = a") auto
  ultimately show ?thesis using A pool_reach_wf [OF reach] by auto
qed

theorem CFE_ES_GetPoolBuf_fresh_witness:
  "\<exists>p'. CFE_ES_GetPoolBuf 0x10004 20 demo_pool = (Inr (32, 0x10148), p')
     \<and> pool_live p' = (pool_live demo_pool)(0x10148 \<mapsto> 32)"
proof -
  obtain p' where "CFE_ES_GetPoolBuf 0x10004 20 demo_pool = (Inr (32, 0x10148), p')"
    using demo_pool_get by (metis prod.collapse)
  with CFE_ES_GetPoolBuf_fresh [OF demo_pool_reach this] show ?thesis by auto
qed

text \<open>
  C7: a live block can be given back exactly once: \<^verbatim>\<open>CFE_ES_PutPoolBuf\<close> returns its size and ends its
  life, every other live block keeps its own, and a second release of the same address is refused and
  changes no block.
\<close>

theorem CFE_ES_PutPoolBuf_once:
  assumes "pool_reach p" and "pool_live p a = Some sz" and "0 < sz"
  shows "\<exists>p' p'' e. CFE_ES_PutPoolBuf (PoolHandle p) a p = (Inr sz, p')
    \<and> pool_live p' = (pool_live p)(a := None)
    \<and> CFE_ES_PutPoolBuf (PoolHandle p) a p' = (Inl e, p'') \<and> pool_live p'' = pool_live p'"
proof -
  have wf: "pool_wf p" using pool_reach_wf [OF assms(1)] ..
  from pool.free_ok [OF wf assms(2,3)] obtain p' where
    p': "CFE_ES_PutPoolBuf (PoolHandle p) a p = (Inr sz, p')" "pool_live p' = (pool_live p)(a := None)"
    by blast
  moreover obtain q q' e where "CFE_ES_PutPoolBuf (PoolHandle p) a p = (Inr sz, q)"
    "CFE_ES_PutPoolBuf (PoolHandle q) a q = (Inl e, q')" "pool_live q' = pool_live q"
    using pool.double_free_refused [OF wf assms(2,3)] by blast
  moreover have "PoolHandle p' = PoolHandle p"
    using pool_fields_kept(3) [of "PoolHandle p" a p] p' by simp
  ultimately show ?thesis by auto
qed

theorem CFE_ES_PutPoolBuf_once_witness:
  "\<exists>p p' p'' e. CFE_ES_PutPoolBuf (PoolHandle p) 0x10148 p = (Inr 32, p')
    \<and> CFE_ES_PutPoolBuf (PoolHandle p) 0x10148 p' = (Inl e, p'')"
proof -
  let ?p = "snd (CFE_ES_GetPoolBuf 0x10004 20 demo_pool)"
  have "pool_live ?p 0x10148 = Some 32" by code_simp
  moreover have "pool_reach ?p"
    using pool_reach.got [OF demo_pool_reach] by (metis prod.collapse)
  ultimately show ?thesis using CFE_ES_PutPoolBuf_once [of ?p "0x10148" 32] by auto
qed

text \<open>
  C8: \<^verbatim>\<open>CFE_ES_GetPoolBuf\<close> refuses a request exactly when it is larger than the largest block size, or
  no free block of its size class is left and a new block would end behind the end of the pool; then
  the live blocks stay as they were.
\<close>

theorem CFE_ES_GetPoolBuf_refuses:
  assumes "pool_reach p" and "CFE_ES_GetPoolBuf (PoolHandle p) n p = (r, p')"
  shows "(if MaxSize (SizeDesc p 0) < n
             \<or> Top (SizeDesc p (size_class p n)) = None
               \<and> unat (PoolEnd p) < unat ((CurrentAddr p + 12 + 7) AND NOT 7)
                   + unat (MaxSize (SizeDesc p (size_class p n)))
          then r = Inl CFE_ES_ERR_MEM_BLOCK_SIZE \<and> pool_live p' = pool_live p
          else isl r = False)"
proof -
  obtain F where inv: "pool_inv p F" using pool_reach_wf [OF assms(1)] by (auto simp: pool_wf_def)
  have i: "size_class p n < 17" using size_class_le [of p n] by simp
  note geom = pool_invD(1) [OF inv]
  have mask: "(CurrentAddr p + 12 + 7) AND NOT 7 = (CurrentAddr p + sizeof_BD_t + AlignMask p) AND NOT (AlignMask p)"
    using geom by (simp add: pool_geom_def sizeof_BD_t_def)
  note eqs = mask free_list_top [OF inv i]
    pool_new_block(3) [OF geom pool_invD(2) [OF inv] i refl refl, symmetric]
  from inv assms(2) show ?thesis
  proof (cases rule: GetPoolBuf_cases)
    case error
    from error(3) have "MaxSize (SizeDesc p 0) < n \<or> F (size_class p n) = []
        \<and> PoolSize p \<le> PoolEnd p - ((CurrentAddr p + sizeof_BD_t + AlignMask p AND NOT (AlignMask p))
            + MaxSize (SizeDesc p (size_class p n)))" by (simp only: not_le)
    with error(1) pool_live_core [OF error(2)] show ?thesis unfolding eqs by auto
  next
    case (recycle bd rest)
    then show ?thesis unfolding eqs by (simp add: not_less)
  next
    case extend
    then show ?thesis unfolding eqs by (simp add: not_less)
  qed
qed

theorem CFE_ES_GetPoolBuf_refuses_witness:
  "fst (CFE_ES_GetPoolBuf 0x10004 65 demo_pool) = Inl CFE_ES_ERR_MEM_BLOCK_SIZE"
proof -
  have "PoolHandle demo_pool = 0x10004" "MaxSize (SizeDesc demo_pool 0) < 65" by code_simp+
  with CFE_ES_GetPoolBuf_refuses [OF demo_pool_reach, of 65] show ?thesis
    by (metis prod.collapse)
qed

text \<open>
  C9: \<^verbatim>\<open>CFE_ES_PoolCreateEx\<close> on valid arguments and fresh memory makes a well-formed pool without live
  blocks whose block size table is the given sizes, sorted in decreasing order and padded with zeros,
  whatever the order in which the caller lists them.
\<close>

theorem CFE_ES_PoolCreateEx_sorts:
  assumes "pool_args_ok MemPtr Size bs opt mem"
  shows "\<exists>p. CFE_ES_PoolCreateEx MemPtr Size (of_nat (length bs)) (Some bs) opt mem = Inr p \<and> pool_wf p
    \<and> pool_live p = Map.empty \<and> MutexHeld p = 0
    \<and> map (\<lambda>i. MaxSize (SizeDesc p i)) [0..<17] = rev (sort (bs @ replicate (17 - length bs) 0))"
  using PoolCreateEx_wf [OF assms] by (simp add: table_sizes_def)

theorem CFE_ES_PoolCreateEx_sorts_witness:
  "\<exists>p. CFE_ES_PoolCreateEx 0x10001 0x1000 3 (Some [64, 16, 32]) CFE_ES_USE_MUTEX
      (\<lambda>_. \<lparr>CheckBits = 0, Allocated = 0, BdSize = 0, BdNext = None\<rparr>) = Inr p
    \<and> map (\<lambda>i. MaxSize (SizeDesc p i)) [0..<17] = [64, 32, 16] @ replicate 14 0"
proof -
  have eq: "rev (sort ([64, 16, 32] @ replicate (17 - length [64, 16, 32 :: u32]) 0))
      = [64, 32, 16] @ replicate 14 (0 :: u32)" by code_simp
  have len: "of_nat (length [64, 16, 32 :: u32]) = (3 :: u32)" by simp
  from CFE_ES_PoolCreateEx_sorts [OF demo_args] show ?thesis unfolding eq len by blast
qed

end
