(* ===== verification/OS_IdMap.thy ===== *)
theory OS_IdMap
  imports Prelude
begin

text \<open>
  The object identifiers of the OS abstraction layer: \<^verbatim>\<open>osal/src/os/shared/osapi-idmap.c\<close>.

  Every OSAL object (task, queue, semaphore, ...) has a record in one flat table, \<open>OS_common_table\<close>; the
  object types own consecutive sections of it.  An identifier is the type in the upper and a running
  number in the lower half word; its table slot is that number modulo the size of the section.

  The functions run under the lock of the object type: \<open>os_locks\<close> counts how often each is held.  What other
  tasks do to a record while \<^verbatim>\<open>OS_ObjectIdConvertLock\<close> has given the lock away to wait is the field
  \<open>interfere\<close> of the state, so its retry loop is complete.  \<open>cur_task\<close> is the answer of \<^verbatim>\<open>OS_TaskGetId\<close>.
\<close>

unbundle bit_operations_syntax

section \<open>Data\<close>

datatype OS_Status =
    OS_SUCCESS
  | OS_ERROR
  | OS_INVALID_POINTER
  | OS_QUEUE_EMPTY
  | OS_QUEUE_FULL
  | OS_QUEUE_TIMEOUT
  | OS_QUEUE_INVALID_SIZE
  | OS_ERR_NAME_TOO_LONG
  | OS_ERR_NO_FREE_IDS
  | OS_ERR_NAME_TAKEN
  | OS_ERR_INVALID_ID
  | OS_ERR_NAME_NOT_FOUND
  | OS_ERR_NOT_IMPLEMENTED
  | OS_ERR_OBJECT_IN_USE
  | OS_ERR_INCORRECT_OBJ_STATE
  | OS_ERR_INCORRECT_OBJ_TYPE

datatype OS_lock_mode_t =
    OS_LOCK_MODE_NONE | OS_LOCK_MODE_GLOBAL | OS_LOCK_MODE_EXCLUSIVE | OS_LOCK_MODE_REFCOUNT

record OS_common_record_t =
  name_entry :: "string option"
  active_id :: u32
  creator :: u32
  refcount :: u16
  flags :: u16

record OS_ids =
  Initialized :: bool
  ShutdownFlag :: u32
  OS_common_table :: "nat \<Rightarrow> OS_common_record_t"
  OS_last_id_issued :: "nat \<Rightarrow> u32"
  os_locks :: "nat \<Rightarrow> int"
  cur_task :: u32
  interfere :: "nat \<Rightarrow> OS_common_record_t \<Rightarrow> OS_common_record_t"

definition OS_SHUTDOWN_MAGIC_NUMBER :: u32 where "OS_SHUTDOWN_MAGIC_NUMBER = 0xABADC0DE"
definition OS_OBJECT_EXCL_REQ_FLAG :: u16 where "OS_OBJECT_EXCL_REQ_FLAG = 1"
definition OS_OBJECT_INDEX_MASK :: u32 where "OS_OBJECT_INDEX_MASK = 0xFFFF"
definition OS_OBJECT_TYPE_OS_TASK :: u32 where "OS_OBJECT_TYPE_OS_TASK = 1"
definition OS_OBJECT_TYPE_OS_QUEUE :: u32 where "OS_OBJECT_TYPE_OS_QUEUE = 2"
definition OS_OBJECT_TYPE_USER :: u32 where "OS_OBJECT_TYPE_USER = 16"

abbreviation (input) OS_MAX_API_NAME :: nat where "OS_MAX_API_NAME \<equiv> 20"

text \<open>\<^verbatim>\<open>OS_Lock_Global_Impl\<close> and \<^verbatim>\<open>OS_Unlock_Global_Impl\<close>.\<close>

definition OS_Lock_Global :: "u32 \<Rightarrow> 'a OS_ids_scheme \<Rightarrow> 'a OS_ids_scheme" where
  "OS_Lock_Global t s = s\<lparr>os_locks := (os_locks s)(unat t := os_locks s (unat t) + 1)\<rparr>"

definition OS_Unlock_Global :: "u32 \<Rightarrow> 'a OS_ids_scheme \<Rightarrow> 'a OS_ids_scheme" where
  "OS_Unlock_Global t s = s\<lparr>os_locks := (os_locks s)(unat t := os_locks s (unat t) - 1)\<rparr>"

definition upd_record ::
  "nat \<Rightarrow> (OS_common_record_t \<Rightarrow> OS_common_record_t) \<Rightarrow> 'a OS_ids_scheme \<Rightarrow> 'a OS_ids_scheme" where
  "upd_record i f s = s\<lparr>OS_common_table := (OS_common_table s)(i := f (OS_common_table s i))\<rparr>"

section \<open>Identifiers\<close>

definition OS_ObjectIdInit :: "'a OS_ids_scheme \<Rightarrow> 'a OS_ids_scheme" where
  "OS_ObjectIdInit s = s\<lparr>OS_common_table := (\<lambda>_. \<lparr>name_entry = None, active_id = 0, creator = 0, refcount = 0, flags = 0\<rparr>),
     OS_last_id_issued := (\<lambda>_. 0)\<rparr>"

text \<open>The functions with an output parameter return the value stored there and the status.\<close>

definition OS_ObjectIdMap :: "u32 \<Rightarrow> u32 \<Rightarrow> u32 \<times> OS_Status" where
  "OS_ObjectIdMap idtype idvalue =
     (push_bit 16 idtype OR idvalue,
      if idtype = 0 \<or> idvalue AND NOT OS_OBJECT_INDEX_MASK \<noteq> 0 then OS_ERR_INVALID_ID else OS_SUCCESS)"

definition OS_ObjectIdUnMap :: "u32 \<Rightarrow> u32 \<Rightarrow> u32 \<times> OS_Status" where
  "OS_ObjectIdUnMap oid idtype =
     (oid AND OS_OBJECT_INDEX_MASK, if drop_bit 16 oid \<noteq> idtype then OS_ERR_INVALID_ID else OS_SUCCESS)"

definition OS_GetMaxForObjectType :: "u32 \<Rightarrow> nat" where
  "OS_GetMaxForObjectType idtype =
     (if idtype = 1 then 64
      else if idtype = 2 then 64
      else if idtype = 4 then 20
      else if idtype = 3 then 20
      else if idtype = 5 then 20
      else if idtype = 6 then 50
      else if idtype = 7 then 4
      else if idtype = 8 then 5
      else if idtype = 9 then 5
      else if idtype = 10 then 32
      else if idtype = 11 then 14
      else if idtype = 12 then 1
      else 0)"

definition OS_GetBaseForObjectType :: "u32 \<Rightarrow> nat" where
  "OS_GetBaseForObjectType idtype =
     (if idtype = 1 then 0
      else if idtype = 2 then 64
      else if idtype = 4 then 128
      else if idtype = 3 then 148
      else if idtype = 5 then 168
      else if idtype = 6 then 188
      else if idtype = 7 then 238
      else if idtype = 8 then 242
      else if idtype = 9 then 247
      else if idtype = 10 then 252
      else if idtype = 11 then 284
      else if idtype = 12 then 298
      else 0)"

definition OS_ObjectNameMatch :: "string \<Rightarrow> OS_common_record_t \<Rightarrow> bool" where
  "OS_ObjectNameMatch ref obj = (case name_entry obj of None \<Rightarrow> False | Some n \<Rightarrow> ref = n)"

definition OS_ObjectIdInitiateLock :: "OS_lock_mode_t \<Rightarrow> u32 \<Rightarrow> 'a OS_ids_scheme \<Rightarrow> 'a OS_ids_scheme" where
  "OS_ObjectIdInitiateLock lock_mode idtype s =
     (if lock_mode \<noteq> OS_LOCK_MODE_NONE then OS_Lock_Global idtype s else s)"

section \<open>Waiting for an object\<close>

text \<open>
  The body of the loop of \<^verbatim>\<open>OS_ObjectIdConvertLock\<close> on the record in slot \<open>i\<close>: the return code, or \<open>None\<close>
  when it has to wait; \<open>excl\<close> is \<^verbatim>\<open>exclusive_bits\<close>.
\<close>

definition ConvertLock_try ::
  "OS_lock_mode_t \<Rightarrow> u32 \<Rightarrow> nat \<Rightarrow> u16 \<Rightarrow> 'a OS_ids_scheme \<Rightarrow> OS_Status option \<times> u16 \<times> 'a OS_ids_scheme" where
  "ConvertLock_try lock_mode reference_id i excl s =
     (let obj = OS_common_table s i
      in if active_id obj \<noteq> reference_id then (Some OS_ERR_INVALID_ID, excl, s)
         else case lock_mode of
           OS_LOCK_MODE_REFCOUNT \<Rightarrow>
             if flags obj AND OS_OBJECT_EXCL_REQ_FLAG = 0
             then (Some OS_SUCCESS, excl, upd_record i (\<lambda>r. r\<lparr>refcount := refcount r + 1\<rparr>) s)
             else (None, excl, s)
         | OS_LOCK_MODE_EXCLUSIVE \<Rightarrow>
             if excl \<noteq> 0 \<or> flags obj AND OS_OBJECT_EXCL_REQ_FLAG = 0
             then if refcount obj = 0 then (Some OS_SUCCESS, excl, s)
                  else (None, OS_OBJECT_EXCL_REQ_FLAG,
                        upd_record i (\<lambda>r. r\<lparr>flags := flags r OR OS_OBJECT_EXCL_REQ_FLAG\<rparr>) s)
             else (None, excl, s)
         | _ \<Rightarrow> (Some OS_SUCCESS, excl, s))"

text \<open>The loop: \<open>attempts\<close> counts the waits; at the fifth unsuccessful attempt it gives up.\<close>

function ConvertLock_loop ::
  "OS_lock_mode_t \<Rightarrow> u32 \<Rightarrow> u32 \<Rightarrow> nat \<Rightarrow> nat \<Rightarrow> u16 \<Rightarrow> 'a OS_ids_scheme \<Rightarrow> OS_Status \<times> u16 \<times> 'a OS_ids_scheme" where
  "ConvertLock_loop lock_mode idtype reference_id i attempts excl s =
     (case ConvertLock_try lock_mode reference_id i excl s of
        (Some return_code, excl, s) \<Rightarrow> (return_code, excl, s)
      | (None, excl, s) \<Rightarrow>
          if attempts + 1 \<ge> 5 then (OS_ERR_OBJECT_IN_USE, excl, s)
          else ConvertLock_loop lock_mode idtype reference_id i (attempts + 1) excl
                 (OS_Lock_Global idtype (upd_record i (interfere s attempts) (OS_Unlock_Global idtype s))))"
  by pat_completeness auto
termination
  by (relation "measure (\<lambda>(_, _, _, _, attempts, _, _). 5 - attempts)") auto

declare ConvertLock_loop.simps [simp del]

definition OS_ObjectIdConvertLock ::
  "OS_lock_mode_t \<Rightarrow> u32 \<Rightarrow> u32 \<Rightarrow> nat \<Rightarrow> 'a OS_ids_scheme \<Rightarrow> OS_Status \<times> 'a OS_ids_scheme" where
  "OS_ObjectIdConvertLock lock_mode idtype reference_id i s =
     (let (return_code, exclusive_bits, s) = ConvertLock_loop lock_mode idtype reference_id i 0 0 s
      in if lock_mode \<noteq> OS_LOCK_MODE_NONE
         then let s = upd_record i (\<lambda>r. r\<lparr>flags := flags r AND NOT exclusive_bits\<rparr>) s
              in (return_code,
                  if return_code \<noteq> OS_SUCCESS \<or> lock_mode = OS_LOCK_MODE_REFCOUNT
                  then OS_Unlock_Global idtype s else s)
         else (return_code, s))"

section \<open>Search and allocation\<close>

text \<open>\<^verbatim>\<open>OS_ObjectIdSearch\<close> returns the slot of the first active record that matches.\<close>

primrec Search_loop :: "nat \<Rightarrow> nat \<Rightarrow> (OS_common_record_t \<Rightarrow> bool) \<Rightarrow> (nat \<Rightarrow> OS_common_record_t) \<Rightarrow> nat option" where
  "Search_loop 0 i MatchFunc tbl = None"
| "Search_loop (Suc obj_count) i MatchFunc tbl =
     (if active_id (tbl i) \<noteq> 0 \<and> MatchFunc (tbl i) then Some i
      else Search_loop obj_count (Suc i) MatchFunc tbl)"

definition OS_ObjectIdSearch :: "u32 \<Rightarrow> (OS_common_record_t \<Rightarrow> bool) \<Rightarrow> 'a OS_ids_scheme \<Rightarrow> OS_Status \<times> nat option" where
  "OS_ObjectIdSearch idtype MatchFunc s =
     (case Search_loop (OS_GetMaxForObjectType idtype) (OS_GetBaseForObjectType idtype) MatchFunc (OS_common_table s) of
        None \<Rightarrow> (OS_ERR_NAME_NOT_FOUND, None)
      | Some i \<Rightarrow> (OS_SUCCESS, Some i))"

text \<open>The search for a free slot: it starts behind the last identifier issued and tries every slot once.\<close>

primrec FindNext_loop :: "nat \<Rightarrow> nat \<Rightarrow> nat \<Rightarrow> u32 \<Rightarrow> (nat \<Rightarrow> OS_common_record_t) \<Rightarrow> (u32 \<times> nat) option" where
  "FindNext_loop 0 max_id base_id idvalue tbl = None"
| "FindNext_loop (Suc n) max_id base_id idvalue tbl =
     (let idvalue = idvalue + 1; local_id = unat idvalue mod max_id;
          idvalue = (if idvalue \<ge> OS_OBJECT_INDEX_MASK then of_nat local_id else idvalue)
      in if active_id (tbl (local_id + base_id)) = 0 then Some (idvalue, local_id)
         else FindNext_loop n max_id base_id idvalue tbl)"

definition OS_ObjectIdFindNext :: "u32 \<Rightarrow> 'a OS_ids_scheme \<Rightarrow> (OS_Status + nat) \<times> 'a OS_ids_scheme" where
  "OS_ObjectIdFindNext idtype s =
     (let base_id = OS_GetBaseForObjectType idtype; max_id = OS_GetMaxForObjectType idtype
      in if max_id = 0 then (Inl OS_ERR_NOT_IMPLEMENTED, s)
         else case FindNext_loop max_id max_id base_id (OS_last_id_issued s (unat idtype) AND OS_OBJECT_INDEX_MASK)
                     (OS_common_table s) of
           None \<Rightarrow> (Inl OS_ERR_NO_FREE_IDS, s)
         | Some (idvalue, local_id) \<Rightarrow>
             let (new_id, return_code) = OS_ObjectIdMap idtype idvalue;
                 s = upd_record (local_id + base_id) (\<lambda>r. r\<lparr>active_id := new_id, name_entry := None,
                       creator := cur_task s, refcount := 0\<rparr>) s
             in (if return_code = OS_SUCCESS then Inr local_id else Inl return_code, s))"

definition OS_ObjectIdToArrayIndex :: "u32 \<Rightarrow> u32 \<Rightarrow> OS_Status \<times> nat" where
  "OS_ObjectIdToArrayIndex idtype oid =
     (let max_id = OS_GetMaxForObjectType idtype
      in if max_id = 0 then (OS_ERR_INVALID_ID, 0)
         else let (idvalue, return_code) = OS_ObjectIdUnMap oid idtype
              in (return_code, unat idvalue mod max_id))"

definition OS_ObjectIdFinalizeNew :: "OS_Status \<Rightarrow> nat \<Rightarrow> 'a OS_ids_scheme \<Rightarrow> (OS_Status \<times> u32) \<times> 'a OS_ids_scheme" where
  "OS_ObjectIdFinalizeNew operation_status i s =
     (let idtype = drop_bit 16 (active_id (OS_common_table s i));
          (operation_status, s) =
            (if operation_status \<noteq> OS_SUCCESS then (operation_status, upd_record i (\<lambda>r. r\<lparr>active_id := 0\<rparr>) s)
             else if idtype = 0 \<or> idtype \<ge> OS_OBJECT_TYPE_USER
             then (OS_ERR_INVALID_ID, upd_record i (\<lambda>r. r\<lparr>active_id := 0\<rparr>) s)
             else (operation_status,
                   s\<lparr>OS_last_id_issued := (OS_last_id_issued s)(unat idtype := active_id (OS_common_table s i))\<rparr>))
      in ((operation_status, active_id (OS_common_table s i)), OS_Unlock_Global idtype s))"

definition OS_ObjectIdGetBySearch ::
  "OS_lock_mode_t \<Rightarrow> u32 \<Rightarrow> (OS_common_record_t \<Rightarrow> bool) \<Rightarrow> 'a OS_ids_scheme \<Rightarrow> (OS_Status \<times> nat option) \<times> 'a OS_ids_scheme" where
  "OS_ObjectIdGetBySearch lock_mode idtype MatchFunc s =
     (let s = OS_ObjectIdInitiateLock lock_mode idtype s
      in case OS_ObjectIdSearch idtype MatchFunc s of
           (return_code, Some i) \<Rightarrow>
             let (return_code, s) = OS_ObjectIdConvertLock lock_mode idtype (active_id (OS_common_table s i)) i s
             in ((return_code, Some i), s)
         | (return_code, None) \<Rightarrow>
             ((return_code, None), if lock_mode \<noteq> OS_LOCK_MODE_NONE then OS_Unlock_Global idtype s else s))"

definition OS_ObjectIdGetByName ::
  "OS_lock_mode_t \<Rightarrow> u32 \<Rightarrow> string \<Rightarrow> 'a OS_ids_scheme \<Rightarrow> (OS_Status \<times> nat option) \<times> 'a OS_ids_scheme" where
  "OS_ObjectIdGetByName lock_mode idtype name s =
     OS_ObjectIdGetBySearch lock_mode idtype (OS_ObjectNameMatch name) s"

definition OS_ObjectIdFindByName :: "u32 \<Rightarrow> string option \<Rightarrow> 'a OS_ids_scheme \<Rightarrow> (OS_Status + u32) \<times> 'a OS_ids_scheme" where
  "OS_ObjectIdFindByName idtype name s =
     (case name of
        None \<Rightarrow> (Inl OS_ERR_NAME_NOT_FOUND, s)
      | Some n \<Rightarrow>
          if length n \<ge> OS_MAX_API_NAME then (Inl OS_ERR_NAME_TOO_LONG, s)
          else case OS_ObjectIdGetByName OS_LOCK_MODE_GLOBAL idtype n s of
                 ((OS_SUCCESS, Some i), s) \<Rightarrow> (Inr (active_id (OS_common_table s i)), OS_Unlock_Global idtype s)
               | ((return_code, _), s) \<Rightarrow> (Inl return_code, s))"

text \<open>The result is the status and the slot within the section of the type, when one was computed.\<close>

definition OS_ObjectIdGetById ::
  "OS_lock_mode_t \<Rightarrow> u32 \<Rightarrow> u32 \<Rightarrow> 'a OS_ids_scheme \<Rightarrow> (OS_Status + nat) \<times> 'a OS_ids_scheme" where
  "OS_ObjectIdGetById lock_mode idtype oid s =
     (if \<not> Initialized s then (Inl OS_ERROR, s)
      else if ShutdownFlag s = OS_SHUTDOWN_MAGIC_NUMBER \<and> lock_mode \<noteq> OS_LOCK_MODE_EXCLUSIVE
      then (Inl OS_ERR_INCORRECT_OBJ_STATE, s)
      else
        let (return_code, array_index) = OS_ObjectIdToArrayIndex idtype oid
        in if return_code \<noteq> OS_SUCCESS then (Inl return_code, s)
           else
             let s = OS_ObjectIdInitiateLock lock_mode idtype s;
                 (return_code, s) = OS_ObjectIdConvertLock lock_mode idtype oid
                                      (array_index + OS_GetBaseForObjectType idtype) s
             in (if return_code = OS_SUCCESS then Inr array_index else Inl return_code, s))"

definition OS_ObjectIdRefcountDecr :: "nat \<Rightarrow> 'a OS_ids_scheme \<Rightarrow> OS_Status \<times> 'a OS_ids_scheme" where
  "OS_ObjectIdRefcountDecr i s =
     (let idtype = drop_bit 16 (active_id (OS_common_table s i))
      in if idtype = 0 \<or> active_id (OS_common_table s i) = 0 then (OS_ERR_INVALID_ID, s)
         else
           let s = OS_Lock_Global idtype s;
               (return_code, s) =
                 (if refcount (OS_common_table s i) > 0
                  then (OS_SUCCESS, upd_record i (\<lambda>r. r\<lparr>refcount := refcount r - 1\<rparr>) s)
                  else (OS_ERR_INCORRECT_OBJ_STATE, s))
           in (return_code, OS_Unlock_Global idtype s))"

definition OS_ObjectIdAllocateNew :: "u32 \<Rightarrow> string option \<Rightarrow> 'a OS_ids_scheme \<Rightarrow> (OS_Status + nat) \<times> 'a OS_ids_scheme" where
  "OS_ObjectIdAllocateNew idtype name s =
     (if \<not> Initialized s \<or> ShutdownFlag s = OS_SHUTDOWN_MAGIC_NUMBER then (Inl OS_ERROR, s)
      else if idtype \<ge> OS_OBJECT_TYPE_USER then (Inl OS_ERR_INCORRECT_OBJ_TYPE, s)
      else
        let s = OS_Lock_Global idtype s;
            return_code = (case name of None \<Rightarrow> OS_ERR_NAME_NOT_FOUND
                           | Some n \<Rightarrow> fst (OS_ObjectIdSearch idtype (OS_ObjectNameMatch n) s));
            (res, s) = (if return_code = OS_SUCCESS then (Inl OS_ERR_NAME_TAKEN, s) else OS_ObjectIdFindNext idtype s)
        in case res of
             Inl e \<Rightarrow> (Inl e, OS_Unlock_Global idtype s)
           | Inr i \<Rightarrow> (Inr i, s))"

definition OS_ConvertToArrayIndex :: "u32 \<Rightarrow> OS_Status \<times> nat option" where
  "OS_ConvertToArrayIndex object_id =
     (let max_id = OS_GetMaxForObjectType (drop_bit 16 object_id)
      in if max_id = 0 then (OS_ERR_INCORRECT_OBJ_TYPE, None)
         else (OS_SUCCESS, Some (unat (object_id AND OS_OBJECT_INDEX_MASK) mod max_id)))"

definition OS_IdentifyObject :: "u32 \<Rightarrow> u32" where
  "OS_IdentifyObject object_id = drop_bit 16 object_id"

section \<open>The search for a free slot\<close>

lemma MaxForObjectType_le: "OS_GetMaxForObjectType t \<le> 64"
  by (simp add: OS_GetMaxForObjectType_def)

lemma range_Suc:
  "(\<forall>k. 1 \<le> k \<and> k \<le> Suc n \<longrightarrow> P k) \<longleftrightarrow> P 1 \<and> (\<forall>k. 1 \<le> k \<and> k \<le> n \<longrightarrow> P (Suc k))"
proof (intro iffI conjI allI impI)
  fix k assume "P 1 \<and> (\<forall>k. 1 \<le> k \<and> k \<le> n \<longrightarrow> P (Suc k))" "1 \<le> k \<and> k \<le> Suc n"
  then show "P k" by (cases k; cases "k = 1") auto
qed auto

lemma FindNext_loop_None:
  assumes "0 < m" and "m \<le> 64" and "unat v \<le> 0xFFFF"
  shows "FindNext_loop n m base v tbl = None \<longleftrightarrow>
    (\<forall>k. 1 \<le> k \<and> k \<le> n \<longrightarrow> active_id (tbl ((unat v + k) mod m + base)) \<noteq> 0)"
  using assms(3)
proof (induction n arbitrary: v)
  case (Suc n)
  let ?v = "if v + 1 \<ge> OS_OBJECT_INDEX_MASK then of_nat (unat (v + 1) mod m) else v + 1"
  have v1: "unat (v + 1) = unat v + 1"
    using Suc.prems by (simp add: unat_plus_if')
  have lt: "(unat v + 1) mod m < m" using assms(1) by simp
  then have small: "unat (of_nat ((unat v + 1) mod m) :: u32) = (unat v + 1) mod m"
    using assms(2) by (simp add: unat_of_nat)
  have le: "unat ?v \<le> 0xFFFF"
    using v1 small lt assms(2) Suc.prems
    by (auto simp: OS_OBJECT_INDEX_MASK_def word_le_nat_alt)
  have res: "(unat ?v + k) mod m = (unat v + Suc k) mod m" for k
    using v1 small by (simp add: mod_simps)
  note IH = Suc.IH [OF le, unfolded res]
  show ?case
    unfolding range_Suc FindNext_loop.simps Let_def using IH v1 by auto
qed auto

text \<open>Any \<open>m\<close> consecutive numbers cover all residues modulo \<open>m\<close>.\<close>

lemma residues_cover:
  fixes m :: nat
  assumes "0 < m"
  shows "(\<forall>k. 1 \<le> k \<and> k \<le> m \<longrightarrow> P ((v + k) mod m + b)) \<longleftrightarrow> (\<forall>k\<in>{b ..< b + m}. P k)"
proof (intro iffI ballI allI impI)
  fix k assume all: "\<forall>k. 1 \<le> k \<and> k \<le> m \<longrightarrow> P ((v + k) mod m + b)" and k: "k \<in> {b ..< b + m}"
  define w where "w = v mod m"
  define j where "j = (k - b) + (m - w)"
  define i where "i = (if m < j then j - m else j)"
  have vm: "w < m" using assms by (simp add: w_def)
  have "1 \<le> i \<and> i \<le> m" using k vm by (auto simp: i_def j_def)
  moreover have "(v + i) mod m = k - b"
  proof -
    have "(v + j) mod m = (w + j) mod m" by (simp add: w_def mod_simps)
    also have "w + j = (k - b) + m" using vm by (simp add: j_def)
    finally have "(v + j) mod m = k - b" using k by auto
    moreover have "(v + j) mod m = (v + i) mod m"
    proof (cases "m < j")
      case True
      then have "v + j = (v + i) + m" by (simp add: i_def)
      then show ?thesis by (metis mod_add_self2)
    next
      case False
      then show ?thesis using vm by (simp add: i_def j_def)
    qed
    ultimately show ?thesis by simp
  qed
  ultimately show "P k" using all k by (metis atLeastLessThan_iff le_add_diff_inverse2)
next
  fix k assume "\<forall>k\<in>{b ..< b + m}. P k"
  moreover have "(v + k) mod m + b \<in> {b ..< b + m}" using assms by simp
  ultimately show "P ((v + k) mod m + b)" by blast
qed

lemma FindNext_loop_Some:
  assumes "0 < m" and "m \<le> 64" and "unat v \<le> 0xFFFF"
    and "FindNext_loop n m base v tbl = Some (idv, loc)"
  shows "loc < m \<and> active_id (tbl (loc + base)) = 0 \<and> unat idv mod m = loc \<and> unat idv < 0xFFFF
    \<and> (unat v < unat idv \<and> unat idv \<le> unat v + n \<or> unat idv < m + n \<and> 0xFFFF \<le> unat v + n)"
  using assms(3,4)
proof (induction n arbitrary: v)
  case (Suc n)
  let ?w = "v + 1"
  let ?v = "if ?w \<ge> OS_OBJECT_INDEX_MASK then of_nat (unat ?w mod m) else ?w"
  have v1: "unat ?w = unat v + 1"
    using Suc.prems by (simp add: unat_plus_if')
  have lt: "(unat v + 1) mod m < m" using assms(1) by simp
  then have small: "unat (of_nat ((unat v + 1) mod m) :: u32) = (unat v + 1) mod m"
    using assms(2) by (simp add: unat_of_nat)
  have le: "unat ?v < 0xFFFF" and up: "unat ?v = unat v + 1 \<or> unat ?v < m \<and> 0xFFFF \<le> unat v + 1"
    and md: "unat ?v mod m = (unat v + 1) mod m"
    using v1 small lt assms(2) Suc.prems(1)
    by (auto simp: OS_OBJECT_INDEX_MASK_def word_le_nat_alt)
  show ?case
  proof (cases "active_id (tbl ((unat v + 1) mod m + base)) = 0")
    case True
    then have "idv = ?v" "loc = (unat v + 1) mod m"
      using Suc.prems(2) v1 by (auto simp: Let_def)
    then show ?thesis using True le up md lt by auto
  next
    case False
    then have "FindNext_loop n m base ?v tbl = Some (idv, loc)"
      using Suc.prems(2) v1 by (auto simp: Let_def)
    from Suc.IH [OF less_imp_le [OF le] this] up show ?thesis by auto
  qed
qed simp

section \<open>Identifiers and slots\<close>

text \<open>The sections of the object types do not overlap.\<close>

lemma section_inj:
  "i < OS_GetMaxForObjectType t \<Longrightarrow> j < OS_GetMaxForObjectType t' \<Longrightarrow>
   i + OS_GetBaseForObjectType t = j + OS_GetBaseForObjectType t' \<Longrightarrow> t = t' \<and> i = j"
  unfolding OS_GetMaxForObjectType_def OS_GetBaseForObjectType_def
  by (simp split: if_splits)

lemma Max_type_small:
  "0 < OS_GetMaxForObjectType t \<Longrightarrow> t \<noteq> 0 \<and> t < OS_OBJECT_TYPE_USER"
  unfolding OS_GetMaxForObjectType_def OS_OBJECT_TYPE_USER_def by (simp split: if_splits)

lemma not_bit_high: "unat (x::u32) < 2 ^ 16 \<Longrightarrow> 16 \<le> n \<Longrightarrow> \<not> bit x n"
proof
  assume "unat x < 2 ^ 16" "16 \<le> n" "bit x n"
  then have "take_bit 16 (unat x) = unat x" by (simp add: take_bit_eq_mod)
  then have "take_bit 16 x = x" by (metis unsigned_take_bit_eq unsigned_word_eqI)
  with \<open>16 \<le> n\<close> \<open>bit x n\<close> show False by (metis bit_take_bit_iff not_less)
qed

lemma ObjectIdMap_fields:
  assumes "t < OS_OBJECT_TYPE_USER" and "unat v < 2 ^ 16"
  shows "drop_bit 16 (push_bit 16 t OR v) = t" and "(push_bit 16 t OR v) AND OS_OBJECT_INDEX_MASK = v"
    and "v AND NOT OS_OBJECT_INDEX_MASK = 0"
proof -
  have "unat t < 2 ^ 16" using assms(1) by (simp add: OS_OBJECT_TYPE_USER_def word_less_nat_alt)
  then have t: "bit t n \<Longrightarrow> n < 16" for n using not_bit_high [of t n] by (meson not_le)
  have v: "bit v n \<Longrightarrow> n < 16" for n using not_bit_high [OF assms(2), of n] by (meson not_le)
  have eq: "OS_OBJECT_INDEX_MASK = mask 16" by (simp add: OS_OBJECT_INDEX_MASK_def mask_eq_exp_minus_1)
  have m: "bit OS_OBJECT_INDEX_MASK n \<longleftrightarrow> n < 16" for n unfolding eq bit_mask_iff by auto
  show "drop_bit 16 (push_bit 16 t OR v) = t" and "(push_bit 16 t OR v) AND OS_OBJECT_INDEX_MASK = v"
    and "v AND NOT OS_OBJECT_INDEX_MASK = 0"
    by (auto intro!: bit_word_eqI simp: bit_simps m dest: t v)
qed

definition ids_wf :: "'a OS_ids_scheme \<Rightarrow> bool" where
  "ids_wf s \<longleftrightarrow> (\<forall>t i. i < OS_GetMaxForObjectType t \<longrightarrow>
     (let a = active_id (OS_common_table s (i + OS_GetBaseForObjectType t))
      in a \<noteq> 0 \<longrightarrow> drop_bit 16 a = t \<and> unat (a AND OS_OBJECT_INDEX_MASK) mod OS_GetMaxForObjectType t = i))"

lemma ids_wfD:
  "ids_wf s \<Longrightarrow> i < OS_GetMaxForObjectType t \<Longrightarrow>
   active_id (OS_common_table s (i + OS_GetBaseForObjectType t)) = a \<Longrightarrow> a \<noteq> 0 \<Longrightarrow>
   drop_bit 16 a = t \<and> unat (a AND OS_OBJECT_INDEX_MASK) mod OS_GetMaxForObjectType t = i"
  by (auto simp: ids_wf_def Let_def)

text \<open>An active identifier belongs to exactly one slot.\<close>

lemma active_id_unique:
  assumes "ids_wf s" and "i < OS_GetMaxForObjectType t" and "j < OS_GetMaxForObjectType t'"
    and "active_id (OS_common_table s (i + OS_GetBaseForObjectType t)) = a" and "a \<noteq> 0"
    and "active_id (OS_common_table s (j + OS_GetBaseForObjectType t')) = a"
  shows "t = t' \<and> i = j"
  using ids_wfD [OF assms(1,2,4,5)] ids_wfD [OF assms(1,3,6,5)] by auto

lemma lock_fields [simp]:
  "OS_common_table (OS_Lock_Global t s) = OS_common_table s"
  "OS_common_table (OS_Unlock_Global t s) = OS_common_table s"
  "OS_last_id_issued (OS_Lock_Global t s) = OS_last_id_issued s"
  "OS_last_id_issued (OS_Unlock_Global t s) = OS_last_id_issued s"
  "cur_task (OS_Lock_Global t s) = cur_task s" "interfere (OS_Lock_Global t s) = interfere s"
  "interfere (OS_Unlock_Global t s) = interfere s"
  "Initialized (OS_Lock_Global t s) = Initialized s" "Initialized (OS_Unlock_Global t s) = Initialized s"
  "ShutdownFlag (OS_Lock_Global t s) = ShutdownFlag s" "ShutdownFlag (OS_Unlock_Global t s) = ShutdownFlag s"
  by (simp_all add: OS_Lock_Global_def OS_Unlock_Global_def)

lemma upd_record_fields [simp]:
  "OS_common_table (upd_record i f s) = (OS_common_table s)(i := f (OS_common_table s i))"
  "OS_last_id_issued (upd_record i f s) = OS_last_id_issued s" "os_locks (upd_record i f s) = os_locks s"
  "cur_task (upd_record i f s) = cur_task s" "interfere (upd_record i f s) = interfere s"
  "Initialized (upd_record i f s) = Initialized s" "ShutdownFlag (upd_record i f s) = ShutdownFlag s"
  by (simp_all add: upd_record_def)

lemma GetById_none:
  assumes "Initialized s" and "ShutdownFlag s \<noteq> OS_SHUTDOWN_MAGIC_NUMBER" and "0 < OS_GetMaxForObjectType t"
  shows "OS_ObjectIdGetById OS_LOCK_MODE_NONE t oid s =
    (let i = unat (oid AND OS_OBJECT_INDEX_MASK) mod OS_GetMaxForObjectType t
     in (if drop_bit 16 oid = t \<and> active_id (OS_common_table s (i + OS_GetBaseForObjectType t)) = oid
         then Inr i else Inl OS_ERR_INVALID_ID, s))"
  using assms by (simp add: OS_ObjectIdGetById_def OS_ObjectIdToArrayIndex_def OS_ObjectIdUnMap_def
      OS_ObjectIdInitiateLock_def OS_ObjectIdConvertLock_def ConvertLock_loop.simps ConvertLock_try_def Let_def)

text \<open>What a successful allocation of an identifier does.\<close>

lemma AllocateNew_ok:
  assumes wf: "ids_wf s" and res: "OS_ObjectIdAllocateNew t name s = (Inr i, s')"
  defines "slot \<equiv> i + OS_GetBaseForObjectType t"
  shows "i < OS_GetMaxForObjectType t" and "Initialized s" and "ShutdownFlag s \<noteq> OS_SHUTDOWN_MAGIC_NUMBER"
    and "active_id (OS_common_table s slot) = 0"
    and "\<exists>oid. oid \<noteq> 0 \<and> drop_bit 16 oid = t \<and> unat (oid AND OS_OBJECT_INDEX_MASK) mod OS_GetMaxForObjectType t = i
      \<and> oid \<noteq> OS_last_id_issued s (unat t)
      \<and> s' = upd_record slot (\<lambda>r. r\<lparr>active_id := oid, name_entry := None, creator := cur_task s, refcount := 0\<rparr>)
               (OS_Lock_Global t s)"
proof -
  let ?m = "OS_GetMaxForObjectType t" let ?v = "OS_last_id_issued s (unat t) AND OS_OBJECT_INDEX_MASK"
  have init: "Initialized s" "ShutdownFlag s \<noteq> OS_SHUTDOWN_MAGIC_NUMBER"
    and next': "OS_ObjectIdFindNext t (OS_Lock_Global t s) = (Inr i, s')"
    using res by (auto simp: OS_ObjectIdAllocateNew_def Let_def split: if_splits sum.splits prod.splits)
  from next' have m: "0 < ?m" by (cases "?m = 0") (simp_all add: OS_ObjectIdFindNext_def Let_def)
  obtain idv where loop: "FindNext_loop ?m ?m (OS_GetBaseForObjectType t) ?v (OS_common_table s) = Some (idv, i)"
    and s': "s' = upd_record slot (\<lambda>r. r\<lparr>active_id := push_bit 16 t OR idv, name_entry := None,
        creator := cur_task s, refcount := 0\<rparr>) (OS_Lock_Global t s)"
    using next' m by (auto simp: OS_ObjectIdFindNext_def OS_ObjectIdMap_def Let_def slot_def
        split: option.splits prod.splits if_splits)
  have v: "unat ?v \<le> 0xFFFF"
    using word_and_le1 [of "OS_last_id_issued s (unat t)" OS_OBJECT_INDEX_MASK]
    by (simp add: OS_OBJECT_INDEX_MASK_def word_le_nat_alt)
  note F = FindNext_loop_Some [OF m MaxForObjectType_le v loop]
  have t: "t \<noteq> 0" "t < OS_OBJECT_TYPE_USER" using Max_type_small [OF m] by auto
  have idv: "unat idv < 2 ^ 16" using F by simp
  note O = ObjectIdMap_fields [OF t(2) idv]
  have "push_bit 16 t OR idv \<noteq> OS_last_id_issued s (unat t)"
  proof
    assume "push_bit 16 t OR idv = OS_last_id_issued s (unat t)"
    then have "idv = ?v" using O(2) by simp
    then show False using F MaxForObjectType_le [of t] by auto
  qed
  moreover have "push_bit 16 t OR idv \<noteq> 0" using O(1) t(1) by (metis drop_bit_of_0)
  ultimately show "\<exists>oid. oid \<noteq> 0 \<and> drop_bit 16 oid = t \<and> unat (oid AND OS_OBJECT_INDEX_MASK) mod ?m = i
      \<and> oid \<noteq> OS_last_id_issued s (unat t)
      \<and> s' = upd_record slot (\<lambda>r. r\<lparr>active_id := oid, name_entry := None, creator := cur_task s, refcount := 0\<rparr>)
               (OS_Lock_Global t s)"
    using O(1,2) F s' by (intro exI [of _ "push_bit 16 t OR idv"]) auto
  show "i < ?m" "Initialized s" "ShutdownFlag s \<noteq> OS_SHUTDOWN_MAGIC_NUMBER" "active_id (OS_common_table s slot) = 0"
    using F init by (simp_all add: slot_def)
qed

lemma AllocateNew_err:
  assumes "ids_wf s" and "0 < OS_GetMaxForObjectType t" and "OS_ObjectIdAllocateNew t name s = (Inl e, s')"
  shows "e \<noteq> OS_SUCCESS \<and> (\<exists>l. s' = s\<lparr>os_locks := l\<rparr>)"
proof -
  let ?m = "OS_GetMaxForObjectType t" let ?v = "OS_last_id_issued s (unat t) AND OS_OBJECT_INDEX_MASK"
  have v: "unat ?v \<le> 0xFFFF"
    using word_and_le1 [of "OS_last_id_issued s (unat t)" OS_OBJECT_INDEX_MASK]
    by (simp add: OS_OBJECT_INDEX_MASK_def word_le_nat_alt)
  note small = Max_type_small [OF assms(2)]
  have map_ok: "snd (OS_ObjectIdMap t idv) = OS_SUCCESS"
    if "FindNext_loop ?m ?m (OS_GetBaseForObjectType t) ?v (OS_common_table s) = Some (idv, i)" for idv i
    using FindNext_loop_Some [OF assms(2) MaxForObjectType_le v that] small ObjectIdMap_fields(3) [of t idv]
    by (simp add: OS_ObjectIdMap_def)
  have same: "\<exists>l. s = s\<lparr>os_locks := l\<rparr>" by (rule exI [of _ "os_locks s"]) simp
  show ?thesis
    using assms(3) small assms(2) same
    by (auto simp: OS_ObjectIdAllocateNew_def OS_ObjectIdFindNext_def Let_def split_beta map_ok
        OS_Lock_Global_def OS_Unlock_Global_def
        split: if_splits sum.splits option.splits)
qed

lemma ids_wf_upd:
  assumes "ids_wf s" and "i < OS_GetMaxForObjectType t"
    and "a \<noteq> 0 \<Longrightarrow> drop_bit 16 a = t \<and> unat (a AND OS_OBJECT_INDEX_MASK) mod OS_GetMaxForObjectType t = i"
    and "OS_common_table s' = (OS_common_table s)(i + OS_GetBaseForObjectType t := r)" and "active_id r = a"
  shows "ids_wf s'"
proof -
  have "drop_bit 16 b = t' \<and> unat (b AND OS_OBJECT_INDEX_MASK) mod OS_GetMaxForObjectType t' = j"
    if "j < OS_GetMaxForObjectType t'" "b \<noteq> 0"
      "active_id (OS_common_table s' (j + OS_GetBaseForObjectType t')) = b" for t' j b
  proof (cases "j + OS_GetBaseForObjectType t' = i + OS_GetBaseForObjectType t")
    case True
    with section_inj [OF that(1) assms(2)] have "t' = t" "j = i" by auto
    with assms(3-5) that show ?thesis by auto
  next
    case False
    with assms(4) that ids_wfD [OF assms(1) that(1)] show ?thesis by auto
  qed
  then show ?thesis by (simp add: ids_wf_def Let_def)
qed

lemma Search_loop_None:
  "Search_loop n i M tbl = None \<longleftrightarrow> (\<forall>k<n. \<not> (active_id (tbl (i + k)) \<noteq> 0 \<and> M (tbl (i + k))))"
  by (induction n arbitrary: i) (auto simp: All_less_Suc2)

lemma Search_loop_Some:
  "Search_loop n i M tbl = Some j \<Longrightarrow> i \<le> j \<and> j < i + n \<and> active_id (tbl j) \<noteq> 0 \<and> M (tbl j)"
  by (induction n arbitrary: i) (force split: if_splits)+

section \<open>The locks\<close>

lemma ConvertLock_try_locks:
  "ConvertLock_try mode rid i excl s = (r, excl', s') \<Longrightarrow> os_locks s' = os_locks s"
  by (auto simp: ConvertLock_try_def Let_def split: if_splits OS_lock_mode_t.splits)

lemma ConvertLock_loop_locks:
  "ConvertLock_loop mode t rid i att excl s = (rc, excl', s') \<Longrightarrow> os_locks s' = os_locks s"
proof (induction mode t rid i att excl s arbitrary: rc excl' s' rule: ConvertLock_loop.induct)
  case (1 mode t rid i att excl s)
  have relock: "os_locks (OS_Lock_Global t (upd_record j f (OS_Unlock_Global t s))) = os_locks s" for j f and s :: "'a OS_ids_scheme"
    by (simp add: OS_Lock_Global_def OS_Unlock_Global_def upd_record_def)
  obtain r e s1 where try': "ConvertLock_try mode rid i excl s = (r, e, s1)" by (metis prod_cases3)
  note once = ConvertLock_try_locks [OF try']
  show ?case
  proof (cases "r = None \<and> \<not> 5 \<le> att + 1")
    case True
    then have "ConvertLock_loop mode t rid i (att + 1) e (OS_Lock_Global t (upd_record i (interfere s1 att)
        (OS_Unlock_Global t s1))) = (rc, excl', s')"
      using "1.prems" try' by (simp add: ConvertLock_loop.simps [of mode t rid i att])
    from "1.IH" [OF try' [symmetric] _ refl _ this] True once show ?thesis by (simp add: relock)
  next
    case False
    then show ?thesis
      using "1.prems" try' once by (auto simp: ConvertLock_loop.simps [of mode t rid i att] split: option.splits if_splits)
  qed
qed

lemma GetById_locks:
  assumes "OS_ObjectIdGetById mode t oid s = (r, s')"
  shows "os_locks s' = (os_locks s)(unat t := os_locks s (unat t)
    + (if \<not> isl r \<and> (mode = OS_LOCK_MODE_GLOBAL \<or> mode = OS_LOCK_MODE_EXCLUSIVE) then 1 else 0))"
proof -
  have conv: "os_locks s2 = (if md \<noteq> OS_LOCK_MODE_NONE \<and> (rc \<noteq> OS_SUCCESS \<or> md = OS_LOCK_MODE_REFCOUNT)
      then (os_locks s1)(unat t := os_locks s1 (unat t) - 1) else os_locks s1)"
    if "OS_ObjectIdConvertLock md t oid i s1 = (rc, s2)" for md i rc and s1 s2 :: "'a OS_ids_scheme"
    using that ConvertLock_loop_locks [of md t oid i 0 0 s1]
    by (auto simp: OS_ObjectIdConvertLock_def OS_Unlock_Global_def Let_def split: prod.splits if_splits)
  show ?thesis
    using assms
    by (cases mode)
      (auto simp: OS_ObjectIdGetById_def OS_ObjectIdInitiateLock_def OS_Lock_Global_def Let_def
        split: prod.splits if_splits dest!: conv)
qed

section \<open>Properties\<close>

text \<open>A small table for the witnesses: after \<^verbatim>\<open>OS_ObjectIdInit\<close>.\<close>

definition demo_ids :: OS_ids where
  "demo_ids = OS_ObjectIdInit \<lparr>Initialized = True, ShutdownFlag = 0,
     OS_common_table = (\<lambda>_. \<lparr>name_entry = None, active_id = 7, creator = 0, refcount = 0, flags = 0\<rparr>),
     OS_last_id_issued = (\<lambda>_. 9), os_locks = (\<lambda>_. 0), cur_task = 0x10001, interfere = (\<lambda>_ r. r)\<rparr>"

lemma demo_ids_wf: "ids_wf demo_ids"
  by (simp add: demo_ids_def OS_ObjectIdInit_def ids_wf_def)

text \<open>
  C10: an identifier that \<^verbatim>\<open>OS_ObjectIdAllocateNew\<close> issues is new.  It names the object type, it is the
  active identifier of no other slot of the whole table, it is not the identifier issued last for the
  type, and \<^verbatim>\<open>OS_ObjectIdGetById\<close> leads from it back to the slot; every other slot keeps its record, so
  the table stays well-formed.
\<close>

theorem OS_ObjectIdAllocateNew_fresh:
  assumes "ids_wf s" and "OS_ObjectIdAllocateNew t name s = (Inr i, s')"
  shows "ids_wf s' \<and> (\<exists>oid. active_id (OS_common_table s' (i + OS_GetBaseForObjectType t)) = oid
     \<and> OS_IdentifyObject oid = t \<and> oid \<noteq> OS_last_id_issued s (unat t)
     \<and> (\<forall>t' j. j < OS_GetMaxForObjectType t' \<longrightarrow> active_id (OS_common_table s (j + OS_GetBaseForObjectType t')) \<noteq> oid)
     \<and> OS_ObjectIdGetById OS_LOCK_MODE_NONE t oid s' = (Inr i, s'))
     \<and> (\<forall>k. k \<noteq> i + OS_GetBaseForObjectType t \<longrightarrow> OS_common_table s' k = OS_common_table s k)"
proof -
  note A = AllocateNew_ok [OF assms]
  obtain oid where oid: "oid \<noteq> 0" "drop_bit 16 oid = t"
    "unat (oid AND OS_OBJECT_INDEX_MASK) mod OS_GetMaxForObjectType t = i" "oid \<noteq> OS_last_id_issued s (unat t)"
    and s': "s' = upd_record (i + OS_GetBaseForObjectType t) (\<lambda>r. r\<lparr>active_id := oid, name_entry := None,
        creator := cur_task s, refcount := 0\<rparr>) (OS_Lock_Global t s)"
    using A(5) by blast
  have "active_id (OS_common_table s (j + OS_GetBaseForObjectType t')) \<noteq> oid"
    if "j < OS_GetMaxForObjectType t'" for t' j
    using ids_wfD [OF assms(1) that, of oid] oid A(4) by auto
  moreover have "ids_wf s'"
    by (rule ids_wf_upd [OF assms(1) A(1), of oid _ "OS_common_table s' (i + OS_GetBaseForObjectType t)"])
      (simp_all add: oid(2,3) s')
  moreover have "0 < OS_GetMaxForObjectType t" using A(1) by linarith
  ultimately show ?thesis
    using oid A(2,3) by (auto simp: s' OS_IdentifyObject_def GetById_none)
qed

theorem OS_ObjectIdAllocateNew_fresh_witness:
  "\<exists>s'. OS_ObjectIdAllocateNew 2 (Some ''Q'') demo_ids = (Inr 1, s') \<and> ids_wf s'
     \<and> OS_ObjectIdGetById OS_LOCK_MODE_NONE 2 0x20001 s' = (Inr 1, s')"
proof -
  have "fst (OS_ObjectIdAllocateNew 2 (Some ''Q'') demo_ids) = Inr 1"
    "active_id (OS_common_table (snd (OS_ObjectIdAllocateNew 2 (Some ''Q'') demo_ids)) (1 + OS_GetBaseForObjectType 2)) = 0x20001"
    by code_simp+
  with OS_ObjectIdAllocateNew_fresh [OF demo_ids_wf, of 2 "Some ''Q''" 1] show ?thesis
    by (metis prod.collapse)
qed

text \<open>
  C11: for the object types that exist, \<^verbatim>\<open>OS_ObjectIdAllocateNew\<close> finds a free slot whenever there is one:
  it fails exactly when the name is in use by an active object of the type (\<^verbatim>\<open>OS_ERR_NAME_TAKEN\<close>) or all
  slots of the type are taken (\<^verbatim>\<open>OS_ERR_NO_FREE_IDS\<close>), wherever the search starts.
\<close>

theorem OS_ObjectIdAllocateNew_complete:
  assumes "Initialized s" and "ShutdownFlag s \<noteq> OS_SHUTDOWN_MAGIC_NUMBER" and "0 < OS_GetMaxForObjectType t"
  defines "slots \<equiv> {OS_GetBaseForObjectType t ..< OS_GetBaseForObjectType t + OS_GetMaxForObjectType t}"
  shows "(case fst (OS_ObjectIdAllocateNew t (Some n) s) of
       Inl e \<Rightarrow> e = (if \<exists>k\<in>slots. active_id (OS_common_table s k) \<noteq> 0 \<and> name_entry (OS_common_table s k) = Some n
                    then OS_ERR_NAME_TAKEN else OS_ERR_NO_FREE_IDS)
     | Inr i \<Rightarrow> True)
   \<and> (isl (fst (OS_ObjectIdAllocateNew t (Some n) s)) \<longleftrightarrow>
       (\<exists>k\<in>slots. active_id (OS_common_table s k) \<noteq> 0 \<and> name_entry (OS_common_table s k) = Some n)
       \<or> (\<forall>k\<in>slots. active_id (OS_common_table s k) \<noteq> 0))"
proof -
  let ?m = "OS_GetMaxForObjectType t" let ?b = "OS_GetBaseForObjectType t" let ?T = "OS_common_table s"
  let ?v = "OS_last_id_issued s (unat t) AND OS_OBJECT_INDEX_MASK"
  note small = Max_type_small [OF assms(3)]
  have v: "unat ?v \<le> 0xFFFF"
    using word_and_le1 [of "OS_last_id_issued s (unat t)" OS_OBJECT_INDEX_MASK]
    by (simp add: OS_OBJECT_INDEX_MASK_def word_le_nat_alt)
  have taken: "fst (OS_ObjectIdSearch t (OS_ObjectNameMatch n) (OS_Lock_Global t s)) = OS_SUCCESS \<longleftrightarrow>
      (\<exists>k\<in>slots. active_id (?T k) \<noteq> 0 \<and> name_entry (?T k) = Some n)"
  proof (cases "Search_loop ?m ?b (OS_ObjectNameMatch n) ?T")
    case None
    then have "\<forall>k<?m. \<not> (active_id (?T (?b + k)) \<noteq> 0 \<and> OS_ObjectNameMatch n (?T (?b + k)))"
      by (simp add: Search_loop_None)
    moreover have "k \<in> slots \<Longrightarrow> \<exists>j<?m. k = ?b + j" for k
      by (auto simp: slots_def intro: exI [of _ "k - ?b"])
    ultimately show ?thesis using None
      by (fastforce simp: OS_ObjectIdSearch_def OS_ObjectNameMatch_def)
  next
    case (Some k)
    then show ?thesis using Search_loop_Some [OF Some]
      by (auto simp: OS_ObjectIdSearch_def OS_ObjectNameMatch_def slots_def split: option.splits intro!: bexI [of _ k])
  qed
  have full: "FindNext_loop ?m ?m ?b ?v ?T = None \<longleftrightarrow> (\<forall>k\<in>slots. active_id (?T k) \<noteq> 0)"
    unfolding FindNext_loop_None [OF assms(3) MaxForObjectType_le v] slots_def
    by (rule residues_cover [OF assms(3)])
  have map_ok: "snd (OS_ObjectIdMap t idv) = OS_SUCCESS"
    if "FindNext_loop ?m ?m ?b ?v ?T = Some (idv, i)" for idv i
    using FindNext_loop_Some [OF assms(3) MaxForObjectType_le v that] small ObjectIdMap_fields(3) [of t idv]
    by (simp add: OS_ObjectIdMap_def)
  show ?thesis
    using assms(1-3) small
    by (cases "FindNext_loop ?m ?m ?b ?v ?T")
      (auto simp: OS_ObjectIdAllocateNew_def OS_ObjectIdFindNext_def Let_def taken not_le split_beta
        full [symmetric] map_ok split: sum.splits)
qed

theorem OS_ObjectIdAllocateNew_complete_witness:
  "\<not> isl (fst (OS_ObjectIdAllocateNew 2 (Some ''Q'') demo_ids))"
proof -
  have "Initialized demo_ids" "ShutdownFlag demo_ids \<noteq> OS_SHUTDOWN_MAGIC_NUMBER" "0 < OS_GetMaxForObjectType 2"
    by code_simp+
  moreover have "active_id (OS_common_table demo_ids k) = 0" for k
    by (simp add: demo_ids_def OS_ObjectIdInit_def)
  ultimately show ?thesis
    using OS_ObjectIdAllocateNew_complete [of demo_ids 2 "''Q''"] by auto
qed

text \<open>
  \<^verbatim>\<open>OS_ObjectIdGetById\<close> leaves the lock of the object type held exactly when it succeeds in a mode that
  promises it (global or exclusive); on every error, without locking and for a reference count the lock
  is as before, whatever other tasks do to the record while the call waits.
\<close>

theorem OS_ObjectIdGetById_lock:
  "os_locks (snd (OS_ObjectIdGetById mode t oid s)) = (os_locks s)(unat t := os_locks s (unat t)
     + (if \<not> isl (fst (OS_ObjectIdGetById mode t oid s))
           \<and> (mode = OS_LOCK_MODE_GLOBAL \<or> mode = OS_LOCK_MODE_EXCLUSIVE) then 1 else 0))"
  by (rule GetById_locks) simp

end
