(* ===== verification/OS_Queue.thy ===== *)
theory OS_Queue
  imports OS_IdMap
begin

text \<open>
  Message queues of the OS abstraction layer: \<^verbatim>\<open>osal/src/os/shared/osapi-queue.c\<close> over the POSIX
  implementation in \<^verbatim>\<open>osal/src/os/posix/osapi.c\<close>.

  The POSIX message queues the implementation calls are modelled as the standard describes them: bounded
  first-in-first-out queues (all messages have the same priority), \<open>mq\<close> holds the queue behind each slot of
  \<^verbatim>\<open>OS_impl_queue_table\<close>.  Every \<^verbatim>\<open>mq_*\<close> call first takes the next entry of \<open>sys\<close>, the failures the
  kernel has in store (\<open>None\<close>: no failure; the list ends: no more failures); so interruptions, full and
  empty queues and all error returns are branches of the model, and the loops that repeat an interrupted
  call end.  A message is a value of type \<open>'m\<close> with its size in bytes.

  A receive without time limit on an empty queue does not return: it is the result \<open>None\<close>.  The locale
  \<open>queue_service\<close> is what the clients of the queues rely on.
\<close>

unbundle bit_operations_syntax

section \<open>Data\<close>

datatype errno = EINTR | ETIMEDOUT | EMSGSIZE | EINVAL | EBADF | ENOSPC | EMFILE

record OS_queue_internal_record_t =
  queue_name :: string
  max_depth :: u32
  max_size :: u32

record 'm mqueue =
  mq_maxmsg :: nat
  mq_msgsize :: nat
  mq_msgs :: "'m list"

record 'm OS_queues = OS_ids +
  OS_queue_table :: "nat \<Rightarrow> OS_queue_internal_record_t"
  TruncateQueueDepth :: u32
  mq :: "nat \<Rightarrow> 'm mqueue"
  sys :: "errno option list"

datatype OS_timeout = OS_PEND | OS_CHECK | OS_MSEC nat

section \<open>POSIX message queues\<close>

definition mq_outcome :: "('m, 'a) OS_queues_scheme \<Rightarrow> errno option \<times> ('m, 'a) OS_queues_scheme" where
  "mq_outcome s = (case sys s of [] \<Rightarrow> None | e # es \<Rightarrow> e, s\<lparr>sys := tl (sys s)\<rparr>)"

definition mq_open :: "nat \<Rightarrow> nat \<Rightarrow> nat \<Rightarrow> ('m, 'a) OS_queues_scheme \<Rightarrow> bool \<times> ('m, 'a) OS_queues_scheme" where
  "mq_open i maxmsg msgsize s =
     (case mq_outcome s of
        (Some e, s) \<Rightarrow> (False, s)
      | (None, s) \<Rightarrow> (True, s\<lparr>mq := (mq s)(i := \<lparr>mq_maxmsg = maxmsg, mq_msgsize = msgsize, mq_msgs = []\<rparr>)\<rparr>))"

definition mq_close :: "nat \<Rightarrow> ('m, 'a) OS_queues_scheme \<Rightarrow> bool \<times> ('m, 'a) OS_queues_scheme" where
  "mq_close i s = (case mq_outcome s of (Some e, s) \<Rightarrow> (False, s) | (None, s) \<Rightarrow> (True, s))"

definition mq_timedsend :: "nat \<Rightarrow> 'm \<Rightarrow> nat \<Rightarrow> ('m, 'a) OS_queues_scheme \<Rightarrow> errno option \<times> ('m, 'a) OS_queues_scheme" where
  "mq_timedsend i data sz s =
     (case mq_outcome s of
        (Some e, s) \<Rightarrow> (Some e, s)
      | (None, s) \<Rightarrow>
          if sz > mq_msgsize (mq s i) then (Some EMSGSIZE, s)
          else if length (mq_msgs (mq s i)) \<ge> mq_maxmsg (mq s i) then (Some ETIMEDOUT, s)
          else (None, s\<lparr>mq := (mq s)(i := (mq s i)\<lparr>mq_msgs := mq_msgs (mq s i) @ [data]\<rparr>)\<rparr>))"

datatype 'm mq_result = mq_got 'm | mq_fail errno | mq_blocked

definition mq_receive :: "bool \<Rightarrow> nat \<Rightarrow> nat \<Rightarrow> ('m, 'a) OS_queues_scheme \<Rightarrow> 'm mq_result \<times> ('m, 'a) OS_queues_scheme" where
  "mq_receive timed i sz s =
     (case mq_outcome s of
        (Some e, s) \<Rightarrow> (mq_fail e, s)
      | (None, s) \<Rightarrow>
          if sz < mq_msgsize (mq s i) then (mq_fail EMSGSIZE, s)
          else case mq_msgs (mq s i) of
                 [] \<Rightarrow> (if timed then mq_fail ETIMEDOUT else mq_blocked, s)
               | m # ms \<Rightarrow> (mq_got m, s\<lparr>mq := (mq s)(i := (mq s i)\<lparr>mq_msgs := ms\<rparr>)\<rparr>))"

lemma mq_send_EINTR:
  "mq_timedsend i data sz s = (Some EINTR, s') \<Longrightarrow> length (sys s') < length (sys s)"
  by (auto simp: mq_timedsend_def mq_outcome_def split: list.splits option.splits prod.splits if_splits)

lemma mq_receive_EINTR:
  "mq_receive timed i sz s = (mq_fail EINTR, s') \<Longrightarrow> length (sys s') < length (sys s)"
  by (auto simp: mq_receive_def mq_outcome_def split: list.splits option.splits prod.splits if_splits)

section \<open>The POSIX implementation of queues\<close>

definition OS_QueueCreate_Impl :: "nat \<Rightarrow> ('m, 'a) OS_queues_scheme \<Rightarrow> OS_Status \<times> ('m, 'a) OS_queues_scheme" where
  "OS_QueueCreate_Impl queue_id s =
     (let maxmsg = max_depth (OS_queue_table s queue_id);
          maxmsg = (if TruncateQueueDepth s > 0 \<and> TruncateQueueDepth s < maxmsg then TruncateQueueDepth s else maxmsg)
      in case mq_open queue_id (unat maxmsg) (unat (max_size (OS_queue_table s queue_id))) s of
           (False, s) \<Rightarrow> (OS_ERROR, s)
         | (True, s) \<Rightarrow> (OS_SUCCESS, s))"

definition OS_QueueDelete_Impl :: "nat \<Rightarrow> ('m, 'a) OS_queues_scheme \<Rightarrow> OS_Status \<times> ('m, 'a) OS_queues_scheme" where
  "OS_QueueDelete_Impl queue_id s =
     (case mq_close queue_id s of (False, s) \<Rightarrow> (OS_ERROR, s) | (True, s) \<Rightarrow> (OS_SUCCESS, s))"

text \<open>The receive loop: repeated while interrupted, except for a poll (\<^verbatim>\<open>OS_CHECK\<close>).\<close>

function QueueGet_loop ::
  "nat \<Rightarrow> nat \<Rightarrow> OS_timeout \<Rightarrow> ('m, 'a) OS_queues_scheme \<Rightarrow> 'm mq_result \<times> ('m, 'a) OS_queues_scheme" where
  "QueueGet_loop queue_id sz timeout s =
     (case mq_receive (timeout \<noteq> OS_PEND) queue_id sz s of
        (mq_fail EINTR, s') \<Rightarrow>
          if timeout = OS_CHECK then (mq_fail EINTR, s') else QueueGet_loop queue_id sz timeout s'
      | r \<Rightarrow> r)"
  by pat_completeness auto
termination
  by (relation "measure (\<lambda>(_, _, _, s). length (sys s))") (simp_all add: mq_receive_EINTR)

declare QueueGet_loop.simps [simp del]

definition OS_QueueGet_Impl ::
  "nat \<Rightarrow> nat \<Rightarrow> OS_timeout \<Rightarrow> ('m, 'a) OS_queues_scheme \<Rightarrow> ((OS_Status + 'm) \<times> ('m, 'a) OS_queues_scheme) option" where
  "OS_QueueGet_Impl queue_id sz timeout s =
     (case QueueGet_loop queue_id sz timeout s of
        (mq_blocked, s) \<Rightarrow> None
      | (mq_got m, s) \<Rightarrow> Some (Inr m, s)
      | (mq_fail errno, s) \<Rightarrow>
          Some (Inl (if errno = EMSGSIZE then OS_QUEUE_INVALID_SIZE
                     else if timeout = OS_PEND \<or> errno \<noteq> ETIMEDOUT then OS_ERROR
                     else if timeout = OS_CHECK then OS_QUEUE_EMPTY
                     else OS_QUEUE_TIMEOUT), s))"

function QueuePut_loop ::
  "nat \<Rightarrow> 'm \<Rightarrow> nat \<Rightarrow> ('m, 'a) OS_queues_scheme \<Rightarrow> errno option \<times> ('m, 'a) OS_queues_scheme" where
  "QueuePut_loop queue_id data sz s =
     (case mq_timedsend queue_id data sz s of
        (Some EINTR, s') \<Rightarrow> QueuePut_loop queue_id data sz s'
      | r \<Rightarrow> r)"
  by pat_completeness auto
termination
  by (relation "measure (\<lambda>(_, _, _, s). length (sys s))") (simp_all add: mq_send_EINTR)

declare QueuePut_loop.simps [simp del]

definition OS_QueuePut_Impl ::
  "nat \<Rightarrow> 'm \<Rightarrow> nat \<Rightarrow> ('m, 'a) OS_queues_scheme \<Rightarrow> OS_Status \<times> ('m, 'a) OS_queues_scheme" where
  "OS_QueuePut_Impl queue_id data sz s =
     (case QueuePut_loop queue_id data sz s of
        (None, s) \<Rightarrow> (OS_SUCCESS, s)
      | (Some errno, s) \<Rightarrow> (if errno = ETIMEDOUT then OS_QUEUE_FULL else OS_ERROR, s))"

section \<open>The queue functions\<close>

text \<open>
  Pointer arguments that may be \<^verbatim>\<open>NULL\<close> are options or, for output parameters, a flag that tells whether
  there is a place to store the result.
\<close>

definition OS_QueueAPI_Init :: "('m, 'a) OS_queues_scheme \<Rightarrow> OS_Status \<times> ('m, 'a) OS_queues_scheme" where
  "OS_QueueAPI_Init s = (OS_SUCCESS, s\<lparr>OS_queue_table := (\<lambda>_. \<lparr>queue_name = '''', max_depth = 0, max_size = 0\<rparr>)\<rparr>)"

definition OS_QueueCreate ::
  "bool \<Rightarrow> string option \<Rightarrow> u32 \<Rightarrow> u32 \<Rightarrow> ('m, 'a) OS_queues_scheme \<Rightarrow> (OS_Status \<times> u32 option) \<times> ('m, 'a) OS_queues_scheme" where
  "OS_QueueCreate id_ptr queue_name_ptr queue_depth data_size s =
     (case queue_name_ptr of
        None \<Rightarrow> ((OS_INVALID_POINTER, None), s)
      | Some name \<Rightarrow>
          if \<not> id_ptr then ((OS_INVALID_POINTER, None), s)
          else if length name \<ge> OS_MAX_API_NAME then ((OS_ERR_NAME_TOO_LONG, None), s)
          else case OS_ObjectIdAllocateNew OS_OBJECT_TYPE_OS_QUEUE (Some name) s of
                 (Inl e, s) \<Rightarrow> ((e, None), s)
               | (Inr local_id, s) \<Rightarrow>
                   let slot = local_id + OS_GetBaseForObjectType OS_OBJECT_TYPE_OS_QUEUE;
                       s = s\<lparr>OS_queue_table := (OS_queue_table s)(local_id :=
                             \<lparr>queue_name = name, max_depth = queue_depth, max_size = data_size\<rparr>)\<rparr>;
                       s = upd_record slot (\<lambda>r. r\<lparr>name_entry := Some name\<rparr>) s;
                       (return_code, s) = OS_QueueCreate_Impl local_id s;
                       ((return_code, queue_id), s) = OS_ObjectIdFinalizeNew return_code slot s
                   in ((return_code, Some queue_id), s))"

definition OS_QueueDelete :: "u32 \<Rightarrow> ('m, 'a) OS_queues_scheme \<Rightarrow> OS_Status \<times> ('m, 'a) OS_queues_scheme" where
  "OS_QueueDelete queue_id s =
     (case OS_ObjectIdGetById OS_LOCK_MODE_EXCLUSIVE OS_OBJECT_TYPE_OS_QUEUE queue_id s of
        (Inl e, s) \<Rightarrow> (e, s)
      | (Inr local_id, s) \<Rightarrow>
          let (return_code, s) = OS_QueueDelete_Impl local_id s;
              s = (if return_code = OS_SUCCESS
                   then upd_record (local_id + OS_GetBaseForObjectType OS_OBJECT_TYPE_OS_QUEUE) (\<lambda>r. r\<lparr>active_id := 0\<rparr>) s
                   else s)
          in (return_code, OS_Unlock_Global OS_OBJECT_TYPE_OS_QUEUE s))"

definition OS_QueueGet ::
  "bool \<Rightarrow> u32 \<Rightarrow> u32 \<Rightarrow> OS_timeout \<Rightarrow> ('m, 'a) OS_queues_scheme \<Rightarrow> ((OS_Status + 'm) \<times> ('m, 'a) OS_queues_scheme) option" where
  "OS_QueueGet ptrs queue_id sz timeout s =
     (if \<not> ptrs then Some (Inl OS_INVALID_POINTER, s)
      else case OS_ObjectIdGetById OS_LOCK_MODE_NONE OS_OBJECT_TYPE_OS_QUEUE queue_id s of
             (Inl e, s) \<Rightarrow> Some (Inl e, s)
           | (Inr local_id, s) \<Rightarrow>
               if sz < max_size (OS_queue_table s local_id) then Some (Inl OS_QUEUE_INVALID_SIZE, s)
               else OS_QueueGet_Impl local_id (unat sz) timeout s)"

definition OS_QueuePut :: "u32 \<Rightarrow> 'm option \<Rightarrow> u32 \<Rightarrow> ('m, 'a) OS_queues_scheme \<Rightarrow> OS_Status \<times> ('m, 'a) OS_queues_scheme" where
  "OS_QueuePut queue_id data_ptr sz s =
     (case data_ptr of
        None \<Rightarrow> (OS_INVALID_POINTER, s)
      | Some data \<Rightarrow>
          case OS_ObjectIdGetById OS_LOCK_MODE_NONE OS_OBJECT_TYPE_OS_QUEUE queue_id s of
            (Inl e, s) \<Rightarrow> (e, s)
          | (Inr local_id, s) \<Rightarrow> OS_QueuePut_Impl local_id data (unat sz) s)"

definition OS_QueueGetIdByName ::
  "bool \<Rightarrow> string option \<Rightarrow> ('m, 'a) OS_queues_scheme \<Rightarrow> (OS_Status + u32) \<times> ('m, 'a) OS_queues_scheme" where
  "OS_QueueGetIdByName id_ptr queue_name_ptr s =
     (if \<not> id_ptr \<or> queue_name_ptr = None then (Inl OS_INVALID_POINTER, s)
      else OS_ObjectIdFindByName OS_OBJECT_TYPE_OS_QUEUE queue_name_ptr s)"

text \<open>\<^verbatim>\<open>OS_queue_prop_t\<close>: the name, cut to 19 characters, and the creator.\<close>

definition OS_QueueGetInfo ::
  "bool \<Rightarrow> u32 \<Rightarrow> ('m, 'a) OS_queues_scheme \<Rightarrow> (OS_Status + string \<times> u32) \<times> ('m, 'a) OS_queues_scheme" where
  "OS_QueueGetInfo prop_ptr queue_id s =
     (if \<not> prop_ptr then (Inl OS_INVALID_POINTER, s)
      else case OS_ObjectIdGetById OS_LOCK_MODE_GLOBAL OS_OBJECT_TYPE_OS_QUEUE queue_id s of
             (Inl e, s) \<Rightarrow> (Inl e, s)
           | (Inr local_id, s) \<Rightarrow>
               let r = OS_common_table s (local_id + OS_GetBaseForObjectType OS_OBJECT_TYPE_OS_QUEUE)
               in (Inr (take (OS_MAX_API_NAME - 1) (case name_entry r of None \<Rightarrow> '''' | Some n \<Rightarrow> n), creator r),
                   OS_Unlock_Global OS_OBJECT_TYPE_OS_QUEUE s))"

section \<open>The interface of a queue service\<close>

text \<open>
  \<open>view s q\<close> is the depth, the message size and the content of the queue with identifier \<open>q\<close>.
\<close>

locale queue_service =
  fixes create :: "string \<Rightarrow> u32 \<Rightarrow> u32 \<Rightarrow> 's \<Rightarrow> (OS_Status \<times> u32 option) \<times> 's"
    and delete :: "u32 \<Rightarrow> 's \<Rightarrow> OS_Status \<times> 's"
    and put :: "u32 \<Rightarrow> 'm \<Rightarrow> u32 \<Rightarrow> 's \<Rightarrow> OS_Status \<times> 's"
    and get :: "u32 \<Rightarrow> u32 \<Rightarrow> OS_timeout \<Rightarrow> 's \<Rightarrow> ((OS_Status + 'm) \<times> 's) option"
    and view :: "'s \<Rightarrow> u32 \<rightharpoonup> nat \<times> nat \<times> 'm list"
    and invar :: "'s \<Rightarrow> bool"
  assumes create_ok: "invar s \<Longrightarrow> create name d n s = ((OS_SUCCESS, qp), s') \<Longrightarrow>
      \<exists>qid d'. qp = Some qid \<and> view s qid = None \<and> d' \<le> unat d \<and> view s' = (view s)(qid \<mapsto> (d', unat n, [])) \<and> invar s'"
    and create_err: "invar s \<Longrightarrow> create name d n s = ((e, qp), s') \<Longrightarrow> e \<noteq> OS_SUCCESS \<Longrightarrow>
      view s' = view s \<and> invar s'"
    and delete_ok: "invar s \<Longrightarrow> delete q s = (OS_SUCCESS, s') \<Longrightarrow>
      view s q \<noteq> None \<and> view s' = (view s)(q := None) \<and> invar s'"
    and delete_err: "invar s \<Longrightarrow> delete q s = (e, s') \<Longrightarrow> e \<noteq> OS_SUCCESS \<Longrightarrow> view s' = view s \<and> invar s'"
    and put_ok: "invar s \<Longrightarrow> put q m n s = (OS_SUCCESS, s') \<Longrightarrow>
      \<exists>dp k ms. view s q = Some (dp, k, ms) \<and> length ms < dp \<and> view s' = (view s)(q \<mapsto> (dp, k, ms @ [m])) \<and> invar s'"
    and put_err: "invar s \<Longrightarrow> put q m n s = (e, s') \<Longrightarrow> e \<noteq> OS_SUCCESS \<Longrightarrow> view s' = view s \<and> invar s'"
    and get_ok: "invar s \<Longrightarrow> get q n t s = Some (Inr m, s') \<Longrightarrow>
      \<exists>dp k ms. view s q = Some (dp, k, m # ms) \<and> view s' = (view s)(q \<mapsto> (dp, k, ms)) \<and> invar s'"
    and get_err: "invar s \<Longrightarrow> get q n t s = Some (Inl e, s') \<Longrightarrow> view s' = view s \<and> invar s'"

datatype 'm queue_op = Put 'm | Get OS_timeout

text \<open>A history of calls on one queue: the messages accepted, the messages received.\<close>

fun run_ops ::
  "(u32 \<Rightarrow> 'm \<Rightarrow> u32 \<Rightarrow> 's \<Rightarrow> OS_Status \<times> 's) \<Rightarrow> (u32 \<Rightarrow> u32 \<Rightarrow> OS_timeout \<Rightarrow> 's \<Rightarrow> ((OS_Status + 'm) \<times> 's) option) \<Rightarrow>
   u32 \<Rightarrow> u32 \<Rightarrow> 'm queue_op list \<Rightarrow> 's \<Rightarrow> ('m list \<times> 'm list \<times> 's) option" where
  "run_ops put get q n [] s = Some ([], [], s)"
| "run_ops put get q n (Put m # ops) s =
     (case put q m n s of
        (e, s') \<Rightarrow> map_option (\<lambda>(sent, got, s''). ((if e = OS_SUCCESS then m # sent else sent), got, s''))
                     (run_ops put get q n ops s'))"
| "run_ops put get q n (Get t # ops) s =
     (case get q n t s of
        None \<Rightarrow> None
      | Some (Inl e, s') \<Rightarrow> run_ops put get q n ops s'
      | Some (Inr m, s') \<Rightarrow> map_option (\<lambda>(sent, got, s''). (sent, m # got, s'')) (run_ops put get q n ops s'))"

context queue_service
begin

text \<open>First in, first out: what was received and what is still queued is what was there and what was accepted.\<close>

lemma run_ops_fifo:
  assumes "invar s" and "view s q = Some (d, k, ms)" and "length ms \<le> d"
    and "run_ops put get q n ops s = Some (sent, got, s')"
  shows "\<exists>ms'. view s' q = Some (d, k, ms') \<and> got @ ms' = ms @ sent \<and> length ms' \<le> d
    \<and> (\<forall>q'. q' \<noteq> q \<longrightarrow> view s' q' = view s q') \<and> invar s'"
  using assms
proof (induction ops arbitrary: s ms sent got)
  case (Cons op ops)
  show ?case
  proof (cases op)
    case (Put m)
    obtain e s1 where put: "put q m n s = (e, s1)" by fastforce
    with Cons.prems(4) Put obtain sent1 where run: "run_ops put get q n ops s1 = Some (sent1, got, s')"
      and sent: "sent = (if e = OS_SUCCESS then m # sent1 else sent1)" by auto
    show ?thesis
    proof (cases "e = OS_SUCCESS")
      case True
      with put_ok [OF Cons.prems(1)] put Cons.prems(2) have
        "length ms < d" "view s1 = (view s)(q \<mapsto> (d, k, ms @ [m]))" "invar s1" by fastforce+
      with Cons.IH [of s1 "ms @ [m]"] run sent True show ?thesis by auto
    next
      case False
      with put_err [OF Cons.prems(1) put] have "view s1 = view s" "invar s1" by auto
      with Cons.IH [of s1 ms] Cons.prems run sent False show ?thesis by auto
    qed
  next
    case (Get t)
    obtain r s1 where get: "get q n t s = Some (r, s1)"
      using Cons.prems(4) Get by (cases "get q n t s") auto
    show ?thesis
    proof (cases r)
      case (Inl e)
      with get_err [OF Cons.prems(1)] get have "view s1 = view s" "invar s1" by blast+
      with Cons.IH [of s1 ms] Cons.prems get Get Inl show ?thesis by auto
    next
      case (Inr m)
      with get_ok [OF Cons.prems(1)] get Cons.prems(2) obtain ms1 where
        "ms = m # ms1" "view s1 = (view s)(q \<mapsto> (d, k, ms1))" "invar s1" by fastforce
      with Cons.IH [of s1 ms1] Cons.prems get Get Inr show ?thesis by force
    qed
  qed
qed auto

text \<open>A deleted queue is gone: nothing can be put into it or received from it.\<close>

lemma deleted_gone:
  assumes "invar s" and "delete q s = (OS_SUCCESS, s')"
  shows "fst (put q m n s') \<noteq> OS_SUCCESS \<and> (\<forall>m s''. get q n t s' \<noteq> Some (Inr m, s''))"
proof -
  have gone: "view s' q = None" "invar s'" using delete_ok [OF assms] by auto
  obtain e s1 where put: "put q m n s' = (e, s1)" by fastforce
  have "e \<noteq> OS_SUCCESS" using put_ok [OF gone(2)] put gone(1) by fastforce
  moreover have "get q n t s' \<noteq> Some (Inr m, s'')" for m s''
    using get_ok [OF gone(2), of q n t m s''] gone(1) by auto
  ultimately show ?thesis using put by simp
qed

end

section \<open>The queue functions are a queue service\<close>

lemma QueuePut_loop_effect:
  "QueuePut_loop i m n s = (r, s') \<Longrightarrow>
     (case r of
        None \<Rightarrow> n \<le> mq_msgsize (mq s i) \<and> length (mq_msgs (mq s i)) < mq_maxmsg (mq s i)
          \<and> (\<exists>es. s' = s\<lparr>sys := es, mq := (mq s)(i := (mq s i)\<lparr>mq_msgs := mq_msgs (mq s i) @ [m]\<rparr>)\<rparr>)
      | Some e \<Rightarrow> \<exists>es. s' = s\<lparr>sys := es\<rparr>)"
proof (induction i m n s arbitrary: r s' rule: QueuePut_loop.induct)
  case (1 i m n s)
  obtain e s1 where send: "mq_timedsend i m n s = (e, s1)" by fastforce
  have once: "case e of
        None \<Rightarrow> n \<le> mq_msgsize (mq s i) \<and> length (mq_msgs (mq s i)) < mq_maxmsg (mq s i)
          \<and> (\<exists>es. s1 = s\<lparr>sys := es, mq := (mq s)(i := (mq s i)\<lparr>mq_msgs := mq_msgs (mq s i) @ [m]\<rparr>)\<rparr>)
      | Some e \<Rightarrow> \<exists>es. s1 = s\<lparr>sys := es\<rparr>"
    using send by (auto simp: mq_timedsend_def mq_outcome_def split: option.splits if_splits)
  show ?case
  proof (cases "e = Some EINTR")
    case True
    then have "QueuePut_loop i m n s1 = (r, s')" using "1.prems" send by (simp add: QueuePut_loop.simps [of i m n s])
    with "1.IH" [OF send [symmetric] True] once True show ?thesis by (auto simp: fun_upd_def split: option.splits)
  next
    case False
    then have "r = e \<and> s' = s1"
      using "1.prems" send by (auto simp: QueuePut_loop.simps [of i m n s] split: option.splits errno.splits)
    with once show ?thesis by (auto simp: fun_upd_def split: option.splits)
  qed
qed

lemma QueueGet_loop_effect:
  "QueueGet_loop i n t s = (r, s') \<Longrightarrow>
     (case r of
        mq_got m \<Rightarrow> \<exists>ms es. mq_msgs (mq s i) = m # ms \<and> s' = s\<lparr>sys := es, mq := (mq s)(i := (mq s i)\<lparr>mq_msgs := ms\<rparr>)\<rparr>
      | mq_fail e \<Rightarrow> \<exists>es. s' = s\<lparr>sys := es\<rparr>
      | mq_blocked \<Rightarrow> t = OS_PEND \<and> mq_msgs (mq s i) = [])"
proof (induction i n t s arbitrary: r s' rule: QueueGet_loop.induct)
  case (1 i n t s)
  obtain e s1 where rcv: "mq_receive (t \<noteq> OS_PEND) i n s = (e, s1)" by fastforce
  have once: "case e of
        mq_got m \<Rightarrow> \<exists>ms es. mq_msgs (mq s i) = m # ms \<and> s1 = s\<lparr>sys := es, mq := (mq s)(i := (mq s i)\<lparr>mq_msgs := ms\<rparr>)\<rparr>
      | mq_fail e \<Rightarrow> \<exists>es. s1 = s\<lparr>sys := es\<rparr>
      | mq_blocked \<Rightarrow> t = OS_PEND \<and> mq_msgs (mq s i) = []"
    using rcv by (auto simp: mq_receive_def mq_outcome_def split: option.splits if_splits list.splits)
  show ?case
  proof (cases "e = mq_fail EINTR \<and> t \<noteq> OS_CHECK")
    case True
    then have "QueueGet_loop i n t s1 = (r, s')" using "1.prems" rcv by (simp add: QueueGet_loop.simps [of i n t s])
    with "1.IH" [OF rcv [symmetric], of EINTR] once True show ?thesis by (auto simp: fun_upd_def split: mq_result.splits)
  next
    case False
    then have "r = e \<and> s' = s1"
      using "1.prems" rcv by (auto simp: QueueGet_loop.simps [of i n t s] split: mq_result.splits errno.splits)
    with once show ?thesis by (auto simp: fun_upd_def split: mq_result.splits)
  qed
qed

definition queue_slot :: "u32 \<Rightarrow> nat" where
  "queue_slot q = unat (q AND OS_OBJECT_INDEX_MASK) mod 64"

definition queue_view :: "('m, 'a) OS_queues_scheme \<Rightarrow> u32 \<rightharpoonup> nat \<times> nat \<times> 'm list" where
  "queue_view s q =
     (if drop_bit 16 q = OS_OBJECT_TYPE_OS_QUEUE \<and> active_id (OS_common_table s (queue_slot q + 64)) = q
      then let m = mq s (queue_slot q) in Some (mq_maxmsg m, mq_msgsize m, mq_msgs m)
      else None)"

definition queues_wf :: "('m, 'a) OS_queues_scheme \<Rightarrow> bool" where
  "queues_wf s \<longleftrightarrow> ids_wf s \<and> Initialized s \<and> ShutdownFlag s \<noteq> OS_SHUTDOWN_MAGIC_NUMBER
     \<and> (\<forall>i<64. refcount (OS_common_table s (i + 64)) = 0
              \<and> flags (OS_common_table s (i + 64)) AND OS_OBJECT_EXCL_REQ_FLAG = 0)"

lemma queue_section [simp]:
  "OS_GetMaxForObjectType OS_OBJECT_TYPE_OS_QUEUE = 64" "OS_GetBaseForObjectType OS_OBJECT_TYPE_OS_QUEUE = 64"
  by (simp_all add: OS_GetMaxForObjectType_def OS_GetBaseForObjectType_def OS_OBJECT_TYPE_OS_QUEUE_def)

lemma queue_id_nonzero: "drop_bit 16 (q::u32) = OS_OBJECT_TYPE_OS_QUEUE \<Longrightarrow> q \<noteq> 0"
  by (auto simp: OS_OBJECT_TYPE_OS_QUEUE_def)

lemma queue_lookup:
  assumes "queues_wf s"
  shows "OS_ObjectIdGetById OS_LOCK_MODE_NONE OS_OBJECT_TYPE_OS_QUEUE q s =
    (if queue_view s q = None then Inl OS_ERR_INVALID_ID else Inr (queue_slot q), s)"
  using assms GetById_none [of s OS_OBJECT_TYPE_OS_QUEUE q]
  by (auto simp: queues_wf_def queue_view_def queue_slot_def Let_def)

lemma queue_lookup_excl:
  assumes "queues_wf s"
  shows "OS_ObjectIdGetById OS_LOCK_MODE_EXCLUSIVE OS_OBJECT_TYPE_OS_QUEUE q s =
    (if queue_view s q = None then (Inl OS_ERR_INVALID_ID, s)
     else (Inr (queue_slot q), OS_Lock_Global OS_OBJECT_TYPE_OS_QUEUE s))"
proof -
  have same: "upd_record i (\<lambda>r. r) s = s" for i and s :: "('a, 'b) OS_queues_scheme"
    by (simp add: upd_record_def)
  have unlock: "OS_Unlock_Global t (OS_Lock_Global t s) = s" for t
    by (simp add: OS_Unlock_Global_def OS_Lock_Global_def)
  have "queue_slot q < 64" by (simp add: queue_slot_def)
  with assms have slot: "refcount (OS_common_table s (queue_slot q + 64)) = 0"
    "flags (OS_common_table s (queue_slot q + 64)) AND OS_OBJECT_EXCL_REQ_FLAG = 0"
    by (simp_all add: queues_wf_def)
  show ?thesis
    using assms slot
    by (auto simp: queues_wf_def OS_ObjectIdGetById_def OS_ObjectIdToArrayIndex_def OS_ObjectIdUnMap_def
        OS_ObjectIdInitiateLock_def OS_ObjectIdConvertLock_def ConvertLock_loop.simps ConvertLock_try_def Let_def queue_view_def
        queue_slot_def [symmetric] same unlock split: if_splits)
qed

lemma queue_view_upd:
  assumes "OS_common_table s' = OS_common_table s" and "mq s' = (mq s)(queue_slot q := x)"
    and "queue_view s q \<noteq> None"
  shows "queue_view s' = (queue_view s)(q \<mapsto> (mq_maxmsg x, mq_msgsize x, mq_msgs x))"
proof
  fix q'
  show "queue_view s' q' = ((queue_view s)(q \<mapsto> (mq_maxmsg x, mq_msgsize x, mq_msgs x))) q'"
  proof (cases "q' = q")
    case True
    then show ?thesis using assms by (simp add: queue_view_def Let_def split: if_splits)
  next
    case False
    moreover have "active_id (OS_common_table s (queue_slot q + 64)) = q"
      using assms(3) by (simp add: queue_view_def split: if_splits)
    ultimately show ?thesis using assms(1,2)
      by (cases "queue_slot q' = queue_slot q") (simp_all add: queue_view_def)
  qed
qed

lemma queues_wf_same:
  assumes "queues_wf s" and "OS_common_table s' = OS_common_table s" and "Initialized s' = Initialized s"
    and "ShutdownFlag s' = ShutdownFlag s"
  shows "queues_wf s'"
  using assms by (simp add: queues_wf_def ids_wf_def)

lemma queue_put_ok:
  assumes wf: "queues_wf s" and put: "OS_QueuePut q (Some m) n s = (OS_SUCCESS, s')"
  shows "\<exists>d k ms. queue_view s q = Some (d, k, ms) \<and> length ms < d
    \<and> queue_view s' = (queue_view s)(q \<mapsto> (d, k, ms @ [m])) \<and> queues_wf s'"
proof -
  let ?i = "queue_slot q"
  have view: "queue_view s q \<noteq> None"
    using put by (auto simp: OS_QueuePut_def queue_lookup [OF wf] split: if_splits)
  then have "QueuePut_loop ?i m (unat n) s = (None, s')"
    using put by (auto simp: OS_QueuePut_def queue_lookup [OF wf] OS_QueuePut_Impl_def split: prod.splits option.splits if_splits)
  from QueuePut_loop_effect [OF this] obtain es where len: "length (mq_msgs (mq s ?i)) < mq_maxmsg (mq s ?i)"
    and s': "s' = s\<lparr>sys := es, mq := (mq s)(?i := (mq s ?i)\<lparr>mq_msgs := mq_msgs (mq s ?i) @ [m]\<rparr>)\<rparr>" by auto
  have "queue_view s' = (queue_view s)(q \<mapsto> (mq_maxmsg (mq s ?i), mq_msgsize (mq s ?i), mq_msgs (mq s ?i) @ [m]))"
    using queue_view_upd [OF _ _ view, of s' "(mq s ?i)\<lparr>mq_msgs := mq_msgs (mq s ?i) @ [m]\<rparr>"] by (simp add: s')
  moreover have "queues_wf s'" by (rule queues_wf_same [OF wf]) (simp_all add: s')
  ultimately show ?thesis using view len by (auto simp: queue_view_def Let_def split: if_splits)
qed

lemma queue_put_err:
  assumes wf: "queues_wf s" and put: "OS_QueuePut q (Some m) n s = (e, s')" and "e \<noteq> OS_SUCCESS"
  shows "queue_view s' = queue_view s \<and> queues_wf s'"
proof -
  have "\<exists>es. s' = s\<lparr>sys := es\<rparr>"
  proof (cases "queue_view s q")
    case None
    then have "s' = s\<lparr>sys := sys s\<rparr>" using put by (simp add: OS_QueuePut_def queue_lookup [OF wf])
    then show ?thesis by blast
  next
    case Some
    with put \<open>e \<noteq> OS_SUCCESS\<close> obtain err where "QueuePut_loop (queue_slot q) m (unat n) s = (Some err, s')"
      by (auto simp: OS_QueuePut_def queue_lookup [OF wf] OS_QueuePut_Impl_def split: prod.splits option.splits)
    from QueuePut_loop_effect [OF this] show ?thesis by simp
  qed
  then show ?thesis using queues_wf_same [OF wf, of s'] by (auto simp: queue_view_def fun_eq_iff)
qed

lemma queue_get_ok:
  assumes wf: "queues_wf s" and get: "OS_QueueGet True q n t s = Some (Inr m, s')"
  shows "\<exists>d k ms. queue_view s q = Some (d, k, m # ms)
    \<and> queue_view s' = (queue_view s)(q \<mapsto> (d, k, ms)) \<and> queues_wf s'"
proof -
  let ?i = "queue_slot q"
  have view: "queue_view s q \<noteq> None"
    using get by (auto simp: OS_QueueGet_def queue_lookup [OF wf] split: if_splits)
  then have "QueueGet_loop ?i (unat n) t s = (mq_got m, s')"
    using get by (auto simp: OS_QueueGet_def queue_lookup [OF wf] OS_QueueGet_Impl_def
        split: prod.splits mq_result.splits if_splits)
  from QueueGet_loop_effect [OF this] obtain es ms where ms: "mq_msgs (mq s ?i) = m # ms"
    and s': "s' = s\<lparr>sys := es, mq := (mq s)(?i := (mq s ?i)\<lparr>mq_msgs := ms\<rparr>)\<rparr>" by auto
  have "queue_view s' = (queue_view s)(q \<mapsto> (mq_maxmsg (mq s ?i), mq_msgsize (mq s ?i), ms))"
    using queue_view_upd [OF _ _ view, of s' "(mq s ?i)\<lparr>mq_msgs := ms\<rparr>"] by (simp add: s')
  moreover have "queues_wf s'" by (rule queues_wf_same [OF wf]) (simp_all add: s')
  ultimately show ?thesis using view ms by (auto simp: queue_view_def Let_def split: if_splits)
qed

lemma queue_get_err:
  assumes wf: "queues_wf s" and get: "OS_QueueGet True q n t s = Some (Inl e, s')"
  shows "queue_view s' = queue_view s \<and> queues_wf s'"
proof -
  have "s' = s \<or> (\<exists>err. QueueGet_loop (queue_slot q) (unat n) t s = (mq_fail err, s'))"
    using get by (auto simp: OS_QueueGet_def queue_lookup [OF wf] OS_QueueGet_Impl_def
        split: prod.splits mq_result.splits if_splits)
  then have "s' = s \<or> (\<exists>es. s' = s\<lparr>sys := es\<rparr>)"
    using QueueGet_loop_effect [of "queue_slot q" "unat n" t s _ s'] by fastforce
  then show ?thesis using wf queues_wf_same [OF wf, of s'] by (auto simp: queue_view_def fun_eq_iff)
qed

lemma queue_delete:
  assumes wf: "queues_wf s" and del: "OS_QueueDelete q s = (e, s')"
  shows "if e = OS_SUCCESS then queue_view s q \<noteq> None \<and> queue_view s' = (queue_view s)(q := None) \<and> queues_wf s'
    else queue_view s' = queue_view s \<and> queues_wf s'"
proof (cases "queue_view s q")
  case None
  then have "s' = s \<and> e = OS_ERR_INVALID_ID"
    using del by (simp add: OS_QueueDelete_def queue_lookup_excl [OF wf])
  then show ?thesis using wf by simp
next
  case (Some x)
  let ?i = "queue_slot q + 64"
  have act: "active_id (OS_common_table s ?i) = q" "drop_bit 16 q = OS_OBJECT_TYPE_OS_QUEUE"
    using Some by (auto simp: queue_view_def split: if_splits)
  have tbl: "OS_common_table s' = (if e = OS_SUCCESS then (OS_common_table s)(?i := (OS_common_table s ?i)\<lparr>active_id := 0\<rparr>)
      else OS_common_table s)" and rest: "mq s' = mq s" "Initialized s' = Initialized s" "ShutdownFlag s' = ShutdownFlag s"
    using del Some by (auto simp: OS_QueueDelete_def queue_lookup_excl [OF wf] OS_QueueDelete_Impl_def mq_close_def
        mq_outcome_def Let_def OS_Lock_Global_def OS_Unlock_Global_def upd_record_def split: option.splits bool.splits prod.splits)
  show ?thesis
  proof (cases "e = OS_SUCCESS")
    case False
    then show ?thesis using tbl rest queues_wf_same [OF wf, of s'] by (simp add: queue_view_def fun_eq_iff)
  next
    case True
    have "queue_slot q < 64" by (simp add: queue_slot_def)
    then have "ids_wf s'"
      using wf True tbl ids_wf_upd [of s "queue_slot q" OS_OBJECT_TYPE_OS_QUEUE 0 s' "(OS_common_table s ?i)\<lparr>active_id := 0\<rparr>"]
      by (simp add: queues_wf_def)
    then have "queues_wf s'" using wf True tbl rest by (auto simp: queues_wf_def)
    moreover have "queue_view s' = (queue_view s)(q := None)"
    proof
      fix q'
      have "OS_common_table s' (queue_slot q' + 64) = (if queue_slot q' = queue_slot q
          then (OS_common_table s ?i)\<lparr>active_id := 0\<rparr> else OS_common_table s (queue_slot q' + 64))"
        using True tbl by simp
      then show "queue_view s' q' = ((queue_view s)(q := None)) q'"
        using act rest(1) by (cases "q' = q"; cases "queue_slot q' = queue_slot q")
          (auto simp: queue_view_def dest: queue_id_nonzero)
    qed
    ultimately show ?thesis using True Some by auto
  qed
qed

lemma queue_create_ok:
  assumes wf: "queues_wf s" and cr: "OS_QueueCreate True (Some name) d n s = ((e, qp), s')"
  shows "if e = OS_SUCCESS
    then \<exists>q d'. qp = Some q \<and> queue_view s q = None \<and> d' \<le> unat d
      \<and> queue_view s' = (queue_view s)(q \<mapsto> (d', unat n, [])) \<and> queues_wf s'
    else queue_view s' = queue_view s \<and> queues_wf s'"
proof (cases "length name \<ge> OS_MAX_API_NAME")
  case True
  then show ?thesis using cr wf by (simp add: OS_QueueCreate_def)
next
  case False
  obtain r s1 where alloc: "OS_ObjectIdAllocateNew OS_OBJECT_TYPE_OS_QUEUE (Some name) s = (r, s1)" by fastforce
  show ?thesis
  proof (cases r)
    case (Inl err)
    then have "e = err" "s' = s1" using cr alloc False by (simp_all add: OS_QueueCreate_def)
    moreover have "err \<noteq> OS_SUCCESS \<and> OS_common_table s1 = OS_common_table s \<and> mq s1 = mq s
        \<and> Initialized s1 = Initialized s \<and> ShutdownFlag s1 = ShutdownFlag s"
      using AllocateNew_err [OF _ _ alloc [unfolded Inl]] wf by (auto simp: queues_wf_def)
    ultimately show ?thesis using queues_wf_same [OF wf, of s1] by (simp add: queue_view_def fun_eq_iff)
  next
    case (Inr i)
    have ids: "ids_wf s" using wf by (simp add: queues_wf_def)
    note A = AllocateNew_ok [OF ids alloc [unfolded Inr], unfolded queue_section]
    obtain q where q: "q \<noteq> 0" "drop_bit 16 q = OS_OBJECT_TYPE_OS_QUEUE" "queue_slot q = i"
      and s1: "s1 = upd_record (i + 64) (\<lambda>r. r\<lparr>active_id := q, name_entry := None,
        creator := cur_task s, refcount := 0\<rparr>) (OS_Lock_Global OS_OBJECT_TYPE_OS_QUEUE s)"
      using A(5) by (auto simp: queue_slot_def)
    let ?r = "(OS_common_table s (i + 64))\<lparr>active_id := (if e = OS_SUCCESS then q else 0), name_entry := Some name,
        creator := cur_task s, refcount := 0\<rparr>"
    let ?d = "if TruncateQueueDepth s > 0 \<and> TruncateQueueDepth s < d then TruncateQueueDepth s else d"
    have type: "OS_OBJECT_TYPE_OS_QUEUE \<noteq> 0" "\<not> OS_OBJECT_TYPE_USER \<le> OS_OBJECT_TYPE_OS_QUEUE"
      by (simp_all add: OS_OBJECT_TYPE_OS_QUEUE_def OS_OBJECT_TYPE_USER_def)
    have eff: "OS_common_table s' = (OS_common_table s)(i + 64 := ?r)" "Initialized s' = Initialized s"
      "ShutdownFlag s' = ShutdownFlag s" "e = OS_SUCCESS \<Longrightarrow> qp = Some q"
      "e \<noteq> OS_SUCCESS \<Longrightarrow> mq s' = mq s"
      "e = OS_SUCCESS \<Longrightarrow> mq s' = (mq s)(i := \<lparr>mq_maxmsg = unat ?d, mq_msgsize = unat n, mq_msgs = []\<rparr>)"
      using cr alloc Inr False s1 q type
      by (auto simp: OS_QueueCreate_def OS_QueueCreate_Impl_def mq_open_def mq_outcome_def Let_def
          OS_ObjectIdFinalizeNew_def OS_Unlock_Global_def OS_Lock_Global_def upd_record_def
          split: option.splits bool.splits prod.splits if_splits)
    have d: "unat ?d \<le> unat d" by (simp add: word_less_nat_alt)
    have i: "i < OS_GetMaxForObjectType OS_OBJECT_TYPE_OS_QUEUE" using A(1) by simp
    have "ids_wf s'"
      using eff(1) q by (intro ids_wf_upd [OF ids i, of "if e = OS_SUCCESS then q else 0" s' ?r])
        (simp_all add: queue_slot_def split: if_splits)
    then have wf': "queues_wf s'" using wf eff(1-3) A(1) by (auto simp: queues_wf_def)
    have free: "active_id (OS_common_table s (i + 64)) = 0" by (rule A(4))
    have tbl: "OS_common_table s' (queue_slot x + 64) = (if queue_slot x = i then ?r else OS_common_table s (queue_slot x + 64))" for x
      using eff(1) by simp
    show ?thesis
    proof (cases "e = OS_SUCCESS")
      case True
      from eff(6) [OF this] d obtain d' where d': "d' \<le> unat d"
        "mq s' = (mq s)(i := \<lparr>mq_maxmsg = d', mq_msgsize = unat n, mq_msgs = []\<rparr>)" by blast
      have "queue_view s' x = ((queue_view s)(q \<mapsto> (d', unat n, []))) x" for x
        using q True free d'(2) tbl [of x]
        by (cases "x = q"; cases "queue_slot x = i") (auto simp: queue_view_def dest: queue_id_nonzero)
      then have "queue_view s' = (queue_view s)(q \<mapsto> (d', unat n, []))" by (rule ext)
      moreover have "queue_view s q = None" using q free by (simp add: queue_view_def)
      ultimately show ?thesis using True eff(4) d'(1) wf' by auto
    next
      case False
      have "queue_view s' x = queue_view s x" for x
        using False free eff(5) tbl [of x]
        by (cases "queue_slot x = i") (auto simp: queue_view_def dest: queue_id_nonzero)
      then show ?thesis using False wf' by auto
    qed
  qed
qed

interpretation osq: queue_service
  "\<lambda>name d n. OS_QueueCreate True (Some name) d n" OS_QueueDelete
  "\<lambda>q m n. OS_QueuePut q (Some m) n" "OS_QueueGet True" queue_view queues_wf
proof (unfold_locales, goal_cases)
  case (1 s name d n qp s') then show ?case using queue_create_ok [of s name d n OS_SUCCESS qp s'] by auto
next
  case (2 s name d n e qp s') then show ?case using queue_create_ok [of s name d n e qp s'] by simp
next
  case (3 s q s') then show ?case using queue_delete [of s q OS_SUCCESS s'] by simp
next
  case (4 s q e s') then show ?case using queue_delete [of s q e s'] by simp
next
  case (5 s q m n s') then show ?case by (rule queue_put_ok)
next
  case (6 s q m n e s') then show ?case by (rule queue_put_err)
next
  case (7 s q n t m s') then show ?case by (rule queue_get_ok)
next
  case (8 s q n t e s') then show ?case by (rule queue_get_err)
qed
section \<open>Properties\<close>

definition demo_queues :: "u32 OS_queues" where
  "demo_queues = OS_ids.extend (OS_ids.truncate demo_ids)
     \<lparr>OS_queue_table = (\<lambda>_. \<lparr>queue_name = [], max_depth = 0, max_size = 0\<rparr>), TruncateQueueDepth = 0,
      mq = (\<lambda>_. \<lparr>mq_maxmsg = 0, mq_msgsize = 0, mq_msgs = []\<rparr>), sys = []\<rparr>"

lemma demo_queues_wf: "queues_wf demo_queues"
  by (simp add: queues_wf_def demo_queues_def demo_ids_def OS_ids.defs OS_ObjectIdInit_def ids_wf_def
      OS_SHUTDOWN_MAGIC_NUMBER_def)

definition demo_queue1 :: "u32 OS_queues" where
  "demo_queue1 = snd (OS_QueueCreate True (Some ''PIPE'') 2 4 demo_queues)"

lemma demo_queue1_created:
  "OS_QueueCreate True (Some ''PIPE'') 2 4 demo_queues = ((OS_SUCCESS, Some 0x20001), demo_queue1)"
proof -
  have "fst (OS_QueueCreate True (Some ''PIPE'') 2 4 demo_queues) = (OS_SUCCESS, Some 0x20001)" by code_simp
  then show ?thesis unfolding demo_queue1_def by (metis prod.collapse)
qed

lemma demo_queue1_wf: "queues_wf demo_queue1" "queue_view demo_queue1 0x20001 = Some (2, 4, [])"
proof -
  show "queues_wf demo_queue1"
    using osq.create_ok [OF demo_queues_wf demo_queue1_created] by blast
  show "queue_view demo_queue1 0x20001 = Some (2, 4, [])" by code_simp
qed

text \<open>
  C13: queues are first in, first out.  After any history of puts and gets on a queue, whatever of them
  failed or was interrupted, the messages received followed by those still queued are the messages that
  were there followed by those accepted, in order; the depth is never exceeded, and no other queue
  changes.
\<close>

theorem OS_Queue_fifo:
  assumes "queues_wf s" and "queue_view s q = Some (d, k, ms)" and "length ms \<le> d"
    and "run_ops (\<lambda>q m n. OS_QueuePut q (Some m) n) (OS_QueueGet True) q n ops s = Some (sent, got, s')"
  shows "\<exists>ms'. queue_view s' q = Some (d, k, ms') \<and> got @ ms' = ms @ sent \<and> length ms' \<le> d
    \<and> (\<forall>q'. q' \<noteq> q \<longrightarrow> queue_view s' q' = queue_view s q') \<and> queues_wf s'"
  using assms by (rule osq.run_ops_fifo)

theorem OS_Queue_fifo_witness:
  "\<exists>s' ms'. run_ops (\<lambda>q m n. OS_QueuePut q (Some m) n) (OS_QueueGet True) 0x20001 4
       [Put 11, Put 12, Get OS_CHECK, Put 13] demo_queue1 = Some ([11, 12, 13], [11], s')
     \<and> queue_view s' 0x20001 = Some (2, 4, ms') \<and> [11] @ ms' = [11, 12, 13]"
proof -
  have "map_option (\<lambda>(sent, got, _). (sent, got)) (run_ops (\<lambda>q m n. OS_QueuePut q (Some m) n) (OS_QueueGet True) 0x20001 4
       [Put 11, Put 12, Get OS_CHECK, Put 13] demo_queue1) = Some ([11, 12, 13], [11])" by code_simp
  then obtain s' where run: "run_ops (\<lambda>q m n. OS_QueuePut q (Some m) n) (OS_QueueGet True) 0x20001 4
       [Put 11, Put 12, Get OS_CHECK, Put 13] demo_queue1 = Some ([11, 12, 13], [11], s')" by auto
  from OS_Queue_fifo [OF demo_queue1_wf _ this] this show ?thesis by auto
qed



text \<open>
  C15: without a kernel failure in store, \<^verbatim>\<open>OS_QueuePut\<close> on an existing queue accepts the message exactly
  when it fits the message size and there is room; it reports a full queue as \<^verbatim>\<open>OS_QUEUE_FULL\<close>, so a
  message is never dropped silently.
\<close>

theorem OS_QueuePut_accepts:
  assumes "queues_wf s" and "sys s = []" and "queue_view s q = Some (d, k, ms)"
  shows "fst (OS_QueuePut q (Some m) n s) =
    (if k < unat n then OS_ERROR else if d \<le> length ms then OS_QUEUE_FULL else OS_SUCCESS)"
proof -
  have "mq_maxmsg (mq s (queue_slot q)) = d" "mq_msgsize (mq s (queue_slot q)) = k" "mq_msgs (mq s (queue_slot q)) = ms"
    using assms(3) by (auto simp: queue_view_def Let_def split: if_splits)
  then show ?thesis
    using assms(2,3) queue_lookup [OF assms(1), of q]
    by (simp add: OS_QueuePut_def OS_QueuePut_Impl_def QueuePut_loop.simps mq_timedsend_def mq_outcome_def)
qed

theorem OS_QueuePut_accepts_witness:
  "fst (OS_QueuePut 0x20001 (Some 5) 4 demo_queue1) = OS_SUCCESS"
proof -
  have "sys demo_queue1 = []" by code_simp
  from OS_QueuePut_accepts [OF demo_queue1_wf(1) this demo_queue1_wf(2), of 5 4] show ?thesis by simp
qed

end
