(* ===== verification/SB_Priv.thy ===== *)
theory SB_Priv
  imports SB_Msg ES_MemPool OS_Queue
begin

text \<open>
  The software bus: its state (\<^verbatim>\<open>sb/cfe_sb_priv.h\<close>), its internal operations (\<^verbatim>\<open>sb/cfe_sb_priv.c\<close>), the
  buffer descriptors (\<^verbatim>\<open>sb/cfe_sb_buf.c\<close>) and its initialisation (\<^verbatim>\<open>sb/cfe_sb_init.c\<close>).

  \<^item> The state \<open>cfe_sb\<close> is the C structure \<^verbatim>\<open>CFE_SB\<close>; its tables are functions on the index.  The
    descriptors that live in the memory pool are found by their address, in one function per type
    (\<open>Dests\<close>, \<open>Bufs\<close>, \<open>Zcds\<close>), and \<open>Msgs\<close> gives the message that starts at an address.  \<open>Mem\<close> is the pool
    and \<open>OS\<close> the state of the OS layer with the queues.  \<open>MutexDepth\<close> counts the takes of
    \<^verbatim>\<open>SharedDataMutexId\<close>, \<open>Events\<close> lists the events sent (the texts are not modelled; the event services
    send each event as a further message, a later operation here).
  \<^item> A pointer is an \<open>addr option\<close>, \<open>None\<close> is \<^verbatim>\<open>NULL\<close>.  An operation whose result is an \<open>option\<close> is \<open>None\<close>
    when it dereferences \<^verbatim>\<open>NULL\<close>, writes outside an array, or does not return.
  \<^item> What other services tell about the calling task is the call context \<open>SB_ctx\<close>.
\<close>

unbundle bit_operations_syntax

section \<open>Data\<close>

record CFE_SB_SenderId_t =
  ProcessorId :: u32
  SenderName :: string

record CFE_SB_BufferD_t =
  bdMsgId :: u16
  UseCount :: u16
  bdSize :: u32
  Buffer :: addr
  Sender :: CFE_SB_SenderId_t

record CFE_SB_DestinationD_t =
  dPipeId :: u8
  Active :: u8
  MsgId2PipeLim :: u16
  BuffCount :: u16
  DestCnt :: u16
  Scope :: u8
  dPrev :: "addr option"
  dNext :: "addr option"

record CFE_SB_ZeroCopyD_t =
  zAppID :: u32
  zSize :: u32
  zBuffer :: addr
  zNext :: "addr option"
  zPrev :: "addr option"

record CFE_SB_RouteEntry_t =
  rMsgId :: u16
  Destinations :: u16
  SeqCnt :: u32
  ListHeadPtr :: "addr option"

record CFE_SB_PipeD_t =
  InUse :: u8
  PipeId :: u8
  PipeName :: string
  AppName :: string
  Opts :: u8
  pAppId :: u32
  SysQueueId :: u32
  QueueDepth :: u16
  SendErrors :: u16
  CurrentBuff :: "addr option"
  ToTrashBuff :: "addr option"

record CFE_SB_Qos_t =
  Priority :: u8
  Reliability :: u8

text \<open>The counters of the housekeeping packet, and the statistics packet with its depth record per pipe.\<close>

record CFE_SB_HKTlm =
  NoSubscribersCounter :: u8
  MsgSendErrorCounter :: u8
  MsgReceiveErrorCounter :: u8
  InternalErrorCounter :: u8
  CreatePipeErrorCounter :: u8
  SubscribeErrorCounter :: u8
  PipeOptsErrorCounter :: u8
  DuplicateSubscriptionsCounter :: u8
  PipeOverflowErrorCounter :: u16
  MsgLimitErrorCounter :: u16

record CFE_SB_PipeDepthStats_t =
  psPipeId :: u8
  psDepth :: u16
  psInUse :: u16
  psPeakInUse :: u16

record CFE_SB_Stats =
  MsgIdsInUse :: u32
  PeakMsgIdsInUse :: u32
  PipesInUse :: u32
  PeakPipesInUse :: u32
  MemInUse :: u32
  PeakMemInUse :: u32
  SubscriptionsInUse :: u32
  PeakSubscriptionsInUse :: u32
  SBBuffersInUse :: u32
  PeakSBBuffersInUse :: u32
  PipeDepthStats :: "nat \<Rightarrow> CFE_SB_PipeDepthStats_t"

datatype SB_Event =
    CFE_SB_CR_PIPE_BAD_ARG_EID | CFE_SB_MAX_PIPES_MET_EID | CFE_SB_CR_PIPE_ERR_EID | CFE_SB_PIPE_ADDED_EID
  | CFE_SB_SETPIPEOPTS_ID_ERR_EID | CFE_SB_SETPIPEOPTS_OWNER_ERR_EID | CFE_SB_SETPIPEOPTS_EID
  | CFE_SB_GETPIPEOPTS_ID_ERR_EID | CFE_SB_GETPIPEOPTS_PTR_ERR_EID | CFE_SB_GETPIPEOPTS_EID
  | CFE_SB_SUB_ARG_ERR_EID | CFE_SB_DUP_SUBSCRIP_EID | CFE_SB_MAX_MSGS_MET_EID | CFE_SB_MAX_DESTS_MET_EID
  | CFE_SB_SUBSCRIPTION_RCVD_EID | CFE_SB_UNSUB_ARG_ERR_EID | CFE_SB_UNSUB_NO_SUBS_EID
  | CFE_SB_SEND_BAD_ARG_EID | CFE_SB_SEND_NO_SUBS_EID | CFE_SB_MSG_TOO_BIG_EID | CFE_SB_GET_BUF_ERR_EID
  | CFE_SB_MSGID_LIM_ERR_EID | CFE_SB_RCV_BAD_ARG_EID | CFE_SB_BAD_PIPEID_EID | CFE_SB_DEST_BLK_ERR_EID
  | CFE_SB_SEND_INV_MSGID_EID | CFE_SB_SUBSCRIPTION_RPT_EID | CFE_SB_UNSUBSCRIPTION_RPT_EID
  | CFE_SB_Q_FULL_ERR_EID | CFE_SB_Q_WR_ERR_EID | CFE_SB_Q_RD_ERR_EID | CFE_SB_LSTSNDER_ERR1_EID
  | CFE_SB_LSTSNDER_ERR2_EID | CFE_SB_GLS_INV_CALLER_EID | CFE_SB_DEL_PIPE_ERR1_EID | CFE_SB_PIPE_DELETED_EID
  | CFE_SB_SUBSCRIPTION_REMOVED_EID | CFE_SB_SUB_INV_PIPE_EID | CFE_SB_SUB_INV_CALLER_EID
  | CFE_SB_UNSUB_INV_PIPE_EID | CFE_SB_UNSUB_INV_CALLER_EID | CFE_SB_DEL_PIPE_ERR2_EID

record cfe_sb =
  MutexDepth :: int
  SubscriptionReporting :: u32
  SenderReporting :: u32
  StopRecurseFlags :: "nat \<Rightarrow> u32"
  ZeroCopyTail :: "addr option"
  PipeTbl :: "nat \<Rightarrow> CFE_SB_PipeD_t"
  HK :: CFE_SB_HKTlm
  Stat :: CFE_SB_Stats
  PoolHdl :: addr
  Mem :: Pool_t
  MsgMap :: "nat \<Rightarrow> u16"
  RoutingTbl :: "nat \<Rightarrow> CFE_SB_RouteEntry_t"
  SubRprtMsg :: addr
  StatTlmHdr :: bytes
  RouteIdxTop :: u16
  RouteIdxStack :: "nat \<Rightarrow> u16"
  Default_Qos :: CFE_SB_Qos_t
  Dests :: "addr \<Rightarrow> CFE_SB_DestinationD_t"
  Bufs :: "addr \<Rightarrow> CFE_SB_BufferD_t"
  Zcds :: "addr \<Rightarrow> CFE_SB_ZeroCopyD_t"
  Msgs :: "addr \<Rightarrow> bytes"
  OS :: "addr OS_queues"
  Events :: "SB_Event list"

text \<open>
  The call context: the task (\<^verbatim>\<open>OS_TaskGetId\<close>), the application it belongs to (\<^verbatim>\<open>CFE_ES_GetAppID\<close>, which
  stores 0 when it fails), the names \<^verbatim>\<open>CFE_ES_GetAppName\<close> and \<^verbatim>\<open>CFE_ES_GetTaskInfo\<close> return, and
  \<^verbatim>\<open>CFE_PSP_GetProcessorId\<close>.
\<close>

record SB_ctx =
  TaskGetId :: u32
  GetAppID :: "u32 option"
  GetAppName :: string
  GetTaskInfo :: "(string \<times> string) option"
  GetProcessorId :: u32

definition ctxAppId :: "SB_ctx \<Rightarrow> u32" where
  "ctxAppId c = (case GetAppID c of None \<Rightarrow> 0 | Some a \<Rightarrow> a)"

section \<open>Constants\<close>

abbreviation (input) MAX_MSG_IDS :: nat where "MAX_MSG_IDS \<equiv> 256"
abbreviation (input) MAX_PIPES :: nat where "MAX_PIPES \<equiv> 64"
abbreviation (input) MAX_MSG_KEYS :: nat where "MAX_MSG_KEYS \<equiv> 8192"

definition CFE_PLATFORM_SB_MAX_DEST_PER_PKT :: u16 where "CFE_PLATFORM_SB_MAX_DEST_PER_PKT = 16"
definition CFE_PLATFORM_SB_DEFAULT_MSG_LIMIT :: u16 where "CFE_PLATFORM_SB_DEFAULT_MSG_LIMIT = 4"
definition CFE_PLATFORM_SB_MAX_PIPE_DEPTH :: u16 where "CFE_PLATFORM_SB_MAX_PIPE_DEPTH = 256"
definition CFE_PLATFORM_SB_HIGHEST_VALID_MSGID :: u16 where "CFE_PLATFORM_SB_HIGHEST_VALID_MSGID = 0x1FFF"
definition CFE_MISSION_SB_MAX_SB_MSG_SIZE :: u16 where "CFE_MISSION_SB_MAX_SB_MSG_SIZE = 32768"
definition CFE_PLATFORM_SB_BUF_MEMORY_BYTES :: u32 where "CFE_PLATFORM_SB_BUF_MEMORY_BYTES = 524288"
definition CFE_PLATFORM_ES_MAX_APPLICATIONS :: nat where "CFE_PLATFORM_ES_MAX_APPLICATIONS = 32"
definition CFE_SB_INVALID_MSG_ID :: u16 where "CFE_SB_INVALID_MSG_ID = 0xFFFF"
definition CFE_SB_INVALID_ROUTE_IDX :: u16 where "CFE_SB_INVALID_ROUTE_IDX = 0"
definition CFE_SB_UNUSED_QUEUE :: u32 where "CFE_SB_UNUSED_QUEUE = 0xFFFF"
definition CFE_SB_INVALID_PIPE :: u8 where "CFE_SB_INVALID_PIPE = 0xFF"
definition CFE_SB_NOT_IN_USE :: u8 where "CFE_SB_NOT_IN_USE = 0"
definition CFE_SB_IN_USE :: u8 where "CFE_SB_IN_USE = 1"
definition CFE_SB_INACTIVE :: u8 where "CFE_SB_INACTIVE = 0"
definition CFE_SB_ACTIVE :: u8 where "CFE_SB_ACTIVE = 1"
definition CFE_SB_GLOBAL :: u8 where "CFE_SB_GLOBAL = 0"
definition CFE_SB_LOCAL :: u8 where "CFE_SB_LOCAL = 1"
definition CFE_SB_ENABLE :: u32 where "CFE_SB_ENABLE = 1"
definition CFE_SB_DISABLE :: u32 where "CFE_SB_DISABLE = 0"
definition CFE_SB_PIPEOPTS_IGNOREMINE :: u8 where "CFE_SB_PIPEOPTS_IGNOREMINE = 1"
definition sizeof_CFE_SB_BufferD_t :: u32 where "sizeof_CFE_SB_BufferD_t = 36"
definition sizeof_CFE_SB_DestinationD_t :: u32 where "sizeof_CFE_SB_DestinationD_t = 20"
definition sizeof_CFE_SB_ZeroCopyD_t :: u32 where "sizeof_CFE_SB_ZeroCopyD_t = 20"

section \<open>Updates of the state\<close>

definition upd_HK :: "(CFE_SB_HKTlm \<Rightarrow> CFE_SB_HKTlm) \<Rightarrow> cfe_sb \<Rightarrow> cfe_sb" where
  "upd_HK f s = s\<lparr>HK := f (HK s)\<rparr>"

definition upd_Stat :: "(CFE_SB_Stats \<Rightarrow> CFE_SB_Stats) \<Rightarrow> cfe_sb \<Rightarrow> cfe_sb" where
  "upd_Stat f s = s\<lparr>Stat := f (Stat s)\<rparr>"

definition upd_pipe :: "nat \<Rightarrow> (CFE_SB_PipeD_t \<Rightarrow> CFE_SB_PipeD_t) \<Rightarrow> cfe_sb \<Rightarrow> cfe_sb" where
  "upd_pipe i f s = s\<lparr>PipeTbl := (PipeTbl s)(i := f (PipeTbl s i))\<rparr>"

definition upd_route :: "nat \<Rightarrow> (CFE_SB_RouteEntry_t \<Rightarrow> CFE_SB_RouteEntry_t) \<Rightarrow> cfe_sb \<Rightarrow> cfe_sb" where
  "upd_route i f s = s\<lparr>RoutingTbl := (RoutingTbl s)(i := f (RoutingTbl s i))\<rparr>"

definition upd_dest :: "addr \<Rightarrow> (CFE_SB_DestinationD_t \<Rightarrow> CFE_SB_DestinationD_t) \<Rightarrow> cfe_sb \<Rightarrow> cfe_sb" where
  "upd_dest a f s = s\<lparr>Dests := (Dests s)(a := f (Dests s a))\<rparr>"

definition upd_buf :: "addr \<Rightarrow> (CFE_SB_BufferD_t \<Rightarrow> CFE_SB_BufferD_t) \<Rightarrow> cfe_sb \<Rightarrow> cfe_sb" where
  "upd_buf a f s = s\<lparr>Bufs := (Bufs s)(a := f (Bufs s a))\<rparr>"

definition upd_zcd :: "addr \<Rightarrow> (CFE_SB_ZeroCopyD_t \<Rightarrow> CFE_SB_ZeroCopyD_t) \<Rightarrow> cfe_sb \<Rightarrow> cfe_sb" where
  "upd_zcd a f s = s\<lparr>Zcds := (Zcds s)(a := f (Zcds s a))\<rparr>"

definition upd_depth :: "nat \<Rightarrow> (CFE_SB_PipeDepthStats_t \<Rightarrow> CFE_SB_PipeDepthStats_t) \<Rightarrow> cfe_sb \<Rightarrow> cfe_sb" where
  "upd_depth i f s = upd_Stat (\<lambda>t. t\<lparr>PipeDepthStats := (PipeDepthStats t)(i := f (PipeDepthStats t i))\<rparr>) s"

definition SendEvent :: "SB_Event \<Rightarrow> cfe_sb \<Rightarrow> cfe_sb" where
  "SendEvent e s = s\<lparr>Events := Events s @ [e]\<rparr>"

text \<open>\<^verbatim>\<open>Payload.MemInUse += n\<close> with the peak value that follows it.\<close>

definition add_MemInUse :: "u32 \<Rightarrow> cfe_sb \<Rightarrow> cfe_sb" where
  "add_MemInUse n = upd_Stat (\<lambda>t. let t = t\<lparr>MemInUse := MemInUse t + n\<rparr>
     in if MemInUse t > PeakMemInUse t then t\<lparr>PeakMemInUse := MemInUse t\<rparr> else t)"

lemmas sb_upd_defs =
  upd_HK_def upd_Stat_def upd_pipe_def upd_route_def upd_dest_def upd_buf_def upd_zcd_def upd_depth_def
  SendEvent_def add_MemInUse_def

section \<open>Identifiers, keys and route indices\<close>

definition CFE_SB_IsValidMsgId :: "u16 \<Rightarrow> bool" where
  "CFE_SB_IsValidMsgId MsgId \<longleftrightarrow> MsgId \<noteq> CFE_SB_INVALID_MSG_ID \<and> MsgId \<le> CFE_PLATFORM_SB_HIGHEST_VALID_MSGID"

definition CFE_SB_IsValidMsgKey :: "u16 \<Rightarrow> bool" where
  "CFE_SB_IsValidMsgKey MsgKey \<longleftrightarrow> MsgKey \<noteq> 0 \<and> MsgKey \<le> 8192"

definition CFE_SB_IsValidRouteIdx :: "u16 \<Rightarrow> bool" where
  "CFE_SB_IsValidRouteIdx RouteIdx \<longleftrightarrow> RouteIdx \<noteq> 0 \<and> RouteIdx \<le> 256"

definition CFE_SB_MsgKeyToValue :: "u16 \<Rightarrow> nat" where
  "CFE_SB_MsgKeyToValue MsgKey = unat (MsgKey - 1)"

definition CFE_SB_ValueToMsgKey :: "u16 \<Rightarrow> u16" where
  "CFE_SB_ValueToMsgKey KeyIdx = 1 + KeyIdx"

definition CFE_SB_ValueToRouteIdx :: "u16 \<Rightarrow> u16" where
  "CFE_SB_ValueToRouteIdx TableIdx = 1 + TableIdx"

definition CFE_SB_RouteIdxToValue :: "u16 \<Rightarrow> nat" where
  "CFE_SB_RouteIdxToValue RouteIdx = unat (RouteIdx - 1)"

definition CFE_SB_ConvertMsgIdtoMsgKey :: "u16 \<Rightarrow> u16" where
  "CFE_SB_ConvertMsgIdtoMsgKey MsgId = CFE_SB_ValueToMsgKey MsgId"

section \<open>Routing table and pipe table\<close>

definition CFE_SB_InitIdxStack :: "cfe_sb \<Rightarrow> cfe_sb" where
  "CFE_SB_InitIdxStack s = s\<lparr>RouteIdxTop := 0,
     RouteIdxStack := (\<lambda>i. if i < MAX_MSG_IDS then CFE_SB_ValueToRouteIdx (of_nat i) else RouteIdxStack s i)\<rparr>"

text \<open>The scans of the pipe table: \<open>n\<close> entries from index \<open>i\<close> on.\<close>

primrec GetAvailPipeIdx_loop :: "nat \<Rightarrow> nat \<Rightarrow> (nat \<Rightarrow> CFE_SB_PipeD_t) \<Rightarrow> u8" where
  "GetAvailPipeIdx_loop 0 i tbl = CFE_SB_INVALID_PIPE"
| "GetAvailPipeIdx_loop (Suc n) i tbl =
     (if InUse (tbl i) = CFE_SB_NOT_IN_USE then of_nat i else GetAvailPipeIdx_loop n (Suc i) tbl)"

definition CFE_SB_GetAvailPipeIdx :: "cfe_sb \<Rightarrow> u8" where
  "CFE_SB_GetAvailPipeIdx s = GetAvailPipeIdx_loop MAX_PIPES 0 (PipeTbl s)"

primrec GetPipeIdx_loop :: "nat \<Rightarrow> nat \<Rightarrow> u8 \<Rightarrow> (nat \<Rightarrow> CFE_SB_PipeD_t) \<Rightarrow> u8" where
  "GetPipeIdx_loop 0 i PId tbl = CFE_SB_INVALID_PIPE"
| "GetPipeIdx_loop (Suc n) i PId tbl =
     (if PipeId (tbl i) = PId \<and> InUse (tbl i) = 1 then of_nat i else GetPipeIdx_loop n (Suc i) PId tbl)"

definition CFE_SB_GetPipeIdx :: "u8 \<Rightarrow> cfe_sb \<Rightarrow> u8" where
  "CFE_SB_GetPipeIdx PId s = GetPipeIdx_loop MAX_PIPES 0 PId (PipeTbl s)"

definition CFE_SB_RouteIdxPop_Unsync :: "cfe_sb \<Rightarrow> u16 \<times> cfe_sb" where
  "CFE_SB_RouteIdxPop_Unsync s =
     (if RouteIdxTop s \<ge> 256 then (CFE_SB_INVALID_ROUTE_IDX, s)
      else (RouteIdxStack s (unat (RouteIdxTop s)), s\<lparr>RouteIdxTop := RouteIdxTop s + 1\<rparr>))"

definition CFE_SB_RouteIdxPush_Unsync :: "u16 \<Rightarrow> cfe_sb \<Rightarrow> cfe_sb" where
  "CFE_SB_RouteIdxPush_Unsync idx s =
     (if RouteIdxTop s > 0
      then let s = s\<lparr>RouteIdxTop := RouteIdxTop s - 1\<rparr>
           in s\<lparr>RouteIdxStack := (RouteIdxStack s)(unat (RouteIdxTop s) := idx)\<rparr>
      else s)"

definition CFE_SB_LockSharedData :: "cfe_sb \<Rightarrow> cfe_sb" where
  "CFE_SB_LockSharedData s = s\<lparr>MutexDepth := MutexDepth s + 1\<rparr>"

definition CFE_SB_UnlockSharedData :: "cfe_sb \<Rightarrow> cfe_sb" where
  "CFE_SB_UnlockSharedData s = s\<lparr>MutexDepth := MutexDepth s - 1\<rparr>"

definition CFE_SB_ValidateMsgId :: "u16 \<Rightarrow> bool" where
  "CFE_SB_ValidateMsgId MsgId \<longleftrightarrow> CFE_SB_IsValidMsgId MsgId"

text \<open>\<open>True\<close> is \<^verbatim>\<open>CFE_SUCCESS\<close>, \<open>False\<close> is \<^verbatim>\<open>CFE_SB_FAILED\<close>.\<close>

definition CFE_SB_ValidatePipeId :: "u8 \<Rightarrow> cfe_sb \<Rightarrow> bool" where
  "CFE_SB_ValidatePipeId PId s =
     (if PId \<ge> 64 \<or> InUse (PipeTbl s (unat PId)) = CFE_SB_NOT_IN_USE then False else True)"

definition CFE_SB_GetPipePtr :: "u8 \<Rightarrow> cfe_sb \<Rightarrow> nat option" where
  "CFE_SB_GetPipePtr PId s = (if \<not> CFE_SB_ValidatePipeId PId s then None else Some (unat PId))"

definition CFE_SB_GetRoutingTblIdx :: "u16 \<Rightarrow> cfe_sb \<Rightarrow> u16" where
  "CFE_SB_GetRoutingTblIdx MsgKey s = MsgMap s (CFE_SB_MsgKeyToValue MsgKey)"

definition CFE_SB_SetRoutingTblIdx :: "u16 \<Rightarrow> u16 \<Rightarrow> cfe_sb \<Rightarrow> cfe_sb" where
  "CFE_SB_SetRoutingTblIdx MsgKey Value s = s\<lparr>MsgMap := (MsgMap s)(CFE_SB_MsgKeyToValue MsgKey := Value)\<rparr>"

text \<open>The route pointer is the index in the routing table.\<close>

definition CFE_SB_GetRoutePtrFromIdx :: "u16 \<Rightarrow> nat" where
  "CFE_SB_GetRoutePtrFromIdx RouteIdx = CFE_SB_RouteIdxToValue RouteIdx"

text \<open>The walk along a destination list: it does not return on a list that is not terminated.\<close>

partial_function (option) DestList_find ::
  "u8 \<Rightarrow> (addr \<Rightarrow> CFE_SB_DestinationD_t) \<Rightarrow> addr option \<Rightarrow> addr option option" where
  [code]: "DestList_find PId D DestPtr =
     (case DestPtr of
        None \<Rightarrow> Some None
      | Some a \<Rightarrow> if dPipeId (D a) = PId then Some (Some a) else DestList_find PId D (dNext (D a)))"

definition CFE_SB_GetDestPtr :: "u16 \<Rightarrow> u8 \<Rightarrow> cfe_sb \<Rightarrow> addr option option" where
  "CFE_SB_GetDestPtr MsgKey PId s =
     (let Idx = CFE_SB_GetRoutingTblIdx MsgKey s
      in if \<not> CFE_SB_IsValidRouteIdx Idx then Some None
         else DestList_find PId (Dests s) (ListHeadPtr (RoutingTbl s (CFE_SB_GetRoutePtrFromIdx Idx))))"

text \<open>\<open>True\<close> is \<^verbatim>\<open>CFE_SB_DUPLICATE\<close>.\<close>

definition CFE_SB_DuplicateSubscribeCheck :: "u16 \<Rightarrow> u8 \<Rightarrow> cfe_sb \<Rightarrow> bool option" where
  "CFE_SB_DuplicateSubscribeCheck MsgKey PId s =
     (let Idx = CFE_SB_GetRoutingTblIdx MsgKey s;
          DestPtr = (if \<not> CFE_SB_IsValidRouteIdx Idx then None
                     else ListHeadPtr (RoutingTbl s (CFE_SB_GetRoutePtrFromIdx Idx)))
      in map_option (\<lambda>r. r \<noteq> None) (DestList_find PId (Dests s) DestPtr))"

definition CFE_SB_GetPipeName :: "u8 \<Rightarrow> cfe_sb \<Rightarrow> string" where
  "CFE_SB_GetPipeName PId s = (if PId \<ge> 64 then [] else PipeName (PipeTbl s (unat PId)))"

definition CFE_SB_SetMsgSeqCnt :: "u32 \<Rightarrow> bytes \<Rightarrow> bytes" where
  "CFE_SB_SetMsgSeqCnt Count m = CCSDS_WR_SEQ Count m"

definition CFE_SB_GetAppTskName :: "SB_ctx \<Rightarrow> string" where
  "CFE_SB_GetAppTskName c =
     (case GetTaskInfo c of
        None \<Rightarrow> ''Unknown''
      | Some (App, Tsk) \<Rightarrow>
          if take (OS_MAX_API_NAME - 1) App = take (OS_MAX_API_NAME - 1) Tsk
          then take (OS_MAX_API_NAME - 1) App
          else take (OS_MAX_API_NAME - 1) App @ ''.'' @ take (OS_MAX_API_NAME - 1) Tsk)"

text \<open>\<^verbatim>\<open>CFE_TST(Val,12)\<close>: 1 for a command, 0 for telemetry.\<close>

definition CFE_SB_GetPktType :: "u16 \<Rightarrow> u8" where
  "CFE_SB_GetPktType MsgId = (if bit MsgId 12 then 1 else 0)"

text \<open>
  The flags that stop recursive events, one word per task.  The array has
  \<^verbatim>\<open>CFE_PLATFORM_ES_MAX_APPLICATIONS\<close> entries; an access behind its end is the result \<open>None\<close>.
\<close>

definition flag_index :: "u32 \<Rightarrow> nat option" where
  "flag_index TaskId =
     (let i = (case OS_ConvertToArrayIndex TaskId of (_, Some i) \<Rightarrow> i | (_, None) \<Rightarrow> unat TaskId)
      in if i < CFE_PLATFORM_ES_MAX_APPLICATIONS then Some i else None)"

definition CFE_SB_RequestToSendEvent :: "u32 \<Rightarrow> nat \<Rightarrow> cfe_sb \<Rightarrow> (bool \<times> cfe_sb) option" where
  "CFE_SB_RequestToSendEvent TaskId Bit s =
     (case flag_index TaskId of
        None \<Rightarrow> None
      | Some i \<Rightarrow>
          if bit (StopRecurseFlags s i) Bit then Some (False, s)
          else Some (True, s\<lparr>StopRecurseFlags := (StopRecurseFlags s)(i := set_bit Bit (StopRecurseFlags s i))\<rparr>))"

definition CFE_SB_FinishSendEvent :: "u32 \<Rightarrow> nat \<Rightarrow> cfe_sb \<Rightarrow> cfe_sb option" where
  "CFE_SB_FinishSendEvent TaskId Bit s =
     (case flag_index TaskId of
        None \<Rightarrow> None
      | Some i \<Rightarrow> Some (s\<lparr>StopRecurseFlags := (StopRecurseFlags s)(i := unset_bit Bit (StopRecurseFlags s i))\<rparr>))"

section \<open>Destination lists\<close>

definition CFE_SB_AddDest :: "nat \<Rightarrow> addr \<Rightarrow> cfe_sb \<Rightarrow> cfe_sb" where
  "CFE_SB_AddDest RouteEntry NewNode s =
     (case ListHeadPtr (RoutingTbl s RouteEntry) of
        None \<Rightarrow>
          let s = upd_dest NewNode (\<lambda>d. d\<lparr>dNext := None, dPrev := None\<rparr>) s
          in upd_route RouteEntry (\<lambda>r. r\<lparr>ListHeadPtr := Some NewNode\<rparr>) s
      | Some WBS \<Rightarrow>
          let s = upd_dest NewNode (\<lambda>d. d\<lparr>dNext := Some WBS, dPrev := None\<rparr>) s;
              s = upd_dest WBS (\<lambda>d. d\<lparr>dPrev := Some NewNode\<rparr>) s
          in upd_route RouteEntry (\<lambda>r. r\<lparr>ListHeadPtr := Some NewNode\<rparr>) s)"

definition CFE_SB_RemoveDest :: "nat \<Rightarrow> addr \<Rightarrow> cfe_sb \<Rightarrow> cfe_sb" where
  "CFE_SB_RemoveDest RouteEntry NodeToRemove s =
     (let s = (case (dPrev (Dests s NodeToRemove), dNext (Dests s NodeToRemove)) of
                 (None, None) \<Rightarrow> upd_route RouteEntry (\<lambda>r. r\<lparr>ListHeadPtr := None\<rparr>) s
               | (None, Some NextNode) \<Rightarrow>
                   upd_route RouteEntry (\<lambda>r. r\<lparr>ListHeadPtr := Some NextNode\<rparr>)
                     (upd_dest NextNode (\<lambda>d. d\<lparr>dPrev := None\<rparr>) s)
               | (Some PrevNode, None) \<Rightarrow> upd_dest PrevNode (\<lambda>d. d\<lparr>dNext := None\<rparr>) s
               | (Some PrevNode, Some NextNode) \<Rightarrow>
                   upd_dest NextNode (\<lambda>d. d\<lparr>dPrev := Some PrevNode\<rparr>)
                     (upd_dest PrevNode (\<lambda>d. d\<lparr>dNext := Some NextNode\<rparr>) s))
      in upd_dest NodeToRemove (\<lambda>d. d\<lparr>dNext := None, dPrev := None\<rparr>) s)"

section \<open>Buffer descriptors\<close>

definition CFE_SB_GetBufferFromPool :: "u16 \<Rightarrow> u16 \<Rightarrow> cfe_sb \<Rightarrow> addr option \<times> cfe_sb" where
  "CFE_SB_GetBufferFromPool MsgId Size s =
     (case CFE_ES_GetPoolBuf (PoolHdl s) (ucast Size + sizeof_CFE_SB_BufferD_t) (Mem s) of
        (Inl e, p) \<Rightarrow> (None, s\<lparr>Mem := p\<rparr>)
      | (Inr (stat1, bd), p) \<Rightarrow>
          let s = s\<lparr>Mem := p\<rparr>;
              s = upd_Stat (\<lambda>t. let t = t\<lparr>SBBuffersInUse := SBBuffersInUse t + 1\<rparr>
                    in if SBBuffersInUse t > PeakSBBuffersInUse t then t\<lparr>PeakSBBuffersInUse := SBBuffersInUse t\<rparr> else t) s;
              s = add_MemInUse stat1 s;
              s = upd_buf bd (\<lambda>b. b\<lparr>bdMsgId := MsgId, UseCount := 1, bdSize := ucast Size,
                                    Buffer := bd + sizeof_CFE_SB_BufferD_t\<rparr>) s
          in (Some bd, s))"

definition CFE_SB_GetBufferFromCaller :: "u16 \<Rightarrow> addr \<Rightarrow> cfe_sb \<Rightarrow> addr \<times> cfe_sb" where
  "CFE_SB_GetBufferFromCaller MsgId Address s =
     (let bd = Address - sizeof_CFE_SB_BufferD_t in (bd, upd_buf bd (\<lambda>b. b\<lparr>bdMsgId := MsgId\<rparr>) s))"

definition CFE_SB_ReturnBufferToPool :: "addr \<Rightarrow> cfe_sb \<Rightarrow> cfe_sb" where
  "CFE_SB_ReturnBufferToPool bd s =
     (case CFE_ES_PutPoolBuf (PoolHdl s) bd (Mem s) of
        (Inl e, p) \<Rightarrow> s\<lparr>Mem := p\<rparr>
      | (Inr n, p) \<Rightarrow>
          let s = s\<lparr>Mem := p\<rparr>
          in if n > 0
             then upd_Stat (\<lambda>t. t\<lparr>SBBuffersInUse := SBBuffersInUse t - 1, MemInUse := MemInUse t - n\<rparr>) s
             else s)"

definition CFE_SB_DecrBufUseCnt :: "addr \<Rightarrow> cfe_sb \<Rightarrow> cfe_sb" where
  "CFE_SB_DecrBufUseCnt bd s =
     (if UseCount (Bufs s bd) > 0
      then let s = upd_buf bd (\<lambda>b. b\<lparr>UseCount := UseCount b - 1\<rparr>) s
           in if UseCount (Bufs s bd) = 0 then CFE_SB_ReturnBufferToPool bd s else s
      else s)"

definition CFE_SB_GetDestinationBlk :: "cfe_sb \<Rightarrow> addr option \<times> cfe_sb" where
  "CFE_SB_GetDestinationBlk s =
     (case CFE_ES_GetPoolBuf (PoolHdl s) sizeof_CFE_SB_DestinationD_t (Mem s) of
        (Inl e, p) \<Rightarrow> (None, s\<lparr>Mem := p\<rparr>)
      | (Inr (n, Dest), p) \<Rightarrow> (Some Dest, add_MemInUse n (s\<lparr>Mem := p\<rparr>)))"

definition CFE_SB_PutDestinationBlk :: "addr option \<Rightarrow> cfe_sb \<Rightarrow> CFE_Status \<times> cfe_sb" where
  "CFE_SB_PutDestinationBlk Dest s =
     (case Dest of
        None \<Rightarrow> (CFE_SB_BAD_ARGUMENT, s)
      | Some a \<Rightarrow>
          (CFE_SUCCESS,
           case CFE_ES_PutPoolBuf (PoolHdl s) a (Mem s) of
             (Inl e, p) \<Rightarrow> s\<lparr>Mem := p\<rparr>
           | (Inr n, p) \<Rightarrow>
               let s = s\<lparr>Mem := p\<rparr>
               in if n > 0 then upd_Stat (\<lambda>t. t\<lparr>MemInUse := MemInUse t - n\<rparr>) s else s))"

section \<open>Initialisation\<close>

definition CFE_SB_MemPoolDefSize :: "u32 list" where
  "CFE_SB_MemPoolDefSize =
     [32808, 32768, 16384, 8192, 4096, 2048, 1024, 512, 256, 160, 128, 96, 64, 36, 20, 16, 8]"

text \<open>\<open>Data\<close> is the address of the partition and \<open>mem\<close> what its memory holds as descriptors.\<close>

definition CFE_SB_InitBuffers :: "addr \<Rightarrow> (addr \<Rightarrow> BD_t) \<Rightarrow> cfe_sb \<Rightarrow> CFE_Status \<times> cfe_sb" where
  "CFE_SB_InitBuffers Data mem s =
     (case CFE_ES_PoolCreateEx Data CFE_PLATFORM_SB_BUF_MEMORY_BYTES 17 (Some CFE_SB_MemPoolDefSize) CFE_ES_NO_MUTEX mem of
        Inl e \<Rightarrow> (e, s)
      | Inr p \<Rightarrow> (CFE_SUCCESS, s\<lparr>PoolHdl := PoolHandle p, Mem := p\<rparr>))"

definition CFE_SB_InitPipeTbl :: "cfe_sb \<Rightarrow> cfe_sb" where
  "CFE_SB_InitPipeTbl s = s\<lparr>PipeTbl := (\<lambda>i. if i < MAX_PIPES
     then (PipeTbl s i)\<lparr>InUse := CFE_SB_NOT_IN_USE, SysQueueId := CFE_SB_UNUSED_QUEUE, PipeId := CFE_SB_INVALID_PIPE,
            CurrentBuff := None, PipeName := []\<rparr> else PipeTbl s i)\<rparr>"

definition CFE_SB_InitMsgMap :: "cfe_sb \<Rightarrow> cfe_sb" where
  "CFE_SB_InitMsgMap s =
     s\<lparr>MsgMap := (\<lambda>i. if i < MAX_MSG_KEYS then CFE_SB_INVALID_ROUTE_IDX else MsgMap s i)\<rparr>"

definition CFE_SB_InitRoutingTbl :: "cfe_sb \<Rightarrow> cfe_sb" where
  "CFE_SB_InitRoutingTbl s = s\<lparr>RoutingTbl := (\<lambda>i. if i < MAX_MSG_IDS
     then \<lparr>rMsgId = CFE_SB_INVALID_MSG_ID, Destinations = 0, SeqCnt = 0, ListHeadPtr = None\<rparr> else RoutingTbl s i)\<rparr>"

text \<open>
  \<open>mutex\<close> is the answer of \<^verbatim>\<open>OS_MutSemCreate\<close>.  The statistics packet has 584 bytes and identifier 0x080A;
  \<^verbatim>\<open>CFE_SB_InitMsg\<close> clears its payload, so all statistics are 0.
\<close>

definition zero_Stats :: CFE_SB_Stats where
  "zero_Stats = \<lparr>MsgIdsInUse = 0, PeakMsgIdsInUse = 0, PipesInUse = 0, PeakPipesInUse = 0, MemInUse = 0, PeakMemInUse = 0,
     SubscriptionsInUse = 0, PeakSubscriptionsInUse = 0, SBBuffersInUse = 0, PeakSBBuffersInUse = 0,
     PipeDepthStats = (\<lambda>_. \<lparr>psPipeId = 0, psDepth = 0, psInUse = 0, psPeakInUse = 0\<rparr>)\<rparr>"

definition CFE_SB_EarlyInit :: "OS_Status \<Rightarrow> addr \<Rightarrow> (addr \<Rightarrow> BD_t) \<Rightarrow> cfe_sb \<Rightarrow> (OS_Status + CFE_Status) \<times> cfe_sb" where
  "CFE_SB_EarlyInit mutex Data mem s =
     (let s = s\<lparr>Default_Qos := \<lparr>Priority = 0, Reliability = 0\<rparr>\<rparr>
      in if mutex \<noteq> OS_SUCCESS then (Inl mutex, s)
         else
           let s = s\<lparr>MutexDepth := 0, SubscriptionReporting := CFE_SB_DISABLE, SenderReporting := 1\<rparr>;
               (st, s) = CFE_SB_InitBuffers Data mem s
           in if st \<noteq> CFE_SUCCESS then (Inr st, s)
              else
                let s = CFE_SB_InitIdxStack (CFE_SB_InitRoutingTbl (CFE_SB_InitMsgMap (CFE_SB_InitPipeTbl s)));
                    s = s\<lparr>StatTlmHdr := CFE_SB_InitMsg 0x080A 584 True (StatTlmHdr s), Stat := zero_Stats,
                           ZeroCopyTail := None\<rparr>
                in (Inr st, s))"

end
