(* ===== verification/SB_Api.thy ===== *)
theory SB_Api
  imports SB_Priv
begin

text \<open>
  The interface functions of the software bus: \<^verbatim>\<open>sb/cfe_sb_api.c\<close>, and \<^verbatim>\<open>CFE_SB_CleanUpApp\<close> and
  \<^verbatim>\<open>CFE_SB_ZeroCopyReleaseAppId\<close> of \<^verbatim>\<open>sb/cfe_sb_priv.c\<close>, which call them.

  A message pointer is the address under which \<open>Msgs\<close> has the message, in the memory of an application as
  well as in a buffer of the bus.  The long functions are cut at their loops and stages; every cut is
  named after the function it belongs to.
\<close>

unbundle bit_operations_syntax

section \<open>Sending\<close>

text \<open>An event that must not be sent from within itself: request, send, finish.\<close>

definition SendEvent_once :: "SB_ctx \<Rightarrow> nat \<Rightarrow> SB_Event \<Rightarrow> cfe_sb \<Rightarrow> cfe_sb option" where
  "SendEvent_once c Bit ev s =
     do { (granted, s) \<leftarrow> CFE_SB_RequestToSendEvent (TaskGetId c) Bit s;
          if granted then CFE_SB_FinishSendEvent (TaskGetId c) Bit (SendEvent ev s) else Some s }"

text \<open>An unsuccessful zero copy send gives the buffer of the caller back.\<close>

definition SendMsg_discard :: "bool \<Rightarrow> u16 \<Rightarrow> addr \<Rightarrow> cfe_sb \<Rightarrow> cfe_sb" where
  "SendMsg_discard ZeroCopy MsgId MsgPtr s =
     (if ZeroCopy then let (bd, s) = CFE_SB_GetBufferFromCaller MsgId MsgPtr s in CFE_SB_DecrBufUseCnt bd s else s)"

text \<open>One round of the delivery loop; the list is the event buffer \<^verbatim>\<open>SBSndErr\<close>.\<close>

definition SendMsg_one ::
  "SB_ctx \<Rightarrow> addr \<Rightarrow> addr \<Rightarrow> SB_Event list \<Rightarrow> cfe_sb \<Rightarrow> SB_Event list \<times> cfe_sb" where
  "SendMsg_one c bd dp errs s =
     (let d = Dests s dp; i = unat (dPipeId d)
      in if Active d = CFE_SB_INACTIVE then (errs, s)
         else if Opts (PipeTbl s i) AND CFE_SB_PIPEOPTS_IGNOREMINE \<noteq> 0 \<and> pAppId (PipeTbl s i) = ctxAppId c
         then (errs, s)
         else if BuffCount d \<ge> MsgId2PipeLim d
         then (errs @ [CFE_SB_MSGID_LIM_ERR_EID],
               upd_pipe i (\<lambda>p. p\<lparr>SendErrors := SendErrors p + 1\<rparr>)
                 (upd_HK (\<lambda>h. h\<lparr>MsgLimitErrorCounter := MsgLimitErrorCounter h + 1\<rparr>) s))
         else
           let (Status, os) = OS_QueuePut (SysQueueId (PipeTbl s i)) (Some bd) 4 (OS s); s = s\<lparr>OS := os\<rparr>
           in if Status = OS_SUCCESS
              then let s = upd_buf bd (\<lambda>b. b\<lparr>UseCount := UseCount b + 1\<rparr>) s;
                       s = upd_dest dp (\<lambda>d. d\<lparr>BuffCount := BuffCount d + 1, DestCnt := DestCnt d + 1\<rparr>) s
                   in (errs,
                       if i < MAX_PIPES
                       then upd_depth i (\<lambda>t. let t = t\<lparr>psInUse := psInUse t + 1\<rparr>
                              in if psInUse t > psPeakInUse t then t\<lparr>psPeakInUse := psInUse t\<rparr> else t) s
                       else s)
              else if Status = OS_QUEUE_FULL
              then (errs @ [CFE_SB_Q_FULL_ERR_EID],
                    upd_pipe i (\<lambda>p. p\<lparr>SendErrors := SendErrors p + 1\<rparr>)
                      (upd_HK (\<lambda>h. h\<lparr>PipeOverflowErrorCounter := PipeOverflowErrorCounter h + 1\<rparr>) s))
              else (errs @ [CFE_SB_Q_WR_ERR_EID],
                    upd_pipe i (\<lambda>p. p\<lparr>SendErrors := SendErrors p + 1\<rparr>)
                      (upd_HK (\<lambda>h. h\<lparr>InternalErrorCounter := InternalErrorCounter h + 1\<rparr>) s)))"

text \<open>The loop over at most \<open>n\<close> destinations; it stops at the end of the list.\<close>

primrec SendMsg_deliver ::
  "nat \<Rightarrow> SB_ctx \<Rightarrow> addr \<Rightarrow> addr option \<Rightarrow> SB_Event list \<Rightarrow> cfe_sb \<Rightarrow> SB_Event list \<times> cfe_sb" where
  "SendMsg_deliver 0 c bd DestPtr errs s = (errs, s)"
| "SendMsg_deliver (Suc n) c bd DestPtr errs s =
     (case DestPtr of
        None \<Rightarrow> (errs, s)
      | Some dp \<Rightarrow>
          let (errs, s) = SendMsg_one c bd dp errs s
          in SendMsg_deliver n c bd (dNext (Dests s dp)) errs s)"

text \<open>The events of the delivery, after the lock is released.\<close>

primrec SendMsg_events :: "SB_ctx \<Rightarrow> SB_Event list \<Rightarrow> cfe_sb \<Rightarrow> cfe_sb option" where
  "SendMsg_events c [] s = Some s"
| "SendMsg_events c (e # es) s =
     do { s \<leftarrow> SendEvent_once c (if e = CFE_SB_MSGID_LIM_ERR_EID then 2 else if e = CFE_SB_Q_FULL_ERR_EID then 3 else 4) e s;
          SendMsg_events c es s }"

text \<open>
  The message is copied into the buffer, the sequence count of the route is advanced and written into it,
  and the sender is recorded; \<open>r\<close> is the routing table index.
\<close>

definition SendMsg_prepare ::
  "SB_ctx \<Rightarrow> addr \<Rightarrow> u16 \<Rightarrow> u16 \<Rightarrow> bool \<Rightarrow> bool \<Rightarrow> nat \<Rightarrow> addr \<Rightarrow> cfe_sb \<Rightarrow> cfe_sb" where
  "SendMsg_prepare c MsgPtr MsgId TotalMsgSize IncrTlm ZeroCopy r bd s =
     (let buf = Buffer (Bufs s bd); msg = Msgs s MsgPtr;
          s = (if ZeroCopy then s
               else s\<lparr>Msgs := (Msgs s)(buf := (\<lambda>i. if i < unat TotalMsgSize then msg i else Msgs s buf i))\<rparr>);
          s = (if CFE_SB_GetPktType MsgId = 0 \<and> IncrTlm
               then let s = upd_route r (\<lambda>e. e\<lparr>SeqCnt := SeqCnt e + 1\<rparr>) s
                    in s\<lparr>Msgs := (Msgs s)(buf := CFE_SB_SetMsgSeqCnt (SeqCnt (RoutingTbl s r)) (Msgs s buf))\<rparr>
               else s)
      in if SenderReporting s \<noteq> 0
         then upd_buf bd (\<lambda>b. b\<lparr>Sender := \<lparr>ProcessorId = GetProcessorId c,
                                             SenderName = take OS_MAX_API_NAME (CFE_SB_GetAppTskName c)\<rparr>\<rparr>) s
         else s)"

text \<open>From there to the end of the function.\<close>

definition SendMsg_route :: "SB_ctx \<Rightarrow> nat \<Rightarrow> addr \<Rightarrow> cfe_sb \<Rightarrow> (CFE_Status \<times> cfe_sb) option" where
  "SendMsg_route c r bd s =
     (let (errs, s) = SendMsg_deliver (unat (Destinations (RoutingTbl s r))) c bd (ListHeadPtr (RoutingTbl s r)) [] s
      in map_option (\<lambda>s. (CFE_SUCCESS, s)) (SendMsg_events c errs (CFE_SB_UnlockSharedData (CFE_SB_DecrBufUseCnt bd s))))"

definition CFE_SB_SendMsgFull ::
  "SB_ctx \<Rightarrow> addr option \<Rightarrow> bool \<Rightarrow> bool \<Rightarrow> cfe_sb \<Rightarrow> (CFE_Status \<times> cfe_sb) option" where
  "CFE_SB_SendMsgFull c MsgPtr IncrTlm ZeroCopy s =
     (let send_error = upd_HK (\<lambda>h. h\<lparr>MsgSendErrorCounter := MsgSendErrorCounter h + 1\<rparr>)
      in case MsgPtr of
        None \<Rightarrow> Some (CFE_SB_BAD_ARGUMENT,
          SendEvent CFE_SB_SEND_BAD_ARG_EID (CFE_SB_UnlockSharedData (send_error (CFE_SB_LockSharedData s))))
      | Some a \<Rightarrow>
          let MsgId = CFE_SB_GetMsgId (Msgs s a); TotalMsgSize = CFE_SB_GetTotalMsgLength (Msgs s a)
          in if \<not> CFE_SB_IsValidMsgId MsgId
             then Some (CFE_SB_BAD_ARGUMENT, SendEvent CFE_SB_SEND_INV_MSGID_EID (CFE_SB_UnlockSharedData
                    (SendMsg_discard ZeroCopy MsgId a (send_error (CFE_SB_LockSharedData s)))))
             else if TotalMsgSize > CFE_MISSION_SB_MAX_SB_MSG_SIZE
             then Some (CFE_SB_MSG_TOO_BIG, SendEvent CFE_SB_MSG_TOO_BIG_EID (CFE_SB_UnlockSharedData
                    (SendMsg_discard ZeroCopy MsgId a (send_error (CFE_SB_LockSharedData s)))))
             else
               let MsgKey = CFE_SB_ConvertMsgIdtoMsgKey MsgId; s = CFE_SB_LockSharedData s;
                   RtgTblIdx = CFE_SB_GetRoutingTblIdx MsgKey s
               in if \<not> CFE_SB_IsValidRouteIdx RtgTblIdx
                  then let s = upd_HK (\<lambda>h. h\<lparr>NoSubscribersCounter := NoSubscribersCounter h + 1\<rparr>) s;
                           s = CFE_SB_UnlockSharedData (SendMsg_discard ZeroCopy MsgId a s)
                       in map_option (\<lambda>s. (CFE_SUCCESS, s)) (SendEvent_once c 0 CFE_SB_SEND_NO_SUBS_EID s)
                  else
                    let (BufDscPtr, s) =
                          (if ZeroCopy then let (bd, s) = CFE_SB_GetBufferFromCaller MsgId a s in (Some bd, s)
                           else CFE_SB_GetBufferFromPool MsgId TotalMsgSize s)
                    in case BufDscPtr of
                         None \<Rightarrow> map_option (\<lambda>s. (CFE_SB_BUF_ALOC_ERR, s))
                                   (SendEvent_once c 1 CFE_SB_GET_BUF_ERR_EID (CFE_SB_UnlockSharedData (send_error s)))
                       | Some bd \<Rightarrow>
                           let r = CFE_SB_GetRoutePtrFromIdx RtgTblIdx
                           in SendMsg_route c r bd (SendMsg_prepare c a MsgId TotalMsgSize IncrTlm ZeroCopy r bd s))"

definition CFE_SB_SendMsg :: "SB_ctx \<Rightarrow> addr option \<Rightarrow> cfe_sb \<Rightarrow> (CFE_Status \<times> cfe_sb) option" where
  "CFE_SB_SendMsg c MsgPtr s = CFE_SB_SendMsgFull c MsgPtr True False s"

definition CFE_SB_PassMsg :: "SB_ctx \<Rightarrow> addr option \<Rightarrow> cfe_sb \<Rightarrow> (CFE_Status \<times> cfe_sb) option" where
  "CFE_SB_PassMsg c MsgPtr s = CFE_SB_SendMsgFull c MsgPtr False False s"

section \<open>Subscribing\<close>

text \<open>The report on a subscription, written at the offsets of \<^verbatim>\<open>CFE_SB_SingleSubscriptionTlm_t\<close> and sent.\<close>

definition SubRprt_fill :: "u8 \<Rightarrow> u16 \<Rightarrow> CFE_SB_Qos_t \<Rightarrow> u8 \<Rightarrow> bytes \<Rightarrow> bytes" where
  "SubRprt_fill SubType MsgId Qos Pipe m =
     (put_le16 14 MsgId m)(12 := SubType, 16 := Priority Qos, 17 := Reliability Qos, 18 := Pipe)"

definition SubRprt_send ::
  "SB_ctx \<Rightarrow> u8 \<Rightarrow> u16 \<Rightarrow> CFE_SB_Qos_t \<Rightarrow> u8 \<Rightarrow> SB_Event \<Rightarrow> cfe_sb \<Rightarrow> cfe_sb option" where
  "SubRprt_send c SubType MsgId Qos PId ev s =
     do { let s = s\<lparr>Msgs := (Msgs s)(SubRprtMsg s := SubRprt_fill SubType MsgId Qos PId (Msgs s (SubRprtMsg s)))\<rparr>;
          (Stat, s) \<leftarrow> CFE_SB_SendMsg c (Some (SubRprtMsg s)) (CFE_SB_UnlockSharedData s);
          Some (CFE_SB_LockSharedData (SendEvent ev s)) }"

text \<open>The route of a message identifier: the one in use, or a new one from the stack of free indices.\<close>

definition Subscribe_route :: "u16 \<Rightarrow> u16 \<Rightarrow> cfe_sb \<Rightarrow> nat option \<times> cfe_sb" where
  "Subscribe_route MsgId MsgKey s =
     (let RouteIdx = CFE_SB_GetRoutingTblIdx MsgKey s
      in if CFE_SB_IsValidRouteIdx RouteIdx then (Some (CFE_SB_GetRoutePtrFromIdx RouteIdx), s)
         else
           let (RouteIdx, s) = CFE_SB_RouteIdxPop_Unsync s
           in if \<not> CFE_SB_IsValidRouteIdx RouteIdx then (None, s)
              else
                let s = upd_Stat (\<lambda>t. let t = t\<lparr>MsgIdsInUse := MsgIdsInUse t + 1\<rparr>
                      in if MsgIdsInUse t > PeakMsgIdsInUse t then t\<lparr>PeakMsgIdsInUse := MsgIdsInUse t\<rparr> else t) s;
                    s = CFE_SB_SetRoutingTblIdx MsgKey RouteIdx s;
                    r = CFE_SB_GetRoutePtrFromIdx RouteIdx
                in (Some r, upd_route r (\<lambda>e. e\<lparr>rMsgId := MsgId\<rparr>) s))"

text \<open>The destination block of the new subscription is filled in and linked.\<close>

definition Subscribe_link :: "nat \<Rightarrow> addr \<Rightarrow> u8 \<Rightarrow> u16 \<Rightarrow> u8 \<Rightarrow> cfe_sb \<Rightarrow> cfe_sb" where
  "Subscribe_link r DestBlkPtr PId MsgLim Sc s =
     (let s = upd_dest DestBlkPtr (\<lambda>_. \<lparr>dPipeId = PId, Active = CFE_SB_ACTIVE, MsgId2PipeLim = MsgLim, BuffCount = 0,
                DestCnt = 0, Scope = Sc, dPrev = None, dNext = None\<rparr>) s;
          s = CFE_SB_AddDest r DestBlkPtr s;
          s = upd_route r (\<lambda>e. e\<lparr>Destinations := Destinations e + 1\<rparr>) s
      in upd_Stat (\<lambda>t. let t = t\<lparr>SubscriptionsInUse := SubscriptionsInUse t + 1\<rparr>
           in if SubscriptionsInUse t > PeakSubscriptionsInUse t
              then t\<lparr>PeakSubscriptionsInUse := SubscriptionsInUse t\<rparr> else t) s)"

definition CFE_SB_SubscribeFull ::
  "SB_ctx \<Rightarrow> u16 \<Rightarrow> u8 \<Rightarrow> CFE_SB_Qos_t \<Rightarrow> u16 \<Rightarrow> u8 \<Rightarrow> cfe_sb \<Rightarrow> (CFE_Status \<times> cfe_sb) option" where
  "CFE_SB_SubscribeFull c MsgId PId Quality MsgLim Sc s =
     (let s = CFE_SB_LockSharedData s; AppId = ctxAppId c; PipeIdx = CFE_SB_GetPipeIdx PId s;
          refuse = (\<lambda>ev s. Some (CFE_SB_BAD_ARGUMENT, SendEvent ev (CFE_SB_UnlockSharedData
                      (upd_HK (\<lambda>h. h\<lparr>SubscribeErrorCounter := SubscribeErrorCounter h + 1\<rparr>) s))))
      in if PipeIdx = CFE_SB_INVALID_PIPE then refuse CFE_SB_SUB_INV_PIPE_EID s
         else if pAppId (PipeTbl s (unat PipeIdx)) \<noteq> AppId then refuse CFE_SB_SUB_INV_CALLER_EID s
         else if \<not> CFE_SB_IsValidMsgId MsgId \<or> Sc > 1 then refuse CFE_SB_SUB_ARG_ERR_EID s
         else
           let MsgKey = CFE_SB_ConvertMsgIdtoMsgKey MsgId
           in do { dup \<leftarrow> CFE_SB_DuplicateSubscribeCheck MsgKey PId s;
                   if dup
                   then Some (CFE_SUCCESS, SendEvent CFE_SB_DUP_SUBSCRIP_EID (CFE_SB_UnlockSharedData
                          (upd_HK (\<lambda>h. h\<lparr>DuplicateSubscriptionsCounter := DuplicateSubscriptionsCounter h + 1\<rparr>) s)))
                   else case Subscribe_route MsgId MsgKey s of
                     (None, s) \<Rightarrow> Some (CFE_SB_MAX_MSGS_MET, SendEvent CFE_SB_MAX_MSGS_MET_EID (CFE_SB_UnlockSharedData s))
                   | (Some r, s) \<Rightarrow>
                       if Destinations (RoutingTbl s r) \<ge> CFE_PLATFORM_SB_MAX_DEST_PER_PKT
                       then Some (CFE_SB_MAX_DESTS_MET, SendEvent CFE_SB_MAX_DESTS_MET_EID (CFE_SB_UnlockSharedData s))
                       else case CFE_SB_GetDestinationBlk s of
                         (None, s) \<Rightarrow> Some (CFE_SB_BUF_ALOC_ERR, SendEvent CFE_SB_DEST_BLK_ERR_EID (CFE_SB_UnlockSharedData s))
                       | (Some DestBlkPtr, s) \<Rightarrow>
                           do { let s = Subscribe_link r DestBlkPtr PId MsgLim Sc s;
                                s \<leftarrow> (if SubscriptionReporting s = CFE_SB_ENABLE \<and> Sc = CFE_SB_GLOBAL
                                      then SubRprt_send c 0 MsgId Quality PId CFE_SB_SUBSCRIPTION_RPT_EID s
                                      else Some s);
                                Some (CFE_SUCCESS, SendEvent CFE_SB_SUBSCRIPTION_RCVD_EID (CFE_SB_UnlockSharedData s)) } })"

definition CFE_SB_SubscribeEx ::
  "SB_ctx \<Rightarrow> u16 \<Rightarrow> u8 \<Rightarrow> CFE_SB_Qos_t \<Rightarrow> u16 \<Rightarrow> cfe_sb \<Rightarrow> (CFE_Status \<times> cfe_sb) option" where
  "CFE_SB_SubscribeEx c MsgId PId Quality MsgLim s = CFE_SB_SubscribeFull c MsgId PId Quality MsgLim CFE_SB_GLOBAL s"

definition CFE_SB_SubscribeLocal :: "SB_ctx \<Rightarrow> u16 \<Rightarrow> u8 \<Rightarrow> u16 \<Rightarrow> cfe_sb \<Rightarrow> (CFE_Status \<times> cfe_sb) option" where
  "CFE_SB_SubscribeLocal c MsgId PId MsgLim s = CFE_SB_SubscribeFull c MsgId PId (Default_Qos s) MsgLim CFE_SB_LOCAL s"

definition CFE_SB_Subscribe :: "SB_ctx \<Rightarrow> u16 \<Rightarrow> u8 \<Rightarrow> cfe_sb \<Rightarrow> (CFE_Status \<times> cfe_sb) option" where
  "CFE_SB_Subscribe c MsgId PId s =
     CFE_SB_SubscribeFull c MsgId PId (Default_Qos s) CFE_PLATFORM_SB_DEFAULT_MSG_LIMIT CFE_SB_GLOBAL s"

section \<open>Unsubscribing\<close>

text \<open>
  The search for the destination: it starts at the list head without a test for \<^verbatim>\<open>NULL\<close>.  The pointer to
  the next destination is read after the block was given back.
\<close>

partial_function (option) Unsubscribe_loop :: "nat \<Rightarrow> u8 \<Rightarrow> addr option \<Rightarrow> cfe_sb \<Rightarrow> cfe_sb option" where
  [code]: "Unsubscribe_loop r PId DestPtr s =
     (case DestPtr of
        None \<Rightarrow> None
      | Some dp \<Rightarrow>
          if dPipeId (Dests s dp) = PId
          then let s = CFE_SB_RemoveDest r dp s;
                   (_, s) = CFE_SB_PutDestinationBlk (Some dp) s;
                   s = upd_route r (\<lambda>e. e\<lparr>Destinations := Destinations e - 1\<rparr>) s
               in Some (upd_Stat (\<lambda>t. t\<lparr>SubscriptionsInUse := SubscriptionsInUse t - 1\<rparr>) s)
          else if dNext (Dests s dp) = None then Some s
          else Unsubscribe_loop r PId (dNext (Dests s dp)) s)"

definition CFE_SB_UnsubscribeFull ::
  "SB_ctx \<Rightarrow> u16 \<Rightarrow> u8 \<Rightarrow> u8 \<Rightarrow> u32 \<Rightarrow> cfe_sb \<Rightarrow> (CFE_Status \<times> cfe_sb) option" where
  "CFE_SB_UnsubscribeFull c MsgId PId Sc AppId s =
     (let s = CFE_SB_LockSharedData s; PipeIdx = CFE_SB_GetPipeIdx PId s;
          refuse = (\<lambda>ev s. Some (CFE_SB_BAD_ARGUMENT, SendEvent ev (CFE_SB_UnlockSharedData s)))
      in if PipeIdx = CFE_SB_INVALID_PIPE then refuse CFE_SB_UNSUB_INV_PIPE_EID s
         else if pAppId (PipeTbl s (unat PipeIdx)) \<noteq> AppId then refuse CFE_SB_UNSUB_INV_CALLER_EID s
         else if \<not> CFE_SB_IsValidMsgId MsgId \<or> \<not> CFE_SB_ValidatePipeId PId s \<or> Sc > 1
         then refuse CFE_SB_UNSUB_ARG_ERR_EID s
         else
           let MsgKey = CFE_SB_ConvertMsgIdtoMsgKey MsgId; RouteIdx = CFE_SB_GetRoutingTblIdx MsgKey s
           in if \<not> CFE_SB_IsValidRouteIdx RouteIdx
              then Some (CFE_SUCCESS, SendEvent CFE_SB_UNSUB_NO_SUBS_EID (CFE_SB_UnlockSharedData s))
              else
                let r = CFE_SB_GetRoutePtrFromIdx RouteIdx
                in do { s \<leftarrow> Unsubscribe_loop r PId (ListHeadPtr (RoutingTbl s r)) s;
                        s \<leftarrow> (if Destinations (RoutingTbl s r) = 0
                              then let s = upd_Stat (\<lambda>t. t\<lparr>MsgIdsInUse := MsgIdsInUse t - 1\<rparr>) s;
                                       s = CFE_SB_RouteIdxPush_Unsync RouteIdx s;
                                       s = CFE_SB_SetRoutingTblIdx MsgKey CFE_SB_INVALID_ROUTE_IDX s
                                   in if SubscriptionReporting s = CFE_SB_ENABLE \<and> Sc = CFE_SB_GLOBAL
                                      then SubRprt_send c 1 MsgId \<lparr>Priority = 0, Reliability = 0\<rparr> PId
                                             CFE_SB_UNSUBSCRIPTION_RPT_EID s
                                      else Some s
                              else Some s);
                        Some (CFE_SUCCESS, SendEvent CFE_SB_SUBSCRIPTION_REMOVED_EID (CFE_SB_UnlockSharedData s)) })"

definition CFE_SB_Unsubscribe :: "SB_ctx \<Rightarrow> u16 \<Rightarrow> u8 \<Rightarrow> cfe_sb \<Rightarrow> (CFE_Status \<times> cfe_sb) option" where
  "CFE_SB_Unsubscribe c MsgId PId s = CFE_SB_UnsubscribeFull c MsgId PId CFE_SB_GLOBAL (ctxAppId c) s"

definition CFE_SB_UnsubscribeLocal :: "SB_ctx \<Rightarrow> u16 \<Rightarrow> u8 \<Rightarrow> cfe_sb \<Rightarrow> (CFE_Status \<times> cfe_sb) option" where
  "CFE_SB_UnsubscribeLocal c MsgId PId s = CFE_SB_UnsubscribeFull c MsgId PId CFE_SB_LOCAL (ctxAppId c) s"

definition CFE_SB_UnsubscribeWithAppId :: "SB_ctx \<Rightarrow> u16 \<Rightarrow> u8 \<Rightarrow> u32 \<Rightarrow> cfe_sb \<Rightarrow> (CFE_Status \<times> cfe_sb) option" where
  "CFE_SB_UnsubscribeWithAppId c MsgId PId AppId s = CFE_SB_UnsubscribeFull c MsgId PId CFE_SB_LOCAL AppId s"

section \<open>Receiving\<close>

text \<open>\<open>TimeOut\<close> is the \<^verbatim>\<open>int32\<close> argument: -1 pends for ever, 0 polls, another value is milliseconds.\<close>

definition OS_timeout_of :: "int \<Rightarrow> OS_timeout" where
  "OS_timeout_of TimeOut = (if TimeOut = -1 then OS_PEND else if TimeOut = 0 then OS_CHECK else OS_MSEC (nat TimeOut))"

definition CFE_SB_ReadQueue :: "nat \<Rightarrow> int \<Rightarrow> cfe_sb \<Rightarrow> ((CFE_Status + addr) \<times> cfe_sb) option" where
  "CFE_SB_ReadQueue i TimeOut s =
     (case OS_QueueGet True (SysQueueId (PipeTbl s i)) 4 (OS_timeout_of TimeOut) (OS s) of
        None \<Rightarrow> None
      | Some (Inr m, os) \<Rightarrow> Some (Inr m, s\<lparr>OS := os\<rparr>)
      | Some (Inl e, os) \<Rightarrow>
          let s = s\<lparr>OS := os\<rparr>
          in Some (if e = OS_QUEUE_EMPTY then (Inl CFE_SB_NO_MESSAGE, s)
                   else if e = OS_QUEUE_TIMEOUT then (Inl CFE_SB_TIME_OUT, s)
                   else (Inl CFE_SB_PIPE_RD_ERR, SendEvent CFE_SB_Q_RD_ERR_EID (CFE_SB_UnlockSharedData
                          (upd_HK (\<lambda>h. h\<lparr>InternalErrorCounter := InternalErrorCounter h + 1\<rparr>) (CFE_SB_LockSharedData s))))))"

text \<open>After the queue was read: the previous message is released, the new one becomes the current one.\<close>

definition RcvMsg_finish :: "nat \<Rightarrow> CFE_Status + addr \<Rightarrow> cfe_sb \<Rightarrow> (CFE_Status \<times> addr option \<times> cfe_sb) option" where
  "RcvMsg_finish i res s =
     (let s = CFE_SB_LockSharedData s;
          s = (case ToTrashBuff (PipeTbl s i) of
                 None \<Rightarrow> s
               | Some bd \<Rightarrow> upd_pipe i (\<lambda>p. p\<lparr>ToTrashBuff := None\<rparr>) (CFE_SB_DecrBufUseCnt bd s))
      in case res of
           Inl Status \<Rightarrow> Some (Status, None, CFE_SB_UnlockSharedData s)
         | Inr Message \<Rightarrow>
             do { let s = upd_pipe i (\<lambda>p. p\<lparr>CurrentBuff := Some Message\<rparr>) s;
                  DestPtr \<leftarrow> CFE_SB_GetDestPtr (CFE_SB_ConvertMsgIdtoMsgKey (bdMsgId (Bufs s Message))) (PipeId (PipeTbl s i)) s;
                  let s = (case DestPtr of
                             None \<Rightarrow> s
                           | Some dp \<Rightarrow> if BuffCount (Dests s dp) > 0
                                         then upd_dest dp (\<lambda>d. d\<lparr>BuffCount := BuffCount d - 1\<rparr>) s else s);
                  let s = (if PipeId (PipeTbl s i) < 64
                           then upd_depth (unat (PipeId (PipeTbl s i))) (\<lambda>t. t\<lparr>psInUse := psInUse t - 1\<rparr>) s else s);
                  Some (CFE_SUCCESS, Some (Buffer (Bufs s Message)), CFE_SB_UnlockSharedData s) })"

definition CFE_SB_RcvMsg :: "bool \<Rightarrow> u8 \<Rightarrow> int \<Rightarrow> cfe_sb \<Rightarrow> (CFE_Status \<times> addr option \<times> cfe_sb) option" where
  "CFE_SB_RcvMsg BufPtr PId TimeOut s =
     (let rcv_error = (\<lambda>s. CFE_SB_UnlockSharedData (upd_HK (\<lambda>h. h\<lparr>MsgReceiveErrorCounter := MsgReceiveErrorCounter h + 1\<rparr>)
                             (CFE_SB_LockSharedData s)))
      in if \<not> BufPtr \<or> TimeOut < -1
         then Some (CFE_SB_BAD_ARGUMENT, None, SendEvent CFE_SB_RCV_BAD_ARG_EID (rcv_error s))
         else case CFE_SB_GetPipePtr PId s of
           None \<Rightarrow> Some (CFE_SB_BAD_ARGUMENT, None, SendEvent CFE_SB_BAD_PIPEID_EID (rcv_error s))
         | Some i \<Rightarrow>
             let s = upd_pipe i (\<lambda>p. p\<lparr>ToTrashBuff := CurrentBuff p, CurrentBuff := None\<rparr>) s
             in do { (res, s) \<leftarrow> CFE_SB_ReadQueue i TimeOut s; RcvMsg_finish i res s })"

text \<open>
  The result is the address of the sender record, 12 bytes behind the start of the current buffer
  descriptor; when there is no current message this is an offset from \<^verbatim>\<open>NULL\<close>.
\<close>

definition CFE_SB_GetLastSenderId :: "SB_ctx \<Rightarrow> bool \<Rightarrow> u8 \<Rightarrow> cfe_sb \<Rightarrow> (CFE_Status \<times> addr option) \<times> cfe_sb" where
  "CFE_SB_GetLastSenderId c Ptr PId s =
     (if \<not> Ptr then ((CFE_SB_BAD_ARGUMENT, None), SendEvent CFE_SB_LSTSNDER_ERR1_EID s)
      else if \<not> CFE_SB_ValidatePipeId PId s
      then ((CFE_SB_BAD_ARGUMENT, None), SendEvent CFE_SB_LSTSNDER_ERR2_EID s)
      else
        let s = CFE_SB_LockSharedData s
        in if pAppId (PipeTbl s (unat PId)) \<noteq> ctxAppId c
           then ((CFE_SB_BAD_ARGUMENT, None), SendEvent CFE_SB_GLS_INV_CALLER_EID (CFE_SB_UnlockSharedData s))
           else let bd = (case CurrentBuff (PipeTbl s (unat PId)) of None \<Rightarrow> 0 | Some a \<Rightarrow> a)
                in ((CFE_SUCCESS, Some (bd + 12)), CFE_SB_UnlockSharedData s))"

section \<open>Zero copy buffers\<close>

definition CFE_SB_ZeroCopyGetPtr :: "SB_ctx \<Rightarrow> u16 \<Rightarrow> cfe_sb \<Rightarrow> (addr \<times> addr) option \<times> cfe_sb" where
  "CFE_SB_ZeroCopyGetPtr c MsgSize s =
     (let s = CFE_SB_LockSharedData s
      in case CFE_ES_GetPoolBuf (PoolHdl s) sizeof_CFE_SB_ZeroCopyD_t (Mem s) of
           (Inl e, p) \<Rightarrow> (None, CFE_SB_UnlockSharedData (s\<lparr>Mem := p\<rparr>))
         | (Inr (n, zcd), p) \<Rightarrow>
             let s = add_MemInUse n (s\<lparr>Mem := p\<rparr>)
             in case CFE_ES_GetPoolBuf (PoolHdl s) (ucast MsgSize + sizeof_CFE_SB_BufferD_t) (Mem s) of
                  (Inl e, p) \<Rightarrow>
                    let (st, p) = CFE_ES_PutPoolBuf (PoolHdl s) zcd p; s = s\<lparr>Mem := p\<rparr>;
                        s = (case st of Inl e \<Rightarrow> s
                             | Inr n \<Rightarrow> if n > 0 then upd_Stat (\<lambda>t. t\<lparr>MemInUse := MemInUse t - n\<rparr>) s else s)
                    in (None, CFE_SB_UnlockSharedData s)
                | (Inr (n, bd), p) \<Rightarrow>
                    let s = s\<lparr>Mem := p\<rparr>;
                        s = upd_Stat (\<lambda>t. let t = t\<lparr>SBBuffersInUse := SBBuffersInUse t + 1\<rparr>
                              in if SBBuffersInUse t > PeakSBBuffersInUse t
                                 then t\<lparr>PeakSBBuffersInUse := SBBuffersInUse t\<rparr> else t) s;
                        s = add_MemInUse n s;
                        address = bd + sizeof_CFE_SB_BufferD_t;
                        s = upd_zcd zcd (\<lambda>z. z\<lparr>zSize := ucast MsgSize, zBuffer := address, zNext := None\<rparr>) s;
                        s = (case ZeroCopyTail s of None \<Rightarrow> s | Some t \<Rightarrow> upd_zcd t (\<lambda>z. z\<lparr>zNext := Some zcd\<rparr>) s);
                        s = upd_zcd zcd (\<lambda>z. z\<lparr>zPrev := ZeroCopyTail s\<rparr>) s;
                        s = s\<lparr>ZeroCopyTail := Some zcd\<rparr>;
                        s = CFE_SB_UnlockSharedData s;
                        s = upd_zcd zcd (\<lambda>z. z\<lparr>zAppID := ctxAppId c\<rparr>) s;
                        s = upd_buf bd (\<lambda>b. b\<lparr>UseCount := 1, bdSize := ucast MsgSize, Buffer := address\<rparr>) s
                    in (Some (address, zcd), s))"

definition CFE_SB_ZeroCopyReleaseDesc :: "addr option \<Rightarrow> addr \<Rightarrow> cfe_sb \<Rightarrow> CFE_Status \<times> cfe_sb" where
  "CFE_SB_ZeroCopyReleaseDesc Ptr2Release zcd s =
     (let s = CFE_SB_LockSharedData s; (info, p) = CFE_ES_GetPoolBufInfo (PoolHdl s) zcd (Mem s); s = s\<lparr>Mem := p\<rparr>
      in if Ptr2Release = None \<or> isl info \<or> Some (zBuffer (Zcds s zcd)) \<noteq> Ptr2Release
         then (CFE_SB_BUFFER_INVALID, CFE_SB_UnlockSharedData s)
         else
           let s = (case zPrev (Zcds s zcd) of None \<Rightarrow> s
                    | Some q \<Rightarrow> upd_zcd q (\<lambda>z. z\<lparr>zNext := zNext (Zcds s zcd)\<rparr>) s);
               s = (case zNext (Zcds s zcd) of None \<Rightarrow> s
                    | Some q \<Rightarrow> upd_zcd q (\<lambda>z. z\<lparr>zPrev := zPrev (Zcds s zcd)\<rparr>) s);
               s = (if ZeroCopyTail s = Some zcd then s\<lparr>ZeroCopyTail := zPrev (Zcds s zcd)\<rparr> else s);
               (st, p) = CFE_ES_PutPoolBuf (PoolHdl s) zcd (Mem s); s = s\<lparr>Mem := p\<rparr>;
               s = (case st of Inl e \<Rightarrow> s
                    | Inr n \<Rightarrow> if n > 0 then upd_Stat (\<lambda>t. t\<lparr>MemInUse := MemInUse t - n\<rparr>) s else s)
           in (CFE_SUCCESS, CFE_SB_UnlockSharedData s))"

definition CFE_SB_ZeroCopyReleasePtr :: "addr option \<Rightarrow> addr \<Rightarrow> cfe_sb \<Rightarrow> CFE_Status \<times> cfe_sb" where
  "CFE_SB_ZeroCopyReleasePtr Ptr2Release BufferHandle s =
     (let (Status, s) = CFE_SB_ZeroCopyReleaseDesc Ptr2Release BufferHandle s;
          s = CFE_SB_LockSharedData s;
          s = (case (Status, Ptr2Release) of
                 (CFE_SUCCESS, Some a) \<Rightarrow>
                   let (st, p) = CFE_ES_PutPoolBuf (PoolHdl s) (a - sizeof_CFE_SB_BufferD_t) (Mem s); s = s\<lparr>Mem := p\<rparr>
                   in (case st of Inl e \<Rightarrow> s
                       | Inr n \<Rightarrow> if n > 0
                                   then upd_Stat (\<lambda>t. t\<lparr>MemInUse := MemInUse t - n, SBBuffersInUse := SBBuffersInUse t - 1\<rparr>) s
                                   else s)
               | _ \<Rightarrow> s)
      in (Status, CFE_SB_UnlockSharedData s))"

definition CFE_SB_ZeroCopySend :: "SB_ctx \<Rightarrow> addr option \<Rightarrow> addr \<Rightarrow> cfe_sb \<Rightarrow> (CFE_Status \<times> cfe_sb) option" where
  "CFE_SB_ZeroCopySend c MsgPtr BufferHandle s =
     (let (Status, s) = CFE_SB_ZeroCopyReleaseDesc MsgPtr BufferHandle s
      in if Status = CFE_SUCCESS then CFE_SB_SendMsgFull c MsgPtr True True s else Some (Status, s))"

definition CFE_SB_ZeroCopyPass :: "SB_ctx \<Rightarrow> addr option \<Rightarrow> addr \<Rightarrow> cfe_sb \<Rightarrow> (CFE_Status \<times> cfe_sb) option" where
  "CFE_SB_ZeroCopyPass c MsgPtr BufferHandle s =
     (let (Status, s) = CFE_SB_ZeroCopyReleaseDesc MsgPtr BufferHandle s
      in if Status = CFE_SUCCESS then CFE_SB_SendMsgFull c MsgPtr False True s else Some (Status, s))"

text \<open>All zero copy buffers of an application, from the tail of the list on.\<close>

partial_function (option) ZeroCopyReleaseAppId_loop :: "u32 \<Rightarrow> addr option \<Rightarrow> cfe_sb \<Rightarrow> cfe_sb option" where
  [code]: "ZeroCopyReleaseAppId_loop AppId zcd s =
     (case zcd of
        None \<Rightarrow> Some s
      | Some z \<Rightarrow>
          ZeroCopyReleaseAppId_loop AppId (zPrev (Zcds s z))
            (if zAppID (Zcds s z) = AppId
             then snd (CFE_SB_ZeroCopyReleasePtr (Some (zBuffer (Zcds s z))) z s)
             else s))"

definition CFE_SB_ZeroCopyReleaseAppId :: "u32 \<Rightarrow> cfe_sb \<Rightarrow> cfe_sb option" where
  "CFE_SB_ZeroCopyReleaseAppId AppId s = ZeroCopyReleaseAppId_loop AppId (ZeroCopyTail s) s"

section \<open>Pipes\<close>

text \<open>
  \<open>PipeIdPtr\<close> is \<open>None\<close> for \<^verbatim>\<open>NULL\<close> and the value found there otherwise; the result carries the value stored.
\<close>

definition CFE_SB_CreatePipe ::
  "SB_ctx \<Rightarrow> u8 option \<Rightarrow> u16 \<Rightarrow> string \<Rightarrow> cfe_sb \<Rightarrow> (CFE_Status \<times> u8 option) \<times> cfe_sb" where
  "CFE_SB_CreatePipe c PipeIdPtr Depth Name s =
     (let AppId = ctxAppId c; s = CFE_SB_LockSharedData s
      in if PipeIdPtr = None \<or> Depth > CFE_PLATFORM_SB_MAX_PIPE_DEPTH \<or> Depth = 0
         then ((CFE_SB_BAD_ARGUMENT, map_option (\<lambda>_. CFE_SB_INVALID_PIPE) PipeIdPtr),
               SendEvent CFE_SB_CR_PIPE_BAD_ARG_EID (CFE_SB_UnlockSharedData
                 (upd_HK (\<lambda>h. h\<lparr>CreatePipeErrorCounter := CreatePipeErrorCounter h + 1\<rparr>) s)))
         else
           let PipeTblIdx = CFE_SB_GetAvailPipeIdx s
           in if PipeTblIdx = CFE_SB_INVALID_PIPE
              then ((CFE_SB_MAX_PIPES_MET, Some CFE_SB_INVALID_PIPE),
                    SendEvent CFE_SB_MAX_PIPES_MET_EID (CFE_SB_UnlockSharedData s))
              else
                let ((Status, qid), os) = OS_QueueCreate True (Some Name) (ucast Depth) 4 (OS s); s = s\<lparr>OS := os\<rparr>;
                    i = unat PipeTblIdx
                in if Status \<noteq> OS_SUCCESS
                   then ((CFE_SB_PIPE_CR_ERR, if Status = OS_ERR_NAME_TAKEN then PipeIdPtr else Some CFE_SB_INVALID_PIPE),
                         SendEvent CFE_SB_CR_PIPE_ERR_EID (CFE_SB_UnlockSharedData s))
                   else
                     let s = upd_pipe i (\<lambda>p. p\<lparr>InUse := CFE_SB_IN_USE,
                               SysQueueId := (case qid of None \<Rightarrow> 0 | Some q \<Rightarrow> q), PipeId := PipeTblIdx,
                               QueueDepth := Depth, pAppId := AppId, SendErrors := 0, CurrentBuff := None, ToTrashBuff := None,
                               AppName := GetAppName c, PipeName := take (OS_MAX_API_NAME - 1) Name\<rparr>) s;
                         s = upd_Stat (\<lambda>t. let t = t\<lparr>PipesInUse := PipesInUse t + 1\<rparr>
                               in if PipesInUse t > PeakPipesInUse t then t\<lparr>PeakPipesInUse := PipesInUse t\<rparr> else t) s;
                         s = (if i < MAX_PIPES
                              then upd_depth i (\<lambda>_. \<lparr>psPipeId = PipeTblIdx, psDepth = Depth, psInUse = 0, psPeakInUse = 0\<rparr>) s
                              else s)
                     in ((CFE_SUCCESS, Some PipeTblIdx), SendEvent CFE_SB_PIPE_ADDED_EID (CFE_SB_UnlockSharedData s)))"

text \<open>
  Deletion, first stage: the subscriptions of the pipe in route \<open>i\<close>, then in all routes.  The lock is released
  around every call of \<^verbatim>\<open>CFE_SB_UnsubscribeWithAppId\<close>.
\<close>

partial_function (option) DeletePipe_dests ::
  "SB_ctx \<Rightarrow> u8 \<Rightarrow> u32 \<Rightarrow> nat \<Rightarrow> addr option \<Rightarrow> cfe_sb \<Rightarrow> cfe_sb option" where
  [code]: "DeletePipe_dests c PId AppId i DestPtr s =
     (case DestPtr of
        None \<Rightarrow> Some s
      | Some dp \<Rightarrow>
          do { s \<leftarrow> (if dPipeId (Dests s dp) = PId
                     then map_option (\<lambda>(_, s). CFE_SB_LockSharedData s)
                            (CFE_SB_UnsubscribeWithAppId c (rMsgId (RoutingTbl s i)) PId AppId (CFE_SB_UnlockSharedData s))
                     else Some s);
               DeletePipe_dests c PId AppId i (dNext (Dests s dp)) s })"

primrec DeletePipe_routes :: "nat \<Rightarrow> nat \<Rightarrow> SB_ctx \<Rightarrow> u8 \<Rightarrow> u32 \<Rightarrow> cfe_sb \<Rightarrow> cfe_sb option" where
  "DeletePipe_routes 0 i c PId AppId s = Some s"
| "DeletePipe_routes (Suc n) i c PId AppId s =
     do { s \<leftarrow> (if CFE_SB_IsValidMsgId (rMsgId (RoutingTbl s i))
                then DeletePipe_dests c PId AppId i (ListHeadPtr (RoutingTbl s i)) s else Some s);
          DeletePipe_routes n (Suc i) c PId AppId s }"

text \<open>Second stage: the messages left in the pipe are received until an error comes back.\<close>

partial_function (option) DeletePipe_drain :: "u8 \<Rightarrow> cfe_sb \<Rightarrow> cfe_sb option" where
  [code]: "DeletePipe_drain PId s =
     do { (Stat, _, s) \<leftarrow> CFE_SB_RcvMsg True PId 0 (CFE_SB_UnlockSharedData s);
          let s = CFE_SB_LockSharedData s;
          if Stat = CFE_SUCCESS then DeletePipe_drain PId s else Some s }"

text \<open>Third stage: the queue and the table entry; the options of the pipe are not touched.\<close>

definition DeletePipe_clear :: "nat \<Rightarrow> cfe_sb \<Rightarrow> cfe_sb" where
  "DeletePipe_clear i s =
     (let (_, os) = OS_QueueDelete (SysQueueId (PipeTbl s i)) (OS s); s = s\<lparr>OS := os\<rparr>;
          s = upd_pipe i (\<lambda>p. p\<lparr>InUse := CFE_SB_NOT_IN_USE, SysQueueId := CFE_SB_UNUSED_QUEUE, PipeId := CFE_SB_INVALID_PIPE,
                CurrentBuff := None, PipeName := []\<rparr>) s;
          s = (if i < MAX_PIPES
               then upd_depth i (\<lambda>_. \<lparr>psPipeId = 0, psDepth = 0, psInUse = 0, psPeakInUse = 0\<rparr>) s else s)
      in upd_Stat (\<lambda>t. t\<lparr>PipesInUse := PipesInUse t - 1\<rparr>) s)"

definition CFE_SB_DeletePipeFull :: "SB_ctx \<Rightarrow> u8 \<Rightarrow> u32 \<Rightarrow> cfe_sb \<Rightarrow> (CFE_Status \<times> cfe_sb) option" where
  "CFE_SB_DeletePipeFull c PId AppId s =
     (let s = CFE_SB_LockSharedData s; PipeTblIdx = CFE_SB_GetPipeIdx PId s; i = unat PipeTblIdx;
          refuse = (\<lambda>ev s. Some (CFE_SB_BAD_ARGUMENT, SendEvent ev (CFE_SB_UnlockSharedData
                      (upd_HK (\<lambda>h. h\<lparr>CreatePipeErrorCounter := CreatePipeErrorCounter h + 1\<rparr>) s))))
      in if \<not> CFE_SB_ValidatePipeId PId s \<or> PipeTblIdx = CFE_SB_INVALID_PIPE
         then refuse CFE_SB_DEL_PIPE_ERR1_EID s
         else if AppId \<noteq> pAppId (PipeTbl s i) then refuse CFE_SB_DEL_PIPE_ERR2_EID s
         else
           do { s \<leftarrow> DeletePipe_routes MAX_MSG_IDS 0 c PId AppId s;
                let s = (case ToTrashBuff (PipeTbl s i) of None \<Rightarrow> s
                         | Some bd \<Rightarrow> upd_pipe i (\<lambda>p. p\<lparr>ToTrashBuff := None\<rparr>) (CFE_SB_DecrBufUseCnt bd s));
                s \<leftarrow> DeletePipe_drain PId s;
                Some (CFE_SUCCESS, SendEvent CFE_SB_PIPE_DELETED_EID (CFE_SB_UnlockSharedData (DeletePipe_clear i s))) })"

definition CFE_SB_DeletePipe :: "SB_ctx \<Rightarrow> u8 \<Rightarrow> cfe_sb \<Rightarrow> (CFE_Status \<times> cfe_sb) option" where
  "CFE_SB_DeletePipe c PId s = CFE_SB_DeletePipeFull c PId (ctxAppId c) s"

definition CFE_SB_DeletePipeWithAppId :: "SB_ctx \<Rightarrow> u8 \<Rightarrow> u32 \<Rightarrow> cfe_sb \<Rightarrow> (CFE_Status \<times> cfe_sb) option" where
  "CFE_SB_DeletePipeWithAppId c PId AppId s = CFE_SB_DeletePipeFull c PId AppId s"

definition CFE_SB_SetPipeOpts :: "SB_ctx \<Rightarrow> u8 \<Rightarrow> u8 \<Rightarrow> cfe_sb \<Rightarrow> CFE_Status \<times> cfe_sb" where
  "CFE_SB_SetPipeOpts c PId NewOpts s =
     (case GetAppID c of
        None \<Rightarrow> (CFE_ES_ERR_APPID, s)
      | Some AppID \<Rightarrow>
          let s = CFE_SB_LockSharedData s; PipeTblIdx = CFE_SB_GetPipeIdx PId s; i = unat PipeTblIdx;
              refuse = (\<lambda>ev s. (CFE_SB_BAD_ARGUMENT, SendEvent ev (CFE_SB_UnlockSharedData
                          (upd_HK (\<lambda>h. h\<lparr>PipeOptsErrorCounter := PipeOptsErrorCounter h + 1\<rparr>) s))))
          in if \<not> CFE_SB_ValidatePipeId PId s \<or> PipeTblIdx = CFE_SB_INVALID_PIPE
             then refuse CFE_SB_SETPIPEOPTS_ID_ERR_EID s
             else if AppID \<noteq> pAppId (PipeTbl s i) then refuse CFE_SB_SETPIPEOPTS_OWNER_ERR_EID s
             else (CFE_SUCCESS, SendEvent CFE_SB_SETPIPEOPTS_EID (CFE_SB_UnlockSharedData (upd_pipe i (\<lambda>p. p\<lparr>Opts := NewOpts\<rparr>) s))))"

definition CFE_SB_GetPipeOpts :: "bool \<Rightarrow> u8 \<Rightarrow> cfe_sb \<Rightarrow> (CFE_Status \<times> u8 option) \<times> cfe_sb" where
  "CFE_SB_GetPipeOpts OptsPtr PId s =
     (if \<not> OptsPtr
      then ((CFE_SB_BAD_ARGUMENT, None), SendEvent CFE_SB_GETPIPEOPTS_PTR_ERR_EID
              (upd_HK (\<lambda>h. h\<lparr>PipeOptsErrorCounter := PipeOptsErrorCounter h + 1\<rparr>) s))
      else
        let s = CFE_SB_LockSharedData s; PipeTblIdx = CFE_SB_GetPipeIdx PId s; i = unat PipeTblIdx
        in if \<not> CFE_SB_ValidatePipeId PId s \<or> PipeTblIdx = CFE_SB_INVALID_PIPE
           then ((CFE_SB_BAD_ARGUMENT, None), SendEvent CFE_SB_GETPIPEOPTS_ID_ERR_EID (CFE_SB_UnlockSharedData
                   (upd_HK (\<lambda>h. h\<lparr>PipeOptsErrorCounter := PipeOptsErrorCounter h + 1\<rparr>) s)))
           else ((CFE_SUCCESS, Some (Opts (PipeTbl s i))), SendEvent CFE_SB_GETPIPEOPTS_EID (CFE_SB_UnlockSharedData s)))"

text \<open>When an application ends: its pipes, then its zero copy buffers.\<close>

primrec CleanUpApp_loop :: "nat \<Rightarrow> nat \<Rightarrow> SB_ctx \<Rightarrow> u32 \<Rightarrow> cfe_sb \<Rightarrow> cfe_sb option" where
  "CleanUpApp_loop 0 i c AppId s = Some s"
| "CleanUpApp_loop (Suc n) i c AppId s =
     do { s \<leftarrow> (if InUse (PipeTbl s i) = CFE_SB_IN_USE \<and> pAppId (PipeTbl s i) = AppId
                then map_option snd (CFE_SB_DeletePipeWithAppId c (PipeId (PipeTbl s i)) AppId s) else Some s);
          CleanUpApp_loop n (Suc i) c AppId s }"

definition CFE_SB_CleanUpApp :: "SB_ctx \<Rightarrow> u32 \<Rightarrow> cfe_sb \<Rightarrow> (CFE_Status \<times> cfe_sb) option" where
  "CFE_SB_CleanUpApp c AppId s =
     do { s \<leftarrow> CleanUpApp_loop MAX_PIPES 0 c AppId s;
          s \<leftarrow> CFE_SB_ZeroCopyReleaseAppId AppId s;
          Some (CFE_SUCCESS, s) }"

end
