(* ===== verification/SB_Calls.thy ===== *)
theory SB_Calls
  imports SB_Api
begin

text \<open>
  What every call of the software bus interface keeps.  \<open>sb_step d s s'\<close> says of two states that the lock of
  the shared data was taken \<open>d\<close> times more often than released, and that the resources of the bus (the memory
  pool and the OS queues) are sound in \<open>s'\<close> when they were in \<open>s\<close>.  There is one lemma per operation, each in
  the form that extends a step by the operation, so that a function is handled by following its calls; the
  step relation \<open>sb_call\<close> is the union of the interface functions, \<open>sb_run\<close> a history of calls by any tasks,
  between which the applications write messages into their memory.
\<close>

section \<open>Steps\<close>

definition sb_sound :: "cfe_sb \<Rightarrow> bool" where
  "sb_sound s \<longleftrightarrow> pool_wf (Mem s) \<and> PoolHdl s = PoolHandle (Mem s) \<and> queues_wf (OS s)"

definition sb_step :: "int \<Rightarrow> cfe_sb \<Rightarrow> cfe_sb \<Rightarrow> bool" where
  "sb_step d s s' \<longleftrightarrow> MutexDepth s' = MutexDepth s + d \<and> (sb_sound s \<longrightarrow> sb_sound s')"

lemma step_refl [simp]: "sb_step 0 s s"
  by (simp add: sb_step_def)

lemma step_same:
  "MutexDepth s' = MutexDepth s \<Longrightarrow> Mem s' = Mem s \<Longrightarrow> PoolHdl s' = PoolHdl s \<Longrightarrow> OS s' = OS s
   \<Longrightarrow> sb_step d s0 s' = sb_step d s0 s"
  by (simp add: sb_step_def sb_sound_def)

lemma step_upd [simp]:
  "sb_step d s0 (upd_HK f1 s) = sb_step d s0 s" "sb_step d s0 (upd_Stat f2 s) = sb_step d s0 s"
  "sb_step d s0 (upd_pipe i f3 s) = sb_step d s0 s" "sb_step d s0 (upd_route i f4 s) = sb_step d s0 s"
  "sb_step d s0 (upd_dest a f5 s) = sb_step d s0 s" "sb_step d s0 (upd_buf a f6 s) = sb_step d s0 s"
  "sb_step d s0 (upd_zcd a f7 s) = sb_step d s0 s" "sb_step d s0 (upd_depth i f8 s) = sb_step d s0 s"
  "sb_step d s0 (SendEvent ev s) = sb_step d s0 s" "sb_step d s0 (add_MemInUse n s) = sb_step d s0 s"
  "sb_step d s0 (s\<lparr>Msgs := m\<rparr>) = sb_step d s0 s" "sb_step d s0 (s\<lparr>MsgMap := mm\<rparr>) = sb_step d s0 s"
  "sb_step d s0 (s\<lparr>RouteIdxTop := t\<rparr>) = sb_step d s0 s" "sb_step d s0 (s\<lparr>RouteIdxStack := st\<rparr>) = sb_step d s0 s"
  "sb_step d s0 (s\<lparr>StopRecurseFlags := fl\<rparr>) = sb_step d s0 s" "sb_step d s0 (s\<lparr>ZeroCopyTail := z\<rparr>) = sb_step d s0 s"
  by (rule step_same; simp add: sb_upd_defs)+

lemma step_lock [simp]:
  "sb_step d s0 (CFE_SB_LockSharedData s) = sb_step (d - 1) s0 s"
  "sb_step d s0 (CFE_SB_UnlockSharedData s) = sb_step (d + 1) s0 s"
  by (auto simp: sb_step_def CFE_SB_LockSharedData_def CFE_SB_UnlockSharedData_def sb_sound_def)

definition pool_next :: "Pool_t \<Rightarrow> Pool_t \<Rightarrow> bool" where
  "pool_next p p' \<longleftrightarrow> PoolHandle p' = PoolHandle p \<and> (pool_wf p \<longrightarrow> pool_wf p')"

lemma pool_next_trans: "pool_next p q \<Longrightarrow> pool_next q r \<Longrightarrow> pool_next p r"
  by (simp add: pool_next_def)

lemma pool_nextI:
  "CFE_ES_GetPoolBuf h n p = (r1, p') \<Longrightarrow> pool_next p p'"
  "CFE_ES_PutPoolBuf h a p = (r2, p') \<Longrightarrow> pool_next p p'"
  "CFE_ES_GetPoolBufInfo h a p = (r2, p') \<Longrightarrow> pool_next p p'"
  using pool_wf_step [of p h n] pool_wf_step(2) [of p h a] PutPoolBuf_wf [of p h a] pool_fields_kept
  by (simp_all add: pool_next_def) (metis snd_conv)+

lemma step_mem: "sb_step d s0 s \<Longrightarrow> pool_next (Mem s) p \<Longrightarrow> sb_step d s0 (s\<lparr>Mem := p\<rparr>)"
  by (auto simp: sb_step_def sb_sound_def pool_next_def)

lemmas step_pool = step_mem [OF _ pool_nextI(1)] step_mem [OF _ pool_nextI(2)] step_mem [OF _ pool_nextI(3)]

definition queues_next :: "addr OS_queues \<Rightarrow> addr OS_queues \<Rightarrow> bool" where
  "queues_next q q' \<longleftrightarrow> (queues_wf q \<longrightarrow> queues_wf q')"

lemma put_next: "OS_QueuePut q (Some m) n os = (r, os') \<Longrightarrow> queues_next os os'"
  using osq.put_ok [of os q m n os'] osq.put_err [of os q m n r os']
  by (cases "r = OS_SUCCESS") (auto simp: queues_next_def)

lemma get_next: "OS_QueueGet True q n t os = Some (r, os') \<Longrightarrow> queues_next os os'"
  using osq.get_ok [of os q n t "projr r" os'] osq.get_err [of os q n t "projl r" os']
  by (cases r) (auto simp: queues_next_def)

lemma create_next: "OS_QueueCreate True (Some nm) dp n os = (r, os') \<Longrightarrow> queues_next os os'"
  using osq.create_ok [of os nm dp n "snd r" os'] osq.create_err [of os nm dp n "fst r" "snd r" os']
  by (cases "fst r = OS_SUCCESS"; cases r) (auto simp: queues_next_def)

lemma delete_next: "OS_QueueDelete q os = (r, os') \<Longrightarrow> queues_next os os'"
  using osq.delete_ok [of os q os'] osq.delete_err [of os q r os']
  by (cases "r = OS_SUCCESS") (auto simp: queues_next_def)

lemmas queues_nextI = put_next get_next create_next delete_next

lemma step_OS: "sb_step d s0 s \<Longrightarrow> queues_next (OS s) os \<Longrightarrow> sb_step d s0 (s\<lparr>OS := os\<rparr>)"
  by (auto simp: sb_step_def sb_sound_def queues_next_def)

lemma same_res [simp]:
  "Mem (CFE_SB_LockSharedData s) = Mem s" "Mem (CFE_SB_UnlockSharedData s) = Mem s"
  "OS (CFE_SB_LockSharedData s) = OS s" "OS (CFE_SB_UnlockSharedData s) = OS s"
  "Mem (upd_Stat f s) = Mem s" "Mem (upd_zcd a g s) = Mem s" "Mem (add_MemInUse n s) = Mem s"
  by (simp_all add: sb_upd_defs CFE_SB_LockSharedData_def CFE_SB_UnlockSharedData_def)

section \<open>One lemma per operation\<close>

lemma step_fresh_buffer:
  "sb_step d s0 s \<Longrightarrow> CFE_SB_GetBufferFromPool m z s = (r, s') \<Longrightarrow> sb_step d s0 s'"
  by (auto simp: CFE_SB_GetBufferFromPool_def Let_def split: prod.splits sum.splits intro: step_pool)

lemma step_caller_buffer [simp]: "sb_step d s0 (snd (CFE_SB_GetBufferFromCaller m a s)) = sb_step d s0 s"
  by (simp add: CFE_SB_GetBufferFromCaller_def Let_def)

lemma step_decr: "sb_step d s0 s \<Longrightarrow> sb_step d s0 (CFE_SB_DecrBufUseCnt bd s)"
  by (auto simp: CFE_SB_DecrBufUseCnt_def CFE_SB_ReturnBufferToPool_def Let_def
      split: prod.splits sum.splits intro: step_pool)

lemma step_dest_blk:
  "sb_step d s0 s \<Longrightarrow> CFE_SB_GetDestinationBlk s = (r, s') \<Longrightarrow> sb_step d s0 s'"
  "sb_step d s0 s \<Longrightarrow> CFE_SB_PutDestinationBlk dp s = (st, s') \<Longrightarrow> sb_step d s0 s'"
  by (auto simp: CFE_SB_GetDestinationBlk_def CFE_SB_PutDestinationBlk_def Let_def
      split: prod.splits sum.splits option.splits intro: step_pool)

lemma step_routing [simp]:
  "sb_step d s0 (snd (CFE_SB_RouteIdxPop_Unsync s)) = sb_step d s0 s"
  "sb_step d s0 (CFE_SB_RouteIdxPush_Unsync idx s) = sb_step d s0 s"
  "sb_step d s0 (CFE_SB_SetRoutingTblIdx k v s) = sb_step d s0 s"
  "sb_step d s0 (CFE_SB_AddDest r a s) = sb_step d s0 s"
  "sb_step d s0 (CFE_SB_RemoveDest r a s) = sb_step d s0 s"
  "sb_step d s0 (snd (Subscribe_route m k s)) = sb_step d s0 s"
  "sb_step d s0 (Subscribe_link r a p l sc s) = sb_step d s0 s"
  by (simp_all add: CFE_SB_RouteIdxPop_Unsync_def CFE_SB_RouteIdxPush_Unsync_def CFE_SB_SetRoutingTblIdx_def
      CFE_SB_AddDest_def CFE_SB_RemoveDest_def Subscribe_route_def Subscribe_link_def Let_def
      split: option.splits prod.splits)

lemma step_once:
  "sb_step d s0 s \<Longrightarrow> SendEvent_once c b ev s = Some s' \<Longrightarrow> sb_step d s0 s'"
  by (auto simp: SendEvent_once_def CFE_SB_RequestToSendEvent_def CFE_SB_FinishSendEvent_def
      split: option.splits if_splits)

lemma step_discard: "sb_step d s0 s \<Longrightarrow> sb_step d s0 (SendMsg_discard z m a s)"
  by (simp add: SendMsg_discard_def CFE_SB_GetBufferFromCaller_def Let_def step_decr)

lemma step_one: "sb_step d s0 s \<Longrightarrow> SendMsg_one c bd dp errs s = (e, s') \<Longrightarrow> sb_step d s0 s'"
  by (auto simp: SendMsg_one_def Let_def split: prod.splits if_splits intro!: step_OS dest!: queues_nextI)

lemma step_deliver:
  "sb_step d s0 s \<Longrightarrow> SendMsg_deliver n c bd p errs s = (e, s') \<Longrightarrow> sb_step d s0 s'"
  by (induction n arbitrary: p errs s) (auto split: option.splits prod.splits dest: step_one)

lemma step_events: "sb_step d s0 s \<Longrightarrow> SendMsg_events c es s = Some s' \<Longrightarrow> sb_step d s0 s'"
  by (induction es arbitrary: s) (auto dest: step_once split: bind_splits)

lemma step_route:
  "sb_step (d + 1) s0 s \<Longrightarrow> SendMsg_route c r bd s = Some (st, s') \<Longrightarrow> sb_step d s0 s'"
  by (auto simp: SendMsg_route_def Let_def split: prod.splits
      elim!: step_events [rotated] intro!: step_decr dest: step_deliver)

lemma step_prepare [simp]: "sb_step d s0 (SendMsg_prepare c a m t i z r bd s) = sb_step d s0 s"
  by (simp add: SendMsg_prepare_def Let_def)

lemma step_send:
  "sb_step d s0 s \<Longrightarrow> CFE_SB_SendMsgFull c p inc z s = Some (st, s') \<Longrightarrow> sb_step d s0 s'"
  by (auto simp: CFE_SB_SendMsgFull_def Let_def CFE_SB_GetBufferFromCaller_def
      split: option.splits prod.splits if_splits
      elim!: step_once [rotated] step_route [rotated] step_fresh_buffer [rotated] intro!: step_discard)

lemma step_report:
  "sb_step d s0 s \<Longrightarrow> SubRprt_send c ty m q p ev s = Some s' \<Longrightarrow> sb_step d s0 s'"
  by (auto simp: SubRprt_send_def CFE_SB_SendMsg_def Let_def split: bind_splits elim!: step_send [rotated])

lemma step_subscribe_route: "sb_step d s0 s \<Longrightarrow> Subscribe_route m k s = (r, s') \<Longrightarrow> sb_step d s0 s'"
  using step_routing(6) [of d s0 m k s] by simp

lemma step_subscribe:
  "sb_step d s0 s \<Longrightarrow> CFE_SB_SubscribeFull c m p q l sc s = Some (st, s') \<Longrightarrow> sb_step d s0 s'"
  by (auto simp: CFE_SB_SubscribeFull_def Let_def split: bind_splits option.splits prod.splits if_splits
      elim!: step_report [rotated] step_dest_blk(1) [rotated] step_subscribe_route [rotated])

lemma step_split:
  "(x = None \<Longrightarrow> sb_step d s0 s) \<Longrightarrow> (\<And>y. x = Some y \<Longrightarrow> sb_step d s0 (f y)) \<Longrightarrow>
   sb_step d s0 (case x of None \<Rightarrow> s | Some y \<Rightarrow> f y)"
  "(b \<Longrightarrow> sb_step d s0 s) \<Longrightarrow> (\<not> b \<Longrightarrow> sb_step d s0 s') \<Longrightarrow> sb_step d s0 (if b then s else s')"
  by (auto split: option.split)

lemma step_unsubscribe_loop:
  "sb_step d s0 s \<Longrightarrow> Unsubscribe_loop r pid dp s = Some s' \<Longrightarrow> sb_step d s0 s'"
proof -
  have "Unsubscribe_loop r pid dp s = Some s' \<Longrightarrow> sb_step d s0 s \<longrightarrow> sb_step d s0 s'"
    by (erule Unsubscribe_loop.raw_induct [rotated])
      (auto simp: Let_def split: option.splits if_splits prod.splits elim!: step_dest_blk(2) [rotated])
  then show "sb_step d s0 s \<Longrightarrow> Unsubscribe_loop r pid dp s = Some s' \<Longrightarrow> sb_step d s0 s'" by blast
qed

lemma step_unsubscribe:
  "sb_step d s0 s \<Longrightarrow> CFE_SB_UnsubscribeFull c m p sc a s = Some (st, s') \<Longrightarrow> sb_step d s0 s'"
  by (auto simp: CFE_SB_UnsubscribeFull_def Let_def split: bind_splits if_splits
      elim!: step_report [rotated] step_unsubscribe_loop [rotated])

lemma step_receive:
  "sb_step d s0 s \<Longrightarrow> CFE_SB_RcvMsg b p t s = Some (st, a, s') \<Longrightarrow> sb_step d s0 s'"
proof -
  have read: "sb_step d s0 s \<Longrightarrow> CFE_SB_ReadQueue i t s = Some (res, s') \<Longrightarrow> sb_step d s0 s'" for i s res s'
    by (auto simp: CFE_SB_ReadQueue_def Let_def split: option.splits sum.splits if_splits prod.splits
        intro!: step_OS dest!: queues_nextI)
  have fin: "sb_step d s0 s \<Longrightarrow> RcvMsg_finish i res s = Some (st, a, s') \<Longrightarrow> sb_step d s0 s'" for i s res s'
    by (auto simp: RcvMsg_finish_def Let_def split: sum.splits bind_splits intro!: step_decr step_split)
  show "sb_step d s0 s \<Longrightarrow> CFE_SB_RcvMsg b p t s = Some (st, a, s') \<Longrightarrow> sb_step d s0 s'"
    by (auto simp: CFE_SB_RcvMsg_def Let_def split: option.splits if_splits bind_splits elim!: fin [rotated] read [rotated])
qed

lemma step_zero_copy_get:
  "sb_step d s0 s \<Longrightarrow> CFE_SB_ZeroCopyGetPtr c z s = (r, s') \<Longrightarrow> sb_step d s0 s'"
  by (auto simp: CFE_SB_ZeroCopyGetPtr_def Let_def split: prod.splits sum.splits
      intro!: step_split step_mem intro: pool_next_trans dest!: pool_nextI)
    (blast intro: pool_next_trans)+

lemma step_zero_copy_release:
  "sb_step d s0 s \<Longrightarrow> CFE_SB_ZeroCopyReleaseDesc p h s = (r, s') \<Longrightarrow> sb_step d s0 s'"
  by (auto simp: CFE_SB_ZeroCopyReleaseDesc_def Let_def split: prod.splits sum.splits if_splits
      intro!: step_split step_mem intro: pool_next_trans dest!: pool_nextI)

lemma step_zero_copy_ptr:
  "sb_step d s0 s \<Longrightarrow> CFE_SB_ZeroCopyReleasePtr p h s = (r, s') \<Longrightarrow> sb_step d s0 s'"
  by (auto simp: CFE_SB_ZeroCopyReleasePtr_def Let_def split: prod.splits sum.splits option.splits CFE_Status.splits
      intro!: step_split step_mem dest!: pool_nextI elim!: step_zero_copy_release [rotated])

lemma step_zero_copy_loop:
  "sb_step d s0 s \<Longrightarrow> ZeroCopyReleaseAppId_loop app z s = Some s' \<Longrightarrow> sb_step d s0 s'"
proof -
  have "ZeroCopyReleaseAppId_loop app z s = Some s' \<Longrightarrow> sb_step d s0 s \<longrightarrow> sb_step d s0 s'"
    by (erule ZeroCopyReleaseAppId_loop.raw_induct [rotated])
      (auto split: option.splits if_splits, blast intro: step_zero_copy_ptr [OF _ surjective_pairing])
  then show "sb_step d s0 s \<Longrightarrow> ZeroCopyReleaseAppId_loop app z s = Some s' \<Longrightarrow> sb_step d s0 s'" by blast
qed

lemma step_create:
  "sb_step d s0 s \<Longrightarrow> CFE_SB_CreatePipe c p n nm s = (r, s') \<Longrightarrow> sb_step d s0 s'"
  by (auto simp: CFE_SB_CreatePipe_def Let_def split: prod.splits if_splits intro!: step_OS dest!: queues_nextI)

lemma step_delete_dests:
  "sb_step d s0 s \<Longrightarrow> DeletePipe_dests c p a i dp s = Some s' \<Longrightarrow> sb_step d s0 s'"
proof -
  have relock: "sb_step d s0 s \<Longrightarrow> CFE_SB_UnsubscribeWithAppId c m p a (CFE_SB_UnlockSharedData s) = Some (st, s')
      \<Longrightarrow> sb_step d s0 (CFE_SB_LockSharedData s')" for c m p a s st s'
    by (auto simp: CFE_SB_UnsubscribeWithAppId_def elim!: step_unsubscribe [rotated])
  have "DeletePipe_dests c p a i dp s = Some s' \<Longrightarrow> sb_step d s0 s \<longrightarrow> sb_step d s0 s'"
    by (erule DeletePipe_dests.raw_induct [rotated])
      (auto split: option.splits if_splits bind_splits simp del: step_lock, blast intro: relock)
  then show "sb_step d s0 s \<Longrightarrow> DeletePipe_dests c p a i dp s = Some s' \<Longrightarrow> sb_step d s0 s'" by blast
qed

lemma step_delete_routes:
  "sb_step d s0 s \<Longrightarrow> DeletePipe_routes n i c p a s = Some s' \<Longrightarrow> sb_step d s0 s'"
  by (induction n arbitrary: i s) (auto split: bind_splits if_splits dest: step_delete_dests)

lemma step_drain:
  "sb_step d s0 s \<Longrightarrow> DeletePipe_drain p s = Some s' \<Longrightarrow> sb_step d s0 s'"
proof -
  have relock: "sb_step d s0 s \<Longrightarrow> CFE_SB_RcvMsg True p 0 (CFE_SB_UnlockSharedData s) = Some (st, m, s')
      \<Longrightarrow> sb_step d s0 (CFE_SB_LockSharedData s')" for p s st m s'
    by (auto elim!: step_receive [rotated])
  have "DeletePipe_drain p s = Some s' \<Longrightarrow> sb_step d s0 s \<longrightarrow> sb_step d s0 s'"
    by (erule DeletePipe_drain.raw_induct [rotated])
      (auto simp: Let_def split: if_splits bind_splits simp del: step_lock, (blast intro: relock)+)
  then show "sb_step d s0 s \<Longrightarrow> DeletePipe_drain p s = Some s' \<Longrightarrow> sb_step d s0 s'" by blast
qed

lemma step_clear: "sb_step d s0 s \<Longrightarrow> sb_step d s0 (DeletePipe_clear i s)"
  by (auto simp: DeletePipe_clear_def Let_def split: prod.splits intro!: step_OS dest!: queues_nextI)

lemma step_delete:
  "sb_step d s0 s \<Longrightarrow> CFE_SB_DeletePipeFull c p a s = Some (st, s') \<Longrightarrow> sb_step d s0 s'"
  by (auto simp: CFE_SB_DeletePipeFull_def Let_def split: bind_splits if_splits
      intro!: step_split step_clear step_decr elim!: step_drain [rotated] step_delete_routes [rotated])

lemma step_cleanup:
  "sb_step d s0 s \<Longrightarrow> CFE_SB_CleanUpApp c a s = Some (st, s') \<Longrightarrow> sb_step d s0 s'"
proof -
  have "sb_step d s0 s \<Longrightarrow> CleanUpApp_loop n i c a s = Some s' \<Longrightarrow> sb_step d s0 s'" for n i s s'
    by (induction n arbitrary: i s)
      (auto simp: CFE_SB_DeletePipeWithAppId_def split: bind_splits if_splits dest: step_delete)
  then show "sb_step d s0 s \<Longrightarrow> CFE_SB_CleanUpApp c a s = Some (st, s') \<Longrightarrow> sb_step d s0 s'"
    by (auto simp: CFE_SB_CleanUpApp_def CFE_SB_ZeroCopyReleaseAppId_def split: bind_splits
        elim!: step_zero_copy_loop [rotated])
qed

section \<open>Every interface call\<close>

inductive sb_call :: "SB_ctx \<Rightarrow> cfe_sb \<Rightarrow> cfe_sb \<Rightarrow> bool" for c where
  create_pipe: "CFE_SB_CreatePipe c ptr n nm s = (r, s') \<Longrightarrow> sb_call c s s'"
| delete_pipe: "CFE_SB_DeletePipe c p s = Some (st, s') \<Longrightarrow> sb_call c s s'"
| set_opts: "CFE_SB_SetPipeOpts c p o' s = (st, s') \<Longrightarrow> sb_call c s s'"
| get_opts: "CFE_SB_GetPipeOpts b p s = (r, s') \<Longrightarrow> sb_call c s s'"
| subscribe_ex: "CFE_SB_SubscribeEx c m p q l s = Some (st, s') \<Longrightarrow> sb_call c s s'"
| subscribe_local: "CFE_SB_SubscribeLocal c m p l s = Some (st, s') \<Longrightarrow> sb_call c s s'"
| subscribe: "CFE_SB_Subscribe c m p s = Some (st, s') \<Longrightarrow> sb_call c s s'"
| unsubscribe: "CFE_SB_Unsubscribe c m p s = Some (st, s') \<Longrightarrow> sb_call c s s'"
| unsubscribe_local: "CFE_SB_UnsubscribeLocal c m p s = Some (st, s') \<Longrightarrow> sb_call c s s'"
| send: "CFE_SB_SendMsg c mp s = Some (st, s') \<Longrightarrow> sb_call c s s'"
| pass: "CFE_SB_PassMsg c mp s = Some (st, s') \<Longrightarrow> sb_call c s s'"
| receive: "CFE_SB_RcvMsg b p t s = Some (st, a, s') \<Longrightarrow> sb_call c s s'"
| last_sender: "CFE_SB_GetLastSenderId c b p s = (r, s') \<Longrightarrow> sb_call c s s'"
| zc_get: "CFE_SB_ZeroCopyGetPtr c n s = (r, s') \<Longrightarrow> sb_call c s s'"
| zc_release: "CFE_SB_ZeroCopyReleasePtr mp h s = (st, s') \<Longrightarrow> sb_call c s s'"
| zc_send: "CFE_SB_ZeroCopySend c mp h s = Some (st, s') \<Longrightarrow> sb_call c s s'"
| zc_pass: "CFE_SB_ZeroCopyPass c mp h s = Some (st, s') \<Longrightarrow> sb_call c s s'"
| clean_up: "CFE_SB_CleanUpApp c app s = Some (st, s') \<Longrightarrow> sb_call c s s'"

text \<open>What an application does with a message in its own memory or in a buffer it holds.\<close>

inductive sb_run :: "cfe_sb \<Rightarrow> cfe_sb \<Rightarrow> bool" where
  start: "sb_run s s"
| call: "sb_run s s' \<Longrightarrow> sb_call c s' s'' \<Longrightarrow> sb_run s s''"
| store: "sb_run s s' \<Longrightarrow> sb_run s (s'\<lparr>Msgs := (Msgs s')(a := m)\<rparr>)"

lemma step_call: "sb_call c s s' \<Longrightarrow> sb_step 0 s s'"
proof (induction rule: sb_call.induct)
  case (delete_pipe p s st s') then show ?case by (auto simp: CFE_SB_DeletePipe_def elim!: step_delete [rotated])
next
  case (create_pipe ptr n nm s r s') then show ?case by (auto elim!: step_create [rotated])
next
  case (subscribe_ex m p q l s st s') then show ?case by (auto simp: CFE_SB_SubscribeEx_def elim!: step_subscribe [rotated])
next
  case (subscribe_local m p l s st s') then show ?case by (auto simp: CFE_SB_SubscribeLocal_def elim!: step_subscribe [rotated])
next
  case (subscribe m p s st s') then show ?case by (auto simp: CFE_SB_Subscribe_def elim!: step_subscribe [rotated])
next
  case (unsubscribe m p s st s') then show ?case by (auto simp: CFE_SB_Unsubscribe_def elim!: step_unsubscribe [rotated])
next
  case (unsubscribe_local m p s st s')
  then show ?case by (auto simp: CFE_SB_UnsubscribeLocal_def elim!: step_unsubscribe [rotated])
next
  case (send mp s st s') then show ?case by (auto simp: CFE_SB_SendMsg_def elim!: step_send [rotated])
next
  case (pass mp s st s') then show ?case by (auto simp: CFE_SB_PassMsg_def elim!: step_send [rotated])
next
  case (zc_send mp h s st s')
  then show ?case
    by (auto simp: CFE_SB_ZeroCopySend_def split: prod.splits if_splits
        elim!: step_send [rotated] step_zero_copy_release [rotated])
next
  case (zc_pass mp h s st s')
  then show ?case
    by (auto simp: CFE_SB_ZeroCopyPass_def split: prod.splits if_splits
        elim!: step_send [rotated] step_zero_copy_release [rotated])
qed (auto simp: CFE_SB_SetPipeOpts_def CFE_SB_GetPipeOpts_def CFE_SB_GetLastSenderId_def Let_def
    split: option.splits if_splits
    elim!: step_receive [rotated] step_zero_copy_get [rotated] step_zero_copy_ptr [rotated] step_cleanup [rotated])

lemma step_trans: "sb_step d s s' \<Longrightarrow> sb_step e s' s'' \<Longrightarrow> sb_step (d + e) s s''"
  by (simp add: sb_step_def)

lemma step_run: "sb_run s s' \<Longrightarrow> sb_step 0 s s'"
proof (induction rule: sb_run.induct)
  case (call s s' c s'')
  then show ?case using step_trans [of 0 s s' 0 s''] step_call by simp
qed simp_all

lemma EarlyInit_sound:
  assumes "CFE_SB_EarlyInit OS_SUCCESS Data mem s = (Inr CFE_SUCCESS, s')"
    and "pool_args_ok Data CFE_PLATFORM_SB_BUF_MEMORY_BYTES CFE_SB_MemPoolDefSize CFE_ES_NO_MUTEX mem"
    and "queues_wf (OS s)"
  shows "sb_sound s' \<and> MutexDepth s' = 0"
proof -
  from PoolCreateEx_wf [OF assms(2)] obtain p where
    p: "CFE_ES_PoolCreateEx Data CFE_PLATFORM_SB_BUF_MEMORY_BYTES 17 (Some CFE_SB_MemPoolDefSize) CFE_ES_NO_MUTEX mem = Inr p"
    and "pool_wf p" by (auto simp: CFE_SB_MemPoolDefSize_def)
  then show ?thesis
    using assms(1,3) by (auto simp: CFE_SB_EarlyInit_def CFE_SB_InitBuffers_def Let_def sb_sound_def
        CFE_SB_InitIdxStack_def CFE_SB_InitRoutingTbl_def CFE_SB_InitMsgMap_def CFE_SB_InitPipeTbl_def)
qed

section \<open>Properties\<close>

text \<open>A bus for the witnesses: after initialisation, in a memory of zeros.\<close>

definition demo_mem :: "addr \<Rightarrow> BD_t" where
  "demo_mem = (\<lambda>_. \<lparr>CheckBits = 0, Allocated = 0, BdSize = 0, BdNext = None\<rparr>)"

definition demo_zero :: cfe_sb where
  "demo_zero = \<lparr>MutexDepth = 0, SubscriptionReporting = 0, SenderReporting = 0, StopRecurseFlags = (\<lambda>_. 0),
     ZeroCopyTail = None,
     PipeTbl = (\<lambda>_. \<lparr>InUse = 0, PipeId = 0, PipeName = [], AppName = [], Opts = 0, pAppId = 0, SysQueueId = 0,
        QueueDepth = 0, SendErrors = 0, CurrentBuff = None, ToTrashBuff = None\<rparr>),
     HK = \<lparr>NoSubscribersCounter = 0, MsgSendErrorCounter = 0, MsgReceiveErrorCounter = 0, InternalErrorCounter = 0,
        CreatePipeErrorCounter = 0, SubscribeErrorCounter = 0, PipeOptsErrorCounter = 0,
        DuplicateSubscriptionsCounter = 0, PipeOverflowErrorCounter = 0, MsgLimitErrorCounter = 0\<rparr>,
     Stat = zero_Stats, PoolHdl = 0, Mem = demo_pool, MsgMap = (\<lambda>_. 0),
     RoutingTbl = (\<lambda>_. \<lparr>rMsgId = 0, Destinations = 0, SeqCnt = 0, ListHeadPtr = None\<rparr>), SubRprtMsg = 0x100,
     StatTlmHdr = (\<lambda>_. 0), RouteIdxTop = 0, RouteIdxStack = (\<lambda>_. 0), Default_Qos = \<lparr>Priority = 0, Reliability = 0\<rparr>,
     Dests = (\<lambda>_. \<lparr>dPipeId = 0, Active = 0, MsgId2PipeLim = 0, BuffCount = 0, DestCnt = 0, Scope = 0,
        dPrev = None, dNext = None\<rparr>),
     Bufs = (\<lambda>_. \<lparr>bdMsgId = 0, UseCount = 0, bdSize = 0, Buffer = 0, Sender = \<lparr>ProcessorId = 0, SenderName = []\<rparr>\<rparr>),
     Zcds = (\<lambda>_. \<lparr>zAppID = 0, zSize = 0, zBuffer = 0, zNext = None, zPrev = None\<rparr>),
     Msgs = (\<lambda>_ _. 0), OS = demo_queues, Events = []\<rparr>"

definition demo_ctx :: SB_ctx where
  "demo_ctx = \<lparr>TaskGetId = 0x10001, GetAppID = Some 1, GetAppName = ''APP'', GetTaskInfo = Some (''APP'', ''APP''),
     GetProcessorId = 1\<rparr>"

definition demo_sb :: cfe_sb where
  "demo_sb = snd (CFE_SB_EarlyInit OS_SUCCESS 0x10000 demo_mem demo_zero)"

lemma demo_sb_args:
  "pool_args_ok 0x10000 CFE_PLATFORM_SB_BUF_MEMORY_BYTES CFE_SB_MemPoolDefSize CFE_ES_NO_MUTEX demo_mem"
  by (simp add: pool_args_ok_def CFE_PLATFORM_SB_BUF_MEMORY_BYTES_def CFE_SB_MemPoolDefSize_def demo_mem_def
      CFE_ES_CHECK_PATTERN_def)

lemma demo_sb_init: "CFE_SB_EarlyInit OS_SUCCESS 0x10000 demo_mem demo_zero = (Inr CFE_SUCCESS, demo_sb)"
  using PoolCreateEx_wf [OF demo_sb_args]
  by (auto simp: demo_sb_def CFE_SB_EarlyInit_def CFE_SB_InitBuffers_def Let_def CFE_SB_MemPoolDefSize_def)

lemma demo_zero_queues: "queues_wf (OS demo_zero)"
  by (simp add: demo_zero_def demo_queues_wf)

lemma demo_run:
  "sb_run demo_sb (snd (CFE_SB_CreatePipe demo_ctx (Some 0) 4 ''PIPE'' demo_sb))"
  by (rule sb_run.call [OF sb_run.start sb_call.create_pipe [OF surjective_pairing]])

text \<open>
  C16: no call of the interface keeps the lock of the shared data.  Over every history of calls that return,
  by any tasks, with every error path and every callback into the bus (subscription reports, the
  unsubscriptions and receptions inside a pipe deletion, the cleanup after an application), the mutex
  has been released as often as it was taken.
\<close>

theorem CFE_SB_lock_balanced:
  "sb_run s s' \<Longrightarrow> MutexDepth s' = MutexDepth s"
  using step_run by (simp add: sb_step_def)

theorem CFE_SB_lock_balanced_witness:
  "MutexDepth (snd (CFE_SB_CreatePipe demo_ctx (Some 0) 4 ''PIPE'' demo_sb)) = MutexDepth demo_sb"
  by (rule CFE_SB_lock_balanced [OF demo_run])



end
