(* ===== verification/SB_Routing.thy ===== *)
theory SB_Routing
  imports SB_Calls
begin

text \<open>
  The routing data of the software bus: the message map, the stack of free route indices, the routing table
  and the doubly linked lists of destination descriptors in pool memory.

  \<^item> \<open>dll D p as\<close> says that the list from \<open>p\<close> on is well linked and has the nodes \<open>as\<close>.
  \<^item> \<open>routing s R\<close> is the invariant, with the list of nodes \<open>R r\<close> of every route \<open>r\<close>; \<open>subs_of s\<close> is the view an
    application has: for a message identifier with a route the subscribed pipes, the last one first.
  \<^item> \<open>rt_same s s'\<close> says that nothing of this changed; sending a message is such a step.
\<close>

section \<open>Destination lists\<close>

primrec dpath ::
  "(addr \<Rightarrow> CFE_SB_DestinationD_t) \<Rightarrow> addr option \<Rightarrow> addr option \<Rightarrow> addr list \<Rightarrow> addr option \<Rightarrow> addr option \<Rightarrow> bool" where
  "dpath D pr p [] l q \<longleftrightarrow> l = pr \<and> q = p"
| "dpath D pr p (a # as) l q \<longleftrightarrow> p = Some a \<and> dPrev (D a) = pr \<and> dpath D (Some a) (dNext (D a)) as l q"

definition dll :: "(addr \<Rightarrow> CFE_SB_DestinationD_t) \<Rightarrow> addr option \<Rightarrow> addr list \<Rightarrow> bool" where
  "dll D p as \<longleftrightarrow> (\<exists>l. dpath D None p as l None)"

lemma dpath_append:
  "dpath D pr p (xs @ ys) l q \<longleftrightarrow> (\<exists>m r. dpath D pr p xs m r \<and> dpath D m r ys l q)"
  by (induction xs arbitrary: pr p) auto

lemma dpath_cong:
  "(\<And>a. a \<in> set as \<Longrightarrow> dPrev (D' a) = dPrev (D a) \<and> dNext (D' a) = dNext (D a))
   \<Longrightarrow> dpath D' pr p as l q = dpath D pr p as l q"
  by (induction as arbitrary: pr p) auto

lemma dpath_upd [simp]: "a \<notin> set as \<Longrightarrow> dpath (D(a := v)) pr p as l q = dpath D pr p as l q"
  by (rule dpath_cong) auto

lemma dll_cong:
  "(\<And>a. a \<in> set as \<Longrightarrow> dPrev (D' a) = dPrev (D a) \<and> dNext (D' a) = dNext (D a)) \<Longrightarrow> dll D' p as = dll D p as"
  unfolding dll_def by (simp add: dpath_cong [of as D' D])

lemma dll_upd [simp]: "a \<notin> set as \<Longrightarrow> dll (D(a := v)) p as = dll D p as"
  by (simp add: dll_def)

lemma dll_Nil [simp]: "dll D p [] \<longleftrightarrow> p = None"
  by (auto simp: dll_def)

lemma dpath_find:
  "dpath D pr p as l None \<Longrightarrow> DestList_find PId D p = Some (find (\<lambda>a. dPipeId (D a) = PId) as)"
  by (induction as arbitrary: pr p) (auto simp: DestList_find.simps)

lemma dll_find: "dll D p as \<Longrightarrow> DestList_find PId D p = Some (find (\<lambda>a. dPipeId (D a) = PId) as)"
  by (auto simp: dll_def dpath_find)

lemma dll_add:
  assumes "dll D p as" and "a \<notin> set as" and "distinct as"
    and "\<And>x. dNext (D' x) = (if x = a then p else dNext (D x))"
    and "\<And>x. dPrev (D' x) = (if x = a then None else if p = Some x then Some a else dPrev (D x))"
  shows "dll D' (Some a) (a # as)"
proof (cases as)
  case Nil
  with assms show ?thesis by (auto simp: dll_def)
next
  case (Cons b bs)
  with assms have p: "p = Some b" and path: "\<exists>l. dpath D (Some b) (dNext (D b)) bs l None"
    by (auto simp: dll_def)
  have "dpath D' (Some b) (dNext (D b)) bs l None = dpath D (Some b) (dNext (D b)) bs l None" for l
    using assms Cons p by (intro dpath_cong) auto
  then show ?thesis using path assms(2,4,5) Cons p by (auto simp: dll_def)
qed

text \<open>Unlinking \<open>a\<close>: its neighbours are joined.\<close>

lemma dll_remove:
  assumes dll: "dll D p (xs @ a # ys)" and dist: "distinct (xs @ a # ys)"
    and nx: "\<And>x. x \<noteq> a \<Longrightarrow> dNext (D' x) = (if dPrev (D a) = Some x then dNext (D a) else dNext (D x))"
    and pv: "\<And>x. x \<noteq> a \<Longrightarrow> dPrev (D' x) = (if dNext (D a) = Some x then dPrev (D a) else dPrev (D x))"
  shows "dll D' (if xs = [] then dNext (D a) else p) (xs @ ys)"
    and "dPrev (D a) = None \<longleftrightarrow> xs = []"
proof -
  from dll obtain l m where xs: "dpath D None p xs m (Some a)" and a: "dPrev (D a) = m"
    and ys: "dpath D (Some a) (dNext (D a)) ys l None"
    by (auto simp: dll_def dpath_append)
  have m: "m = (if xs = [] then None else Some (last xs))"
    using xs by (induction xs rule: rev_induct) (auto simp: dpath_append)
  then show "dPrev (D a) = None \<longleftrightarrow> xs = []" using a by simp
  have ys': "\<exists>l. dpath D' m (dNext (D a)) ys l None"
  proof (cases ys)
    case Nil
    then show ?thesis using ys by simp
  next
    case (Cons c cs)
    then have c: "dNext (D a) = Some c" and cs: "dpath D (Some c) (dNext (D c)) cs l None" using ys by auto
    have "m \<noteq> Some c" using m dist Cons by (auto dest: last_in_set split: if_splits)
    then have "dNext (D' c) = dNext (D c)" "dPrev (D' c) = m" using nx [of c] pv [of c] a c dist Cons by auto
    moreover have "dpath D' (Some c) (dNext (D c)) cs l None = dpath D (Some c) (dNext (D c)) cs l None"
    proof (rule dpath_cong)
      fix x assume "x \<in> set cs"
      then have "x \<noteq> a" "x \<noteq> c" "m \<noteq> Some x" using dist Cons m by (auto dest: last_in_set split: if_splits)
      then show "dPrev (D' x) = dPrev (D x) \<and> dNext (D' x) = dNext (D x)" using nx [of x] pv [of x] c a by auto
    qed
    ultimately show ?thesis using cs c Cons by auto
  qed
  show "dll D' (if xs = [] then dNext (D a) else p) (xs @ ys)"
  proof (cases xs rule: rev_cases)
    case Nil
    then show ?thesis using ys' m by (simp add: dll_def)
  next
    case (snoc bs b)
    then have mb: "m = Some b" using m by simp
    obtain k where bs: "dpath D None p bs k (Some b)" and b: "dPrev (D b) = k"
      using xs snoc by (auto simp: dpath_append)
    have nb: "dNext (D a) \<noteq> Some x" if "x \<in> set xs" for x
      using ys dist that by (cases ys) auto
    have "dpath D' None p bs k (Some b) = dpath D None p bs k (Some b)"
    proof (rule dpath_cong)
      fix x assume "x \<in> set bs"
      then have "x \<noteq> a" "x \<noteq> b" "dNext (D a) \<noteq> Some x" using dist snoc nb by auto
      then show "dPrev (D' x) = dPrev (D x) \<and> dNext (D' x) = dNext (D x)" using nx [of x] pv [of x] a mb by auto
    qed
    moreover have "dPrev (D' b) = k" "dNext (D' b) = dNext (D a)" using nx [of b] pv [of b] dist snoc a mb nb b by auto
    ultimately have "dpath D' None p xs (Some b) (dNext (D a))" using bs snoc by (auto simp: dpath_append)
    then show ?thesis using ys' mb snoc by (auto simp: dll_def dpath_append)
  qed
qed

section \<open>Steps that keep the routing data\<close>

definition dest_link :: "CFE_SB_DestinationD_t \<Rightarrow> u8 \<times> addr option \<times> addr option" where
  "dest_link d = (dPipeId d, dPrev d, dNext d)"

definition route_link :: "CFE_SB_RouteEntry_t \<Rightarrow> u16 \<times> u16 \<times> addr option" where
  "route_link e = (rMsgId e, Destinations e, ListHeadPtr e)"

definition pipe_link :: "CFE_SB_PipeD_t \<Rightarrow> u8 \<times> u8 \<times> u32" where
  "pipe_link p = (InUse p, PipeId p, pAppId p)"

definition rt_same :: "cfe_sb \<Rightarrow> cfe_sb \<Rightarrow> bool" where
  "rt_same s s' \<longleftrightarrow> sb_sound s' \<and> MsgMap s' = MsgMap s \<and> RouteIdxTop s' = RouteIdxTop s
     \<and> RouteIdxStack s' = RouteIdxStack s \<and> dest_link \<circ> Dests s' = dest_link \<circ> Dests s
     \<and> route_link \<circ> RoutingTbl s' = route_link \<circ> RoutingTbl s \<and> pipe_link \<circ> PipeTbl s' = pipe_link \<circ> PipeTbl s
     \<and> pool_live (Mem s) \<subseteq>\<^sub>m pool_live (Mem s')"

lemma comp_upd [simp]: "f \<circ> g(a := y) = (f \<circ> g)(a := f y)" "(f \<circ> g)(a := f (g a)) = f \<circ> g"
  by auto

lemma same_refl: "sb_sound s \<Longrightarrow> rt_same s s"
  by (simp add: rt_same_def)

lemma same_sound: "rt_same s s' \<Longrightarrow> sb_sound s'"
  by (simp add: rt_same_def)

lemma sound_cong [simp]:
  "sb_sound (upd_HK f1 s) = sb_sound s" "sb_sound (upd_Stat f2 s) = sb_sound s"
  "sb_sound (upd_pipe i f3 s) = sb_sound s" "sb_sound (upd_route i f4 s) = sb_sound s"
  "sb_sound (upd_dest a f5 s) = sb_sound s" "sb_sound (upd_buf a f6 s) = sb_sound s"
  "sb_sound (upd_depth i f8 s) = sb_sound s"
  "sb_sound (SendEvent ev s) = sb_sound s" "sb_sound (add_MemInUse n s) = sb_sound s"
  "sb_sound (s\<lparr>Msgs := m\<rparr>) = sb_sound s" "sb_sound (s\<lparr>StopRecurseFlags := fl\<rparr>) = sb_sound s"
  "sb_sound (CFE_SB_LockSharedData s) = sb_sound s" "sb_sound (CFE_SB_UnlockSharedData s) = sb_sound s"
  "sb_sound (s\<lparr>MsgMap := mm\<rparr>) = sb_sound s" "sb_sound (s\<lparr>RouteIdxTop := t\<rparr>) = sb_sound s"
  "sb_sound (s\<lparr>RouteIdxStack := st\<rparr>) = sb_sound s"
  by (simp_all add: sb_sound_def sb_upd_defs CFE_SB_LockSharedData_def CFE_SB_UnlockSharedData_def)

lemma same_upd [simp]:
  "rt_same s0 (upd_HK f1 s) = rt_same s0 s" "rt_same s0 (upd_Stat f2 s) = rt_same s0 s"
  "rt_same s0 (upd_buf a f6 s) = rt_same s0 s" "rt_same s0 (upd_depth i f8 s) = rt_same s0 s"
  "rt_same s0 (SendEvent ev s) = rt_same s0 s" "rt_same s0 (add_MemInUse n s) = rt_same s0 s"
  "rt_same s0 (s\<lparr>Msgs := m\<rparr>) = rt_same s0 s" "rt_same s0 (s\<lparr>StopRecurseFlags := fl\<rparr>) = rt_same s0 s"
  "rt_same s0 (CFE_SB_LockSharedData s) = rt_same s0 s" "rt_same s0 (CFE_SB_UnlockSharedData s) = rt_same s0 s"
  by (simp_all add: rt_same_def)
    (simp_all add: sb_upd_defs CFE_SB_LockSharedData_def CFE_SB_UnlockSharedData_def)

lemma same_upd_link [simp]:
  "(\<And>p. pipe_link (f p) = pipe_link p) \<Longrightarrow> rt_same s0 (upd_pipe i f s) = rt_same s0 s"
  "(\<And>d. dest_link (g d) = dest_link d) \<Longrightarrow> rt_same s0 (upd_dest a g s) = rt_same s0 s"
  "(\<And>e. route_link (h e) = route_link e) \<Longrightarrow> rt_same s0 (upd_route r h s) = rt_same s0 s"
  by (simp_all add: rt_same_def) (simp_all add: sb_upd_defs)

lemma same_OS: "rt_same s0 s \<Longrightarrow> queues_next (OS s) os \<Longrightarrow> rt_same s0 (s\<lparr>OS := os\<rparr>)"
  by (auto simp: rt_same_def sb_sound_def queues_next_def)

lemma same_alloc:
  assumes same: "rt_same s0 s" and get: "CFE_ES_GetPoolBuf (PoolHdl s) n (Mem s) = (r, p)"
  shows "rt_same s0 (s\<lparr>Mem := p\<rparr>)"
    and "r = Inr (z, a) \<Longrightarrow> pool_live (Mem s0) a = None"
proof -
  have snd: "sb_sound s" and h: "PoolHdl s = PoolHandle (Mem s)" and wf: "pool_wf (Mem s)"
    using same by (simp_all add: rt_same_def sb_sound_def)
  have nx: "pool_next (Mem s) p" using get by (rule pool_nextI)
  have live: "pool_live (Mem s) \<subseteq>\<^sub>m pool_live p \<and> (\<forall>z a. r = Inr (z, a) \<longrightarrow> pool_live (Mem s) a = None)"
    using pool.alloc_ok [OF wf, of n _ _ p] pool.alloc_err [OF wf, of n _ p] get h
    by (cases r) (auto simp: map_le_def dom_def)
  then show "rt_same s0 (s\<lparr>Mem := p\<rparr>)"
    using same nx by (auto simp: rt_same_def sb_sound_def pool_next_def intro: map_le_trans)
  show "pool_live (Mem s0) a = None" if "r = Inr (z, a)"
    using live that same by (auto simp: rt_same_def map_le_def dom_def)
qed

lemma PutPoolBuf_others:
  assumes wf: "pool_wf p" and put: "CFE_ES_PutPoolBuf (PoolHandle p) a p = (r, p')" and "b \<noteq> a"
  shows "pool_live p' b = pool_live p b"
proof (cases "pool_live p a")
  case None
  from pool.free_err [OF wf this] put show ?thesis by auto
next
  case (Some sz)
  show ?thesis
  proof (cases "a < PoolHandle p + sizeof_Pool_t + sizeof_BD_t \<or> PoolEnd p \<le> a")
    case True
    then show ?thesis using put by (auto simp: CFE_ES_PutPoolBuf_def split: if_splits)
  next
    case False
    then show ?thesis using PutPoolBuf_in_range [OF wf Some] put \<open>b \<noteq> a\<close> by auto
  qed
qed

lemma same_free:
  assumes same: "rt_same s0 s" and put: "CFE_ES_PutPoolBuf (PoolHdl s) a (Mem s) = (r, p)"
    and old: "pool_live (Mem s0) a = None"
  shows "rt_same s0 (s\<lparr>Mem := p\<rparr>)"
proof -
  have h: "PoolHdl s = PoolHandle (Mem s)" and wf: "pool_wf (Mem s)"
    using same by (simp_all add: rt_same_def sb_sound_def)
  have nx: "pool_next (Mem s) p" using put by (rule pool_nextI)
  have "pool_live p b = pool_live (Mem s) b" if "b \<noteq> a" for b
    using PutPoolBuf_others [OF wf] put h that by simp
  then show ?thesis using same nx old
    by (auto simp: rt_same_def sb_sound_def pool_next_def map_le_def dom_def) (metis option.distinct(1))
qed

lemma link_upd [simp]:
  "dest_link (d\<lparr>BuffCount := x, DestCnt := y\<rparr>) = dest_link d" "dest_link (d\<lparr>BuffCount := x\<rparr>) = dest_link d"
  "route_link (e\<lparr>SeqCnt := q\<rparr>) = route_link e" "pipe_link (p\<lparr>SendErrors := u\<rparr>) = pipe_link p"
  by (simp_all add: dest_link_def route_link_def pipe_link_def)

lemma same_fresh_buffer:
  "rt_same s0 s \<Longrightarrow> CFE_SB_GetBufferFromPool m z s = (r, s') \<Longrightarrow>
   rt_same s0 s' \<and> (\<forall>bd. r = Some bd \<longrightarrow> pool_live (Mem s0) bd = None)"
  by (auto simp: CFE_SB_GetBufferFromPool_def Let_def split: prod.splits sum.splits dest: same_alloc)

lemma same_decr:
  assumes "rt_same s0 s" and "pool_live (Mem s0) bd = None"
  shows "rt_same s0 (CFE_SB_DecrBufUseCnt bd s)"
proof -
  have "rt_same s0 (CFE_SB_ReturnBufferToPool bd (upd_buf bd f s))" for f
    using same_free [of s0 "upd_buf bd f s", OF _ _ assms(2)] assms(1)
    by (auto simp: CFE_SB_ReturnBufferToPool_def Let_def split: prod.splits sum.splits)
  then show ?thesis using assms(1) by (simp add: CFE_SB_DecrBufUseCnt_def Let_def)
qed

lemma same_once:
  "rt_same s0 s \<Longrightarrow> SendEvent_once c b ev s = Some s' \<Longrightarrow> rt_same s0 s'"
  by (auto simp: SendEvent_once_def CFE_SB_RequestToSendEvent_def CFE_SB_FinishSendEvent_def
      split: option.splits if_splits)

lemma same_one: "rt_same s0 s \<Longrightarrow> SendMsg_one c bd dp errs s = (e, s') \<Longrightarrow> rt_same s0 s'"
  by (auto simp: SendMsg_one_def Let_def split: prod.splits if_splits intro!: same_OS dest!: queues_nextI)

lemma same_deliver:
  "rt_same s0 s \<Longrightarrow> SendMsg_deliver n c bd p errs s = (e, s') \<Longrightarrow> rt_same s0 s'"
  by (induction n arbitrary: p errs s) (auto split: option.splits prod.splits dest: same_one)

lemma same_events: "rt_same s0 s \<Longrightarrow> SendMsg_events c es s = Some s' \<Longrightarrow> rt_same s0 s'"
  by (induction es arbitrary: s) (auto dest: same_once split: bind_splits)

lemma same_prepare [simp]: "rt_same s0 (SendMsg_prepare c a m t i z r bd s) = rt_same s0 s"
  by (simp add: SendMsg_prepare_def Let_def)

lemma same_route:
  "rt_same s0 s \<Longrightarrow> pool_live (Mem s0) bd = None \<Longrightarrow> SendMsg_route c r bd s = Some (st, s') \<Longrightarrow> rt_same s0 s'"
  by (auto simp: SendMsg_route_def Let_def split: prod.splits
      elim!: same_events [rotated] intro!: same_decr dest: same_deliver)

lemma same_send:
  "rt_same s0 s \<Longrightarrow> CFE_SB_SendMsgFull c p inc False s = Some (st, s') \<Longrightarrow> rt_same s0 s'"
  by (auto simp: CFE_SB_SendMsgFull_def SendMsg_discard_def Let_def
      split: option.splits prod.splits if_splits
      elim!: same_once [rotated] same_route [rotated 2] dest!: same_fresh_buffer [rotated])

section \<open>The routing invariant\<close>

definition idx_ok :: "(nat \<Rightarrow> u16) \<Rightarrow> nat \<Rightarrow> (nat \<Rightarrow> u16) \<Rightarrow> bool" where
  "idx_ok M tp stk \<longleftrightarrow> tp \<le> 256 \<and> card {k. k < 8192 \<and> M k \<noteq> 0} = tp
     \<and> (\<forall>k<8192. M k \<noteq> 0 \<longrightarrow> CFE_SB_IsValidRouteIdx (M k))
     \<and> (\<forall>k<8192. \<forall>j<8192. M k = M j \<and> M k \<noteq> 0 \<longrightarrow> k = j)
     \<and> (\<forall>i. tp \<le> i \<and> i < 256 \<longrightarrow> CFE_SB_IsValidRouteIdx (stk i) \<and> (\<forall>k<8192. M k \<noteq> stk i))
     \<and> inj_on stk {tp..<256}"

definition ridx :: "nat \<Rightarrow> u16" where
  "ridx r = of_nat (Suc r)"

definition list_ok ::
  "CFE_SB_RouteEntry_t \<Rightarrow> (addr \<Rightarrow> CFE_SB_DestinationD_t) \<Rightarrow> (addr \<rightharpoonup> u32) \<Rightarrow> addr list \<Rightarrow> bool" where
  "list_ok e D live xs \<longleftrightarrow> dll D (ListHeadPtr e) xs \<and> length xs \<le> 16 \<and> Destinations e = of_nat (length xs)
     \<and> distinct (map (dPipeId \<circ> D) xs) \<and> (\<forall>a \<in> set xs. \<exists>n. live a = Some n \<and> 0 < n)"

definition lists_ok ::
  "(nat \<Rightarrow> u16) \<Rightarrow> (nat \<Rightarrow> CFE_SB_RouteEntry_t) \<Rightarrow> (addr \<Rightarrow> CFE_SB_DestinationD_t) \<Rightarrow> (addr \<rightharpoonup> u32) \<Rightarrow> (nat \<Rightarrow> addr list) \<Rightarrow> bool" where
  "lists_ok M rt D live R \<longleftrightarrow> (\<forall>r<256. list_ok (rt r) D live (R r))
     \<and> (\<forall>r<256. \<forall>q<256. r \<noteq> q \<longrightarrow> set (R r) \<inter> set (R q) = {})
     \<and> (\<forall>r<256. R r \<noteq> [] \<longrightarrow> (\<exists>k<8192. M k = ridx r))
     \<and> (\<forall>k<8192. \<forall>r<256. M k = ridx r \<longrightarrow> rMsgId (rt r) = of_nat k)"

definition routing :: "cfe_sb \<Rightarrow> (nat \<Rightarrow> addr list) \<Rightarrow> bool" where
  "routing s R \<longleftrightarrow> sb_sound s \<and> idx_ok (MsgMap s) (unat (RouteIdxTop s)) (RouteIdxStack s)
     \<and> lists_ok (MsgMap s) (RoutingTbl s) (Dests s) (pool_live (Mem s)) R"

definition routing_inv :: "cfe_sb \<Rightarrow> bool" where
  "routing_inv s \<longleftrightarrow> (\<exists>R. routing s R)"

text \<open>The view: the pipes subscribed to a message identifier, the last one first.\<close>

primrec dest_walk :: "nat \<Rightarrow> (addr \<Rightarrow> CFE_SB_DestinationD_t) \<Rightarrow> addr option \<Rightarrow> addr list" where
  "dest_walk 0 D p = []"
| "dest_walk (Suc n) D p = (case p of None \<Rightarrow> [] | Some a \<Rightarrow> a # dest_walk n D (dNext (D a)))"

definition subs_of :: "cfe_sb \<Rightarrow> u16 \<rightharpoonup> u8 list" where
  "subs_of s m =
     (if CFE_SB_IsValidMsgId m \<and> CFE_SB_IsValidRouteIdx (MsgMap s (unat m))
      then Some (map (dPipeId \<circ> Dests s)
             (dest_walk 16 (Dests s) (ListHeadPtr (RoutingTbl s (unat (MsgMap s (unat m) - 1))))))
      else None)"

lemma dpath_walk: "dpath D pr p as l None \<Longrightarrow> length as \<le> n \<Longrightarrow> dest_walk n D p = as"
proof (induction as arbitrary: n pr p)
  case Nil then show ?case by (cases n) auto
next
  case (Cons a as) then show ?case by (cases n) auto
qed

lemma valid_idx:
  "CFE_SB_IsValidRouteIdx i \<Longrightarrow> unat (i - 1) < 256 \<and> i = ridx (unat (i - 1))"
  by (auto simp: ridx_def CFE_SB_IsValidRouteIdx_def word_le_nat_alt word_neq_0_conv unat_sub_if' unat_eq_0 [symmetric])

lemma ridx_simps [simp]:
  "r < 256 \<Longrightarrow> q < 256 \<Longrightarrow> ridx r = ridx q \<longleftrightarrow> r = q" "r < 256 \<Longrightarrow> ridx r \<noteq> 0" "r < 256 \<Longrightarrow> 0 \<noteq> ridx r"
  "r < 256 \<Longrightarrow> CFE_SB_IsValidRouteIdx (ridx r)" "r < 256 \<Longrightarrow> unat (ridx r - 1) = r"
  by (auto simp: ridx_def CFE_SB_IsValidRouteIdx_def word_unat_eq_iff word_le_nat_alt unat_of_nat simp del: of_nat_Suc)
    (simp add: unat_of_nat)

lemma valid_msg: "CFE_SB_IsValidMsgId m \<Longrightarrow> unat m < 8192"
  by (simp add: CFE_SB_IsValidMsgId_def CFE_PLATFORM_SB_HIGHEST_VALID_MSGID_def word_le_nat_alt)

lemma msg_key [simp]: "CFE_SB_MsgKeyToValue (CFE_SB_ConvertMsgIdtoMsgKey m) = unat m"
  by (simp add: CFE_SB_MsgKeyToValue_def CFE_SB_ConvertMsgIdtoMsgKey_def CFE_SB_ValueToMsgKey_def)

lemma routing_tbl_idx [simp]: "CFE_SB_GetRoutingTblIdx (CFE_SB_ConvertMsgIdtoMsgKey m) s = MsgMap s (unat m)"
  by (simp add: CFE_SB_GetRoutingTblIdx_def)

lemma route_ptr [simp]: "CFE_SB_GetRoutePtrFromIdx i = unat (i - 1)"
  by (simp add: CFE_SB_GetRoutePtrFromIdx_def CFE_SB_RouteIdxToValue_def)

lemma subs_of_routing:
  assumes "routing s R"
  shows "subs_of s m = (if CFE_SB_IsValidMsgId m \<and> CFE_SB_IsValidRouteIdx (MsgMap s (unat m))
    then Some (map (dPipeId \<circ> Dests s) (R (unat (MsgMap s (unat m) - 1)))) else None)"
proof -
  have "dest_walk 16 (Dests s) (ListHeadPtr (RoutingTbl s r)) = R r" if "r < 256" for r
    using assms that dpath_walk by (auto simp: routing_def lists_ok_def list_ok_def dll_def)
  then show ?thesis using valid_idx by (auto simp: subs_of_def)
qed

lemma link_eqD:
  assumes "rt_same s s'"
  shows "dPipeId (Dests s' a) = dPipeId (Dests s a)" "dPrev (Dests s' a) = dPrev (Dests s a)"
    "dNext (Dests s' a) = dNext (Dests s a)" "rMsgId (RoutingTbl s' r) = rMsgId (RoutingTbl s r)"
    "Destinations (RoutingTbl s' r) = Destinations (RoutingTbl s r)"
    "ListHeadPtr (RoutingTbl s' r) = ListHeadPtr (RoutingTbl s r)"
    "InUse (PipeTbl s' i) = InUse (PipeTbl s i)" "PipeId (PipeTbl s' i) = PipeId (PipeTbl s i)"
    "pAppId (PipeTbl s' i) = pAppId (PipeTbl s i)"
proof -
  have "dest_link (Dests s' a) = dest_link (Dests s a)" "route_link (RoutingTbl s' r) = route_link (RoutingTbl s r)"
    "pipe_link (PipeTbl s' i) = pipe_link (PipeTbl s i)"
    using assms by (auto simp: rt_same_def fun_eq_iff)
  then show "dPipeId (Dests s' a) = dPipeId (Dests s a)" "dPrev (Dests s' a) = dPrev (Dests s a)"
    "dNext (Dests s' a) = dNext (Dests s a)" "rMsgId (RoutingTbl s' r) = rMsgId (RoutingTbl s r)"
    "Destinations (RoutingTbl s' r) = Destinations (RoutingTbl s r)"
    "ListHeadPtr (RoutingTbl s' r) = ListHeadPtr (RoutingTbl s r)"
    "InUse (PipeTbl s' i) = InUse (PipeTbl s i)" "PipeId (PipeTbl s' i) = PipeId (PipeTbl s i)"
    "pAppId (PipeTbl s' i) = pAppId (PipeTbl s i)"
    by (auto simp: dest_link_def route_link_def pipe_link_def)
qed

lemma routing_same:
  assumes same: "rt_same s s'" and R: "routing s R"
  shows "routing s' R" and "subs_of s' = subs_of s"
proof -
  note L = link_eqD [OF same]
  have dll: "dll (Dests s') p as = dll (Dests s) p as" for p as by (rule dll_cong) (simp add: L)
  have comp: "dPipeId \<circ> Dests s' = dPipeId \<circ> Dests s" by (simp add: fun_eq_iff L)
  have live: "pool_live (Mem s') a = Some n" if "pool_live (Mem s) a = Some n" for a n
    using same that by (auto simp: rt_same_def map_le_def dom_def)
  have "lists_ok (MsgMap s) (RoutingTbl s') (Dests s') (pool_live (Mem s')) R"
    using R live unfolding routing_def lists_ok_def list_ok_def L dll comp by blast
  then show R': "routing s' R"
    using same R by (simp add: rt_same_def routing_def)
  show "subs_of s' = subs_of s"
    using same by (simp add: fun_eq_iff subs_of_routing [OF R] subs_of_routing [OF R'] L rt_same_def)
qed

section \<open>Changes of the routing data\<close>

lemma idx_pop:
  assumes ok: "idx_ok M tp stk" and tp: "tp < 256" and k: "k < 8192" "M k = 0"
  shows "idx_ok (M(k := stk tp)) (Suc tp) stk"
proof -
  have st: "CFE_SB_IsValidRouteIdx (stk tp)" "\<forall>j<8192. M j \<noteq> stk tp"
    using ok tp by (auto simp: idx_ok_def)
  have nz: "stk tp \<noteq> 0" using st(1) by (simp add: CFE_SB_IsValidRouteIdx_def)
  have fresh: "stk i \<noteq> stk tp" if "Suc tp \<le> i" "i < 256" for i
    using ok that tp inj_onD [of stk "{tp..<256}" i tp] by (auto simp: idx_ok_def)
  have "{j. j < 8192 \<and> (M(k := stk tp)) j \<noteq> 0} = insert k {j. j < 8192 \<and> M j \<noteq> 0}" using k nz by auto
  then have "card {j. j < 8192 \<and> (M(k := stk tp)) j \<noteq> 0} = Suc tp"
    using ok k by (simp add: idx_ok_def)
  moreover have "inj_on stk {Suc tp..<256}" using ok by (auto simp: idx_ok_def intro: inj_on_subset)
  moreover have "\<forall>j<8192. (M(k := stk tp)) j \<noteq> 0 \<longrightarrow> CFE_SB_IsValidRouteIdx ((M(k := stk tp)) j)"
    using ok st by (simp add: idx_ok_def)
  moreover have "\<forall>j<8192. \<forall>i<8192. (M(k := stk tp)) j = (M(k := stk tp)) i \<and> (M(k := stk tp)) j \<noteq> 0 \<longrightarrow> j = i"
  proof (intro allI impI)
    fix j i :: nat
    assume "j < 8192" "i < 8192" and eq: "(M(k := stk tp)) j = (M(k := stk tp)) i \<and> (M(k := stk tp)) j \<noteq> 0"
    moreover have "M j = M i \<and> M j \<noteq> 0 \<Longrightarrow> j = i" using ok calculation(1,2) unfolding idx_ok_def by blast
    ultimately show "j = i" using st(2) by (auto split: if_splits)
  qed
  moreover have "\<forall>i. Suc tp \<le> i \<and> i < 256 \<longrightarrow> CFE_SB_IsValidRouteIdx (stk i) \<and> (\<forall>j<8192. (M(k := stk tp)) j \<noteq> stk i)"
  proof (intro allI impI)
    fix i assume i: "Suc tp \<le> i \<and> i < 256"
    then have "CFE_SB_IsValidRouteIdx (stk i) \<and> (\<forall>j<8192. M j \<noteq> stk i)" using ok by (simp add: idx_ok_def)
    then show "CFE_SB_IsValidRouteIdx (stk i) \<and> (\<forall>j<8192. (M(k := stk tp)) j \<noteq> stk i)"
      using fresh [of i] i by auto
  qed
  ultimately show ?thesis using tp unfolding idx_ok_def by (intro conjI) simp_all
qed

lemma idx_push:
  assumes ok: "idx_ok M tp stk" and k: "k < 8192" "M k \<noteq> 0"
  shows "0 < tp" and "idx_ok (M(k := 0)) (tp - 1) (stk(tp - 1 := M k))"
proof -
  have fin: "finite {j. j < 8192 \<and> M j \<noteq> 0}" and mem: "k \<in> {j. j < 8192 \<and> M j \<noteq> 0}" using k by auto
  then have "0 < card {j. j < 8192 \<and> M j \<noteq> 0}" by (auto simp: card_gt_0_iff)
  then show tp: "0 < tp" using ok by (simp add: idx_ok_def)
  have "{j. j < 8192 \<and> (M(k := 0)) j \<noteq> 0} = {j. j < 8192 \<and> M j \<noteq> 0} - {k}" by auto
  then have "card {j. j < 8192 \<and> (M(k := 0)) j \<noteq> 0} = tp - 1"
    using ok fin mem by (simp add: idx_ok_def)
  moreover have "inj_on (stk(tp - 1 := M k)) {tp - 1..<256}"
  proof -
    have eq: "{tp - 1..<256} = insert (tp - 1) {tp..<256}" using tp ok by (auto simp: idx_ok_def)
    have "inj_on (stk(tp - 1 := M k)) {tp..<256}"
    proof -
      have "inj_on stk {tp..<256}" using ok by (simp add: idx_ok_def)
      moreover have "(stk(tp - 1 := M k)) i = stk i" if "i \<in> {tp..<256}" for i using that tp by auto
      ultimately show ?thesis using inj_on_cong [of "{tp..<256}" "stk(tp - 1 := M k)" stk] by blast
    qed
    moreover have "M k \<notin> stk ` {tp..<256}" using ok k by (auto simp: idx_ok_def)
    ultimately show ?thesis using tp unfolding eq by (auto simp: inj_on_insert)
  qed
  moreover have "(M(k := 0)) j \<noteq> (stk(tp - 1 := M k)) i" if "tp - 1 \<le> i" "i < 256" "j < 8192" for i j
  proof -
    have "0 \<noteq> (stk(tp - 1 := M k)) i"
      using ok k that by (auto simp: idx_ok_def CFE_SB_IsValidRouteIdx_def)
    moreover have "j \<noteq> k \<Longrightarrow> M j \<noteq> (stk(tp - 1 := M k)) i"
      using ok k that by (auto simp: idx_ok_def)
    ultimately show ?thesis by auto
  qed
  ultimately show "idx_ok (M(k := 0)) (tp - 1) (stk(tp - 1 := M k))"
    using ok k tp by (auto simp: idx_ok_def)
qed

lemma lists_map:
  assumes ok: "lists_ok M rt D live R" and r: "r < 256" and k: "k < 8192" "M k = 0"
    and free: "\<forall>j<8192. M j \<noteq> ridx r"
  shows "lists_ok (M(k := ridx r)) (rt(r := (rt r)\<lparr>rMsgId := of_nat k\<rparr>)) D live R"
proof -
  have "list_ok ((rt r)\<lparr>rMsgId := of_nat k\<rparr>) D live (R r)" using ok r by (auto simp: lists_ok_def list_ok_def)
  moreover have "\<exists>j<8192. (M(k := ridx r)) j = ridx q" if "q < 256" "R q \<noteq> []" for q
    using ok that k r by (auto simp: lists_ok_def) (metis ridx_simps(2))
  ultimately show ?thesis using ok k r free by (auto simp: lists_ok_def)
qed

lemma lists_unmap:
  assumes ok: "lists_ok M rt D live R" and r: "r < 256" and "M k = ridx r" and "R r = []"
  shows "lists_ok (M(k := 0)) rt D live R"
proof -
  have "\<exists>j<8192. (M(k := 0)) j = ridx q" if "q < 256" "R q \<noteq> []" for q
    using ok that assms(3,4) r by (auto simp: lists_ok_def) (metis ridx_simps(1))
  then show ?thesis using ok by (auto simp: lists_ok_def)
qed

lemma list_ok_cong:
  assumes "list_ok e D live xs"
    and "\<And>a. a \<in> set xs \<Longrightarrow> dest_link (D' a) = dest_link (D a) \<and> live' a = live a"
    and "route_link e' = route_link e"
  shows "list_ok e' D' live' xs"
proof -
  have "dll D' p xs = dll D p xs" for p using assms(2) by (intro dll_cong) (simp add: dest_link_def)
  moreover have "map (dPipeId \<circ> D') xs = map (dPipeId \<circ> D) xs" using assms(2) by (simp add: dest_link_def)
  moreover have "\<forall>a \<in> set xs. live' a = live a" using assms(2) by blast
  ultimately show ?thesis
    using assms unfolding list_ok_def route_link_def by (simp del: map_eq_conv)
qed

text \<open>A change to the list of one route that leaves the blocks of the others alone.\<close>

lemma lists_change:
  assumes ok: "lists_ok M rt D live R" and r: "r < 256" and k: "k < 8192" "M k = ridx r"
    and new: "list_ok (rt' r) D' live' xs" and "rMsgId (rt' r) = rMsgId (rt r)"
    and rt: "\<And>q. q \<noteq> r \<Longrightarrow> rt' q = rt q"
    and other: "\<And>q a. q < 256 \<Longrightarrow> q \<noteq> r \<Longrightarrow> a \<in> set (R q) \<Longrightarrow>
      dest_link (D' a) = dest_link (D a) \<and> live' a = live a \<and> a \<notin> set xs"
  shows "lists_ok M rt' D' live' (R(r := xs))"
proof -
  have "list_ok (rt' q) D' live' (R q)" if "q < 256" "q \<noteq> r" for q
  proof (rule list_ok_cong)
    show "list_ok (rt q) D live (R q)" using ok that by (simp add: lists_ok_def)
  qed (use other [OF that] rt [OF that(2)] in auto)
  moreover have "set ((R(r := xs)) p) \<inter> set ((R(r := xs)) q) = {}" if "p < 256" "q < 256" "p \<noteq> q" for p q
  proof (cases "p = r \<or> q = r")
    case True
    then show ?thesis using other [of p] other [of q] that by (auto simp: disjoint_iff)
  next
    case False
    then show ?thesis using ok that by (simp add: lists_ok_def)
  qed
  moreover have "rMsgId (rt' q) = of_nat j" if "j < 8192" "q < 256" "M j = ridx q" for j q
    using ok that assms(6) rt by (cases "q = r") (auto simp: lists_ok_def)
  ultimately show ?thesis using ok new k by (auto simp: lists_ok_def)
qed

end
