(* ===== verification/SB_Subs.thy ===== *)
theory SB_Subs
  imports SB_Routing
begin

text \<open>
  Subscriptions: \<^verbatim>\<open>CFE_SB_SubscribeFull\<close> and \<^verbatim>\<open>CFE_SB_UnsubscribeFull\<close> implement an abstract registry that gives
  every message identifier with a route the list of its pipes.  \<open>subscribe_spec\<close> and \<open>unsubscribe_spec\<close> are the
  operations on that registry, \<open>SubscribeFull_spec\<close> and \<open>UnsubscribeFull_spec\<close> the refinement lemmas; the locale
  \<open>subscription_registry\<close> is what a client may rely on, interpreted on the interface functions.
\<close>

section \<open>Frame lemmas\<close>

lemma routing_frame [simp]:
  "routing (upd_HK f1 s) R = routing s R" "routing (upd_Stat f2 s) R = routing s R"
  "routing (SendEvent ev s) R = routing s R" "routing (add_MemInUse n s) R = routing s R"
  "routing (CFE_SB_LockSharedData s) R = routing s R" "routing (CFE_SB_UnlockSharedData s) R = routing s R"
  by (simp_all add: routing_def) (simp_all add: sb_upd_defs CFE_SB_LockSharedData_def CFE_SB_UnlockSharedData_def)

lemma routing_invI: "routing s R \<Longrightarrow> routing_inv s"
  by (auto simp: routing_inv_def)

lemma routing_inv_frame [simp]:
  "routing_inv (upd_HK f1 s) = routing_inv s" "routing_inv (upd_Stat f2 s) = routing_inv s"
  "routing_inv (SendEvent ev s) = routing_inv s" "routing_inv (add_MemInUse n s) = routing_inv s"
  "routing_inv (CFE_SB_LockSharedData s) = routing_inv s" "routing_inv (CFE_SB_UnlockSharedData s) = routing_inv s"
  by (metis routing_frame routing_inv_def)+

lemma subs_frame [simp]:
  "subs_of (upd_HK f1 s) = subs_of s" "subs_of (upd_Stat f2 s) = subs_of s"
  "subs_of (SendEvent ev s) = subs_of s" "subs_of (add_MemInUse n s) = subs_of s"
  "subs_of (CFE_SB_LockSharedData s) = subs_of s" "subs_of (CFE_SB_UnlockSharedData s) = subs_of s"
  by (simp_all add: subs_of_def fun_eq_iff sb_upd_defs CFE_SB_LockSharedData_def CFE_SB_UnlockSharedData_def)

lemma sb_fields [simp]:
  "PipeTbl (CFE_SB_UnlockSharedData s) = PipeTbl s" "PipeTbl (SendEvent ev s) = PipeTbl s" "PipeTbl (upd_HK g s) = PipeTbl s"
  "PipeTbl (add_MemInUse n s) = PipeTbl s"
  "PipeTbl (CFE_SB_LockSharedData s) = PipeTbl s" "PoolHdl (CFE_SB_LockSharedData s) = PoolHdl s"
  "MsgMap (CFE_SB_LockSharedData s) = MsgMap s" "RouteIdxTop (CFE_SB_LockSharedData s) = RouteIdxTop s"
  "RoutingTbl (CFE_SB_LockSharedData s) = RoutingTbl s" "Dests (CFE_SB_LockSharedData s) = Dests s"
  "RoutingTbl (upd_Stat f s) = RoutingTbl s" "Dests (upd_Stat f s) = Dests s" "MsgMap (upd_Stat f s) = MsgMap s"
  "PipeTbl (upd_Stat f s) = PipeTbl s" "PoolHdl (upd_Stat f s) = PoolHdl s"
  "RouteIdxTop (upd_Stat f s) = RouteIdxTop s" "RouteIdxStack (upd_Stat f s) = RouteIdxStack s"
  "SubscriptionReporting (upd_Stat f s) = SubscriptionReporting s"
  by (simp_all add: sb_upd_defs CFE_SB_LockSharedData_def CFE_SB_UnlockSharedData_def)

section \<open>The view\<close>

definition pipes :: "(u16 \<rightharpoonup> u8 list) \<Rightarrow> u16 \<Rightarrow> u8 list" where
  "pipes S m = (case S m of None \<Rightarrow> [] | Some ps \<Rightarrow> ps)"

lemma routingD:
  assumes "routing s R"
  shows "sb_sound s" "idx_ok (MsgMap s) (unat (RouteIdxTop s)) (RouteIdxStack s)"
    "lists_ok (MsgMap s) (RoutingTbl s) (Dests s) (pool_live (Mem s)) R"
    "r < 256 \<Longrightarrow> list_ok (RoutingTbl s r) (Dests s) (pool_live (Mem s)) (R r)"
  using assms by (auto simp: routing_def lists_ok_def)

lemma lists_disjoint:
  "lists_ok M rt D live R \<Longrightarrow> q < 256 \<Longrightarrow> r < 256 \<Longrightarrow> q \<noteq> r \<Longrightarrow> b \<in> set (R q) \<Longrightarrow> b \<notin> set (R r)"
  unfolding lists_ok_def by blast

lemma valid_route:
  assumes "routing s R" and "CFE_SB_IsValidMsgId m"
  shows "CFE_SB_IsValidRouteIdx (MsgMap s (unat m)) \<longleftrightarrow> MsgMap s (unat m) \<noteq> 0"
  using assms valid_msg [of m] by (auto simp: routing_def idx_ok_def CFE_SB_IsValidRouteIdx_def)

lemma subs_of_at:
  assumes "routing s R" and "CFE_SB_IsValidMsgId m" and "r < 256" and "MsgMap s (unat m) = ridx r"
  shows "subs_of s m = Some (map (dPipeId \<circ> Dests s) (R r))"
  using assms by (simp add: subs_of_routing [OF assms(1)])

lemma route_inj:
  assumes "routing s R" and "CFE_SB_IsValidMsgId m" and "CFE_SB_IsValidMsgId n"
    and "MsgMap s (unat m) = MsgMap s (unat n)" and "MsgMap s (unat m) \<noteq> 0"
  shows "m = n"
proof -
  have "unat m = unat n"
    using assms valid_msg [of m] valid_msg [of n] unfolding routing_def idx_ok_def by blast
  then show ?thesis by (simp add: word_unat_eq_iff)
qed

text \<open>A change of the list of route \<open>r\<close> shows in the view at the identifier of that route only.\<close>

lemma subs_change:
  assumes R: "routing s R" and R': "routing s' (R(r := xs))" and m: "CFE_SB_IsValidMsgId m"
    and r: "r < 256" "MsgMap s (unat m) = ridx r" and M: "MsgMap s' = MsgMap s"
    and D: "\<And>q a. q < 256 \<Longrightarrow> q \<noteq> r \<Longrightarrow> a \<in> set (R q) \<Longrightarrow> dPipeId (Dests s' a) = dPipeId (Dests s a)"
  shows "subs_of s' = (subs_of s)(m \<mapsto> map (dPipeId \<circ> Dests s') xs)"
proof (rule ext)
  fix n
  show "subs_of s' n = ((subs_of s)(m \<mapsto> map (dPipeId \<circ> Dests s') xs)) n"
  proof (cases "n = m")
    case True
    then show ?thesis using subs_of_at [OF R' m r(1)] r M by simp
  next
    case False
    show ?thesis
    proof (cases "CFE_SB_IsValidMsgId n \<and> CFE_SB_IsValidRouteIdx (MsgMap s (unat n))")
      case True
      define q where "q = unat (MsgMap s (unat n) - 1)"
      have q: "q < 256" "MsgMap s (unat n) = ridx q" using True valid_idx by (auto simp: q_def)
      then have "q \<noteq> r" using route_inj [OF R m, of n] True r False by auto
      then show ?thesis
        using subs_of_at [OF R _ q] subs_of_at [OF R', of n q] True q M False D [OF q(1)] by auto
    next
      case False
      then show ?thesis using \<open>n \<noteq> m\<close> M by (auto simp: subs_of_def)
    qed
  qed
qed

lemma card_subs:
  assumes R: "routing s R"
  shows "card (dom (subs_of s)) = unat (RouteIdxTop s)"
proof -
  have "dom (subs_of s) = {m. CFE_SB_IsValidMsgId m \<and> MsgMap s (unat m) \<noteq> 0}"
    using valid_route [OF R] by (auto simp: subs_of_def dom_def)
  also have "\<dots> = of_nat ` {k. k < 8192 \<and> MsgMap s k \<noteq> 0}"
  proof (intro set_eqI iffI)
    fix m :: u16 assume "m \<in> {m. CFE_SB_IsValidMsgId m \<and> MsgMap s (unat m) \<noteq> 0}"
    then show "m \<in> of_nat ` {k. k < 8192 \<and> MsgMap s k \<noteq> 0}"
      using valid_msg [of m] by (intro image_eqI [of _ _ "unat m"]) auto
  next
    fix m :: u16 assume "m \<in> of_nat ` {k. k < 8192 \<and> MsgMap s k \<noteq> 0}"
    then show "m \<in> {m. CFE_SB_IsValidMsgId m \<and> MsgMap s (unat m) \<noteq> 0}"
      by (auto simp: CFE_SB_IsValidMsgId_def CFE_PLATFORM_SB_HIGHEST_VALID_MSGID_def CFE_SB_INVALID_MSG_ID_def
          word_le_nat_alt word_unat_eq_iff unat_of_nat)
  qed
  also have "card \<dots> = card {k. k < 8192 \<and> MsgMap s k \<noteq> 0}"
    by (rule card_image) (auto simp: inj_on_def word_unat_eq_iff unat_of_nat)
  finally show ?thesis using R by (simp add: routing_def idx_ok_def)
qed

lemma duplicate_check:
  assumes R: "routing s R" and m: "CFE_SB_IsValidMsgId m"
  shows "CFE_SB_DuplicateSubscribeCheck (CFE_SB_ConvertMsgIdtoMsgKey m) p s = Some (p \<in> set (pipes (subs_of s) m))"
proof (cases "CFE_SB_IsValidRouteIdx (MsgMap s (unat m))")
  case True
  define r where "r = unat (MsgMap s (unat m) - 1)"
  have r: "r < 256" "MsgMap s (unat m) = ridx r" using valid_idx [OF True] by (auto simp: r_def)
  have "dll (Dests s) (ListHeadPtr (RoutingTbl s r)) (R r)"
    using routingD(4) [OF R r(1)] by (simp add: list_ok_def)
  moreover have "find (\<lambda>a. dPipeId (Dests s a) = p) xs \<noteq> None \<longleftrightarrow> p \<in> set (map (dPipeId \<circ> Dests s) xs)" for xs
    by (induction xs) auto
  ultimately show ?thesis
    using subs_of_at [OF R m r] r
    by (simp add: CFE_SB_DuplicateSubscribeCheck_def Let_def pipes_def dll_find del: not_None_eq)
next
  case False
  then show ?thesis
    by (simp add: CFE_SB_DuplicateSubscribeCheck_def Let_def pipes_def subs_of_def DestList_find.simps)
qed


section \<open>Subscribing\<close>

text \<open>The route of a message identifier is found or taken from the stack of free indices.\<close>

lemma subscribe_route:
  assumes R: "routing s R" and m: "CFE_SB_IsValidMsgId m"
    and res: "Subscribe_route m (CFE_SB_ConvertMsgIdtoMsgKey m) s = (res, s')"
  shows "PipeTbl s' = PipeTbl s \<and> Mem s' = Mem s \<and> PoolHdl s' = PoolHdl s
    \<and> SubscriptionReporting s' = SubscriptionReporting s
    \<and> (case res of
         None \<Rightarrow> s' = s \<and> subs_of s m = None \<and> RouteIdxTop s = 256
       | Some r \<Rightarrow> r < 256 \<and> routing s' R \<and> MsgMap s' (unat m) = ridx r
           \<and> subs_of s' = (subs_of s)(m \<mapsto> pipes (subs_of s) m) \<and> (subs_of s m = None \<longrightarrow> RouteIdxTop s \<noteq> 256))"
proof (cases "CFE_SB_IsValidRouteIdx (MsgMap s (unat m))")
  case True
  then have "subs_of s m \<noteq> None" using m by (simp add: subs_of_def)
  then show ?thesis
    using True valid_idx [OF True] R res by (auto simp: Subscribe_route_def pipes_def fun_upd_idem)
next
  case False
  note idx = routingD(2) [OF R] and lists = routingD(3) [OF R]
  have mm: "MsgMap s (unat m) = 0" and none: "subs_of s m = None"
    using False valid_route [OF R m] m by (auto simp: subs_of_def)
  show ?thesis
  proof (cases "unat (RouteIdxTop s) < 256")
    case False
    then have "RouteIdxTop s = 256" using idx by (simp add: idx_ok_def word_unat_eq_iff)
    then show ?thesis using res mm none
      by (auto simp: Subscribe_route_def CFE_SB_RouteIdxPop_Unsync_def CFE_SB_IsValidRouteIdx_def
          CFE_SB_INVALID_ROUTE_IDX_def)
  next
    case True
    define i where "i = RouteIdxStack s (unat (RouteIdxTop s))"
    define r where "r = unat (i - 1)"
    have iv: "CFE_SB_IsValidRouteIdx i" and free: "\<forall>j<8192. MsgMap s j \<noteq> i"
      using idx True by (auto simp: idx_ok_def i_def)
    then have r: "r < 256" "i = ridx r" using valid_idx [OF iv] by (auto simp: r_def)
    have tp: "\<not> 256 \<le> RouteIdxTop s" "unat (RouteIdxTop s + 1) = Suc (unat (RouteIdxTop s))"
      using True by (auto simp: word_le_nat_alt unat_plus_if')
    have s': "res = Some r" "MsgMap s' = (MsgMap s)(unat m := ridx r)" "RouteIdxTop s' = RouteIdxTop s + 1"
      "RouteIdxStack s' = RouteIdxStack s" "RoutingTbl s' = (RoutingTbl s)(r := (RoutingTbl s r)\<lparr>rMsgId := m\<rparr>)"
      "Dests s' = Dests s" "Mem s' = Mem s" "PipeTbl s' = PipeTbl s" "PoolHdl s' = PoolHdl s" "OS s' = OS s"
      "SubscriptionReporting s' = SubscriptionReporting s"
      using res False mm tp iv r
      by (auto simp: Subscribe_route_def CFE_SB_RouteIdxPop_Unsync_def i_def [symmetric] Let_def
          CFE_SB_SetRoutingTblIdx_def CFE_SB_IsValidRouteIdx_def [of 0] sb_upd_defs)
    have "idx_ok (MsgMap s') (unat (RouteIdxTop s')) (RouteIdxStack s')"
      using idx_pop [OF idx True valid_msg [OF m] mm] r i_def s' tp by simp
    moreover have "lists_ok (MsgMap s') (RoutingTbl s') (Dests s') (pool_live (Mem s')) R"
      using lists_map [OF lists r(1) valid_msg [OF m] mm] free r s' by simp
    moreover have "sb_sound s'" using R s' by (simp add: routing_def sb_sound_def)
    ultimately have R': "routing s' R" by (simp add: routing_def)
    have "R r = []" using lists free r by (auto simp: lists_ok_def)
    then have "subs_of s' n = ((subs_of s)(m \<mapsto> [])) n" for n
    proof (cases "n = m")
      case False
      then have "unat n \<noteq> unat m" by (simp add: word_unat_eq_iff)
      then show ?thesis using False s' by (simp add: subs_of_routing [OF R] subs_of_routing [OF R'])
    qed (use subs_of_at [OF R' m r(1)] s' in simp)
    then have "subs_of s' = (subs_of s)(m \<mapsto> [])" by blast
    then show ?thesis using R' r s' none True by (auto simp: pipes_def)
  qed
qed


text \<open>A new destination block is linked in at the head of the list.\<close>

lemma subscribe_link:
  fixes lim :: u16 and sc :: u8
  assumes R: "routing s R" and m: "CFE_SB_IsValidMsgId m" and r: "r < 256" "MsgMap s (unat m) = ridx r"
    and len: "length (R r) < 16" and p: "p \<notin> set (map (dPipeId \<circ> Dests s) (R r))"
    and live: "pool_live (Mem s) a = Some n" "0 < n" and fresh: "\<And>q. q < 256 \<Longrightarrow> a \<notin> set (R q)"
  defines "s' \<equiv> Subscribe_link r a p lim sc s"
  shows "routing s' (R(r := a # R r))" and "subs_of s' = (subs_of s)(m \<mapsto> p # pipes (subs_of s) m)"
    and "PipeTbl s' = PipeTbl s"
proof -
  let ?h = "ListHeadPtr (RoutingTbl s r)"
  note lists = routingD(3) [OF R]
  have L: "dll (Dests s) ?h (R r)" "Destinations (RoutingTbl s r) = of_nat (length (R r))"
    "distinct (map (dPipeId \<circ> Dests s) (R r))" "\<forall>b \<in> set (R r). \<exists>n. pool_live (Mem s) b = Some n \<and> 0 < n"
    using routingD(4) [OF R r(1)] by (auto simp: list_ok_def)
  have h: "?h \<noteq> Some a" using L(1) fresh [OF r(1)] by (cases "R r") (auto simp: dll_def)
  have s': "MsgMap s' = MsgMap s" "RouteIdxTop s' = RouteIdxTop s" "RouteIdxStack s' = RouteIdxStack s"
    "Mem s' = Mem s" "OS s' = OS s" "PoolHdl s' = PoolHdl s" "PipeTbl s' = PipeTbl s"
    "RoutingTbl s' = (RoutingTbl s)(r := (RoutingTbl s r)\<lparr>ListHeadPtr := Some a,
       Destinations := Destinations (RoutingTbl s r) + 1\<rparr>)"
    by (auto simp: s'_def Subscribe_link_def CFE_SB_AddDest_def Let_def sb_upd_defs split: option.split)
  have D: "dNext (Dests s' x) = (if x = a then ?h else dNext (Dests s x))"
    "dPrev (Dests s' x) = (if x = a then None else if ?h = Some x then Some a else dPrev (Dests s x))"
    "dPipeId (Dests s' x) = (if x = a then p else dPipeId (Dests s x))" for x
    using h by (auto simp: s'_def Subscribe_link_def CFE_SB_AddDest_def Let_def sb_upd_defs split: option.split)
  have dl: "dll (Dests s') (Some a) (a # R r)"
    by (rule dll_add [OF L(1) fresh [OF r(1)] _ D(1,2)]) (use L(3) in \<open>simp add: distinct_map\<close>)
  have same: "map (dPipeId \<circ> Dests s') (R r) = map (dPipeId \<circ> Dests s) (R r)"
    using fresh [OF r(1)] by (auto simp: D)
  have new: "list_ok (RoutingTbl s' r) (Dests s') (pool_live (Mem s')) (a # R r)"
    using dl len L p live same D(3) [of a] by (simp add: list_ok_def s' add.commute del: map_eq_conv)
  have head: "?h \<noteq> Some b" if "q < 256" "q \<noteq> r" "b \<in> set (R q)" for q b
    using L(1) lists that r(1) by (cases "R r") (auto simp: dll_def lists_ok_def)
  have "lists_ok (MsgMap s') (RoutingTbl s') (Dests s') (pool_live (Mem s')) (R(r := a # R r))"
    unfolding s'(1)
  proof (rule lists_change [where rt' = "RoutingTbl s'", OF lists r(1) valid_msg [OF m] r(2) new])
    fix q b assume q: "q < 256" "q \<noteq> r" "b \<in> set (R q)"
    then have "b \<noteq> a" "b \<notin> set (R r)" using fresh lists_disjoint [OF lists q(1) r(1)] by auto
    then show "dest_link (Dests s' b) = dest_link (Dests s b) \<and> pool_live (Mem s') b = pool_live (Mem s) b
        \<and> b \<notin> set (a # R r)"
      using head [OF q] by (simp add: dest_link_def D s')
  qed (simp_all add: s')
  then show R': "routing s' (R(r := a # R r))" using R s' by (simp add: routing_def sb_sound_def)
  have "subs_of s' = (subs_of s)(m \<mapsto> map (dPipeId \<circ> Dests s') (a # R r))"
    by (rule subs_change [OF R R' m r s'(1)]) (use fresh in \<open>auto simp: D\<close>)
  then show "subs_of s' = (subs_of s)(m \<mapsto> p # pipes (subs_of s) m)"
    using subs_of_at [OF R m r] same D(3) [of a] by (simp add: pipes_def del: map_eq_conv)
  show "PipeTbl s' = PipeTbl s" by (rule s')
qed

lemma dest_blk:
  assumes R: "routing s R" and get: "CFE_SB_GetDestinationBlk s = (res, s')"
  shows "routing s' R \<and> subs_of s' = subs_of s \<and> MsgMap s' = MsgMap s \<and> Dests s' = Dests s \<and> PipeTbl s' = PipeTbl s
    \<and> SubscriptionReporting s' = SubscriptionReporting s
    \<and> (res = None \<longleftrightarrow> isl (fst (CFE_ES_GetPoolBuf (PoolHdl s) sizeof_CFE_SB_DestinationD_t (Mem s))))
    \<and> (\<forall>a. res = Some a \<longrightarrow> (\<exists>n. pool_live (Mem s') a = Some n \<and> 0 < n) \<and> (\<forall>q<256. a \<notin> set (R q)))"
proof -
  obtain x p where x: "CFE_ES_GetPoolBuf (PoolHdl s) sizeof_CFE_SB_DestinationD_t (Mem s) = (x, p)" by fastforce
  have snd: "sb_sound s" and wf: "pool_wf (Mem s)" "PoolHdl s = PoolHandle (Mem s)"
    using routingD(1) [OF R] by (simp_all add: sb_sound_def)
  have same: "rt_same s (s\<lparr>Mem := p\<rparr>)" by (rule same_alloc(1) [OF same_refl [OF snd] x])
  have al: "pool_live p a = Some z \<and> 0 < z \<and> pool_live (Mem s) a = None" if "x = Inr (z, a)" for z a
  proof -
    have "sizeof_CFE_SB_DestinationD_t \<le> z" using pool.alloc_ok [OF wf(1)] x that wf(2) by auto
    then have "0 < z" by (auto simp: sizeof_CFE_SB_DestinationD_t_def word_gt_0)
    then show ?thesis using pool.alloc_ok [OF wf(1)] x that wf(2) by auto
  qed
  have "a \<notin> set (R q)" if "x = Inr (z, a)" "q < 256" for z a q
    using al [OF that(1)] routingD(4) [OF R that(2)] by (auto simp: list_ok_def)
  then show ?thesis
    using get x routing_same [OF same R] al
    by (auto simp: CFE_SB_GetDestinationBlk_def add_MemInUse_def split: sum.splits prod.splits)
qed

lemma once_returns: "flag_index (TaskGetId c) \<noteq> None \<Longrightarrow> \<exists>s'. SendEvent_once c b ev s = Some s'"
  by (cases "SendEvent_once c b ev s")
    (auto simp: SendEvent_once_def CFE_SB_RequestToSendEvent_def CFE_SB_FinishSendEvent_def split: if_splits)

lemma events_return: "flag_index (TaskGetId c) \<noteq> None \<Longrightarrow> \<exists>s'. SendMsg_events c es s = Some s'"
proof (induction es arbitrary: s)
  case (Cons e es)
  show ?case
    using once_returns [OF Cons.prems, of "if e = CFE_SB_MSGID_LIM_ERR_EID then 2 else if e = CFE_SB_Q_FULL_ERR_EID then 3 else 4" e s]
      Cons.IH [OF Cons.prems] by auto
qed simp

lemma send_returns:
  assumes "flag_index (TaskGetId c) \<noteq> None"
  shows "\<exists>st s'. CFE_SB_SendMsgFull c p inc z s = Some (st, s')"
  using once_returns [OF assms] events_return [OF assms]
  by (auto simp: CFE_SB_SendMsgFull_def SendMsg_route_def Let_def split: option.splits prod.splits)

lemma report:
  assumes R: "routing s R" and "flag_index (TaskGetId c) \<noteq> None"
  shows "\<exists>s'. (if b then SubRprt_send c ty m q p ev s else Some s) = Some s' \<and> routing s' R \<and> subs_of s' = subs_of s
    \<and> pipe_link \<circ> PipeTbl s' = pipe_link \<circ> PipeTbl s"
proof (cases b)
  case True
  let ?s = "CFE_SB_UnlockSharedData (s\<lparr>Msgs := (Msgs s)(SubRprtMsg s := SubRprt_fill ty m q p (Msgs s (SubRprtMsg s)))\<rparr>)"
  obtain st s' where send: "CFE_SB_SendMsgFull c (Some (SubRprtMsg s)) True False ?s = Some (st, s')"
    using send_returns [OF assms(2)] by blast
  have "rt_same s ?s" using same_refl [OF routingD(1) [OF R]] by simp
  from same_send [OF this send] have "rt_same s s'" .
  from routing_same [OF this R] this [unfolded rt_same_def] show ?thesis
    using send True by (auto simp: SubRprt_send_def CFE_SB_SendMsg_def Let_def)
qed (use R in simp)


section \<open>The specification of the registry\<close>

definition subscribe_spec ::
  "bool \<Rightarrow> bool \<Rightarrow> u16 \<Rightarrow> u8 \<Rightarrow> (u16 \<rightharpoonup> u8 list) \<Rightarrow> CFE_Status \<times> (u16 \<rightharpoonup> u8 list)" where
  "subscribe_spec allowed room m p S =
     (if \<not> allowed then (CFE_SB_BAD_ARGUMENT, S)
      else if p \<in> set (pipes S m) then (CFE_SUCCESS, S)
      else if S m = None \<and> card (dom S) = MAX_MSG_IDS then (CFE_SB_MAX_MSGS_MET, S)
      else if length (pipes S m) = 16 then (CFE_SB_MAX_DESTS_MET, S)
      else if \<not> room then (CFE_SB_BUF_ALOC_ERR, S(m \<mapsto> pipes S m))
      else (CFE_SUCCESS, S(m \<mapsto> p # pipes S m)))"

definition may_subscribe :: "SB_ctx \<Rightarrow> u16 \<Rightarrow> u8 \<Rightarrow> u8 \<Rightarrow> cfe_sb \<Rightarrow> bool" where
  "may_subscribe c m p sc s \<longleftrightarrow> CFE_SB_GetPipeIdx p s \<noteq> CFE_SB_INVALID_PIPE
     \<and> pAppId (PipeTbl s (unat (CFE_SB_GetPipeIdx p s))) = ctxAppId c \<and> CFE_SB_IsValidMsgId m \<and> sc \<le> 1"

definition pool_room :: "u32 \<Rightarrow> cfe_sb \<Rightarrow> bool" where
  "pool_room n s \<longleftrightarrow> \<not> isl (fst (CFE_ES_GetPoolBuf (PoolHdl s) n (Mem s)))"

lemma pipe_idx_lock [simp]: "CFE_SB_GetPipeIdx p (CFE_SB_LockSharedData s) = CFE_SB_GetPipeIdx p s"
  by (simp add: CFE_SB_GetPipeIdx_def)

lemma SubscribeFull_refused:
  assumes "\<not> may_subscribe c m p sc s"
  shows "\<exists>ev f. CFE_SB_SubscribeFull c m p q lim sc s =
    Some (CFE_SB_BAD_ARGUMENT, SendEvent ev (CFE_SB_UnlockSharedData (upd_HK f (CFE_SB_LockSharedData s))))"
proof -
  consider "CFE_SB_GetPipeIdx p s = CFE_SB_INVALID_PIPE"
    | "CFE_SB_GetPipeIdx p s \<noteq> CFE_SB_INVALID_PIPE" "pAppId (PipeTbl s (unat (CFE_SB_GetPipeIdx p s))) \<noteq> ctxAppId c"
    | "CFE_SB_GetPipeIdx p s \<noteq> CFE_SB_INVALID_PIPE" "pAppId (PipeTbl s (unat (CFE_SB_GetPipeIdx p s))) = ctxAppId c"
      "\<not> CFE_SB_IsValidMsgId m \<or> 1 < sc"
    using assms by (auto simp: may_subscribe_def not_le)
  then show ?thesis
    by cases (simp only: CFE_SB_SubscribeFull_def Let_def pipe_idx_lock sb_fields if_True if_False simp_thms; blast)+
qed

lemma SubscribeFull_allowed:
  assumes "may_subscribe c m p sc s" and R: "routing s R"
  shows "CFE_SB_SubscribeFull c m p q lim sc s =
    (if p \<in> set (pipes (subs_of s) m)
     then Some (CFE_SUCCESS, SendEvent CFE_SB_DUP_SUBSCRIP_EID (CFE_SB_UnlockSharedData
       (upd_HK (\<lambda>h. h\<lparr>DuplicateSubscriptionsCounter := DuplicateSubscriptionsCounter h + 1\<rparr>) (CFE_SB_LockSharedData s))))
     else case Subscribe_route m (CFE_SB_ConvertMsgIdtoMsgKey m) (CFE_SB_LockSharedData s) of
       (None, s) \<Rightarrow> Some (CFE_SB_MAX_MSGS_MET, SendEvent CFE_SB_MAX_MSGS_MET_EID (CFE_SB_UnlockSharedData s))
     | (Some r, s) \<Rightarrow>
         if Destinations (RoutingTbl s r) \<ge> CFE_PLATFORM_SB_MAX_DEST_PER_PKT
         then Some (CFE_SB_MAX_DESTS_MET, SendEvent CFE_SB_MAX_DESTS_MET_EID (CFE_SB_UnlockSharedData s))
         else case CFE_SB_GetDestinationBlk s of
           (None, s) \<Rightarrow> Some (CFE_SB_BUF_ALOC_ERR, SendEvent CFE_SB_DEST_BLK_ERR_EID (CFE_SB_UnlockSharedData s))
         | (Some a, s) \<Rightarrow>
             do { let s = Subscribe_link r a p lim sc s;
                  s \<leftarrow> (if SubscriptionReporting s = CFE_SB_ENABLE \<and> sc = CFE_SB_GLOBAL
                        then SubRprt_send c 0 m q p CFE_SB_SUBSCRIPTION_RPT_EID s else Some s);
                  Some (CFE_SUCCESS, SendEvent CFE_SB_SUBSCRIPTION_RCVD_EID (CFE_SB_UnlockSharedData s)) })"
proof -
  have m: "CFE_SB_IsValidMsgId m" "\<not> 1 < sc" using assms by (auto simp: may_subscribe_def)
  have Rl: "routing (CFE_SB_LockSharedData s) R" using R by simp
  have dup: "CFE_SB_DuplicateSubscribeCheck (CFE_SB_ConvertMsgIdtoMsgKey m) p (CFE_SB_LockSharedData s)
      = Some (p \<in> set (pipes (subs_of s) m))" using duplicate_check [OF Rl m(1)] by simp
  have ok: "CFE_SB_GetPipeIdx p s \<noteq> CFE_SB_INVALID_PIPE" "pAppId (PipeTbl s (unat (CFE_SB_GetPipeIdx p s))) = ctxAppId c"
    using assms(1) by (auto simp: may_subscribe_def)
  show ?thesis
    by (simp only: CFE_SB_SubscribeFull_def Let_def pipe_idx_lock sb_fields ok m if_False not_True_eq_False
        simp_thms dup Option.bind.bind_lunit)
qed

lemma SubscribeFull_spec:
  assumes R: "routing s R" and fl: "flag_index (TaskGetId c) \<noteq> None"
  shows "\<exists>st s'. CFE_SB_SubscribeFull c m p q lim sc s = Some (st, s') \<and> routing_inv s'
    \<and> (st, subs_of s') = subscribe_spec (may_subscribe c m p sc s) (pool_room sizeof_CFE_SB_DestinationD_t s) m p (subs_of s)
    \<and> pipe_link \<circ> PipeTbl s' = pipe_link \<circ> PipeTbl s"
proof (cases "may_subscribe c m p sc s")
  case False
  then show ?thesis
    using SubscribeFull_refused [OF False, of q lim] R by (auto simp: subscribe_spec_def routing_invI)
next
  case may: True
  let ?s = "CFE_SB_LockSharedData s"
  have m: "CFE_SB_IsValidMsgId m" using may by (auto simp: may_subscribe_def)
  have Rl: "routing ?s R" using R by simp
  obtain res s1 where res: "Subscribe_route m (CFE_SB_ConvertMsgIdtoMsgKey m) ?s = (res, s1)" by fastforce
  note S1 = subscribe_route [OF Rl m res]
  show ?thesis
  proof (cases "p \<in> set (pipes (subs_of s) m)")
    case True
    then show ?thesis using SubscribeFull_allowed [OF may R, of q lim] may R by (auto simp: subscribe_spec_def routing_invI)
  next
    case new: False
    note full = SubscribeFull_allowed [OF may R, of q lim] res new
    show ?thesis
    proof (cases res)
      case None
      then show ?thesis using full S1 may R card_subs [OF R] by (auto simp: subscribe_spec_def routing_invI)
    next
      case (Some r)
      then have R1: "routing s1 R" and r: "r < 256" "MsgMap s1 (unat m) = ridx r"
        and sub1: "subs_of s1 = (subs_of s)(m \<mapsto> pipes (subs_of s) m)"
        and nofull: "\<not> (subs_of s m = None \<and> card (dom (subs_of s)) = 256)"
        using S1 card_subs [OF R] by (auto simp: word_unat_eq_iff [of "RouteIdxTop s"])
      have pp: "pipes (subs_of s1) = pipes (subs_of s)" using sub1 by (auto simp: pipes_def fun_eq_iff)
      have len: "map (dPipeId \<circ> Dests s1) (R r) = pipes (subs_of s) m" "length (R r) \<le> 16"
        "Destinations (RoutingTbl s1 r) = of_nat (length (R r))"
        using subs_of_at [OF R1 m r] sub1 routingD(4) [OF R1 r(1)] by (auto simp: list_ok_def)
      have lenp: "length (pipes (subs_of s) m) = length (R r)" using arg_cong [OF len(1), of length] by simp
      have full16: "CFE_PLATFORM_SB_MAX_DEST_PER_PKT \<le> Destinations (RoutingTbl s1 r) \<longleftrightarrow> length (R r) = 16"
        using len(2,3) by (auto simp: CFE_PLATFORM_SB_MAX_DEST_PER_PKT_def word_le_nat_alt unat_of_nat)
      obtain blk s2 where blk: "CFE_SB_GetDestinationBlk s1 = (blk, s2)" by fastforce
      note S2 = dest_blk [OF R1 blk]
      have room: "pool_room sizeof_CFE_SB_DestinationD_t s \<longleftrightarrow> blk \<noteq> None"
        using S1 S2 by (auto simp: pool_room_def)
      show ?thesis
      proof (cases "length (R r) = 16 \<or> blk = None")
        case True
        have "length (R r) = 16 \<Longrightarrow> subs_of s1 = subs_of s"
          using lenp sub1 by (auto simp: pipes_def fun_upd_idem split: option.splits)
        then show ?thesis
          using True full Some S2 may R1 nofull lenp full16 blk room sub1 S1
          by (auto simp: subscribe_spec_def routing_invI)
      next
        case False
        then obtain a where a: "blk = Some a" by auto
        let ?s3 = "Subscribe_link r a p lim sc s2"
        have R2: "routing s2 R" and r2: "MsgMap s2 (unat m) = ridx r" and "length (R r) < 16"
          and p2: "p \<notin> set (map (dPipeId \<circ> Dests s2) (R r))" and pp2: "pipes (subs_of s2) = pipes (subs_of s)"
          using S2 r(2) False len new pp by auto
        then have R3: "routing ?s3 (R(r := a # R r))" and sub3: "subs_of ?s3 = (subs_of s)(m \<mapsto> p # pipes (subs_of s) m)"
          and pt3: "PipeTbl ?s3 = PipeTbl s"
          using S1 S2 a subscribe_link [OF R2 m r(1) r2, of p a _ lim sc] sub1 by auto
        obtain s4 where s4: "(if SubscriptionReporting ?s3 = CFE_SB_ENABLE \<and> sc = CFE_SB_GLOBAL
              then SubRprt_send c 0 m q p CFE_SB_SUBSCRIPTION_RPT_EID ?s3 else Some ?s3) = Some s4"
          and "routing s4 (R(r := a # R r))" "subs_of s4 = subs_of ?s3" "pipe_link \<circ> PipeTbl s4 = pipe_link \<circ> PipeTbl ?s3"
          using report [OF R3 fl] by blast
        then show ?thesis
          using False full Some may nofull lenp full16 blk room sub3 pt3 a
          by (auto simp: subscribe_spec_def routing_invI Let_def)
      qed
    qed
  qed
qed

section \<open>Unsubscribing\<close>

lemma dll_neighbours:
  assumes "dll D p (xs @ a # ys)"
  shows "dPrev (D a) = (if xs = [] then None else Some (last xs))" "dNext (D a) = (if ys = [] then None else Some (hd ys))"
proof -
  from assms obtain l m where xs: "dpath D None p xs m (Some a)" and a: "dPrev (D a) = m"
    and ys: "dpath D (Some a) (dNext (D a)) ys l None"
    by (auto simp: dll_def dpath_append)
  show "dPrev (D a) = (if xs = [] then None else Some (last xs))"
    using xs a by (induction xs rule: rev_induct) (auto simp: dpath_append)
  show "dNext (D a) = (if ys = [] then None else Some (hd ys))" using ys by (cases ys) auto
qed

definition Unsubscribe_drop :: "nat \<Rightarrow> addr \<Rightarrow> cfe_sb \<Rightarrow> cfe_sb" where
  "Unsubscribe_drop r a s = upd_Stat (\<lambda>t. t\<lparr>SubscriptionsInUse := SubscriptionsInUse t - 1\<rparr>)
     (upd_route r (\<lambda>e. e\<lparr>Destinations := Destinations e - 1\<rparr>)
       (snd (CFE_SB_PutDestinationBlk (Some a) (CFE_SB_RemoveDest r a s))))"

lemma find_split:
  "find P xs = Some a \<Longrightarrow> \<exists>ys zs. xs = ys @ a # zs \<and> P a \<and> (\<forall>y \<in> set ys. \<not> P y)"
proof (induction xs)
  case (Cons x xs)
  show ?case
  proof (cases "P x")
    case True
    then have "x # xs = [] @ a # xs \<and> P a" using Cons.prems by simp
    then show ?thesis by (metis empty_iff list.set(1))
  next
    case False
    then obtain ys zs where "xs = ys @ a # zs \<and> P a \<and> (\<forall>y \<in> set ys. \<not> P y)" using Cons by auto
    then have "x # xs = (x # ys) @ a # zs \<and> P a \<and> (\<forall>y \<in> set (x # ys). \<not> P y)" using False by simp
    then show ?thesis by blast
  qed
qed simp

lemma unsubscribe_loop:
  assumes "dpath (Dests s) pr q as l None" and "as \<noteq> []"
  shows "Unsubscribe_loop r p q s =
    Some (case find (\<lambda>a. dPipeId (Dests s a) = p) as of None \<Rightarrow> s | Some a \<Rightarrow> Unsubscribe_drop r a s)"
  using assms
proof (induction as arbitrary: pr q)
  case (Cons a as)
  show ?case
  proof (cases "dPipeId (Dests s a) = p")
    case True
    then show ?thesis
      using Cons.prems by (simp add: Unsubscribe_loop.simps Unsubscribe_drop_def Let_def split: prod.splits)
  next
    case False
    have path: "q = Some a" "dpath (Dests s) (Some a) (dNext (Dests s a)) as l None" using Cons.prems by auto
    have "dNext (Dests s a) = None \<longleftrightarrow> as = []" using path(2) by (cases as) auto
    then show ?thesis
      using Cons.IH [OF path(2)] False path(1) by (cases "as = []") (auto simp: Unsubscribe_loop.simps [of r p "Some a"])
  qed
qed simp

lemma unsubscribe_drop:
  assumes R: "routing s R" and m: "CFE_SB_IsValidMsgId m" and r: "r < 256" "MsgMap s (unat m) = ridx r"
    and a: "R r = xs @ a # ys"
  defines "s' \<equiv> Unsubscribe_drop r a s"
  shows "routing s' (R(r := xs @ ys))" and "subs_of s' = (subs_of s)(m \<mapsto> map (dPipeId \<circ> Dests s) (xs @ ys))"
    and "MsgMap s' = MsgMap s" and "Destinations (RoutingTbl s' r) = of_nat (length (xs @ ys))"
    and "SubscriptionReporting s' = SubscriptionReporting s"
proof -
  let ?d = "Dests s a"
  note lists = routingD(3) [OF R]
  have L: "dll (Dests s) (ListHeadPtr (RoutingTbl s r)) (xs @ a # ys)" "length (xs @ a # ys) \<le> 16"
    "Destinations (RoutingTbl s r) = of_nat (length (xs @ a # ys))"
    "distinct (map (dPipeId \<circ> Dests s) (xs @ a # ys))" "\<forall>b \<in> set (xs @ a # ys). \<exists>n. pool_live (Mem s) b = Some n \<and> 0 < n"
    using routingD(4) [OF R r(1)] a by (auto simp: list_ok_def)
  have dist: "distinct (xs @ a # ys)" using L(4) unfolding distinct_map by blast
  have self: "dPrev ?d \<noteq> Some a" "dNext ?d \<noteq> Some a" "dPrev ?d = dNext ?d \<Longrightarrow> dPrev ?d = None"
    using dll_neighbours [OF L(1)] dist by (auto split: if_splits dest: last_in_set hd_in_set)
  have nb: "dPrev ?d \<noteq> Some b" "dNext ?d \<noteq> Some b" if "b \<notin> set (xs @ a # ys)" for b
    using dll_neighbours [OF L(1)] that by (auto split: if_splits dest: last_in_set hd_in_set)
  obtain n where n: "pool_live (Mem s) a = Some n" "0 < n" using L(5) by auto
  have wf: "pool_wf (Mem s)" "PoolHdl s = PoolHandle (Mem s)" using routingD(1) [OF R] by (simp_all add: sb_sound_def)
  obtain p' where put: "CFE_ES_PutPoolBuf (PoolHdl s) a (Mem s) = (Inr n, p')"
    and live: "pool_live p' = (pool_live (Mem s))(a := None)" and wf': "pool_wf p'"
    using pool.free_ok [OF wf(1) n] wf(2) by auto
  have hd: "PoolHandle p' = PoolHandle (Mem s)" using pool_nextI(2) [OF put] by (simp add: pool_next_def)
  have s': "MsgMap s' = MsgMap s" "RouteIdxTop s' = RouteIdxTop s" "RouteIdxStack s' = RouteIdxStack s"
    "Mem s' = p'" "OS s' = OS s" "PoolHdl s' = PoolHdl s" "SubscriptionReporting s' = SubscriptionReporting s"
    "RoutingTbl s' = (RoutingTbl s)(r := (RoutingTbl s r)\<lparr>Destinations := Destinations (RoutingTbl s r) - 1,
       ListHeadPtr := (if dPrev ?d = None then dNext ?d else ListHeadPtr (RoutingTbl s r))\<rparr>)"
    using put n by (auto simp: s'_def Unsubscribe_drop_def CFE_SB_RemoveDest_def CFE_SB_PutDestinationBlk_def Let_def
        sb_upd_defs split: option.split)
  have D: "x \<noteq> a \<Longrightarrow> dNext (Dests s' x) = (if dPrev ?d = Some x then dNext ?d else dNext (Dests s x))"
    "x \<noteq> a \<Longrightarrow> dPrev (Dests s' x) = (if dNext ?d = Some x then dPrev ?d else dPrev (Dests s x))"
    "dPipeId (Dests s' x) = dPipeId (Dests s x)" for x
    using put n self by (auto simp: s'_def Unsubscribe_drop_def CFE_SB_RemoveDest_def CFE_SB_PutDestinationBlk_def Let_def
        sb_upd_defs split: option.split)
  show "MsgMap s' = MsgMap s" "SubscriptionReporting s' = SubscriptionReporting s" by (rule s')+
  show dest: "Destinations (RoutingTbl s' r) = of_nat (length (xs @ ys))" by (simp add: s' L(3))
  have head: "ListHeadPtr (RoutingTbl s' r) = (if xs = [] then dNext ?d else ListHeadPtr (RoutingTbl s r))"
    using dll_neighbours [OF L(1)] by (simp add: s')
  have dl: "dll (Dests s') (ListHeadPtr (RoutingTbl s' r)) (xs @ ys)"
    unfolding head by (rule dll_remove(1) [OF L(1) dist D(1,2)])
  have same: "dPipeId \<circ> Dests s' = dPipeId \<circ> Dests s" by (simp add: fun_eq_iff D)
  have new: "list_ok (RoutingTbl s' r) (Dests s') (pool_live (Mem s')) (xs @ ys)"
    using dl dest L dist unfolding list_ok_def same by (auto simp: s' live)
  have "lists_ok (MsgMap s') (RoutingTbl s') (Dests s') (pool_live (Mem s')) (R(r := xs @ ys))"
    unfolding s'(1)
  proof (rule lists_change [where rt' = "RoutingTbl s'", OF lists r(1) valid_msg [OF m] r(2) new])
    fix q b assume q: "q < 256" "q \<noteq> r" "b \<in> set (R q)"
    then have b: "b \<notin> set (xs @ a # ys)" using lists_disjoint [OF lists q(1) r(1)] a by auto
    then show "dest_link (Dests s' b) = dest_link (Dests s b) \<and> pool_live (Mem s') b = pool_live (Mem s) b
        \<and> b \<notin> set (xs @ ys)"
      using nb [OF b] D [of b] by (auto simp: dest_link_def s' live)
  qed (simp_all add: s')
  then show R': "routing s' (R(r := xs @ ys))" using R s' wf' hd by (simp add: routing_def sb_sound_def)
  show "subs_of s' = (subs_of s)(m \<mapsto> map (dPipeId \<circ> Dests s) (xs @ ys))"
    using subs_change [OF R R' m r s'(1)] D(3) by (simp add: same)
qed


text \<open>The last subscription of a route: the index goes back on the stack, the map entry is cleared.\<close>

lemma release_route:
  fixes f :: "CFE_SB_Stats \<Rightarrow> CFE_SB_Stats"
  assumes R: "routing s R" and m: "CFE_SB_IsValidMsgId m" and r: "r < 256" "MsgMap s (unat m) = ridx r" and e: "R r = []"
  defines "s' \<equiv> CFE_SB_SetRoutingTblIdx (CFE_SB_ConvertMsgIdtoMsgKey m) CFE_SB_INVALID_ROUTE_IDX
      (CFE_SB_RouteIdxPush_Unsync (ridx r) (upd_Stat f s))"
  shows "routing s' R" and "subs_of s' = (subs_of s)(m := None)"
proof -
  note idx = idx_push [OF routingD(2) [OF R] valid_msg [OF m]]
  have tp: "0 < unat (RouteIdxTop s)" using idx(1) r by simp
  then have t: "RouteIdxTop s > 0" "unat (RouteIdxTop s - 1) = unat (RouteIdxTop s) - 1"
    by (auto simp: word_less_nat_alt unat_sub_if' Suc_le_eq)
  have s': "MsgMap s' = (MsgMap s)(unat m := 0)" "RouteIdxTop s' = RouteIdxTop s - 1"
    "RouteIdxStack s' = (RouteIdxStack s)(unat (RouteIdxTop s) - 1 := ridx r)" "RoutingTbl s' = RoutingTbl s"
    "Dests s' = Dests s" "Mem s' = Mem s" "OS s' = OS s" "PoolHdl s' = PoolHdl s"
    using t by (auto simp: s'_def CFE_SB_SetRoutingTblIdx_def CFE_SB_RouteIdxPush_Unsync_def Let_def sb_upd_defs
        CFE_SB_INVALID_ROUTE_IDX_def)
  have "idx_ok (MsgMap s') (unat (RouteIdxTop s')) (RouteIdxStack s')" using idx(2) r s' t by simp
  moreover have "lists_ok (MsgMap s') (RoutingTbl s') (Dests s') (pool_live (Mem s')) R"
    using lists_unmap [OF routingD(3) [OF R] r e] s' by simp
  ultimately show R': "routing s' R" using R s' by (simp add: routing_def sb_sound_def)
  show "subs_of s' = (subs_of s)(m := None)"
  proof (rule ext)
    fix n
    show "subs_of s' n = ((subs_of s)(m := None)) n"
    proof (cases "n = m")
      case False
      then have "unat n \<noteq> unat m" by (simp add: word_unat_eq_iff)
      then show ?thesis using False s' by (simp add: subs_of_def)
    qed (use s' in \<open>simp add: subs_of_def CFE_SB_IsValidRouteIdx_def\<close>)
  qed
qed


definition unsubscribe_spec :: "bool \<Rightarrow> u16 \<Rightarrow> u8 \<Rightarrow> (u16 \<rightharpoonup> u8 list) \<Rightarrow> CFE_Status \<times> (u16 \<rightharpoonup> u8 list)" where
  "unsubscribe_spec allowed m p S =
     (if \<not> allowed then (CFE_SB_BAD_ARGUMENT, S)
      else (CFE_SUCCESS, if S m = None then S
              else let ps = remove1 p (pipes S m) in S(m := if ps = [] then None else Some ps)))"

definition may_unsubscribe :: "u32 \<Rightarrow> u16 \<Rightarrow> u8 \<Rightarrow> u8 \<Rightarrow> cfe_sb \<Rightarrow> bool" where
  "may_unsubscribe app m p sc s \<longleftrightarrow> CFE_SB_GetPipeIdx p s \<noteq> CFE_SB_INVALID_PIPE
     \<and> pAppId (PipeTbl s (unat (CFE_SB_GetPipeIdx p s))) = app \<and> CFE_SB_IsValidMsgId m
     \<and> CFE_SB_ValidatePipeId p s \<and> sc \<le> 1"

lemma validate_lock [simp]: "CFE_SB_ValidatePipeId p (CFE_SB_LockSharedData s) = CFE_SB_ValidatePipeId p s"
  by (simp add: CFE_SB_ValidatePipeId_def)

lemma UnsubscribeFull_refused:
  assumes "\<not> may_unsubscribe app m p sc s"
  shows "\<exists>ev. CFE_SB_UnsubscribeFull c m p sc app s =
    Some (CFE_SB_BAD_ARGUMENT, SendEvent ev (CFE_SB_UnlockSharedData (CFE_SB_LockSharedData s)))"
proof -
  consider "CFE_SB_GetPipeIdx p s = CFE_SB_INVALID_PIPE"
    | "CFE_SB_GetPipeIdx p s \<noteq> CFE_SB_INVALID_PIPE" "pAppId (PipeTbl s (unat (CFE_SB_GetPipeIdx p s))) \<noteq> app"
    | "CFE_SB_GetPipeIdx p s \<noteq> CFE_SB_INVALID_PIPE" "pAppId (PipeTbl s (unat (CFE_SB_GetPipeIdx p s))) = app"
      "\<not> CFE_SB_IsValidMsgId m \<or> \<not> CFE_SB_ValidatePipeId p s \<or> 1 < sc"
    using assms by (auto simp: may_unsubscribe_def not_le)
  then show ?thesis
    by cases (simp only: CFE_SB_UnsubscribeFull_def Let_def pipe_idx_lock validate_lock sb_fields if_True if_False
        simp_thms; blast)+
qed

lemma UnsubscribeFull_allowed:
  assumes "may_unsubscribe app m p sc s"
  shows "CFE_SB_UnsubscribeFull c m p sc app s =
    (let s = CFE_SB_LockSharedData s; i = MsgMap s (unat m); r = unat (i - 1)
     in if \<not> CFE_SB_IsValidRouteIdx i
        then Some (CFE_SUCCESS, SendEvent CFE_SB_UNSUB_NO_SUBS_EID (CFE_SB_UnlockSharedData s))
        else do { s \<leftarrow> Unsubscribe_loop r p (ListHeadPtr (RoutingTbl s r)) s;
                  s \<leftarrow> (if Destinations (RoutingTbl s r) = 0
                        then let s = CFE_SB_SetRoutingTblIdx (CFE_SB_ConvertMsgIdtoMsgKey m) CFE_SB_INVALID_ROUTE_IDX
                                       (CFE_SB_RouteIdxPush_Unsync i (upd_Stat (\<lambda>t. t\<lparr>MsgIdsInUse := MsgIdsInUse t - 1\<rparr>) s))
                             in if SubscriptionReporting s = CFE_SB_ENABLE \<and> sc = CFE_SB_GLOBAL
                                then SubRprt_send c 1 m \<lparr>Priority = 0, Reliability = 0\<rparr> p CFE_SB_UNSUBSCRIPTION_RPT_EID s
                                else Some s
                        else Some s);
                  Some (CFE_SUCCESS, SendEvent CFE_SB_SUBSCRIPTION_REMOVED_EID (CFE_SB_UnlockSharedData s)) })"
proof -
  have ok: "CFE_SB_GetPipeIdx p s \<noteq> CFE_SB_INVALID_PIPE" "pAppId (PipeTbl s (unat (CFE_SB_GetPipeIdx p s))) = app"
    "CFE_SB_IsValidMsgId m" "CFE_SB_ValidatePipeId p s" "\<not> 1 < sc"
    using assms by (auto simp: may_unsubscribe_def)
  show ?thesis
    by (simp only: CFE_SB_UnsubscribeFull_def Let_def pipe_idx_lock validate_lock sb_fields ok if_False
        not_True_eq_False simp_thms routing_tbl_idx route_ptr)
qed

lemma UnsubscribeFull_spec:
  assumes R: "routing s R" and fl: "flag_index (TaskGetId c) \<noteq> None" and ne: "subs_of s m \<noteq> Some []"
  shows "\<exists>st s'. CFE_SB_UnsubscribeFull c m p sc app s = Some (st, s') \<and> routing_inv s'
    \<and> (st, subs_of s') = unsubscribe_spec (may_unsubscribe app m p sc s) m p (subs_of s)"
proof (cases "may_unsubscribe app m p sc s")
  case False
  then show ?thesis
    using UnsubscribeFull_refused [OF False, of c] R by (auto simp: unsubscribe_spec_def routing_invI)
next
  case may: True
  let ?s = "CFE_SB_LockSharedData s"
  have m: "CFE_SB_IsValidMsgId m" using may by (auto simp: may_unsubscribe_def)
  have Rl: "routing ?s R" using R by simp
  show ?thesis
  proof (cases "CFE_SB_IsValidRouteIdx (MsgMap s (unat m))")
    case False
    then have "subs_of s m = None" by (simp add: subs_of_def)
    then show ?thesis
      using UnsubscribeFull_allowed [OF may, of c] False R may by (auto simp: unsubscribe_spec_def Let_def routing_invI)
  next
    case True
    define r where "r = unat (MsgMap s (unat m) - 1)"
    have r: "r < 256" "MsgMap ?s (unat m) = ridx r" using valid_idx [OF True] by (auto simp: r_def)
    have S: "subs_of s m = Some (map (dPipeId \<circ> Dests s) (R r))" using subs_of_at [OF Rl m r] by simp
    have L: "dll (Dests s) (ListHeadPtr (RoutingTbl s r)) (R r)" "distinct (map (dPipeId \<circ> Dests s) (R r))"
      "Destinations (RoutingTbl s r) = of_nat (length (R r))" "length (R r) \<le> 16"
      using routingD(4) [OF R r(1)] by (auto simp: list_ok_def)
    have "R r \<noteq> []" using ne S by auto
    let ?x = "find (\<lambda>a. dPipeId (Dests s a) = p) (R r)"
    obtain s1 where loop: "Unsubscribe_loop r p (ListHeadPtr (RoutingTbl s r)) ?s = Some s1"
      and s1: "s1 = (case ?x of None \<Rightarrow> ?s | Some a \<Rightarrow> Unsubscribe_drop r a ?s)"
      using L(1) \<open>R r \<noteq> []\<close> unsubscribe_loop [of ?s] by (auto simp: dll_def)
    have "\<exists>R1. routing s1 R1 \<and> MsgMap s1 (unat m) = ridx r
        \<and> subs_of s1 = (subs_of s)(m \<mapsto> remove1 p (pipes (subs_of s) m))"
    proof (cases ?x)
      case None
      then have "p \<notin> set (pipes (subs_of s) m)" using S by (auto simp: pipes_def find_None_iff)
      then show ?thesis
        using None s1 Rl r S by (auto simp: pipes_def remove1_idem fun_upd_idem intro!: exI [of _ R])
    next
      case (Some a)
      obtain xs ys where xs: "R r = xs @ a # ys" "dPipeId (Dests s a) = p" "\<forall>y \<in> set xs. dPipeId (Dests s y) \<noteq> p"
        using find_split [OF Some] by blast
      then have "remove1 p (pipes (subs_of s) m) = map (dPipeId \<circ> Dests s) (xs @ ys)"
        using S by (auto simp: pipes_def remove1_append)
      then show ?thesis
        using unsubscribe_drop [OF Rl m r xs(1)] s1 Some r by auto
    qed
    then obtain R1 where R1: "routing s1 R1" and r1: "MsgMap s1 (unat m) = ridx r"
      and sub1: "subs_of s1 = (subs_of s)(m \<mapsto> remove1 p (pipes (subs_of s) m))" by blast
    have ps: "remove1 p (pipes (subs_of s) m) = map (dPipeId \<circ> Dests s1) (R1 r)"
      using subs_of_at [OF R1 m r(1) r1] sub1 by simp
    have "Destinations (RoutingTbl s1 r) = of_nat (length (R1 r))" "length (R1 r) \<le> 16"
      using routingD(4) [OF R1 r(1)] by (auto simp: list_ok_def)
    then have dest: "Destinations (RoutingTbl s1 r) = 0 \<longleftrightarrow> R1 r = []"
      by (auto simp: word_unat_eq_iff unat_of_nat)
    note full = UnsubscribeFull_allowed [OF may, of c] loop r True may S sub1 ps dest
    show ?thesis
    proof (cases "R1 r = []")
      case False
      then show ?thesis using full R1 by (auto simp: unsubscribe_spec_def Let_def routing_invI r_def [symmetric])
    next
      case e: True
      let ?s2 = "CFE_SB_SetRoutingTblIdx (CFE_SB_ConvertMsgIdtoMsgKey m) CFE_SB_INVALID_ROUTE_IDX
        (CFE_SB_RouteIdxPush_Unsync (ridx r) (upd_Stat (\<lambda>t. t\<lparr>MsgIdsInUse := MsgIdsInUse t - 1\<rparr>) s1))"
      note rel = release_route [OF R1 m r(1) r1 e, of "\<lambda>t. t\<lparr>MsgIdsInUse := MsgIdsInUse t - 1\<rparr>"]
      obtain s3 where "(if SubscriptionReporting ?s2 = CFE_SB_ENABLE \<and> sc = CFE_SB_GLOBAL
            then SubRprt_send c 1 m \<lparr>Priority = 0, Reliability = 0\<rparr> p CFE_SB_UNSUBSCRIPTION_RPT_EID ?s2 else Some ?s2) = Some s3"
        "routing s3 R1" "subs_of s3 = subs_of ?s2"
        using report [OF rel(1) fl] by blast
      then show ?thesis using full e rel(2) by (auto simp: unsubscribe_spec_def Let_def routing_invI r_def [symmetric])
    qed
  qed
qed

section \<open>The registry of subscriptions as an interface\<close>

locale subscription_registry =
  fixes sub :: "'c \<Rightarrow> u16 \<Rightarrow> u8 \<Rightarrow> 's \<Rightarrow> (CFE_Status \<times> 's) option"
    and unsub :: "'c \<Rightarrow> u16 \<Rightarrow> u8 \<Rightarrow> 's \<Rightarrow> (CFE_Status \<times> 's) option"
    and view :: "'s \<Rightarrow> u16 \<rightharpoonup> u8 list"
    and invar :: "'c \<Rightarrow> 's \<Rightarrow> bool"
    and may_sub :: "'c \<Rightarrow> u16 \<Rightarrow> u8 \<Rightarrow> 's \<Rightarrow> bool"
    and may_unsub :: "'c \<Rightarrow> u16 \<Rightarrow> u8 \<Rightarrow> 's \<Rightarrow> bool"
    and room :: "'s \<Rightarrow> bool"
  assumes sub_spec: "invar c s \<Longrightarrow> \<exists>st s'. sub c m p s = Some (st, s') \<and> invar c s'
      \<and> (st, view s') = subscribe_spec (may_sub c m p s) (room s) m p (view s)
      \<and> (\<forall>n q. may_unsub c n q s' = may_unsub c n q s)"
    and unsub_spec: "invar c s \<Longrightarrow> view s m \<noteq> Some [] \<Longrightarrow> \<exists>st s'. unsub c m p s = Some (st, s') \<and> invar c s'
      \<and> (st, view s') = unsubscribe_spec (may_unsub c m p s) m p (view s)"
begin

lemma sub_isolated: "invar c s \<Longrightarrow> sub c m p s = Some (st, s') \<Longrightarrow> n \<noteq> m \<Longrightarrow> view s' n = view s n"
  using sub_spec [of c s m p] by (auto simp: subscribe_spec_def split: if_splits)

lemma sub_twice:
  assumes "invar c s" and "may_sub c m p s" and "p \<in> set (pipes (view s) m)"
  shows "\<exists>s'. sub c m p s = Some (CFE_SUCCESS, s') \<and> view s' = view s"
  using sub_spec [OF assms(1), of m p] assms by (auto simp: subscribe_spec_def)

lemma sub_success:
  assumes "invar c s" and "sub c m p s = Some (CFE_SUCCESS, s')" and "p \<notin> set (pipes (view s) m)"
  shows "view s' = (view s)(m \<mapsto> p # pipes (view s) m)" and "invar c s'" and "may_unsub c n q s' = may_unsub c n q s"
proof -
  from sub_spec [OF assms(1), of m p] assms(2)
  have spec: "(CFE_SUCCESS, view s') = subscribe_spec (may_sub c m p s) (room s) m p (view s)" and "invar c s'"
    and may: "\<forall>n q. may_unsub c n q s' = may_unsub c n q s" by auto
  show "view s' = (view s)(m \<mapsto> p # pipes (view s) m)" using spec assms(3) by (simp add: subscribe_spec_def split: if_splits)
  show "invar c s'" by fact
  show "may_unsub c n q s' = may_unsub c n q s" using may by blast
qed

lemma round_trip:
  assumes inv: "invar c s" and sub: "sub c m p s = Some (CFE_SUCCESS, s1)" and new: "p \<notin> set (pipes (view s) m)"
    and may: "may_unsub c m p s" and ne: "view s m \<noteq> Some []"
  shows "\<exists>s2. unsub c m p s1 = Some (CFE_SUCCESS, s2) \<and> view s2 = view s \<and> invar c s2"
proof -
  note S = sub_success [OF inv sub new]
  have "pipes (view s) m = [] \<longleftrightarrow> view s m = None" using ne by (auto simp: pipes_def split: option.splits)
  then show ?thesis
    using unsub_spec [OF S(2), of m p] S(1,3) may
    by (auto simp: unsubscribe_spec_def pipes_def fun_upd_idem split: option.splits)
qed

end

lemma link_GetPipeIdx:
  assumes "pipe_link \<circ> PipeTbl s' = pipe_link \<circ> PipeTbl s"
  shows "CFE_SB_GetPipeIdx p s' = CFE_SB_GetPipeIdx p s" "CFE_SB_ValidatePipeId p s' = CFE_SB_ValidatePipeId p s"
    "pAppId (PipeTbl s' i) = pAppId (PipeTbl s i)"
proof -
  have L: "InUse (PipeTbl s' i) = InUse (PipeTbl s i)" "PipeId (PipeTbl s' i) = PipeId (PipeTbl s i)"
    "pAppId (PipeTbl s' i) = pAppId (PipeTbl s i)" for i
    using assms by (auto simp: fun_eq_iff pipe_link_def)
  have "GetPipeIdx_loop n i p (PipeTbl s') = GetPipeIdx_loop n i p (PipeTbl s)" for n i
    by (induction n arbitrary: i) (simp_all add: L)
  then show "CFE_SB_GetPipeIdx p s' = CFE_SB_GetPipeIdx p s" by (simp add: CFE_SB_GetPipeIdx_def)
  show "CFE_SB_ValidatePipeId p s' = CFE_SB_ValidatePipeId p s" by (simp add: CFE_SB_ValidatePipeId_def L)
  show "pAppId (PipeTbl s' i) = pAppId (PipeTbl s i)" by (rule L)
qed

interpretation reg: subscription_registry CFE_SB_Subscribe CFE_SB_Unsubscribe subs_of
  "\<lambda>c s. routing_inv s \<and> flag_index (TaskGetId c) \<noteq> None"
  "\<lambda>c m p s. may_subscribe c m p CFE_SB_GLOBAL s" "\<lambda>c m p s. may_unsubscribe (ctxAppId c) m p CFE_SB_GLOBAL s"
  "pool_room sizeof_CFE_SB_DestinationD_t"
proof (unfold_locales, goal_cases)
  case (1 c s m p)
  then obtain R where R: "routing s R" by (auto simp: routing_inv_def)
  from SubscribeFull_spec [OF R, of c m p "Default_Qos s" CFE_PLATFORM_SB_DEFAULT_MSG_LIMIT CFE_SB_GLOBAL] 1
  obtain st s' where S: "CFE_SB_Subscribe c m p s = Some (st, s')" "routing_inv s'"
    "(st, subs_of s') = subscribe_spec (may_subscribe c m p CFE_SB_GLOBAL s) (pool_room sizeof_CFE_SB_DestinationD_t s) m p (subs_of s)"
    and link: "pipe_link \<circ> PipeTbl s' = pipe_link \<circ> PipeTbl s"
    by (auto simp: CFE_SB_Subscribe_def)
  have "may_unsubscribe (ctxAppId c) n q CFE_SB_GLOBAL s' = may_unsubscribe (ctxAppId c) n q CFE_SB_GLOBAL s" for n q
    by (simp only: may_unsubscribe_def link_GetPipeIdx [OF link])
  with S 1 show ?case by blast
next
  case (2 c s m p)
  then obtain R where R: "routing s R" by (auto simp: routing_inv_def)
  from UnsubscribeFull_spec [OF R, of c m p CFE_SB_GLOBAL "ctxAppId c"] 2
  show ?case by (auto simp: CFE_SB_Unsubscribe_def)
qed

section \<open>The initial state\<close>

lemma init_routing:
  assumes "sb_sound s" and "MsgMap s = MsgMap i" "RouteIdxTop s = RouteIdxTop i" "RouteIdxStack s = RouteIdxStack i"
    "RoutingTbl s = RoutingTbl i"
    and init: "i = CFE_SB_InitIdxStack (CFE_SB_InitRoutingTbl (CFE_SB_InitMsgMap j))"
  shows "routing s (\<lambda>_. [])" and "subs_of s = Map.empty"
proof -
  have M: "MsgMap s k = 0" if "k < 8192" for k
    using assms that by (simp add: CFE_SB_InitIdxStack_def CFE_SB_InitRoutingTbl_def CFE_SB_InitMsgMap_def
        CFE_SB_INVALID_ROUTE_IDX_def)
  have stk: "RouteIdxStack s k = ridx k" if "k < 256" for k
    using assms that by (simp add: CFE_SB_InitIdxStack_def CFE_SB_ValueToRouteIdx_def ridx_def)
  have T: "RouteIdxTop s = 0" "r < 256 \<Longrightarrow> ListHeadPtr (RoutingTbl s r) = None \<and> Destinations (RoutingTbl s r) = 0" for r
    using assms by (simp_all add: CFE_SB_InitIdxStack_def CFE_SB_InitRoutingTbl_def)
  have "idx_ok (MsgMap s) 0 (RouteIdxStack s)"
    using M stk by (auto simp: idx_ok_def inj_on_def)
  then show "routing s (\<lambda>_. [])"
    using assms(1) M T by (simp add: routing_def lists_ok_def list_ok_def)
  show "subs_of s = Map.empty"
    using M valid_msg by (auto simp: subs_of_def fun_eq_iff CFE_SB_IsValidRouteIdx_def)
qed

lemma EarlyInit_routing:
  assumes "CFE_SB_EarlyInit OS_SUCCESS Data mem s = (Inr CFE_SUCCESS, s')"
    and "pool_args_ok Data CFE_PLATFORM_SB_BUF_MEMORY_BYTES CFE_SB_MemPoolDefSize CFE_ES_NO_MUTEX mem"
    and "queues_wf (OS s)"
  shows "routing s' (\<lambda>_. [])" and "subs_of s' = Map.empty"
proof -
  have "sb_sound s'" using EarlyInit_sound [OF assms] by simp
  moreover obtain j where "MsgMap s' = MsgMap (CFE_SB_InitIdxStack (CFE_SB_InitRoutingTbl (CFE_SB_InitMsgMap j)))"
    "RouteIdxTop s' = RouteIdxTop (CFE_SB_InitIdxStack (CFE_SB_InitRoutingTbl (CFE_SB_InitMsgMap j)))"
    "RouteIdxStack s' = RouteIdxStack (CFE_SB_InitIdxStack (CFE_SB_InitRoutingTbl (CFE_SB_InitMsgMap j)))"
    "RoutingTbl s' = RoutingTbl (CFE_SB_InitIdxStack (CFE_SB_InitRoutingTbl (CFE_SB_InitMsgMap j)))"
    using assms(1) by (auto simp: CFE_SB_EarlyInit_def Let_def split: prod.splits if_splits)
  ultimately show "routing s' (\<lambda>_. [])" and "subs_of s' = Map.empty" using init_routing by blast+
qed

lemma routing_cong:
  assumes "routing s R" and "sb_sound s'" and "MsgMap s' = MsgMap s" "RouteIdxTop s' = RouteIdxTop s"
    "RouteIdxStack s' = RouteIdxStack s" "RoutingTbl s' = RoutingTbl s" "Dests s' = Dests s"
    "pool_live (Mem s') = pool_live (Mem s)"
  shows "routing s' R" and "subs_of s' = subs_of s"
  using assms by (simp add: routing_def) (rule ext, simp add: subs_of_def assms)

section \<open>Properties\<close>

text \<open>The bus of the witnesses with one pipe, owned by the application of \<open>demo_ctx\<close>.\<close>

definition demo_reg :: cfe_sb where
  "demo_reg = upd_pipe 0 (\<lambda>p. p\<lparr>InUse := CFE_SB_IN_USE, PipeId := 0, pAppId := 1\<rparr>) demo_sb"

lemma demo_reg_routing: "routing demo_reg (\<lambda>_. [])" "subs_of demo_reg = Map.empty"
proof -
  have "sb_sound demo_sb" using EarlyInit_sound [OF demo_sb_init demo_sb_args demo_zero_queues] by simp
  then have "sb_sound demo_reg" by (simp add: demo_reg_def)
  then show "routing demo_reg (\<lambda>_. [])" "subs_of demo_reg = Map.empty"
    using EarlyInit_routing [OF demo_sb_init demo_sb_args demo_zero_queues] routing_cong [of demo_sb _ demo_reg]
    by (auto simp: demo_reg_def upd_pipe_def)
qed

lemma demo_flag: "flag_index (TaskGetId demo_ctx) \<noteq> None"
proof -
  have "flag_index 0x10001 = Some 1"
    by (simp add: flag_index_def OS_ConvertToArrayIndex_def OS_GetMaxForObjectType_def OS_OBJECT_INDEX_MASK_def
        CFE_PLATFORM_ES_MAX_APPLICATIONS_def Let_def)
  then show ?thesis by (simp add: demo_ctx_def)
qed

lemma demo_may: "may_subscribe demo_ctx 0x0801 0 CFE_SB_GLOBAL demo_reg" "may_unsubscribe (ctxAppId demo_ctx) 0x0801 0 CFE_SB_GLOBAL demo_reg"
proof -
  have idx: "CFE_SB_GetPipeIdx 0 demo_reg = 0"
    by (simp add: CFE_SB_GetPipeIdx_def demo_reg_def upd_pipe_def CFE_SB_IN_USE_def eval_nat_numeral)
  show "may_subscribe demo_ctx 0x0801 0 CFE_SB_GLOBAL demo_reg"
    "may_unsubscribe (ctxAppId demo_ctx) 0x0801 0 CFE_SB_GLOBAL demo_reg"
    by (simp_all add: may_subscribe_def may_unsubscribe_def idx)
      (simp_all add: demo_reg_def upd_pipe_def CFE_SB_INVALID_PIPE_def ctxAppId_def demo_ctx_def CFE_SB_IsValidMsgId_def
        CFE_PLATFORM_SB_HIGHEST_VALID_MSGID_def CFE_SB_INVALID_MSG_ID_def CFE_SB_GLOBAL_def CFE_SB_ValidatePipeId_def
        CFE_SB_IN_USE_def CFE_SB_NOT_IN_USE_def)
qed

lemma demo_room: "pool_room sizeof_CFE_SB_DestinationD_t demo_reg"
proof -
  have "PoolHdl demo_reg = PoolHandle (Mem demo_reg)" using routingD(1) [OF demo_reg_routing(1)] by (simp add: sb_sound_def)
  moreover have "Mem demo_reg = projr (CFE_ES_PoolCreateEx 0x10000 CFE_PLATFORM_SB_BUF_MEMORY_BYTES 17
      (Some CFE_SB_MemPoolDefSize) CFE_ES_NO_MUTEX demo_mem)" (is "_ = ?p")
    using PoolCreateEx_wf [OF demo_sb_args]
    by (auto simp: demo_reg_def upd_pipe_def demo_sb_def CFE_SB_EarlyInit_def CFE_SB_InitBuffers_def Let_def
        CFE_SB_MemPoolDefSize_def CFE_SB_InitIdxStack_def CFE_SB_InitRoutingTbl_def CFE_SB_InitMsgMap_def
        CFE_SB_InitPipeTbl_def)
  moreover have "\<not> isl (fst (CFE_ES_GetPoolBuf 0x10000 20 ?p))" "PoolHandle ?p = 0x10000" by code_simp+
  ultimately show ?thesis by (simp add: pool_room_def sizeof_CFE_SB_DestinationD_t_def)
qed


text \<open>
  C18: \<^verbatim>\<open>CFE_SB_SubscribeFull\<close> implements the subscription registry.  In every state with a sound routing structure
  it returns, keeps the structure sound, and its status and its effect on the subscriptions are those of
  \<open>subscribe_spec\<close>: a caller who may not subscribe is refused; a second subscription is accepted and ignored; a
  257th identifier and a 17th pipe are refused with their own status; when the pool has no block left the
  identifier keeps its route without the new pipe; otherwise exactly the pipe is added at the head of the
  list of its identifier.  Reports sent on the way do not disturb this.
\<close>

theorem CFE_SB_SubscribeFull_refines:
  assumes "routing_inv s" and "flag_index (TaskGetId c) \<noteq> None"
  shows "\<exists>st s'. CFE_SB_SubscribeFull c m p q lim sc s = Some (st, s') \<and> routing_inv s'
    \<and> (st, subs_of s') = subscribe_spec (may_subscribe c m p sc s) (pool_room sizeof_CFE_SB_DestinationD_t s) m p (subs_of s)"
  using SubscribeFull_spec [OF _ assms(2)] assms(1) by (fastforce simp: routing_inv_def)

theorem CFE_SB_SubscribeFull_refines_witness:
  "\<exists>s'. CFE_SB_SubscribeFull demo_ctx 0x0801 0 \<lparr>Priority = 0, Reliability = 0\<rparr> 4 CFE_SB_GLOBAL demo_reg
     = Some (CFE_SUCCESS, s') \<and> subs_of s' = [0x0801 \<mapsto> [0]]"
  using CFE_SB_SubscribeFull_refines [OF routing_invI [OF demo_reg_routing(1)] demo_flag,
      of "0x0801" 0 "\<lparr>Priority = 0, Reliability = 0\<rparr>" 4 CFE_SB_GLOBAL] demo_may demo_room
  by (auto simp: subscribe_spec_def demo_reg_routing(2) pipes_def)



text \<open>
  C20: subscribing and unsubscribing are inverse: after a successful new subscription the same caller can
  unsubscribe, with success, and all subscriptions of the bus are as before.
\<close>

theorem CFE_SB_Subscribe_Unsubscribe:
  assumes "routing_inv s" and "flag_index (TaskGetId c) \<noteq> None"
    and "CFE_SB_Subscribe c m p s = Some (CFE_SUCCESS, s1)" and "p \<notin> set (pipes (subs_of s) m)"
    and "may_unsubscribe (ctxAppId c) m p CFE_SB_GLOBAL s" and "subs_of s m \<noteq> Some []"
  shows "\<exists>s2. CFE_SB_Unsubscribe c m p s1 = Some (CFE_SUCCESS, s2) \<and> subs_of s2 = subs_of s \<and> routing_inv s2"
  using reg.round_trip [of s c m p s1] assms by blast

theorem CFE_SB_Subscribe_Unsubscribe_witness:
  "\<exists>s1 s2. CFE_SB_Subscribe demo_ctx 0x0801 0 demo_reg = Some (CFE_SUCCESS, s1)
     \<and> CFE_SB_Unsubscribe demo_ctx 0x0801 0 s1 = Some (CFE_SUCCESS, s2) \<and> subs_of s2 = Map.empty"
proof -
  obtain s1 where s1: "CFE_SB_Subscribe demo_ctx 0x0801 0 demo_reg = Some (CFE_SUCCESS, s1)"
    using reg.sub_spec [of demo_reg demo_ctx "0x0801" 0] routing_invI [OF demo_reg_routing(1)] demo_flag demo_may(1) demo_room
    by (auto simp: subscribe_spec_def demo_reg_routing(2) pipes_def)
  show ?thesis
    using CFE_SB_Subscribe_Unsubscribe [OF routing_invI [OF demo_reg_routing(1)] demo_flag s1 _ demo_may(2)] s1
    by (auto simp: demo_reg_routing(2) pipes_def)
qed

text \<open>
  A subscription that fails because the pool is exhausted leaves a trap.  The first subscription to an
  identifier then leaves a route with an empty list, and a later unsubscription of that identifier by any
  permitted caller follows the head of that list, a null pointer, instead of finding no subscription.
\<close>

theorem CFE_SB_Unsubscribe_null:
  assumes "routing_inv s" and "flag_index (TaskGetId c) \<noteq> None" and "subs_of s m = None"
    and "CFE_SB_SubscribeFull c m p q lim sc s = Some (CFE_SB_BUF_ALOC_ERR, s')"
    and "may_unsubscribe app m p' sc' s'"
  shows "CFE_SB_UnsubscribeFull c' m p' sc' app s' = None"
proof -
  obtain R where "routing s R" using assms(1) by (auto simp: routing_inv_def)
  from SubscribeFull_spec [OF this assms(2), of m p q lim sc] assms(4)
  obtain R' where R': "routing s' R'"
    and spec: "(CFE_SB_BUF_ALOC_ERR, subs_of s') = subscribe_spec (may_subscribe c m p sc s)
      (pool_room sizeof_CFE_SB_DestinationD_t s) m p (subs_of s)"
    by (auto simp: routing_inv_def)
  have S': "subs_of s' m = Some []" using spec assms(3) by (auto simp: subscribe_spec_def pipes_def split: if_splits)
  define r where "r = unat (MsgMap s' (unat m) - 1)"
  have v: "CFE_SB_IsValidMsgId m" "CFE_SB_IsValidRouteIdx (MsgMap s' (unat m))" using S' by (auto simp: subs_of_def split: if_splits)
  then have r: "r < 256" "MsgMap s' (unat m) = ridx r" using valid_idx by (auto simp: r_def)
  have "R' r = []" using subs_of_at [OF R' v(1) r] S' by simp
  then have "ListHeadPtr (RoutingTbl s' r) = None" using routingD(4) [OF R' r(1)] by (simp add: list_ok_def)
  then show ?thesis
    using UnsubscribeFull_allowed [OF assms(5), of c'] v(2) by (simp add: Let_def r_def Unsubscribe_loop.simps)
qed


text \<open>The same bus on a partition that holds no block at all.\<close>

definition demo_small :: Pool_t where
  "demo_small = projr (CFE_ES_PoolCreateEx 0x10000 328 1 (Some [64]) CFE_ES_NO_MUTEX demo_mem)"

definition demo_full :: cfe_sb where
  "demo_full = demo_reg\<lparr>Mem := demo_small, PoolHdl := PoolHandle demo_small\<rparr>"

lemma demo_full_routing: "routing demo_full (\<lambda>_. [])" "subs_of demo_full = Map.empty"
proof -
  have "pool_args_ok 0x10000 328 [64] CFE_ES_NO_MUTEX demo_mem"
    by (simp add: pool_args_ok_def demo_mem_def CFE_ES_CHECK_PATTERN_def)
  from PoolCreateEx_wf [OF this] have "pool_wf demo_small" by (auto simp: demo_small_def)
  then show "routing demo_full (\<lambda>_. [])"
    using demo_reg_routing(1) by (simp add: demo_full_def routing_def sb_sound_def lists_ok_def list_ok_def)
  show "subs_of demo_full = Map.empty"
    using demo_reg_routing(2) by (simp add: demo_full_def subs_of_def fun_eq_iff split: if_splits)
qed

lemma demo_full_room: "\<not> pool_room sizeof_CFE_SB_DestinationD_t demo_full"
proof -
  have "isl (fst (CFE_ES_GetPoolBuf 0x10000 20 demo_small))" "PoolHandle demo_small = 0x10000" by code_simp+
  then show ?thesis by (simp add: pool_room_def sizeof_CFE_SB_DestinationD_t_def demo_full_def)
qed

lemma demo_full_may:
  "may_subscribe demo_ctx 0x0801 0 CFE_SB_GLOBAL demo_full" "may_unsubscribe (ctxAppId demo_ctx) 0x0801 0 CFE_SB_GLOBAL demo_full"
  using demo_may
  by (simp_all add: demo_full_def may_subscribe_def may_unsubscribe_def CFE_SB_GetPipeIdx_def CFE_SB_ValidatePipeId_def)

theorem CFE_SB_Unsubscribe_null_witness:
  "\<exists>s'. CFE_SB_Subscribe demo_ctx 0x0801 0 demo_full = Some (CFE_SB_BUF_ALOC_ERR, s')
     \<and> CFE_SB_Unsubscribe demo_ctx 0x0801 0 s' = None"
proof -
  obtain s' where s': "CFE_SB_Subscribe demo_ctx 0x0801 0 demo_full = Some (CFE_SB_BUF_ALOC_ERR, s')"
    and may: "may_unsubscribe (ctxAppId demo_ctx) 0x0801 0 CFE_SB_GLOBAL s'"
    using reg.sub_spec [of demo_full demo_ctx "0x0801" 0] routing_invI [OF demo_full_routing(1)] demo_flag demo_full_may
      demo_full_room by (auto simp: subscribe_spec_def demo_full_routing(2) pipes_def)
  have "CFE_SB_UnsubscribeFull demo_ctx 0x0801 0 CFE_SB_GLOBAL (ctxAppId demo_ctx) s' = None"
    by (rule CFE_SB_Unsubscribe_null [OF routing_invI [OF demo_full_routing(1)] demo_flag _ _ may])
      (use s' in \<open>simp_all add: demo_full_routing(2) CFE_SB_Subscribe_def\<close>)
  then show ?thesis using s' by (auto simp: CFE_SB_Unsubscribe_def)
qed

end
