(* ===== verification/SB_Delivery.thy ===== *)
theory SB_Delivery
  imports SB_Subs
begin

text \<open>
  Sending and receiving: \<^verbatim>\<open>CFE_SB_SendMsgFull\<close> puts the descriptor of one buffer into the queue of every receiver,
  with a use count that is the number of receivers, and \<^verbatim>\<open>CFE_SB_RcvMsg\<close> hands the message at the head of a pipe to
  its reader.  \<open>receives\<close> says which destinations take a message, \<open>deliver_effect\<close> follows the delivery loop along
  the destination list, and the stages of the functions have one lemma each.
\<close>

unbundle bit_operations_syntax

section \<open>Who receives a message\<close>

definition qid :: "cfe_sb \<Rightarrow> addr \<Rightarrow> u32" where
  "qid s a = SysQueueId (PipeTbl s (unat (dPipeId (Dests s a))))"

text \<open>A destination that takes the message: active, not ignoring its own application, below its limit.\<close>

definition wants :: "SB_ctx \<Rightarrow> cfe_sb \<Rightarrow> addr \<Rightarrow> bool" where
  "wants c s a \<longleftrightarrow> (let d = Dests s a; p = PipeTbl s (unat (dPipeId d))
     in Active d \<noteq> CFE_SB_INACTIVE \<and> \<not> (Opts p AND CFE_SB_PIPEOPTS_IGNOREMINE \<noteq> 0 \<and> pAppId p = ctxAppId c)
        \<and> BuffCount d < MsgId2PipeLim d)"

definition queue_room :: "(nat \<times> nat \<times> addr list) option \<Rightarrow> bool" where
  "queue_room v \<longleftrightarrow> (case v of None \<Rightarrow> False | Some (d, k, ms) \<Rightarrow> 4 \<le> k \<and> length ms < d)"

definition receives :: "SB_ctx \<Rightarrow> cfe_sb \<Rightarrow> addr \<Rightarrow> bool" where
  "receives c s a \<longleftrightarrow> wants c s a \<and> queue_room (queue_view (OS s) (qid s a))"

definition appended :: "addr \<Rightarrow> (nat \<times> nat \<times> addr list) option \<Rightarrow> (nat \<times> nat \<times> addr list) option" where
  "appended bd = map_option (\<lambda>(d, k, ms). (d, k, ms @ [bd]))"

text \<open>What the delivery of a message leaves alone.\<close>

definition pipe_tx :: "CFE_SB_PipeD_t \<Rightarrow> u32 \<times> u8 \<times> u32" where
  "pipe_tx p = (SysQueueId p, Opts p, pAppId p)"

definition deliver_same :: "addr \<Rightarrow> cfe_sb \<Rightarrow> cfe_sb \<Rightarrow> bool" where
  "deliver_same bd s s' \<longleftrightarrow> Msgs s' = Msgs s \<and> Mem s' = Mem s \<and> PoolHdl s' = PoolHdl s
     \<and> pipe_tx \<circ> PipeTbl s' = pipe_tx \<circ> PipeTbl s \<and> dest_link \<circ> Dests s' = dest_link \<circ> Dests s
     \<and> (\<exists>n. Bufs s' = (Bufs s)(bd := (Bufs s bd)\<lparr>UseCount := n\<rparr>))"

lemma put_quiet:
  assumes wf: "queues_wf s" and quiet: "sys s = []" and put: "OS_QueuePut q (Some m) n s = (r, s')"
  shows "sys s' = [] \<and> OS_queue_table s' = OS_queue_table s" and "r = OS_SUCCESS \<longleftrightarrow> (\<exists>d k ms. queue_view s q = Some (d, k, ms) \<and> unat n \<le> k \<and> length ms < d)"
proof -
  have "sys s' = [] \<and> OS_queue_table s' = OS_queue_table s \<and> (r = OS_SUCCESS \<longleftrightarrow> (\<exists>d k ms. queue_view s q = Some (d, k, ms) \<and> unat n \<le> k \<and> length ms < d))"
  proof (cases "queue_view s q")
    case None
    then show ?thesis using put quiet by (auto simp: OS_QueuePut_def queue_lookup [OF wf] split: if_splits)
  next
    case (Some v)
    obtain d k ms where v: "v = (d, k, ms)" by (cases v)
    then have "mq_maxmsg (mq s (queue_slot q)) = d" "mq_msgsize (mq s (queue_slot q)) = k" "mq_msgs (mq s (queue_slot q)) = ms"
      using Some by (auto simp: queue_view_def Let_def split: if_splits)
    then show ?thesis
      using put quiet Some v
      by (auto simp: OS_QueuePut_def queue_lookup [OF wf] OS_QueuePut_Impl_def QueuePut_loop.simps mq_timedsend_def
          mq_outcome_def split: if_splits)
  qed
  then show "sys s' = [] \<and> OS_queue_table s' = OS_queue_table s" "r = OS_SUCCESS \<longleftrightarrow> (\<exists>d k ms. queue_view s q = Some (d, k, ms) \<and> unat n \<le> k \<and> length ms < d)"
    by auto
qed

text \<open>One round of the delivery loop: a destination that does not take the message, and one that does.\<close>

lemma pipe_tx_SendErrors [simp]: "pipe_tx (p\<lparr>SendErrors := n\<rparr>) = pipe_tx p"
  by (simp add: pipe_tx_def)

lemma buf_refl: "\<exists>n. B = B(bd := (B bd)\<lparr>UseCount := n\<rparr>)"
  by (rule exI [of _ "UseCount (B bd)"]) simp

lemma one_skip:
  assumes "\<not> wants c s dp" and "SendMsg_one c bd dp errs s = (errs', s')"
  shows "OS s' = OS s \<and> Bufs s' = Bufs s \<and> Dests s' = Dests s \<and> Msgs s' = Msgs s \<and> Mem s' = Mem s
    \<and> PoolHdl s' = PoolHdl s \<and> pipe_tx \<circ> PipeTbl s' = pipe_tx \<circ> PipeTbl s"
proof -
  have "s' = s \<or> (\<exists>i g. s' = upd_pipe i (\<lambda>p. p\<lparr>SendErrors := SendErrors p + 1\<rparr>) (upd_HK g s))"
    using assms
    by (auto simp: SendMsg_one_def wants_def Let_def not_less split: if_splits)
  then show ?thesis by (auto simp: sb_upd_defs)
qed

lemma one_take:
  assumes "wants c s dp" and "SendMsg_one c bd dp errs s = (errs', s')"
    and put: "OS_QueuePut (qid s dp) (Some bd) 4 (OS s) = (st, os)"
  shows "OS s' = os \<and> Msgs s' = Msgs s \<and> Mem s' = Mem s \<and> PoolHdl s' = PoolHdl s
    \<and> pipe_tx \<circ> PipeTbl s' = pipe_tx \<circ> PipeTbl s
    \<and> Bufs s' = (if st = OS_SUCCESS then (Bufs s)(bd := (Bufs s bd)\<lparr>UseCount := UseCount (Bufs s bd) + 1\<rparr>) else Bufs s)
    \<and> dest_link \<circ> Dests s' = dest_link \<circ> Dests s \<and> (\<forall>a. a \<noteq> dp \<longrightarrow> Dests s' a = Dests s a)"
proof -
  have w: "Active (Dests s dp) \<noteq> CFE_SB_INACTIVE" "\<not> (Opts (PipeTbl s (unat (dPipeId (Dests s dp)))) AND CFE_SB_PIPEOPTS_IGNOREMINE \<noteq> 0
      \<and> pAppId (PipeTbl s (unat (dPipeId (Dests s dp)))) = ctxAppId c)" "\<not> MsgId2PipeLim (Dests s dp) \<le> BuffCount (Dests s dp)"
    using assms(1) by (auto simp: wants_def Let_def)
  show ?thesis
  proof (cases "st = OS_SUCCESS")
    case True
    then show ?thesis
      using assms(2) put [unfolded qid_def] w
      by (auto simp: SendMsg_one_def Let_def sb_upd_defs dest_link_def fun_eq_iff)
  next
    case False
    then have "\<exists>i g. s' = upd_pipe i (\<lambda>p. p\<lparr>SendErrors := SendErrors p + 1\<rparr>) (upd_HK g (s\<lparr>OS := os\<rparr>))"
      using assms(2) put [unfolded qid_def] w
      by (auto simp: SendMsg_one_def Let_def split: if_splits)
    then show ?thesis using False by (auto simp: sb_upd_defs)
  qed
qed

lemma one_effect:
  assumes wf: "queues_wf (OS s)" and quiet: "sys (OS s) = []" and one: "SendMsg_one c bd dp errs s = (errs', s')"
  shows "queues_wf (OS s') \<and> sys (OS s') = [] \<and> OS_queue_table (OS s') = OS_queue_table (OS s)
    \<and> deliver_same bd s s' \<and> (\<forall>a. a \<noteq> dp \<longrightarrow> Dests s' a = Dests s a)"
    and "queue_view (OS s') = (if receives c s dp
         then (queue_view (OS s))(qid s dp := appended bd (queue_view (OS s) (qid s dp))) else queue_view (OS s))"
    and "UseCount (Bufs s' bd) = UseCount (Bufs s bd) + (if receives c s dp then 1 else 0)"
proof -
  have "queues_wf (OS s') \<and> sys (OS s') = [] \<and> OS_queue_table (OS s') = OS_queue_table (OS s)
    \<and> deliver_same bd s s' \<and> (\<forall>a. a \<noteq> dp \<longrightarrow> Dests s' a = Dests s a)
    \<and> queue_view (OS s') = (if receives c s dp
         then (queue_view (OS s))(qid s dp := appended bd (queue_view (OS s) (qid s dp))) else queue_view (OS s))
    \<and> UseCount (Bufs s' bd) = UseCount (Bufs s bd) + (if receives c s dp then 1 else 0)"
  proof (cases "wants c s dp")
    case False
    have "deliver_same bd s s'" using one_skip [OF False one] buf_refl [of "Bufs s" bd] unfolding deliver_same_def by simp
    then show ?thesis using one_skip [OF False one] wf quiet False by (simp add: receives_def)
  next
    case True
    obtain st os where put: "OS_QueuePut (qid s dp) (Some bd) 4 (OS s) = (st, os)" by fastforce
    note T = one_take [OF True one put] and Q = put_quiet [OF wf quiet put]
    have wf': "queues_wf os" using put_next [OF put] wf by (simp add: queues_next_def)
    have room: "receives c s dp \<longleftrightarrow> st = OS_SUCCESS"
      using Q(2) True by (auto simp: receives_def queue_room_def split: option.splits)
    have view: "queue_view os = (if st = OS_SUCCESS
        then (queue_view (OS s))(qid s dp := appended bd (queue_view (OS s) (qid s dp))) else queue_view (OS s))"
      using osq.put_ok [OF wf, of "qid s dp" bd 4 os] osq.put_err [OF wf put] put by (auto simp: appended_def)
    have "\<exists>n. Bufs s' = (Bufs s)(bd := (Bufs s bd)\<lparr>UseCount := n\<rparr>)"
    proof (cases "st = OS_SUCCESS")
      case True
      then show ?thesis using T by (intro exI [of _ "UseCount (Bufs s bd) + 1"]) simp
    qed (use T buf_refl [of "Bufs s" bd] in simp)
    then have "deliver_same bd s s'" using T unfolding deliver_same_def by blast
    then show ?thesis using T Q(1) wf' view room by simp
  qed
  then show "queues_wf (OS s') \<and> sys (OS s') = [] \<and> OS_queue_table (OS s') = OS_queue_table (OS s)
    \<and> deliver_same bd s s' \<and> (\<forall>a. a \<noteq> dp \<longrightarrow> Dests s' a = Dests s a)"
    "queue_view (OS s') = (if receives c s dp
         then (queue_view (OS s))(qid s dp := appended bd (queue_view (OS s) (qid s dp))) else queue_view (OS s))"
    "UseCount (Bufs s' bd) = UseCount (Bufs s bd) + (if receives c s dp then 1 else 0)"
    by blast+
qed

lemma deliver_same_qid:
  assumes "deliver_same bd s s'"
  shows "qid s' a = qid s a" "Dests s' a = Dests s a \<Longrightarrow> wants c s' a = wants c s a"
proof -
  have "pipe_tx (PipeTbl s' i) = pipe_tx (PipeTbl s i)" "dest_link (Dests s' a) = dest_link (Dests s a)" for i a
    using assms by (auto simp: deliver_same_def fun_eq_iff)
  then show "qid s' a = qid s a" "Dests s' a = Dests s a \<Longrightarrow> wants c s' a = wants c s a"
    by (simp_all add: qid_def wants_def Let_def pipe_tx_def dest_link_def)
qed

lemma deliver_same_trans:
  "deliver_same bd s s' \<Longrightarrow> deliver_same bd s' s'' \<Longrightarrow> deliver_same bd s s''"
  by (auto simp: deliver_same_def)

lemma deliver_effect:
  assumes "queues_wf (OS s)" and "sys (OS s) = []" and "dpath (Dests s) pr p as l None"
    and "distinct (map (qid s) as)" and "SendMsg_deliver (length as) c bd p errs s = (errs', s')"
  shows "deliver_same bd s s' \<and> queues_wf (OS s') \<and> sys (OS s') = [] \<and> OS_queue_table (OS s') = OS_queue_table (OS s)
    \<and> UseCount (Bufs s' bd) = UseCount (Bufs s bd) + of_nat (length (filter (receives c s) as))
    \<and> queue_view (OS s') = (\<lambda>q. if q \<in> qid s ` set (filter (receives c s) as)
         then appended bd (queue_view (OS s) q) else queue_view (OS s) q)"
  using assms
proof (induction as arbitrary: s pr p errs)
  case Nil
  then show ?case using buf_refl [of "Bufs s" bd] unfolding deliver_same_def by simp
next
  case (Cons a as)
  obtain e1 s1 where one: "SendMsg_one c bd a errs s = (e1, s1)" by fastforce
  note E = one_effect [OF Cons.prems(1,2) one]
  have same: "deliver_same bd s s1" and other: "\<And>b. b \<noteq> a \<Longrightarrow> Dests s1 b = Dests s b" using E(1) by auto
  have p: "p = Some a" and path: "dpath (Dests s) (Some a) (dNext (Dests s a)) as l None" using Cons.prems(3) by auto
  have na: "a \<notin> set as" using Cons.prems(4) by auto
  have link: "dest_link (Dests s1 b) = dest_link (Dests s b)" for b
    using same by (auto simp: deliver_same_def fun_eq_iff)
  have "dpath (Dests s1) (Some a) (dNext (Dests s1 a)) as l None"
    using path link dpath_cong [of as "Dests s1" "Dests s"] by (simp add: dest_link_def)
  moreover have q1: "qid s1 = qid s" using deliver_same_qid [OF same] by blast
  moreover have "SendMsg_deliver (length as) c bd (dNext (Dests s1 a)) e1 s1 = (errs', s')"
    using Cons.prems(5) p one by simp
  ultimately have IH: "deliver_same bd s1 s' \<and> queues_wf (OS s') \<and> sys (OS s') = [] \<and> OS_queue_table (OS s') = OS_queue_table (OS s)
    \<and> UseCount (Bufs s' bd) = UseCount (Bufs s1 bd) + of_nat (length (filter (receives c s1) as))
    \<and> queue_view (OS s') = (\<lambda>q. if q \<in> qid s ` set (filter (receives c s1) as)
         then appended bd (queue_view (OS s1) q) else queue_view (OS s1) q)"
    using Cons.IH [of s1] E(1) Cons.prems(4) by auto
  have "receives c s1 b = receives c s b" if "b \<in> set as" for b
  proof -
    have "qid s b \<in> qid s ` set as" using that by simp
    then have "qid s b \<noteq> qid s a" using Cons.prems(4) by auto
    moreover have "b \<noteq> a" using na that by auto
    ultimately show ?thesis
      using deliver_same_qid [OF same] other E(2) q1 by (auto simp: receives_def)
  qed
  then have f: "filter (receives c s1) as = filter (receives c s) as" by (simp cong: filter_cong)
  have "qid s a \<notin> qid s ` set as" using Cons.prems(4) by simp
  then have "queue_view (OS s') = (\<lambda>q. if q \<in> qid s ` set (filter (receives c s) (a # as))
         then appended bd (queue_view (OS s) q) else queue_view (OS s) q)"
    using IH E(2) f by (auto simp: fun_eq_iff)
  then show ?case using IH E(3) f deliver_same_trans [OF same] by (simp add: add.commute add.left_commute)
qed

section \<open>Sending a message\<close>

text \<open>The message in the buffer: copied, and for telemetry stamped with the next sequence count of the route.\<close>

definition sent_msg :: "u16 \<Rightarrow> u16 \<Rightarrow> bool \<Rightarrow> u32 \<Rightarrow> bytes \<Rightarrow> bytes \<Rightarrow> bytes" where
  "sent_msg m sz incr cnt msg old =
     (let b = (\<lambda>i. if i < unat sz then msg i else old i)
      in if CFE_SB_GetPktType m = 0 \<and> incr then CFE_SB_SetMsgSeqCnt cnt b else b)"

definition send_ok :: "addr \<Rightarrow> cfe_sb \<Rightarrow> bool" where
  "send_ok a s \<longleftrightarrow> CFE_SB_IsValidMsgId (CFE_SB_GetMsgId (Msgs s a))
     \<and> CFE_SB_GetTotalMsgLength (Msgs s a) \<le> CFE_MISSION_SB_MAX_SB_MSG_SIZE
     \<and> CFE_SB_IsValidRouteIdx (MsgMap s (unat (CFE_SB_GetMsgId (Msgs s a))))
     \<and> pool_room (ucast (CFE_SB_GetTotalMsgLength (Msgs s a)) + sizeof_CFE_SB_BufferD_t) s"

lemma fresh_buffer:
  assumes snd: "sb_sound s" and room: "pool_room (ucast sz + sizeof_CFE_SB_BufferD_t) s"
  shows "\<exists>bd z s'. CFE_SB_GetBufferFromPool m sz s = (Some bd, s') \<and> pool_live (Mem s) bd = None
    \<and> pool_live (Mem s') = (pool_live (Mem s))(bd \<mapsto> z) \<and> 0 < z \<and> sb_sound s'
    \<and> Bufs s' = (Bufs s)(bd := (Bufs s bd)\<lparr>bdMsgId := m, UseCount := 1, bdSize := ucast sz,
         Buffer := bd + sizeof_CFE_SB_BufferD_t\<rparr>)
    \<and> OS s' = OS s \<and> Msgs s' = Msgs s \<and> PipeTbl s' = PipeTbl s \<and> Dests s' = Dests s \<and> RoutingTbl s' = RoutingTbl s"
proof -
  obtain r p where get: "CFE_ES_GetPoolBuf (PoolHdl s) (ucast sz + sizeof_CFE_SB_BufferD_t) (Mem s) = (r, p)" by fastforce
  have wf: "pool_wf (Mem s)" "PoolHdl s = PoolHandle (Mem s)" using snd by (simp_all add: sb_sound_def)
  obtain z bd where r: "r = Inr (z, bd)" using room get by (cases r) (auto simp: pool_room_def)
  have al: "pool_live (Mem s) bd = None \<and> pool_live p = (pool_live (Mem s))(bd \<mapsto> z)
      \<and> ucast sz + sizeof_CFE_SB_BufferD_t \<le> z \<and> pool_wf p"
    using pool.alloc_ok [OF wf(1)] get r wf(2) by auto
  have "ucast sz + sizeof_CFE_SB_BufferD_t \<noteq> 0"
  proof -
    have "unat sz < 2 ^ 16" using unsigned_less [of sz, where ?'a = nat] by simp
    moreover from this have "unat (ucast sz :: u32) = unat sz" by (simp add: unsigned_ucast_eq take_bit_eq_mod)
    ultimately have "unat (ucast sz + sizeof_CFE_SB_BufferD_t :: u32) = unat sz + 36"
      by (simp add: unat_word_ariths sizeof_CFE_SB_BufferD_t_def)
    then show ?thesis by (metis add_is_0 unat_0 zero_neq_numeral)
  qed
  then have "0 < z" using al by (metis word_gt_0 word_le_0_iff)
  moreover have "PoolHandle p = PoolHandle (Mem s)" using pool_nextI(1) [OF get] by (simp add: pool_next_def)
  ultimately show ?thesis
    using get r al snd by (auto simp: CFE_SB_GetBufferFromPool_def Let_def sb_upd_defs sb_sound_def)
qed

lemma prepare_effect:
  fixes c m sz incr r bd s a
  assumes "Buffer (Bufs s bd) = buf"
  defines "s' \<equiv> SendMsg_prepare c a m sz incr False r bd s"
  shows "Msgs s' = (Msgs s)(buf := sent_msg m sz incr (SeqCnt (RoutingTbl s r) + 1) (Msgs s a) (Msgs s buf))"
    and "UseCount (Bufs s' bd) = UseCount (Bufs s bd)" "Buffer (Bufs s' bd) = buf" "bdMsgId (Bufs s' bd) = bdMsgId (Bufs s bd)"
    and "\<forall>x. x \<noteq> bd \<longrightarrow> Bufs s' x = Bufs s x"
    and "OS s' = OS s" "Mem s' = Mem s" "PoolHdl s' = PoolHdl s" "PipeTbl s' = PipeTbl s" "Dests s' = Dests s"
    and "Destinations (RoutingTbl s' r) = Destinations (RoutingTbl s r)" "ListHeadPtr (RoutingTbl s' r) = ListHeadPtr (RoutingTbl s r)"
  using assms by (auto simp: SendMsg_prepare_def sent_msg_def Let_def sb_upd_defs)

lemma events_effect:
  "SendMsg_events c es s = Some s' \<Longrightarrow> OS s' = OS s \<and> Msgs s' = Msgs s \<and> Bufs s' = Bufs s \<and> Mem s' = Mem s
     \<and> Dests s' = Dests s \<and> PipeTbl s' = PipeTbl s \<and> PoolHdl s' = PoolHdl s"
proof (induction es arbitrary: s)
  case (Cons e es)
  have "SendEvent_once c b e s = Some s1 \<Longrightarrow> OS s1 = OS s \<and> Msgs s1 = Msgs s \<and> Bufs s1 = Bufs s \<and> Mem s1 = Mem s
     \<and> Dests s1 = Dests s \<and> PipeTbl s1 = PipeTbl s \<and> PoolHdl s1 = PoolHdl s" for b s1
    by (auto simp: SendEvent_once_def CFE_SB_RequestToSendEvent_def CFE_SB_FinishSendEvent_def SendEvent_def
        split: option.splits if_splits)
  with Cons show ?case by (fastforce split: bind_splits)
qed simp

lemma decr_effect:
  assumes snd: "sb_sound s" and live: "pool_live (Mem s) bd = Some z" "0 < z"
    and use: "UseCount (Bufs s bd) = 1 + of_nat n" "n \<le> 16"
  shows "OS (CFE_SB_DecrBufUseCnt bd s) = OS s" "Msgs (CFE_SB_DecrBufUseCnt bd s) = Msgs s"
    "Bufs (CFE_SB_DecrBufUseCnt bd s) = (Bufs s)(bd := (Bufs s bd)\<lparr>UseCount := of_nat n\<rparr>)"
    "pool_live (Mem (CFE_SB_DecrBufUseCnt bd s)) = (if n = 0 then (pool_live (Mem s))(bd := None) else pool_live (Mem s))"
    "Dests (CFE_SB_DecrBufUseCnt bd s) = Dests s" "PipeTbl (CFE_SB_DecrBufUseCnt bd s) = PipeTbl s"
proof -
  have wf: "pool_wf (Mem s)" "PoolHdl s = PoolHandle (Mem s)" using snd by (simp_all add: sb_sound_def)
  obtain p where put: "CFE_ES_PutPoolBuf (PoolHdl s) bd (Mem s) = (Inr z, p)" "pool_live p = (pool_live (Mem s))(bd := None)"
    using pool.free_ok [OF wf(1) live] wf(2) by auto
  have n: "(of_nat n :: u16) = 0 \<longleftrightarrow> n = 0" "\<not> 1 + of_nat n = (0 :: u16)" "0 < (1 + of_nat n :: u16)"
    using use(2) by (auto simp: word_unat_eq_iff unat_of_nat word_less_nat_alt unat_plus_if')
  show "OS (CFE_SB_DecrBufUseCnt bd s) = OS s" "Msgs (CFE_SB_DecrBufUseCnt bd s) = Msgs s"
    "Bufs (CFE_SB_DecrBufUseCnt bd s) = (Bufs s)(bd := (Bufs s bd)\<lparr>UseCount := of_nat n\<rparr>)"
    "pool_live (Mem (CFE_SB_DecrBufUseCnt bd s)) = (if n = 0 then (pool_live (Mem s))(bd := None) else pool_live (Mem s))"
    "Dests (CFE_SB_DecrBufUseCnt bd s) = Dests s" "PipeTbl (CFE_SB_DecrBufUseCnt bd s) = PipeTbl s"
    using put n use by (auto simp: CFE_SB_DecrBufUseCnt_def CFE_SB_ReturnBufferToPool_def Let_def sb_upd_defs)
qed

definition dests_of :: "cfe_sb \<Rightarrow> u16 \<Rightarrow> addr list" where
  "dests_of s m = dest_walk 16 (Dests s) (ListHeadPtr (RoutingTbl s (unat (MsgMap s (unat m) - 1))))"

lemma subs_of_dests: "subs_of s m = Some ps \<Longrightarrow> ps = map (dPipeId \<circ> Dests s) (dests_of s m)"
  by (simp add: subs_of_def dests_of_def split: if_splits)

definition receivers :: "SB_ctx \<Rightarrow> cfe_sb \<Rightarrow> u16 \<Rightarrow> addr list" where
  "receivers c s m = filter (receives c s) (dests_of s m)"

lemma send_path:
  assumes "send_ok a s" and "m = CFE_SB_GetMsgId (Msgs s a)" and "sz = CFE_SB_GetTotalMsgLength (Msgs s a)"
    and "r = unat (MsgMap s (unat m) - 1)" and "CFE_SB_GetBufferFromPool m sz (CFE_SB_LockSharedData s) = (Some bd, s2)"
  shows "CFE_SB_SendMsgFull c (Some a) incr False s = SendMsg_route c r bd (SendMsg_prepare c a m sz incr False r bd s2)"
  using assms by (auto simp: CFE_SB_SendMsgFull_def send_ok_def Let_def)

lemma deliver_frame:
  assumes "deliver_same bd s s'"
  shows "Msgs s' = Msgs s" "Mem s' = Mem s" "PoolHdl s' = PoolHdl s" "Buffer (Bufs s' bd) = Buffer (Bufs s bd)"
    "bdMsgId (Bufs s' bd) = bdMsgId (Bufs s bd)" "x \<noteq> bd \<Longrightarrow> Bufs s' x = Bufs s x"
  using assms by (auto simp: deliver_same_def)

lemma SendMsg_delivers:
  assumes R: "routing s R" and quiet: "sys (OS s) = []" and fl: "flag_index (TaskGetId c) \<noteq> None" and ok: "send_ok a s"
    and m: "m = CFE_SB_GetMsgId (Msgs s a)" and dist: "distinct (map (qid s) (dests_of s m))"
  shows "\<exists>bd s'. CFE_SB_SendMsgFull c (Some a) incr False s = Some (CFE_SUCCESS, s')
    \<and> pool_live (Mem s) bd = None
    \<and> queue_view (OS s') = (\<lambda>q. if q \<in> qid s ` set (receivers c s m) then appended bd (queue_view (OS s) q)
         else queue_view (OS s) q)
    \<and> UseCount (Bufs s' bd) = of_nat (length (receivers c s m))
    \<and> (if receivers c s m = [] then pool_live (Mem s') = pool_live (Mem s)
       else \<exists>z. pool_live (Mem s') = (pool_live (Mem s))(bd \<mapsto> z))
    \<and> Buffer (Bufs s' bd) = bd + sizeof_CFE_SB_BufferD_t \<and> bdMsgId (Bufs s' bd) = m
    \<and> (\<forall>x. x \<noteq> bd \<longrightarrow> Bufs s' x = Bufs s x)
    \<and> sys (OS s') = [] \<and> OS_queue_table (OS s') = OS_queue_table (OS s) \<and> pipe_tx \<circ> PipeTbl s' = pipe_tx \<circ> PipeTbl s
    \<and> Msgs s' = (Msgs s)(bd + sizeof_CFE_SB_BufferD_t := sent_msg m (CFE_SB_GetTotalMsgLength (Msgs s a)) incr
         (SeqCnt (RoutingTbl s (unat (MsgMap s (unat m) - 1))) + 1) (Msgs s a) (Msgs s (bd + sizeof_CFE_SB_BufferD_t)))"
proof -
  define sz where "sz = CFE_SB_GetTotalMsgLength (Msgs s a)"
  define r where "r = unat (MsgMap s (unat m) - 1)"
  let ?s = "CFE_SB_LockSharedData s"
  have r: "r < 256" using ok valid_idx by (auto simp: send_ok_def r_def m)
  have L: "dll (Dests s) (ListHeadPtr (RoutingTbl s r)) (R r)" "length (R r) \<le> 16"
    "Destinations (RoutingTbl s r) = of_nat (length (R r))"
    using routingD(4) [OF R r] by (auto simp: list_ok_def)
  have Rr: "dests_of s m = R r" using L(1,2) dpath_walk by (auto simp: dests_of_def r_def dll_def)
  have "pool_room (ucast sz + sizeof_CFE_SB_BufferD_t) ?s" using ok by (simp add: send_ok_def pool_room_def sz_def)
  from fresh_buffer [OF _ this, of m] routingD(1) [OF R]
  obtain bd z s2 where get: "CFE_SB_GetBufferFromPool m sz ?s = (Some bd, s2)" and new: "pool_live (Mem s) bd = None"
    and live2: "pool_live (Mem s2) = (pool_live (Mem s))(bd \<mapsto> z)" "0 < z" and snd2: "sb_sound s2"
    and B2: "Bufs s2 = (Bufs ?s)(bd := (Bufs ?s bd)\<lparr>bdMsgId := m, UseCount := 1, bdSize := ucast sz,
         Buffer := bd + sizeof_CFE_SB_BufferD_t\<rparr>)"
    and F2: "OS s2 = OS s" "Msgs s2 = Msgs ?s" "PipeTbl s2 = PipeTbl s" "Dests s2 = Dests s" "RoutingTbl s2 = RoutingTbl s"
    by auto
  let ?buf = "bd + sizeof_CFE_SB_BufferD_t"
  have lock: "Bufs ?s = Bufs s" "Msgs ?s = Msgs s" by (simp_all add: CFE_SB_LockSharedData_def)
  define s3 where "s3 = SendMsg_prepare c a m sz incr False r bd s2"
  have "Buffer (Bufs s2 bd) = ?buf" by (simp add: B2)
  note P = prepare_effect [OF this, of c a m sz incr r, folded s3_def]
  obtain errs s4 where del: "SendMsg_deliver (unat (Destinations (RoutingTbl s3 r))) c bd (ListHeadPtr (RoutingTbl s3 r)) [] s3 = (errs, s4)"
    by fastforce
  obtain l where path: "dpath (Dests s3) None (ListHeadPtr (RoutingTbl s3 r)) (R r) l None"
    using L(1) P F2 by (auto simp: dll_def)
  have q3: "qid s3 = qid s" "receives c s3 = receives c s"
    by (auto simp: fun_eq_iff qid_def receives_def wants_def P F2)
  have wf3: "queues_wf (OS s3)" using routingD(1) [OF R] by (simp add: P F2 sb_sound_def)
  have "SendMsg_deliver (length (R r)) c bd (ListHeadPtr (RoutingTbl s3 r)) [] s3 = (errs, s4)"
    using del L(2,3) by (simp add: P F2 unat_of_nat)
  from deliver_effect [OF wf3 _ path _ this] quiet dist Rr
  have D: "deliver_same bd s3 s4" "queues_wf (OS s4)"
    "sys (OS s4) = [] \<and> OS_queue_table (OS s4) = OS_queue_table (OS s)"
    "UseCount (Bufs s4 bd) = UseCount (Bufs s3 bd) + of_nat (length (receivers c s m))"
    "queue_view (OS s4) = (\<lambda>q. if q \<in> qid s ` set (receivers c s m) then appended bd (queue_view (OS s) q)
         else queue_view (OS s) q)"
    by (auto simp: P F2 q3 receivers_def)
  have len: "length (receivers c s m) \<le> 16"
    using order_trans [OF length_filter_le L(2)] by (simp add: receivers_def Rr)
  note F4 = deliver_frame [OF D(1)]
  have snd4: "sb_sound s4" using snd2 D(2) F4 P F2 by (simp add: sb_sound_def)
  have live4: "pool_live (Mem s4) bd = Some z" using F4 P live2 by simp
  have use4: "UseCount (Bufs s4 bd) = 1 + of_nat (length (receivers c s m))" using D(4) P B2 by simp
  note E = decr_effect [OF snd4 live4 live2(2) use4 len]
  obtain s' where ev: "SendMsg_events c errs (CFE_SB_UnlockSharedData (CFE_SB_DecrBufUseCnt bd s4)) = Some s'"
    using events_return [OF fl] by blast
  note V = events_effect [OF ev]
  have V': "OS s' = OS s4" "Msgs s' = Msgs s4" "Bufs s' = (Bufs s4)(bd := (Bufs s4 bd)\<lparr>UseCount := of_nat (length (receivers c s m))\<rparr>)"
    "pool_live (Mem s') = (if receivers c s m = [] then (pool_live (Mem s4))(bd := None) else pool_live (Mem s4))"
    using V E by (simp_all add: CFE_SB_UnlockSharedData_def)
  have pt: "pipe_tx \<circ> PipeTbl s' = pipe_tx \<circ> PipeTbl s"
    using V E(6) D(1) P(9) F2(3) by (simp add: deliver_same_def CFE_SB_UnlockSharedData_def)
  have "CFE_SB_SendMsgFull c (Some a) incr False s = Some (CFE_SUCCESS, s')"
    using send_path [OF ok m sz_def r_def get, of c incr] del ev by (simp add: SendMsg_route_def s3_def)
  moreover have "pool_live (Mem s') = (if receivers c s m = [] then pool_live (Mem s) else (pool_live (Mem s))(bd \<mapsto> z))"
    using V'(4) F4(2) P(7) live2 new by (auto simp: fun_upd_idem)
  moreover have "Msgs s' = (Msgs s)(?buf := sent_msg m sz incr (SeqCnt (RoutingTbl s r) + 1) (Msgs s a) (Msgs s ?buf))"
    using V'(2) F4(1) P(1) F2 lock by simp
  moreover have "\<forall>x. x \<noteq> bd \<longrightarrow> Bufs s' x = Bufs s x" using V'(3) F4(6) P(5) B2 lock by simp
  ultimately show ?thesis
    using new D(3,5) V' pt F4(4,5) P B2 unfolding sz_def r_def by (intro exI [of _ bd] exI [of _ s']) auto
qed

section \<open>Receiving a message\<close>

lemma get_quiet:
  assumes wf: "queues_wf s" and "sys s = []" and view: "queue_view s q = Some (d, k, m # ms)"
    and "max_size (OS_queue_table s (queue_slot q)) \<le> n" and "k \<le> unat n"
  shows "\<exists>s'. OS_QueueGet True q n t s = Some (Inr m, s')"
proof -
  have "mq_msgsize (mq s (queue_slot q)) = k" "mq_msgs (mq s (queue_slot q)) = m # ms"
    using view by (auto simp: queue_view_def Let_def split: if_splits)
  then show ?thesis
    using assms
    by (simp add: OS_QueueGet_def queue_lookup [OF wf] OS_QueueGet_Impl_def QueueGet_loop.simps mq_receive_def mq_outcome_def)
qed

lemma sb_lock_fields [simp]:
  "Msgs (CFE_SB_LockSharedData s) = Msgs s" "Bufs (CFE_SB_LockSharedData s) = Bufs s"
  by (simp_all add: CFE_SB_LockSharedData_def)

lemma decr_frame [simp]:
  "Buffer (Bufs (CFE_SB_DecrBufUseCnt b s) x) = Buffer (Bufs s x)" "bdMsgId (Bufs (CFE_SB_DecrBufUseCnt b s) x) = bdMsgId (Bufs s x)"
  "Msgs (CFE_SB_DecrBufUseCnt b s) = Msgs s" "OS (CFE_SB_DecrBufUseCnt b s) = OS s" "Dests (CFE_SB_DecrBufUseCnt b s) = Dests s"
  "PipeTbl (CFE_SB_DecrBufUseCnt b s) = PipeTbl s" "RoutingTbl (CFE_SB_DecrBufUseCnt b s) = RoutingTbl s"
  "MsgMap (CFE_SB_DecrBufUseCnt b s) = MsgMap s"
  by (auto simp: CFE_SB_DecrBufUseCnt_def CFE_SB_ReturnBufferToPool_def Let_def sb_upd_defs split: sum.split prod.split)

lemma dest_ptr_returns:
  assumes R: "routing s R" and eq: "MsgMap s' = MsgMap s" "RoutingTbl s' = RoutingTbl s" "Dests s' = Dests s"
  shows "\<exists>dp. CFE_SB_GetDestPtr (CFE_SB_ConvertMsgIdtoMsgKey m) p s' = Some dp"
proof (cases "CFE_SB_IsValidRouteIdx (MsgMap s (unat m))")
  case True
  then have r: "unat (MsgMap s (unat m) - 1) < 256" using valid_idx by blast
  from routingD(4) [OF R r] show ?thesis
    by (auto simp: CFE_SB_GetDestPtr_def Let_def eq list_ok_def dll_find)
qed (simp add: CFE_SB_GetDestPtr_def Let_def eq)

text \<open>The message at the head of the pipe; the message before it is released.\<close>

lemma RcvMsg_head:
  assumes R: "routing s R" and p: "CFE_SB_ValidatePipeId p s" and t: "-1 \<le> t"
    and q: "q = SysQueueId (PipeTbl s (unat p))"
    and get: "OS_QueueGet True q 4 (OS_timeout_of t) (OS s) = Some (Inr bd, os)"
  shows "\<exists>s'. CFE_SB_RcvMsg True p t s = Some (CFE_SUCCESS, Some (Buffer (Bufs s bd)), s')
    \<and> OS s' = os \<and> Msgs s' = Msgs s \<and> CurrentBuff (PipeTbl s' (unat p)) = Some bd
    \<and> ToTrashBuff (PipeTbl s' (unat p)) = None
    \<and> Bufs s' = (case CurrentBuff (PipeTbl s (unat p)) of None \<Rightarrow> Bufs s | Some old \<Rightarrow> Bufs (CFE_SB_DecrBufUseCnt old s))
    \<and> Mem s' = (case CurrentBuff (PipeTbl s (unat p)) of None \<Rightarrow> Mem s | Some old \<Rightarrow> Mem (CFE_SB_DecrBufUseCnt old s))"
proof -
  let ?i = "unat p"
  define s1 where "s1 = (upd_pipe ?i (\<lambda>p. p\<lparr>ToTrashBuff := CurrentBuff p, CurrentBuff := None\<rparr>) s)\<lparr>OS := os\<rparr>"
  have rcv: "CFE_SB_RcvMsg True p t s = RcvMsg_finish ?i (Inr bd) s1"
    using get q p t by (simp add: CFE_SB_RcvMsg_def CFE_SB_GetPipePtr_def CFE_SB_ReadQueue_def s1_def upd_pipe_def)
  define s2 where "s2 = (case ToTrashBuff (PipeTbl (CFE_SB_LockSharedData s1) ?i) of None \<Rightarrow> CFE_SB_LockSharedData s1
      | Some b \<Rightarrow> upd_pipe ?i (\<lambda>p. p\<lparr>ToTrashBuff := None\<rparr>) (CFE_SB_DecrBufUseCnt b (CFE_SB_LockSharedData s1)))"
  have trash: "ToTrashBuff (PipeTbl s1 ?i) = CurrentBuff (PipeTbl s ?i)" by (simp add: s1_def upd_pipe_def)
  have decr: "Bufs (CFE_SB_DecrBufUseCnt b (CFE_SB_LockSharedData s1)) = Bufs (CFE_SB_DecrBufUseCnt b s)"
    "Mem (CFE_SB_DecrBufUseCnt b (CFE_SB_LockSharedData s1)) = Mem (CFE_SB_DecrBufUseCnt b s)" for b
    by (auto simp: CFE_SB_DecrBufUseCnt_def CFE_SB_ReturnBufferToPool_def Let_def sb_upd_defs s1_def CFE_SB_LockSharedData_def
        split: sum.split prod.split)
  have S1: "MsgMap s1 = MsgMap s" "RoutingTbl s1 = RoutingTbl s" "Dests s1 = Dests s" "OS s1 = os" "Msgs s1 = Msgs s"
    "Bufs s1 = Bufs s" "Mem s1 = Mem s"
    by (simp_all add: s1_def upd_pipe_def)
  have S2: "MsgMap s2 = MsgMap s" "RoutingTbl s2 = RoutingTbl s" "Dests s2 = Dests s" "OS s2 = os" "Msgs s2 = Msgs s"
    "ToTrashBuff (PipeTbl s2 ?i) = None"
    "Bufs s2 = (case CurrentBuff (PipeTbl s ?i) of None \<Rightarrow> Bufs s | Some old \<Rightarrow> Bufs (CFE_SB_DecrBufUseCnt old s))"
    "Mem s2 = (case CurrentBuff (PipeTbl s ?i) of None \<Rightarrow> Mem s | Some old \<Rightarrow> Mem (CFE_SB_DecrBufUseCnt old s))"
    by (cases "CurrentBuff (PipeTbl s ?i)"; simp add: s2_def trash decr S1 upd_pipe_def)+
  define s3 where "s3 = upd_pipe ?i (\<lambda>p. p\<lparr>CurrentBuff := Some bd\<rparr>) s2"
  have S3: "MsgMap s3 = MsgMap s" "RoutingTbl s3 = RoutingTbl s" "Dests s3 = Dests s" "OS s3 = OS s2" "Msgs s3 = Msgs s2"
    "Bufs s3 = Bufs s2" "Mem s3 = Mem s2" "ToTrashBuff (PipeTbl s3 ?i) = None" "CurrentBuff (PipeTbl s3 ?i) = Some bd"
    by (simp_all add: s3_def upd_pipe_def S2)
  obtain dp where dp: "CFE_SB_GetDestPtr (CFE_SB_ConvertMsgIdtoMsgKey (bdMsgId (Bufs s3 bd))) (PipeId (PipeTbl s3 ?i)) s3 = Some dp"
    using dest_ptr_returns [OF R S3(1-3)] by blast
  have buf: "Buffer (Bufs s3 bd) = Buffer (Bufs s bd)" by (simp add: S2 S3 split: option.split)
  have fin: "RcvMsg_finish ?i (Inr bd) s1 = (let s = (case dp of None \<Rightarrow> s3
        | Some dp \<Rightarrow> if BuffCount (Dests s3 dp) > 0 then upd_dest dp (\<lambda>d. d\<lparr>BuffCount := BuffCount d - 1\<rparr>) s3 else s3);
      s = (if PipeId (PipeTbl s ?i) < 64
           then upd_depth (unat (PipeId (PipeTbl s ?i))) (\<lambda>t. t\<lparr>psInUse := psInUse t - 1\<rparr>) s else s)
    in Some (CFE_SUCCESS, Some (Buffer (Bufs s bd)), CFE_SB_UnlockSharedData s))"
    by (simp only: RcvMsg_finish_def Let_def s2_def [symmetric] s3_def [symmetric] sum.case dp Option.bind.bind_lunit)
  have frame: "Bufs (upd_dest x f s) = Bufs s" "Bufs (upd_depth j g s) = Bufs s" "OS (upd_dest x f s) = OS s"
    "OS (upd_depth j g s) = OS s" "Msgs (upd_dest x f s) = Msgs s" "Msgs (upd_depth j g s) = Msgs s"
    "PipeTbl (upd_dest x f s) = PipeTbl s" "PipeTbl (upd_depth j g s) = PipeTbl s" "Mem (upd_dest x f s) = Mem s"
    "Mem (upd_depth j g s) = Mem s" "Bufs (CFE_SB_UnlockSharedData s) = Bufs s" "Msgs (CFE_SB_UnlockSharedData s) = Msgs s"
    for x f j g s by (simp_all add: sb_upd_defs CFE_SB_UnlockSharedData_def)
  show ?thesis
    unfolding rcv fin Let_def by (simp add: frame buf S3 S2 split: option.split)
qed

section \<open>From the sender to the receiver\<close>

lemma send_same:
  assumes "routing s R" and "CFE_SB_SendMsgFull c p incr False s = Some (st, s')"
  shows "routing s' R" "subs_of s' = subs_of s" "CFE_SB_ValidatePipeId i s' = CFE_SB_ValidatePipeId i s"
proof -
  have same: "rt_same s s'" using same_send [OF same_refl [OF routingD(1) [OF assms(1)]] assms(2)] .
  show "routing s' R" "subs_of s' = subs_of s" by (rule routing_same [OF same assms(1)])+
  have "pipe_link \<circ> PipeTbl s' = pipe_link \<circ> PipeTbl s" using same by (simp add: rt_same_def)
  then show "CFE_SB_ValidatePipeId i s' = CFE_SB_ValidatePipeId i s" by (rule link_GetPipeIdx)
qed

section \<open>Properties\<close>



text \<open>
  C24: what is sent is what is received.  After a message was sent, a receiver whose pipe was empty gets it with
  its next reception: the call returns, with any time-out, and the pointer leads to the message as sent.
\<close>

theorem CFE_SB_send_receive:
  assumes "routing_inv s" and "sys (OS s) = []" and "flag_index (TaskGetId c) \<noteq> None" and "send_ok a s"
    and m: "m = CFE_SB_GetMsgId (Msgs s a)" and "distinct (map (qid s) (dests_of s m))"
    and x: "x \<in> set (receivers c s m)" "dPipeId (Dests s x) = p" and p: "CFE_SB_ValidatePipeId p s" and t: "-1 \<le> t"
    and q: "queue_view (OS s) (qid s x) = Some (d, 4, [])" "max_size (OS_queue_table (OS s) (queue_slot (qid s x))) \<le> 4"
  shows "\<exists>s1 s2 ptr old. CFE_SB_SendMsg c (Some a) s = Some (CFE_SUCCESS, s1)
    \<and> CFE_SB_RcvMsg True p t s1 = Some (CFE_SUCCESS, Some ptr, s2)
    \<and> Msgs s2 ptr = sent_msg m (CFE_SB_GetTotalMsgLength (Msgs s a)) True
         (SeqCnt (RoutingTbl s (unat (MsgMap s (unat m) - 1))) + 1) (Msgs s a) old"
proof -
  obtain R where R: "routing s R" using assms(1) by (auto simp: routing_inv_def)
  from SendMsg_delivers [OF R assms(2-6), where incr = True] obtain bd s1 where
    S: "CFE_SB_SendMsgFull c (Some a) True False s = Some (CFE_SUCCESS, s1)"
    and V: "queue_view (OS s1) = (\<lambda>q. if q \<in> qid s ` set (receivers c s m) then appended bd (queue_view (OS s) q)
         else queue_view (OS s) q)"
    and B: "Buffer (Bufs s1 bd) = bd + sizeof_CFE_SB_BufferD_t"
    and O: "sys (OS s1) = []" "OS_queue_table (OS s1) = OS_queue_table (OS s)" "pipe_tx \<circ> PipeTbl s1 = pipe_tx \<circ> PipeTbl s"
    and M: "Msgs s1 = (Msgs s)(bd + sizeof_CFE_SB_BufferD_t := sent_msg m (CFE_SB_GetTotalMsgLength (Msgs s a)) True
         (SeqCnt (RoutingTbl s (unat (MsgMap s (unat m) - 1))) + 1) (Msgs s a) (Msgs s (bd + sizeof_CFE_SB_BufferD_t)))"
    by auto
  note R1 = send_same [OF R S]
  have "pipe_tx (PipeTbl s1 (unat p)) = pipe_tx (PipeTbl s (unat p))" using O(3) by (auto simp: fun_eq_iff)
  then have qid: "SysQueueId (PipeTbl s1 (unat p)) = qid s x" using x(2) by (simp add: qid_def pipe_tx_def)
  have view: "queue_view (OS s1) (qid s x) = Some (d, 4, [bd])" using V x(1) q(1) by (simp add: appended_def)
  have wf: "queues_wf (OS s1)" using routingD(1) [OF R1(1)] by (simp add: sb_sound_def)
  from get_quiet [OF wf O(1) view, of 4 "OS_timeout_of t"] q(2) O(2)
  obtain os where "OS_QueueGet True (qid s x) 4 (OS_timeout_of t) (OS s1) = Some (Inr bd, os)" by auto
  from RcvMsg_head [OF R1(1) _ t qid [symmetric] this] p R1(3)
  obtain s2 where "CFE_SB_RcvMsg True p t s1 = Some (CFE_SUCCESS, Some (Buffer (Bufs s1 bd)), s2)" "Msgs s2 = Msgs s1" by blast
  then show ?thesis using S B M by (auto simp: CFE_SB_SendMsg_def)
qed

text \<open>
  The bus of the witnesses: the pipe has a queue of depth 2, the message at 0x200 is telemetry with identifier
  0x0801 and 8 bytes, and the pipe is subscribed to it.
\<close>

definition demo_pipe :: cfe_sb where
  "demo_pipe = (upd_pipe 0 (\<lambda>p. p\<lparr>SysQueueId := 0x20001\<rparr>) demo_reg)\<lparr>OS := demo_queue1,
     Msgs := (\<lambda>_ _. 0)(0x200 := (\<lambda>_. 0)(0 := 0x08, 1 := 0x01, 5 := 1))\<rparr>"

definition demo_routed :: cfe_sb where
  "demo_routed = snd (Subscribe_route 0x0801 (CFE_SB_ConvertMsgIdtoMsgKey 0x0801) demo_pipe)"

definition demo_dest :: addr where
  "demo_dest = the (fst (CFE_SB_GetDestinationBlk demo_routed))"

definition demo_bus :: cfe_sb where
  "demo_bus = Subscribe_link 0 demo_dest 0 4 CFE_SB_GLOBAL (snd (CFE_SB_GetDestinationBlk demo_routed))"

lemma demo_valid: "CFE_SB_IsValidMsgId 0x0801"
  by (simp add: CFE_SB_IsValidMsgId_def CFE_SB_INVALID_MSG_ID_def CFE_PLATFORM_SB_HIGHEST_VALID_MSGID_def)

lemma demo_pipe_routing: "routing demo_pipe (\<lambda>_. [])" "subs_of demo_pipe = Map.empty"
proof -
  have "sb_sound demo_pipe"
    using routingD(1) [OF demo_reg_routing(1)] demo_queue1_wf(1) by (simp add: demo_pipe_def sb_sound_def upd_pipe_def)
  then show "routing demo_pipe (\<lambda>_. [])" "subs_of demo_pipe = Map.empty"
    using routing_cong [OF demo_reg_routing(1), of demo_pipe] demo_reg_routing(2) by (simp_all add: demo_pipe_def upd_pipe_def)
qed

lemma demo_sb_fields:
  "MsgMap demo_sb 0x0801 = 0" "RouteIdxTop demo_sb = 0" "RouteIdxStack demo_sb 0 = 1"
  "Mem demo_sb = projr (CFE_ES_PoolCreateEx 0x10000 CFE_PLATFORM_SB_BUF_MEMORY_BYTES 17
      (Some CFE_SB_MemPoolDefSize) CFE_ES_NO_MUTEX demo_mem)"
  "Opts (PipeTbl demo_sb 0) = 0" "SenderReporting demo_sb = 1" "Destinations (RoutingTbl demo_sb 0) = 0"
  "ListHeadPtr (RoutingTbl demo_sb 0) = None"
  using PoolCreateEx_wf [OF demo_sb_args]
  by (auto simp: demo_sb_def CFE_SB_EarlyInit_def CFE_SB_InitBuffers_def Let_def
      CFE_SB_MemPoolDefSize_def CFE_SB_InitIdxStack_def CFE_SB_InitRoutingTbl_def CFE_SB_InitMsgMap_def
      CFE_SB_InitPipeTbl_def CFE_SB_INVALID_ROUTE_IDX_def CFE_SB_ValueToRouteIdx_def demo_zero_def)

lemma demo_routed:
  shows "Subscribe_route 0x0801 (CFE_SB_ConvertMsgIdtoMsgKey 0x0801) demo_pipe = (Some 0, demo_routed)"
    and "routing demo_routed (\<lambda>_. [])" "MsgMap demo_routed 0x0801 = ridx 0" "Mem demo_routed = Mem demo_sb"
    "PoolHdl demo_routed = PoolHdl demo_sb" "PipeTbl demo_routed = PipeTbl demo_pipe" "OS demo_routed = demo_queue1"
    "Msgs demo_routed = Msgs demo_pipe"
proof -
  have M: "MsgMap demo_pipe 0x0801 = 0" "RouteIdxTop demo_pipe = 0" "RouteIdxStack demo_pipe 0 = 1"
    by (simp_all add: demo_pipe_def demo_reg_def upd_pipe_def demo_sb_fields)
  have F: "fst (Subscribe_route 0x0801 (CFE_SB_ConvertMsgIdtoMsgKey 0x0801) demo_pipe) = Some 0"
    "OS demo_routed = OS demo_pipe" "Msgs demo_routed = Msgs demo_pipe"
    by (simp_all add: demo_routed_def Subscribe_route_def CFE_SB_RouteIdxPop_Unsync_def M CFE_SB_IsValidRouteIdx_def Let_def
        CFE_SB_SetRoutingTblIdx_def upd_route_def upd_Stat_def)
  from F(1) show r: "Subscribe_route 0x0801 (CFE_SB_ConvertMsgIdtoMsgKey 0x0801) demo_pipe = (Some 0, demo_routed)"
    unfolding demo_routed_def by (metis prod.collapse)
  show "OS demo_routed = demo_queue1" "Msgs demo_routed = Msgs demo_pipe" using F by (simp_all add: demo_pipe_def)
  from subscribe_route [OF demo_pipe_routing(1) demo_valid r]
  show "routing demo_routed (\<lambda>_. [])" "MsgMap demo_routed 0x0801 = ridx 0" "Mem demo_routed = Mem demo_sb"
    "PoolHdl demo_routed = PoolHdl demo_sb" "PipeTbl demo_routed = PipeTbl demo_pipe"
    by (simp_all add: demo_pipe_def demo_reg_def upd_pipe_def)
qed

definition demo_alloc :: Pool_t where
  "demo_alloc = snd (CFE_ES_GetPoolBuf 0x10000 20 (projr (CFE_ES_PoolCreateEx 0x10000 CFE_PLATFORM_SB_BUF_MEMORY_BYTES 17
      (Some CFE_SB_MemPoolDefSize) CFE_ES_NO_MUTEX demo_mem)))"

lemma demo_handle: "PoolHdl demo_sb = 0x10000"
proof -
  have "PoolHdl demo_sb = PoolHandle (Mem demo_sb)"
    using EarlyInit_sound [OF demo_sb_init demo_sb_args demo_zero_queues] by (simp add: sb_sound_def)
  moreover have "PoolHandle (projr (CFE_ES_PoolCreateEx 0x10000 CFE_PLATFORM_SB_BUF_MEMORY_BYTES 17
      (Some CFE_SB_MemPoolDefSize) CFE_ES_NO_MUTEX demo_mem)) = 0x10000" by code_simp
  ultimately show ?thesis by (simp add: demo_sb_fields)
qed

lemma demo_alloc_ok:
  "\<not> isl (fst (CFE_ES_GetPoolBuf 0x10000 20 (projr (CFE_ES_PoolCreateEx 0x10000 CFE_PLATFORM_SB_BUF_MEMORY_BYTES 17
      (Some CFE_SB_MemPoolDefSize) CFE_ES_NO_MUTEX demo_mem))))"
  "\<not> isl (fst (CFE_ES_GetPoolBuf 0x10000 44 demo_alloc))"
  by code_simp+

lemma demo_blk:
  "CFE_SB_GetDestinationBlk demo_routed = (Some demo_dest, snd (CFE_SB_GetDestinationBlk demo_routed))"
  "Mem (snd (CFE_SB_GetDestinationBlk demo_routed)) = demo_alloc"
proof -
  have "fst (CFE_SB_GetDestinationBlk demo_routed) \<noteq> None" "Mem (snd (CFE_SB_GetDestinationBlk demo_routed)) = demo_alloc"
    using demo_alloc_ok(1)
    by (auto simp: CFE_SB_GetDestinationBlk_def demo_routed demo_handle demo_sb_fields demo_alloc_def
        sizeof_CFE_SB_DestinationD_t_def split: sum.splits prod.splits)
  then show "CFE_SB_GetDestinationBlk demo_routed = (Some demo_dest, snd (CFE_SB_GetDestinationBlk demo_routed))"
    "Mem (snd (CFE_SB_GetDestinationBlk demo_routed)) = demo_alloc"
    by (auto simp: demo_dest_def prod_eq_iff)
qed


lemma demo_bus_routing: "routing demo_bus ((\<lambda>_. [])(0 := [demo_dest]))"
  and demo_bus_map: "MsgMap demo_bus 0x0801 = ridx 0"
proof -
  let ?s = "snd (CFE_SB_GetDestinationBlk demo_routed)"
  note B = dest_blk [OF demo_routed(2) demo_blk(1)]
  obtain n where n: "pool_live (Mem ?s) demo_dest = Some n" "0 < n" using B by blast
  have m: "MsgMap ?s (unat (0x0801 :: u16)) = ridx 0" using B demo_routed(3) by simp
  from subscribe_link(1) [of ?s "\<lambda>_. []" "0x0801" 0 0 demo_dest n 4 CFE_SB_GLOBAL] B n m demo_valid
  show "routing demo_bus ((\<lambda>_. [])(0 := [demo_dest]))" by (simp add: demo_bus_def)
  show "MsgMap demo_bus 0x0801 = ridx 0"
    using m by (auto simp: demo_bus_def Subscribe_link_def CFE_SB_AddDest_def Let_def sb_upd_defs split: option.split)
qed

lemma demo_bus_fields:
  "OS demo_bus = demo_queue1" "Msgs demo_bus = Msgs demo_pipe" "PipeTbl demo_bus = PipeTbl demo_pipe" "Mem demo_bus = demo_alloc"
  "PoolHdl demo_bus = 0x10000" "Active (Dests demo_bus demo_dest) = CFE_SB_ACTIVE" "BuffCount (Dests demo_bus demo_dest) = 0"
  "MsgId2PipeLim (Dests demo_bus demo_dest) = 4" "dPipeId (Dests demo_bus demo_dest) = 0"
proof -
  let ?s = "snd (CFE_SB_GetDestinationBlk demo_routed)"
  have "OS ?s = demo_queue1" "Msgs ?s = Msgs demo_pipe" "PipeTbl ?s = PipeTbl demo_pipe" "PoolHdl ?s = 0x10000"
    by (auto simp: CFE_SB_GetDestinationBlk_def demo_routed demo_handle sb_upd_defs split: sum.split prod.split)
  then show "OS demo_bus = demo_queue1" "Msgs demo_bus = Msgs demo_pipe" "PipeTbl demo_bus = PipeTbl demo_pipe" "Mem demo_bus = demo_alloc"
    "PoolHdl demo_bus = 0x10000" "Active (Dests demo_bus demo_dest) = CFE_SB_ACTIVE" "BuffCount (Dests demo_bus demo_dest) = 0"
    "MsgId2PipeLim (Dests demo_bus demo_dest) = 4" "dPipeId (Dests demo_bus demo_dest) = 0"
    using demo_blk(2)
    by (auto simp: demo_bus_def Subscribe_link_def CFE_SB_AddDest_def Let_def sb_upd_defs split: option.split)
qed

lemma demo_bus_msg: "CFE_SB_GetMsgId (Msgs demo_bus 0x200) = 0x0801" "CFE_SB_GetTotalMsgLength (Msgs demo_bus 0x200) = 8"
  unfolding demo_bus_fields(2) demo_pipe_def by (simp_all, code_simp+)

lemma demo_bus_send: "send_ok 0x200 demo_bus"
  using demo_alloc_ok(2) demo_valid
  by (simp add: send_ok_def demo_bus_msg demo_bus_map pool_room_def demo_bus_fields(4,5) CFE_MISSION_SB_MAX_SB_MSG_SIZE_def
      sizeof_CFE_SB_BufferD_t_def)

lemma demo_bus_dests: "dests_of demo_bus 0x0801 = [demo_dest]"
  using subs_of_at [OF demo_bus_routing demo_valid, of 0] routingD(4) [OF demo_bus_routing, of 0] demo_bus_map
    dpath_walk [of "Dests demo_bus" None _ "[demo_dest]" _ 16]
  by (auto simp: dests_of_def list_ok_def dll_def)

lemma demo_bus_pipe: "PipeTbl demo_bus 0 = (PipeTbl demo_sb 0)\<lparr>InUse := CFE_SB_IN_USE, PipeId := 0, pAppId := 1, SysQueueId := 0x20001\<rparr>"
  by (simp add: demo_bus_fields demo_pipe_def demo_reg_def upd_pipe_def)

lemma demo_bus_receivers: "qid demo_bus demo_dest = 0x20001" "receivers demo_ctx demo_bus 0x0801 = [demo_dest]"
  using demo_queue1_wf(2)
  by (simp_all add: qid_def demo_bus_fields(1,6-9) demo_bus_pipe receivers_def demo_bus_dests receives_def wants_def queue_room_def
      demo_sb_fields CFE_SB_ACTIVE_def CFE_SB_INACTIVE_def Let_def del: One_nat_def)

lemma demo_bus_pipe_ok: "CFE_SB_ValidatePipeId 0 demo_bus"
  by (simp add: CFE_SB_ValidatePipeId_def demo_bus_pipe CFE_SB_IN_USE_def CFE_SB_NOT_IN_USE_def)



theorem CFE_SB_send_receive_witness:
  "\<exists>s1 s2 ptr. CFE_SB_SendMsg demo_ctx (Some 0x200) demo_bus = Some (CFE_SUCCESS, s1)
     \<and> CFE_SB_RcvMsg True 0 (-1) s1 = Some (CFE_SUCCESS, Some ptr, s2) \<and> Msgs s2 ptr 1 = 0x01"
proof -
  have quiet: "sys (OS demo_bus) = []" unfolding demo_bus_fields(1) by code_simp
  have slot: "max_size (OS_queue_table (OS demo_bus) (queue_slot 0x20001)) \<le> 4" unfolding demo_bus_fields(1) by code_simp
  have dist: "distinct (map (qid demo_bus) (dests_of demo_bus 0x0801))" by (simp add: demo_bus_dests)
  have rcv: "demo_dest \<in> set (receivers demo_ctx demo_bus 0x0801)" by (simp add: demo_bus_receivers)
  have view: "queue_view (OS demo_bus) (qid demo_bus demo_dest) = Some (2, 4, [])"
    using demo_queue1_wf(2) by (simp add: demo_bus_receivers demo_bus_fields(1))
  from CFE_SB_send_receive [OF routing_invI [OF demo_bus_routing] quiet demo_flag demo_bus_send demo_bus_msg(1) [symmetric]
      dist rcv demo_bus_fields(9) demo_bus_pipe_ok _ view, of "-1"] slot
  obtain s1 s2 ptr old where "CFE_SB_SendMsg demo_ctx (Some 0x200) demo_bus = Some (CFE_SUCCESS, s1)"
    "CFE_SB_RcvMsg True 0 (-1) s1 = Some (CFE_SUCCESS, Some ptr, s2)"
    "Msgs s2 ptr = sent_msg 0x0801 8 True (SeqCnt (RoutingTbl demo_bus (unat (MsgMap demo_bus (unat (0x0801 :: u16)) - 1))) + 1)
       (Msgs demo_bus 0x200) old"
    by (auto simp: demo_bus_receivers demo_bus_msg)
  moreover have "Msgs demo_bus 0x200 1 = 0x01" unfolding demo_bus_fields(2) by (simp add: demo_pipe_def)
  ultimately show ?thesis
    by (auto simp: sent_msg_def Let_def CFE_SB_SetMsgSeqCnt_def CCSDS_WR_SEQ_def intro!: exI)
qed

definition demo_queue2 :: "addr OS_queues" where
  "demo_queue2 = snd (OS_QueuePut 0x20001 (Some 0x1234) 4 demo_queue1)"


end
