(* ===== verification/TIME_Math.thy ===== *)
theory TIME_Math
  imports SB_Msg
begin

text \<open>
  The arithmetic of cFE Time Services (\<^verbatim>\<open>cfe_time_api.c\<close>): a time is a count of seconds and of
  fractions of \<open>2\<^sup>-\<^sup>3\<^sup>2\<close> seconds, both 32 bits wide, and every routine below works on the two halves
  with the wrap-around of the machine.

  \<^item> \<open>ticks\<close> reads a time as one 64-bit count; adding and subtracting times is 64-bit arithmetic.
  \<^item> \<open>CFE_TIME_Compare\<close> orders times across the roll-over of the seconds counter.
  \<^item> The conversions between fractions and microseconds stay in range, and a round trip loses at
    most one microsecond.
  \<^item> The conversions between the cFE epoch and the file-system epoch.
  \<^item> \<open>CFE_TIME_Print\<close>: the printed text is the calendar date of the time; the loop that counts the
    years is a terminating \<open>function\<close>.
\<close>

section \<open>Times\<close>

datatype CFE_TIME_Compare_t = CFE_TIME_A_LT_B | CFE_TIME_EQUAL | CFE_TIME_A_GT_B

abbreviation sys_time :: "u32 \<Rightarrow> u32 \<Rightarrow> CFE_TIME_SysTime_t" where
  "sys_time s f \<equiv> \<lparr>Seconds = s, Subseconds = f\<rparr>"

definition CFE_TIME_NEGATIVE :: u32 where "CFE_TIME_NEGATIVE = 0x80000000"
definition CFE_MISSION_TIME_FS_FACTOR :: int where "CFE_MISSION_TIME_FS_FACTOR = 789004800"
definition CFE_MISSION_TIME_EPOCH_YEAR :: u32 where "CFE_MISSION_TIME_EPOCH_YEAR = 1980"
definition CFE_MISSION_TIME_EPOCH_DAY :: u32 where "CFE_MISSION_TIME_EPOCH_DAY = 1"
definition CFE_MISSION_TIME_EPOCH_HOUR :: u32 where "CFE_MISSION_TIME_EPOCH_HOUR = 0"
definition CFE_MISSION_TIME_EPOCH_MINUTE :: u32 where "CFE_MISSION_TIME_EPOCH_MINUTE = 0"
definition CFE_MISSION_TIME_EPOCH_SECOND :: u32 where "CFE_MISSION_TIME_EPOCH_SECOND = 0"

lemmas time_cfg_defs =
  CFE_TIME_NEGATIVE_def CFE_MISSION_TIME_FS_FACTOR_def CFE_MISSION_TIME_EPOCH_YEAR_def
  CFE_MISSION_TIME_EPOCH_DAY_def CFE_MISSION_TIME_EPOCH_HOUR_def CFE_MISSION_TIME_EPOCH_MINUTE_def
  CFE_MISSION_TIME_EPOCH_SECOND_def

definition CFE_TIME_Add :: "CFE_TIME_SysTime_t \<Rightarrow> CFE_TIME_SysTime_t \<Rightarrow> CFE_TIME_SysTime_t" where
  "CFE_TIME_Add Time1 Time2 =
     (let sub = Subseconds Time1 + Subseconds Time2 in
      if sub < Subseconds Time1
      then \<lparr>Seconds = (Seconds Time1 + Seconds Time2) + 1, Subseconds = sub\<rparr>
      else \<lparr>Seconds = Seconds Time1 + Seconds Time2, Subseconds = sub\<rparr>)"

definition CFE_TIME_Subtract :: "CFE_TIME_SysTime_t \<Rightarrow> CFE_TIME_SysTime_t \<Rightarrow> CFE_TIME_SysTime_t" where
  "CFE_TIME_Subtract Time1 Time2 =
     (let sub = Subseconds Time1 - Subseconds Time2 in
      if sub > Subseconds Time1
      then \<lparr>Seconds = (Seconds Time1 - Seconds Time2) - 1, Subseconds = sub\<rparr>
      else \<lparr>Seconds = Seconds Time1 - Seconds Time2, Subseconds = sub\<rparr>)"

definition CFE_TIME_Compare :: "CFE_TIME_SysTime_t \<Rightarrow> CFE_TIME_SysTime_t \<Rightarrow> CFE_TIME_Compare_t" where
  "CFE_TIME_Compare TimeA TimeB =
     (if Seconds TimeA > Seconds TimeB then
        (if Seconds TimeA - Seconds TimeB > CFE_TIME_NEGATIVE
         then CFE_TIME_A_LT_B else CFE_TIME_A_GT_B)
      else if Seconds TimeA < Seconds TimeB then
        (if Seconds TimeB - Seconds TimeA > CFE_TIME_NEGATIVE
         then CFE_TIME_A_GT_B else CFE_TIME_A_LT_B)
      else if Subseconds TimeA > Subseconds TimeB then CFE_TIME_A_GT_B
      else if Subseconds TimeA < Subseconds TimeB then CFE_TIME_A_LT_B
      else CFE_TIME_EQUAL)"

section \<open>Microseconds and file-system seconds\<close>

definition CFE_TIME_Sub2MicroSecs :: "u32 \<Rightarrow> u32" where
  "CFE_TIME_Sub2MicroSecs SubSeconds =
     (if SubSeconds > 0xffffdf00 then 999999
      else
        let MicroSeconds = drop_bit 12 (drop_bit 7 (drop_bit 7 SubSeconds * 125) * 125);
            MicroSeconds = (if SubSeconds AND 0x3ffffff \<noteq> 0 then MicroSeconds + 1 else MicroSeconds)
        in if MicroSeconds > 500000 then MicroSeconds - 1 else MicroSeconds)"

definition CFE_TIME_Micro2SubSecs :: "u32 \<Rightarrow> u32" where
  "CFE_TIME_Micro2SubSecs MicroSeconds =
     (if MicroSeconds > 999999 then 0xFFFFFFFF
      else
        let SubSeconds = push_bit 12 (push_bit 3 (push_bit 11 MicroSeconds div 5) div 3125)
        in if SubSeconds > 0x80001000 then SubSeconds + 0x1000 else SubSeconds)"

definition CFE_TIME_CFE2FSSeconds :: "u32 \<Rightarrow> u32" where
  "CFE_TIME_CFE2FSSeconds SecondsCFE =
     (let ConvertFactor = CFE_MISSION_TIME_FS_FACTOR;
          SecondsFS = SecondsCFE + word_of_int ConvertFactor
      in if ConvertFactor < 0
         then (if word_of_int (- ConvertFactor) > SecondsCFE then 0 else SecondsFS)
         else SecondsFS)"

definition CFE_TIME_FS2CFESeconds :: "u32 \<Rightarrow> u32" where
  "CFE_TIME_FS2CFESeconds SecondsFS =
     (let ConvertFactor = CFE_MISSION_TIME_FS_FACTOR;
          SecondsCFE = SecondsFS - word_of_int ConvertFactor
      in if word_of_int ConvertFactor > SecondsFS then 0 else SecondsCFE)"

section \<open>Printing\<close>

definition DaysInThisYear :: "u32 \<Rightarrow> u32" where
  "DaysInThisYear NumberOfYears =
     (if NumberOfYears mod 4 = 0
      then if NumberOfYears mod 100 \<noteq> 0 then 366
           else if NumberOfYears mod 400 = 0 then 366 else 365
      else 365)"

text \<open>The loop that carries whole minutes out of the seconds, and the loop that carries whole years
  out of the days; both return the pair of what was counted and what is left.\<close>

function Print_minutes :: "u32 \<Rightarrow> u32 \<Rightarrow> u32 \<times> u32" where
  "Print_minutes NumberOfMinutes NumberOfSeconds =
     (if NumberOfSeconds \<ge> 60 then Print_minutes (NumberOfMinutes + 1) (NumberOfSeconds - 60)
      else (NumberOfMinutes, NumberOfSeconds))"
  by pat_completeness auto
termination
  by (relation "measure (\<lambda>(_, s). unat s)") (auto simp: unat_sub word_le_nat_alt)

function Print_years :: "u32 \<Rightarrow> u32 \<Rightarrow> u32 \<times> u32" where
  "Print_years NumberOfYears NumberOfDays =
     (if NumberOfDays < DaysInThisYear NumberOfYears then (NumberOfYears, NumberOfDays)
      else Print_years (NumberOfYears + 1) (NumberOfDays - DaysInThisYear NumberOfYears))"
  by pat_completeness auto
termination
proof (relation "measure (\<lambda>(_, d). unat d)", goal_cases)
  case (2 y d)
  have "0 < unat (DaysInThisYear y)" by (simp add: DaysInThisYear_def)
  with 2 show ?case by (simp add: unat_sub word_le_nat_alt not_less)
qed simp

declare Print_minutes.simps [simp del] Print_years.simps [simp del]

text \<open>One character: \<^verbatim>\<open>'0' + (char) n\<close>.\<close>

definition print_digit :: "u32 \<Rightarrow> u8" where
  "print_digit n = 0x30 + ucast n"

definition CFE_TIME_Print :: "CFE_TIME_SysTime_t \<Rightarrow> u8 list" where
  "CFE_TIME_Print TimeToPrint =
     (let NumberOfMinutes = Seconds TimeToPrint div 60 + CFE_MISSION_TIME_EPOCH_MINUTE;
          NumberOfSeconds = Seconds TimeToPrint mod 60 + CFE_MISSION_TIME_EPOCH_SECOND;
          (NumberOfMinutes, NumberOfSeconds) = Print_minutes NumberOfMinutes NumberOfSeconds;
          NumberOfHours = NumberOfMinutes div 60 + CFE_MISSION_TIME_EPOCH_HOUR;
          NumberOfMinutes = NumberOfMinutes mod 60;
          NumberOfDays = NumberOfHours div 24 + (CFE_MISSION_TIME_EPOCH_DAY - 1);
          NumberOfHours = NumberOfHours mod 24;
          (NumberOfYears, NumberOfDays) = Print_years CFE_MISSION_TIME_EPOCH_YEAR NumberOfDays;
          NumberOfDays = NumberOfDays + 1;
          NumberOfMicros = CFE_TIME_Sub2MicroSecs (Subseconds TimeToPrint) div 10
      in [print_digit (NumberOfYears div 1000),
          print_digit (NumberOfYears mod 1000 div 100),
          print_digit (NumberOfYears mod 1000 mod 100 div 10),
          print_digit (NumberOfYears mod 1000 mod 100 mod 10),
          0x2D,
          print_digit (NumberOfDays div 100),
          print_digit (NumberOfDays mod 100 div 10),
          print_digit (NumberOfDays mod 100 mod 10),
          0x2D,
          print_digit (NumberOfHours div 10),
          print_digit (NumberOfHours mod 10),
          0x3A,
          print_digit (NumberOfMinutes div 10),
          print_digit (NumberOfMinutes mod 10),
          0x3A,
          print_digit (NumberOfSeconds div 10),
          print_digit (NumberOfSeconds mod 10),
          0x2E,
          print_digit (NumberOfMicros div 10000),
          print_digit (NumberOfMicros mod 10000 div 1000),
          print_digit (NumberOfMicros mod 10000 mod 1000 div 100),
          print_digit (NumberOfMicros mod 10000 mod 1000 mod 100 div 10),
          print_digit (NumberOfMicros mod 10000 mod 1000 mod 100 mod 10),
          0])"


section \<open>Times as one 64-bit count\<close>

definition ticks :: "CFE_TIME_SysTime_t \<Rightarrow> nat" where
  "ticks t = unat (Seconds t) * 2 ^ 32 + unat (Subseconds t)"

definition time_of :: "nat \<Rightarrow> CFE_TIME_SysTime_t" where
  "time_of n = \<lparr>Seconds = of_nat (n div 2 ^ 32), Subseconds = of_nat n\<rparr>"

lemma unat_u32_less: "unat (w::u32) < 2 ^ 32"
  using unsigned_less [of w] by simp

lemma u32_wrap [simp]: "(4294967296::u32) = 0"
  by transfer simp

lemma ticks_less: "ticks t < 2 ^ 64"
  using unat_u32_less [of "Seconds t"] unat_u32_less [of "Subseconds t"]
  by (simp add: ticks_def)

lemma time_of_ticks [simp]: "time_of (ticks t) = t"
  using unat_u32_less [of "Subseconds t"]
  by (simp add: time_of_def ticks_def)

lemma ticks_time_of [simp]: "ticks (time_of n) = n mod 2 ^ 64"
proof -
  have "n mod 2 ^ 64 = 2 ^ 32 * (n div 2 ^ 32 mod 2 ^ 32) + n mod 2 ^ 32"
    using mod_mult2_eq [of n "2 ^ 32" "2 ^ 32"] by simp
  then show ?thesis
    by (simp add: ticks_def time_of_def unsigned_of_nat take_bit_eq_mod)
qed

lemma ticks_eq_iff: "ticks a = ticks b \<longleftrightarrow> a = b"
  by (metis time_of_ticks)

lemma time_of_eq_iff: "time_of m = time_of n \<longleftrightarrow> m mod 2 ^ 64 = n mod 2 ^ 64"
  by (metis ticks_eq_iff ticks_time_of)

lemma Add_Subtract [simp]: "CFE_TIME_Add (CFE_TIME_Subtract a b) b = a"
  by (simp add: CFE_TIME_Add_def CFE_TIME_Subtract_def Let_def)

lemma Subtract_Add [simp]: "CFE_TIME_Subtract (CFE_TIME_Add a b) b = a"
  by (simp add: CFE_TIME_Add_def CFE_TIME_Subtract_def Let_def)

lemma unat_add_carry: "a + b < (a::u32) \<longleftrightarrow> 2 ^ 32 \<le> unat a + unat b"
proof -
  have "unat (a + b) = (if unat a + unat b < 2 ^ 32 then unat a + unat b else unat a + unat b - 2 ^ 32)"
    using unat_u32_less [of a] unat_u32_less [of b]
    by (auto simp: unat_word_ariths(1) le_mod_geq)
  then show ?thesis
    using unat_u32_less [of a] unat_u32_less [of b] by (auto simp: word_less_nat_alt)
qed

lemma Add_time_of: "CFE_TIME_Add a b = time_of (ticks a + ticks b)"
proof -
  let ?s = "unat (Seconds a) + unat (Seconds b)"
  let ?f = "unat (Subseconds a) + unat (Subseconds b)"
  have sum: "ticks a + ticks b = ?s * 2 ^ 32 + ?f"
    by (simp add: ticks_def algebra_simps)
  have f: "of_nat ?f = Subseconds a + Subseconds b" by simp
  have "?f div 2 ^ 32 = (if 2 ^ 32 \<le> ?f then 1 else 0)"
    using unat_u32_less [of "Subseconds a"] unat_u32_less [of "Subseconds b"]
    by (auto simp: div_nat_eqI)
  then have "(ticks a + ticks b) div 2 ^ 32 = (if 2 ^ 32 \<le> ?f then ?s + 1 else ?s)"
    unfolding sum by (subst div_mult_self3) auto
  then show ?thesis
    by (auto simp: CFE_TIME_Add_def time_of_def Let_def unat_add_carry sum)
qed

lemma Subtract_time_of: "CFE_TIME_Subtract a b = time_of (ticks a + 2 ^ 64 - ticks b)"
proof -
  have "CFE_TIME_Add (time_of (ticks a + 2 ^ 64 - ticks b)) b = a"
    using ticks_less [of a] ticks_less [of b]
    by (simp add: Add_time_of mod_simps flip: ticks_eq_iff)
  then show ?thesis by (metis Subtract_Add)
qed

section \<open>Comparison across the roll-over\<close>

definition flip_compare :: "CFE_TIME_Compare_t \<Rightarrow> CFE_TIME_Compare_t" where
  "flip_compare c = (case c of CFE_TIME_A_LT_B \<Rightarrow> CFE_TIME_A_GT_B
     | CFE_TIME_EQUAL \<Rightarrow> CFE_TIME_EQUAL | CFE_TIME_A_GT_B \<Rightarrow> CFE_TIME_A_LT_B)"

lemma Compare_flip: "CFE_TIME_Compare b a = flip_compare (CFE_TIME_Compare a b)"
  by (auto simp: CFE_TIME_Compare_def flip_compare_def)

lemma Compare_ahead:
  assumes "Seconds b = Seconds a + d" "0 < d" "d < 0x80000000"
  shows "CFE_TIME_Compare a b = CFE_TIME_A_LT_B"
proof -
  have "unat (- d) = 2 ^ 32 - unat d"
    using assms(2) unat_sub_if' [of 0 d] by (simp add: word_less_nat_alt split: if_splits)
  then have "CFE_TIME_NEGATIVE < - d" and "\<not> CFE_TIME_NEGATIVE < d"
    using assms(3) by (auto simp: word_less_nat_alt CFE_TIME_NEGATIVE_def)
  moreover have "Seconds a \<noteq> Seconds b" using assms by auto
  ultimately show ?thesis
    using assms(1) by (auto simp: CFE_TIME_Compare_def)
qed

lemma Compare_same_second:
  "Seconds a = Seconds b \<Longrightarrow> CFE_TIME_Compare a b =
     (if Subseconds a < Subseconds b then CFE_TIME_A_LT_B
      else if Subseconds a = Subseconds b then CFE_TIME_EQUAL else CFE_TIME_A_GT_B)"
  by (auto simp: CFE_TIME_Compare_def)

lemma Compare_time_of_less:
  assumes "x < y" "y div 2 ^ 32 - x div 2 ^ 32 < 2 ^ 31"
  shows "CFE_TIME_Compare (time_of x) (time_of y) = CFE_TIME_A_LT_B"
proof (cases "x div 2 ^ 32 = y div 2 ^ 32")
  case True
  then have "x mod 2 ^ 32 < y mod 2 ^ 32"
    using assms(1) by (metis div_mult_mod_eq nat_add_left_cancel_less)
  then show ?thesis
    using True by (simp add: Compare_same_second time_of_def word_less_nat_alt unsigned_of_nat take_bit_eq_mod)
next
  case False
  define d where "d = y div 2 ^ 32 - x div 2 ^ 32"
  have "x div 2 ^ 32 \<le> y div 2 ^ 32" using assms(1) by (simp add: div_le_mono)
  then have d: "y div 2 ^ 32 = x div 2 ^ 32 + d" "0 < d" "d < 2 ^ 31"
    using False assms(2) by (simp_all add: d_def)
  have "Seconds (time_of y) = Seconds (time_of x) + of_nat d"
    unfolding time_of_def d(1) by simp
  moreover have "unat (of_nat d :: u32) = d"
    using d(3) by (simp add: unsigned_of_nat take_bit_eq_mod)
  then have "0 < (of_nat d :: u32)" "(of_nat d :: u32) < 0x80000000"
    using d(2,3) by (simp_all add: word_less_nat_alt)
  ultimately show ?thesis by (rule Compare_ahead)
qed

section \<open>Microseconds\<close>

lemma unat_Micro2SubSecs:
  assumes "m \<le> (999999::u32)"
  shows "unat (CFE_TIME_Micro2SubSecs m) =
    (let s = unat m * 2048 div 5 * 8 div 3125 * 4096 in if 0x80001000 < s then s + 0x1000 else s)"
proof -
  have m: "unat m \<le> 999999" using assms by (simp add: word_le_nat_alt)
  have 1: "unat (push_bit 11 m) = unat m * 2048"
    using m by (simp add: push_bit_eq_mult unat_word_ariths)
  have 2: "unat (push_bit 3 (push_bit 11 m div 5)) = unat m * 2048 div 5 * 8"
    using m by (simp add: push_bit_eq_mult [of 3] unat_word_ariths unat_div 1)
  have 3: "unat m * 2048 div 5 * 8 div 3125 \<le> 1048574"
    using m by (simp add: div_le_mono)
  have 4: "unat (push_bit 12 (push_bit 3 (push_bit 11 m div 5) div 3125))
      = unat m * 2048 div 5 * 8 div 3125 * 4096"
    using 3 by (simp add: push_bit_eq_mult [of 12] unat_word_ariths unat_div 2)
  show ?thesis
    using assms 3 by (auto simp: CFE_TIME_Micro2SubSecs_def Let_def word_less_nat_alt 4 unat_word_ariths(1))
qed

lemma unat_Sub2MicroSecs:
  "unat (CFE_TIME_Sub2MicroSecs s) =
    (if 0xffffdf00 < unat s then 999999
     else let u = unat s div 128 * 125 div 128 * 125 div 4096 + (if unat s mod 0x4000000 = 0 then 0 else 1)
          in if 500000 < u then u - 1 else u)"
proof -
  have s: "unat s < 2 ^ 32" by (rule unat_u32_less)
  have 1: "unat (drop_bit 7 s * 125) = unat s div 128 * 125"
    using s by (simp add: unat_word_ariths unat_drop_bit_eq drop_bit_eq_div)
  have 2: "unat s div 128 * 125 div 128 * 125 < 2 ^ 32"
    using s by simp
  have 3: "unat (drop_bit 7 (drop_bit 7 s * 125) * 125) = unat s div 128 * 125 div 128 * 125"
    using s 2 by (simp add: unat_word_ariths(2) unat_drop_bit_eq drop_bit_eq_div [where 'a = nat] 1)
  have 4: "unat (drop_bit 12 (drop_bit 7 (drop_bit 7 s * 125) * 125)) = unat s div 128 * 125 div 128 * 125 div 4096"
    by (simp add: unat_drop_bit_eq drop_bit_eq_div [where 'a = nat] 3)
  have "(0x3ffffff :: u32) = mask 26" by (simp add: mask_eq_exp_minus_1)
  then have 5: "s AND 0x3ffffff = 0 \<longleftrightarrow> unat s mod 0x4000000 = 0"
    by (simp only: flip: take_bit_eq_mask) (simp add: unat_eq_0 [symmetric] take_bit_eq_mod unat_mod del: unat_eq_0)
  have 6: "unat s div 128 * 125 div 128 * 125 div 4096 \<le> 1000000"
    using s by simp
  show ?thesis
    unfolding CFE_TIME_Sub2MicroSecs_def Let_def 5
    using 6 by (auto simp: word_less_nat_alt 4 unat_word_ariths(1) unat_sub_if')
qed


text \<open>The arithmetic of the round trip: \<open>p\<close> is the count of blocks of \<open>4096\<close> fractions that stands
  for \<open>n\<close> microseconds, and \<open>v\<close> the microseconds read back from it before the corrections.\<close>

lemma div_bounds: "0 < d \<Longrightarrow> d * (x div d) \<le> x \<and> x < d * (x div d) + d" for d x :: nat
  using mult_div_mod_eq [of d x] mod_less_divisor [of d x] by linarith

lemma micro_blocks:
  fixes n :: nat
  defines "q \<equiv> n * 2048 div 5 * 8 div 3125"
  shows "15625 * q \<le> 16384 * n" "16384 * n \<le> 15625 * q + 15652"
  using div_bounds [of 5 "n * 2048"] div_bounds [of 3125 "n * 2048 div 5 * 8"]
  unfolding q_def by linarith+

lemma block_micros:
  fixes p :: nat
  defines "v \<equiv> p * 125 div 4 * 125 div 4096"
  shows "16384 * v \<le> 15625 * p" "15625 * p \<le> 16384 * v + 16755"
    and "p mod 16384 = 0 \<Longrightarrow> 16384 * v = 15625 * p"
proof -
  show "16384 * v \<le> 15625 * p" "15625 * p \<le> 16384 * v + 16755"
    using div_bounds [of 4 "p * 125"] div_bounds [of 4096 "p * 125 div 4 * 125"]
    unfolding v_def by linarith+
  show "16384 * v = 15625 * p" if "p mod 16384 = 0"
  proof -
    obtain k where "p = 16384 * k" using \<open>p mod 16384 = 0\<close> by auto
    then show ?thesis by (simp add: v_def)
  qed
qed

definition sub2micro :: "nat \<Rightarrow> nat" where
  "sub2micro s =
    (if 0xffffdf00 < s then 999999
     else let u = s div 128 * 125 div 128 * 125 div 4096 + (if s mod 0x4000000 = 0 then 0 else 1)
          in if 500000 < u then u - 1 else u)"

definition micro2sub :: "nat \<Rightarrow> nat" where
  "micro2sub n =
    (let s = n * 2048 div 5 * 8 div 3125 * 4096 in if 0x80001000 < s then s + 0x1000 else s)"

lemma sub2micro_blocks:
  "sub2micro (4096 * p) =
    (if 0xffffd < p then 999999
     else let u = p * 125 div 4 * 125 div 4096 + (if p mod 16384 = 0 then 0 else 1)
          in if 500000 < u then u - 1 else u)"
proof -
  have "4096 * p div 128 * 125 div 128 = p * 125 div 4" by simp
  moreover have "4096 * p mod 0x4000000 = 4096 * (p mod 16384)"
    using mult_mod_right [of 4096 p 16384] by simp
  moreover have "0xffffdf00 < 4096 * p \<longleftrightarrow> 0xffffd < p" by (rule iffI; linarith)
  ultimately show ?thesis by (simp add: sub2micro_def)
qed

lemma sub2micro_micro2sub_low:
  assumes "n \<le> 500000" shows "sub2micro (micro2sub n) = n"
proof -
  define q where "q = n * 2048 div 5 * 8 div 3125"
  define v where "v = q * 125 div 4 * 125 div 4096"
  note q = micro_blocks [of n, folded q_def] and v = block_micros [of q, folded v_def]
  have "q \<le> 524288" using q assms by linarith
  then have "micro2sub n = 4096 * q" by (simp add: micro2sub_def q_def)
  moreover have "v = n" if "q mod 16384 = 0" using v(3) [OF that] q by linarith
  moreover have "v + 1 = n" if "q mod 16384 \<noteq> 0"
  proof -
    have "15625 * q \<noteq> 16384 * n"
    proof
      assume "15625 * q = 16384 * n"
      then have "16384 dvd 15625 * q" by simp
      moreover have "coprime (16384::nat) 15625" by (simp add: coprime_iff_gcd_eq_1 gcd_non_0_nat)
      ultimately have "16384 dvd q" by (simp add: coprime_dvd_mult_right_iff)
      with that show False by auto
    qed
    then show ?thesis using q v(1,2) by linarith
  qed
  ultimately show ?thesis
    using assms \<open>q \<le> 524288\<close> by (simp add: sub2micro_blocks v_def [symmetric])
qed

lemma sub2micro_micro2sub_high:
  assumes "500000 < n" "n \<le> 999999"
  shows "sub2micro (micro2sub n) \<le> n + 1 \<and> n \<le> sub2micro (micro2sub n) + 1"
proof -
  define q where "q = n * 2048 div 5 * 8 div 3125"
  define p where "p = (if 524289 < q then q + 1 else q)"
  define v where "v = p * 125 div 4 * 125 div 4096"
  note q = micro_blocks [of n, folded q_def] and v = block_micros [of p, folded v_def]
  have "micro2sub n = 4096 * p" by (simp add: micro2sub_def q_def p_def Let_def)
  then have r: "sub2micro (micro2sub n) =
     (if 0xffffd < p then 999999
      else let u = v + (if p mod 16384 = 0 then 0 else 1) in if 500000 < u then u - 1 else u)"
    by (simp add: sub2micro_blocks v_def)
  show ?thesis
  proof (cases "524289 < q")
    case True
    then have p: "p = q + 1" by (simp add: p_def)
    have "v \<le> n" "n \<le> v + 1" "500000 < v" using True p q v(1,2) assms by linarith+
    moreover have "n \<le> v" if "p mod 16384 = 0" using v(3) [OF that] p q by linarith
    moreover have "999998 \<le> n" if "0xffffd < p" using that p q by linarith
    ultimately show ?thesis using assms by (auto simp: r Let_def)
  next
    case False
    then have p: "p = q" by (simp add: p_def)
    have "v = 500000" "n = 500001" using False p q v(1,2) assms by linarith+
    then show ?thesis unfolding r using False p by (auto simp: Let_def)
  qed
qed

section \<open>The printed calendar date\<close>

definition year_days :: "nat \<Rightarrow> nat" where
  "year_days y = (if 4 dvd y \<and> (\<not> 100 dvd y \<or> 400 dvd y) then 366 else 365)"

fun dec :: "nat \<Rightarrow> nat \<Rightarrow> u8 list" where
  "dec 0 n = []"
| "dec (Suc w) n = dec w (n div 10) @ [0x30 + of_nat (n mod 10)]"

lemma unat_DaysInThisYear: "unat (DaysInThisYear y) = year_days (unat y)"
proof -
  have "y mod k = 0 \<longleftrightarrow> unat k dvd unat y" for k :: u32
    by (simp add: unat_eq_0 [symmetric] unat_mod dvd_eq_mod_eq_0 del: unat_eq_0)
  then show ?thesis by (auto simp: DaysInThisYear_def year_days_def)
qed

lemma Print_years_spec:
  assumes "Print_years y d = (y', d')" "unat y + unat d < 2 ^ 32"
  shows "unat y \<le> unat y' \<and> unat d' < year_days (unat y')
    \<and> unat d = (\<Sum>k = unat y..<unat y'. year_days k) + unat d'"
  using assms
proof (induction y d rule: Print_years.induct)
  case (1 y d)
  show ?case
  proof (cases "d < DaysInThisYear y")
    case True
    with 1(2) show ?thesis
      by (auto simp: Print_years.simps [of y d] word_less_nat_alt unat_DaysInThisYear)
  next
    case False
    have le: "year_days (unat y) \<le> unat d" "0 < year_days (unat y)"
      using False by (auto simp: word_less_nat_alt unat_DaysInThisYear year_days_def)
    have y: "unat (y + 1) = unat y + 1"
      using le 1(3) by (simp add: unat_word_ariths(1))
    have d: "unat (d - DaysInThisYear y) = unat d - year_days (unat y)"
      using False by (simp add: unat_sub not_less unat_DaysInThisYear)
    have IH: "unat y + 1 \<le> unat y' \<and> unat d' < year_days (unat y')
        \<and> unat d - year_days (unat y) = (\<Sum>k = unat y + 1..<unat y'. year_days k) + unat d'"
      using 1(1) [OF False] 1(2,3) False le
      by (simp add: Print_years.simps [of y d] y d)
    then show ?thesis
      using le sum.atLeast_Suc_lessThan [of "unat y" "unat y'" year_days] by auto
  qed
qed

lemma year_sum_bound: "365 * (b - a) \<le> (\<Sum>k = a..<b. year_days k)"
proof -
  have "(\<Sum>k = a..<b. 365) \<le> (\<Sum>k = a..<b. year_days k)"
    by (rule sum_mono) (simp add: year_days_def)
  then show ?thesis by simp
qed

lemma Print_minutes_done: "s < 60 \<Longrightarrow> Print_minutes m s = (m, s)"
  by (simp add: Print_minutes.simps [of m s] not_le [symmetric])

lemma print_digit_nat: "print_digit n = 0x30 + of_nat (unat n)"
  by (simp add: print_digit_def)

lemma mod_div_digit: "0 < b \<Longrightarrow> n mod (b * 10) div b = n div b mod 10" for n b :: nat
  by (simp add: mod_mult2_eq)

lemma nat_digits:
  fixes n :: nat
  shows "n mod 10000 div 1000 = n div 1000 mod 10" "n mod 1000 div 100 = n div 100 mod 10"
    "n mod 100 div 10 = n div 10 mod 10"
    "n mod 10000 mod 1000 = n mod 1000" "n mod 1000 mod 100 = n mod 100" "n mod 100 mod 10 = n mod 10"
  using mod_div_digit [of 1000 n] mod_div_digit [of 100 n] mod_div_digit [of 10 n]
  by (simp_all add: mod_mod_cancel)

lemma dec_numeral: "dec (numeral k) n = dec (pred_numeral k) (n div 10) @ [0x30 + of_nat (n mod 10)]"
  by (simp only: numeral_eq_Suc [of k] dec.simps)

lemma dec_digits:
  "dec 2 n = [0x30 + of_nat (n div 10 mod 10), 0x30 + of_nat (n mod 10)]"
  "dec 3 n = [0x30 + of_nat (n div 100 mod 10), 0x30 + of_nat (n div 10 mod 10), 0x30 + of_nat (n mod 10)]"
  "dec 4 n = (0x30 + of_nat (n div 1000 mod 10)) # dec 3 n"
  "dec 5 n = (0x30 + of_nat (n div 10000 mod 10)) # dec 4 n"
  by (simp_all add: dec_numeral div_mult2_eq [symmetric])

lemma dec_print:
  "unat n < 100 \<Longrightarrow> dec 2 (unat n) = [print_digit (n div 10), print_digit (n mod 10)]"
  "unat n < 1000 \<Longrightarrow> dec 3 (unat n) =
     [print_digit (n div 100), print_digit (n mod 100 div 10), print_digit (n mod 100 mod 10)]"
  "unat n < 10000 \<Longrightarrow> dec 4 (unat n) =
     [print_digit (n div 1000), print_digit (n mod 1000 div 100),
      print_digit (n mod 1000 mod 100 div 10), print_digit (n mod 1000 mod 100 mod 10)]"
  "unat n < 100000 \<Longrightarrow> dec 5 (unat n) =
     [print_digit (n div 10000), print_digit (n mod 10000 div 1000),
      print_digit (n mod 10000 mod 1000 div 100), print_digit (n mod 10000 mod 1000 mod 100 div 10),
      print_digit (n mod 10000 mod 1000 mod 100 mod 10)]"
  by (simp_all add: dec_digits print_digit_nat unat_div unat_mod nat_digits)

lemma sub2micro_le: "sub2micro s \<le> 999999"
proof (cases "0xffffdf00 < s")
  case False
  then have "s div 128 * 125 div 128 * 125 div 4096 < 999999"
    using div_bounds [of 4096 "s div 128 * 125 div 128 * 125"] div_bounds [of 128 "s div 128 * 125"]
      div_bounds [of 128 s] by linarith
  then show ?thesis by (auto simp: sub2micro_def Let_def)
qed (simp add: sub2micro_def)

lemma unat_Sub2Micro: "unat (CFE_TIME_Sub2MicroSecs s) = sub2micro (unat s)"
  by (simp add: unat_Sub2MicroSecs sub2micro_def)

lemma unat_Micro2Sub: "m \<le> 999999 \<Longrightarrow> unat (CFE_TIME_Micro2SubSecs m) = micro2sub (unat m)"
  by (simp add: unat_Micro2SubSecs micro2sub_def)

lemma FS_round_trip:
  "CFE_TIME_FS2CFESeconds (CFE_TIME_CFE2FSSeconds s) =
     (if unat s < 2 ^ 32 - 789004800 then s else 0)"
  using unat_u32_less [of s]
  by (auto simp: CFE_TIME_FS2CFESeconds_def CFE_TIME_CFE2FSSeconds_def CFE_MISSION_TIME_FS_FACTOR_def
    word_less_nat_alt unat_word_ariths(1) le_mod_geq)

lemma hms_split:
  fixes n :: nat
  shows "n = ((n div 60 div 60 div 24 * 24 + n div 60 div 60 mod 24) * 60 + n div 60 mod 60) * 60 + n mod 60"
  by (simp add: div_mult_mod_eq)

definition date_text :: "nat \<Rightarrow> nat \<Rightarrow> nat \<Rightarrow> nat \<Rightarrow> nat \<Rightarrow> nat \<Rightarrow> u8 list" where
  "date_text y d h m s u = dec 4 y @ [0x2D] @ dec 3 d @ [0x2D] @ dec 2 h @ [0x3A] @ dec 2 m
     @ [0x3A] @ dec 2 s @ [0x2E] @ dec 5 u @ [0]"

lemma Print_text:
  fixes t :: CFE_TIME_SysTime_t
  defines "n \<equiv> unat (Seconds t)"
  assumes "Print_years 1980 (Seconds t div 60 div 60 div 24) = (y, d)"
    and "unat y < 10000" "unat d < 999"
  shows "CFE_TIME_Print t = date_text (unat y) (unat d + 1) (n div 60 div 60 mod 24)
    (n div 60 mod 60) (n mod 60) (unat (CFE_TIME_Sub2MicroSecs (Subseconds t)) div 10)"
proof -
  have lt: "Seconds t mod 60 < 60" by (simp add: word_less_nat_alt unat_mod)
  let ?h = "Seconds t div 60 div 60 mod 24" and ?m = "Seconds t div 60 mod 60"
  let ?s = "Seconds t mod 60" and ?u = "CFE_TIME_Sub2MicroSecs (Subseconds t) div 10"
  have d: "unat (d + 1) = unat d + 1" using assms(4) by (simp add: unat_word_ariths(1))
  have "dec 3 (unat d + 1) = [print_digit ((d + 1) div 100), print_digit ((d + 1) mod 100 div 10),
      print_digit ((d + 1) mod 100 mod 10)]"
    using dec_print(2) [of "d + 1"] assms(4) by (simp add: d)
  moreover have "dec 2 (n div 60 div 60 mod 24) = [print_digit (?h div 10), print_digit (?h mod 10)]"
    using dec_print(1) [of ?h] by (simp add: n_def unat_mod unat_div)
  moreover have "dec 2 (n div 60 mod 60) = [print_digit (?m div 10), print_digit (?m mod 10)]"
    using dec_print(1) [of ?m] by (simp add: n_def unat_mod unat_div)
  moreover have "dec 2 (n mod 60) = [print_digit (?s div 10), print_digit (?s mod 10)]"
    using dec_print(1) [of ?s] by (simp add: n_def unat_mod)
  moreover note dec_print(3) [OF assms(3)]
  moreover have "unat ?u < 100000"
    using sub2micro_le [of "unat (Subseconds t)"] by (simp add: unat_div unat_Sub2Micro)
  note dec_print(4) [OF this]
  ultimately show ?thesis
    unfolding CFE_TIME_Print_def date_text_def time_cfg_defs
    by (simp add: Print_minutes_done [OF lt] assms(2) Let_def unat_div)
qed

section \<open>Properties of the time arithmetic\<close>

text \<open>
  C25.  Adding and subtracting times on their two 32-bit halves is addition and subtraction of one
  64-bit count of fractions, modulo \<open>2\<^sup>6\<^sup>4\<close>: the carry and the borrow between the halves are found
  from the wrapped fraction alone.  Each undoes the other, on every input.
\<close>

theorem CFE_TIME_Add_Subtract_64bit:
  "ticks (CFE_TIME_Add a b) = (ticks a + ticks b) mod 2 ^ 64
   \<and> ticks (CFE_TIME_Subtract a b) = (ticks a + 2 ^ 64 - ticks b) mod 2 ^ 64
   \<and> CFE_TIME_Subtract (CFE_TIME_Add a b) b = a
   \<and> CFE_TIME_Add (CFE_TIME_Subtract a b) b = a"
proof -
  have "ticks (CFE_TIME_Subtract a b) = (ticks a + 2 ^ 64 - ticks b) mod 2 ^ 64"
    by (simp only: Subtract_time_of ticks_time_of)
  moreover have "ticks (CFE_TIME_Add a b) = (ticks a + ticks b) mod 2 ^ 64"
    by (simp only: Add_time_of ticks_time_of)
  ultimately show ?thesis by simp
qed

text \<open>
  C26.  \<open>CFE_TIME_Compare\<close> orders two instants as they lie on an unbounded time line, although each
  reaches it as a wrapped 64-bit count: as long as the instants are less than \<open>2\<^sup>3\<^sup>1\<close> whole seconds
  apart, the answer is the order of the unbounded counts, also when the seconds counter rolled over
  between them.
\<close>

theorem CFE_TIME_Compare_rollover:
  assumes "x div 2 ^ 32 < y div 2 ^ 32 + 2 ^ 31" "y div 2 ^ 32 < x div 2 ^ 32 + 2 ^ 31"
  shows "CFE_TIME_Compare (time_of x) (time_of y) =
    (if x < y then CFE_TIME_A_LT_B else if x = y then CFE_TIME_EQUAL else CFE_TIME_A_GT_B)"
proof -
  consider "x < y" | "x = y" | "y < x" by (rule linorder_cases)
  then show ?thesis
  proof cases
    case 1
    moreover have "y div 2 ^ 32 - x div 2 ^ 32 < 2 ^ 31" using assms by simp
    ultimately show ?thesis using Compare_time_of_less by simp
  next
    case 2
    then show ?thesis by (simp add: Compare_same_second)
  next
    case 3
    moreover have "x div 2 ^ 32 - y div 2 ^ 32 < 2 ^ 31" using assms by simp
    ultimately show ?thesis
      using Compare_time_of_less [of y x] Compare_flip [of "time_of x" "time_of y"]
      by (simp add: flip_compare_def)
  qed
qed

theorem CFE_TIME_Compare_rollover_witness:
  "CFE_TIME_Compare (sys_time 0xFFFFFFFF 0) (sys_time 5 0) = CFE_TIME_A_LT_B"
proof -
  have "time_of (0xFFFFFFFF * 2 ^ 32) = sys_time 0xFFFFFFFF 0" "time_of ((2 ^ 32 + 5) * 2 ^ 32) = sys_time 5 0"
    unfolding time_of_def by (simp_all add: word_uint_eq_iff)
  then show ?thesis
    using CFE_TIME_Compare_rollover [of "0xFFFFFFFF * 2 ^ 32" "(2 ^ 32 + 5) * 2 ^ 32"] by simp
qed

text \<open>
  C27.  Converting microseconds to fractions and back.  Every fraction converts to less than a
  million microseconds; for up to half a second the round trip is exact, and above it the result is
  off by at most one microsecond.
\<close>

theorem CFE_TIME_Micro_Sub_round_trip:
  assumes "m \<le> 999999"
  defines "r \<equiv> CFE_TIME_Sub2MicroSecs (CFE_TIME_Micro2SubSecs m)"
  shows "CFE_TIME_Sub2MicroSecs s \<le> 999999 \<and> (m \<le> 500000 \<longrightarrow> r = m)
    \<and> unat r \<le> unat m + 1 \<and> unat m \<le> unat r + 1"
proof -
  have r: "unat r = sub2micro (micro2sub (unat m))"
    using assms by (simp add: unat_Sub2Micro unat_Micro2Sub)
  have "CFE_TIME_Sub2MicroSecs s \<le> 999999"
    using sub2micro_le [of "unat s"] by (simp add: word_le_nat_alt unat_Sub2Micro)
  moreover have "r = m" if "m \<le> 500000"
    using that sub2micro_micro2sub_low [of "unat m"] r
    by (simp add: word_le_nat_alt flip: word_unat_eq_iff)
  moreover have "unat r \<le> unat m + 1 \<and> unat m \<le> unat r + 1"
    using assms(1) sub2micro_micro2sub_low [of "unat m"] sub2micro_micro2sub_high [of "unat m"]
    by (cases "unat m \<le> 500000") (simp_all add: r word_le_nat_alt)
  ultimately show ?thesis by blast
qed

theorem CFE_TIME_Micro_Sub_round_trip_witness:
  "CFE_TIME_Sub2MicroSecs (CFE_TIME_Micro2SubSecs 250000) = 250000"
  using CFE_TIME_Micro_Sub_round_trip [of 250000] by simp

text \<open>
  C28.  The text that \<open>CFE_TIME_Print\<close> writes is the calendar date of the time.  For every time the
  year loop ends, and the 24 characters written are year, day of the year, hour, minute, second and
  hundred-thousandths of a second in decimal, with a day that exists in that year of the Gregorian
  calendar and a time of day in range, such that the days of the years from 1980 on, the day, and the
  time of day add up to the seconds given.
\<close>

theorem CFE_TIME_Print_date:
  "\<exists>y d h m s. CFE_TIME_Print t
      = date_text y d h m s (unat (CFE_TIME_Sub2MicroSecs (Subseconds t)) div 10)
    \<and> 1980 \<le> y \<and> y < 10000 \<and> 1 \<le> d \<and> d \<le> year_days y \<and> h < 24 \<and> m < 60 \<and> s < 60
    \<and> unat (Seconds t) = (((((\<Sum>k = 1980..<y. year_days k) + (d - 1)) * 24 + h) * 60) + m) * 60 + s"
proof -
  let ?n = "unat (Seconds t)" and ?days = "Seconds t div 60 div 60 div 24"
  obtain y d where yd: "Print_years 1980 ?days = (y, d)" by fastforce
  have days: "unat ?days = ?n div 60 div 60 div 24" by (simp add: unat_div)
  have "?n div 60 div 60 div 24 < 49711"
    using unat_u32_less [of "Seconds t"] by (simp add: div_mult2_eq [symmetric] less_mult_imp_div_less)
  then have spec: "1980 \<le> unat y" "unat d < year_days (unat y)"
      "?n div 60 div 60 div 24 = (\<Sum>k = 1980..<unat y. year_days k) + unat d"
    using Print_years_spec [OF yd] days by simp_all
  have "365 * (unat y - 1980) < 49711"
    using spec(3) \<open>?n div 60 div 60 div 24 < 49711\<close> year_sum_bound [of "unat y" 1980] by linarith
  then have "unat y < 10000" by simp
  moreover have "unat d < 999" using spec(2) by (simp add: year_days_def split: if_splits)
  ultimately have printed: "CFE_TIME_Print t = date_text (unat y) (unat d + 1) (?n div 60 div 60 mod 24)
      (?n div 60 mod 60) (?n mod 60) (unat (CFE_TIME_Sub2MicroSecs (Subseconds t)) div 10)"
    using Print_text [OF yd] by blast
  have secs: "?n = (((((\<Sum>k = 1980..<unat y. year_days k) + (unat d + 1 - 1)) * 24
      + ?n div 60 div 60 mod 24) * 60) + ?n div 60 mod 60) * 60 + ?n mod 60"
    using hms_split [of ?n] unfolding spec(3) by (simp only: diff_add_inverse2)
  show ?thesis
    by (intro exI conjI, rule printed, rule spec, rule \<open>unat y < 10000\<close>) (use spec(2) secs in simp_all)
qed

end
