(* ===== verification/TIME_State.thy ===== *)
theory TIME_State
  imports TIME_Math
begin

text \<open>
  The data of Time Services and the operations on it (\<^verbatim>\<open>cfe_time_utils.h\<close>, \<^verbatim>\<open>cfe_time_utils.c\<close> and the
  clock queries of \<^verbatim>\<open>cfe_time_api.c\<close>), for the configuration of the BeagleBone target: time server,
  virtual MET, internal clock source, default time format TAI.

  The values that define the time at the last tone are kept in a ring of four slots.  An update
  copies the current slot into the next one, changes the copy and then publishes it by advancing
  \<open>LastVersionCounter\<close>; a reader copies the slot of the last version and retries when the version
  stored in the slot is not the one it started from.

  Every operation threads the record \<open>CFE_TIME_TaskData\<close>.  Beside the fields of the C structure it holds
  the two statics of \<^verbatim>\<open>CFE_TIME_ToneVerify\<close>, the part of the reset area that belongs to Time Services
  (\<open>None\<close> when \<^verbatim>\<open>CFE_PSP_GetResetArea\<close> fails), the number of calls made so far to the local clock, and
  the list of what was sent, signalled and called back, latest first.  The local clock
  \<^verbatim>\<open>CFE_PSP_GetTime\<close> is the argument \<open>psp\<close>: what its \<open>n\<close>th call returns.
\<close>

section \<open>Data\<close>

type_synonym i16 = "16 word"

record OS_time_t =
  seconds :: u32
  microsecs :: u32

type_synonym psp_clock = "nat \<Rightarrow> OS_time_t"

abbreviation CFE_TIME_ClockState_INVALID :: i16 where "CFE_TIME_ClockState_INVALID \<equiv> - 1"
abbreviation CFE_TIME_ClockState_VALID :: i16 where "CFE_TIME_ClockState_VALID \<equiv> 0"
abbreviation CFE_TIME_ClockState_FLYWHEEL :: i16 where "CFE_TIME_ClockState_FLYWHEEL \<equiv> 1"
abbreviation CFE_TIME_SourceSelect_INTERNAL :: i16 where "CFE_TIME_SourceSelect_INTERNAL \<equiv> 1"
abbreviation CFE_TIME_SourceSelect_EXTERNAL :: i16 where "CFE_TIME_SourceSelect_EXTERNAL \<equiv> 2"
abbreviation CFE_TIME_ToneSignalSelect_PRIMARY :: i16 where "CFE_TIME_ToneSignalSelect_PRIMARY \<equiv> 1"
abbreviation CFE_TIME_ToneSignalSelect_REDUNDANT :: i16 where "CFE_TIME_ToneSignalSelect_REDUNDANT \<equiv> 2"
abbreviation CFE_TIME_AdjustDirection_ADD :: i16 where "CFE_TIME_AdjustDirection_ADD \<equiv> 1"
abbreviation CFE_TIME_AdjustDirection_SUBTRACT :: i16 where "CFE_TIME_AdjustDirection_SUBTRACT \<equiv> 2"
abbreviation CFE_TIME_FlywheelState_NO_FLY :: i16 where "CFE_TIME_FlywheelState_NO_FLY \<equiv> 0"
abbreviation CFE_TIME_FlywheelState_IS_FLY :: i16 where "CFE_TIME_FlywheelState_IS_FLY \<equiv> 1"
abbreviation CFE_TIME_SetState_NOT_SET :: i16 where "CFE_TIME_SetState_NOT_SET \<equiv> 0"
abbreviation CFE_TIME_SetState_WAS_SET :: i16 where "CFE_TIME_SetState_WAS_SET \<equiv> 1"

datatype CFE_TIME_ResetArea =
    CFE_TIME_RESET_AREA_ERROR
  | CFE_TIME_RESET_AREA_BAD
  | CFE_TIME_RESET_AREA_NEW
  | CFE_TIME_RESET_AREA_EXISTING

definition CFE_TIME_REFERENCE_BUF_DEPTH :: nat where "CFE_TIME_REFERENCE_BUF_DEPTH = 4"
definition CFE_TIME_REFERENCE_BUF_MASK :: u32 where "CFE_TIME_REFERENCE_BUF_MASK = 3"
definition CFE_TIME_RESET_SIGNATURE :: u32 where "CFE_TIME_RESET_SIGNATURE = 0xA5A55A5A"
definition CFE_PLATFORM_ES_MAX_APPLICATIONS :: nat where "CFE_PLATFORM_ES_MAX_APPLICATIONS = 32"

text \<open>The values of one version of the time at the tone.\<close>

record CFE_TIME_ReferenceState_t =
  StateVersion :: u32
  AtToneLeapSeconds :: i16
  ClockSetState :: i16
  ClockFlyState :: i16
  DelayDirection :: i16
  AtToneMET :: CFE_TIME_SysTime_t
  AtToneSTCF :: CFE_TIME_SysTime_t
  AtToneDelay :: CFE_TIME_SysTime_t
  AtToneLatch :: CFE_TIME_SysTime_t

text \<open>What a reader gets: a copy of one version and the values derived from the local clock.\<close>

record CFE_TIME_Reference_t =
  Ref_AtToneMET :: CFE_TIME_SysTime_t
  Ref_AtToneSTCF :: CFE_TIME_SysTime_t
  Ref_AtToneLeapSeconds :: i16
  Ref_ClockSetState :: i16
  Ref_ClockFlyState :: i16
  Ref_DelayDirection :: i16
  Ref_AtToneDelay :: CFE_TIME_SysTime_t
  Ref_AtToneLatch :: CFE_TIME_SysTime_t
  CurrentLatch :: CFE_TIME_SysTime_t
  TimeSinceTone :: CFE_TIME_SysTime_t
  CurrentMET :: CFE_TIME_SysTime_t

record CFE_TIME_ResetVars_t =
  Signature :: u32
  Rst_LeapSeconds :: i16
  Rst_ClockSignal :: u16
  Rst_CurrentMET :: CFE_TIME_SysTime_t
  Rst_CurrentSTCF :: CFE_TIME_SysTime_t
  Rst_CurrentDelay :: CFE_TIME_SysTime_t

record CFE_TIME_ToneDataCmd_Payload_t =
  Cmd_AtToneMET :: CFE_TIME_SysTime_t
  Cmd_AtToneSTCF :: CFE_TIME_SysTime_t
  Cmd_AtToneLeapSeconds :: i16
  Cmd_AtToneState :: i16

record CFE_TIME_HousekeepingTlm_Payload_t =
  Hk_CommandCounter :: u8
  Hk_CommandErrorCounter :: u8
  Hk_ClockStateFlags :: u16
  Hk_ClockStateAPI :: i16
  Hk_LeapSeconds :: i16
  Hk_SecondsMET :: u32
  Hk_SubsecsMET :: u32
  Hk_SecondsSTCF :: u32
  Hk_SubsecsSTCF :: u32
  Hk_Seconds1HzAdj :: u32
  Hk_Subsecs1HzAdj :: u32

record CFE_TIME_DiagnosticTlm_Payload_t =
  Diag_AtToneMET :: CFE_TIME_SysTime_t
  Diag_AtToneSTCF :: CFE_TIME_SysTime_t
  Diag_AtToneDelay :: CFE_TIME_SysTime_t
  Diag_AtToneLatch :: CFE_TIME_SysTime_t
  Diag_AtToneLeapSeconds :: i16
  Diag_ClockStateAPI :: i16
  Diag_TimeSinceTone :: CFE_TIME_SysTime_t
  Diag_CurrentLatch :: CFE_TIME_SysTime_t
  Diag_CurrentMET :: CFE_TIME_SysTime_t
  Diag_CurrentTAI :: CFE_TIME_SysTime_t
  Diag_CurrentUTC :: CFE_TIME_SysTime_t
  Diag_ClockSetState :: i16
  Diag_ClockFlyState :: i16
  Diag_ClockSource :: i16
  Diag_ClockSignal :: i16
  Diag_ServerFlyState :: i16
  Diag_Forced2Fly :: i16
  Diag_ClockStateFlags :: u16
  Diag_OneTimeDirection :: i16
  Diag_OneHzDirection :: i16
  Diag_DelayDirection :: i16
  Diag_OneTimeAdjust :: CFE_TIME_SysTime_t
  Diag_OneHzAdjust :: CFE_TIME_SysTime_t
  Diag_ToneSignalLatch :: CFE_TIME_SysTime_t
  Diag_ToneDataLatch :: CFE_TIME_SysTime_t
  Diag_ToneMatchCounter :: u32
  Diag_ToneMatchErrorCounter :: u32
  Diag_ToneSignalCounter :: u32
  Diag_ToneDataCounter :: u32
  Diag_ToneIntCounter :: u32
  Diag_ToneIntErrorCounter :: u32
  Diag_ToneTaskCounter :: u32
  Diag_VersionCounter :: u32
  Diag_LocalIntCounter :: u32
  Diag_LocalTaskCounter :: u32
  Diag_VirtualMET :: u32
  Diag_MinElapsed :: u32
  Diag_MaxElapsed :: u32
  Diag_MaxLocalClock :: CFE_TIME_SysTime_t
  Diag_ToneOverLimit :: u32
  Diag_ToneUnderLimit :: u32
  Diag_DataStoreStatus :: CFE_TIME_ResetArea

text \<open>The messages sent (with the time stamped on a telemetry packet), events, semaphores given and
  callbacks called.\<close>

datatype time_out =
    Send_HK CFE_TIME_HousekeepingTlm_Payload_t CFE_TIME_SysTime_t
  | Send_Diag CFE_TIME_DiagnosticTlm_Payload_t CFE_TIME_SysTime_t
  | Send_ToneData CFE_TIME_ToneDataCmd_Payload_t
  | Send_ToneSignal
  | Send_Local1Hz
  | Event u16
  | Give_ToneSemaphore
  | Give_LocalSemaphore
  | Callback addr

record CFE_TIME_TaskData =
  CommandCounter :: u8
  CommandErrorCounter :: u8
  ClockSource :: i16
  ClockSignal :: i16
  ServerFlyState :: i16
  PendingMET :: CFE_TIME_SysTime_t
  PendingSTCF :: CFE_TIME_SysTime_t
  PendingLeaps :: i16
  PendingState :: i16
  OneTimeAdjust :: CFE_TIME_SysTime_t
  OneHzAdjust :: CFE_TIME_SysTime_t
  OneTimeDirection :: i16
  OneHzDirection :: i16
  ToneSignalLatch :: CFE_TIME_SysTime_t
  ToneDataLatch :: CFE_TIME_SysTime_t
  ToneMatchCounter :: u32
  ToneMatchErrorCounter :: u32
  ToneSignalCounter :: u32
  ToneDataCounter :: u32
  ToneIntCounter :: u32
  ToneIntErrorCounter :: u32
  ToneTaskCounter :: u32
  VirtualMET :: u32
  LocalIntCounter :: u32
  LocalTaskCounter :: u32
  InternalCount :: u32
  ExternalCount :: u32
  ReferenceState :: "CFE_TIME_ReferenceState_t list"
  LastVersionCounter :: u32
  ResetVersionCounter :: u32
  MinElapsed :: u32
  MaxElapsed :: u32
  MaxLocalClock :: CFE_TIME_SysTime_t
  Forced2Fly :: bool
  AutoStartFly :: bool
  IsToneGood :: bool
  MaxDelta :: CFE_TIME_SysTime_t
  ToneOverLimit :: u32
  ToneUnderLimit :: u32
  DataStoreStatus :: CFE_TIME_ResetArea
  SynchCallback :: "addr list"
  PrevTime1 :: CFE_TIME_SysTime_t
  PrevTime2 :: CFE_TIME_SysTime_t
  TimeResetVars :: "CFE_TIME_ResetVars_t option"
  PspCalls :: nat
  Out :: "time_out list"

definition emit :: "time_out \<Rightarrow> CFE_TIME_TaskData \<Rightarrow> CFE_TIME_TaskData" where
  "emit e s = s\<lparr>Out := e # Out s\<rparr>"

section \<open>Updating the reference\<close>

definition ref_slot :: "u32 \<Rightarrow> nat" where
  "ref_slot Version = unat (Version AND CFE_TIME_REFERENCE_BUF_MASK)"

definition ref_upd :: "nat \<Rightarrow> (CFE_TIME_ReferenceState_t \<Rightarrow> CFE_TIME_ReferenceState_t)
    \<Rightarrow> CFE_TIME_TaskData \<Rightarrow> CFE_TIME_TaskData" where
  "ref_upd i f s = s\<lparr>ReferenceState := (ReferenceState s)[i := f (ReferenceState s ! i)]\<rparr>"

definition CFE_TIME_StartReferenceUpdate :: "CFE_TIME_TaskData \<Rightarrow> nat \<times> CFE_TIME_TaskData" where
  "CFE_TIME_StartReferenceUpdate s =
     (let Version = LastVersionCounter s;
          CurrState = ref_slot Version;
          Version = Version + 1;
          NextState = ref_slot Version;
          s = ref_upd NextState (StateVersion_update (\<lambda>_. Version)) s;
          s = ref_upd NextState (AtToneLeapSeconds_update (\<lambda>_. AtToneLeapSeconds (ReferenceState s ! CurrState))) s;
          s = ref_upd NextState (ClockSetState_update (\<lambda>_. ClockSetState (ReferenceState s ! CurrState))) s;
          s = ref_upd NextState (ClockFlyState_update (\<lambda>_. ClockFlyState (ReferenceState s ! CurrState))) s;
          s = ref_upd NextState (DelayDirection_update (\<lambda>_. DelayDirection (ReferenceState s ! CurrState))) s;
          s = ref_upd NextState (AtToneMET_update (\<lambda>_. AtToneMET (ReferenceState s ! CurrState))) s;
          s = ref_upd NextState (AtToneSTCF_update (\<lambda>_. AtToneSTCF (ReferenceState s ! CurrState))) s;
          s = ref_upd NextState (AtToneDelay_update (\<lambda>_. AtToneDelay (ReferenceState s ! CurrState))) s;
          s = ref_upd NextState (AtToneLatch_update (\<lambda>_. AtToneLatch (ReferenceState s ! CurrState))) s
      in (NextState, s))"

definition CFE_TIME_FinishReferenceUpdate :: "nat \<Rightarrow> CFE_TIME_TaskData \<Rightarrow> CFE_TIME_TaskData" where
  "CFE_TIME_FinishReferenceUpdate NextState s =
     s\<lparr>LastVersionCounter := StateVersion (ReferenceState s ! NextState)\<rparr>"

definition CFE_TIME_GetReferenceState :: "CFE_TIME_TaskData \<Rightarrow> CFE_TIME_ReferenceState_t" where
  "CFE_TIME_GetReferenceState s = ReferenceState s ! ref_slot (LastVersionCounter s)"

definition CFE_TIME_LatchClock :: "psp_clock \<Rightarrow> CFE_TIME_TaskData
    \<Rightarrow> CFE_TIME_SysTime_t \<times> CFE_TIME_TaskData" where
  "CFE_TIME_LatchClock psp s =
     (let LocalTime = psp (PspCalls s)
      in (\<lparr>Seconds = seconds LocalTime, Subseconds = CFE_TIME_Micro2SubSecs (microsecs LocalTime)\<rparr>,
          s\<lparr>PspCalls := PspCalls s + 1\<rparr>))"

section \<open>Reading the reference\<close>

primrec GetReference_loop :: "psp_clock \<Rightarrow> nat \<Rightarrow> CFE_TIME_TaskData
    \<Rightarrow> CFE_TIME_SysTime_t \<times> CFE_TIME_ReferenceState_t \<times> CFE_TIME_TaskData" where
  "GetReference_loop psp 0 s =
     (let RefState = ReferenceState s ! ref_slot (LastVersionCounter s);
          (latch, s) = CFE_TIME_LatchClock psp s
      in (latch, RefState, s))"
| "GetReference_loop psp (Suc RetryCount) s =
     (let VersionCounter = LastVersionCounter s;
          RefState = ReferenceState s ! ref_slot VersionCounter;
          (latch, s) = CFE_TIME_LatchClock psp s
      in if VersionCounter = StateVersion RefState then (latch, RefState, s)
         else GetReference_loop psp RetryCount s)"

definition elapsed_since :: "CFE_TIME_SysTime_t \<Rightarrow> CFE_TIME_SysTime_t \<Rightarrow> CFE_TIME_SysTime_t
    \<Rightarrow> CFE_TIME_SysTime_t" where
  "elapsed_since maxClock latch atTone =
     (if CFE_TIME_Compare latch atTone = CFE_TIME_A_LT_B
      then CFE_TIME_Add (CFE_TIME_Subtract maxClock atTone) latch
      else CFE_TIME_Subtract latch atTone)"

definition CFE_TIME_GetReference :: "psp_clock \<Rightarrow> CFE_TIME_TaskData
    \<Rightarrow> CFE_TIME_Reference_t \<times> CFE_TIME_TaskData" where
  "CFE_TIME_GetReference psp s =
     (let (latch, RefState, s) = GetReference_loop psp 4 s;
          since = elapsed_since (MaxLocalClock s) latch (AtToneLatch RefState);
          met = CFE_TIME_Add since (AtToneMET RefState)
      in (\<lparr>Ref_AtToneMET = AtToneMET RefState,
           Ref_AtToneSTCF = AtToneSTCF RefState,
           Ref_AtToneLeapSeconds = AtToneLeapSeconds RefState,
           Ref_ClockSetState = ClockSetState RefState,
           Ref_ClockFlyState = ClockFlyState RefState,
           Ref_DelayDirection = DelayDirection RefState,
           Ref_AtToneDelay = AtToneDelay RefState,
           Ref_AtToneLatch = AtToneLatch RefState,
           CurrentLatch = latch,
           TimeSinceTone = since,
           CurrentMET = met\<rparr>, s))"

definition CFE_TIME_CalculateTAI :: "CFE_TIME_Reference_t \<Rightarrow> CFE_TIME_SysTime_t" where
  "CFE_TIME_CalculateTAI r = CFE_TIME_Add (CurrentMET r) (Ref_AtToneSTCF r)"

definition CFE_TIME_CalculateUTC :: "CFE_TIME_Reference_t \<Rightarrow> CFE_TIME_SysTime_t" where
  "CFE_TIME_CalculateUTC r =
     (let TimeAsUTC = CFE_TIME_Add (CurrentMET r) (Ref_AtToneSTCF r)
      in TimeAsUTC\<lparr>Seconds := Seconds TimeAsUTC - scast (Ref_AtToneLeapSeconds r)\<rparr>)"

definition CFE_TIME_CalculateState :: "CFE_TIME_Reference_t \<Rightarrow> i16" where
  "CFE_TIME_CalculateState r =
     (if Ref_ClockSetState r = CFE_TIME_SetState_WAS_SET
      then if Ref_ClockFlyState r = CFE_TIME_FlywheelState_NO_FLY
           then CFE_TIME_ClockState_VALID else CFE_TIME_ClockState_FLYWHEEL
      else CFE_TIME_ClockState_INVALID)"

section \<open>Queries\<close>

definition CFE_TIME_GetTAI :: "psp_clock \<Rightarrow> CFE_TIME_TaskData
    \<Rightarrow> CFE_TIME_SysTime_t \<times> CFE_TIME_TaskData" where
  "CFE_TIME_GetTAI psp s = (let (r, s) = CFE_TIME_GetReference psp s in (CFE_TIME_CalculateTAI r, s))"

definition CFE_TIME_GetUTC :: "psp_clock \<Rightarrow> CFE_TIME_TaskData
    \<Rightarrow> CFE_TIME_SysTime_t \<times> CFE_TIME_TaskData" where
  "CFE_TIME_GetUTC psp s = (let (r, s) = CFE_TIME_GetReference psp s in (CFE_TIME_CalculateUTC r, s))"

definition CFE_TIME_GetTime :: "psp_clock \<Rightarrow> CFE_TIME_TaskData
    \<Rightarrow> CFE_TIME_SysTime_t \<times> CFE_TIME_TaskData" where
  "CFE_TIME_GetTime psp s = CFE_TIME_GetTAI psp s"

definition CFE_TIME_GetSTCF :: "psp_clock \<Rightarrow> CFE_TIME_TaskData
    \<Rightarrow> CFE_TIME_SysTime_t \<times> CFE_TIME_TaskData" where
  "CFE_TIME_GetSTCF psp s = (let (r, s) = CFE_TIME_GetReference psp s in (Ref_AtToneSTCF r, s))"

definition CFE_TIME_MET2SCTime :: "psp_clock \<Rightarrow> CFE_TIME_SysTime_t \<Rightarrow> CFE_TIME_TaskData
    \<Rightarrow> CFE_TIME_SysTime_t \<times> CFE_TIME_TaskData" where
  "CFE_TIME_MET2SCTime psp METTime s =
     (let (STCF, s) = CFE_TIME_GetSTCF psp s in (CFE_TIME_Add METTime STCF, s))"

definition CFE_TIME_GetClockState :: "psp_clock \<Rightarrow> CFE_TIME_TaskData \<Rightarrow> i16 \<times> CFE_TIME_TaskData" where
  "CFE_TIME_GetClockState psp s =
     (let (r, s) = CFE_TIME_GetReference psp s in (CFE_TIME_CalculateState r, s))"

definition CFE_TIME_GetLeapSeconds :: "psp_clock \<Rightarrow> CFE_TIME_TaskData \<Rightarrow> i16 \<times> CFE_TIME_TaskData" where
  "CFE_TIME_GetLeapSeconds psp s =
     (let (r, s) = CFE_TIME_GetReference psp s in (Ref_AtToneLeapSeconds r, s))"

definition CFE_TIME_GetMET :: "psp_clock \<Rightarrow> CFE_TIME_TaskData
    \<Rightarrow> CFE_TIME_SysTime_t \<times> CFE_TIME_TaskData" where
  "CFE_TIME_GetMET psp s = (let (r, s) = CFE_TIME_GetReference psp s in (CurrentMET r, s))"

definition CFE_TIME_GetMETseconds :: "psp_clock \<Rightarrow> CFE_TIME_TaskData \<Rightarrow> u32 \<times> CFE_TIME_TaskData" where
  "CFE_TIME_GetMETseconds psp s =
     (let (r, s) = CFE_TIME_GetReference psp s in (Seconds (CurrentMET r), s))"

definition CFE_TIME_GetMETsubsecs :: "psp_clock \<Rightarrow> CFE_TIME_TaskData \<Rightarrow> u32 \<times> CFE_TIME_TaskData" where
  "CFE_TIME_GetMETsubsecs psp s =
     (let (r, s) = CFE_TIME_GetReference psp s in (Subseconds (CurrentMET r), s))"

definition flag_if :: "bool \<Rightarrow> u16 \<Rightarrow> u16 \<Rightarrow> u16" where
  "flag_if c f StateFlags = (if c then StateFlags OR f else StateFlags)"

definition CFE_TIME_GetClockInfo :: "CFE_TIME_TaskData \<Rightarrow> u16" where
  "CFE_TIME_GetClockInfo s =
     (let RefState = CFE_TIME_GetReferenceState s;
          StateFlags = 0;
          StateFlags = flag_if (ClockSetState RefState = CFE_TIME_SetState_WAS_SET) 0x8000 StateFlags;
          StateFlags = flag_if (ClockFlyState RefState = CFE_TIME_FlywheelState_IS_FLY) 0x4000 StateFlags;
          StateFlags = flag_if (ClockSource s = CFE_TIME_SourceSelect_INTERNAL) 0x2000 StateFlags;
          StateFlags = flag_if (ClockSignal s = CFE_TIME_ToneSignalSelect_PRIMARY) 0x1000 StateFlags;
          StateFlags = flag_if (ServerFlyState s = CFE_TIME_FlywheelState_IS_FLY) 0x0800 StateFlags;
          StateFlags = flag_if (Forced2Fly s) 0x0400 StateFlags;
          StateFlags = flag_if (OneTimeDirection s = CFE_TIME_AdjustDirection_ADD) 0x0200 StateFlags;
          StateFlags = flag_if (OneHzDirection s = CFE_TIME_AdjustDirection_ADD) 0x0100 StateFlags;
          StateFlags = flag_if (DelayDirection RefState = CFE_TIME_AdjustDirection_ADD) 0x0080 StateFlags;
          StateFlags = StateFlags OR 0x0040
      in flag_if (IsToneGood s) 0x0020 StateFlags)"

section \<open>Telemetry and the reset area\<close>

definition CFE_TIME_GetHkData :: "CFE_TIME_Reference_t \<Rightarrow> CFE_TIME_TaskData
    \<Rightarrow> CFE_TIME_HousekeepingTlm_Payload_t" where
  "CFE_TIME_GetHkData r s =
     \<lparr>Hk_CommandCounter = CommandCounter s,
      Hk_CommandErrorCounter = CommandErrorCounter s,
      Hk_ClockStateFlags = CFE_TIME_GetClockInfo s,
      Hk_ClockStateAPI = CFE_TIME_CalculateState r,
      Hk_LeapSeconds = Ref_AtToneLeapSeconds r,
      Hk_SecondsMET = Seconds (CurrentMET r),
      Hk_SubsecsMET = Subseconds (CurrentMET r),
      Hk_SecondsSTCF = Seconds (Ref_AtToneSTCF r),
      Hk_SubsecsSTCF = Subseconds (Ref_AtToneSTCF r),
      Hk_Seconds1HzAdj = Seconds (OneHzAdjust s),
      Hk_Subsecs1HzAdj = Subseconds (OneHzAdjust s)\<rparr>"

definition CFE_TIME_GetDiagData :: "psp_clock \<Rightarrow> CFE_TIME_TaskData
    \<Rightarrow> CFE_TIME_DiagnosticTlm_Payload_t \<times> CFE_TIME_TaskData" where
  "CFE_TIME_GetDiagData psp s =
     (let (r, s) = CFE_TIME_GetReference psp s
      in (\<lparr>Diag_AtToneMET = Ref_AtToneMET r,
           Diag_AtToneSTCF = Ref_AtToneSTCF r,
           Diag_AtToneDelay = Ref_AtToneDelay r,
           Diag_AtToneLatch = Ref_AtToneLatch r,
           Diag_AtToneLeapSeconds = Ref_AtToneLeapSeconds r,
           Diag_ClockStateAPI = CFE_TIME_CalculateState r,
           Diag_TimeSinceTone = TimeSinceTone r,
           Diag_CurrentLatch = CurrentLatch r,
           Diag_CurrentMET = CurrentMET r,
           Diag_CurrentTAI = CFE_TIME_CalculateTAI r,
           Diag_CurrentUTC = CFE_TIME_CalculateUTC r,
           Diag_ClockSetState = Ref_ClockSetState r,
           Diag_ClockFlyState = Ref_ClockFlyState r,
           Diag_ClockSource = ClockSource s,
           Diag_ClockSignal = ClockSignal s,
           Diag_ServerFlyState = ServerFlyState s,
           Diag_Forced2Fly = (if Forced2Fly s then 1 else 0),
           Diag_ClockStateFlags = CFE_TIME_GetClockInfo s,
           Diag_OneTimeDirection = OneTimeDirection s,
           Diag_OneHzDirection = OneHzDirection s,
           Diag_DelayDirection = Ref_DelayDirection r,
           Diag_OneTimeAdjust = OneTimeAdjust s,
           Diag_OneHzAdjust = OneHzAdjust s,
           Diag_ToneSignalLatch = ToneSignalLatch s,
           Diag_ToneDataLatch = ToneDataLatch s,
           Diag_ToneMatchCounter = ToneMatchCounter s,
           Diag_ToneMatchErrorCounter = ToneMatchErrorCounter s,
           Diag_ToneSignalCounter = ToneSignalCounter s,
           Diag_ToneDataCounter = ToneDataCounter s,
           Diag_ToneIntCounter = ToneIntCounter s,
           Diag_ToneIntErrorCounter = ToneIntErrorCounter s,
           Diag_ToneTaskCounter = ToneTaskCounter s,
           Diag_VersionCounter = LastVersionCounter s - ResetVersionCounter s,
           Diag_LocalIntCounter = LocalIntCounter s,
           Diag_LocalTaskCounter = LocalTaskCounter s,
           Diag_VirtualMET = VirtualMET s,
           Diag_MinElapsed = MinElapsed s,
           Diag_MaxElapsed = MaxElapsed s,
           Diag_MaxLocalClock = MaxLocalClock s,
           Diag_ToneOverLimit = ToneOverLimit s,
           Diag_ToneUnderLimit = ToneUnderLimit s,
           Diag_DataStoreStatus = DataStoreStatus s\<rparr>, s))"

definition CFE_TIME_UpdateResetVars :: "CFE_TIME_Reference_t \<Rightarrow> CFE_TIME_TaskData
    \<Rightarrow> CFE_TIME_TaskData" where
  "CFE_TIME_UpdateResetVars r s =
     (if DataStoreStatus s \<noteq> CFE_TIME_RESET_AREA_ERROR
      then let LocalResetVars =
                 \<lparr>Signature = CFE_TIME_RESET_SIGNATURE,
                  Rst_LeapSeconds = Ref_AtToneLeapSeconds r,
                  Rst_ClockSignal = ClockSignal s,
                  Rst_CurrentMET = CurrentMET r,
                  Rst_CurrentSTCF = Ref_AtToneSTCF r,
                  Rst_CurrentDelay = Ref_AtToneDelay r\<rparr>
           in if TimeResetVars s \<noteq> None then s\<lparr>TimeResetVars := Some LocalResetVars\<rparr> else s
      else s)"

definition CFE_TIME_QueryResetVars :: "CFE_TIME_TaskData \<Rightarrow> CFE_TIME_TaskData" where
  "CFE_TIME_QueryResetVars s =
     (let (RefState, s) = CFE_TIME_StartReferenceUpdate s;
          s = (case TimeResetVars s of
                 None \<Rightarrow> s\<lparr>DataStoreStatus := CFE_TIME_RESET_AREA_BAD\<rparr>
               | Some v \<Rightarrow>
                   if Signature v = CFE_TIME_RESET_SIGNATURE
                      \<and> (Rst_ClockSignal v = CFE_TIME_ToneSignalSelect_PRIMARY
                         \<or> Rst_ClockSignal v = CFE_TIME_ToneSignalSelect_REDUNDANT)
                   then (ref_upd RefState (\<lambda>x. x\<lparr>AtToneMET := Rst_CurrentMET v,
                            AtToneSTCF := Rst_CurrentSTCF v, AtToneDelay := Rst_CurrentDelay v,
                            AtToneLeapSeconds := Rst_LeapSeconds v\<rparr>) s)
                        \<lparr>ClockSignal := Rst_ClockSignal v,
                         DataStoreStatus := CFE_TIME_RESET_AREA_EXISTING\<rparr>
                   else s\<lparr>DataStoreStatus := CFE_TIME_RESET_AREA_NEW\<rparr>);
          s = (if DataStoreStatus s \<noteq> CFE_TIME_RESET_AREA_EXISTING
               then (ref_upd RefState (\<lambda>x. x\<lparr>
                        AtToneMET := \<lparr>Seconds = 1000, Subseconds = CFE_TIME_Micro2SubSecs 0\<rparr>,
                        AtToneSTCF := \<lparr>Seconds = 1000000, Subseconds = CFE_TIME_Micro2SubSecs 0\<rparr>,
                        AtToneLeapSeconds := 32,
                        AtToneDelay := \<lparr>Seconds = 0, Subseconds = 0\<rparr>\<rparr>) s)
                    \<lparr>ClockSignal := CFE_TIME_ToneSignalSelect_PRIMARY\<rparr>
               else s)
      in CFE_TIME_FinishReferenceUpdate RefState s)"

text \<open>All of \<^verbatim>\<open>CFE_TIME_InitData\<close> except the message headers, which \<^verbatim>\<open>CFE_SB_InitMsg\<close> fills in the buffers of
  the packets it will send, and the pipe name and depth.  \<open>IsToneGood\<close>, the statics and the reset
  area keep what they had.\<close>

definition ref_zero :: CFE_TIME_ReferenceState_t where
  "ref_zero = \<lparr>StateVersion = 0xFFFFFFFF, AtToneLeapSeconds = 0, ClockSetState = 0, ClockFlyState = 0,
     DelayDirection = 0, AtToneMET = sys_time 0 0, AtToneSTCF = sys_time 0 0,
     AtToneDelay = sys_time 0 0, AtToneLatch = sys_time 0 0\<rparr>"

definition CFE_TIME_InitData :: "psp_clock \<Rightarrow> CFE_TIME_TaskData \<Rightarrow> CFE_TIME_TaskData" where
  "CFE_TIME_InitData psp s =
     (let s = s\<lparr>CommandCounter := 0, CommandErrorCounter := 0, LastVersionCounter := 0,
                ResetVersionCounter := 0,
                ReferenceState := replicate CFE_TIME_REFERENCE_BUF_DEPTH ref_zero\<rparr>;
          s = CFE_TIME_QueryResetVars s;
          (RefState, s) = CFE_TIME_StartReferenceUpdate s;
          (latch, s) = CFE_TIME_LatchClock psp s;
          s = ref_upd RefState (\<lambda>x. x\<lparr>AtToneLatch := latch,
                ClockSetState := CFE_TIME_SetState_NOT_SET,
                ClockFlyState := CFE_TIME_FlywheelState_IS_FLY\<rparr>) s;
          s = s\<lparr>ClockSource := CFE_TIME_SourceSelect_INTERNAL,
                ServerFlyState := CFE_TIME_FlywheelState_IS_FLY,
                PendingMET := sys_time 0 0, PendingSTCF := sys_time 0 0,
                PendingLeaps := 0, PendingState := CFE_TIME_ClockState_INVALID,
                OneTimeAdjust := sys_time 0 0, OneHzAdjust := sys_time 0 0,
                OneTimeDirection := CFE_TIME_AdjustDirection_ADD,
                OneHzDirection := CFE_TIME_AdjustDirection_ADD\<rparr>;
          s = ref_upd RefState (DelayDirection_update (\<lambda>_. CFE_TIME_AdjustDirection_ADD)) s;
          s = s\<lparr>ToneSignalLatch := sys_time 0 0, ToneDataLatch := sys_time 0 0,
                ToneMatchCounter := 0, ToneMatchErrorCounter := 0, ToneSignalCounter := 0,
                ToneDataCounter := 0, ToneIntCounter := 0, ToneIntErrorCounter := 0,
                ToneTaskCounter := 0,
                VirtualMET := Seconds (AtToneMET (ReferenceState s ! RefState)),
                LocalIntCounter := 0, LocalTaskCounter := 0, InternalCount := 0, ExternalCount := 0,
                MinElapsed := CFE_TIME_Micro2SubSecs 0,
                MaxElapsed := CFE_TIME_Micro2SubSecs 200000,
                MaxDelta := sys_time 0 0,
                MaxLocalClock := sys_time 27 0,
                ToneOverLimit := CFE_TIME_Micro2SubSecs 20000,
                ToneUnderLimit := CFE_TIME_Micro2SubSecs (1000000 - 20000),
                Forced2Fly := False, AutoStartFly := False\<rparr>;
          s = CFE_TIME_FinishReferenceUpdate RefState s
      in s\<lparr>SynchCallback := replicate CFE_PLATFORM_ES_MAX_APPLICATIONS 0\<rparr>)"

definition CFE_TIME_EarlyInit :: "psp_clock \<Rightarrow> CFE_TIME_TaskData \<Rightarrow> CFE_TIME_TaskData" where
  "CFE_TIME_EarlyInit psp s = CFE_TIME_InitData psp s"

section \<open>Setting the clock\<close>

definition CFE_TIME_SetState :: "i16 \<Rightarrow> CFE_TIME_TaskData \<Rightarrow> CFE_TIME_TaskData" where
  "CFE_TIME_SetState NewState s =
     (let (RefState, s) = CFE_TIME_StartReferenceUpdate s;
          s = (if NewState = CFE_TIME_ClockState_FLYWHEEL
               then (ref_upd RefState (ClockFlyState_update (\<lambda>_. CFE_TIME_FlywheelState_IS_FLY)) s)
                    \<lparr>Forced2Fly := True, ServerFlyState := CFE_TIME_FlywheelState_IS_FLY\<rparr>
               else if NewState = CFE_TIME_ClockState_VALID
               then (ref_upd RefState (ClockSetState_update (\<lambda>_. CFE_TIME_SetState_WAS_SET)) s)
                    \<lparr>Forced2Fly := False\<rparr>
               else (ref_upd RefState (ClockSetState_update (\<lambda>_. CFE_TIME_SetState_NOT_SET)) s)
                    \<lparr>Forced2Fly := False\<rparr>)
      in CFE_TIME_FinishReferenceUpdate RefState s)"

definition CFE_TIME_SetTime :: "psp_clock \<Rightarrow> CFE_TIME_SysTime_t \<Rightarrow> CFE_TIME_TaskData
    \<Rightarrow> CFE_TIME_TaskData" where
  "CFE_TIME_SetTime psp NewTime s =
     (let (Reference, s) = CFE_TIME_GetReference psp s;
          NewSTCF = CFE_TIME_Subtract NewTime (CurrentMET Reference);
          (RefState, s) = CFE_TIME_StartReferenceUpdate s;
          s = ref_upd RefState (AtToneSTCF_update (\<lambda>_. NewSTCF)) s
      in CFE_TIME_FinishReferenceUpdate RefState s)"

definition CFE_TIME_SetMET :: "psp_clock \<Rightarrow> CFE_TIME_SysTime_t \<Rightarrow> CFE_TIME_TaskData
    \<Rightarrow> CFE_TIME_TaskData" where
  "CFE_TIME_SetMET psp NewMET s =
     (let (RefState, s) = CFE_TIME_StartReferenceUpdate s;
          s = ref_upd RefState (AtToneMET_update (\<lambda>_. NewMET)) s;
          s = s\<lparr>VirtualMET := Seconds NewMET\<rparr>;
          (latch, s) = CFE_TIME_LatchClock psp s;
          s = ref_upd RefState (AtToneLatch_update (\<lambda>_. latch)) s
      in CFE_TIME_FinishReferenceUpdate RefState s)"

definition CFE_TIME_SetSTCF :: "CFE_TIME_SysTime_t \<Rightarrow> CFE_TIME_TaskData \<Rightarrow> CFE_TIME_TaskData" where
  "CFE_TIME_SetSTCF NewSTCF s =
     (let (RefState, s) = CFE_TIME_StartReferenceUpdate s;
          s = ref_upd RefState (AtToneSTCF_update (\<lambda>_. NewSTCF)) s
      in CFE_TIME_FinishReferenceUpdate RefState s)"

definition CFE_TIME_SetLeapSeconds :: "i16 \<Rightarrow> CFE_TIME_TaskData \<Rightarrow> CFE_TIME_TaskData" where
  "CFE_TIME_SetLeapSeconds NewLeaps s =
     (let (RefState, s) = CFE_TIME_StartReferenceUpdate s;
          s = ref_upd RefState (AtToneLeapSeconds_update (\<lambda>_. NewLeaps)) s
      in CFE_TIME_FinishReferenceUpdate RefState s)"

definition CFE_TIME_SetAdjust :: "CFE_TIME_SysTime_t \<Rightarrow> i16 \<Rightarrow> CFE_TIME_TaskData
    \<Rightarrow> CFE_TIME_TaskData" where
  "CFE_TIME_SetAdjust NewAdjust Direction s =
     (let (RefState, s) = CFE_TIME_StartReferenceUpdate s;
          s = s\<lparr>OneTimeAdjust := NewAdjust, OneTimeDirection := Direction\<rparr>;
          STCF = AtToneSTCF (ReferenceState s ! RefState);
          NewSTCF = (if Direction = CFE_TIME_AdjustDirection_ADD
                     then CFE_TIME_Add STCF NewAdjust else CFE_TIME_Subtract STCF NewAdjust);
          s = ref_upd RefState (AtToneSTCF_update (\<lambda>_. NewSTCF)) s
      in CFE_TIME_FinishReferenceUpdate RefState s)"

definition CFE_TIME_Set1HzAdj :: "CFE_TIME_SysTime_t \<Rightarrow> i16 \<Rightarrow> CFE_TIME_TaskData
    \<Rightarrow> CFE_TIME_TaskData" where
  "CFE_TIME_Set1HzAdj NewAdjust Direction s =
     s\<lparr>OneHzAdjust := NewAdjust, OneHzDirection := Direction\<rparr>"

section \<open>Synchronization callbacks\<close>

text \<open>\<^verbatim>\<open>CFE_ES_GetAppID\<close> of the caller is the argument \<open>app\<close>: its status and the identifier it returns.\<close>

definition CFE_TIME_RegisterSynchCallback :: "CFE_Status \<times> u32 \<Rightarrow> addr \<Rightarrow> CFE_TIME_TaskData
    \<Rightarrow> CFE_Status \<times> CFE_TIME_TaskData" where
  "CFE_TIME_RegisterSynchCallback app CallbackFuncPtr s =
     (let (Status, AppId) = app in
      if Status \<noteq> CFE_SUCCESS then (Status, s)
      else if unat AppId \<ge> length (SynchCallback s) \<or> SynchCallback s ! unat AppId \<noteq> 0
      then (CFE_TIME_TOO_MANY_SYNCH_CALLBACKS, s)
      else (Status, s\<lparr>SynchCallback := (SynchCallback s)[unat AppId := CallbackFuncPtr]\<rparr>))"

definition CFE_TIME_UnregisterSynchCallback :: "CFE_Status \<times> u32 \<Rightarrow> addr \<Rightarrow> CFE_TIME_TaskData
    \<Rightarrow> CFE_Status \<times> CFE_TIME_TaskData" where
  "CFE_TIME_UnregisterSynchCallback app CallbackFuncPtr s =
     (let (Status, AppId) = app in
      if Status \<noteq> CFE_SUCCESS then (Status, s)
      else if unat AppId \<ge> length (SynchCallback s) \<or> SynchCallback s ! unat AppId \<noteq> CallbackFuncPtr
      then (CFE_TIME_CALLBACK_NOT_REGISTERED, s)
      else (Status, s\<lparr>SynchCallback := (SynchCallback s)[unat AppId := 0]\<rparr>))"

definition CFE_TIME_CleanUpApp :: "u32 \<Rightarrow> CFE_TIME_TaskData \<Rightarrow> CFE_Status \<times> CFE_TIME_TaskData" where
  "CFE_TIME_CleanUpApp AppId s =
     (if unat AppId < length (SynchCallback s)
      then (CFE_SUCCESS, s\<lparr>SynchCallback := (SynchCallback s)[unat AppId := 0]\<rparr>)
      else (CFE_TIME_CALLBACK_NOT_REGISTERED, s))"

definition CFE_TIME_NotifyTimeSynchApps :: "CFE_TIME_TaskData \<Rightarrow> CFE_TIME_TaskData" where
  "CFE_TIME_NotifyTimeSynchApps s =
     (if IsToneGood s
      then fold (\<lambda>Func s. if Func \<noteq> 0 then emit (Callback Func) s else s) (SynchCallback s) s
      else s)"

end
