(* ===== verification/TIME_Task.thy ===== *)
theory TIME_Task
  imports TIME_State
begin

text \<open>
  The tone processing (\<^verbatim>\<open>cfe_time_tone.c\<close>) and the command interface (\<^verbatim>\<open>cfe_time_task.c\<close>) of Time
  Services: the interrupt handlers, one round of each of the two 1 Hz tasks, the checks that match a
  tone signal with its data packet, the flywheel state machine, and \<open>CFE_TIME_TaskPipe\<close>, which takes
  a command message as bytes.  The arguments of an event are not modelled, only its identifier.
\<close>

section \<open>The time at the tone\<close>

definition CFE_TIME_ToneSend :: "psp_clock \<Rightarrow> CFE_TIME_TaskData \<Rightarrow> CFE_TIME_TaskData" where
  "CFE_TIME_ToneSend psp s =
     (let (Reference, s) = CFE_TIME_GetReference psp s;
          NewMET = (if Ref_ClockFlyState Reference = CFE_TIME_FlywheelState_IS_FLY
                    then Seconds (CurrentMET Reference) else VirtualMET s);
          s = emit (Send_ToneData \<lparr>Cmd_AtToneMET = sys_time NewMET 0,
                      Cmd_AtToneSTCF = Ref_AtToneSTCF Reference,
                      Cmd_AtToneLeapSeconds = Ref_AtToneLeapSeconds Reference,
                      Cmd_AtToneState = CFE_TIME_CalculateState Reference\<rparr>) s
      in s\<lparr>InternalCount := InternalCount s + 1\<rparr>)"

text \<open>The clock source is fixed to internal by the configuration (no \<^verbatim>\<open>CFE_PLATFORM_TIME_CFG_SRC_*\<close> is set),
  so the other branch of the source selection is empty.\<close>

definition CFE_TIME_ToneUpdate :: "psp_clock \<Rightarrow> CFE_TIME_TaskData \<Rightarrow> CFE_TIME_TaskData" where
  "CFE_TIME_ToneUpdate psp s =
     (let (Reference, s) = CFE_TIME_GetReference psp s;
          (NextState, s) = CFE_TIME_StartReferenceUpdate s;
          s = ref_upd NextState (AtToneLatch_update (\<lambda>_. ToneSignalLatch s)) s;
          flying = (ClockFlyState (ReferenceState s ! NextState) = CFE_TIME_FlywheelState_IS_FLY);
          s = (if ClockSource s = CFE_TIME_SourceSelect_INTERNAL
               then let s = (if flying then s\<lparr>VirtualMET := Seconds (CurrentMET Reference)\<rparr> else s)
                    in ref_upd NextState (AtToneMET_update (\<lambda>_. sys_time (VirtualMET s) 0)) s
               else s);
          s = (if flying
               then (ref_upd NextState (ClockFlyState_update (\<lambda>_. CFE_TIME_FlywheelState_NO_FLY)) s)
                    \<lparr>ServerFlyState := CFE_TIME_FlywheelState_NO_FLY\<rparr>
               else s);
          s = CFE_TIME_FinishReferenceUpdate NextState s
      in if flying then emit (Event 21) s else s)"

definition CFE_TIME_ToneVerify :: "psp_clock \<Rightarrow> CFE_TIME_SysTime_t \<Rightarrow> CFE_TIME_SysTime_t
    \<Rightarrow> CFE_TIME_TaskData \<Rightarrow> CFE_TIME_TaskData" where
  "CFE_TIME_ToneVerify psp Time1 Time2 s =
     (let s = (if CFE_TIME_Compare (PrevTime1 s) Time1 = CFE_TIME_EQUAL
               then s\<lparr>ToneMatchErrorCounter := ToneMatchErrorCounter s + 1\<rparr>
               else if CFE_TIME_Compare (PrevTime2 s) Time2 = CFE_TIME_EQUAL
               then s\<lparr>ToneMatchErrorCounter := ToneMatchErrorCounter s + 1\<rparr>
               else
                 let elapsed = (if CFE_TIME_Compare Time1 Time2 = CFE_TIME_A_GT_B
                                then CFE_TIME_Add (CFE_TIME_Subtract (MaxLocalClock s) Time1) Time2
                                else CFE_TIME_Subtract Time2 Time1)
                 in if Seconds elapsed \<noteq> 0 \<or> Subseconds elapsed < MinElapsed s
                       \<or> Subseconds elapsed > MaxElapsed s
                    then s\<lparr>ToneMatchErrorCounter := ToneMatchErrorCounter s + 1\<rparr>
                    else let s = s\<lparr>ToneMatchCounter := ToneMatchCounter s + 1\<rparr>
                         in if \<not> Forced2Fly s then CFE_TIME_ToneUpdate psp s else s)
      in s\<lparr>PrevTime1 := Time1, PrevTime2 := Time2\<rparr>)"

definition CFE_TIME_ToneData :: "psp_clock \<Rightarrow> CFE_TIME_ToneDataCmd_Payload_t \<Rightarrow> CFE_TIME_TaskData
    \<Rightarrow> CFE_TIME_TaskData" where
  "CFE_TIME_ToneData psp cmd s =
     (let (latch, s) = CFE_TIME_LatchClock psp s;
          s = s\<lparr>ToneDataLatch := latch, PendingMET := Cmd_AtToneMET cmd, PendingSTCF := Cmd_AtToneSTCF cmd,
                PendingLeaps := Cmd_AtToneLeapSeconds cmd, PendingState := Cmd_AtToneState cmd\<rparr>;
          s = CFE_TIME_ToneVerify psp (ToneSignalLatch s) (ToneDataLatch s) s
      in s\<lparr>ToneDataCounter := ToneDataCounter s + 1\<rparr>)"

definition CFE_TIME_ToneSignal :: "CFE_TIME_TaskData \<Rightarrow> CFE_TIME_TaskData" where
  "CFE_TIME_ToneSignal s = s\<lparr>ToneSignalCounter := ToneSignalCounter s + 1\<rparr>"

section \<open>Interrupts and 1 Hz tasks\<close>

definition CFE_TIME_Tone1HzISR :: "psp_clock \<Rightarrow> CFE_TIME_TaskData \<Rightarrow> CFE_TIME_TaskData" where
  "CFE_TIME_Tone1HzISR psp s =
     (let (latch, s) = CFE_TIME_LatchClock psp s;
          Elapsed = elapsed_since (MaxLocalClock s) latch (ToneSignalLatch s);
          s = (if Seconds Elapsed = 1 \<and> Subseconds Elapsed < ToneOverLimit s
                  \<or> Seconds Elapsed = 0 \<and> Subseconds Elapsed > ToneUnderLimit s
               then emit Give_ToneSemaphore
                      (s\<lparr>ToneIntCounter := ToneIntCounter s + 1, IsToneGood := True,
                         VirtualMET := VirtualMET s + 1\<rparr>)
               else s\<lparr>ToneIntErrorCounter := ToneIntErrorCounter s + 1, IsToneGood := False\<rparr>);
          s = s\<lparr>ToneSignalLatch := latch\<rparr>
      in CFE_TIME_NotifyTimeSynchApps s)"

definition CFE_TIME_ExternalTone :: "psp_clock \<Rightarrow> CFE_TIME_TaskData \<Rightarrow> CFE_TIME_TaskData" where
  "CFE_TIME_ExternalTone psp s = CFE_TIME_Tone1HzISR psp s"

text \<open>One round of the tone task and of the local 1 Hz task, after \<^verbatim>\<open>OS_BinSemTake\<close> returned: \<open>ok\<close> tells
  whether it returned success.  A round that fails ends the task.\<close>

definition Tone1HzTask_round :: "bool \<Rightarrow> CFE_TIME_TaskData \<Rightarrow> CFE_TIME_TaskData" where
  "Tone1HzTask_round ok s =
     (if ok then let s = emit Send_ToneSignal s in s\<lparr>ToneTaskCounter := ToneTaskCounter s + 1\<rparr>
      else s)"

definition Local1HzTask_round :: "bool \<Rightarrow> CFE_TIME_TaskData \<Rightarrow> CFE_TIME_TaskData" where
  "Local1HzTask_round ok s =
     (if ok
      then let s = (if AutoStartFly s then emit (Event 20) (s\<lparr>AutoStartFly := False\<rparr>) else s);
               s = emit Send_Local1Hz s
           in s\<lparr>LocalTaskCounter := LocalTaskCounter s + 1\<rparr>
      else s)"

definition CFE_TIME_Local1HzISR :: "CFE_TIME_TaskData \<Rightarrow> CFE_TIME_TaskData" where
  "CFE_TIME_Local1HzISR s =
     emit Give_LocalSemaphore (s\<lparr>LocalIntCounter := LocalIntCounter s + 1\<rparr>)"

definition CFE_TIME_Local1HzTimerCallback :: "CFE_TIME_TaskData \<Rightarrow> CFE_TIME_TaskData" where
  "CFE_TIME_Local1HzTimerCallback s = CFE_TIME_Local1HzISR s"

definition apply_OneHzAdjust :: "CFE_TIME_TaskData \<Rightarrow> CFE_TIME_TaskData" where
  "apply_OneHzAdjust s =
     (if Seconds (OneHzAdjust s) \<noteq> 0 \<or> Subseconds (OneHzAdjust s) \<noteq> 0
      then let (NextState, s) = CFE_TIME_StartReferenceUpdate s;
               STCF = AtToneSTCF (ReferenceState s ! NextState);
               NewSTCF = (if OneHzDirection s = CFE_TIME_AdjustDirection_ADD
                          then CFE_TIME_Add STCF (OneHzAdjust s)
                          else CFE_TIME_Subtract STCF (OneHzAdjust s));
               s = ref_upd NextState (AtToneSTCF_update (\<lambda>_. NewSTCF)) s
           in CFE_TIME_FinishReferenceUpdate NextState s
      else s)"

definition CFE_PLATFORM_TIME_CFG_START_FLY :: u32 where "CFE_PLATFORM_TIME_CFG_START_FLY = 2"
definition CFE_PLATFORM_TIME_CFG_LATCH_FLY :: u32 where "CFE_PLATFORM_TIME_CFG_LATCH_FLY = 8"

definition CFE_TIME_Local1HzStateMachine :: "psp_clock \<Rightarrow> CFE_TIME_TaskData \<Rightarrow> CFE_TIME_TaskData" where
  "CFE_TIME_Local1HzStateMachine psp s =
     (let s = apply_OneHzAdjust s;
          (Reference, s) = CFE_TIME_GetReference psp s;
          s = (if Ref_ClockFlyState Reference = CFE_TIME_FlywheelState_NO_FLY
                  \<and> Seconds (TimeSinceTone Reference) \<ge> CFE_PLATFORM_TIME_CFG_START_FLY
               then let (NextState, s) = CFE_TIME_StartReferenceUpdate s;
                        s = ref_upd NextState (ClockFlyState_update (\<lambda>_. CFE_TIME_FlywheelState_IS_FLY)) s;
                        s = s\<lparr>ServerFlyState := CFE_TIME_FlywheelState_IS_FLY, AutoStartFly := True\<rparr>
                    in CFE_TIME_FinishReferenceUpdate NextState s
               else s)
      in if Ref_ClockFlyState Reference = CFE_TIME_FlywheelState_IS_FLY
            \<and> Seconds (TimeSinceTone Reference) \<ge> CFE_PLATFORM_TIME_CFG_LATCH_FLY
         then let (NextState, s) = CFE_TIME_StartReferenceUpdate s;
                  s = ref_upd NextState (\<lambda>x. x\<lparr>AtToneMET := CurrentMET Reference,
                        AtToneLatch := CurrentLatch Reference\<rparr>) s
              in CFE_TIME_FinishReferenceUpdate NextState s
         else s)"

section \<open>Commands\<close>

definition cmd_ok :: "u16 \<Rightarrow> CFE_TIME_TaskData \<Rightarrow> CFE_TIME_TaskData" where
  "cmd_ok eid s = emit (Event eid) (s\<lparr>CommandCounter := CommandCounter s + 1\<rparr>)"

definition cmd_err :: "u16 \<Rightarrow> CFE_TIME_TaskData \<Rightarrow> CFE_TIME_TaskData" where
  "cmd_err eid s = emit (Event eid) (s\<lparr>CommandErrorCounter := CommandErrorCounter s + 1\<rparr>)"

definition CFE_TIME_HousekeepingCmd :: "psp_clock \<Rightarrow> CFE_TIME_TaskData \<Rightarrow> CFE_TIME_TaskData" where
  "CFE_TIME_HousekeepingCmd psp s =
     (let (Reference, s) = CFE_TIME_GetReference psp s;
          s = CFE_TIME_UpdateResetVars Reference s;
          hk = CFE_TIME_GetHkData Reference s;
          (now, s) = CFE_TIME_GetTime psp s
      in emit (Send_HK hk now) s)"

definition CFE_TIME_NoopCmd :: "CFE_TIME_TaskData \<Rightarrow> CFE_TIME_TaskData" where
  "CFE_TIME_NoopCmd s = cmd_ok 4 s"

definition CFE_TIME_ResetCountersCmd :: "CFE_TIME_TaskData \<Rightarrow> CFE_TIME_TaskData" where
  "CFE_TIME_ResetCountersCmd s =
     emit (Event 5)
       (s\<lparr>CommandCounter := 0, CommandErrorCounter := 0, ToneMatchCounter := 0,
          ToneMatchErrorCounter := 0, ToneSignalCounter := 0, ToneDataCounter := 0,
          ToneIntCounter := 0, ToneIntErrorCounter := 0, ToneTaskCounter := 0,
          ResetVersionCounter := LastVersionCounter s, LocalIntCounter := 0, LocalTaskCounter := 0,
          InternalCount := 0, ExternalCount := 0\<rparr>)"

definition CFE_TIME_SendDiagnosticTlm :: "psp_clock \<Rightarrow> CFE_TIME_TaskData \<Rightarrow> CFE_TIME_TaskData" where
  "CFE_TIME_SendDiagnosticTlm psp s =
     (let s = s\<lparr>CommandCounter := CommandCounter s + 1\<rparr>;
          (diag, s) = CFE_TIME_GetDiagData psp s;
          (now, s) = CFE_TIME_GetTime psp s
      in emit (Event 6) (emit (Send_Diag diag now) s))"

definition CFE_TIME_SetStateCmd :: "i16 \<Rightarrow> CFE_TIME_TaskData \<Rightarrow> CFE_TIME_TaskData" where
  "CFE_TIME_SetStateCmd ClockState s =
     (if ClockState = CFE_TIME_ClockState_INVALID \<or> ClockState = CFE_TIME_ClockState_VALID
         \<or> ClockState = CFE_TIME_ClockState_FLYWHEEL
      then cmd_ok 7 (CFE_TIME_SetState ClockState s)
      else cmd_err 30 s)"

definition CFE_TIME_SetSourceCmd :: "i16 \<Rightarrow> CFE_TIME_TaskData \<Rightarrow> CFE_TIME_TaskData" where
  "CFE_TIME_SetSourceCmd TimeSource s =
     (if TimeSource = CFE_TIME_SourceSelect_INTERNAL \<or> TimeSource = CFE_TIME_SourceSelect_EXTERNAL
      then cmd_err 40 s else cmd_err 31 s)"

definition CFE_TIME_SetSignalCmd :: "i16 \<Rightarrow> CFE_TIME_TaskData \<Rightarrow> CFE_TIME_TaskData" where
  "CFE_TIME_SetSignalCmd ToneSource s =
     (if ToneSource = CFE_TIME_ToneSignalSelect_PRIMARY \<or> ToneSource = CFE_TIME_ToneSignalSelect_REDUNDANT
      then cmd_err 41 s else cmd_err 32 s)"

definition CFE_TIME_SetDelayImpl :: "u32 \<Rightarrow> u32 \<Rightarrow> i16 \<Rightarrow> CFE_TIME_TaskData \<Rightarrow> CFE_TIME_TaskData" where
  "CFE_TIME_SetDelayImpl Secs MicroSeconds Direction s =
     (if MicroSeconds < 1000000 then cmd_err 42 s else cmd_err 33 s)"

definition CFE_TIME_SetTimeCmd :: "psp_clock \<Rightarrow> u32 \<Rightarrow> u32 \<Rightarrow> CFE_TIME_TaskData \<Rightarrow> CFE_TIME_TaskData" where
  "CFE_TIME_SetTimeCmd psp Secs MicroSeconds s =
     (if MicroSeconds < 1000000
      then cmd_ok 12 (CFE_TIME_SetTime psp (sys_time Secs (CFE_TIME_Micro2SubSecs MicroSeconds)) s)
      else cmd_err 34 s)"

definition CFE_TIME_SetMETCmd :: "psp_clock \<Rightarrow> u32 \<Rightarrow> u32 \<Rightarrow> CFE_TIME_TaskData \<Rightarrow> CFE_TIME_TaskData" where
  "CFE_TIME_SetMETCmd psp Secs MicroSeconds s =
     (if MicroSeconds < 1000000
      then cmd_ok 13 (CFE_TIME_SetMET psp (sys_time Secs (CFE_TIME_Micro2SubSecs MicroSeconds)) s)
      else cmd_err 35 s)"

definition CFE_TIME_SetSTCFCmd :: "u32 \<Rightarrow> u32 \<Rightarrow> CFE_TIME_TaskData \<Rightarrow> CFE_TIME_TaskData" where
  "CFE_TIME_SetSTCFCmd Secs MicroSeconds s =
     (if MicroSeconds < 1000000
      then cmd_ok 14 (CFE_TIME_SetSTCF (sys_time Secs (CFE_TIME_Micro2SubSecs MicroSeconds)) s)
      else cmd_err 36 s)"

definition CFE_TIME_SetLeapSecondsCmd :: "i16 \<Rightarrow> CFE_TIME_TaskData \<Rightarrow> CFE_TIME_TaskData" where
  "CFE_TIME_SetLeapSecondsCmd LeapSeconds s = cmd_ok 17 (CFE_TIME_SetLeapSeconds LeapSeconds s)"

definition CFE_TIME_AdjustImpl :: "u32 \<Rightarrow> u32 \<Rightarrow> i16 \<Rightarrow> CFE_TIME_TaskData \<Rightarrow> CFE_TIME_TaskData" where
  "CFE_TIME_AdjustImpl Secs MicroSeconds Direction s =
     (if MicroSeconds < 1000000
      then cmd_ok 15 (CFE_TIME_SetAdjust (sys_time Secs (CFE_TIME_Micro2SubSecs MicroSeconds)) Direction s)
      else cmd_err 37 s)"

definition CFE_TIME_1HzAdjImpl :: "u32 \<Rightarrow> u32 \<Rightarrow> i16 \<Rightarrow> CFE_TIME_TaskData \<Rightarrow> CFE_TIME_TaskData" where
  "CFE_TIME_1HzAdjImpl Secs Subsecs Direction s =
     cmd_ok 16 (CFE_TIME_Set1HzAdj (sys_time Secs Subsecs) Direction s)"

definition CFE_TIME_VerifyCmdLength :: "bytes \<Rightarrow> u16 \<Rightarrow> CFE_TIME_TaskData \<Rightarrow> bool \<times> CFE_TIME_TaskData" where
  "CFE_TIME_VerifyCmdLength Msg ExpectedLength s =
     (let ActualLength = CFE_SB_GetTotalMsgLength Msg in
      if ExpectedLength \<noteq> ActualLength
      then (False, (emit (Event 49) s)\<lparr>CommandErrorCounter := CommandErrorCounter s + 1\<rparr>)
      else (True, s))"

text \<open>The payload of a command starts after the 8 bytes of its header; its fields are little-endian.\<close>

definition with_length :: "bytes \<Rightarrow> u16 \<Rightarrow> (CFE_TIME_TaskData \<Rightarrow> CFE_TIME_TaskData)
    \<Rightarrow> CFE_TIME_TaskData \<Rightarrow> CFE_TIME_TaskData" where
  "with_length Msg n f s = (let (result, s) = CFE_TIME_VerifyCmdLength Msg n s in if result then f s else s)"

definition ground_command :: "psp_clock \<Rightarrow> bytes \<Rightarrow> CFE_TIME_TaskData \<Rightarrow> CFE_TIME_TaskData" where
  "ground_command psp m s =
     (let CommandCode = CFE_SB_GetCmdCode m; p4 = get_le32 8 m; q4 = get_le32 12 m; p2 = get_le16 8 m in
      if CommandCode = 0 then with_length m 8 CFE_TIME_NoopCmd s
      else if CommandCode = 1 then with_length m 8 CFE_TIME_ResetCountersCmd s
      else if CommandCode = 2 then with_length m 8 (CFE_TIME_SendDiagnosticTlm psp) s
      else if CommandCode = 4 then with_length m 10 (CFE_TIME_SetStateCmd p2) s
      else if CommandCode = 3 then with_length m 10 (CFE_TIME_SetSourceCmd p2) s
      else if CommandCode = 15 then with_length m 10 (CFE_TIME_SetSignalCmd p2) s
      else if CommandCode = 5
      then with_length m 16 (CFE_TIME_SetDelayImpl p4 q4 CFE_TIME_AdjustDirection_ADD) s
      else if CommandCode = 6
      then with_length m 16 (CFE_TIME_SetDelayImpl p4 q4 CFE_TIME_AdjustDirection_SUBTRACT) s
      else if CommandCode = 7 then with_length m 16 (CFE_TIME_SetTimeCmd psp p4 q4) s
      else if CommandCode = 8 then with_length m 16 (CFE_TIME_SetMETCmd psp p4 q4) s
      else if CommandCode = 9 then with_length m 16 (CFE_TIME_SetSTCFCmd p4 q4) s
      else if CommandCode = 10 then with_length m 10 (CFE_TIME_SetLeapSecondsCmd p2) s
      else if CommandCode = 11
      then with_length m 16 (CFE_TIME_AdjustImpl p4 q4 CFE_TIME_AdjustDirection_ADD) s
      else if CommandCode = 12
      then with_length m 16 (CFE_TIME_AdjustImpl p4 q4 CFE_TIME_AdjustDirection_SUBTRACT) s
      else if CommandCode = 13
      then with_length m 16 (CFE_TIME_1HzAdjImpl p4 q4 CFE_TIME_AdjustDirection_ADD) s
      else if CommandCode = 14
      then with_length m 16 (CFE_TIME_1HzAdjImpl p4 q4 CFE_TIME_AdjustDirection_SUBTRACT) s
      else cmd_err 27 s)"

definition tone_data_payload :: "bytes \<Rightarrow> CFE_TIME_ToneDataCmd_Payload_t" where
  "tone_data_payload m =
     \<lparr>Cmd_AtToneMET = sys_time (get_le32 8 m) (get_le32 12 m),
      Cmd_AtToneSTCF = sys_time (get_le32 16 m) (get_le32 20 m),
      Cmd_AtToneLeapSeconds = get_le16 24 m, Cmd_AtToneState = get_le16 26 m\<rparr>"

definition CFE_TIME_TaskPipe :: "psp_clock \<Rightarrow> bytes \<Rightarrow> CFE_TIME_TaskData \<Rightarrow> CFE_TIME_TaskData" where
  "CFE_TIME_TaskPipe psp m s =
     (let MessageID = CFE_SB_GetMsgId m in
      if MessageID = 0x180D then CFE_TIME_HousekeepingCmd psp s
      else if MessageID = 0x1810 then CFE_TIME_ToneSignal s
      else if MessageID = 0x1860 then CFE_TIME_ToneData psp (tone_data_payload m) s
      else if MessageID = 0x1811 then CFE_TIME_Local1HzStateMachine psp s
      else if MessageID = 0x1862 then CFE_TIME_ToneSend psp s
      else if MessageID = 0x1805 then ground_command psp m s
      else emit (Event 26) s)"

end
