(* ===== verification/TIME_Ref.thy ===== *)
theory TIME_Ref
  imports TIME_Task
begin

text \<open>
  The reference of Time Services as its users see it.  \<open>cur\<close> is the version published last, and
  \<open>publish f\<close> makes a new version with \<open>f\<close> applied to it; the copying and the version numbers of
  \<^verbatim>\<open>CFE_TIME_StartReferenceUpdate\<close> and \<^verbatim>\<open>CFE_TIME_FinishReferenceUpdate\<close> disappear behind the two.  Each
  operation that sets the clock is one \<open>publish\<close>, and each keeps the invariant \<open>time_wf\<close>, under which a
  reader takes its first copy.
\<close>

section \<open>The published reference\<close>

abbreviation cur :: "CFE_TIME_TaskData \<Rightarrow> CFE_TIME_ReferenceState_t" where
  "cur \<equiv> CFE_TIME_GetReferenceState"

abbreviation next_version :: "CFE_TIME_TaskData \<Rightarrow> u32" where
  "next_version s \<equiv> LastVersionCounter s + 1"

definition time_wf :: "CFE_TIME_TaskData \<Rightarrow> bool" where
  "time_wf s \<longleftrightarrow> length (ReferenceState s) = CFE_TIME_REFERENCE_BUF_DEPTH
     \<and> length (SynchCallback s) = CFE_PLATFORM_ES_MAX_APPLICATIONS
     \<and> StateVersion (cur s) = LastVersionCounter s"

lemma ref_slot_mod: "ref_slot v = unat v mod 4"
proof -
  have "(3::u32) = mask 2" by (simp add: mask_eq_exp_minus_1)
  then have "v AND CFE_TIME_REFERENCE_BUF_MASK = take_bit 2 v"
    by (simp only: CFE_TIME_REFERENCE_BUF_MASK_def take_bit_eq_mask)
  then show ?thesis by (simp add: ref_slot_def take_bit_eq_mod unat_mod)
qed

lemma ref_slot_less [simp]: "ref_slot v < 4"
  by (simp add: ref_slot_mod)

lemma ref_slot_next [simp]: "ref_slot (v + 1) \<noteq> ref_slot v" "ref_slot v \<noteq> ref_slot (v + 1)"
proof -
  have "unat (v + 1) mod 4 = (unat v + 1) mod 4"
    by (simp add: unat_word_ariths(1) mod_mod_cancel)
  then show "ref_slot (v + 1) \<noteq> ref_slot v" "ref_slot v \<noteq> ref_slot (v + 1)"
    unfolding ref_slot_mod by presburger+
qed

lemma ref_upd_simps [simp]:
  "ref_upd i f (ref_upd i g s) = ref_upd i (f \<circ> g) s" if "i < length (ReferenceState s)"
  using that by (simp add: ref_upd_def)

lemma ref_upd_other [simp]:
  "i < length (ReferenceState s) \<Longrightarrow> j \<noteq> i \<Longrightarrow> ReferenceState (ref_upd i f s) ! j = ReferenceState s ! j"
  "LastVersionCounter (ref_upd i f s) = LastVersionCounter s"
  "length (ReferenceState (ref_upd i f s)) = length (ReferenceState s)"
  by (simp_all add: ref_upd_def)

lemma ref_copy:
  "x\<lparr>StateVersion := v, AtToneLeapSeconds := AtToneLeapSeconds y, ClockSetState := ClockSetState y,
     ClockFlyState := ClockFlyState y, DelayDirection := DelayDirection y, AtToneMET := AtToneMET y,
     AtToneSTCF := AtToneSTCF y, AtToneDelay := AtToneDelay y, AtToneLatch := AtToneLatch y\<rparr>
   = y\<lparr>StateVersion := v\<rparr>" for x y :: CFE_TIME_ReferenceState_t
  by (cases x, cases y) simp

lemma Start_eq:
  assumes "length (ReferenceState s) = 4"
  shows "CFE_TIME_StartReferenceUpdate s =
    (ref_slot (next_version s), ref_upd (ref_slot (next_version s)) (\<lambda>_. (cur s)\<lparr>StateVersion := next_version s\<rparr>) s)"
  unfolding CFE_TIME_StartReferenceUpdate_def Let_def
  using assms by (simp add: CFE_TIME_GetReferenceState_def o_def ref_copy)

definition publish :: "(CFE_TIME_ReferenceState_t \<Rightarrow> CFE_TIME_ReferenceState_t)
    \<Rightarrow> CFE_TIME_TaskData \<Rightarrow> CFE_TIME_TaskData" where
  "publish f s = (let v = next_version s in
     (ref_upd (ref_slot v) (\<lambda>_. f ((cur s)\<lparr>StateVersion := v\<rparr>)) s)\<lparr>LastVersionCounter := v\<rparr>)"

lemma cur_publish: "length (ReferenceState s) = 4 \<Longrightarrow> cur (publish f s) = f ((cur s)\<lparr>StateVersion := next_version s\<rparr>)"
  by (simp add: publish_def Let_def CFE_TIME_GetReferenceState_def ref_upd_def)

lemma publish_fields [simp]:
  "length (ReferenceState (publish f s)) = length (ReferenceState s)"
  "SynchCallback (publish f s) = SynchCallback s" "PspCalls (publish f s) = PspCalls s"
  "MaxLocalClock (publish f s) = MaxLocalClock s"
  by (simp_all add: publish_def Let_def ref_upd_def)

lemma wf_publish: "time_wf s \<Longrightarrow> (\<And>x. StateVersion (f x) = StateVersion x) \<Longrightarrow> time_wf (publish f s)"
  unfolding time_wf_def by (simp add: cur_publish CFE_TIME_REFERENCE_BUF_DEPTH_def) (simp add: publish_def Let_def)

lemma wf_len [simp]: "time_wf s \<Longrightarrow> length (ReferenceState s) = 4"
  by (simp add: time_wf_def CFE_TIME_REFERENCE_BUF_DEPTH_def)

lemma wf_version: "time_wf s \<Longrightarrow> StateVersion (cur s) = LastVersionCounter s"
  by (simp add: time_wf_def)

lemma cur_def2: "cur s = ReferenceState s ! ref_slot (LastVersionCounter s)"
  by (simp add: CFE_TIME_GetReferenceState_def)

lemmas ref_ops = Start_eq CFE_TIME_FinishReferenceUpdate_def publish_def ref_upd_def Let_def cur_def2

definition latch_of :: "OS_time_t \<Rightarrow> CFE_TIME_SysTime_t" where
  "latch_of t = sys_time (seconds t) (CFE_TIME_Micro2SubSecs (microsecs t))"

definition adjust :: "i16 \<Rightarrow> CFE_TIME_SysTime_t \<Rightarrow> CFE_TIME_SysTime_t \<Rightarrow> CFE_TIME_SysTime_t" where
  "adjust d c x = (if d = CFE_TIME_AdjustDirection_ADD then CFE_TIME_Add c x else CFE_TIME_Subtract c x)"

lemma SetSTCF_publish:
  "time_wf s \<Longrightarrow> CFE_TIME_SetSTCF x s = publish (AtToneSTCF_update (\<lambda>_. x)) s"
  by (simp add: CFE_TIME_SetSTCF_def ref_ops)

lemma SetLeapSeconds_publish:
  "time_wf s \<Longrightarrow> CFE_TIME_SetLeapSeconds x s = publish (AtToneLeapSeconds_update (\<lambda>_. x)) s"
  by (simp add: CFE_TIME_SetLeapSeconds_def ref_ops)

lemma SetAdjust_publish:
  "time_wf s \<Longrightarrow> CFE_TIME_SetAdjust x d s =
     publish (\<lambda>r. r\<lparr>AtToneSTCF := adjust d (AtToneSTCF r) x\<rparr>)
       (s\<lparr>OneTimeAdjust := x, OneTimeDirection := d\<rparr>)"
  by (simp add: CFE_TIME_SetAdjust_def adjust_def ref_ops)

lemma SetMET_publish:
  "time_wf s \<Longrightarrow> CFE_TIME_SetMET psp x s =
     publish (\<lambda>r. r\<lparr>AtToneMET := x, AtToneLatch := latch_of (psp (PspCalls s))\<rparr>)
       (s\<lparr>VirtualMET := Seconds x, PspCalls := PspCalls s + 1\<rparr>)"
  by (simp add: CFE_TIME_SetMET_def CFE_TIME_LatchClock_def latch_of_def ref_ops)

lemma SetState_publish:
  "time_wf s \<Longrightarrow> CFE_TIME_SetState n s =
     (if n = CFE_TIME_ClockState_FLYWHEEL
      then publish (ClockFlyState_update (\<lambda>_. CFE_TIME_FlywheelState_IS_FLY))
             (s\<lparr>Forced2Fly := True, ServerFlyState := CFE_TIME_FlywheelState_IS_FLY\<rparr>)
      else publish (ClockSetState_update (\<lambda>_. if n = CFE_TIME_ClockState_VALID
               then CFE_TIME_SetState_WAS_SET else CFE_TIME_SetState_NOT_SET)) (s\<lparr>Forced2Fly := False\<rparr>))"
  by (simp add: CFE_TIME_SetState_def ref_ops)

text \<open>On a well-formed state the first copy of the reference is taken.\<close>

definition make_reference :: "CFE_TIME_SysTime_t \<Rightarrow> CFE_TIME_SysTime_t \<Rightarrow> CFE_TIME_ReferenceState_t
    \<Rightarrow> CFE_TIME_Reference_t" where
  "make_reference maxClock latch r =
     (let since = elapsed_since maxClock latch (AtToneLatch r)
      in \<lparr>Ref_AtToneMET = AtToneMET r, Ref_AtToneSTCF = AtToneSTCF r,
          Ref_AtToneLeapSeconds = AtToneLeapSeconds r, Ref_ClockSetState = ClockSetState r,
          Ref_ClockFlyState = ClockFlyState r, Ref_DelayDirection = DelayDirection r,
          Ref_AtToneDelay = AtToneDelay r, Ref_AtToneLatch = AtToneLatch r,
          CurrentLatch = latch, TimeSinceTone = since, CurrentMET = CFE_TIME_Add since (AtToneMET r)\<rparr>)"

abbreviation now_latch :: "psp_clock \<Rightarrow> CFE_TIME_TaskData \<Rightarrow> CFE_TIME_SysTime_t" where
  "now_latch psp s \<equiv> latch_of (psp (PspCalls s))"

abbreviation tick :: "CFE_TIME_TaskData \<Rightarrow> CFE_TIME_TaskData" where
  "tick s \<equiv> s\<lparr>PspCalls := PspCalls s + 1\<rparr>"

lemma GetReference_wf:
  assumes "time_wf s"
  shows "CFE_TIME_GetReference psp s = (make_reference (MaxLocalClock s) (now_latch psp s) (cur s), tick s)"
proof -
  have "GetReference_loop psp 4 s = (now_latch psp s, cur s, tick s)"
    using wf_version [OF assms]
    by (simp add: numeral_eq_Suc CFE_TIME_LatchClock_def latch_of_def cur_def2 Let_def)
  then show ?thesis by (simp add: CFE_TIME_GetReference_def make_reference_def Let_def)
qed

lemma SetTime_publish:
  "time_wf s \<Longrightarrow> CFE_TIME_SetTime psp t s =
     publish (AtToneSTCF_update (\<lambda>_. CFE_TIME_Subtract t
        (CurrentMET (make_reference (MaxLocalClock s) (now_latch psp s) (cur s))))) (tick s)"
  by (simp add: CFE_TIME_SetTime_def GetReference_wf ref_ops)

lemma ref_upd_move:
  "(ref_upd i f s)\<lparr>VirtualMET := u\<rparr> = ref_upd i f (s\<lparr>VirtualMET := u\<rparr>)"
  "(ref_upd i f s)\<lparr>ServerFlyState := j\<rparr> = ref_upd i f (s\<lparr>ServerFlyState := j\<rparr>)"
  "ToneSignalLatch (ref_upd i f s) = ToneSignalLatch s"
  "ClockSource (ref_upd i f s) = ClockSource s"
  "VirtualMET (ref_upd i f s) = VirtualMET s"
  "i < length (ReferenceState s) \<Longrightarrow> ReferenceState (ref_upd i f s) ! i = f (ReferenceState s ! i)"
  by (simp_all add: ref_upd_def)

lemma ToneUpdate_publish:
  fixes psp :: psp_clock
  assumes "time_wf s"
  defines "R \<equiv> make_reference (MaxLocalClock s) (now_latch psp s) (cur s)"
  defines "fly \<equiv> ClockFlyState (cur s) = CFE_TIME_FlywheelState_IS_FLY"
  defines "src \<equiv> ClockSource s = CFE_TIME_SourceSelect_INTERNAL"
  defines "v \<equiv> (if src \<and> fly then Seconds (CurrentMET R) else VirtualMET s)"
  shows "CFE_TIME_ToneUpdate psp s =
    (let u = publish (\<lambda>r. r\<lparr>AtToneLatch := ToneSignalLatch s,
         AtToneMET := (if src then sys_time v 0 else AtToneMET r),
         ClockFlyState := (if fly then CFE_TIME_FlywheelState_NO_FLY else ClockFlyState r)\<rparr>)
       (s\<lparr>PspCalls := PspCalls s + 1, VirtualMET := v,
          ServerFlyState := (if fly then CFE_TIME_FlywheelState_NO_FLY else ServerFlyState s)\<rparr>)
     in if fly then emit (Event 21) u else u)"
proof -
  have len: "length (ReferenceState s) = 4" using assms(1) by simp
  have cur: "cur (s\<lparr>PspCalls := a\<rparr>) = cur s" "cur (s\<lparr>PspCalls := a, VirtualMET := b\<rparr>) = cur s"
    "cur (s\<lparr>PspCalls := a, VirtualMET := b, ServerFlyState := c\<rparr>) = cur s"
    "cur (s\<lparr>PspCalls := a, ServerFlyState := c\<rparr>) = cur s" for a b c by (simp_all add: cur_def2)
  have fly: "ClockFlyState (cur s) = CFE_TIME_FlywheelState_IS_FLY \<longleftrightarrow> fly" by (simp add: fly_def)
  have src: "ClockSource s = CFE_TIME_SourceSelect_INTERNAL \<longleftrightarrow> src" by (simp add: src_def)
  show ?thesis
    unfolding CFE_TIME_ToneUpdate_def GetReference_wf [OF assms(1)] R_def [symmetric] v_def
    by (cases fly; cases src)
      (simp_all add: Start_eq len cur ref_upd_move fly src o_def,
       simp_all add: CFE_TIME_FinishReferenceUpdate_def publish_def Let_def cur ref_upd_def len)
qed

lemma OneHzAdjust_publish:
  "time_wf s \<Longrightarrow> apply_OneHzAdjust s =
     (if OneHzAdjust s = sys_time 0 0 then s
      else publish (\<lambda>r. r\<lparr>AtToneSTCF := adjust (OneHzDirection s) (AtToneSTCF r) (OneHzAdjust s)\<rparr>) s)"
  by (cases "OneHzAdjust s") (simp add: apply_OneHzAdjust_def adjust_def ref_ops)

section \<open>Every operation keeps the reference well formed\<close>

lemma time_wf_cong:
  "ReferenceState s = ReferenceState t \<Longrightarrow> LastVersionCounter s = LastVersionCounter t
   \<Longrightarrow> length (SynchCallback s) = length (SynchCallback t) \<Longrightarrow> time_wf s = time_wf t"
  by (simp add: time_wf_def cur_def2)

lemma time_wf_emit [simp]: "time_wf (emit e s) = time_wf s"
  by (rule time_wf_cong) (simp_all add: emit_def)

lemma wf_publish_simp [simp]:
  "time_wf s \<Longrightarrow> \<forall>x. StateVersion (f x) = StateVersion x \<Longrightarrow> time_wf (publish f s)"
  by (rule wf_publish) auto

lemma time_wf_fields [simp]:
  "time_wf (s\<lparr>PspCalls := n\<rparr>) = time_wf s"
  "time_wf (s\<lparr>CommandCounter := c\<rparr>) = time_wf s"
  "time_wf (s\<lparr>CommandErrorCounter := c\<rparr>) = time_wf s"
  "time_wf (s\<lparr>VirtualMET := u\<rparr>) = time_wf s"
  "time_wf (s\<lparr>Forced2Fly := b\<rparr>) = time_wf s"
  "time_wf (s\<lparr>AutoStartFly := b\<rparr>) = time_wf s"
  "time_wf (s\<lparr>ServerFlyState := i\<rparr>) = time_wf s"
  "time_wf (s\<lparr>OneTimeDirection := i\<rparr>) = time_wf s"
  "time_wf (s\<lparr>OneTimeAdjust := t\<rparr>) = time_wf s"
  "time_wf (s\<lparr>OneHzDirection := i\<rparr>) = time_wf s"
  "time_wf (s\<lparr>OneHzAdjust := t\<rparr>) = time_wf s"
  "time_wf (s\<lparr>ToneMatchCounter := u\<rparr>) = time_wf s"
  "time_wf (s\<lparr>ToneMatchErrorCounter := u\<rparr>) = time_wf s"
  "time_wf (s\<lparr>ToneSignalCounter := u\<rparr>) = time_wf s"
  "time_wf (s\<lparr>ToneDataCounter := u\<rparr>) = time_wf s"
  "time_wf (s\<lparr>ToneTaskCounter := u\<rparr>) = time_wf s"
  "time_wf (s\<lparr>ToneIntCounter := u\<rparr>) = time_wf s"
  "time_wf (s\<lparr>ToneIntErrorCounter := u\<rparr>) = time_wf s"
  "time_wf (s\<lparr>LocalIntCounter := u\<rparr>) = time_wf s"
  "time_wf (s\<lparr>LocalTaskCounter := u\<rparr>) = time_wf s"
  "time_wf (s\<lparr>InternalCount := u\<rparr>) = time_wf s"
  "time_wf (s\<lparr>ExternalCount := u\<rparr>) = time_wf s"
  "time_wf (s\<lparr>ResetVersionCounter := u\<rparr>) = time_wf s"
  "time_wf (s\<lparr>IsToneGood := b\<rparr>) = time_wf s"
  "time_wf (s\<lparr>ToneSignalLatch := t\<rparr>) = time_wf s"
  "time_wf (s\<lparr>ToneDataLatch := t\<rparr>) = time_wf s"
  "time_wf (s\<lparr>PrevTime1 := t\<rparr>) = time_wf s"
  "time_wf (s\<lparr>PrevTime2 := t\<rparr>) = time_wf s"
  "time_wf (s\<lparr>PendingMET := t\<rparr>) = time_wf s"
  "time_wf (s\<lparr>PendingSTCF := t\<rparr>) = time_wf s"
  "time_wf (s\<lparr>PendingLeaps := i\<rparr>) = time_wf s"
  "time_wf (s\<lparr>PendingState := i\<rparr>) = time_wf s"
  "time_wf (s\<lparr>TimeResetVars := r\<rparr>) = time_wf s"
  "time_wf (s\<lparr>SynchCallback := (SynchCallback s)[k := p]\<rparr>) = time_wf s"
  by (rule time_wf_cong; simp)+

lemma wf_setters [simp]:
  assumes "time_wf s"
  shows "time_wf (CFE_TIME_SetSTCF t s)" "time_wf (CFE_TIME_SetLeapSeconds i s)"
    "time_wf (CFE_TIME_SetAdjust t i s)" "time_wf (CFE_TIME_SetMET psp t s)"
    "time_wf (CFE_TIME_SetState i s)" "time_wf (CFE_TIME_SetTime psp t s)"
    "time_wf (CFE_TIME_Set1HzAdj t i s)" "time_wf (apply_OneHzAdjust s)"
    "time_wf (CFE_TIME_ToneUpdate psp s)" "time_wf (CFE_TIME_UpdateResetVars r s)"
  using assms
  by (simp_all add: SetSTCF_publish SetLeapSeconds_publish SetAdjust_publish SetMET_publish
    SetState_publish SetTime_publish OneHzAdjust_publish ToneUpdate_publish Let_def
    CFE_TIME_Set1HzAdj_def CFE_TIME_UpdateResetVars_def)

lemma snd_LatchClock [simp]: "CFE_TIME_LatchClock psp s = (now_latch psp s, tick s)"
  by (simp add: CFE_TIME_LatchClock_def latch_of_def Let_def)

lemma wf_Notify [simp]: "time_wf (CFE_TIME_NotifyTimeSynchApps s) = time_wf s"
proof -
  have "time_wf (fold (\<lambda>Func s. if Func \<noteq> 0 then emit (Callback Func) s else s) fs s) = time_wf s" for fs
    by (induction fs arbitrary: s) simp_all
  then show ?thesis by (simp add: CFE_TIME_NotifyTimeSynchApps_def)
qed

lemma wf_tone [simp]:
  assumes "time_wf s"
  shows "time_wf (CFE_TIME_ToneSend psp s)" "time_wf (CFE_TIME_ToneVerify psp t u s)"
    "time_wf (CFE_TIME_ToneData psp c s)" "time_wf (CFE_TIME_ToneSignal s)"
    "time_wf (CFE_TIME_Tone1HzISR psp s)" "time_wf (CFE_TIME_Local1HzISR s)"
    "time_wf (Tone1HzTask_round ok s)" "time_wf (Local1HzTask_round ok s)"
proof -
  have verify: "time_wf (CFE_TIME_ToneVerify psp t u s)" if "time_wf s" for t u s
    using that by (simp add: CFE_TIME_ToneVerify_def Let_def)
  show "time_wf (CFE_TIME_ToneVerify psp t u s)" by (rule verify [OF assms])
  show "time_wf (CFE_TIME_ToneData psp c s)"
    using assms by (simp add: CFE_TIME_ToneData_def Let_def verify)
  show "time_wf (CFE_TIME_ToneSend psp s)" "time_wf (CFE_TIME_ToneSignal s)"
    "time_wf (CFE_TIME_Tone1HzISR psp s)" "time_wf (CFE_TIME_Local1HzISR s)"
    "time_wf (Tone1HzTask_round ok s)" "time_wf (Local1HzTask_round ok s)"
    using assms
    by (simp_all add: CFE_TIME_ToneSend_def GetReference_wf CFE_TIME_ToneSignal_def
      CFE_TIME_Tone1HzISR_def CFE_TIME_Local1HzISR_def Tone1HzTask_round_def
      Local1HzTask_round_def Let_def)
qed


lemma StateMachine_eq:
  fixes psp :: psp_clock
  assumes "time_wf s"
  defines "a \<equiv> apply_OneHzAdjust s"
  defines "R \<equiv> make_reference (MaxLocalClock a) (now_latch psp a) (cur a)"
  shows "CFE_TIME_Local1HzStateMachine psp s =
    (if ClockFlyState (cur a) = CFE_TIME_FlywheelState_NO_FLY
        \<and> Seconds (TimeSinceTone R) \<ge> CFE_PLATFORM_TIME_CFG_START_FLY
     then publish (ClockFlyState_update (\<lambda>_. CFE_TIME_FlywheelState_IS_FLY))
            ((tick a)\<lparr>ServerFlyState := CFE_TIME_FlywheelState_IS_FLY, AutoStartFly := True\<rparr>)
     else if ClockFlyState (cur a) = CFE_TIME_FlywheelState_IS_FLY
        \<and> Seconds (TimeSinceTone R) \<ge> CFE_PLATFORM_TIME_CFG_LATCH_FLY
     then publish (\<lambda>r. r\<lparr>AtToneMET := CurrentMET R, AtToneLatch := now_latch psp a\<rparr>) (tick a)
     else tick a)"
proof -
  have wf: "time_wf a" using assms(1) by (simp add: a_def)
  have R: "Ref_ClockFlyState R = ClockFlyState (cur a)" "CurrentLatch R = now_latch psp a"
    by (simp_all add: R_def make_reference_def Let_def)
  show ?thesis
    unfolding CFE_TIME_Local1HzStateMachine_def a_def [symmetric] Let_def GetReference_wf [OF wf]
    unfolding R_def [symmetric] prod.case R
    using wf by (simp add: ref_ops)
qed

lemma wf_StateMachine [simp]: "time_wf s \<Longrightarrow> time_wf (CFE_TIME_Local1HzStateMachine psp s)"
  by (simp add: StateMachine_eq)

lemma wf_queries [simp]:
  assumes "time_wf s"
  shows "time_wf (snd (CFE_TIME_GetReference psp s))" "time_wf (snd (CFE_TIME_GetTime psp s))"
    "time_wf (snd (CFE_TIME_GetUTC psp s))"
  using assms by (simp_all add: CFE_TIME_GetTime_def CFE_TIME_GetTAI_def CFE_TIME_GetUTC_def GetReference_wf Let_def)

lemma wf_callbacks [simp]:
  assumes "time_wf s"
  shows "time_wf (snd (CFE_TIME_RegisterSynchCallback app p s))"
    "time_wf (snd (CFE_TIME_UnregisterSynchCallback app p s))" "time_wf (snd (CFE_TIME_CleanUpApp i s))"
  using assms by (auto simp: CFE_TIME_RegisterSynchCallback_def CFE_TIME_UnregisterSynchCallback_def
    CFE_TIME_CleanUpApp_def Let_def split: prod.splits)

lemma wf_cmd [simp]: "time_wf (cmd_ok e s) = time_wf s" "time_wf (cmd_err e s) = time_wf s"
  by (simp_all add: cmd_ok_def cmd_err_def)

lemma wf_with_length: "(\<And>s. time_wf s \<Longrightarrow> time_wf (f s)) \<Longrightarrow> time_wf s \<Longrightarrow> time_wf (with_length m n f s)"
  by (simp add: with_length_def CFE_TIME_VerifyCmdLength_def Let_def)

lemma wf_commands [simp]:
  assumes "time_wf s"
  shows "time_wf (CFE_TIME_HousekeepingCmd psp s)" "time_wf (CFE_TIME_NoopCmd s)"
    "time_wf (CFE_TIME_ResetCountersCmd s)" "time_wf (CFE_TIME_SendDiagnosticTlm psp s)"
    "time_wf (CFE_TIME_SetStateCmd i s)" "time_wf (CFE_TIME_SetSourceCmd i s)"
    "time_wf (CFE_TIME_SetSignalCmd i s)" "time_wf (CFE_TIME_SetDelayImpl u v i s)"
    "time_wf (CFE_TIME_SetTimeCmd psp u v s)" "time_wf (CFE_TIME_SetMETCmd psp u v s)"
    "time_wf (CFE_TIME_SetSTCFCmd u v s)" "time_wf (CFE_TIME_SetLeapSecondsCmd i s)"
    "time_wf (CFE_TIME_AdjustImpl u v i s)" "time_wf (CFE_TIME_1HzAdjImpl u v i s)"
  using assms
  by (simp_all add: CFE_TIME_HousekeepingCmd_def GetReference_wf CFE_TIME_GetTime_def
    CFE_TIME_GetTAI_def CFE_TIME_NoopCmd_def CFE_TIME_ResetCountersCmd_def
    CFE_TIME_SendDiagnosticTlm_def CFE_TIME_GetDiagData_def CFE_TIME_SetStateCmd_def
    CFE_TIME_SetSourceCmd_def CFE_TIME_SetSignalCmd_def CFE_TIME_SetDelayImpl_def
    CFE_TIME_SetTimeCmd_def CFE_TIME_SetMETCmd_def CFE_TIME_SetSTCFCmd_def
    CFE_TIME_SetLeapSecondsCmd_def CFE_TIME_AdjustImpl_def CFE_TIME_1HzAdjImpl_def Let_def)

lemma wf_TaskPipe [simp]: "time_wf s \<Longrightarrow> time_wf (CFE_TIME_TaskPipe psp m s)"
  by (simp add: CFE_TIME_TaskPipe_def ground_command_def Let_def wf_with_length)

lemma wf_QueryResetVars:
  assumes "length (ReferenceState s) = 4"
  shows "length (ReferenceState (CFE_TIME_QueryResetVars s)) = 4"
  using assms by (simp add: CFE_TIME_QueryResetVars_def Start_eq Let_def CFE_TIME_FinishReferenceUpdate_def
    split: option.splits)

lemma wf_InitData: "time_wf (CFE_TIME_InitData psp s)"
proof -
  define q where "q = CFE_TIME_QueryResetVars (s\<lparr>CommandCounter := 0, CommandErrorCounter := 0,
    LastVersionCounter := 0, ResetVersionCounter := 0,
    ReferenceState := replicate CFE_TIME_REFERENCE_BUF_DEPTH ref_zero\<rparr>)"
  have "length (ReferenceState q) = 4"
    unfolding q_def by (rule wf_QueryResetVars) (simp add: CFE_TIME_REFERENCE_BUF_DEPTH_def)
  then show ?thesis
    unfolding CFE_TIME_InitData_def Let_def q_def [symmetric]
    by (simp add: Start_eq time_wf_def cur_def2 ref_upd_def CFE_TIME_FinishReferenceUpdate_def
      CFE_TIME_REFERENCE_BUF_DEPTH_def)
qed

end
