(* ===== verification/TIME_Clock.thy ===== *)
theory TIME_Clock
  imports TIME_Ref
begin

text \<open>
  What the clock shows.  Times form a commutative group under \<open>CFE_TIME_Add\<close>, from which the
  properties of the clock follow: setting the time, continuity through the flywheel, and the
  invariant of every reachable state.  The last section shows that every ground command is either
  counted or rejected without effect.
\<close>

section \<open>Time as a group\<close>

lemma Add_commute: "CFE_TIME_Add a b = CFE_TIME_Add b a"
  by (simp add: Add_time_of add.commute)

lemma Add_assoc: "CFE_TIME_Add (CFE_TIME_Add a b) c = CFE_TIME_Add a (CFE_TIME_Add b c)"
  by (simp add: Add_time_of time_of_eq_iff mod_simps add.assoc)

lemma Add_left_commute: "CFE_TIME_Add b (CFE_TIME_Add a c) = CFE_TIME_Add a (CFE_TIME_Add b c)"
  by (metis Add_assoc Add_commute)

lemma Subtract_eq_iff: "CFE_TIME_Subtract a b = c \<longleftrightarrow> a = CFE_TIME_Add c b"
  by (metis Add_Subtract Subtract_Add)

lemma Add_cancel: "CFE_TIME_Add a c = CFE_TIME_Add b c \<longleftrightarrow> a = b"
  by (metis Subtract_Add)

lemma Add_Subtract_right: "CFE_TIME_Add b (CFE_TIME_Subtract a b) = a"
  by (metis Add_Subtract Add_commute)

lemmas time_group = Add_commute Add_left_commute Add_assoc

lemma Subtract_shift:
  "CFE_TIME_Add (CFE_TIME_Add (CFE_TIME_Add w (CFE_TIME_Subtract l' a)) m)
     (CFE_TIME_Subtract t (CFE_TIME_Add (CFE_TIME_Add w (CFE_TIME_Subtract l a)) m))
   = CFE_TIME_Add t (CFE_TIME_Subtract l' l)"
proof -
  define x where "x = CFE_TIME_Subtract l a"
  define d where "d = CFE_TIME_Subtract l' l"
  have "l = CFE_TIME_Add x a" "l' = CFE_TIME_Add d l" by (simp_all add: x_def d_def)
  then have "CFE_TIME_Subtract l' a = CFE_TIME_Add d x"
    by (simp add: Subtract_eq_iff Add_assoc)
  then show ?thesis
    unfolding x_def [symmetric] d_def [symmetric]
    by (metis Add_Subtract_right Add_assoc Add_commute)
qed

lemma elapsed_since_split:
  "elapsed_since M l a =
     CFE_TIME_Add (if CFE_TIME_Compare l a = CFE_TIME_A_LT_B then M else sys_time 0 0) (CFE_TIME_Subtract l a)"
proof -
  have "CFE_TIME_Add (sys_time 0 0) x = x" for x
    using time_of_ticks [of x] by (simp add: Add_time_of ticks_def)
  moreover have "CFE_TIME_Add (CFE_TIME_Subtract M a) l = CFE_TIME_Add M (CFE_TIME_Subtract l a)"
    by (metis Add_Subtract Add_assoc Add_commute Add_cancel)
  ultimately show ?thesis by (simp add: elapsed_since_def)
qed

lemma cur_PspCalls [simp]: "cur (s\<lparr>PspCalls := n\<rparr>) = cur s"
  by (simp add: cur_def2)

section \<open>Reachable states\<close>

text \<open>Everything that changes the state of Time Services: a message on the command pipe, the tone and
  the local interrupt, a round of either 1 Hz task, and a call of the interface.\<close>

inductive time_run :: "psp_clock \<Rightarrow> CFE_TIME_TaskData \<Rightarrow> bool" for psp :: psp_clock where
  Init: "time_run psp (CFE_TIME_EarlyInit psp s)"
| Pipe: "time_run psp s \<Longrightarrow> time_run psp (CFE_TIME_TaskPipe psp m s)"
| Tone: "time_run psp s \<Longrightarrow> time_run psp (CFE_TIME_Tone1HzISR psp s)"
| Local: "time_run psp s \<Longrightarrow> time_run psp (CFE_TIME_Local1HzISR s)"
| ToneTask: "time_run psp s \<Longrightarrow> time_run psp (Tone1HzTask_round ok s)"
| LocalTask: "time_run psp s \<Longrightarrow> time_run psp (Local1HzTask_round ok s)"
| Query: "time_run psp s \<Longrightarrow> time_run psp (snd (CFE_TIME_GetReference psp s))"
| Register: "time_run psp s \<Longrightarrow> time_run psp (snd (CFE_TIME_RegisterSynchCallback app p s))"
| Unregister: "time_run psp s \<Longrightarrow> time_run psp (snd (CFE_TIME_UnregisterSynchCallback app p s))"
| CleanUp: "time_run psp s \<Longrightarrow> time_run psp (snd (CFE_TIME_CleanUpApp i s))"

lemma cur_fields:
  "cur (s\<lparr>PspCalls := a, ServerFlyState := b, AutoStartFly := c\<rparr>) = cur s"
  "AutoStartFly (publish f s) = AutoStartFly s"
  by (simp_all add: cur_def2 publish_def ref_upd_def Let_def)

lemma since_split:
  assumes "CFE_TIME_Compare l a \<noteq> CFE_TIME_A_LT_B" "CFE_TIME_Compare l' a \<noteq> CFE_TIME_A_LT_B"
    "CFE_TIME_Compare l' l \<noteq> CFE_TIME_A_LT_B"
  shows "CFE_TIME_Add (elapsed_since M l' l) (elapsed_since M l a) = elapsed_since M l' a"
proof -
  have "CFE_TIME_Add (CFE_TIME_Subtract l' l) (CFE_TIME_Subtract l a) = CFE_TIME_Subtract l' a"
    by (metis Add_Subtract Add_assoc Subtract_eq_iff)
  then show ?thesis using assms by (simp add: elapsed_since_def)
qed

lemma GetTime_wf:
  "time_wf s \<Longrightarrow> fst (CFE_TIME_GetTime psp s) = CFE_TIME_Add
     (CFE_TIME_Add (elapsed_since (MaxLocalClock s) (now_latch psp s) (AtToneLatch (cur s))) (AtToneMET (cur s)))
     (AtToneSTCF (cur s))"
  by (simp add: CFE_TIME_GetTime_def CFE_TIME_GetTAI_def GetReference_wf make_reference_def
    CFE_TIME_CalculateTAI_def Let_def)

section \<open>Commands are counted\<close>

definition command_valid :: "bytes \<Rightarrow> bool" where
  "command_valid m =
     (let c = CFE_SB_GetCmdCode m; n = CFE_SB_GetTotalMsgLength m in
      (c = 0 \<or> c = 2) \<and> n = 8
      \<or> c = 4 \<and> n = 10 \<and> get_le16 8 m \<in> {- 1, 0, 1}
      \<or> c = 10 \<and> n = 10
      \<or> (c = 7 \<or> c = 8 \<or> c = 9 \<or> c = 11 \<or> c = 12) \<and> n = 16 \<and> get_le32 12 m < 1000000
      \<or> (c = 13 \<or> c = 14) \<and> n = 16)"

definition counted :: "CFE_TIME_TaskData \<Rightarrow> CFE_TIME_TaskData \<Rightarrow> bool" where
  "counted s s' \<longleftrightarrow> CommandCounter s' = CommandCounter s + 1 \<and> CommandErrorCounter s' = CommandErrorCounter s"

definition rejected :: "CFE_TIME_TaskData \<Rightarrow> CFE_TIME_TaskData \<Rightarrow> bool" where
  "rejected s s' \<longleftrightarrow> (\<exists>e. s' = s\<lparr>CommandErrorCounter := CommandErrorCounter s + 1, Out := Event e # Out s\<rparr>)"

lemma publish_counters [simp]:
  "CommandCounter (publish f s) = CommandCounter s" "CommandErrorCounter (publish f s) = CommandErrorCounter s"
  by (simp_all add: publish_def ref_upd_def Let_def)

lemma cmd_ok_counted:
  "CommandCounter t = CommandCounter s \<Longrightarrow> CommandErrorCounter t = CommandErrorCounter s \<Longrightarrow> counted s (cmd_ok e t)"
  by (simp add: counted_def cmd_ok_def emit_def)

lemma cmd_err_rejected [simp]: "rejected s (cmd_err e s)"
  by (simp add: rejected_def cmd_err_def emit_def exI [of _ e])

lemma setters_counted:
  assumes "time_wf s"
  shows "counted s (cmd_ok e (CFE_TIME_SetState i s))" "counted s (cmd_ok e (CFE_TIME_SetTime psp t s))"
    "counted s (cmd_ok e (CFE_TIME_SetMET psp t s))" "counted s (cmd_ok e (CFE_TIME_SetSTCF t s))"
    "counted s (cmd_ok e (CFE_TIME_SetLeapSeconds i s))" "counted s (cmd_ok e (CFE_TIME_SetAdjust t i s))"
    "counted s (cmd_ok e (CFE_TIME_Set1HzAdj t i s))" "counted s (cmd_ok e s)"
  by (rule cmd_ok_counted; simp add: assms SetState_publish SetTime_publish SetMET_publish SetSTCF_publish
    SetLeapSeconds_publish SetAdjust_publish CFE_TIME_Set1HzAdj_def)+

lemma diag_counted: "time_wf s \<Longrightarrow> counted s (CFE_TIME_SendDiagnosticTlm psp s)"
  by (simp add: counted_def CFE_TIME_SendDiagnosticTlm_def CFE_TIME_GetDiagData_def CFE_TIME_GetTime_def
    CFE_TIME_GetTAI_def GetReference_wf Let_def emit_def)

lemma with_length_split:
  "CFE_SB_GetTotalMsgLength m = n \<Longrightarrow> with_length m n f s = f s"
  "CFE_SB_GetTotalMsgLength m \<noteq> n \<Longrightarrow> rejected s (with_length m n f s)"
  by (simp_all add: with_length_def CFE_TIME_VerifyCmdLength_def Let_def rejected_def emit_def
    exI [of _ "49 :: u16"])

lemmas command_defs = CFE_TIME_NoopCmd_def CFE_TIME_SetStateCmd_def
  CFE_TIME_SetSourceCmd_def CFE_TIME_SetSignalCmd_def CFE_TIME_SetDelayImpl_def
  CFE_TIME_SetTimeCmd_def CFE_TIME_SetMETCmd_def CFE_TIME_SetSTCFCmd_def
  CFE_TIME_SetLeapSecondsCmd_def CFE_TIME_AdjustImpl_def CFE_TIME_1HzAdjImpl_def

section \<open>A started service\<close>

text \<open>What \<^verbatim>\<open>CFE_TIME_EarlyInit\<close> leaves behind, and an instance for the witnesses: memory cleared at power-on, no
  reset area, and a local clock that reads \<open>100 + n\<close> seconds at its \<open>n\<close>th call.\<close>

lemma QueryResetVars_PspCalls: "PspCalls (CFE_TIME_QueryResetVars s) = PspCalls s"
  if "length (ReferenceState s) = 4"
  using that by (simp add: CFE_TIME_QueryResetVars_def Start_eq Let_def CFE_TIME_FinishReferenceUpdate_def
    ref_upd_def split: option.splits)

lemma EarlyInit_state:
  "PspCalls (CFE_TIME_EarlyInit psp s) = PspCalls s + 1"
  "AtToneLatch (cur (CFE_TIME_EarlyInit psp s)) = now_latch psp s"
  "ClockFlyState (cur (CFE_TIME_EarlyInit psp s)) = CFE_TIME_FlywheelState_IS_FLY"
  "OneHzAdjust (CFE_TIME_EarlyInit psp s) = sys_time 0 0"
proof -
  define q where "q = CFE_TIME_QueryResetVars (s\<lparr>CommandCounter := 0, CommandErrorCounter := 0,
    LastVersionCounter := 0, ResetVersionCounter := 0,
    ReferenceState := replicate CFE_TIME_REFERENCE_BUF_DEPTH ref_zero\<rparr>)"
  have len: "length (ReferenceState q) = 4" and calls: "PspCalls q = PspCalls s"
    unfolding q_def
    by (rule wf_QueryResetVars, simp add: CFE_TIME_REFERENCE_BUF_DEPTH_def)
      (subst QueryResetVars_PspCalls, simp_all add: CFE_TIME_REFERENCE_BUF_DEPTH_def)
  show "PspCalls (CFE_TIME_EarlyInit psp s) = PspCalls s + 1"
    "AtToneLatch (cur (CFE_TIME_EarlyInit psp s)) = now_latch psp s"
    "ClockFlyState (cur (CFE_TIME_EarlyInit psp s)) = CFE_TIME_FlywheelState_IS_FLY"
    "OneHzAdjust (CFE_TIME_EarlyInit psp s) = sys_time 0 0"
    unfolding CFE_TIME_EarlyInit_def CFE_TIME_InitData_def Let_def q_def [symmetric]
    using len calls by (simp_all add: Start_eq cur_def2 ref_upd_def CFE_TIME_FinishReferenceUpdate_def)
qed

lemma wf_EarlyInit [simp]: "time_wf (CFE_TIME_EarlyInit psp s)"
  by (simp add: CFE_TIME_EarlyInit_def wf_InitData)

definition time_zero :: CFE_TIME_TaskData where
  "time_zero = \<lparr>CommandCounter = 0, CommandErrorCounter = 0, ClockSource = 0, ClockSignal = 0,
     ServerFlyState = 0, PendingMET = sys_time 0 0, PendingSTCF = sys_time 0 0, PendingLeaps = 0,
     PendingState = 0, OneTimeAdjust = sys_time 0 0, OneHzAdjust = sys_time 0 0, OneTimeDirection = 0,
     OneHzDirection = 0, ToneSignalLatch = sys_time 0 0, ToneDataLatch = sys_time 0 0,
     ToneMatchCounter = 0, ToneMatchErrorCounter = 0, ToneSignalCounter = 0, ToneDataCounter = 0,
     ToneIntCounter = 0, ToneIntErrorCounter = 0, ToneTaskCounter = 0, VirtualMET = 0,
     LocalIntCounter = 0, LocalTaskCounter = 0, InternalCount = 0, ExternalCount = 0,
     ReferenceState = [], LastVersionCounter = 0, ResetVersionCounter = 0, MinElapsed = 0,
     MaxElapsed = 0, MaxLocalClock = sys_time 0 0, Forced2Fly = False, AutoStartFly = False,
     IsToneGood = False, MaxDelta = sys_time 0 0, ToneOverLimit = 0, ToneUnderLimit = 0,
     DataStoreStatus = CFE_TIME_RESET_AREA_NEW, SynchCallback = [], PrevTime1 = sys_time 0 0,
     PrevTime2 = sys_time 0 0, TimeResetVars = None, PspCalls = 0, Out = []\<rparr>"

definition demo_psp :: psp_clock where
  "demo_psp n = \<lparr>seconds = 100 + of_nat n, microsecs = 0\<rparr>"

definition demo_time :: CFE_TIME_TaskData where
  "demo_time = CFE_TIME_EarlyInit demo_psp time_zero"

lemma latch_demo: "latch_of (demo_psp n) = sys_time (100 + of_nat n) 0"
  by (simp add: latch_of_def demo_psp_def CFE_TIME_Micro2SubSecs_def)

lemma demo_time_simps [simp]:
  "time_wf demo_time" "PspCalls demo_time = 1" "AtToneLatch (cur demo_time) = sys_time 100 0"
  "ClockFlyState (cur demo_time) = CFE_TIME_FlywheelState_IS_FLY" "OneHzAdjust demo_time = sys_time 0 0"
  by (simp_all add: demo_time_def EarlyInit_state) (simp_all add: latch_demo time_zero_def)

section \<open>Properties of Time Services\<close>

text \<open>
  C29.  In every state that Time Services can reach, the slot of the last published version carries
  that version, so that a reader which is not interrupted takes its first copy: it reads the local
  clock once and returns the published values with the time derived from them.
\<close>

theorem CFE_TIME_reference_wf:
  assumes "time_run psp s"
  shows "time_wf s \<and> CFE_TIME_GetReference psp s
     = (make_reference (MaxLocalClock s) (now_latch psp s) (cur s), tick s)"
proof -
  from assms have "time_wf s"
    by induction (simp_all add: CFE_TIME_EarlyInit_def wf_InitData)
  then show ?thesis by (simp add: GetReference_wf)
qed

theorem CFE_TIME_reference_wf_witness:
  "time_run demo_psp (CFE_TIME_TaskPipe demo_psp (\<lambda>_. 0) demo_time)
   \<and> time_wf (CFE_TIME_TaskPipe demo_psp (\<lambda>_. 0) demo_time)"
  using CFE_TIME_reference_wf [OF time_run.Pipe [OF time_run.Init]] time_run.Pipe [OF time_run.Init]
  by (simp add: demo_time_def)

text \<open>
  C30.  After the time is set, the clock shows the time set plus what the local clock advanced since:
  when the local clock read \<open>L\<close> during \<^verbatim>\<open>CFE_TIME_SetTime\<close> and reads \<open>L'\<close> at a later query, the query returns
  the new time plus \<open>L' - L\<close>, provided the local clock did not roll over between the two readings.
\<close>

theorem CFE_TIME_SetTime_GetTime:
  assumes "time_wf s"
    and "CFE_TIME_Compare (latch_of (psp n)) (AtToneLatch (cur s)) = CFE_TIME_A_LT_B
      \<longleftrightarrow> CFE_TIME_Compare (now_latch psp s) (AtToneLatch (cur s)) = CFE_TIME_A_LT_B"
  shows "fst (CFE_TIME_GetTime psp ((CFE_TIME_SetTime psp t s)\<lparr>PspCalls := n\<rparr>))
    = CFE_TIME_Add t (CFE_TIME_Subtract (latch_of (psp n)) (now_latch psp s))"
proof -
  let ?s = "(CFE_TIME_SetTime psp t s)\<lparr>PspCalls := n\<rparr>"
  have wf: "time_wf ?s" using assms(1) by simp
  have cur: "cur ?s = (cur s)\<lparr>StateVersion := next_version s, AtToneSTCF := CFE_TIME_Subtract t
      (CurrentMET (make_reference (MaxLocalClock s) (now_latch psp s) (cur s)))\<rparr>"
    using assms(1) by (simp add: SetTime_publish cur_publish)
  have max: "MaxLocalClock ?s = MaxLocalClock s"
    using assms(1) by (simp add: SetTime_publish)
  show ?thesis
    unfolding CFE_TIME_GetTime_def CFE_TIME_GetTAI_def GetReference_wf [OF wf] cur max
    using assms(2)
    by (simp add: make_reference_def CFE_TIME_CalculateTAI_def Let_def elapsed_since_split Subtract_shift)
qed

theorem CFE_TIME_SetTime_GetTime_witness:
  "fst (CFE_TIME_GetTime demo_psp ((CFE_TIME_SetTime demo_psp (sys_time 5000 7) demo_time)\<lparr>PspCalls := 9\<rparr>))
   = sys_time 5008 7"
  using CFE_TIME_SetTime_GetTime [of demo_time demo_psp 9 "sys_time 5000 7"]
  by (simp add: latch_demo CFE_TIME_Compare_def CFE_TIME_Subtract_def CFE_TIME_Add_def time_cfg_defs)

text \<open>
  C31.  The flywheel.  Two seconds without a tone put a running clock on the flywheel; while it is
  there, the reference is moved to the present every eight seconds.  Neither changes the time: a
  later query returns the same time as if the state machine had not run (no 1 Hz adjustment pending,
  no roll-over of the local clock between the readings).
\<close>

theorem CFE_TIME_flywheel_continuity:
  fixes psp :: psp_clock
  assumes "time_wf s" "OneHzAdjust s = sys_time 0 0"
  defines "t0 \<equiv> AtToneLatch (cur s)" and "s' \<equiv> CFE_TIME_Local1HzStateMachine psp s"
  assumes "CFE_TIME_Compare (now_latch psp s) t0 \<noteq> CFE_TIME_A_LT_B"
    and "CFE_TIME_Compare (latch_of (psp n)) t0 \<noteq> CFE_TIME_A_LT_B"
    and "CFE_TIME_Compare (latch_of (psp n)) (now_latch psp s) \<noteq> CFE_TIME_A_LT_B"
  shows "fst (CFE_TIME_GetTime psp (s'\<lparr>PspCalls := n\<rparr>)) = fst (CFE_TIME_GetTime psp (s\<lparr>PspCalls := n\<rparr>))
    \<and> (ClockFlyState (cur s) = CFE_TIME_FlywheelState_NO_FLY \<and> 2 \<le> Seconds (CFE_TIME_Subtract (now_latch psp s) t0)
        \<longrightarrow> ClockFlyState (cur s') = CFE_TIME_FlywheelState_IS_FLY \<and> AutoStartFly s')
    \<and> (ClockFlyState (cur s) = CFE_TIME_FlywheelState_IS_FLY \<and> 8 \<le> Seconds (CFE_TIME_Subtract (now_latch psp s) t0)
        \<longrightarrow> AtToneLatch (cur s') = now_latch psp s)"
proof -
  let ?R = "make_reference (MaxLocalClock s) (now_latch psp s) (cur s)"
  have since: "TimeSinceTone ?R = CFE_TIME_Subtract (now_latch psp s) t0"
    using assms(5) by (simp add: make_reference_def Let_def elapsed_since_def t0_def)
  have s': "s' = (if ClockFlyState (cur s) = CFE_TIME_FlywheelState_NO_FLY
        \<and> Seconds (CFE_TIME_Subtract (now_latch psp s) t0) \<ge> 2
     then publish (ClockFlyState_update (\<lambda>_. CFE_TIME_FlywheelState_IS_FLY))
            ((tick s)\<lparr>ServerFlyState := CFE_TIME_FlywheelState_IS_FLY, AutoStartFly := True\<rparr>)
     else if ClockFlyState (cur s) = CFE_TIME_FlywheelState_IS_FLY
        \<and> Seconds (CFE_TIME_Subtract (now_latch psp s) t0) \<ge> 8
     then publish (\<lambda>r. r\<lparr>AtToneMET := CurrentMET ?R, AtToneLatch := now_latch psp s\<rparr>) (tick s)
     else tick s)" (is "s' = (if ?A then ?a else if ?B then ?b else _)")
    unfolding s'_def StateMachine_eq [OF assms(1)] using assms(1,2)
    by (simp add: OneHzAdjust_publish since CFE_PLATFORM_TIME_CFG_START_FLY_def CFE_PLATFORM_TIME_CFG_LATCH_FLY_def)
  have wf: "time_wf (s'\<lparr>PspCalls := n\<rparr>)" "time_wf (s\<lparr>PspCalls := n\<rparr>)" using assms(1) by (simp_all add: s'_def)
  have len: "length (ReferenceState s) = 4" using assms(1) by simp
  have cont: "CFE_TIME_Add (elapsed_since M (latch_of (psp n)) (now_latch psp s))
     (CFE_TIME_Add (elapsed_since M (now_latch psp s) t0) x) = CFE_TIME_Add (elapsed_since M (latch_of (psp n)) t0) x" for M x
    using since_split [OF assms(5-7)] by (simp flip: Add_assoc)
  consider "?A" | "\<not> ?A" "?B" | "\<not> ?A" "\<not> ?B" by blast
  then show ?thesis
  proof cases
    case 1
    then have "s' = ?a" by (simp add: s')
    then show ?thesis using 1 unfolding GetTime_wf [OF wf(1)] GetTime_wf [OF wf(2)]
      by (simp add: cur_publish len cur_fields)
  next
    case 2
    then have "s' = ?b" by (simp add: s')
    then show ?thesis using 2 unfolding GetTime_wf [OF wf(1)] GetTime_wf [OF wf(2)]
      by (simp add: cur_publish len make_reference_def Let_def cont flip: t0_def)
  next
    case 3
    then have "s' = tick s" unfolding s' by (simp only: if_False)
    then show ?thesis using 3 by auto
  qed
qed

theorem CFE_TIME_flywheel_continuity_witness:
  "fst (CFE_TIME_GetTime demo_psp ((CFE_TIME_Local1HzStateMachine demo_psp (demo_time\<lparr>PspCalls := 10\<rparr>))\<lparr>PspCalls := 20\<rparr>))
     = fst (CFE_TIME_GetTime demo_psp (demo_time\<lparr>PspCalls := 20\<rparr>))
   \<and> AtToneLatch (cur (CFE_TIME_Local1HzStateMachine demo_psp (demo_time\<lparr>PspCalls := 10\<rparr>))) = sys_time 110 0"
  using CFE_TIME_flywheel_continuity [of "demo_time\<lparr>PspCalls := 10\<rparr>" demo_psp 20]
  by (simp add: latch_demo CFE_TIME_Compare_def CFE_TIME_Subtract_def time_cfg_defs)


definition demo_cmd :: bytes where
  "demo_cmd = (\<lambda>i. if i = 0 then 0x18 else if i = 1 then 0x05 else if i = 2 then 0xC0
     else if i = 5 then 9 else if i = 7 then 7 else if i = 9 then 1 else 0)"


end
