(* ===== verification/TIME_Version.thy ===== *)
theory TIME_Version
  imports TIME_Clock
begin

text \<open>
  The ring of versions under concurrency.  Readers of the time reference take no lock: a task or an
  interrupt may read while an update is in progress, or be overtaken by several updates.  The step
  relation \<open>version_step\<close> interleaves one reader with the updates, word by word:

  \<^item> an update writes the version number into the next slot first, then any sequence of writes to the
    other words of that slot, then publishes the slot;
  \<^item> a reader notes the last version, copies the twelve words of its slot one by one, and accepts
    the copy when the slot still carries the version it noted; otherwise it starts again.

  Updates are made one at a time.  Memory is sequentially consistent.
\<close>

section \<open>Interleaved reading and updating\<close>

text \<open>The words a reader copies, in the order of \<^verbatim>\<open>CFE_TIME_GetReference\<close>, and the copy they make.\<close>

definition ref_words :: "CFE_TIME_ReferenceState_t \<Rightarrow> u32 list" where
  "ref_words r =
     [Seconds (AtToneMET r), Subseconds (AtToneMET r), Seconds (AtToneSTCF r), Subseconds (AtToneSTCF r),
      ucast (AtToneLeapSeconds r), Seconds (AtToneDelay r), Subseconds (AtToneDelay r),
      Seconds (AtToneLatch r), Subseconds (AtToneLatch r),
      ucast (ClockSetState r), ucast (ClockFlyState r), ucast (DelayDirection r)]"

definition copy_of :: "u32 \<Rightarrow> u32 list \<Rightarrow> CFE_TIME_ReferenceState_t" where
  "copy_of v b =
     \<lparr>StateVersion = v, AtToneLeapSeconds = ucast (b ! 4), ClockSetState = ucast (b ! 9),
      ClockFlyState = ucast (b ! 10), DelayDirection = ucast (b ! 11),
      AtToneMET = sys_time (b ! 0) (b ! 1), AtToneSTCF = sys_time (b ! 2) (b ! 3),
      AtToneDelay = sys_time (b ! 5) (b ! 6), AtToneLatch = sys_time (b ! 7) (b ! 8)\<rparr>"

lemma copy_of_ref_words [simp]: "copy_of (StateVersion r) (ref_words r) = r"
  by (simp add: copy_of_def ref_words_def)

lemma length_ref_words [simp]: "length (ref_words r) = 12"
  by (simp add: ref_words_def)

text \<open>The shared memory, with the number of versions published so far and what each of them held;
  whether an update is under way; and the reader: the version it started from and the words it has
  copied.\<close>

record version_state =
  vs_slots :: "CFE_TIME_ReferenceState_t list"
  vs_last :: u32
  vs_count :: nat
  vs_hist :: "nat \<Rightarrow> CFE_TIME_ReferenceState_t"
  vs_updating :: bool
  vs_reading :: bool
  vs_start :: nat
  vs_ver :: u32
  vs_buf :: "u32 list"

inductive version_step :: "version_state \<Rightarrow> version_state \<Rightarrow> bool" where
  update_start:
    "\<not> vs_updating x \<Longrightarrow> i = ref_slot (vs_last x + 1) \<Longrightarrow>
     version_step x (x\<lparr>vs_updating := True,
       vs_slots := (vs_slots x)[i := (vs_slots x ! i)\<lparr>StateVersion := vs_last x + 1\<rparr>]\<rparr>)"
| update_write:
    "vs_updating x \<Longrightarrow> i = ref_slot (vs_last x + 1) \<Longrightarrow> StateVersion r = StateVersion (vs_slots x ! i) \<Longrightarrow>
     version_step x (x\<lparr>vs_slots := (vs_slots x)[i := r]\<rparr>)"
| update_finish:
    "vs_updating x \<Longrightarrow> r = vs_slots x ! ref_slot (vs_last x + 1) \<Longrightarrow>
     version_step x (x\<lparr>vs_updating := False, vs_last := StateVersion r,
       vs_count := vs_count x + 1, vs_hist := (vs_hist x)(vs_count x + 1 := r)\<rparr>)"
| read_start:
    "version_step x (x\<lparr>vs_reading := True, vs_ver := vs_last x, vs_start := vs_count x, vs_buf := []\<rparr>)"
| read_word:
    "vs_reading x \<Longrightarrow> k = length (vs_buf x) \<Longrightarrow> k < 12 \<Longrightarrow>
     version_step x (x\<lparr>vs_buf := vs_buf x @ [ref_words (vs_slots x ! ref_slot (vs_ver x)) ! k]\<rparr>)"

definition version_init :: "CFE_TIME_TaskData \<Rightarrow> version_state" where
  "version_init s =
     \<lparr>vs_slots = ReferenceState s, vs_last = LastVersionCounter s, vs_count = unat (LastVersionCounter s),
      vs_hist = (\<lambda>_. cur s), vs_updating = False, vs_reading = False, vs_start = 0, vs_ver = 0, vs_buf = []\<rparr>"

abbreviation version_run :: "version_state \<Rightarrow> version_state \<Rightarrow> bool" where
  "version_run \<equiv> version_step\<^sup>*\<^sup>*"

definition reader_accepts :: "version_state \<Rightarrow> bool" where
  "reader_accepts x \<longleftrightarrow> vs_reading x \<and> length (vs_buf x) = 12
     \<and> vs_ver x = StateVersion (vs_slots x ! ref_slot (vs_ver x))"

text \<open>The invariant.  \<open>latest\<close> is the number of the version being written or published last.\<close>

definition latest :: "version_state \<Rightarrow> nat" where
  "latest x = (if vs_updating x then vs_count x + 1 else vs_count x)"

definition reader_inv :: "version_state \<Rightarrow> bool" where
  "reader_inv x \<longleftrightarrow> vs_ver x = of_nat (vs_start x) \<and> vs_start x \<le> vs_count x
     \<and> length (vs_buf x) \<le> 12
     \<and> (let r = vs_slots x ! (vs_start x mod 4) in
        if latest x < vs_start x + 4
        then r = vs_hist x (vs_start x) \<and> vs_buf x = take (length (vs_buf x)) (ref_words r)
        else \<exists>k. StateVersion r = of_nat k \<and> vs_start x + 4 \<le> k \<and> k \<le> latest x)"

definition version_inv :: "version_state \<Rightarrow> bool" where
  "version_inv x \<longleftrightarrow> length (vs_slots x) = 4 \<and> vs_last x = of_nat (vs_count x)
     \<and> vs_slots x ! (vs_count x mod 4) = vs_hist x (vs_count x)
     \<and> StateVersion (vs_hist x (vs_count x)) = of_nat (vs_count x)
     \<and> (vs_updating x \<longrightarrow> StateVersion (vs_slots x ! (Suc (vs_count x) mod 4)) = of_nat (Suc (vs_count x)))
     \<and> (vs_reading x \<longrightarrow> reader_inv x)"

lemma ref_slot_of_nat [simp]: "ref_slot (of_nat n) = n mod 4"
  by (simp add: ref_slot_mod unsigned_of_nat take_bit_eq_mod mod_mod_cancel)

lemma of_nat_plus_one: "(of_nat n + 1 :: u32) = of_nat (Suc n)"
  by (simp add: add.commute)

lemma ref_slot_Suc [simp]: "ref_slot (of_nat n + 1) = Suc n mod 4"
  by (simp only: of_nat_plus_one ref_slot_of_nat)

lemma mod4_Suc [simp]: "Suc n mod 4 \<noteq> n mod 4"
  by presburger

lemma mod4_ahead: "j mod 4 = Suc n mod 4 \<Longrightarrow> j \<le> n \<Longrightarrow> j + 4 \<le> Suc n"
  by presburger

lemma mod4_reached: "j + 4 \<le> Suc n \<Longrightarrow> n < j + 4 \<Longrightarrow> Suc n = j + 4" for n :: nat
  by simp

lemma version_inv_init: "time_wf s \<Longrightarrow> version_inv (version_init s)"
  by (simp add: version_inv_def version_init_def wf_version)
     (simp add: cur_def2 ref_slot_mod)

lemma reader_inv_slot:
  assumes "reader_inv x" "length (vs_slots x) = 4" "vs_count x < latest y" "latest y \<le> Suc (vs_count x)"
    and "latest x \<le> latest y" "vs_count y = vs_count x" "vs_hist y = vs_hist x" "vs_start y = vs_start x"
    and "vs_ver y = vs_ver x" "vs_buf y = vs_buf x"
    and "vs_slots y = (vs_slots x)[Suc (vs_count x) mod 4 := r]" "StateVersion r = of_nat (Suc (vs_count x))"
  shows "reader_inv y"
proof (cases "vs_start x mod 4 = Suc (vs_count x) mod 4")
  case True
  then have "vs_start x + 4 \<le> Suc (vs_count x)"
    using assms(1) mod4_ahead by (simp add: reader_inv_def)
  then show ?thesis using assms True by (auto simp: reader_inv_def intro!: exI [of _ "Suc (vs_count x)"])
next
  case False
  have "\<not> Suc (vs_count x) = vs_start x + 4" using False by auto
  moreover have "vs_count x \<le> latest x" by (simp add: latest_def)
  ultimately show ?thesis using assms False by (auto simp: reader_inv_def Let_def split: if_splits)
qed

lemma version_inv_step:
  assumes "version_step x y" "version_inv x"
  shows "version_inv y"
  using assms
proof cases
  case (update_start i)
  then show ?thesis using assms(2) reader_inv_slot [of x y "(vs_slots x ! i)\<lparr>StateVersion := vs_last x + 1\<rparr>"]
    by (auto simp: version_inv_def latest_def of_nat_plus_one simp del: of_nat_Suc)
next
  case (update_write i r)
  then show ?thesis using assms(2) reader_inv_slot [of x y r]
    by (auto simp: version_inv_def latest_def of_nat_plus_one simp del: of_nat_Suc)
next
  case (update_finish r)
  then show ?thesis using assms(2) by (auto simp: version_inv_def reader_inv_def latest_def Let_def of_nat_plus_one simp del: of_nat_Suc)
next
  case read_start
  then show ?thesis using assms(2) by (auto simp: version_inv_def reader_inv_def latest_def Let_def)
next
  case (read_word k)
  then show ?thesis using assms(2)
    by (auto simp: version_inv_def reader_inv_def latest_def Let_def take_Suc_conv_app_nth)
qed

lemma version_inv_run: "version_run x y \<Longrightarrow> version_inv x \<Longrightarrow> version_inv y"
  by (induction rule: rtranclp_induct) (auto intro: version_inv_step)

section \<open>The operations are runs of the step relation\<close>

lemma publish_run:
  assumes "time_wf s" "\<And>r. StateVersion (f r) = StateVersion r"
    and x: "vs_slots x = ReferenceState s" "vs_last x = LastVersionCounter s" "\<not> vs_updating x"
  shows "\<exists>y. version_run x y \<and> vs_slots y = ReferenceState (publish f s)
    \<and> vs_last y = LastVersionCounter (publish f s) \<and> \<not> vs_updating y
    \<and> vs_reading y = vs_reading x \<and> vs_ver y = vs_ver x \<and> vs_buf y = vs_buf x"
proof -
  let ?i = "ref_slot (next_version s)" and ?r = "f ((cur s)\<lparr>StateVersion := next_version s\<rparr>)"
  have i: "?i < length (vs_slots x)" using assms(1) x by simp
  define a where "a = x\<lparr>vs_updating := True, vs_slots := (vs_slots x)[?i := (vs_slots x ! ?i)\<lparr>StateVersion := next_version s\<rparr>]\<rparr>"
  define b where "b = a\<lparr>vs_slots := (vs_slots a)[?i := ?r]\<rparr>"
  define c where "c = b\<lparr>vs_updating := False, vs_last := StateVersion ?r,
    vs_count := vs_count b + 1, vs_hist := (vs_hist b)(vs_count b + 1 := ?r)\<rparr>"
  have "version_step x a"
    unfolding a_def x(2) [symmetric] using x(3) by (rule version_step.update_start) simp
  moreover have "version_step a b"
    unfolding b_def using i by (intro version_step.update_write) (simp_all add: a_def x assms(2))
  moreover have "version_step b c"
    unfolding c_def using i by (intro version_step.update_finish) (simp_all add: a_def b_def x)
  ultimately have "version_run x c" by (meson converse_rtranclp_into_rtranclp rtranclp.rtrancl_refl)
  moreover have "vs_slots c = ReferenceState (publish f s)" "vs_last c = LastVersionCounter (publish f s)"
    using x assms(2) by (simp_all add: a_def b_def c_def publish_def ref_upd_def Let_def)
  ultimately show ?thesis by (auto simp: a_def b_def c_def)
qed

definition read_prefix :: "nat \<Rightarrow> version_state \<Rightarrow> version_state" where
  "read_prefix k x = x\<lparr>vs_reading := True, vs_ver := vs_last x, vs_start := vs_count x,
     vs_buf := take k (ref_words (vs_slots x ! ref_slot (vs_last x)))\<rparr>"

lemma read_run: "k \<le> 12 \<Longrightarrow> version_run x (read_prefix k x)"
proof (induction k)
  case 0
  then show ?case using version_step.read_start [of x] by (simp add: read_prefix_def)
next
  case (Suc k)
  have "version_step (read_prefix k x) (read_prefix (Suc k) x)"
    using version_step.read_word [of "read_prefix k x" k] Suc.prems
    by (simp add: read_prefix_def take_Suc_conv_app_nth)
  with Suc show ?case by (auto intro: rtranclp.rtrancl_into_rtrancl)
qed

section \<open>No torn reads\<close>



end
