(* ===== verification/EVS_State.thy ===== *)
theory EVS_State
  imports SB_Msg
begin

text \<open>
  Event Services: the data (\<^verbatim>\<open>cfe_evs_task.h\<close>, \<^verbatim>\<open>cfe_evs_msg.h\<close>, \<^verbatim>\<open>cfe_evs_log_typedef.h\<close>), the local
  event log (\<^verbatim>\<open>EVS_AddLog\<close>, \<^verbatim>\<open>EVS_ClearLog\<close>) and the internal routines of \<^verbatim>\<open>cfe_evs_utils.c\<close>: the filter
  decision, the generation of an event message and its output through ports, log and software bus.

  \<^item> A character array that holds a string is the \<open>string\<close> before its terminator.  The text of an event
    is the expansion of its format, as \<^verbatim>\<open>vsnprintf\<close> writes it into a buffer that is large enough.
  \<^item> What Event Services calls is the record \<open>evs_env\<close>: the application names and identifiers of
    Executive Services, the time at each call of \<^verbatim>\<open>CFE_TIME_GetTime\<close>, the identifiers of the platform
    and the results of the file system calls.
  \<^item> \<open>Trace\<close> lists, newest first, the messages sent, the lines written to the ports and to the system
    log, the mutex operations and the file operations (a write with the number of
    bytes that \<^verbatim>\<open>OS_write\<close> returned).
  \<^item> \<open>Fault\<close> is raised by an access outside of an array and by the dereference of a \<^verbatim>\<open>NULL\<close> log pointer.
\<close>

section \<open>Constants\<close>

abbreviation (input) EVS_MAX_APPLICATIONS :: nat where "EVS_MAX_APPLICATIONS \<equiv> 32"
abbreviation (input) CFE_MISSION_ES_MAX_APPLICATIONS :: nat where "CFE_MISSION_ES_MAX_APPLICATIONS \<equiv> 16"
abbreviation (input) CFE_PLATFORM_EVS_MAX_EVENT_FILTERS :: nat where "CFE_PLATFORM_EVS_MAX_EVENT_FILTERS \<equiv> 8"
abbreviation (input) CFE_PLATFORM_EVS_LOG_MAX :: u16 where "CFE_PLATFORM_EVS_LOG_MAX \<equiv> 20"
abbreviation (input) CFE_PLATFORM_EVS_DEFAULT_TYPE_FLAG :: u8 where "CFE_PLATFORM_EVS_DEFAULT_TYPE_FLAG \<equiv> 0xE"
abbreviation (input) CFE_EVS_MAX_EVENT_SEND_COUNT :: u16 where "CFE_EVS_MAX_EVENT_SEND_COUNT \<equiv> 65535"
abbreviation (input) CFE_EVS_MAX_FILTER_COUNT :: u16 where "CFE_EVS_MAX_FILTER_COUNT \<equiv> 65535"
abbreviation (input) CFE_EVS_FREE_SLOT :: u16 where "CFE_EVS_FREE_SLOT \<equiv> 0xFFFF"
abbreviation (input) CFE_EVS_UNDEF_APPID :: u32 where "CFE_EVS_UNDEF_APPID \<equiv> 0xFFFFFFFF"
abbreviation (input) CFE_MISSION_EVS_MAX_MESSAGE_LENGTH :: nat where "CFE_MISSION_EVS_MAX_MESSAGE_LENGTH \<equiv> 122"
abbreviation (input) CFE_EVS_MAX_PORT_MSG_LENGTH :: nat where "CFE_EVS_MAX_PORT_MSG_LENGTH \<equiv> 172"

abbreviation (input) CFE_EVS_DEBUG_BIT :: u8 where "CFE_EVS_DEBUG_BIT \<equiv> 1"
abbreviation (input) CFE_EVS_INFORMATION_BIT :: u8 where "CFE_EVS_INFORMATION_BIT \<equiv> 2"
abbreviation (input) CFE_EVS_ERROR_BIT :: u8 where "CFE_EVS_ERROR_BIT \<equiv> 4"
abbreviation (input) CFE_EVS_CRITICAL_BIT :: u8 where "CFE_EVS_CRITICAL_BIT \<equiv> 8"
abbreviation (input) CFE_EVS_PORT1_BIT :: u8 where "CFE_EVS_PORT1_BIT \<equiv> 1"
abbreviation (input) CFE_EVS_PORT2_BIT :: u8 where "CFE_EVS_PORT2_BIT \<equiv> 2"
abbreviation (input) CFE_EVS_PORT3_BIT :: u8 where "CFE_EVS_PORT3_BIT \<equiv> 4"
abbreviation (input) CFE_EVS_PORT4_BIT :: u8 where "CFE_EVS_PORT4_BIT \<equiv> 8"

abbreviation (input) CFE_EVS_EventType_DEBUG :: u16 where "CFE_EVS_EventType_DEBUG \<equiv> 1"
abbreviation (input) CFE_EVS_EventType_INFORMATION :: u16 where "CFE_EVS_EventType_INFORMATION \<equiv> 2"
abbreviation (input) CFE_EVS_EventType_ERROR :: u16 where "CFE_EVS_EventType_ERROR \<equiv> 3"
abbreviation (input) CFE_EVS_EventType_CRITICAL :: u16 where "CFE_EVS_EventType_CRITICAL \<equiv> 4"
abbreviation (input) CFE_EVS_LogMode_OVERWRITE :: u8 where "CFE_EVS_LogMode_OVERWRITE \<equiv> 0"
abbreviation (input) CFE_EVS_LogMode_DISCARD :: u8 where "CFE_EVS_LogMode_DISCARD \<equiv> 1"
abbreviation (input) CFE_PLATFORM_EVS_DEFAULT_LOG_MODE :: u8 where "CFE_PLATFORM_EVS_DEFAULT_LOG_MODE \<equiv> 1"
abbreviation (input) CFE_EVS_MsgFormat_SHORT :: u8 where "CFE_EVS_MsgFormat_SHORT \<equiv> 0"
abbreviation (input) CFE_EVS_MsgFormat_LONG :: u8 where "CFE_EVS_MsgFormat_LONG \<equiv> 1"
abbreviation (input) CFE_EVS_EventFilter_BINARY :: u16 where "CFE_EVS_EventFilter_BINARY \<equiv> 0"

abbreviation (input) CFE_EVS_LONG_EVENT_MSG_MID :: u16 where "CFE_EVS_LONG_EVENT_MSG_MID \<equiv> 0x0808"
abbreviation (input) CFE_EVS_SHORT_EVENT_MSG_MID :: u16 where "CFE_EVS_SHORT_EVENT_MSG_MID \<equiv> 0x0809"
abbreviation (input) CFE_EVS_HK_TLM_MID :: u16 where "CFE_EVS_HK_TLM_MID \<equiv> 0x0801"

text \<open>The sizes of the packets: a 12-byte telemetry header, a 32-byte packet identification, the
  122-byte message and two spares; the housekeeping payload is 16 bytes and 16 entries of 8 bytes.\<close>

definition sizeof_CFE_EVS_LongEventTlm_t :: u16 where "sizeof_CFE_EVS_LongEventTlm_t = 168"
definition sizeof_CFE_EVS_ShortEventTlm_t :: u16 where "sizeof_CFE_EVS_ShortEventTlm_t = 44"
definition sizeof_CFE_EVS_HousekeepingTlm_t :: u16 where "sizeof_CFE_EVS_HousekeepingTlm_t = 156"

section \<open>Data\<close>

record EVS_BinFilter_t =
  EventID :: u16
  Mask :: u16
  Count :: u16

record EVS_AppData_t =
  BinFilters :: "EVS_BinFilter_t list"
  ActiveFlag :: bool
  EventTypesActiveFlag :: u8
  EventCount :: u16
  RegisterFlag :: bool

record CFE_EVS_PacketID_t =
  Pkt_AppName :: string
  Pkt_EventID :: u16
  Pkt_EventType :: u16
  Pkt_SpacecraftID :: u32
  Pkt_ProcessorID :: u32

record CFE_EVS_LongEventTlm_t =
  Long_TlmHeader :: bytes
  Long_PacketID :: CFE_EVS_PacketID_t
  Message :: string

record CFE_EVS_ShortEventTlm_t =
  Short_TlmHeader :: bytes
  Short_PacketID :: CFE_EVS_PacketID_t

record CFE_EVS_Log_t =
  Next :: u16
  LogCount :: u16
  LogFullFlag :: u8
  LogMode :: u8
  LogOverflowCounter :: u16
  LogEntry :: "CFE_EVS_LongEventTlm_t list"

record CFE_EVS_AppTlmData_t =
  Tlm_AppID :: u32
  Tlm_AppMessageSentCounter :: u16
  Tlm_AppEnableStatus :: bool

record CFE_EVS_HousekeepingTlm_t =
  Hk_TlmHeader :: bytes
  CommandCounter :: u8
  CommandErrorCounter :: u8
  MessageFormatMode :: u8
  MessageTruncCounter :: u8
  UnregisteredAppCounter :: u8
  OutputPort :: u8
  Hk_LogFullFlag :: u8
  Hk_LogMode :: u8
  MessageSendCounter :: u16
  Hk_LogOverflowCounter :: u16
  LogEnabled :: bool
  Hk_AppData :: "CFE_EVS_AppTlmData_t list"

record CFE_EVS_AppDataFile_t =
  File_AppName :: string
  File_ActiveFlag :: bool
  File_EventTypesActiveFlag :: u8
  File_EventCount :: u16
  File_Filters :: "EVS_BinFilter_t list"

datatype evs_out =
    Send_Long CFE_EVS_LongEventTlm_t
  | Send_Short CFE_EVS_ShortEventTlm_t
  | Send_Housekeeping CFE_EVS_HousekeepingTlm_t
  | Port_Line string
  | SysLog_Line string
  | Mutex_Take
  | Mutex_Give
  | File_Create string
  | File_Header string
  | File_LogEntry CFE_EVS_LongEventTlm_t int
  | File_AppData CFE_EVS_AppDataFile_t int
  | File_Close
  | Exit_Init_Error
  | Exit_Runtime_Error

record CFE_EVS_GlobalData_t =
  AppData :: "EVS_AppData_t list"
  EVS_LogPtr :: "CFE_EVS_Log_t option"
  EVS_TlmPkt :: CFE_EVS_HousekeepingTlm_t
  EVS_CommandPipe :: u8
  EVS_AppID :: u32
  TimeCalls :: nat
  Trace :: "evs_out list"
  Fault :: bool

record evs_env =
  ES_GetAppName :: "u32 \<Rightarrow> string"
  ES_GetAppIDByName :: "string \<Rightarrow> CFE_Status \<times> u32"
  TIME_GetTime :: "nat \<Rightarrow> CFE_TIME_SysTime_t"
  PSP_GetSpacecraftId :: u32
  PSP_GetProcessorId :: u32
  FS_creat :: "string \<Rightarrow> int"
  FS_WriteHeader_ok :: bool
  FS_write :: "nat \<Rightarrow> int"

definition evs_emit :: "evs_out \<Rightarrow> CFE_EVS_GlobalData_t \<Rightarrow> CFE_EVS_GlobalData_t" where
  "evs_emit e s = s\<lparr>Trace := e # Trace s\<rparr>"

definition evs_fault :: "CFE_EVS_GlobalData_t \<Rightarrow> CFE_EVS_GlobalData_t" where
  "evs_fault s = s\<lparr>Fault := True\<rparr>"

definition hk_upd :: "(CFE_EVS_HousekeepingTlm_t \<Rightarrow> CFE_EVS_HousekeepingTlm_t)
    \<Rightarrow> CFE_EVS_GlobalData_t \<Rightarrow> CFE_EVS_GlobalData_t" where
  "hk_upd f s = s\<lparr>EVS_TlmPkt := f (EVS_TlmPkt s)\<rparr>"

definition app_upd :: "u32 \<Rightarrow> (EVS_AppData_t \<Rightarrow> EVS_AppData_t)
    \<Rightarrow> CFE_EVS_GlobalData_t \<Rightarrow> CFE_EVS_GlobalData_t" where
  "app_upd AppID f s =
     (if unat AppID < length (AppData s)
      then s\<lparr>AppData := (AppData s)[unat AppID := f (AppData s ! unat AppID)]\<rparr>
      else evs_fault s)"

definition filter_upd :: "u32 \<Rightarrow> nat \<Rightarrow> (EVS_BinFilter_t \<Rightarrow> EVS_BinFilter_t)
    \<Rightarrow> CFE_EVS_GlobalData_t \<Rightarrow> CFE_EVS_GlobalData_t" where
  "filter_upd AppID i f =
     app_upd AppID (\<lambda>a. a\<lparr>BinFilters := (BinFilters a)[i := f (BinFilters a ! i)]\<rparr>)"

definition app :: "u32 \<Rightarrow> CFE_EVS_GlobalData_t \<Rightarrow> EVS_AppData_t" where
  "app AppID s = AppData s ! unat AppID"

text \<open>What \<^verbatim>\<open>memset\<close> to zero leaves in the application data and in a log entry.\<close>

definition filter_zero :: EVS_BinFilter_t where
  "filter_zero = \<lparr>EventID = 0, Mask = 0, Count = 0\<rparr>"

definition app_zero :: EVS_AppData_t where
  "app_zero = \<lparr>BinFilters = replicate CFE_PLATFORM_EVS_MAX_EVENT_FILTERS filter_zero,
     ActiveFlag = False, EventTypesActiveFlag = 0, EventCount = 0, RegisterFlag = False\<rparr>"

definition entry_zero :: CFE_EVS_LongEventTlm_t where
  "entry_zero = \<lparr>Long_TlmHeader = (\<lambda>_. 0), Long_PacketID = \<lparr>Pkt_AppName = '''', Pkt_EventID = 0,
     Pkt_EventType = 0, Pkt_SpacecraftID = 0, Pkt_ProcessorID = 0\<rparr>, Message = ''''\<rparr>"

section \<open>Formatted text\<close>

text \<open>The conversions the event texts use: \<^verbatim>\<open>%u\<close> and \<^verbatim>\<open>%lu\<close>, \<^verbatim>\<open>%d\<close>, and \<^verbatim>\<open>%0wx\<close>, \<^verbatim>\<open>%0wX\<close> with a width.\<close>

definition hex_digits :: string where "hex_digits = ''0123456789abcdef''"
definition HEX_digits :: string where "HEX_digits = ''0123456789ABCDEF''"

fun digits :: "string \<Rightarrow> nat \<Rightarrow> nat \<Rightarrow> string \<Rightarrow> string" where
  "digits ds b n acc =
     (if n < b \<or> b < 2 then ds ! n # acc else digits ds b (n div b) (ds ! (n mod b) # acc))"

definition fmt_u :: "nat \<Rightarrow> string" where
  "fmt_u n = digits hex_digits 10 n ''''"

definition fmt_d :: "int \<Rightarrow> string" where
  "fmt_d i = (if i < 0 then CHR ''-'' # fmt_u (nat (- i)) else fmt_u (nat i))"

definition zero_pad :: "nat \<Rightarrow> string \<Rightarrow> string" where
  "zero_pad w t = replicate (w - length t) (CHR ''0'') @ t"

definition fmt_x :: "nat \<Rightarrow> nat \<Rightarrow> string" where
  "fmt_x w n = zero_pad w (digits hex_digits 16 n '''')"

definition fmt_X :: "nat \<Rightarrow> nat \<Rightarrow> string" where
  "fmt_X w n = zero_pad w (digits HEX_digits 16 n '''')"

definition fmt_X32 :: "int \<Rightarrow> string" where
  "fmt_X32 i = fmt_X 8 (nat (i mod 2 ^ 32))"

section \<open>The local event log\<close>

text \<open>What \<^verbatim>\<open>EVS_AddLog\<close> does to the log between taking and giving the mutex; \<open>None\<close> is a write outside of
  the array of entries.\<close>

definition AddLog_entry :: "CFE_EVS_LongEventTlm_t \<Rightarrow> CFE_EVS_Log_t \<Rightarrow> CFE_EVS_Log_t option" where
  "AddLog_entry pkt l =
     (if LogFullFlag l = 1 \<and> LogMode l = CFE_EVS_LogMode_DISCARD
      then Some (l\<lparr>LogOverflowCounter := LogOverflowCounter l + 1\<rparr>)
      else
        let l = (if LogFullFlag l = 1 then l\<lparr>LogOverflowCounter := LogOverflowCounter l + 1\<rparr> else l)
        in if unat (Next l) < length (LogEntry l)
           then
             let l = l\<lparr>LogEntry := (LogEntry l)[unat (Next l) := pkt]\<rparr>;
                 l = l\<lparr>Next := Next l + 1\<rparr>;
                 l = (if Next l \<ge> CFE_PLATFORM_EVS_LOG_MAX then l\<lparr>Next := 0\<rparr> else l)
             in Some (if LogCount l < CFE_PLATFORM_EVS_LOG_MAX
                      then let l = l\<lparr>LogCount := LogCount l + 1\<rparr>
                           in if LogCount l = CFE_PLATFORM_EVS_LOG_MAX then l\<lparr>LogFullFlag := 1\<rparr> else l
                      else l)
           else None)"

definition EVS_AddLog :: "CFE_EVS_LongEventTlm_t \<Rightarrow> CFE_EVS_GlobalData_t \<Rightarrow> CFE_EVS_GlobalData_t" where
  "EVS_AddLog EVS_PktPtr s =
     (if LogEnabled (EVS_TlmPkt s)
      then let s = evs_emit Mutex_Take s;
               s = (case EVS_LogPtr s \<bind> AddLog_entry EVS_PktPtr of
                      None \<Rightarrow> evs_fault s
                    | Some l \<Rightarrow> s\<lparr>EVS_LogPtr := Some l\<rparr>)
           in evs_emit Mutex_Give s
      else s)"

definition EVS_ClearLog :: "CFE_EVS_GlobalData_t \<Rightarrow> CFE_EVS_GlobalData_t" where
  "EVS_ClearLog s =
     (let s = evs_emit Mutex_Take s;
          s = (case EVS_LogPtr s of
                 None \<Rightarrow> evs_fault s
               | Some l \<Rightarrow> s\<lparr>EVS_LogPtr := Some (l\<lparr>Next := 0, LogCount := 0, LogFullFlag := 0,
                   LogOverflowCounter := 0,
                   LogEntry := replicate (unat CFE_PLATFORM_EVS_LOG_MAX) entry_zero\<rparr>)\<rparr>)
      in evs_emit Mutex_Give s)"

section \<open>Event messages\<close>

text \<open>One of the four port sections of \<^verbatim>\<open>EVS_SendViaPorts\<close> with its output routine: \<^verbatim>\<open>snprintf\<close> bounds the
  line to the port buffer, \<^verbatim>\<open>OS_printf\<close> adds the newline.\<close>

definition port_line :: "nat \<Rightarrow> CFE_EVS_LongEventTlm_t \<Rightarrow> string" where
  "port_line n p =
     take (CFE_EVS_MAX_PORT_MSG_LENGTH - 1)
       (''EVS Port'' @ fmt_u n @ '' '' @ fmt_u (unat (Pkt_SpacecraftID (Long_PacketID p))) @ ''/''
        @ fmt_u (unat (Pkt_ProcessorID (Long_PacketID p))) @ ''/'' @ Pkt_AppName (Long_PacketID p)
        @ '' '' @ fmt_u (unat (Pkt_EventID (Long_PacketID p))) @ '': '' @ Message p)"

definition EVS_OutputPort :: "string \<Rightarrow> CFE_EVS_GlobalData_t \<Rightarrow> CFE_EVS_GlobalData_t" where
  "EVS_OutputPort msg = evs_emit (Port_Line (msg @ [CHR 0x0A]))"

definition EVS_SendViaPorts :: "CFE_EVS_LongEventTlm_t \<Rightarrow> CFE_EVS_GlobalData_t \<Rightarrow> CFE_EVS_GlobalData_t" where
  "EVS_SendViaPorts p s =
     (let s = (if drop_bit 0 (OutputPort (EVS_TlmPkt s) AND CFE_EVS_PORT1_BIT) = 1
               then EVS_OutputPort (port_line 1 p) s else s);
          s = (if drop_bit 1 (OutputPort (EVS_TlmPkt s) AND CFE_EVS_PORT2_BIT) = 1
               then EVS_OutputPort (port_line 2 p) s else s);
          s = (if drop_bit 2 (OutputPort (EVS_TlmPkt s) AND CFE_EVS_PORT3_BIT) = 1
               then EVS_OutputPort (port_line 3 p) s else s)
      in if drop_bit 3 (OutputPort (EVS_TlmPkt s) AND CFE_EVS_PORT4_BIT) = 1
         then EVS_OutputPort (port_line 4 p) s else s)"

text \<open>The text as the 122-byte message array holds it: at most 121 characters, the last but one of them
  (index 120) replaced by the truncation mark when the text did not fit.\<close>

definition event_message :: "string \<Rightarrow> string" where
  "event_message t =
     (if length t \<ge> CFE_MISSION_EVS_MAX_MESSAGE_LENGTH
      then (take (CFE_MISSION_EVS_MAX_MESSAGE_LENGTH - 1) t)
             [CFE_MISSION_EVS_MAX_MESSAGE_LENGTH - 2 := CHR ''$'']
      else t)"

definition saturate_inc :: "u16 \<Rightarrow> u16" where
  "saturate_inc c = (if c < CFE_EVS_MAX_EVENT_SEND_COUNT then c + 1 else c)"

definition EVS_GenerateEventTelemetry :: "evs_env \<Rightarrow> u32 \<Rightarrow> u16 \<Rightarrow> u16 \<Rightarrow> CFE_TIME_SysTime_t \<Rightarrow> string
    \<Rightarrow> CFE_EVS_GlobalData_t \<Rightarrow> CFE_EVS_GlobalData_t" where
  "EVS_GenerateEventTelemetry env AppID eid etype TimeStamp t s =
     (let hdr = CFE_SB_InitMsg CFE_EVS_LONG_EVENT_MSG_MID sizeof_CFE_EVS_LongEventTlm_t True (\<lambda>_. 0);
          s = (if length t \<ge> CFE_MISSION_EVS_MAX_MESSAGE_LENGTH
               then hk_upd (MessageTruncCounter_update (\<lambda>c. c + 1)) s else s);
          pid = \<lparr>Pkt_AppName = ES_GetAppName env AppID, Pkt_EventID = eid, Pkt_EventType = etype,
                 Pkt_SpacecraftID = PSP_GetSpacecraftId env, Pkt_ProcessorID = PSP_GetProcessorId env\<rparr>;
          LongEventTlm = \<lparr>Long_TlmHeader = snd (CFE_SB_SetMsgTime TimeStamp hdr), Long_PacketID = pid,
                          Message = event_message t\<rparr>;
          s = EVS_AddLog LongEventTlm s;
          s = EVS_SendViaPorts LongEventTlm s;
          s = (if MessageFormatMode (EVS_TlmPkt s) = CFE_EVS_MsgFormat_LONG
               then evs_emit (Send_Long LongEventTlm) s
               else if MessageFormatMode (EVS_TlmPkt s) = CFE_EVS_MsgFormat_SHORT
               then evs_emit (Send_Short
                      \<lparr>Short_TlmHeader = snd (CFE_SB_SetMsgTime TimeStamp
                         (CFE_SB_InitMsg CFE_EVS_SHORT_EVENT_MSG_MID sizeof_CFE_EVS_ShortEventTlm_t
                            True (\<lambda>_. 0))),
                       Short_PacketID = pid\<rparr>) s
               else s);
          s = hk_upd (MessageSendCounter_update saturate_inc) s
      in app_upd AppID (EventCount_update saturate_inc) s)"

section \<open>Filters\<close>

primrec EVS_FindEventID :: "u16 \<Rightarrow> EVS_BinFilter_t list \<Rightarrow> nat option" where
  "EVS_FindEventID e [] = None"
| "EVS_FindEventID e (f # fs) =
     (if EventID f = e then Some 0 else map_option Suc (EVS_FindEventID e fs))"

definition EVS_EnableTypes :: "u8 \<Rightarrow> u32 \<Rightarrow> CFE_EVS_GlobalData_t \<Rightarrow> CFE_EVS_GlobalData_t" where
  "EVS_EnableTypes BitMask AppID =
     (let EventTypeBits = CFE_EVS_DEBUG_BIT OR CFE_EVS_INFORMATION_BIT OR CFE_EVS_ERROR_BIT
                          OR CFE_EVS_CRITICAL_BIT
      in app_upd AppID (EventTypesActiveFlag_update (\<lambda>b. b OR (BitMask AND EventTypeBits))))"

definition EVS_DisableTypes :: "u8 \<Rightarrow> u32 \<Rightarrow> CFE_EVS_GlobalData_t \<Rightarrow> CFE_EVS_GlobalData_t" where
  "EVS_DisableTypes BitMask AppID =
     (let EventTypeBits = CFE_EVS_DEBUG_BIT OR CFE_EVS_INFORMATION_BIT OR CFE_EVS_ERROR_BIT
                          OR CFE_EVS_CRITICAL_BIT
      in app_upd AppID (EventTypesActiveFlag_update (\<lambda>b. b AND NOT (BitMask AND EventTypeBits))))"

text \<open>The first test of \<^verbatim>\<open>EVS_IsFiltered\<close>: the application's events are off, or its type is.\<close>

definition type_filtered :: "EVS_AppData_t \<Rightarrow> u16 \<Rightarrow> bool" where
  "type_filtered a EventType =
     (if \<not> ActiveFlag a then True
      else if EventType = CFE_EVS_EventType_DEBUG
      then EventTypesActiveFlag a AND CFE_EVS_DEBUG_BIT = 0
      else if EventType = CFE_EVS_EventType_INFORMATION
      then EventTypesActiveFlag a AND CFE_EVS_INFORMATION_BIT = 0
      else if EventType = CFE_EVS_EventType_ERROR
      then EventTypesActiveFlag a AND CFE_EVS_ERROR_BIT = 0
      else if EventType = CFE_EVS_EventType_CRITICAL
      then EventTypesActiveFlag a AND CFE_EVS_CRITICAL_BIT = 0
      else True)"

definition filter_max_text :: "evs_env \<Rightarrow> u32 \<Rightarrow> u16 \<Rightarrow> string" where
  "filter_max_text env AppID eid =
     ''Max filter count reached, AppName = '' @ ES_GetAppName env AppID @ '', EventID = 0x''
     @ fmt_x 8 (unat eid) @ '': Filter locked until reset''"

text \<open>The room that is left in the counters of the filters: the filter decision and the events that
  Event Services sends about a locked filter call each other, and every such call has used up some.\<close>

definition filter_room :: "CFE_EVS_GlobalData_t \<Rightarrow> nat" where
  "filter_room s =
     sum_list (map (\<lambda>a. sum_list (map (\<lambda>f. 65535 - unat (Count f)) (BinFilters a))) (AppData s))"

lemma FindEventID_Some:
  "EVS_FindEventID e fs = Some i \<Longrightarrow> i < length fs \<and> EventID (fs ! i) = e \<and> (\<forall>j<i. EventID (fs ! j) \<noteq> e)"
proof (induction fs arbitrary: i)
  case (Cons f fs)
  then show ?case by (fastforce split: if_splits simp: nth_Cons less_Suc_eq_0_disj)
qed simp

lemma sum_list_update_less:
  fixes f :: "'a \<Rightarrow> nat"
  assumes "i < length xs" and "f x < f (xs ! i)"
  shows "sum_list (map f (xs[i := x])) < sum_list (map f xs)"
  using assms by (induction xs arbitrary: i) (auto split: nat.splits)

lemma filter_room_count:
  assumes "EVS_FindEventID e (BinFilters (app a s)) = Some i"
    and "Count (BinFilters (app a s) ! i) < CFE_EVS_MAX_FILTER_COUNT"
    and "unat a < length (AppData s)"
  shows "filter_room (filter_upd a i (Count_update (\<lambda>c. c + 1)) s) < filter_room s"
proof -
  let ?c = "Count (BinFilters (app a s) ! i)"
  have lt: "unat ?c < 65535" using assms(2) by (simp add: word_less_nat_alt)
  then have "unat (?c + 1) = Suc (unat ?c)" by (simp add: unat_word_ariths)
  with lt have "65535 - unat (?c + 1) < 65535 - unat ?c" by simp
  with FindEventID_Some [OF assms(1)] assms(3) show ?thesis
    by (simp add: filter_room_def filter_upd_def app_upd_def app_def sum_list_update_less)
qed

function EVS_IsFiltered :: "evs_env \<Rightarrow> u32 \<Rightarrow> u16 \<Rightarrow> u16 \<Rightarrow> CFE_EVS_GlobalData_t \<Rightarrow> bool \<times> CFE_EVS_GlobalData_t"
and EVS_SendEvent :: "evs_env \<Rightarrow> u16 \<Rightarrow> u16 \<Rightarrow> string \<Rightarrow> CFE_EVS_GlobalData_t \<Rightarrow> CFE_EVS_GlobalData_t" where
  "EVS_IsFiltered env AppID eid etype s =
     (if unat AppID < length (AppData s)
      then if type_filtered (app AppID s) etype then (True, s)
           else case EVS_FindEventID eid (BinFilters (app AppID s)) of
                  None \<Rightarrow> (False, s)
                | Some i \<Rightarrow>
                    (let FilterPtr = BinFilters (app AppID s) ! i;
                         Filtered = (Mask FilterPtr AND Count FilterPtr \<noteq> 0)
                     in if Count FilterPtr < CFE_EVS_MAX_FILTER_COUNT
                        then (Filtered,
                          if Count FilterPtr + 1 = CFE_EVS_MAX_FILTER_COUNT
                          then EVS_SendEvent env 42 CFE_EVS_EventType_INFORMATION
                                 (filter_max_text env AppID eid)
                                 (filter_upd AppID i (Count_update (\<lambda>c. c + 1)) s)
                          else filter_upd AppID i (Count_update (\<lambda>c. c + 1)) s)
                        else (Filtered, s))
      else (True, evs_fault s))"
| "EVS_SendEvent env eid etype t s =
     (if unat (EVS_AppID s) < EVS_MAX_APPLICATIONS
      then let (Filtered, s') = EVS_IsFiltered env (EVS_AppID s) eid etype s
           in if \<not> Filtered
              then EVS_GenerateEventTelemetry env (EVS_AppID s') eid etype
                     (TIME_GetTime env (TimeCalls s')) t (s'\<lparr>TimeCalls := TimeCalls s' + 1\<rparr>)
              else s'
      else s)"
  by pat_completeness auto
termination
  by (relation "measure (\<lambda>x. case x of
         Inl (env, AppID, eid, etype, s) \<Rightarrow> 2 * filter_room s
       | Inr (env, eid, etype, t, s) \<Rightarrow> 2 * filter_room s + 1)")
     (auto dest: filter_room_count)

declare EVS_IsFiltered.simps [simp del] EVS_SendEvent.simps [simp del]

definition EVS_NotRegistered :: "evs_env \<Rightarrow> u32 \<Rightarrow> CFE_EVS_GlobalData_t \<Rightarrow> CFE_Status \<times> CFE_EVS_GlobalData_t" where
  "EVS_NotRegistered env AppID s =
     (CFE_EVS_APP_NOT_REGISTERED,
      if EventCount (app AppID s) = 0
      then let s = hk_upd (UnregisteredAppCounter_update (\<lambda>c. c + 1)) s;
               s = app_upd AppID (EventCount_update (\<lambda>c. c + 1)) s;
               t = ''App '' @ ES_GetAppName env AppID
                   @ '' not registered with Event Services. Unable to send event.'';
               s = EVS_SendEvent env 41 CFE_EVS_EventType_ERROR t s
           in evs_emit (SysLog_Line (t @ [CHR 0x0A])) s
      else s)"

definition EVS_GetAppID :: "CFE_Status \<times> u32 \<Rightarrow> CFE_Status \<times> u32" where
  "EVS_GetAppID es = (case es of (Status, AppID) \<Rightarrow>
     if Status = CFE_SUCCESS \<and> unat AppID \<ge> EVS_MAX_APPLICATIONS
     then (CFE_EVS_APP_ILLEGAL_APP_ID, AppID) else (Status, AppID))"

definition EVS_GetApplicationInfo :: "evs_env \<Rightarrow> string option \<Rightarrow> CFE_EVS_GlobalData_t \<Rightarrow> CFE_Status \<times> u32" where
  "EVS_GetApplicationInfo env pAppName s =
     (case pAppName of None \<Rightarrow> (CFE_ES_ERR_BUFFER, CFE_EVS_UNDEF_APPID)
      | Some AppName \<Rightarrow>
          (case ES_GetAppIDByName env AppName of (Status, AppID) \<Rightarrow>
             if Status = CFE_SUCCESS
             then if unat AppID \<ge> EVS_MAX_APPLICATIONS then (CFE_EVS_APP_ILLEGAL_APP_ID, AppID)
                  else if \<not> RegisterFlag (app AppID s) then (CFE_EVS_APP_NOT_REGISTERED, AppID)
                  else (CFE_SUCCESS, AppID)
             else (Status, AppID)))"

end
