(* ===== verification/EVS_Api.thy ===== *)
theory EVS_Api
  imports EVS_State
begin

text \<open>
  The interface functions of Event Services (\<^verbatim>\<open>cfe_evs.c\<close>), its start-up, and the ground commands of
  its task (\<^verbatim>\<open>cfe_evs_task.c\<close>, \<^verbatim>\<open>cfe_evs_log.c\<close>).  An interface function takes the result of
  \<^verbatim>\<open>CFE_ES_GetAppID\<close> for its caller; a command handler takes the command message as bytes.
\<close>

section \<open>Interface functions\<close>

record CFE_EVS_BinFilter_t =
  Def_EventID :: u16
  Def_Mask :: u16

text \<open>The array of filter definitions is a pointer: it has no length, and it may be \<^verbatim>\<open>NULL\<close>.\<close>

definition CFE_EVS_Register :: "CFE_Status \<times> u32 \<Rightarrow> (nat \<Rightarrow> CFE_EVS_BinFilter_t) option \<Rightarrow> u16 \<Rightarrow> u16
    \<Rightarrow> CFE_EVS_GlobalData_t \<Rightarrow> CFE_Status \<times> CFE_EVS_GlobalData_t" where
  "CFE_EVS_Register caller Filters NumEventFilters FilterScheme s =
     (case EVS_GetAppID caller of (Status, AppID) \<Rightarrow>
        if Status = CFE_SUCCESS
        then let s = (if RegisterFlag (app AppID s) then app_upd AppID (\<lambda>_. app_zero) s else s)
             in if FilterScheme \<noteq> CFE_EVS_EventFilter_BINARY then (CFE_EVS_UNKNOWN_FILTER, s)
                else if NumEventFilters \<noteq> 0 \<and> Filters = None then (CFE_ES_ERR_BUFFER, s)
                else
                  let FilterLimit = (if unat NumEventFilters < CFE_PLATFORM_EVS_MAX_EVENT_FILTERS
                                     then unat NumEventFilters else CFE_PLATFORM_EVS_MAX_EVENT_FILTERS);
                      slot = (\<lambda>a i. if i < FilterLimit
                                    then case Filters of
                                           None \<Rightarrow> BinFilters a ! i
                                         | Some F \<Rightarrow> \<lparr>EventID = Def_EventID (F i), Mask = Def_Mask (F i), Count = 0\<rparr>
                                    else \<lparr>EventID = CFE_EVS_FREE_SLOT, Mask = 0, Count = 0\<rparr>)
                  in (CFE_SUCCESS,
                      app_upd AppID (\<lambda>a. \<lparr>BinFilters = map (slot a) [0..<CFE_PLATFORM_EVS_MAX_EVENT_FILTERS],
                        ActiveFlag = True, EventTypesActiveFlag = CFE_PLATFORM_EVS_DEFAULT_TYPE_FLAG,
                        EventCount = 0, RegisterFlag = True\<rparr>) s)
        else (Status, s))"

definition CFE_EVS_Unregister :: "CFE_Status \<times> u32 \<Rightarrow> CFE_EVS_GlobalData_t
    \<Rightarrow> CFE_Status \<times> CFE_EVS_GlobalData_t" where
  "CFE_EVS_Unregister caller s =
     (case EVS_GetAppID caller of (Status, AppID) \<Rightarrow>
        (Status, if Status = CFE_SUCCESS \<and> RegisterFlag (app AppID s)
                 then app_upd AppID (\<lambda>_. app_zero) s else s))"

text \<open>What the three sending functions do once they have an application identifier in range: the time
  stamp is the caller's, or else it is read when the event has passed its filter.\<close>

definition send_registered :: "evs_env \<Rightarrow> u32 \<Rightarrow> CFE_TIME_SysTime_t option \<Rightarrow> u16 \<Rightarrow> u16 \<Rightarrow> string
    \<Rightarrow> CFE_EVS_GlobalData_t \<Rightarrow> CFE_Status \<times> CFE_EVS_GlobalData_t" where
  "send_registered env AppID stamp eid etype t s =
     (if \<not> RegisterFlag (app AppID s) then EVS_NotRegistered env AppID s
      else case EVS_IsFiltered env AppID eid etype s of (Filtered, s) \<Rightarrow>
        (CFE_SUCCESS,
         if \<not> Filtered
         then case stamp of
                Some Time \<Rightarrow> EVS_GenerateEventTelemetry env AppID eid etype Time t s
              | None \<Rightarrow> EVS_GenerateEventTelemetry env AppID eid etype (TIME_GetTime env (TimeCalls s)) t
                          (s\<lparr>TimeCalls := TimeCalls s + 1\<rparr>)
         else s))"

definition CFE_EVS_SendEvent :: "evs_env \<Rightarrow> CFE_Status \<times> u32 \<Rightarrow> u16 \<Rightarrow> u16 \<Rightarrow> string
    \<Rightarrow> CFE_EVS_GlobalData_t \<Rightarrow> CFE_Status \<times> CFE_EVS_GlobalData_t" where
  "CFE_EVS_SendEvent env caller eid etype t s =
     (case EVS_GetAppID caller of (Status, AppID) \<Rightarrow>
        if Status = CFE_SUCCESS then send_registered env AppID None eid etype t s else (Status, s))"

definition CFE_EVS_SendEventWithAppID :: "evs_env \<Rightarrow> u16 \<Rightarrow> u16 \<Rightarrow> u32 \<Rightarrow> string
    \<Rightarrow> CFE_EVS_GlobalData_t \<Rightarrow> CFE_Status \<times> CFE_EVS_GlobalData_t" where
  "CFE_EVS_SendEventWithAppID env eid etype AppID t s =
     (if unat AppID \<ge> EVS_MAX_APPLICATIONS then (CFE_EVS_APP_ILLEGAL_APP_ID, s)
      else send_registered env AppID None eid etype t s)"

definition CFE_EVS_SendTimedEvent :: "evs_env \<Rightarrow> CFE_Status \<times> u32 \<Rightarrow> CFE_TIME_SysTime_t \<Rightarrow> u16 \<Rightarrow> u16 \<Rightarrow> string
    \<Rightarrow> CFE_EVS_GlobalData_t \<Rightarrow> CFE_Status \<times> CFE_EVS_GlobalData_t" where
  "CFE_EVS_SendTimedEvent env caller Time eid etype t s =
     (case EVS_GetAppID caller of (Status, AppID) \<Rightarrow>
        if Status = CFE_SUCCESS then send_registered env AppID (Some Time) eid etype t s else (Status, s))"

definition CFE_EVS_ResetFilter :: "CFE_Status \<times> u32 \<Rightarrow> u16 \<Rightarrow> CFE_EVS_GlobalData_t
    \<Rightarrow> CFE_Status \<times> CFE_EVS_GlobalData_t" where
  "CFE_EVS_ResetFilter caller eid s =
     (case EVS_GetAppID caller of (Status, AppID) \<Rightarrow>
        if Status = CFE_SUCCESS
        then if \<not> RegisterFlag (app AppID s) then (CFE_EVS_APP_NOT_REGISTERED, s)
             else case EVS_FindEventID eid (BinFilters (app AppID s)) of
                    Some i \<Rightarrow> (CFE_SUCCESS, filter_upd AppID i (Count_update (\<lambda>_. 0)) s)
                  | None \<Rightarrow> (CFE_EVS_EVT_NOT_REGISTERED, s)
        else (Status, s))"

definition reset_counts :: "EVS_AppData_t \<Rightarrow> EVS_AppData_t" where
  "reset_counts a = a\<lparr>BinFilters := map (Count_update (\<lambda>_. 0)) (BinFilters a)\<rparr>"

definition CFE_EVS_ResetAllFilters :: "CFE_Status \<times> u32 \<Rightarrow> CFE_EVS_GlobalData_t
    \<Rightarrow> CFE_Status \<times> CFE_EVS_GlobalData_t" where
  "CFE_EVS_ResetAllFilters caller s =
     (case EVS_GetAppID caller of (Status, AppID) \<Rightarrow>
        if Status = CFE_SUCCESS
        then if \<not> RegisterFlag (app AppID s) then (CFE_EVS_APP_NOT_REGISTERED, s)
             else (CFE_SUCCESS, app_upd AppID reset_counts s)
        else (Status, s))"

section \<open>Start-up\<close>

definition hk_zero :: CFE_EVS_HousekeepingTlm_t where
  "hk_zero = \<lparr>Hk_TlmHeader = (\<lambda>_. 0), CommandCounter = 0, CommandErrorCounter = 0, MessageFormatMode = 0,
     MessageTruncCounter = 0, UnregisteredAppCounter = 0, OutputPort = 0, Hk_LogFullFlag = 0, Hk_LogMode = 0,
     MessageSendCounter = 0, Hk_LogOverflowCounter = 0, LogEnabled = False,
     Hk_AppData = replicate CFE_MISSION_ES_MAX_APPLICATIONS
       \<lparr>Tlm_AppID = 0, Tlm_AppMessageSentCounter = 0, Tlm_AppEnableStatus = False\<rparr>\<rparr>"

definition evs_zero :: CFE_EVS_GlobalData_t where
  "evs_zero = \<lparr>AppData = replicate EVS_MAX_APPLICATIONS app_zero, EVS_LogPtr = None, EVS_TlmPkt = hk_zero,
     EVS_CommandPipe = 0, EVS_AppID = 0, TimeCalls = 0, Trace = [], Fault = False\<rparr>"

definition log_summary :: "CFE_EVS_Log_t \<Rightarrow> string" where
  "log_summary l = '', n='' @ fmt_d (int (unat (Next l))) @ '', c='' @ fmt_d (int (unat (LogCount l)))
     @ '', f='' @ fmt_d (int (unat (LogFullFlag l))) @ '', m='' @ fmt_d (int (unat (LogMode l)))
     @ '', o='' @ fmt_d (int (unat (LogOverflowCounter l))) @ [CHR 0x0A]"

definition sys_log :: "string \<Rightarrow> CFE_EVS_GlobalData_t \<Rightarrow> CFE_EVS_GlobalData_t" where
  "sys_log t = evs_emit (SysLog_Line t)"

text \<open>The log found in the reset area is used as it is, after a power-on reset (\<open>poweron\<close>) or not.\<close>

definition log_default_mode :: "CFE_EVS_GlobalData_t \<Rightarrow> CFE_EVS_GlobalData_t" where
  "log_default_mode s =
     s\<lparr>EVS_LogPtr := map_option (LogMode_update (\<lambda>_. CFE_PLATFORM_EVS_DEFAULT_LOG_MODE)) (EVS_LogPtr s)\<rparr>"

definition CFE_EVS_EarlyInit :: "int \<Rightarrow> nat \<Rightarrow> nat \<Rightarrow> CFE_EVS_Log_t \<Rightarrow> int \<Rightarrow> bool \<Rightarrow> CFE_EVS_GlobalData_t" where
  "CFE_EVS_EarlyInit psp_rc resetAreaSize sizeof_ResetData EVS_Log mut_rc poweron =
     (let s = evs_zero\<lparr>EVS_AppID := CFE_EVS_UNDEF_APPID\<rparr>;
          s = hk_upd (\<lambda>h. h\<lparr>Hk_TlmHeader := CFE_SB_InitMsg CFE_EVS_HK_TLM_MID
                 sizeof_CFE_EVS_HousekeepingTlm_t False (Hk_TlmHeader h)\<rparr>) s;
          s = hk_upd (\<lambda>h. h\<lparr>MessageFormatMode := CFE_EVS_MsgFormat_LONG, OutputPort := 1,
                 Hk_LogFullFlag := 0, Hk_LogMode := CFE_PLATFORM_EVS_DEFAULT_LOG_MODE\<rparr>) s
      in if psp_rc \<noteq> 0
         then sys_log (''EVS call to CFE_PSP_GetResetArea failed, RC=0x''
                @ fmt_x 8 (nat (psp_rc mod 2 ^ 32)) @ [CHR 0x0A]) s
         else if resetAreaSize < sizeof_ResetData
         then sys_log (''Unexpected size from CFE_PSP_GetResetArea: expected = 0x''
                @ fmt_X 8 sizeof_ResetData @ '', actual = 0x'' @ fmt_X 8 resetAreaSize @ [CHR 0x0A]) s
         else
           let s = s\<lparr>EVS_LogPtr := Some EVS_Log\<rparr>
           in if mut_rc \<noteq> 0
              then sys_log (''EVS call to OS_MutSemCreate failed, RC=0x''
                     @ fmt_x 8 (nat (mut_rc mod 2 ^ 32)) @ [CHR 0x0A]) s
              else
                let s = hk_upd (LogEnabled_update (\<lambda>_. True)) s
                in if poweron
                   then log_default_mode (EVS_ClearLog
                          (sys_log (''Event Log cleared following power-on reset'' @ [CHR 0x0A]) s))
                   else if (LogMode EVS_Log \<noteq> CFE_EVS_LogMode_OVERWRITE
                            \<and> LogMode EVS_Log \<noteq> CFE_EVS_LogMode_DISCARD)
                         \<or> (LogFullFlag EVS_Log \<noteq> 0 \<and> LogFullFlag EVS_Log \<noteq> 1)
                         \<or> Next EVS_Log \<ge> CFE_PLATFORM_EVS_LOG_MAX
                   then log_default_mode (EVS_ClearLog
                          (sys_log (''Event Log cleared'' @ log_summary EVS_Log) s))
                   else sys_log (''Event Log restored'' @ log_summary EVS_Log) s)"

definition CFE_EVS_CleanUpApp :: "u32 \<Rightarrow> CFE_EVS_GlobalData_t \<Rightarrow> CFE_Status \<times> CFE_EVS_GlobalData_t" where
  "CFE_EVS_CleanUpApp AppID s =
     (if unat AppID \<ge> EVS_MAX_APPLICATIONS then (CFE_EVS_APP_ILLEGAL_APP_ID, s)
      else (CFE_SUCCESS, if RegisterFlag (app AppID s) then app_upd AppID (\<lambda>_. app_zero) s else s))"

text \<open>The \<^verbatim>\<open>int32\<close> value of a return code, in \<^verbatim>\<open>cfe_error.h\<close>: \<open>0xc2000000 - 2 ^ 32\<close> and so on.\<close>

primrec status_code :: "CFE_Status \<Rightarrow> int" where
  "status_code CFE_SUCCESS = 0"
| "status_code CFE_SB_TIME_OUT = 0xca000001 - 2 ^ 32"
| "status_code CFE_SB_NO_MESSAGE = 0xca000002 - 2 ^ 32"
| "status_code CFE_SB_BAD_ARGUMENT = 0xca000003 - 2 ^ 32"
| "status_code CFE_SB_MAX_PIPES_MET = 0xca000004 - 2 ^ 32"
| "status_code CFE_SB_PIPE_CR_ERR = 0xca000005 - 2 ^ 32"
| "status_code CFE_SB_PIPE_RD_ERR = 0xca000006 - 2 ^ 32"
| "status_code CFE_SB_MSG_TOO_BIG = 0xca000007 - 2 ^ 32"
| "status_code CFE_SB_BUF_ALOC_ERR = 0xca000008 - 2 ^ 32"
| "status_code CFE_SB_MAX_MSGS_MET = 0xca000009 - 2 ^ 32"
| "status_code CFE_SB_MAX_DESTS_MET = 0xca00000a - 2 ^ 32"
| "status_code CFE_SB_WRONG_MSG_TYPE = 0xca00000d - 2 ^ 32"
| "status_code CFE_SB_BUFFER_INVALID = 0xca00000e - 2 ^ 32"
| "status_code CFE_ES_ERR_APPID = 0xc4000001 - 2 ^ 32"
| "status_code CFE_ES_ERR_BUFFER = 0xc4000003 - 2 ^ 32"
| "status_code CFE_ES_ERR_SYS_LOG_FULL = 0xc4000006 - 2 ^ 32"
| "status_code CFE_ES_ERR_SYS_LOG_TRUNCATED = 0x44000028"
| "status_code CFE_ES_FILE_IO_ERR = 0xc4000014 - 2 ^ 32"
| "status_code CFE_ES_ERR_MEM_HANDLE = 0xc4000007 - 2 ^ 32"
| "status_code CFE_ES_ERR_MEM_BLOCK_SIZE = 0xc4000008 - 2 ^ 32"
| "status_code CFE_ES_BAD_ARGUMENT = 0xc400000a - 2 ^ 32"
| "status_code CFE_ES_BUFFER_NOT_IN_POOL = 0xc4000025 - 2 ^ 32"
| "status_code CFE_TIME_TOO_MANY_SYNCH_CALLBACKS = 0xce000003 - 2 ^ 32"
| "status_code CFE_TIME_CALLBACK_NOT_REGISTERED = 0xce000004 - 2 ^ 32"
| "status_code CFE_EVS_UNKNOWN_FILTER = 0xc2000001 - 2 ^ 32"
| "status_code CFE_EVS_APP_NOT_REGISTERED = 0xc2000002 - 2 ^ 32"
| "status_code CFE_EVS_APP_ILLEGAL_APP_ID = 0xc2000003 - 2 ^ 32"
| "status_code CFE_EVS_APP_FILTER_OVERLOAD = 0xc2000004 - 2 ^ 32"
| "status_code CFE_EVS_EVT_NOT_REGISTERED = 0xc2000006 - 2 ^ 32"
| "status_code CFE_EVS_FILE_WRITE_ERROR = 0xc2000007 - 2 ^ 32"
| "status_code CFE_EVS_INVALID_PARAMETER = 0xc2000008 - 2 ^ 32"
| "status_code CFE_EVS_FUNCTION_DISABLED = 0xc2000009 - 2 ^ 32"
| "status_code CFE_STATUS_NO_COUNTER_INCREMENT = 0x48000001"
| "status_code CFE_STATUS_WRONG_MSG_LENGTH = 0xc8000002 - 2 ^ 32"
| "status_code CFE_STATUS_BAD_COMMAND_CODE = 0xc8000004 - 2 ^ 32"
| "status_code (OS_STATUS c) = c"

definition init_failed :: "string \<Rightarrow> CFE_Status \<Rightarrow> CFE_EVS_GlobalData_t \<Rightarrow> CFE_Status \<times> CFE_EVS_GlobalData_t" where
  "init_failed t Status s =
     (Status, sys_log (''EVS:'' @ t @ '' Failed:RC=0x'' @ fmt_X32 (status_code Status) @ [CHR 0x0A]) s)"

text \<open>The services that the start-up of the task calls enter with their results: \<open>es_reg\<close> of
  \<^verbatim>\<open>CFE_ES_RegisterApp\<close>, \<open>pipe\<close> of \<^verbatim>\<open>CFE_SB_CreatePipe\<close> and \<open>sub\<close> of the two calls of
  \<^verbatim>\<open>CFE_SB_SubscribeEx\<close>.\<close>

definition CFE_EVS_TaskInit :: "evs_env \<Rightarrow> CFE_Status \<Rightarrow> CFE_Status \<times> u32 \<Rightarrow> CFE_Status \<times> u8
    \<Rightarrow> (u16 \<Rightarrow> CFE_Status) \<Rightarrow> CFE_EVS_GlobalData_t \<Rightarrow> CFE_Status \<times> CFE_EVS_GlobalData_t" where
  "CFE_EVS_TaskInit env es_reg caller pipe sub s =
     (if es_reg \<noteq> CFE_SUCCESS then init_failed ''Call to CFE_ES_RegisterApp'' es_reg s
      else case EVS_GetAppID caller of (Status, AppID) \<Rightarrow>
        if Status \<noteq> CFE_SUCCESS then init_failed ''Call to CFE_ES_GetAppID'' Status s
        else case CFE_EVS_Register caller None 0 CFE_EVS_EventFilter_BINARY s of (Status, s) \<Rightarrow>
          if Status \<noteq> CFE_SUCCESS then init_failed ''Call to CFE_EVS_Register'' Status s
          else
            let s = s\<lparr>EVS_CommandPipe := snd pipe\<rparr>
            in if fst pipe \<noteq> CFE_SUCCESS then init_failed ''Call to CFE_SB_CreatePipe'' (fst pipe) s
               else if sub 0x1801 \<noteq> CFE_SUCCESS then init_failed ''Subscribing to Cmds'' (sub 0x1801) s
               else if sub 0x1809 \<noteq> CFE_SUCCESS then init_failed ''Subscribing to HK Request'' (sub 0x1809) s
               else (CFE_SUCCESS,
                     EVS_SendEvent env 1 CFE_EVS_EventType_INFORMATION
                       ''cFE EVS Initialized. cFE Version 6.7.0.0'' (s\<lparr>EVS_AppID := AppID\<rparr>)))"

end
