(* ===== verification/EVS_Task.thy ===== *)
theory EVS_Task
  imports EVS_Api
begin

text \<open>
  The task of Event Services: the command handlers of \<^verbatim>\<open>cfe_evs_task.c\<close> and \<^verbatim>\<open>cfe_evs_log.c\<close>, the
  dispatch of a ground command with its length check and counters, the housekeeping report, the two
  data files, and the loop of the task over the messages it receives.  A handler takes the command
  message as bytes: the arguments start behind the 8-byte command header.
\<close>

section \<open>Command arguments\<close>

fun c_string :: "nat \<Rightarrow> nat \<Rightarrow> bytes \<Rightarrow> string" where
  "c_string 0 i m = ''''"
| "c_string (Suc n) i m = (if m i = 0 then '''' else char_of (unat (m i)) # c_string n (Suc i) m)"

definition c_bytes :: "string \<Rightarrow> bytes" where
  "c_bytes t i = (if i < length t then of_nat (of_char (t ! i)) else 0)"

definition arg_AppName :: "bytes \<Rightarrow> string" where
  "arg_AppName m = c_string 20 0 (snd (CFE_SB_MessageStringGet (\<lambda>_. 0) (\<lambda>i. m (8 + i)) None 20 20))"

definition arg_Filename :: "string \<Rightarrow> bytes \<Rightarrow> string" where
  "arg_Filename d m =
     c_string 64 0 (snd (CFE_SB_MessageStringGet (\<lambda>_. 0) (\<lambda>i. m (8 + i)) (Some (c_bytes d)) 64 64))"

abbreviation arg_Byte :: "bytes \<Rightarrow> u8" where "arg_Byte m \<equiv> m 8"
abbreviation arg_BitMask :: "bytes \<Rightarrow> u8" where "arg_BitMask m \<equiv> m 28"
abbreviation arg_EventID :: "bytes \<Rightarrow> u16" where "arg_EventID m \<equiv> get_le16 28 m"
abbreviation arg_Mask :: "bytes \<Rightarrow> u16" where "arg_Mask m \<equiv> get_le16 30 m"

abbreviation debug_event :: "evs_env \<Rightarrow> u16 \<Rightarrow> string \<Rightarrow> CFE_EVS_GlobalData_t \<Rightarrow> CFE_EVS_GlobalData_t" where
  "debug_event env eid \<equiv> EVS_SendEvent env eid CFE_EVS_EventType_DEBUG"

abbreviation error_event :: "evs_env \<Rightarrow> u16 \<Rightarrow> string \<Rightarrow> CFE_EVS_GlobalData_t \<Rightarrow> CFE_EVS_GlobalData_t" where
  "error_event env eid \<equiv> EVS_SendEvent env eid CFE_EVS_EventType_ERROR"

definition bitmask_error :: "evs_env \<Rightarrow> u8 \<Rightarrow> nat \<Rightarrow> CFE_EVS_GlobalData_t \<Rightarrow> CFE_Status \<times> CFE_EVS_GlobalData_t" where
  "bitmask_error env BitMask cc s =
     (CFE_EVS_INVALID_PARAMETER,
      error_event env 40 (''Bit Mask = 0x'' @ fmt_x 8 (unat BitMask) @ '' out of range: CC = '' @ fmt_u cc) s)"

text \<open>The three error branches that every handler with an application name has; the texts differ in a
  few places, which are the arguments \<open>sep\<close> and \<open>pre\<close>.\<close>

definition app_info_error :: "evs_env \<Rightarrow> CFE_Status \<Rightarrow> u32 \<Rightarrow> string \<Rightarrow> string \<Rightarrow> string \<Rightarrow> nat
    \<Rightarrow> CFE_EVS_GlobalData_t \<Rightarrow> CFE_Status \<times> CFE_EVS_GlobalData_t" where
  "app_info_error env Status AppID LocalName sep pre cc s =
     (Status,
      if Status = CFE_EVS_APP_NOT_REGISTERED
      then error_event env 7 (LocalName @ '' not registered with EVS'' @ sep @ '' CC = '' @ fmt_u cc) s
      else if Status = CFE_EVS_APP_ILLEGAL_APP_ID
      then error_event env 8 (''Illegal application ID '' @ fmt_d (sint AppID) @ '' retrieved for ''
             @ LocalName @ '': CC = '' @ fmt_u cc) s
      else error_event env 9 (pre @ ''Unable to retrieve application ID for '' @ LocalName
             @ '': CC = '' @ fmt_u cc) s)"

section \<open>Command handlers\<close>

type_synonym evs_handler = "bytes \<Rightarrow> CFE_EVS_GlobalData_t \<Rightarrow> CFE_Status \<times> CFE_EVS_GlobalData_t"

definition CFE_EVS_NoopCmd :: "evs_env \<Rightarrow> evs_handler" where
  "CFE_EVS_NoopCmd env m s =
     (CFE_SUCCESS, EVS_SendEvent env 0 CFE_EVS_EventType_INFORMATION ''No-op command. cFE Version 6.7.0.0'' s)"

definition CFE_EVS_ClearLogCmd :: "evs_env \<Rightarrow> evs_handler" where
  "CFE_EVS_ClearLogCmd env m s =
     (if LogEnabled (EVS_TlmPkt s) then (CFE_SUCCESS, EVS_ClearLog s)
      else (CFE_EVS_FUNCTION_DISABLED,
            error_event env 35 ''Clear Log Command: Event Log is Disabled'' s))"

definition hk_app_row :: "CFE_EVS_GlobalData_t \<Rightarrow> nat \<Rightarrow> CFE_EVS_AppTlmData_t" where
  "hk_app_row s i = \<lparr>Tlm_AppID = of_nat i, Tlm_AppMessageSentCounter = EventCount (AppData s ! i),
     Tlm_AppEnableStatus = ActiveFlag (AppData s ! i)\<rparr>"

text \<open>The first loop stops after 16 rows, or when it has seen all applications; the second clears the
  rows that are left.\<close>

definition hk_app_rows :: "CFE_EVS_GlobalData_t \<Rightarrow> CFE_EVS_AppTlmData_t list" where
  "hk_app_rows s =
     (let rows = map (hk_app_row s) (take CFE_MISSION_ES_MAX_APPLICATIONS
                   (filter (\<lambda>i. RegisterFlag (AppData s ! i)) [0..<EVS_MAX_APPLICATIONS]))
      in rows @ replicate (CFE_MISSION_ES_MAX_APPLICATIONS - length rows)
           \<lparr>Tlm_AppID = 0, Tlm_AppMessageSentCounter = 0, Tlm_AppEnableStatus = False\<rparr>)"

definition CFE_EVS_ReportHousekeepingCmd :: "evs_env \<Rightarrow> evs_handler" where
  "CFE_EVS_ReportHousekeepingCmd env m s =
     (let s = (if LogEnabled (EVS_TlmPkt s)
               then case EVS_LogPtr s of
                      None \<Rightarrow> evs_fault s
                    | Some l \<Rightarrow> hk_upd (\<lambda>h. h\<lparr>Hk_LogFullFlag := LogFullFlag l, Hk_LogMode := LogMode l,
                                  Hk_LogOverflowCounter := LogOverflowCounter l\<rparr>) s
               else s);
          s = hk_upd (Hk_AppData_update (\<lambda>_. hk_app_rows s)) s;
          s = hk_upd (Hk_TlmHeader_update (CFE_SB_TimeStampMsg (TIME_GetTime env (TimeCalls s)))) s;
          s = s\<lparr>TimeCalls := TimeCalls s + 1\<rparr>
      in (CFE_STATUS_NO_COUNTER_INCREMENT, evs_emit (Send_Housekeeping (EVS_TlmPkt s)) s))"

definition CFE_EVS_ResetCountersCmd :: "evs_env \<Rightarrow> evs_handler" where
  "CFE_EVS_ResetCountersCmd env m s =
     (let s = hk_upd (\<lambda>h. h\<lparr>CommandCounter := 0, CommandErrorCounter := 0, MessageSendCounter := 0,
                MessageTruncCounter := 0, UnregisteredAppCounter := 0\<rparr>) s
      in (CFE_STATUS_NO_COUNTER_INCREMENT, debug_event env 16 ''Reset Counters Command Received'' s))"

definition CFE_EVS_SetFilterCmd :: "evs_env \<Rightarrow> evs_handler" where
  "CFE_EVS_SetFilterCmd env m s =
     (let LocalName = arg_AppName m
      in case EVS_GetApplicationInfo env (Some LocalName) s of (Status, AppID) \<Rightarrow>
           if Status = CFE_SUCCESS
           then case EVS_FindEventID (arg_EventID m) (BinFilters (app AppID s)) of
                  Some i \<Rightarrow>
                    (CFE_SUCCESS,
                     debug_event env 17 (''Set Filter Mask Command Received with AppName='' @ LocalName
                       @ '', EventID=0x'' @ fmt_x 8 (unat (arg_EventID m)) @ '', Mask=0x''
                       @ fmt_x 4 (unat (arg_Mask m)))
                       (filter_upd AppID i (Mask_update (\<lambda>_. arg_Mask m)) s))
                | None \<Rightarrow>
                    (CFE_EVS_EVT_NOT_REGISTERED,
                     error_event env 6 (LocalName @ '' Event ID '' @ fmt_d (int (unat (arg_EventID m)))
                       @ '' not registered for filtering: CC = 10 '') s)
           else app_info_error env Status AppID LocalName '':'' '''' 10 s)"

text \<open>The four bit tests of the port commands, each of which sets or clears its bit of the output ports.\<close>

definition port_bits :: "(u8 \<Rightarrow> u8 \<Rightarrow> u8) \<Rightarrow> u8 \<Rightarrow> u8 \<Rightarrow> u8" where
  "port_bits put BitMask p =
     (let p = (if drop_bit 0 (BitMask AND CFE_EVS_PORT1_BIT) = 1 then put p CFE_EVS_PORT1_BIT else p);
          p = (if drop_bit 1 (BitMask AND CFE_EVS_PORT2_BIT) = 1 then put p CFE_EVS_PORT2_BIT else p);
          p = (if drop_bit 2 (BitMask AND CFE_EVS_PORT3_BIT) = 1 then put p CFE_EVS_PORT3_BIT else p)
      in if drop_bit 3 (BitMask AND CFE_EVS_PORT4_BIT) = 1 then put p CFE_EVS_PORT4_BIT else p)"

definition CFE_EVS_EnablePortsCmd :: "evs_env \<Rightarrow> evs_handler" where
  "CFE_EVS_EnablePortsCmd env m s =
     (let BitMask = arg_Byte m
      in if BitMask = 0 \<or> BitMask > 0x0F then bitmask_error env BitMask 11 s
         else (CFE_SUCCESS,
               debug_event env 18 (''Enable Ports Command Received with Port Bit Mask = 0x''
                 @ fmt_x 2 (unat BitMask))
                 (hk_upd (OutputPort_update (port_bits (\<lambda>p b. p OR b) BitMask)) s)))"

definition CFE_EVS_DisablePortsCmd :: "evs_env \<Rightarrow> evs_handler" where
  "CFE_EVS_DisablePortsCmd env m s =
     (let BitMask = arg_Byte m
      in if BitMask = 0 \<or> BitMask > 0x0F then bitmask_error env BitMask 12 s
         else (CFE_SUCCESS,
               debug_event env 19 (''Disable Ports Command Received with Port Bit Mask = 0x''
                 @ fmt_x 2 (unat BitMask))
                 (hk_upd (OutputPort_update (port_bits (\<lambda>p b. p AND NOT b) BitMask)) s)))"

definition for_registered :: "(u32 \<Rightarrow> CFE_EVS_GlobalData_t \<Rightarrow> CFE_EVS_GlobalData_t)
    \<Rightarrow> CFE_EVS_GlobalData_t \<Rightarrow> CFE_EVS_GlobalData_t" where
  "for_registered f s =
     foldl (\<lambda>s i. if RegisterFlag (app (of_nat i) s) then f (of_nat i) s else s) s [0..<EVS_MAX_APPLICATIONS]"

definition CFE_EVS_EnableEventTypeCmd :: "evs_env \<Rightarrow> evs_handler" where
  "CFE_EVS_EnableEventTypeCmd env m s =
     (let BitMask = arg_Byte m
      in if BitMask = 0 \<or> BitMask > 0x0F then bitmask_error env BitMask 2 s
         else (CFE_SUCCESS,
               debug_event env 20 (''Enable Event Type Command Received with Event Type Bit Mask = 0x''
                 @ fmt_x 2 (unat BitMask)) (for_registered (EVS_EnableTypes BitMask) s)))"

definition CFE_EVS_DisableEventTypeCmd :: "evs_env \<Rightarrow> evs_handler" where
  "CFE_EVS_DisableEventTypeCmd env m s =
     (let BitMask = arg_Byte m
      in if BitMask = 0 \<or> BitMask > 0x0F then bitmask_error env BitMask 3 s
         else (CFE_SUCCESS,
               debug_event env 21 (''Disable Event Type Command Received with Event Type Bit Mask = 0x''
                 @ fmt_x 2 (unat BitMask)) (for_registered (EVS_DisableTypes BitMask) s)))"

definition CFE_EVS_SetEventFormatModeCmd :: "evs_env \<Rightarrow> evs_handler" where
  "CFE_EVS_SetEventFormatModeCmd env m s =
     (let MsgFormat = arg_Byte m
      in if MsgFormat = CFE_EVS_MsgFormat_SHORT \<or> MsgFormat = CFE_EVS_MsgFormat_LONG
         then (CFE_SUCCESS,
               debug_event env 22 (''Set Event Format Mode Command Received with Mode = 0x''
                 @ fmt_x 2 (unat MsgFormat)) (hk_upd (MessageFormatMode_update (\<lambda>_. MsgFormat)) s))
         else (CFE_EVS_INVALID_PARAMETER,
               error_event env 10 (''Set Event Format Mode Command: Invalid Event Format Mode = 0x''
                 @ fmt_x 2 (unat MsgFormat)) s))"

definition CFE_EVS_EnableAppEventTypeCmd :: "evs_env \<Rightarrow> evs_handler" where
  "CFE_EVS_EnableAppEventTypeCmd env m s =
     (let LocalName = arg_AppName m; BitMask = arg_BitMask m
      in case EVS_GetApplicationInfo env (Some LocalName) s of (Status, AppID) \<Rightarrow>
           if Status = CFE_SUCCESS
           then if BitMask = 0 \<or> BitMask > 0x0F then bitmask_error env BitMask 5 s
                else (CFE_SUCCESS,
                      debug_event env 23 (''Enable App Event Type Command Received with AppName = ''
                        @ LocalName @ '', EventType Bit Mask = 0x'' @ fmt_x 2 (unat BitMask))
                        (EVS_EnableTypes BitMask AppID s))
           else app_info_error env Status AppID LocalName '':'' '''' 5 s)"

definition CFE_EVS_DisableAppEventTypeCmd :: "evs_env \<Rightarrow> evs_handler" where
  "CFE_EVS_DisableAppEventTypeCmd env m s =
     (let LocalName = arg_AppName m; BitMask = arg_BitMask m
      in case EVS_GetApplicationInfo env (Some LocalName) s of (Status, AppID) \<Rightarrow>
           if Status = CFE_SUCCESS
           then if BitMask = 0 \<or> BitMask > 0x0F then bitmask_error env BitMask 6 s
                else (CFE_SUCCESS,
                      debug_event env 24 (''Disable App Event Type Command Received with AppName = ''
                        @ LocalName @ '', EventType Bit Mask = 0x'' @ fmt_x 2 (unat BitMask))
                        (EVS_DisableTypes BitMask AppID s))
           else app_info_error env Status AppID LocalName '',:'' '''' 6 s)"

definition CFE_EVS_EnableAppEventsCmd :: "evs_env \<Rightarrow> evs_handler" where
  "CFE_EVS_EnableAppEventsCmd env m s =
     (let LocalName = arg_AppName m
      in case EVS_GetApplicationInfo env (Some LocalName) s of (Status, AppID) \<Rightarrow>
           if Status = CFE_SUCCESS
           then (CFE_SUCCESS,
                 debug_event env 25 (''Enable App Events Command Received with AppName = '' @ LocalName)
                   (app_upd AppID (ActiveFlag_update (\<lambda>_. True)) s))
           else app_info_error env Status AppID LocalName '':'' '''' 7 s)"

definition CFE_EVS_DisableAppEventsCmd :: "evs_env \<Rightarrow> evs_handler" where
  "CFE_EVS_DisableAppEventsCmd env m s =
     (let LocalName = arg_AppName m
      in case EVS_GetApplicationInfo env (Some LocalName) s of (Status, AppID) \<Rightarrow>
           if Status = CFE_SUCCESS
           then (CFE_SUCCESS,
                 debug_event env 26 (''Disable App Events Command Received with AppName = '' @ LocalName)
                   (app_upd AppID (ActiveFlag_update (\<lambda>_. False)) s))
           else app_info_error env Status AppID LocalName '':'' ''Disable App Events Command: '' 8 s)"

definition CFE_EVS_ResetAppCounterCmd :: "evs_env \<Rightarrow> evs_handler" where
  "CFE_EVS_ResetAppCounterCmd env m s =
     (let LocalName = arg_AppName m
      in case EVS_GetApplicationInfo env (Some LocalName) s of (Status, AppID) \<Rightarrow>
           if Status = CFE_SUCCESS
           then (CFE_SUCCESS,
                 debug_event env 27 (''Reset Event Counter Command Received with AppName = '' @ LocalName)
                   (app_upd AppID (EventCount_update (\<lambda>_. 0)) s))
           else app_info_error env Status AppID LocalName '':'' ''Reset Event Counter Command: '' 9 s)"

definition CFE_EVS_ResetFilterCmd :: "evs_env \<Rightarrow> evs_handler" where
  "CFE_EVS_ResetFilterCmd env m s =
     (let LocalName = arg_AppName m
      in case EVS_GetApplicationInfo env (Some LocalName) s of (Status, AppID) \<Rightarrow>
           if Status = CFE_SUCCESS
           then case EVS_FindEventID (arg_EventID m) (BinFilters (app AppID s)) of
                  Some i \<Rightarrow>
                    (CFE_SUCCESS,
                     debug_event env 28 (''Reset Filter Command Received with AppName = '' @ LocalName
                       @ '', EventID = 0x'' @ fmt_x 8 (unat (arg_EventID m)))
                       (filter_upd AppID i (Count_update (\<lambda>_. 0)) s))
                | None \<Rightarrow>
                    (CFE_EVS_EVT_NOT_REGISTERED,
                     error_event env 6 (LocalName @ '' Event ID '' @ fmt_d (int (unat (arg_EventID m)))
                       @ '' not registered for filtering: CC = 13'') s)
           else app_info_error env Status AppID LocalName '':'' '''' 13 s)"

definition CFE_EVS_ResetAllFiltersCmd :: "evs_env \<Rightarrow> evs_handler" where
  "CFE_EVS_ResetAllFiltersCmd env m s =
     (let LocalName = arg_AppName m
      in case EVS_GetApplicationInfo env (Some LocalName) s of (Status, AppID) \<Rightarrow>
           if Status = CFE_SUCCESS
           then (CFE_SUCCESS,
                 debug_event env 29 (''Reset All Filters Command Received with AppName = '' @ LocalName)
                   (app_upd AppID reset_counts s))
           else app_info_error env Status AppID LocalName '':'' '''' 14 s)"

definition CFE_EVS_AddEventFilterCmd :: "evs_env \<Rightarrow> evs_handler" where
  "CFE_EVS_AddEventFilterCmd env m s =
     (let LocalName = arg_AppName m
      in case EVS_GetApplicationInfo env (Some LocalName) s of (Status, AppID) \<Rightarrow>
           if Status = CFE_SUCCESS
           then case EVS_FindEventID (arg_EventID m) (BinFilters (app AppID s)) of
                  Some i \<Rightarrow>
                    (CFE_EVS_EVT_NOT_REGISTERED,
                     error_event env 37 (''Add Filter Command:AppName = '' @ LocalName @ '', EventID = 0x''
                       @ fmt_x 8 (unat (arg_EventID m)) @ '' is already registered for filtering'') s)
                | None \<Rightarrow>
                    (case EVS_FindEventID CFE_EVS_FREE_SLOT (BinFilters (app AppID s)) of
                       Some i \<Rightarrow>
                         (CFE_SUCCESS,
                          debug_event env 30 (''Add Filter Command Received with AppName = '' @ LocalName
                            @ '', EventID = 0x'' @ fmt_x 8 (unat (arg_EventID m)) @ '', Mask = 0x''
                            @ fmt_x 4 (unat (arg_Mask m)))
                            (filter_upd AppID i
                              (\<lambda>_. \<lparr>EventID = arg_EventID m, Mask = arg_Mask m, Count = 0\<rparr>) s))
                     | None \<Rightarrow>
                         (CFE_EVS_APP_FILTER_OVERLOAD,
                          error_event env 11
                            ''Add Filter Command: number of registered filters has reached max = 8'' s))
           else app_info_error env Status AppID LocalName '':'' '''' 15 s)"

definition CFE_EVS_DeleteEventFilterCmd :: "evs_env \<Rightarrow> evs_handler" where
  "CFE_EVS_DeleteEventFilterCmd env m s =
     (let LocalName = arg_AppName m
      in case EVS_GetApplicationInfo env (Some LocalName) s of (Status, AppID) \<Rightarrow>
           if Status = CFE_SUCCESS
           then case EVS_FindEventID (arg_EventID m) (BinFilters (app AppID s)) of
                  Some i \<Rightarrow>
                    (CFE_SUCCESS,
                     debug_event env 31 (''Delete Filter Command Received with AppName = '' @ LocalName
                       @ '', EventID = 0x'' @ fmt_x 8 (unat (arg_EventID m)))
                       (filter_upd AppID i (\<lambda>_. \<lparr>EventID = CFE_EVS_FREE_SLOT, Mask = 0, Count = 0\<rparr>) s))
                | None \<Rightarrow>
                    (CFE_EVS_EVT_NOT_REGISTERED,
                     error_event env 6 (LocalName @ '' Event ID '' @ fmt_d (int (unat (arg_EventID m)))
                       @ '' not registered for filtering: CC = 16'') s)
           else app_info_error env Status AppID LocalName '':'' '''' 16 s)"

section \<open>The data files\<close>

text \<open>The loop that writes the registered applications, from application \<open>i\<close> on with \<open>n\<close> to go; \<open>k\<close>
  entries have been written.  It gives the values of \<^verbatim>\<open>i\<close> and \<^verbatim>\<open>EntryCount\<close> at its end.\<close>

fun WriteAppData_loop :: "evs_env \<Rightarrow> string \<Rightarrow> nat \<Rightarrow> nat \<Rightarrow> nat \<Rightarrow> CFE_EVS_GlobalData_t
    \<Rightarrow> nat \<times> nat \<times> CFE_EVS_GlobalData_t" where
  "WriteAppData_loop env LocalName 0 i k s = (i, k, s)"
| "WriteAppData_loop env LocalName (Suc n) i k s =
     (let a = AppData s ! i
      in if RegisterFlag a
         then let entry = \<lparr>File_AppName = ES_GetAppName env (of_nat i), File_ActiveFlag = ActiveFlag a,
                    File_EventTypesActiveFlag = EventTypesActiveFlag a, File_EventCount = EventCount a,
                    File_Filters = BinFilters a\<rparr>;
                  BytesWritten = FS_write env k;
                  s = evs_emit (File_AppData entry BytesWritten) s
              in if BytesWritten = 88
                 then WriteAppData_loop env LocalName n (Suc i) (Suc k) s
                 else (i, k, error_event env 12 (''Write App Data Command Error: OS_write = 0x''
                         @ fmt_X32 BytesWritten @ '', filename = '' @ LocalName) s)
         else WriteAppData_loop env LocalName n (Suc i) k s)"

definition CFE_EVS_WriteAppDataFileCmd :: "evs_env \<Rightarrow> evs_handler" where
  "CFE_EVS_WriteAppDataFileCmd env m s =
     (let LocalName = arg_Filename ''/ram/cfe_evs_app.dat'' m;
          FileHandle = FS_creat env LocalName;
          s = evs_emit (File_Create LocalName) s
      in if FileHandle < 0
         then (OS_STATUS FileHandle,
               error_event env 13 (''Write App Data Command Error: OS_creat = 0x'' @ fmt_X32 FileHandle
                 @ '', filename = '' @ LocalName) s)
         else
           let s = evs_emit (File_Header ''EVS Application Data File'') s;
               (Result, s) =
                 (if FS_WriteHeader_ok env
                  then case WriteAppData_loop env LocalName EVS_MAX_APPLICATIONS 0 0 s of (i, k, s) \<Rightarrow>
                         if i = EVS_MAX_APPLICATIONS
                         then (CFE_SUCCESS,
                               debug_event env 32 (''Write App Data Command: '' @ fmt_d (int k)
                                 @ '' application data entries written to '' @ LocalName) s)
                         else (CFE_EVS_FILE_WRITE_ERROR, s)
                  else (CFE_EVS_FILE_WRITE_ERROR, s))
           in (Result, evs_emit File_Close s))"

text \<open>The loop that writes the log, with \<open>n\<close> entries to go, the next of them at index \<open>LogIndex\<close>.\<close>

fun WriteLog_loop :: "evs_env \<Rightarrow> string \<Rightarrow> nat \<Rightarrow> nat \<Rightarrow> nat \<Rightarrow> CFE_EVS_GlobalData_t
    \<Rightarrow> nat \<times> CFE_EVS_GlobalData_t" where
  "WriteLog_loop env LogFilename 0 i LogIndex s = (i, s)"
| "WriteLog_loop env LogFilename (Suc n) i LogIndex s =
     (case EVS_LogPtr s of
        None \<Rightarrow> (i, evs_fault s)
      | Some l \<Rightarrow>
          if LogIndex < length (LogEntry l)
          then let BytesWritten = FS_write env i;
                   s = evs_emit (File_LogEntry (LogEntry l ! LogIndex) BytesWritten) s
               in if BytesWritten = 168
                  then WriteLog_loop env LogFilename n (Suc i)
                         (if LogIndex + 1 \<ge> unat CFE_PLATFORM_EVS_LOG_MAX then 0 else LogIndex + 1) s
                  else (i, error_event env 2 (''Write Log File Command Error: OS_write = 0x''
                          @ fmt_X32 BytesWritten @ '', filename = '' @ LogFilename) s)
          else (i, evs_fault s))"

definition CFE_EVS_WriteLogDataFileCmd :: "evs_env \<Rightarrow> evs_handler" where
  "CFE_EVS_WriteLogDataFileCmd env m s =
     (if \<not> LogEnabled (EVS_TlmPkt s)
      then (CFE_EVS_FUNCTION_DISABLED, error_event env 36 ''Write Log Command: Event Log is Disabled'' s)
      else
        let s = evs_emit Mutex_Take s;
            LogFilename = arg_Filename ''/ram/cfe_evs.log'' m;
            LogFileHandle = FS_creat env LogFilename;
            s = evs_emit (File_Create LogFilename) s;
            (Result, s) =
              (if LogFileHandle < 0
               then (OS_STATUS LogFileHandle,
                     error_event env 3 (''Write Log File Command Error: OS_creat = 0x''
                       @ fmt_X32 LogFileHandle @ '', filename = '' @ LogFilename) s)
               else
                 let s = evs_emit (File_Header ''cFE EVS Log File'') s;
                     (Result, s) =
                       (if FS_WriteHeader_ok env
                        then case EVS_LogPtr s of
                               None \<Rightarrow> (CFE_EVS_FILE_WRITE_ERROR, evs_fault s)
                             | Some l \<Rightarrow>
                                 let LogIndex = (if LogCount l = CFE_PLATFORM_EVS_LOG_MAX
                                                 then unat (Next l) else 0)
                                 in case WriteLog_loop env LogFilename (unat (LogCount l)) 0 LogIndex s of
                                      (i, s) \<Rightarrow>
                                        (case EVS_LogPtr s of
                                           None \<Rightarrow> (CFE_EVS_FILE_WRITE_ERROR, evs_fault s)
                                         | Some l \<Rightarrow>
                                             if i = unat (LogCount l)
                                             then (CFE_SUCCESS,
                                                   debug_event env 33 (''Write Log File Command: ''
                                                     @ fmt_d (int (unat (LogCount l)))
                                                     @ '' event log entries written to '' @ LogFilename) s)
                                             else (CFE_EVS_FILE_WRITE_ERROR, s))
                        else (CFE_EVS_FILE_WRITE_ERROR, s))
                 in (Result, evs_emit File_Close s))
        in (Result, evs_emit Mutex_Give s))"

definition CFE_EVS_SetLogModeCmd :: "evs_env \<Rightarrow> evs_handler" where
  "CFE_EVS_SetLogModeCmd env m s =
     (let NewMode = arg_Byte m
      in if LogEnabled (EVS_TlmPkt s)
         then if NewMode = CFE_EVS_LogMode_OVERWRITE \<or> NewMode = CFE_EVS_LogMode_DISCARD
              then let s = evs_emit Mutex_Take s;
                       s = (case EVS_LogPtr s of
                              None \<Rightarrow> evs_fault s
                            | Some l \<Rightarrow> s\<lparr>EVS_LogPtr := Some (l\<lparr>LogMode := NewMode\<rparr>)\<rparr>);
                       s = evs_emit Mutex_Give s
                   in (CFE_SUCCESS,
                       debug_event env 38 (''Set Log Mode Command: Log Mode = '' @ fmt_d (int (unat NewMode))) s)
              else (CFE_EVS_INVALID_PARAMETER,
                    error_event env 39 (''Set Log Mode Command Error: Log Mode = ''
                      @ fmt_d (int (unat NewMode))) s)
         else (CFE_EVS_FUNCTION_DISABLED,
               error_event env 34 ''Set Log Mode Command: Event Log is Disabled'' s))"

section \<open>Dispatch\<close>

definition CFE_EVS_VerifyCmdLength :: "evs_env \<Rightarrow> bytes \<Rightarrow> u16 \<Rightarrow> CFE_EVS_GlobalData_t
    \<Rightarrow> bool \<times> CFE_EVS_GlobalData_t" where
  "CFE_EVS_VerifyCmdLength env m ExpectedLength s =
     (let ActualLength = CFE_SB_GetTotalMsgLength m
      in if ExpectedLength \<noteq> ActualLength
         then (False,
               error_event env 43 (''Invalid cmd length: ID = 0x'' @ fmt_X 0 (unat (CFE_SB_GetMsgId m))
                 @ '', CC = '' @ fmt_d (int (unat (CFE_SB_GetCmdCode m))) @ '', Exp Len = ''
                 @ fmt_d (int (unat ExpectedLength)) @ '', Len = '' @ fmt_d (int (unat ActualLength))) s)
         else (True, s))"

definition with_cmd_length :: "evs_env \<Rightarrow> u16 \<Rightarrow> (evs_env \<Rightarrow> evs_handler) \<Rightarrow> evs_handler" where
  "with_cmd_length env len f m s =
     (case CFE_EVS_VerifyCmdLength env m len s of (ok, s) \<Rightarrow>
        if ok then f env m s else (CFE_STATUS_WRONG_MSG_LENGTH, s))"

text \<open>The cases of the switch: the size of the command structure and the handler.\<close>

definition evs_command :: "u16 \<Rightarrow> (u16 \<times> (evs_env \<Rightarrow> evs_handler)) option" where
  "evs_command cc =
     (if cc = 0 then Some (8, CFE_EVS_NoopCmd)
      else if cc = 1 then Some (8, CFE_EVS_ResetCountersCmd)
      else if cc = 2 then Some (10, CFE_EVS_EnableEventTypeCmd)
      else if cc = 3 then Some (10, CFE_EVS_DisableEventTypeCmd)
      else if cc = 4 then Some (10, CFE_EVS_SetEventFormatModeCmd)
      else if cc = 5 then Some (30, CFE_EVS_EnableAppEventTypeCmd)
      else if cc = 6 then Some (30, CFE_EVS_DisableAppEventTypeCmd)
      else if cc = 7 then Some (28, CFE_EVS_EnableAppEventsCmd)
      else if cc = 8 then Some (28, CFE_EVS_DisableAppEventsCmd)
      else if cc = 9 then Some (28, CFE_EVS_ResetAppCounterCmd)
      else if cc = 10 then Some (32, CFE_EVS_SetFilterCmd)
      else if cc = 11 then Some (10, CFE_EVS_EnablePortsCmd)
      else if cc = 12 then Some (10, CFE_EVS_DisablePortsCmd)
      else if cc = 13 then Some (30, CFE_EVS_ResetFilterCmd)
      else if cc = 14 then Some (28, CFE_EVS_ResetAllFiltersCmd)
      else if cc = 15 then Some (32, CFE_EVS_AddEventFilterCmd)
      else if cc = 16 then Some (30, CFE_EVS_DeleteEventFilterCmd)
      else if cc = 17 then Some (72, CFE_EVS_WriteAppDataFileCmd)
      else if cc = 18 then Some (72, CFE_EVS_WriteLogDataFileCmd)
      else if cc = 19 then Some (10, CFE_EVS_SetLogModeCmd)
      else if cc = 20 then Some (8, CFE_EVS_ClearLogCmd)
      else None)"

definition CFE_EVS_ProcessGroundCommand :: "evs_env \<Rightarrow> bytes \<Rightarrow> CFE_EVS_GlobalData_t \<Rightarrow> CFE_EVS_GlobalData_t" where
  "CFE_EVS_ProcessGroundCommand env m s =
     (let (Status, s) =
        (case evs_command (CFE_SB_GetCmdCode m) of
           Some (len, f) \<Rightarrow> with_cmd_length env len f m s
         | None \<Rightarrow> (CFE_STATUS_BAD_COMMAND_CODE,
             error_event env 15 (''Invalid command code -- ID = 0x'' @ fmt_x 8 (unat (CFE_SB_GetMsgId m))
               @ '', CC = '' @ fmt_d (int (unat (CFE_SB_GetCmdCode m)))) s))
      in if Status = CFE_SUCCESS then hk_upd (CommandCounter_update (\<lambda>c. c + 1)) s
         else if status_code Status < 0 then hk_upd (CommandErrorCounter_update (\<lambda>c. c + 1)) s
         else s)"

definition CFE_EVS_ProcessCommandPacket :: "evs_env \<Rightarrow> bytes \<Rightarrow> CFE_EVS_GlobalData_t \<Rightarrow> CFE_EVS_GlobalData_t" where
  "CFE_EVS_ProcessCommandPacket env m s =
     (if CFE_SB_GetMsgId m = 0x1801 then CFE_EVS_ProcessGroundCommand env m s
      else if CFE_SB_GetMsgId m = 0x1809 then snd (CFE_EVS_ReportHousekeepingCmd env m s)
      else error_event env 5 (''Invalid command packet, Message ID = 0x'' @ fmt_X 8 (unat (CFE_SB_GetMsgId m)))
             (hk_upd (CommandErrorCounter_update (\<lambda>c. c + 1)) s))"

text \<open>The loop of the task over the results of \<^verbatim>\<open>CFE_SB_RcvMsg\<close>; it ends only when a receive fails.
  \<^verbatim>\<open>CFE_ES_ExitApp\<close> does not return: it resets the processor, or stops it after a failed start.\<close>

fun CFE_EVS_TaskMain_loop :: "evs_env \<Rightarrow> (CFE_Status \<times> bytes) list \<Rightarrow> CFE_EVS_GlobalData_t \<Rightarrow> CFE_EVS_GlobalData_t" where
  "CFE_EVS_TaskMain_loop env [] s = s"
| "CFE_EVS_TaskMain_loop env ((Status, m) # rcv) s =
     (if Status = CFE_SUCCESS then CFE_EVS_TaskMain_loop env rcv (CFE_EVS_ProcessCommandPacket env m s)
      else evs_emit Exit_Runtime_Error
             (sys_log (''EVS:Error reading cmd pipe,RC=0x'' @ fmt_X32 (status_code Status) @ [CHR 0x0A]) s))"

definition CFE_EVS_TaskMain :: "evs_env \<Rightarrow> CFE_Status \<Rightarrow> CFE_Status \<times> u32 \<Rightarrow> CFE_Status \<times> u8
    \<Rightarrow> (u16 \<Rightarrow> CFE_Status) \<Rightarrow> (CFE_Status \<times> bytes) list \<Rightarrow> CFE_EVS_GlobalData_t \<Rightarrow> CFE_EVS_GlobalData_t" where
  "CFE_EVS_TaskMain env es_reg caller pipe sub rcv s =
     (case CFE_EVS_TaskInit env es_reg caller pipe sub s of (Status, s) \<Rightarrow>
        if Status = CFE_SUCCESS then CFE_EVS_TaskMain_loop env rcv s
        else evs_emit Exit_Init_Error
               (sys_log (''EVS:Application Init Failed,RC=0x'' @ fmt_X32 (status_code Status) @ [CHR 0x0A]) s))"

end
