(* ===== verification/EVS_Inv.thy ===== *)
theory EVS_Inv
  imports EVS_Task
begin

text \<open>
  What every operation of Event Services keeps: the well-formedness \<open>evs_wf\<close> of its data, which
  includes that no access has been outside of an array or through a \<^verbatim>\<open>NULL\<close> log pointer, and, for the
  events that Event Services sends itself, the settings of all applications (\<open>settings\<close>).
\<close>

section \<open>Well-formed states\<close>

definition app_ok :: "EVS_AppData_t \<Rightarrow> bool" where
  "app_ok a \<longleftrightarrow> length (BinFilters a) = CFE_PLATFORM_EVS_MAX_EVENT_FILTERS \<and> EventTypesActiveFlag a AND 0xF0 = 0"

definition log_ok :: "CFE_EVS_Log_t \<Rightarrow> bool" where
  "log_ok l \<longleftrightarrow> length (LogEntry l) = unat CFE_PLATFORM_EVS_LOG_MAX \<and> Next l < CFE_PLATFORM_EVS_LOG_MAX
     \<and> LogFullFlag l \<le> 1 \<and> LogMode l \<le> 1"

definition hk_ok :: "CFE_EVS_HousekeepingTlm_t \<Rightarrow> bool" where
  "hk_ok h \<longleftrightarrow> MessageFormatMode h \<le> 1 \<and> OutputPort h AND 0xF0 = 0
     \<and> length (Hk_AppData h) = CFE_MISSION_ES_MAX_APPLICATIONS"

definition evs_wf :: "CFE_EVS_GlobalData_t \<Rightarrow> bool" where
  "evs_wf s \<longleftrightarrow> \<not> Fault s \<and> length (AppData s) = EVS_MAX_APPLICATIONS \<and> (\<forall>a\<in>set (AppData s). app_ok a)
     \<and> hk_ok (EVS_TlmPkt s) \<and> (LogEnabled (EVS_TlmPkt s) \<longrightarrow> (\<exists>l. EVS_LogPtr s = Some l \<and> log_ok l))
     \<and> (unat (EVS_AppID s) < EVS_MAX_APPLICATIONS \<or> EVS_AppID s = CFE_EVS_UNDEF_APPID)"

lemma evs_wfD:
  assumes "evs_wf s"
  shows "\<not> Fault s" "length (AppData s) = EVS_MAX_APPLICATIONS" "hk_ok (EVS_TlmPkt s)"
    "LogEnabled (EVS_TlmPkt s) \<Longrightarrow> \<exists>l. EVS_LogPtr s = Some l \<and> log_ok l"
    "unat a < EVS_MAX_APPLICATIONS \<Longrightarrow> app_ok (app a s)"
  using assms by (auto simp: evs_wf_def app_def)

lemma evs_emit_fields [simp]:
  "AppData (evs_emit e s) = AppData s" "EVS_LogPtr (evs_emit e s) = EVS_LogPtr s"
  "EVS_TlmPkt (evs_emit e s) = EVS_TlmPkt s" "EVS_AppID (evs_emit e s) = EVS_AppID s"
  "TimeCalls (evs_emit e s) = TimeCalls s" "Trace (evs_emit e s) = e # Trace s"
  "Fault (evs_emit e s) = Fault s" "app a (evs_emit e s) = app a s"
  by (simp_all add: evs_emit_def app_def)

lemma wf_emit [simp]: "evs_wf (evs_emit e s) = evs_wf s"
  by (simp add: evs_wf_def)

lemma wf_TimeCalls [simp]: "evs_wf (s\<lparr>TimeCalls := n\<rparr>) = evs_wf s"
  by (simp add: evs_wf_def)

lemma wf_sys_log [simp]: "evs_wf (sys_log t s) = evs_wf s"
  by (simp add: sys_log_def)

lemma wf_hk_upd:
  assumes "evs_wf s" and "hk_ok (f (EVS_TlmPkt s))"
    and "LogEnabled (f (EVS_TlmPkt s)) = LogEnabled (EVS_TlmPkt s)"
  shows "evs_wf (hk_upd f s)"
  using assms by (simp add: evs_wf_def hk_upd_def)

lemma wf_app_upd:
  assumes "evs_wf s" and "unat a < EVS_MAX_APPLICATIONS" and "app_ok (f (app a s))"
  shows "evs_wf (app_upd a f s)"
  using assms set_update_subset_insert [of "AppData s" "unat a" "f (app a s)"]
  by (auto simp: evs_wf_def app_upd_def app_def)

lemma wf_filter_upd:
  assumes "evs_wf s" and "unat a < EVS_MAX_APPLICATIONS"
  shows "evs_wf (filter_upd a i f s)"
  unfolding filter_upd_def using assms
  by (intro wf_app_upd) (auto dest: evs_wfD(5) simp: app_ok_def)

lemma wf_log:
  assumes "evs_wf s" and "log_ok l"
  shows "evs_wf (s\<lparr>EVS_LogPtr := Some l\<rparr>)"
  using assms by (simp add: evs_wf_def)

lemma u16_next: "n < (20::u16) \<Longrightarrow> n + 1 < 20 \<or> n + 1 = 20"
  by (auto simp: word_less_nat_alt unat_word_ariths word_unat_eq_iff)

lemma AddLog_entry_ok:
  assumes "log_ok l"
  shows "\<exists>l'. AddLog_entry p l = Some l' \<and> log_ok l'"
  using assms u16_next [of "Next l"]
  by (auto simp: AddLog_entry_def log_ok_def Let_def word_less_nat_alt)

lemma wf_AddLog:
  assumes "evs_wf s"
  shows "evs_wf (EVS_AddLog p s)"
proof (cases "LogEnabled (EVS_TlmPkt s)")
  case True
  with assms obtain l where "EVS_LogPtr s = Some l" "log_ok l" by (blast dest: evs_wfD(4))
  moreover obtain l' where "AddLog_entry p l = Some l'" "log_ok l'"
    using AddLog_entry_ok \<open>log_ok l\<close> by blast
  ultimately show ?thesis
    using True assms by (simp add: EVS_AddLog_def Let_def wf_log)
qed (simp add: EVS_AddLog_def assms)

lemma wf_ClearLog:
  assumes "evs_wf s" and "EVS_LogPtr s = Some l" and "LogMode l \<le> 1"
  shows "evs_wf (EVS_ClearLog s)"
  using assms by (simp add: EVS_ClearLog_def Let_def wf_log log_ok_def)

lemma wf_SendViaPorts [simp]: "evs_wf (EVS_SendViaPorts p s) = evs_wf s"
  by (simp add: EVS_SendViaPorts_def EVS_OutputPort_def Let_def)

lemma wf_hk_counters [simp]:
  "evs_wf (hk_upd (MessageTruncCounter_update f) s) = evs_wf s"
  "evs_wf (hk_upd (MessageSendCounter_update g) s) = evs_wf s"
  "evs_wf (hk_upd (UnregisteredAppCounter_update f) s) = evs_wf s"
  "evs_wf (hk_upd (CommandCounter_update f) s) = evs_wf s"
  "evs_wf (hk_upd (CommandErrorCounter_update f) s) = evs_wf s"
  "evs_wf (hk_upd (Hk_TlmHeader_update b) s) = evs_wf s"
  by (simp_all add: evs_wf_def hk_upd_def hk_ok_def)

lemma wf_EventCount:
  "evs_wf s \<Longrightarrow> unat a < EVS_MAX_APPLICATIONS \<Longrightarrow> evs_wf (app_upd a (EventCount_update f) s)"
  by (rule wf_app_upd) (auto dest: evs_wfD(5) simp: app_ok_def)

lemma wf_Generate:
  assumes "evs_wf s" and "unat a < EVS_MAX_APPLICATIONS"
  shows "evs_wf (EVS_GenerateEventTelemetry env a e ty T t s)"
  using assms by (simp add: EVS_GenerateEventTelemetry_def Let_def wf_EventCount wf_AddLog)

text \<open>Induction for the two functions that call each other: a predicate holds after them when it is kept
  by counting an event in a filter and by generating an event message.\<close>

lemma IsFiltered_induct:
  assumes count: "\<And>s a i. \<lbrakk>P s; unat a < length (AppData s); i < length (BinFilters (app a s))\<rbrakk>
      \<Longrightarrow> P (filter_upd a i (Count_update (\<lambda>c. c + 1)) s)"
    and gen: "\<And>env s a e ty T t. \<lbrakk>P s; unat a < EVS_MAX_APPLICATIONS\<rbrakk>
      \<Longrightarrow> P (EVS_GenerateEventTelemetry env a e ty T t (s\<lparr>TimeCalls := TimeCalls s + 1\<rparr>))"
    and apps: "\<And>s. P s \<Longrightarrow> length (AppData s) = EVS_MAX_APPLICATIONS"
    and self: "\<And>s. P s \<Longrightarrow> EVS_AppID s = me"
  shows "\<lbrakk>P s; unat a < EVS_MAX_APPLICATIONS\<rbrakk> \<Longrightarrow> P (snd (EVS_IsFiltered env a e ty s))"
    and "P s \<Longrightarrow> P (EVS_SendEvent env e ty t s)"
proof (induction env a e ty s and env e ty t s rule: EVS_IsFiltered_EVS_SendEvent.induct)
  case (1 env AppID eid etype s)
  then have "unat AppID < length (AppData s)" using apps by simp
  with 1 show ?case
    by (auto simp: EVS_IsFiltered.simps [of env AppID eid etype s] Let_def split: option.splits
        intro!: count dest: FindEventID_Some)
next
  case (2 env eid etype t s)
  show ?case
  proof (cases "unat (EVS_AppID s) < EVS_MAX_APPLICATIONS")
    case True
    obtain F s' where eq: "EVS_IsFiltered env (EVS_AppID s) eid etype s = (F, s')" by fastforce
    have "P s'" using 2(1) [OF True 2(2) True] eq by simp
    moreover have "EVS_AppID s' = EVS_AppID s" using self [OF \<open>P s'\<close>] self [OF 2(2)] by simp
    ultimately show ?thesis
      using True gen [of s' "EVS_AppID s'"] by (simp add: EVS_SendEvent.simps [of env eid etype t s] eq)
  qed (simp add: EVS_SendEvent.simps [of env eid etype t s] 2(2))
qed

lemma EVS_AppID_upd [simp]:
  "EVS_AppID (app_upd a f s) = EVS_AppID s" "EVS_AppID (filter_upd a i g s) = EVS_AppID s"
  "EVS_AppID (hk_upd h s) = EVS_AppID s" "EVS_AppID (EVS_AddLog p s) = EVS_AppID s"
  "EVS_AppID (EVS_SendViaPorts p s) = EVS_AppID s"
  "EVS_AppID (EVS_GenerateEventTelemetry env b e ty T t s) = EVS_AppID s"
  by (simp_all add: app_upd_def filter_upd_def hk_upd_def EVS_AddLog_def EVS_SendViaPorts_def
      EVS_OutputPort_def EVS_GenerateEventTelemetry_def evs_fault_def Let_def split: option.split)

lemma wf_self_kept:
  shows "\<lbrakk>evs_wf s; EVS_AppID s = me; unat a < EVS_MAX_APPLICATIONS\<rbrakk>
      \<Longrightarrow> evs_wf (snd (EVS_IsFiltered env a e ty s)) \<and> EVS_AppID (snd (EVS_IsFiltered env a e ty s)) = me"
    and "\<lbrakk>evs_wf s; EVS_AppID s = me\<rbrakk>
      \<Longrightarrow> evs_wf (EVS_SendEvent env e ty t s) \<and> EVS_AppID (EVS_SendEvent env e ty t s) = me"
  using IsFiltered_induct [of "\<lambda>s. evs_wf s \<and> EVS_AppID s = me" me]
  by (simp_all add: wf_filter_upd wf_Generate evs_wfD(2))

lemmas wf_IsFiltered = wf_self_kept(1) [OF _ refl, THEN conjunct1]
  and wf_SendEvent = wf_self_kept(2) [OF _ refl, THEN conjunct1]
  and IsFiltered_AppID = wf_self_kept(1) [OF _ refl, THEN conjunct2]
  and SendEvent_AppID = wf_self_kept(2) [OF _ refl, THEN conjunct2]

section \<open>The settings of the applications\<close>

text \<open>What the events that Event Services sends leave alone: everything in the application data but the
  counters.\<close>

definition app_settings :: "EVS_AppData_t \<Rightarrow> (u16 \<times> u16) list \<times> bool \<times> u8 \<times> bool" where
  "app_settings a = (map (\<lambda>f. (EventID f, Mask f)) (BinFilters a), ActiveFlag a, EventTypesActiveFlag a,
     RegisterFlag a)"

definition settings :: "CFE_EVS_GlobalData_t \<Rightarrow> ((u16 \<times> u16) list \<times> bool \<times> u8 \<times> bool) list" where
  "settings s = map app_settings (AppData s)"

lemma settings_emit [simp]: "settings (evs_emit e s) = settings s"
  by (simp add: settings_def)

lemma settings_hk [simp]: "settings (hk_upd f s) = settings s"
  by (simp add: settings_def hk_upd_def)

lemma settings_log [simp]: "settings (EVS_AddLog p s) = settings s"
  by (simp add: settings_def EVS_AddLog_def evs_fault_def Let_def split: option.split)

lemma settings_ports [simp]: "settings (EVS_SendViaPorts p s) = settings s"
  by (simp add: EVS_SendViaPorts_def EVS_OutputPort_def Let_def)

lemma map_update_same: "(\<And>x. g (h x) = g x) \<Longrightarrow> map g (xs[i := h (xs ! i)]) = map g xs"
  by (induction xs arbitrary: i) (auto split: nat.split)

lemma settings_app_upd:
  assumes "\<And>x. app_settings (f x) = app_settings x"
  shows "settings (app_upd a f s) = settings s"
  using map_update_same [of app_settings f, OF assms]
  by (simp add: settings_def app_upd_def evs_fault_def)

lemma settings_EventCount [simp]: "settings (app_upd a (EventCount_update f) s) = settings s"
  by (rule settings_app_upd) (simp add: app_settings_def)

lemma settings_Count [simp]: "settings (filter_upd a i (Count_update f) s) = settings s"
  unfolding filter_upd_def by (rule settings_app_upd) (simp add: app_settings_def map_update_same)

lemma settings_Generate [simp]: "settings (EVS_GenerateEventTelemetry env a e ty T t s) = settings s"
  by (simp add: EVS_GenerateEventTelemetry_def Let_def)

lemma settings_TimeCalls [simp]: "settings (s\<lparr>TimeCalls := n\<rparr>) = settings s"
  by (simp add: settings_def)

lemma settings_kept:
  shows "\<lbrakk>evs_wf s; unat a < EVS_MAX_APPLICATIONS\<rbrakk> \<Longrightarrow> settings (snd (EVS_IsFiltered env a e ty s)) = settings s"
    and "evs_wf s \<Longrightarrow> settings (EVS_SendEvent env e ty t s) = settings s"
  using IsFiltered_induct [of "\<lambda>s'. evs_wf s' \<and> EVS_AppID s' = EVS_AppID s \<and> settings s' = settings s"
      "EVS_AppID s"]
  by (simp_all add: wf_filter_upd wf_Generate evs_wfD(2))

section \<open>Every operation keeps a state well formed\<close>

lemma wf_NotRegistered:
  "evs_wf s \<Longrightarrow> unat a < EVS_MAX_APPLICATIONS \<Longrightarrow> evs_wf (snd (EVS_NotRegistered env a s))"
  by (simp add: EVS_NotRegistered_def Let_def wf_SendEvent wf_EventCount)

lemma GetAppID_range: "EVS_GetAppID c = (CFE_SUCCESS, a) \<Longrightarrow> unat a < EVS_MAX_APPLICATIONS"
  by (auto simp: EVS_GetAppID_def split: prod.splits if_splits)

lemma GetApplicationInfo_range:
  "EVS_GetApplicationInfo env n s = (CFE_SUCCESS, a) \<Longrightarrow> unat a < EVS_MAX_APPLICATIONS \<and> RegisterFlag (app a s)"
  by (auto simp: EVS_GetApplicationInfo_def split: option.splits prod.splits if_splits)

lemma app_ok_zero [simp]: "app_ok app_zero"
  by (simp add: app_ok_def app_zero_def)

lemma wf_clear_app: "evs_wf s \<Longrightarrow> unat a < EVS_MAX_APPLICATIONS \<Longrightarrow> evs_wf (app_upd a (\<lambda>_. app_zero) s)"
  by (rule wf_app_upd) simp_all

lemma wf_Register: "evs_wf s \<Longrightarrow> evs_wf (snd (CFE_EVS_Register c F n sch s))"
  by (auto simp: CFE_EVS_Register_def Let_def app_ok_def split: prod.split
      intro!: wf_app_upd wf_clear_app dest: GetAppID_range)

lemma wf_Unregister: "evs_wf s \<Longrightarrow> evs_wf (snd (CFE_EVS_Unregister c s))"
  by (auto simp: CFE_EVS_Unregister_def split: prod.split intro!: wf_clear_app dest: GetAppID_range)

lemma wf_CleanUpApp: "evs_wf s \<Longrightarrow> evs_wf (snd (CFE_EVS_CleanUpApp a s))"
  by (simp add: CFE_EVS_CleanUpApp_def wf_clear_app)

lemma wf_send_registered:
  assumes "evs_wf s" and "unat a < EVS_MAX_APPLICATIONS"
  shows "evs_wf (snd (send_registered env a T e ty t s))"
  using assms wf_IsFiltered [OF assms, of env e ty]
  by (auto simp: send_registered_def wf_NotRegistered wf_Generate split: prod.split option.split)

lemma wf_sends:
  assumes "evs_wf s"
  shows "evs_wf (snd (CFE_EVS_SendEvent env c e ty t s))"
    and "evs_wf (snd (CFE_EVS_SendEventWithAppID env e ty a t s))"
    and "evs_wf (snd (CFE_EVS_SendTimedEvent env c T e ty t s))"
  using assms by (auto simp: CFE_EVS_SendEvent_def CFE_EVS_SendEventWithAppID_def CFE_EVS_SendTimedEvent_def
      split: prod.split intro!: wf_send_registered dest: GetAppID_range)

lemma wf_reset_counts:
  "evs_wf s \<Longrightarrow> unat a < EVS_MAX_APPLICATIONS \<Longrightarrow> evs_wf (app_upd a reset_counts s)"
  by (rule wf_app_upd) (auto dest: evs_wfD(5) simp: app_ok_def reset_counts_def)

lemma wf_resets:
  assumes "evs_wf s"
  shows "evs_wf (snd (CFE_EVS_ResetFilter c e s))" and "evs_wf (snd (CFE_EVS_ResetAllFilters c s))"
  using assms by (auto simp: CFE_EVS_ResetFilter_def CFE_EVS_ResetAllFilters_def
      split: prod.split option.split intro!: wf_filter_upd wf_reset_counts dest: GetAppID_range)

lemma type_bits_kept:
  "b AND 0xF0 = 0 \<Longrightarrow> (b OR (m AND 15)) AND 0xF0 = (0::u8)"
  "b AND 0xF0 = 0 \<Longrightarrow> (b AND m) AND 0xF0 = (0::u8)"
  by (auto simp: word_blast)

lemma wf_types:
  assumes "evs_wf s" and "unat a < EVS_MAX_APPLICATIONS"
  shows "evs_wf (EVS_EnableTypes m a s)" and "evs_wf (EVS_DisableTypes m a s)"
  unfolding EVS_EnableTypes_def EVS_DisableTypes_def Let_def using assms evs_wfD(5) [OF assms]
  by (auto intro!: wf_app_upd simp: app_ok_def type_bits_kept)

lemma wf_for_registered:
  assumes "evs_wf s" and "\<And>a s. evs_wf s \<Longrightarrow> unat a < EVS_MAX_APPLICATIONS \<Longrightarrow> evs_wf (f a s)"
  shows "evs_wf (for_registered f s)"
proof -
  have "evs_wf (foldl (\<lambda>s i. if RegisterFlag (app (of_nat i) s) then f (of_nat i) s else s) s xs)"
    if "\<forall>i\<in>set xs. i < EVS_MAX_APPLICATIONS" for xs
    using that assms(1)
  proof (induction xs arbitrary: s)
    case (Cons i xs)
    then have "unat (of_nat i :: u32) < EVS_MAX_APPLICATIONS" by (simp add: unat_of_nat take_bit_eq_mod)
    with Cons assms(2) show ?case by simp
  qed simp
  from this [of "[0..<EVS_MAX_APPLICATIONS]"] show ?thesis by (simp add: for_registered_def)
qed

lemma port_bits_ok:
  assumes "p AND 0xF0 = 0"
  shows "port_bits (\<lambda>p b. p OR b) m p AND 0xF0 = 0" "port_bits (\<lambda>p b. p AND NOT b) m p AND 0xF0 = 0"
  using assms by (auto simp: port_bits_def Let_def word_blast)

lemma wf_errors:
  assumes "evs_wf s"
  shows "evs_wf (snd (bitmask_error env b cc s))" and "evs_wf (snd (app_info_error env st a n sep pre cc s))"
  using assms by (auto simp: bitmask_error_def app_info_error_def intro!: wf_SendEvent)

end
