(* ===== verification/EVS_Run.thy ===== *)
theory EVS_Run
  imports EVS_Inv
begin

text \<open>
  Runs of Event Services: every command handler and every interface function keeps \<open>evs_wf\<close>, so any
  sequence of calls from the start-up on does.
\<close>

section \<open>Command handlers\<close>

lemmas wf_intros = wf_SendEvent wf_errors wf_filter_upd wf_reset_counts wf_types wf_for_registered
  wf_app_upd

lemma hk_ok_upd:
  assumes "hk_ok h"
  shows "f (OutputPort h) AND 0xF0 = 0 \<Longrightarrow> hk_ok (OutputPort_update f h)" "b \<le> 1 \<Longrightarrow> hk_ok (h\<lparr>MessageFormatMode := b\<rparr>)"
    "length r = CFE_MISSION_ES_MAX_APPLICATIONS \<Longrightarrow> hk_ok (h\<lparr>Hk_AppData := r\<rparr>)"
  using assms by (simp_all add: hk_ok_def)

lemma wf_app_handlers:
  assumes wf: "evs_wf s"
  shows "evs_wf (snd (CFE_EVS_EnableAppEventTypeCmd env m s))"
    "evs_wf (snd (CFE_EVS_DisableAppEventTypeCmd env m s))"
    "evs_wf (snd (CFE_EVS_EnableAppEventsCmd env m s))" "evs_wf (snd (CFE_EVS_DisableAppEventsCmd env m s))"
    "evs_wf (snd (CFE_EVS_ResetAppCounterCmd env m s))" "evs_wf (snd (CFE_EVS_ResetFilterCmd env m s))"
    "evs_wf (snd (CFE_EVS_ResetAllFiltersCmd env m s))"
  using wf evs_wfD(5) [OF wf]
  by (auto simp: CFE_EVS_EnableAppEventTypeCmd_def CFE_EVS_DisableAppEventTypeCmd_def
      CFE_EVS_EnableAppEventsCmd_def CFE_EVS_DisableAppEventsCmd_def CFE_EVS_ResetAppCounterCmd_def
      CFE_EVS_ResetFilterCmd_def CFE_EVS_ResetAllFiltersCmd_def Let_def app_ok_def
      split: prod.split option.split intro!: wf_intros dest!: GetApplicationInfo_range)

lemma wf_filter_handlers:
  assumes wf: "evs_wf s"
  shows "evs_wf (snd (CFE_EVS_SetFilterCmd env m s))" "evs_wf (snd (CFE_EVS_AddEventFilterCmd env m s))"
    "evs_wf (snd (CFE_EVS_DeleteEventFilterCmd env m s))"
  using wf
  by (auto simp: CFE_EVS_SetFilterCmd_def CFE_EVS_AddEventFilterCmd_def CFE_EVS_DeleteEventFilterCmd_def
      Let_def split: prod.split option.split intro!: wf_intros dest!: GetApplicationInfo_range)

lemma wf_mask_handlers:
  assumes wf: "evs_wf s"
  shows "evs_wf (snd (CFE_EVS_EnablePortsCmd env m s))" "evs_wf (snd (CFE_EVS_DisablePortsCmd env m s))"
    "evs_wf (snd (CFE_EVS_EnableEventTypeCmd env m s))" "evs_wf (snd (CFE_EVS_DisableEventTypeCmd env m s))"
    "evs_wf (snd (CFE_EVS_SetEventFormatModeCmd env m s))"
proof -
  have hk: "hk_ok (EVS_TlmPkt s)" "OutputPort (EVS_TlmPkt s) AND 0xF0 = 0"
    using evs_wfD(3) [OF wf] by (auto simp: hk_ok_def)
  show "evs_wf (snd (CFE_EVS_EnablePortsCmd env m s))" "evs_wf (snd (CFE_EVS_DisablePortsCmd env m s))"
    "evs_wf (snd (CFE_EVS_EnableEventTypeCmd env m s))" "evs_wf (snd (CFE_EVS_DisableEventTypeCmd env m s))"
    "evs_wf (snd (CFE_EVS_SetEventFormatModeCmd env m s))"
    using wf hk hk_ok_upd [OF hk(1)] port_bits_ok [OF hk(2)]
    by (auto simp: CFE_EVS_EnablePortsCmd_def CFE_EVS_DisablePortsCmd_def CFE_EVS_EnableEventTypeCmd_def
        CFE_EVS_DisableEventTypeCmd_def CFE_EVS_SetEventFormatModeCmd_def Let_def intro!: wf_intros wf_hk_upd)
qed

lemma wf_WriteLog_loop:
  assumes "evs_wf s" and "LogEnabled (EVS_TlmPkt s)" and "j < 20"
  shows "evs_wf (snd (WriteLog_loop env name n i j s))"
  using assms
proof (induction n arbitrary: i j s)
  case (Suc n)
  then obtain l where "EVS_LogPtr s = Some l" "log_ok l" by (blast dest: evs_wfD(4))
  with Suc show ?case by (auto simp: Let_def log_ok_def intro!: Suc.IH wf_SendEvent)
qed simp

lemma LogEnabled_upd [simp]:
  "LogEnabled (EVS_TlmPkt (app_upd a f s)) = LogEnabled (EVS_TlmPkt s)"
  "LogEnabled (EVS_TlmPkt (filter_upd a i g s)) = LogEnabled (EVS_TlmPkt s)"
  "LogEnabled (EVS_TlmPkt (EVS_GenerateEventTelemetry env b e ty T t s)) = LogEnabled (EVS_TlmPkt s)"
  by (simp_all add: app_upd_def filter_upd_def hk_upd_def EVS_AddLog_def EVS_SendViaPorts_def
      EVS_OutputPort_def EVS_GenerateEventTelemetry_def evs_fault_def Let_def split: option.split)

lemma SendEvent_LogEnabled:
  "evs_wf s \<Longrightarrow> LogEnabled (EVS_TlmPkt (EVS_SendEvent env e ty t s)) = LogEnabled (EVS_TlmPkt s)"
  using IsFiltered_induct(2) [of "\<lambda>s'. evs_wf s' \<and> EVS_AppID s' = EVS_AppID s
      \<and> LogEnabled (EVS_TlmPkt s') = LogEnabled (EVS_TlmPkt s)" "EVS_AppID s"]
  by (simp add: wf_filter_upd wf_Generate evs_wfD(2))

lemma WriteLog_loop_LogEnabled:
  assumes "evs_wf s" and "LogEnabled (EVS_TlmPkt s)" and "j < 20"
  shows "LogEnabled (EVS_TlmPkt (snd (WriteLog_loop env name n i j s)))"
  using assms
proof (induction n arbitrary: i j s)
  case (Suc n)
  then obtain l where "EVS_LogPtr s = Some l" "log_ok l" by (blast dest: evs_wfD(4))
  with Suc show ?case by (auto simp: Let_def log_ok_def SendEvent_LogEnabled intro!: Suc.IH)
qed simp

lemma wf_WriteLog:
  assumes wf: "evs_wf s"
  shows "evs_wf (snd (CFE_EVS_WriteLogDataFileCmd env m s))"
proof (cases "LogEnabled (EVS_TlmPkt s)")
  case True
  with wf obtain l where l: "EVS_LogPtr s = Some l" "log_ok l" by (blast dest: evs_wfD(4))
  define j where "j = (if LogCount l = CFE_PLATFORM_EVS_LOG_MAX then unat (Next l) else 0)"
  have j: "j < 20" using l(2) by (simp add: j_def log_ok_def word_less_nat_alt)
  let ?name = "arg_Filename ''/ram/cfe_evs.log'' m"
  let ?s = "evs_emit (File_Header ''cFE EVS Log File'') (evs_emit (File_Create ?name) (evs_emit Mutex_Take s))"
  obtain i s' where loop: "WriteLog_loop env ?name (unat (LogCount l)) 0 j ?s = (i, s')" by fastforce
  have "evs_wf s'" "LogEnabled (EVS_TlmPkt s')"
    using wf_WriteLog_loop [of ?s j env ?name "unat (LogCount l)" 0] wf True j loop
      WriteLog_loop_LogEnabled [of ?s j env ?name "unat (LogCount l)" 0] by simp_all
  then show ?thesis
    using wf True evs_wfD(4) [of s']
    by (auto simp: CFE_EVS_WriteLogDataFileCmd_def Let_def l(1) loop wf_SendEvent j_def [symmetric])
qed (simp add: CFE_EVS_WriteLogDataFileCmd_def wf wf_SendEvent)

lemma wf_log_handlers:
  assumes wf: "evs_wf s"
  shows "evs_wf (snd (CFE_EVS_SetLogModeCmd env m s))" "evs_wf (snd (CFE_EVS_ClearLogCmd env m s))"
    "evs_wf (snd (CFE_EVS_NoopCmd env m s))" "evs_wf (snd (CFE_EVS_ResetCountersCmd env m s))"
proof -
  have log: "\<exists>l. EVS_LogPtr s = Some l \<and> log_ok l" if "LogEnabled (EVS_TlmPkt s)"
    using evs_wfD(4) [OF wf that] .
  show "evs_wf (snd (CFE_EVS_SetLogModeCmd env m s))" "evs_wf (snd (CFE_EVS_ClearLogCmd env m s))"
    using wf log by (auto simp: CFE_EVS_SetLogModeCmd_def CFE_EVS_ClearLogCmd_def Let_def log_ok_def
        intro!: wf_SendEvent wf_log intro: wf_ClearLog)
  show "evs_wf (snd (CFE_EVS_NoopCmd env m s))" "evs_wf (snd (CFE_EVS_ResetCountersCmd env m s))"
    using wf evs_wfD(3) [OF wf] by (auto simp: CFE_EVS_NoopCmd_def CFE_EVS_ResetCountersCmd_def Let_def
        hk_ok_def intro!: wf_SendEvent wf_hk_upd)
qed

lemma length_hk_app_rows [simp]: "length (hk_app_rows s) = CFE_MISSION_ES_MAX_APPLICATIONS"
  by (simp add: hk_app_rows_def Let_def)

lemma wf_ReportHousekeeping:
  assumes wf: "evs_wf s"
  shows "evs_wf (snd (CFE_EVS_ReportHousekeepingCmd env m s))"
proof -
  have "\<exists>l. EVS_LogPtr s = Some l \<and> log_ok l" if "LogEnabled (EVS_TlmPkt s)"
    using evs_wfD(4) [OF wf that] .
  then show ?thesis
    using wf evs_wfD(3) [OF wf]
    by (auto simp: CFE_EVS_ReportHousekeepingCmd_def Let_def hk_ok_def hk_upd_def evs_wf_def)
qed

lemma wf_WriteAppData_loop:
  "evs_wf s \<Longrightarrow> evs_wf (snd (snd (WriteAppData_loop env name n i k s)))"
  by (induction n arbitrary: i k s) (auto simp: Let_def wf_SendEvent)

lemma wf_WriteAppData:
  assumes wf: "evs_wf s"
  shows "evs_wf (snd (CFE_EVS_WriteAppDataFileCmd env m s))"
proof -
  let ?name = "arg_Filename ''/ram/cfe_evs_app.dat'' m"
  let ?s = "evs_emit (File_Header ''EVS Application Data File'') (evs_emit (File_Create ?name) s)"
  obtain i k s' where loop: "WriteAppData_loop env ?name EVS_MAX_APPLICATIONS 0 0 ?s = (i, k, s')"
    using prod_cases3 by blast
  then have "evs_wf s'"
    using wf_WriteAppData_loop [of ?s env ?name EVS_MAX_APPLICATIONS 0 0] wf by simp
  then show ?thesis
    using wf by (simp add: CFE_EVS_WriteAppDataFileCmd_def Let_def loop wf_SendEvent)
qed

section \<open>Runs\<close>

lemmas wf_handlers = wf_app_handlers wf_filter_handlers wf_mask_handlers wf_log_handlers wf_WriteLog
  wf_WriteAppData

lemma wf_evs_command:
  assumes "evs_command cc = Some (len, f)" and "evs_wf s"
  shows "evs_wf (snd (f env m s))"
  using assms by (auto simp: evs_command_def wf_handlers split: if_splits)

lemma wf_ProcessGroundCommand:
  assumes wf: "evs_wf s"
  shows "evs_wf (CFE_EVS_ProcessGroundCommand env m s)"
proof -
  have "evs_wf (snd (with_cmd_length env len f m s))" if "evs_command (CFE_SB_GetCmdCode m) = Some (len, f)" for len f
    using wf wf_evs_command [OF that wf]
    by (simp add: with_cmd_length_def CFE_EVS_VerifyCmdLength_def Let_def wf_SendEvent)
  then show ?thesis
    using wf by (auto simp: CFE_EVS_ProcessGroundCommand_def wf_SendEvent split: option.split prod.splits)
qed

lemma wf_ProcessCommandPacket:
  "evs_wf s \<Longrightarrow> evs_wf (CFE_EVS_ProcessCommandPacket env m s)"
  by (simp add: CFE_EVS_ProcessCommandPacket_def wf_ProcessGroundCommand wf_ReportHousekeeping wf_SendEvent)

lemma wf_self: "evs_wf s \<Longrightarrow> unat a < EVS_MAX_APPLICATIONS \<Longrightarrow> evs_wf (s\<lparr>EVS_AppID := a\<rparr>)"
  by (simp add: evs_wf_def)

lemma wf_CommandPipe [simp]: "evs_wf (s\<lparr>EVS_CommandPipe := p\<rparr>) = evs_wf s"
  by (simp add: evs_wf_def)

lemma wf_TaskInit:
  assumes "evs_wf s"
  shows "evs_wf (snd (CFE_EVS_TaskInit env es_reg caller pipe sub s))"
  using assms wf_Register [of s caller None 0 0]
  by (auto simp: CFE_EVS_TaskInit_def init_failed_def Let_def split: prod.split
      intro!: wf_SendEvent wf_self dest: GetAppID_range)

lemma wf_TaskMain_loop:
  "evs_wf s \<Longrightarrow> evs_wf (CFE_EVS_TaskMain_loop env rcv s)"
  by (induction rcv arbitrary: s) (auto simp: wf_ProcessCommandPacket)

lemma wf_EVS_EarlyInit:
  assumes "length (LogEntry l) = unat CFE_PLATFORM_EVS_LOG_MAX"
  shows "evs_wf (CFE_EVS_EarlyInit rc avail need l mrc poweron)"
  using assms
  by (auto simp: CFE_EVS_EarlyInit_def Let_def evs_wf_def evs_zero_def hk_zero_def hk_upd_def hk_ok_def
      log_default_mode_def EVS_ClearLog_def sys_log_def evs_emit_def log_ok_def not_le)

text \<open>The calls that other tasks and the task of Event Services make, one after the other; every call
  comes with the environment it sees.\<close>

datatype evs_call =
    Call_Register "CFE_Status \<times> u32" "(nat \<Rightarrow> CFE_EVS_BinFilter_t) option" u16 u16
  | Call_Unregister "CFE_Status \<times> u32"
  | Call_SendEvent "CFE_Status \<times> u32" u16 u16 string
  | Call_SendEventWithAppID u16 u16 u32 string
  | Call_SendTimedEvent "CFE_Status \<times> u32" CFE_TIME_SysTime_t u16 u16 string
  | Call_ResetFilter "CFE_Status \<times> u32" u16
  | Call_ResetAllFilters "CFE_Status \<times> u32"
  | Call_CleanUpApp u32
  | Call_TaskInit CFE_Status "CFE_Status \<times> u32" "CFE_Status \<times> u8" "u16 \<Rightarrow> CFE_Status"
  | Call_Command bytes

fun evs_call_step :: "evs_env \<Rightarrow> evs_call \<Rightarrow> CFE_EVS_GlobalData_t \<Rightarrow> CFE_EVS_GlobalData_t" where
  "evs_call_step env (Call_Register c F n sch) s = snd (CFE_EVS_Register c F n sch s)"
| "evs_call_step env (Call_Unregister c) s = snd (CFE_EVS_Unregister c s)"
| "evs_call_step env (Call_SendEvent c e ty t) s = snd (CFE_EVS_SendEvent env c e ty t s)"
| "evs_call_step env (Call_SendEventWithAppID e ty a t) s = snd (CFE_EVS_SendEventWithAppID env e ty a t s)"
| "evs_call_step env (Call_SendTimedEvent c T e ty t) s = snd (CFE_EVS_SendTimedEvent env c T e ty t s)"
| "evs_call_step env (Call_ResetFilter c e) s = snd (CFE_EVS_ResetFilter c e s)"
| "evs_call_step env (Call_ResetAllFilters c) s = snd (CFE_EVS_ResetAllFilters c s)"
| "evs_call_step env (Call_CleanUpApp a) s = snd (CFE_EVS_CleanUpApp a s)"
| "evs_call_step env (Call_TaskInit r c p sub) s = snd (CFE_EVS_TaskInit env r c p sub s)"
| "evs_call_step env (Call_Command m) s = CFE_EVS_ProcessCommandPacket env m s"

fun evs_run :: "(evs_env \<times> evs_call) list \<Rightarrow> CFE_EVS_GlobalData_t \<Rightarrow> CFE_EVS_GlobalData_t" where
  "evs_run [] s = s"
| "evs_run ((env, c) # cs) s = evs_run cs (evs_call_step env c s)"

lemma wf_call: "evs_wf s \<Longrightarrow> evs_wf (evs_call_step env c s)"
  by (cases c) (simp_all add: wf_Register wf_Unregister wf_sends wf_resets wf_CleanUpApp wf_TaskInit
      wf_ProcessCommandPacket)

lemma wf_run: "evs_wf s \<Longrightarrow> evs_wf (evs_run cs s)"
  by (induction cs s rule: evs_run.induct) (simp_all add: wf_call)

end
