(* ===== verification/EVS_Events.thy ===== *)
theory EVS_Events
  imports EVS_Run
begin

text \<open>
  Which event messages are sent.  \<open>sent s\<close> lists the packet identifications of the event messages that
  have gone to the software bus, oldest first.  Shown are the law of the binary filter (the k-th
  occurrence of an event is sent exactly if k and the filter's mask have no bit in common) and the
  bound on the messages of one call: a call can lock a filter, the message about it can lock the filter
  of that message in turn, and there it ends.
\<close>

section \<open>Messages sent\<close>

fun event_id :: "evs_out \<Rightarrow> CFE_EVS_PacketID_t option" where
  "event_id (Send_Long p) = Some (Long_PacketID p)"
| "event_id (Send_Short p) = Some (Short_PacketID p)"
| "event_id _ = None"

definition sent :: "CFE_EVS_GlobalData_t \<Rightarrow> CFE_EVS_PacketID_t list" where
  "sent s = rev (List.map_filter event_id (Trace s))"

definition packet_id :: "evs_env \<Rightarrow> u32 \<Rightarrow> u16 \<Rightarrow> u16 \<Rightarrow> CFE_EVS_PacketID_t" where
  "packet_id env a e ty = \<lparr>Pkt_AppName = ES_GetAppName env a, Pkt_EventID = e, Pkt_EventType = ty,
     Pkt_SpacecraftID = PSP_GetSpacecraftId env, Pkt_ProcessorID = PSP_GetProcessorId env\<rparr>"

lemma sent_emit:
  "sent (evs_emit x s) = sent s @ (case event_id x of None \<Rightarrow> [] | Some p \<Rightarrow> [p])"
  by (simp add: sent_def List.map_filter_def evs_emit_def split: option.split)

lemma sent_upd [simp]:
  "sent (app_upd a f s) = sent s" "sent (filter_upd a i g s) = sent s" "sent (hk_upd h s) = sent s"
  "sent (s\<lparr>TimeCalls := n\<rparr>) = sent s" "sent (s\<lparr>EVS_LogPtr := l\<rparr>) = sent s" "sent (evs_fault s) = sent s"
  by (simp_all add: sent_def app_upd_def filter_upd_def hk_upd_def evs_fault_def)

lemma sent_AddLog [simp]: "sent (EVS_AddLog p s) = sent s"
  by (simp add: EVS_AddLog_def Let_def sent_emit split: option.split)

lemma sent_SendViaPorts [simp]: "sent (EVS_SendViaPorts p s) = sent s"
  by (simp add: EVS_SendViaPorts_def EVS_OutputPort_def Let_def sent_emit)

lemma format_mode_kept [simp]:
  "MessageFormatMode (EVS_TlmPkt (EVS_AddLog p s)) = MessageFormatMode (EVS_TlmPkt s)"
  "MessageFormatMode (EVS_TlmPkt (EVS_SendViaPorts p s)) = MessageFormatMode (EVS_TlmPkt s)"
  "MessageFormatMode (EVS_TlmPkt (hk_upd (MessageTruncCounter_update f) s)) = MessageFormatMode (EVS_TlmPkt s)"
  by (simp_all add: EVS_AddLog_def EVS_SendViaPorts_def EVS_OutputPort_def hk_upd_def evs_fault_def Let_def
      split: option.split)

lemma u8_le_1: "(b::u8) \<le> 1 \<longleftrightarrow> b = 0 \<or> b = 1"
  by (auto simp: word_le_nat_alt word_unat_eq_iff)

lemma sent_Generate:
  assumes "evs_wf s"
  shows "sent (EVS_GenerateEventTelemetry env a e ty T t s) = sent s @ [packet_id env a e ty]"
proof -
  have "MessageFormatMode (EVS_TlmPkt s) = 0 \<or> MessageFormatMode (EVS_TlmPkt s) = 1"
    using evs_wfD(3) [OF assms] by (simp add: hk_ok_def u8_le_1)
  then show ?thesis
    by (auto simp: EVS_GenerateEventTelemetry_def Let_def sent_emit packet_id_def)
qed

section \<open>One filter decision\<close>

lemma IsFiltered_eq:
  assumes "evs_wf s" and "unat a < EVS_MAX_APPLICATIONS"
  shows "EVS_IsFiltered env a e ty s =
    (if type_filtered (app a s) ty then (True, s)
     else case EVS_FindEventID e (BinFilters (app a s)) of
            None \<Rightarrow> (False, s)
          | Some i \<Rightarrow>
              (let f = BinFilters (app a s) ! i; s' = filter_upd a i (Count_update (\<lambda>c. c + 1)) s
               in (Mask f AND Count f \<noteq> 0,
                   if Count f = 65535 then s
                   else if Count f = 65534
                   then EVS_SendEvent env 42 CFE_EVS_EventType_INFORMATION (filter_max_text env a e) s'
                   else s')))"
proof -
  have "c < 65535 \<longleftrightarrow> c \<noteq> 65535" for c :: u16
  proof -
    have "unat c < 2 ^ LENGTH(16)" by (rule unsigned_less)
    then show ?thesis by (auto simp: word_less_nat_alt word_unat_eq_iff)
  qed
  moreover have "c + 1 = 65535 \<longleftrightarrow> c = 65534" for c :: u16
    using eq_diff_eq [of c 65535 1] by simp
  ultimately show ?thesis using assms
    by (simp add: EVS_IsFiltered.simps [of env a e ty s] evs_wfD(2) Let_def split: option.split)
qed

lemma FindEventID_cong: "map EventID fs = map EventID gs \<Longrightarrow> EVS_FindEventID e fs = EVS_FindEventID e gs"
proof (induction fs arbitrary: gs)
  case (Cons f fs)
  then obtain g gs' where "gs = g # gs'" by (cases gs) auto
  with Cons show ?case by simp
qed simp

lemma app_filter_upd:
  assumes "unat a < length (AppData s)"
  shows "app b (filter_upd a i f s) = (if b = a
    then (app a s)\<lparr>BinFilters := (BinFilters (app a s))[i := f (BinFilters (app a s) ! i)]\<rparr> else app b s)"
  using assms by (auto simp: filter_upd_def app_upd_def app_def word_unat_eq_iff)

lemma Find_count [simp]:
  "EVS_FindEventID e (fs[i := Count_update g (fs ! i)]) = EVS_FindEventID e fs"
  by (rule FindEventID_cong) (simp add: map_update_same)

section \<open>Messages about locked filters\<close>

abbreviation filter_locked :: "evs_env \<Rightarrow> CFE_EVS_GlobalData_t \<Rightarrow> CFE_EVS_PacketID_t" where
  "filter_locked env s \<equiv> packet_id env (EVS_AppID s) 42 CFE_EVS_EventType_INFORMATION"

definition will_lock :: "u32 \<Rightarrow> u16 \<Rightarrow> CFE_EVS_GlobalData_t \<Rightarrow> bool" where
  "will_lock a e s \<longleftrightarrow> (\<exists>i. EVS_FindEventID e (BinFilters (app a s)) = Some i \<and> Count (BinFilters (app a s) ! i) = 65534)"

lemma sent_IsFiltered_quiet:
  assumes "evs_wf s" and "unat a < EVS_MAX_APPLICATIONS" and "\<not> will_lock a e s \<or> type_filtered (app a s) ty"
  shows "sent (snd (EVS_IsFiltered env a e ty s)) = sent s"
  using assms by (auto simp: IsFiltered_eq will_lock_def Let_def split: option.split)

lemma SendEvent_eq:
  assumes "evs_wf s" and "unat (EVS_AppID s) < EVS_MAX_APPLICATIONS"
  shows "sent (EVS_SendEvent env e ty t s) = sent (snd (EVS_IsFiltered env (EVS_AppID s) e ty s))
    @ (if fst (EVS_IsFiltered env (EVS_AppID s) e ty s) then [] else [packet_id env (EVS_AppID s) e ty])"
  using assms wf_IsFiltered [OF assms, of env e ty] IsFiltered_AppID [OF assms, of env e ty]
  by (auto simp: EVS_SendEvent.simps [of env e ty t s] sent_Generate split: prod.splits)

lemma SendEvent_off:
  "\<not> unat (EVS_AppID s) < EVS_MAX_APPLICATIONS \<Longrightarrow> EVS_SendEvent env e ty t s = s"
  by (simp add: EVS_SendEvent.simps)

lemma counted_unlocked:
  assumes "evs_wf s" and "unat a < EVS_MAX_APPLICATIONS" and "EVS_FindEventID e (BinFilters (app a s)) = Some i"
    and "Count (BinFilters (app a s) ! i) = 65534"
  shows "\<not> will_lock a e (filter_upd a i (Count_update (\<lambda>c. c + 1)) s)"
  using assms FindEventID_Some [OF assms(3)] by (simp add: will_lock_def app_filter_upd evs_wfD(2))

lemma locked_once:
  assumes "evs_wf s" and "\<not> will_lock (EVS_AppID s) 42 s"
  shows "\<exists>k\<le>1. sent (EVS_SendEvent env 42 CFE_EVS_EventType_INFORMATION t s) = sent s @ replicate k (filter_locked env s)"
proof (cases "unat (EVS_AppID s) < EVS_MAX_APPLICATIONS")
  case True
  then show ?thesis
    using assms by (auto simp: SendEvent_eq sent_IsFiltered_quiet intro: exI [of _ 0] exI [of _ 1])
qed (auto simp: SendEvent_off intro: exI [of _ 0])

lemma IsFiltered_locks:
  assumes "evs_wf s" and "unat a < EVS_MAX_APPLICATIONS" and "will_lock a e s" and "\<not> type_filtered (app a s) ty"
  obtains i where "snd (EVS_IsFiltered env a e ty s) = EVS_SendEvent env 42 CFE_EVS_EventType_INFORMATION
      (filter_max_text env a e) (filter_upd a i (Count_update (\<lambda>c. c + 1)) s)"
    and "EVS_FindEventID e (BinFilters (app a s)) = Some i" and "Count (BinFilters (app a s) ! i) = 65534"
  using assms unfolding will_lock_def by (auto simp: IsFiltered_eq Let_def)

lemma locked_twice:
  assumes "evs_wf s"
  shows "\<exists>k\<le>2. sent (EVS_SendEvent env 42 CFE_EVS_EventType_INFORMATION t s) = sent s @ replicate k (filter_locked env s)"
proof (cases "will_lock (EVS_AppID s) 42 s \<and> unat (EVS_AppID s) < EVS_MAX_APPLICATIONS
    \<and> \<not> type_filtered (app (EVS_AppID s) s) CFE_EVS_EventType_INFORMATION")
  case True
  let ?me = "EVS_AppID s" and ?ty = CFE_EVS_EventType_INFORMATION
  obtain i where i: "snd (EVS_IsFiltered env ?me 42 ?ty s) = EVS_SendEvent env 42 ?ty
      (filter_max_text env ?me 42) (filter_upd ?me i (Count_update (\<lambda>c. c + 1)) s)"
    and find: "EVS_FindEventID 42 (BinFilters (app ?me s)) = Some i"
      "Count (BinFilters (app ?me s) ! i) = 65534"
    using IsFiltered_locks assms True by blast
  let ?s = "filter_upd ?me i (Count_update (\<lambda>c. c + 1)) s"
  have "evs_wf ?s" "\<not> will_lock (EVS_AppID ?s) 42 ?s"
    using assms True find by (simp_all add: wf_filter_upd counted_unlocked)
  from locked_once [OF this, of env "filter_max_text env ?me 42"]
  obtain k where "k \<le> 1" "sent (snd (EVS_IsFiltered env ?me 42 ?ty s)) = sent s @ replicate k (filter_locked env s)"
    by (auto simp: i)
  then show ?thesis
    using assms True by (auto simp: SendEvent_eq replicate_append_same intro: exI [of _ k] exI [of _ "Suc k"])
next
  case False
  then have "unat (EVS_AppID s) < EVS_MAX_APPLICATIONS \<Longrightarrow>
      sent (snd (EVS_IsFiltered env (EVS_AppID s) 42 CFE_EVS_EventType_INFORMATION s)) = sent s"
    using assms sent_IsFiltered_quiet by blast
  then show ?thesis
    using assms by (cases "unat (EVS_AppID s) < EVS_MAX_APPLICATIONS")
      (auto simp: SendEvent_eq SendEvent_off intro: exI [of _ 0] exI [of _ 1])
qed

lemma IsFiltered_messages:
  assumes "evs_wf s" and "unat a < EVS_MAX_APPLICATIONS"
  shows "\<exists>k\<le>2. sent (snd (EVS_IsFiltered env a e ty s)) = sent s @ replicate k (filter_locked env s)"
proof (cases "will_lock a e s \<and> \<not> type_filtered (app a s) ty")
  case True
  then obtain i where "snd (EVS_IsFiltered env a e ty s) = EVS_SendEvent env 42 CFE_EVS_EventType_INFORMATION
      (filter_max_text env a e) (filter_upd a i (Count_update (\<lambda>c. c + 1)) s)"
    using IsFiltered_locks assms by blast
  then show ?thesis
    using locked_twice [of "filter_upd a i (Count_update (\<lambda>c. c + 1)) s"] assms by (simp add: wf_filter_upd)
next
  case False
  then have "sent (snd (EVS_IsFiltered env a e ty s)) = sent s"
    using assms sent_IsFiltered_quiet by blast
  then show ?thesis by (auto intro: exI [of _ 0])
qed

lemma SendEvent_messages:
  assumes "evs_wf s"
  shows "\<exists>k\<le>2. sent (EVS_SendEvent env e ty t s) = sent s @ replicate k (filter_locked env s)
    \<or> sent (EVS_SendEvent env e ty t s) = sent s @ replicate k (filter_locked env s) @ [packet_id env (EVS_AppID s) e ty]"
proof (cases "unat (EVS_AppID s) < EVS_MAX_APPLICATIONS")
  case True
  then show ?thesis
    using IsFiltered_messages [OF assms True, of env e ty] assms by (auto simp: SendEvent_eq)
qed (auto simp: SendEvent_off intro: exI [of _ 0])

section \<open>The binary filter\<close>

text \<open>An application that sends one event again and again.\<close>

definition resend :: "evs_env \<Rightarrow> u16 \<Rightarrow> u16 \<Rightarrow> u32 \<Rightarrow> string \<Rightarrow> CFE_EVS_GlobalData_t \<Rightarrow> CFE_EVS_GlobalData_t" where
  "resend env e ty a t s = snd (CFE_EVS_SendEventWithAppID env e ty a t s)"

definition filter_at :: "u32 \<Rightarrow> u16 \<Rightarrow> u16 \<Rightarrow> nat \<Rightarrow> EVS_BinFilter_t \<Rightarrow> CFE_EVS_GlobalData_t \<Rightarrow> bool" where
  "filter_at a e ty i f s \<longleftrightarrow> evs_wf s \<and> unat a < EVS_MAX_APPLICATIONS \<and> RegisterFlag (app a s)
     \<and> \<not> type_filtered (app a s) ty \<and> EVS_FindEventID e (BinFilters (app a s)) = Some i
     \<and> BinFilters (app a s) ! i = f"

lemma app_settings_eq:
  assumes "settings s' = settings s" and "unat a < EVS_MAX_APPLICATIONS" and "evs_wf s"
  shows "app_settings (app a s') = app_settings (app a s)"
proof -
  have "length (AppData s') = length (AppData s)"
    using assms(1) unfolding settings_def by (rule map_eq_imp_length_eq)
  then show ?thesis
    using arg_cong [OF assms(1), of "\<lambda>xs. xs ! unat a"] assms(2, 3) by (simp add: settings_def app_def evs_wfD(2))
qed

lemma filter_at_kept:
  assumes "filter_at a e ty i f s" and "evs_wf s'" and "settings s' = settings s"
    and "BinFilters (app a s') ! i = g"
  shows "filter_at a e ty i g s'"
proof -
  have eq: "app_settings (app a s') = app_settings (app a s)"
    using assms(1, 3) by (auto simp: filter_at_def intro: app_settings_eq)
  have "map fst (fst (app_settings (app a s'))) = map fst (fst (app_settings (app a s)))"
    by (simp only: eq)
  then have "map EventID (BinFilters (app a s')) = map EventID (BinFilters (app a s))"
    by (simp add: app_settings_def comp_def)
  then have "EVS_FindEventID e (BinFilters (app a s')) = EVS_FindEventID e (BinFilters (app a s))"
    by (rule FindEventID_cong)
  moreover have "type_filtered (app a s') ty = type_filtered (app a s) ty"
    "RegisterFlag (app a s') = RegisterFlag (app a s)"
    using eq by (simp_all add: app_settings_def type_filtered_def)
  ultimately show ?thesis
    using assms by (simp add: filter_at_def)
qed

lemma app_Generate [simp]:
  "BinFilters (app b (EVS_GenerateEventTelemetry env a e ty T t s)) = BinFilters (app b s)"
proof -
  have "AppData (EVS_AddLog p s) = AppData s" "AppData (EVS_SendViaPorts p s) = AppData s"
    "AppData (hk_upd h s) = AppData s" for p h s
    by (simp_all add: EVS_AddLog_def EVS_SendViaPorts_def EVS_OutputPort_def hk_upd_def evs_fault_def
        Let_def split: option.split)
  moreover have "BinFilters (app b (app_upd a (EventCount_update f) s)) = BinFilters (app b s)" for f s
    by (cases "unat a < length (AppData s)"; cases "unat b = unat a")
      (auto simp: app_upd_def app_def evs_fault_def)
  ultimately show ?thesis
    by (simp add: EVS_GenerateEventTelemetry_def Let_def app_def)
qed

lemma resend_step:
  assumes at: "filter_at a e ty i f s"
  defines "s' \<equiv> (if Count f = 65535 then s else filter_upd a i (Count_update (\<lambda>c. c + 1)) s)"
  assumes "Count f \<noteq> 65534"
  shows "sent (resend env e ty a t s) = sent s @ (if Mask f AND Count f = 0 then [packet_id env a e ty] else [])"
    and "filter_at a e ty i (if Count f = 65535 then f else f\<lparr>Count := Count f + 1\<rparr>) (resend env e ty a t s)"
proof -
  have IsF: "EVS_IsFiltered env a e ty s = (Mask f AND Count f \<noteq> 0, s')"
    using assms by (auto simp: IsFiltered_eq filter_at_def Let_def)
  have wf: "evs_wf s'" "sent s' = sent s" "settings s' = settings s"
    using at by (auto simp: s'_def filter_at_def wf_filter_upd)
  have f': "BinFilters (app a s') ! i = (if Count f = 65535 then f else f\<lparr>Count := Count f + 1\<rparr>)"
    using at FindEventID_Some [of e "BinFilters (app a s)" i]
    by (auto simp: s'_def filter_at_def app_filter_upd evs_wfD(2))
  have re: "resend env e ty a t s = (if Mask f AND Count f = 0
      then EVS_GenerateEventTelemetry env a e ty (TIME_GetTime env (TimeCalls s')) t (s'\<lparr>TimeCalls := TimeCalls s' + 1\<rparr>)
      else s')"
    using at by (simp add: resend_def CFE_EVS_SendEventWithAppID_def send_registered_def IsF filter_at_def)
  show "sent (resend env e ty a t s) = sent s @ (if Mask f AND Count f = 0 then [packet_id env a e ty] else [])"
    using wf(1, 2) by (simp add: re sent_Generate)
  have "app a (s'\<lparr>TimeCalls := n\<rparr>) = app a s'" for n by (simp add: app_def)
  then show "filter_at a e ty i (if Count f = 65535 then f else f\<lparr>Count := Count f + 1\<rparr>) (resend env e ty a t s)"
    using wf(1, 3) f' at by (intro filter_at_kept [OF at]) (simp_all add: re wf_Generate filter_at_def [of a e ty i f])
qed

lemma resend_counts:
  assumes "filter_at a e ty i f s" and "unat (Count f) + n \<le> 65534"
  shows "sent ((resend env e ty a t ^^ n) s) = sent s @
      concat (map (\<lambda>k. if Mask f AND of_nat k = 0 then [packet_id env a e ty] else []) [unat (Count f)..<unat (Count f) + n])
    \<and> filter_at a e ty i (f\<lparr>Count := of_nat (unat (Count f) + n)\<rparr>) ((resend env e ty a t ^^ n) s)"
  using assms
proof (induction n)
  case (Suc n)
  let ?f = "f\<lparr>Count := of_nat (unat (Count f) + n)\<rparr>" and ?s = "(resend env e ty a t ^^ n) s"
  have "unat (of_nat k :: u16) = k" if "k < 65536" for k
    using that by (simp add: unat_of_nat take_bit_eq_mod)
  from this [of "unat (Count f) + n"] have "unat (of_nat (unat (Count f) + n) :: u16) = unat (Count f) + n"
    using Suc.prems(2) by simp
  then have ne: "Count ?f \<noteq> 65534" "Count ?f \<noteq> 65535" using Suc.prems(2) by auto
  have IH: "filter_at a e ty i ?f ?s" using Suc by simp
  show ?case
    using resend_step [OF IH ne(1), of env t] Suc ne by (simp add: add.commute)
qed simp

lemma resend_locked:
  assumes "filter_at a e ty i f s" and "Count f = 65535"
  shows "sent ((resend env e ty a t ^^ n) s) = sent s @ (if Mask f = 0 then replicate n (packet_id env a e ty) else [])
    \<and> filter_at a e ty i f ((resend env e ty a t ^^ n) s)"
proof (induction n)
  case (Suc n)
  have "Mask f AND 65535 = Mask f" by (simp add: word_blast)
  with Suc resend_step [of a e ty i f "(resend env e ty a t ^^ n) s" env t] assms(2) show ?case
    by (auto simp: replicate_append_same)
qed (simp add: assms)

end
