(* ===== verification/EVS_Log.thy ===== *)
theory EVS_Log
  imports EVS_Run
begin

text \<open>
  The local event log as a bounded buffer.  The locale \<open>bounded_log\<close> is its contract: what adding an
  entry does to the entries in the order of their arrival, in the mode that discards new entries and in
  the one that overwrites old ones.  \<^verbatim>\<open>EVS_AddLog\<close> with its ring of 20 entries is an instance, and the
  file that the ground commands to be written holds the entries in this order.
\<close>

section \<open>Bounded logs\<close>

primrec add_all :: "('p \<Rightarrow> 'l \<Rightarrow> 'l option) \<Rightarrow> 'p list \<Rightarrow> 'l \<Rightarrow> 'l option" where
  "add_all f [] l = Some l"
| "add_all f (p # ps) l = f p l \<bind> add_all f ps"

locale bounded_log =
  fixes cap :: nat
    and inv :: "'l \<Rightarrow> bool"
    and view :: "'l \<Rightarrow> 'p list"
    and discards :: "'l \<Rightarrow> bool"
    and lost :: "'l \<Rightarrow> 'c::comm_ring_1"
    and add :: "'p \<Rightarrow> 'l \<Rightarrow> 'l option"
  assumes cap_pos: "0 < cap"
    and view_bound: "inv l \<Longrightarrow> length (view l) \<le> cap"
    and add_view: "inv l \<Longrightarrow> \<exists>l'. add p l = Some l' \<and> inv l' \<and> discards l' = discards l
      \<and> view l' = (if length (view l) < cap then view l @ [p]
                   else if discards l then view l else tl (view l) @ [p])
      \<and> lost l' = (if length (view l) < cap then lost l else lost l + 1)"
begin

lemma add_all_view:
  assumes "inv l"
  shows "\<exists>l'. add_all add ps l = Some l' \<and> inv l' \<and> discards l' = discards l
    \<and> view l' = (if discards l then take cap (view l @ ps)
                 else drop (length (view l) + length ps - cap) (view l @ ps))
    \<and> lost l' = lost l + of_nat (length (view l) + length ps - cap)"
  using assms
proof (induction ps arbitrary: l)
  case Nil
  then show ?case using view_bound [of l] by simp
next
  case (Cons p ps)
  from add_view [OF Cons.prems, of p] obtain l1 where l1: "add p l = Some l1" "inv l1"
    "discards l1 = discards l"
    "view l1 = (if length (view l) < cap then view l @ [p] else if discards l then view l else tl (view l) @ [p])"
    "lost l1 = (if length (view l) < cap then lost l else lost l + 1)" by blast
  from Cons.IH [OF l1(2)] obtain l' where l': "add_all add ps l1 = Some l'" "inv l'" "discards l' = discards l1"
    "view l' = (if discards l1 then take cap (view l1 @ ps)
       else drop (length (view l1) + length ps - cap) (view l1 @ ps))"
    "lost l' = lost l1 + of_nat (length (view l1) + length ps - cap)" by blast
  show ?case
  proof (cases "length (view l) < cap")
    case True
    then show ?thesis using l1 l' by auto
  next
    case False
    then have len: "length (view l) = cap" using view_bound [OF Cons.prems] by simp
    then obtain v vs where v: "view l = v # vs" using cap_pos by (cases "view l") auto
    show ?thesis using l1 l' len v by (auto simp: algebra_simps)
  qed
qed

end

section \<open>The ring of the event log\<close>

definition log_inv :: "CFE_EVS_Log_t \<Rightarrow> bool" where
  "log_inv l \<longleftrightarrow> length (LogEntry l) = 20 \<and> LogMode l \<le> 1
     \<and> (LogCount l < 20 \<and> Next l = LogCount l \<and> LogFullFlag l = 0
        \<or> LogCount l = 20 \<and> Next l < 20 \<and> LogFullFlag l = 1)"

definition log_view :: "CFE_EVS_Log_t \<Rightarrow> CFE_EVS_LongEventTlm_t list" where
  "log_view l = (if LogCount l = CFE_PLATFORM_EVS_LOG_MAX then rotate (unat (Next l)) (LogEntry l)
     else take (unat (LogCount l)) (LogEntry l))"

lemma rotate_update:
  assumes "n < length xs"
  shows "rotate (Suc n mod length xs) (xs[n := x]) = tl (rotate n xs) @ [x]"
proof -
  have tl: "tl (rotate n xs) = drop (Suc n) xs @ take n xs"
    using assms by (simp add: rotate_drop_take tl_append drop_Suc tl_drop split: list.split)
      (metis Cons_nth_drop_Suc list.sel(3) drop_Suc)
  show ?thesis
  proof (cases "Suc n = length xs")
    case True
    with assms show ?thesis by (simp add: tl upd_conv_take_nth_drop)
  next
    case False
    then have "Suc n < length xs" using assms by simp
    then show ?thesis using assms by (subst tl) (simp add: rotate_drop_take take_Suc_conv_app_nth)
  qed
qed

lemma length_log_view: "log_inv l \<Longrightarrow> length (log_view l) = unat (LogCount l)"
  by (auto simp: log_inv_def log_view_def word_less_nat_alt)

lemma AddLog_entry_view:
  assumes inv: "log_inv l"
  shows "\<exists>l'. AddLog_entry p l = Some l' \<and> log_inv l' \<and> (LogMode l' = 1) = (LogMode l = 1)
    \<and> log_view l' = (if length (log_view l) < 20 then log_view l @ [p]
                     else if LogMode l = 1 then log_view l else tl (log_view l) @ [p])
    \<and> LogOverflowCounter l' = (if length (log_view l) < 20 then LogOverflowCounter l else LogOverflowCounter l + 1)"
proof (cases "LogCount l = 20")
  case True
  define n where "n = unat (Next l)"
  have n: "n < length (LogEntry l)" "length (LogEntry l) = 20" "Next l < 20" "LogFullFlag l = 1"
    using inv True by (auto simp: n_def log_inv_def word_less_nat_alt)
  have next1: "Next l + 1 = 20 \<and> n = 19 \<or> Next l + 1 < 20 \<and> unat (Next l + 1) = Suc n \<and> Suc n < 20"
    using n(3) by (auto simp: n_def word_less_nat_alt unat_word_ariths word_unat_eq_iff)
  have "rotate (Suc n mod 20) ((LogEntry l)[n := p]) = tl (rotate n (LogEntry l)) @ [p]"
    using rotate_update [OF n(1)] n(2) by simp
  with next1 n True inv show ?thesis
    unfolding AddLog_entry_def length_log_view [OF inv]
    by (auto simp: Let_def log_view_def log_inv_def n_def [symmetric])
next
  case False
  define n where "n = unat (LogCount l)"
  have n: "n < length (LogEntry l)" "length (LogEntry l) = 20" "LogCount l < 20" "Next l = LogCount l"
    "LogFullFlag l = 0"
    using inv False by (auto simp: n_def log_inv_def word_less_nat_alt)
  have next1: "LogCount l + 1 = 20 \<and> n = 19 \<or> LogCount l + 1 < 20 \<and> LogCount l + 1 \<noteq> 20
      \<and> unat (LogCount l + 1) = Suc n \<and> Suc n < 20"
    using n(3) by (auto simp: n_def word_less_nat_alt unat_word_ariths word_unat_eq_iff)
  have "take (Suc n) ((LogEntry l)[n := p]) = take n (LogEntry l) @ [p]"
    using n(1) by (simp add: take_Suc_conv_app_nth)
  with next1 n False inv show ?thesis
    unfolding AddLog_entry_def length_log_view [OF inv]
    by (auto simp: Let_def log_view_def log_inv_def n_def [symmetric])
qed

interpretation evs_log: bounded_log 20 log_inv log_view "\<lambda>l. LogMode l = 1" LogOverflowCounter AddLog_entry
  using AddLog_entry_view by unfold_locales (auto simp: length_log_view log_inv_def word_less_nat_alt)

section \<open>The log file\<close>

text \<open>The log entries that have been written to files, oldest first.\<close>

fun file_entry :: "evs_out \<Rightarrow> CFE_EVS_LongEventTlm_t option" where
  "file_entry (File_LogEntry p n) = (if n = 168 then Some p else None)"
| "file_entry _ = None"

definition log_file :: "CFE_EVS_GlobalData_t \<Rightarrow> CFE_EVS_LongEventTlm_t list" where
  "log_file s = rev (List.map_filter file_entry (Trace s))"

lemma log_file_emit:
  "log_file (evs_emit x s) = log_file s @ (case file_entry x of None \<Rightarrow> [] | Some p \<Rightarrow> [p])"
  by (simp add: log_file_def List.map_filter_def evs_emit_def split: option.split)

lemma log_file_upd [simp]:
  "log_file (app_upd a f s) = log_file s" "log_file (filter_upd a i g s) = log_file s"
  "log_file (hk_upd h s) = log_file s" "log_file (s\<lparr>TimeCalls := n\<rparr>) = log_file s"
  "log_file (s\<lparr>EVS_LogPtr := l\<rparr>) = log_file s" "log_file (evs_fault s) = log_file s"
  by (simp_all add: log_file_def app_upd_def filter_upd_def hk_upd_def evs_fault_def)

lemma log_file_Generate [simp]: "log_file (EVS_GenerateEventTelemetry env a e ty T t s) = log_file s"
  by (simp add: EVS_GenerateEventTelemetry_def EVS_AddLog_def EVS_SendViaPorts_def EVS_OutputPort_def
      Let_def log_file_emit split: option.split)

lemma log_file_SendEvent:
  "evs_wf s \<Longrightarrow> log_file (EVS_SendEvent env e ty t s) = log_file s"
  using IsFiltered_induct(2) [of "\<lambda>s'. evs_wf s' \<and> EVS_AppID s' = EVS_AppID s \<and> log_file s' = log_file s"
      "EVS_AppID s"]
  by (simp add: wf_filter_upd wf_Generate evs_wfD(2))

lemma WriteLog_loop_ok:
  assumes "EVS_LogPtr s = Some l" and "length (LogEntry l) = 20" and "j < 20" and "\<forall>k. FS_write env k = 168"
  shows "\<exists>tr. WriteLog_loop env name n i j s = (i + n, s\<lparr>Trace := tr\<rparr>)
    \<and> log_file (s\<lparr>Trace := tr\<rparr>) = log_file s @ map (\<lambda>k. LogEntry l ! ((j + k) mod 20)) [0..<n]"
  using assms
proof (induction n arbitrary: i j s)
  case 0
  then show ?case by (auto intro: exI [of _ "Trace s"])
next
  case (Suc n)
  let ?s = "evs_emit (File_LogEntry (LogEntry l ! j) 168) s"
  let ?j = "if 20 \<le> Suc j then 0 else Suc j"
  have j: "?j = Suc j mod 20" using Suc.prems(3) by (cases "j = 19") auto
  have "EVS_LogPtr ?s = Some l" "?j < 20" using Suc.prems by auto
  from Suc.IH [OF this(1) Suc.prems(2) this(2) Suc.prems(4), of "Suc i"] obtain tr where
    tr: "WriteLog_loop env name n (Suc i) ?j ?s = (Suc i + n, ?s\<lparr>Trace := tr\<rparr>)"
      "log_file (?s\<lparr>Trace := tr\<rparr>) = log_file ?s @ map (\<lambda>k. LogEntry l ! ((?j + k) mod 20)) [0..<n]"
    by blast
  have "map (\<lambda>k. LogEntry l ! ((j + k) mod 20)) [0..<Suc n]
      = LogEntry l ! j # map (\<lambda>k. LogEntry l ! ((?j + k) mod 20)) [0..<n]"
    unfolding j using Suc.prems(3)
    by (simp add: upt_conv_Cons map_Suc_upt [symmetric] mod_simps del: upt_Suc)
  moreover have "?s\<lparr>Trace := tr\<rparr> = s\<lparr>Trace := tr\<rparr>" by (simp add: evs_emit_def)
  ultimately show ?case
    using tr Suc.prems by (auto simp: Let_def log_file_emit intro!: exI [of _ tr])
qed

lemma map_ring_view:
  assumes "log_inv l"
  shows "map (\<lambda>k. LogEntry l ! (((if LogCount l = 20 then unat (Next l) else 0) + k) mod 20)) [0..<unat (LogCount l)]
    = log_view l"
proof (rule nth_equalityI)
  have c: "unat (LogCount l) \<le> 20" "LogCount l = 20 \<Longrightarrow> unat (LogCount l) = 20"
    using assms by (auto simp: log_inv_def word_less_nat_alt)
  fix k assume "k < length (map (\<lambda>k. LogEntry l ! (((if LogCount l = 20 then unat (Next l) else 0) + k) mod 20))
      [0..<unat (LogCount l)])"
  then show "map (\<lambda>k. LogEntry l ! (((if LogCount l = 20 then unat (Next l) else 0) + k) mod 20)) [0..<unat (LogCount l)] ! k
      = log_view l ! k"
    using assms c by (auto simp: log_view_def log_inv_def nth_rotate)
qed (simp add: length_log_view [OF assms])

lemma WriteLogDataFile_ok:
  assumes wf: "evs_wf s" and on: "LogEnabled (EVS_TlmPkt s)" and l: "EVS_LogPtr s = Some l" "log_inv l"
    and fs: "\<forall>n. FS_creat env n \<ge> 0" "FS_WriteHeader_ok env" "\<forall>k. FS_write env k = 168"
  shows "fst (CFE_EVS_WriteLogDataFileCmd env m s) = CFE_SUCCESS
    \<and> log_file (snd (CFE_EVS_WriteLogDataFileCmd env m s)) = log_file s @ log_view l"
proof -
  let ?name = "arg_Filename ''/ram/cfe_evs.log'' m"
  let ?s = "evs_emit (File_Header ''cFE EVS Log File'') (evs_emit (File_Create ?name) (evs_emit Mutex_Take s))"
  define j where "j = (if LogCount l = 20 then unat (Next l) else 0)"
  have "j < 20" "length (LogEntry l) = 20" using l(2) by (auto simp: j_def log_inv_def word_less_nat_alt)
  from WriteLog_loop_ok [of ?s l j env ?name "unat (LogCount l)" 0] this l fs obtain tr where
    tr: "WriteLog_loop env ?name (unat (LogCount l)) 0 j ?s = (unat (LogCount l), ?s\<lparr>Trace := tr\<rparr>)"
      "log_file (?s\<lparr>Trace := tr\<rparr>) = log_file ?s @ log_view l"
    using map_ring_view [OF l(2)] by (auto simp: j_def)
  have "evs_wf (?s\<lparr>Trace := tr\<rparr>)" using wf by (simp add: evs_wf_def)
  with tr on l(1) fs show ?thesis
    by (simp add: CFE_EVS_WriteLogDataFileCmd_def Let_def j_def [symmetric] log_file_emit log_file_SendEvent not_less)
qed

end
