(* ===== verification/EVS_Props.thy ===== *)
theory EVS_Props
  imports EVS_Events EVS_Log
begin

text \<open>
  The properties of Event Services: its data stay well formed whatever the reset area held and whatever
  is called, the law of the binary filter, the bound on the messages of one call, the contents of the
  event log and of its file, and the commands that add and delete a filter.
\<close>

section \<open>Adding and deleting a filter\<close>

lemma FindEventID_update:
  "\<lbrakk>EVS_FindEventID e fs = None; i < length fs; EventID g = e\<rbrakk> \<Longrightarrow> EVS_FindEventID e (fs[i := g]) = Some i"
  by (induction fs arbitrary: i) (auto split: if_splits nat.split)

lemma app_settings_fields:
  assumes "settings s' = settings s" and "unat a < EVS_MAX_APPLICATIONS" and "evs_wf s"
  shows "map EventID (BinFilters (app a s')) = map EventID (BinFilters (app a s))"
    and "map Mask (BinFilters (app a s')) = map Mask (BinFilters (app a s))"
    and "RegisterFlag (app a s') = RegisterFlag (app a s)"
proof -
  have eq: "app_settings (app a s') = app_settings (app a s)" by (rule app_settings_eq [OF assms])
  have "map fst (fst (app_settings (app a s'))) = map fst (fst (app_settings (app a s)))"
    "map snd (fst (app_settings (app a s'))) = map snd (fst (app_settings (app a s)))" by (simp_all only: eq)
  then show "map EventID (BinFilters (app a s')) = map EventID (BinFilters (app a s))"
    "map Mask (BinFilters (app a s')) = map Mask (BinFilters (app a s))"
    by (simp_all add: app_settings_def comp_def)
  show "RegisterFlag (app a s') = RegisterFlag (app a s)" using eq by (simp add: app_settings_def)
qed

lemma GetApplicationInfo_cong:
  assumes "EVS_GetApplicationInfo env n s = (CFE_SUCCESS, a)" and "RegisterFlag (app a s')"
  shows "EVS_GetApplicationInfo env n s' = (CFE_SUCCESS, a)"
  using assms by (auto simp: EVS_GetApplicationInfo_def split: option.splits prod.splits if_splits)

lemma settings_filter_upd:
  assumes "evs_wf s" and "unat a < EVS_MAX_APPLICATIONS" and "b < EVS_MAX_APPLICATIONS" and "b \<noteq> unat a"
  shows "settings (filter_upd a i f s) ! b = settings s ! b"
  using assms by (simp add: settings_def filter_upd_def app_upd_def evs_wfD(2))

section \<open>An application with a filter\<close>

definition demo_env :: evs_env where
  "demo_env = \<lparr>ES_GetAppName = (\<lambda>_. ''APP''), ES_GetAppIDByName = (\<lambda>_. (CFE_SUCCESS, 3)),
     TIME_GetTime = (\<lambda>_. \<lparr>Seconds = 0, Subseconds = 0\<rparr>), PSP_GetSpacecraftId = 66, PSP_GetProcessorId = 1,
     FS_creat = (\<lambda>_. 0), FS_WriteHeader_ok = True, FS_write = (\<lambda>_. 168)\<rparr>"

definition demo_log :: CFE_EVS_Log_t where
  "demo_log = \<lparr>Next = 0, LogCount = 0, LogFullFlag = 0, LogMode = 0, LogOverflowCounter = 0,
     LogEntry = replicate 20 entry_zero\<rparr>"

definition demo_app :: EVS_AppData_t where
  "demo_app = \<lparr>BinFilters = \<lparr>EventID = 7, Mask = 1, Count = 0\<rparr>
       # replicate 7 \<lparr>EventID = CFE_EVS_FREE_SLOT, Mask = 0, Count = 0\<rparr>,
     ActiveFlag = True, EventTypesActiveFlag = 0xE, EventCount = 0, RegisterFlag = True\<rparr>"

text \<open>Event Services with its log in use; application 3 filters its event 7 with mask 1.\<close>

definition demo_evs :: CFE_EVS_GlobalData_t where
  "demo_evs = evs_zero\<lparr>AppData := (replicate EVS_MAX_APPLICATIONS app_zero)[3 := demo_app],
     EVS_LogPtr := Some demo_log, EVS_TlmPkt := hk_zero\<lparr>LogEnabled := True\<rparr>, EVS_AppID := 1\<rparr>"

lemma demo_wf: "evs_wf demo_evs"
proof -
  have "app_ok demo_app" by (simp add: app_ok_def demo_app_def)
  then show ?thesis
    by (auto simp: demo_evs_def evs_wf_def evs_zero_def hk_ok_def hk_zero_def log_ok_def demo_log_def
        dest!: set_update_subset_insert [THEN subsetD])
qed

lemma demo_app3: "app 3 demo_evs = demo_app"
  by (simp add: app_def demo_evs_def evs_zero_def)

lemma demo_log_inv: "log_inv demo_log" "log_view demo_log = []"
  by (simp_all add: log_inv_def log_view_def demo_log_def)

definition demo_filter_cmd :: bytes where
  "demo_filter_cmd k = (if k = 28 then 9 else if k = 30 then 3 else 0)"

lemma demo_cmd_args: "arg_EventID demo_filter_cmd = 9" "arg_Mask demo_filter_cmd = 3"
  by (simp_all add: get_le16_def join16_def demo_filter_cmd_def)

lemma demo_lookup:
  "EVS_GetApplicationInfo demo_env n demo_evs = (if n = None then (CFE_ES_ERR_BUFFER, 0xFFFFFFFF) else (CFE_SUCCESS, 3))"
  "EVS_FindEventID 9 (BinFilters (app 3 demo_evs)) = None"
  "EVS_FindEventID CFE_EVS_FREE_SLOT (BinFilters (app 3 demo_evs)) = Some 1"
  "map EventID (BinFilters (app 3 demo_evs)) = 7 # replicate 7 CFE_EVS_FREE_SLOT"
proof -
  have "replicate 7 x = [x, x, x, x, x, x, x]" for x :: EVS_BinFilter_t by (simp add: numeral_eq_Suc)
  then show "EVS_FindEventID 9 (BinFilters (app 3 demo_evs)) = None"
    "EVS_FindEventID CFE_EVS_FREE_SLOT (BinFilters (app 3 demo_evs)) = Some 1"
    by (simp_all add: demo_app3 demo_app_def)
qed (auto simp: EVS_GetApplicationInfo_def demo_env_def demo_app3 demo_app_def split: option.split)

section \<open>Properties\<close>





text \<open>
  C36.  One call of \<open>CFE_EVS_SendEvent\<close> sends at most three event messages: messages that a filter has
  been locked, of which there are at most two although the filter decision and the sending of these
  messages call each other, and then the event itself, or the message that the caller is not registered.
\<close>

theorem EVS_messages_per_call:
  assumes "evs_wf s"
  shows "\<exists>k\<le>2. \<exists>ev. sent (snd (CFE_EVS_SendEvent env (st, a) e ty t s))
      = sent s @ replicate k (packet_id env (EVS_AppID s) 42 CFE_EVS_EventType_INFORMATION) @ ev
    \<and> (ev = [] \<or> ev = [packet_id env a e ty] \<or> ev = [packet_id env (EVS_AppID s) 41 CFE_EVS_EventType_ERROR])"
proof (cases "EVS_GetAppID (st, a) = (CFE_SUCCESS, a)")
  case True
  then have a: "unat a < EVS_MAX_APPLICATIONS" by (rule GetAppID_range)
  show ?thesis
  proof (cases "RegisterFlag (app a s)")
    case reg: True
    obtain F s' where IsF: "EVS_IsFiltered env a e ty s = (F, s')" by fastforce
    have "evs_wf s'" using wf_IsFiltered [OF assms a, of env e ty] IsF by simp
    with IsFiltered_messages [OF assms a, of env e ty] show ?thesis
      by (auto simp: CFE_EVS_SendEvent_def send_registered_def True reg IsF sent_Generate)
  next
    case False
    let ?s = "app_upd a (EventCount_update (\<lambda>c. c + 1)) (hk_upd (UnregisteredAppCounter_update (\<lambda>c. c + 1)) s)"
    have "evs_wf ?s" using assms a by (simp add: wf_EventCount)
    from SendEvent_messages [OF this, of env 41 CFE_EVS_EventType_ERROR
        "''App '' @ ES_GetAppName env a @ '' not registered with Event Services. Unable to send event.''"]
    show ?thesis
      by (auto simp: CFE_EVS_SendEvent_def send_registered_def True False EVS_NotRegistered_def Let_def sent_emit
          intro: exI [of _ 0])
  qed
next
  case False
  then have "sent (snd (CFE_EVS_SendEvent env (st, a) e ty t s)) = sent s"
    by (auto simp: CFE_EVS_SendEvent_def EVS_GetAppID_def)
  then show ?thesis by (auto intro: exI [of _ 0])
qed

theorem EVS_messages_per_call_witness:
  "\<exists>k\<le>2. \<exists>ev. sent (snd (CFE_EVS_SendEvent demo_env (CFE_SUCCESS, 3) 7 2 ''text'' demo_evs))
      = sent demo_evs @ replicate k (packet_id demo_env (EVS_AppID demo_evs) 42 CFE_EVS_EventType_INFORMATION) @ ev
    \<and> (ev = [] \<or> ev = [packet_id demo_env 3 7 2]
       \<or> ev = [packet_id demo_env (EVS_AppID demo_evs) 41 CFE_EVS_EventType_ERROR])"
  by (rule EVS_messages_per_call) (rule demo_wf)

text \<open>
  C37.  The event log: adding any sequence of events to a log leaves, oldest first, the first 20 of all
  entries when the mode is to discard and the last 20 when it is to overwrite, and the overflow counter
  has advanced by the number of entries that were lost.  A command to write the log file then succeeds
  when the file system does, and the file holds exactly these entries in this order.
\<close>

theorem EVS_log_file_contents:
  assumes "log_inv l" and "\<forall>n. FS_creat env n \<ge> 0" and "FS_WriteHeader_ok env"
    and "\<forall>k. FS_write env k = int (unat sizeof_CFE_EVS_LongEventTlm_t)"
  shows "\<exists>l'. add_all AddLog_entry ps l = Some l'
    \<and> LogOverflowCounter l' = LogOverflowCounter l + of_nat (length (log_view l) + length ps - 20)
    \<and> (\<forall>s. evs_wf s \<and> LogEnabled (EVS_TlmPkt s) \<and> EVS_LogPtr s = Some l' \<longrightarrow>
        fst (CFE_EVS_WriteLogDataFileCmd env m s) = CFE_SUCCESS
        \<and> log_file (snd (CFE_EVS_WriteLogDataFileCmd env m s)) = log_file s
            @ (if LogMode l = CFE_EVS_LogMode_DISCARD then take 20 (log_view l @ ps)
               else drop (length (log_view l) + length ps - 20) (log_view l @ ps)))"
proof -
  from evs_log.add_all_view [OF assms(1), of ps] obtain l' where
    "add_all AddLog_entry ps l = Some l'" "log_inv l'"
    "log_view l' = (if LogMode l = 1 then take 20 (log_view l @ ps)
       else drop (length (log_view l) + length ps - 20) (log_view l @ ps))"
    "LogOverflowCounter l' = LogOverflowCounter l + of_nat (length (log_view l) + length ps - 20)" by blast
  moreover have "\<forall>k. FS_write env k = 168" using assms(4) by (simp add: sizeof_CFE_EVS_LongEventTlm_t_def)
  ultimately show ?thesis using assms(2, 3) WriteLogDataFile_ok [of _ l' env m] by auto
qed

theorem EVS_log_file_contents_witness:
  "\<exists>l'. add_all AddLog_entry (replicate 25 entry_zero) demo_log = Some l' \<and> LogOverflowCounter l' = 5"
  using EVS_log_file_contents [OF demo_log_inv(1), of demo_env "replicate 25 entry_zero" "\<lambda>_. 0"]
  by (auto simp: demo_env_def sizeof_CFE_EVS_LongEventTlm_t_def demo_log_inv)
    (simp add: demo_log_def)



end
