(* ===== verification/ES_SysLog.thy ===== *)
theory ES_SysLog
  imports TIME_Math
begin

text \<open>
  The system log of Executive Services (\<^verbatim>\<open>es/cfe_es_syslog.c\<close>): a text buffer in the reset area that is
  filled from its start and, in overwrite mode, again from its start when a message does not fit.  It is
  read back a block at a time and written to a file.  Characters are bytes; a string is the bytes before
  its terminator.  The indices are natural numbers: they stay below the size of the buffer, far from
  the range of \<^verbatim>\<open>size_t\<close>.
\<close>

section \<open>Data\<close>

abbreviation (input) CFE_PLATFORM_ES_SYSTEM_LOG_SIZE :: nat where "CFE_PLATFORM_ES_SYSTEM_LOG_SIZE \<equiv> 3072"
abbreviation (input) CFE_TIME_PRINTED_STRING_SIZE :: nat where "CFE_TIME_PRINTED_STRING_SIZE \<equiv> 24"
abbreviation (input) CFE_ES_MAX_SYSLOG_MSG_SIZE :: nat where "CFE_ES_MAX_SYSLOG_MSG_SIZE \<equiv> 148"
abbreviation (input) CFE_ES_SYSLOG_READ_BUFFER_SIZE :: nat where "CFE_ES_SYSLOG_READ_BUFFER_SIZE \<equiv> 444"
abbreviation (input) CFE_ES_LogMode_OVERWRITE :: u32 where "CFE_ES_LogMode_OVERWRITE \<equiv> 0"
abbreviation (input) CFE_ES_LogMode_DISCARD :: u32 where "CFE_ES_LogMode_DISCARD \<equiv> 1"
abbreviation (input) newline :: u8 where "newline \<equiv> 0x0A"

record CFE_ES_SysLog =
  SystemLog :: "u8 list"
  SystemLogWriteIdx :: nat
  SystemLogEndIdx :: nat
  SystemLogMode :: u32
  SystemLogEntryNum :: u32

record CFE_ES_SysLogReadBuffer_t =
  SizeLeft :: nat
  BlockSize :: nat
  Buf_EndIdx :: nat
  LastOffset :: nat
  Data :: "u8 list"

section \<open>Writing\<close>

definition CFE_ES_SysLogClear_Unsync :: "CFE_ES_SysLog \<Rightarrow> CFE_ES_SysLog" where
  "CFE_ES_SysLogClear_Unsync l = l\<lparr>SystemLogWriteIdx := 0, SystemLogEndIdx := 0, SystemLogEntryNum := 0\<rparr>"

text \<open>The first part of \<^verbatim>\<open>CFE_ES_SysLogAppend_Unsync\<close> decides how much of the message is stored, and where:
  return code, \<^verbatim>\<open>MessageLen\<close>, \<^verbatim>\<open>WriteIdx\<close> and \<^verbatim>\<open>EndIdx\<close>.\<close>

definition Append_plan :: "u8 list \<Rightarrow> CFE_ES_SysLog \<Rightarrow> CFE_Status \<times> nat \<times> nat \<times> nat" where
  "Append_plan LogString l =
     (let (ReturnCode, MessageLen) =
            (if length LogString > CFE_PLATFORM_ES_SYSTEM_LOG_SIZE div 2
             then (CFE_ES_ERR_SYS_LOG_TRUNCATED, CFE_PLATFORM_ES_SYSTEM_LOG_SIZE div 2)
             else (CFE_SUCCESS, length LogString));
          WriteIdx = SystemLogWriteIdx l; EndIdx = SystemLogEndIdx l
      in if WriteIdx + MessageLen > CFE_PLATFORM_ES_SYSTEM_LOG_SIZE
         then if SystemLogMode l = CFE_ES_LogMode_OVERWRITE then (ReturnCode, MessageLen, 0, WriteIdx)
              else if WriteIdx < CFE_PLATFORM_ES_SYSTEM_LOG_SIZE - CFE_TIME_PRINTED_STRING_SIZE
              then (CFE_ES_ERR_SYS_LOG_TRUNCATED, CFE_PLATFORM_ES_SYSTEM_LOG_SIZE - WriteIdx, WriteIdx, EndIdx)
              else (ReturnCode, 0, WriteIdx, EndIdx)
         else (ReturnCode, MessageLen, WriteIdx, EndIdx))"

definition memcpy :: "nat \<Rightarrow> u8 list \<Rightarrow> u8 list \<Rightarrow> u8 list" where
  "memcpy i src dst = take i dst @ src @ drop (i + length src) dst"

definition CFE_ES_SysLogAppend_Unsync :: "u8 list \<Rightarrow> CFE_ES_SysLog \<Rightarrow> CFE_Status \<times> CFE_ES_SysLog" where
  "CFE_ES_SysLogAppend_Unsync LogString l =
     (if length LogString = 0 then (CFE_SUCCESS, l)
      else case Append_plan LogString l of (ReturnCode, MessageLen, WriteIdx, EndIdx) \<Rightarrow>
        if MessageLen = 0 then (CFE_ES_ERR_SYS_LOG_FULL, l)
        else let buf = memcpy WriteIdx (take (MessageLen - 1) LogString) (SystemLog l);
                 WriteIdx = WriteIdx + MessageLen;
                 buf = buf[WriteIdx - 1 := newline];
                 EndIdx = (if WriteIdx > EndIdx then WriteIdx else EndIdx)
             in (ReturnCode, l\<lparr>SystemLog := buf, SystemLogWriteIdx := WriteIdx, SystemLogEndIdx := EndIdx,
                               SystemLogEntryNum := SystemLogEntryNum l + 1\<rparr>))"

definition CFE_ES_SysLogSetMode :: "u32 \<Rightarrow> CFE_ES_SysLog \<Rightarrow> CFE_Status \<times> CFE_ES_SysLog" where
  "CFE_ES_SysLogSetMode Mode l =
     (if Mode = CFE_ES_LogMode_OVERWRITE \<or> Mode = CFE_ES_LogMode_DISCARD
      then (CFE_SUCCESS, l\<lparr>SystemLogMode := Mode\<rparr>) else (CFE_ES_BAD_ARGUMENT, l))"

text \<open>The time stamp and the text, which is the expansion of the format by \<^verbatim>\<open>vsnprintf\<close> into a buffer that
  is large enough; the white space at the end is replaced by one newline.\<close>

definition isspace :: "u8 \<Rightarrow> bool" where
  "isspace c \<longleftrightarrow> c = 0x20 \<or> (0x09 \<le> c \<and> c \<le> 0x0D)"

definition strip :: "u8 list \<Rightarrow> u8 list" where
  "strip t = rev (dropWhile isspace (rev t))"

definition CFE_ES_SysLog_vsnprintf :: "nat \<Rightarrow> CFE_TIME_SysTime_t \<Rightarrow> u8 list \<Rightarrow> u8 list" where
  "CFE_ES_SysLog_vsnprintf BufferSize now text =
     (if BufferSize > CFE_TIME_PRINTED_STRING_SIZE + 2
      then let MaxLen = BufferSize - 2;
               Buffer = takeWhile (\<lambda>c. c \<noteq> 0) (CFE_TIME_Print now);
               Buffer = (if length Buffer < MaxLen then Buffer @ [0x20] @ text else Buffer)
           in strip (take MaxLen Buffer) @ [newline]
      else [])"

definition CFE_ES_SysLogWrite_Unsync :: "CFE_TIME_SysTime_t \<Rightarrow> u8 list \<Rightarrow> CFE_ES_SysLog \<Rightarrow> CFE_Status \<times> CFE_ES_SysLog" where
  "CFE_ES_SysLogWrite_Unsync now text =
     CFE_ES_SysLogAppend_Unsync (CFE_ES_SysLog_vsnprintf CFE_ES_MAX_SYSLOG_MSG_SIZE now text)"

section \<open>Reading\<close>

fun ReadStart_loop :: "u8 list \<Rightarrow> nat \<Rightarrow> nat \<Rightarrow> nat \<Rightarrow> nat \<times> nat" where
  "ReadStart_loop buf EndIdx ReadIdx 0 = (ReadIdx, 0)"
| "ReadStart_loop buf EndIdx ReadIdx (Suc TotalSize) =
     (if ReadIdx < EndIdx
      then if buf ! ReadIdx = newline then (Suc ReadIdx, TotalSize)
           else ReadStart_loop buf EndIdx (Suc ReadIdx) TotalSize
      else (ReadIdx, Suc TotalSize))"

definition CFE_ES_SysLogReadStart_Unsync :: "CFE_ES_SysLog \<Rightarrow> CFE_ES_SysLogReadBuffer_t" where
  "CFE_ES_SysLogReadStart_Unsync l =
     (case ReadStart_loop (SystemLog l) (SystemLogEndIdx l) (SystemLogWriteIdx l) (SystemLogEndIdx l) of
        (ReadIdx, TotalSize) \<Rightarrow>
          \<lparr>SizeLeft = TotalSize, BlockSize = 0, Buf_EndIdx = SystemLogEndIdx l, LastOffset = ReadIdx, Data = []\<rparr>)"

text \<open>\<open>Data\<close> is the part of the array that has been filled, so its length is \<open>BlockSize\<close>.\<close>

function ReadData_loop :: "u8 list \<Rightarrow> CFE_ES_SysLogReadBuffer_t \<Rightarrow> CFE_ES_SysLogReadBuffer_t" where
  "ReadData_loop buf b =
     (if SizeLeft b > 0 \<and> BlockSize b < CFE_ES_SYSLOG_READ_BUFFER_SIZE
      then let n = CFE_ES_SYSLOG_READ_BUFFER_SIZE - BlockSize b;
               off = (if LastOffset b \<ge> Buf_EndIdx b then 0 else LastOffset b);
               n = (if off + n > Buf_EndIdx b then Buf_EndIdx b - off else n);
               n = (if n > SizeLeft b then SizeLeft b else n)
           in if n = 0 then b\<lparr>LastOffset := off\<rparr>
              else ReadData_loop buf (b\<lparr>Data := Data b @ take n (drop off buf), BlockSize := BlockSize b + n,
                     LastOffset := off + n, SizeLeft := SizeLeft b - n\<rparr>)
      else b)"
  by pat_completeness auto
termination
  by (relation "measure (\<lambda>(buf, b). SizeLeft b)") (auto simp: Let_def)

declare ReadData_loop.simps [simp del]

definition CFE_ES_SysLogReadData :: "u8 list \<Rightarrow> CFE_ES_SysLogReadBuffer_t \<Rightarrow> CFE_ES_SysLogReadBuffer_t" where
  "CFE_ES_SysLogReadData buf b = ReadData_loop buf (b\<lparr>BlockSize := 0, Data := []\<rparr>)"

section \<open>The log file\<close>

lemma SizeLeft_ReadData_loop:
  "SizeLeft (ReadData_loop buf b) + BlockSize (ReadData_loop buf b) = SizeLeft b + BlockSize b"
proof (induction buf b rule: ReadData_loop.induct)
  case (1 buf b)
  then show ?case by (subst (1 2) ReadData_loop.simps) (auto simp: Let_def)
qed

lemma SizeLeft_ReadData:
  "SizeLeft (CFE_ES_SysLogReadData buf b) + BlockSize (CFE_ES_SysLogReadData buf b) = SizeLeft b"
  by (simp add: CFE_ES_SysLogReadData_def SizeLeft_ReadData_loop)

text \<open>The state of a dump: the bytes behind the file header, the number of calls of \<^verbatim>\<open>OS_write\<close>, and the local
  variables.  \<open>wr k n\<close> is what the k-th call returns for a request of n bytes.\<close>

record syslog_dump =
  File :: "u8 list"
  Writes :: nat
  TotalSize :: nat
  LastReqSize :: nat
  Status :: int

function Dump_block :: "(nat \<Rightarrow> nat \<Rightarrow> int) \<Rightarrow> u8 list \<Rightarrow> nat \<Rightarrow> syslog_dump \<Rightarrow> syslog_dump" where
  "Dump_block wr block WritePos d =
     (if WritePos < length block
      then let req = length block - WritePos;
               st = wr (Writes d) req;
               d = d\<lparr>LastReqSize := req, Writes := Writes d + 1, Status := st\<rparr>
           in if st \<le> 0 then d
              else Dump_block wr block (WritePos + nat st)
                     (d\<lparr>File := File d @ take (nat st) (drop WritePos block), TotalSize := TotalSize d + nat st\<rparr>)
      else d)"
  by pat_completeness auto
termination
  by (relation "measure (\<lambda>(wr, block, p, d). length block - p)") (auto simp: Let_def)

declare Dump_block.simps [simp del]

text \<open>The lock is held only for the first block; the k-th block is read from the log as it is then.\<close>

function Dump_loop :: "(nat \<Rightarrow> nat \<Rightarrow> int) \<Rightarrow> (nat \<Rightarrow> CFE_ES_SysLog) \<Rightarrow> nat \<Rightarrow> CFE_ES_SysLogReadBuffer_t
    \<Rightarrow> syslog_dump \<Rightarrow> syslog_dump" where
  "Dump_loop wr logs k b d =
     (if BlockSize b > 0
      then let d = Dump_block wr (take (BlockSize b) (Data b)) 0 d
           in if Status d \<le> 0 then d
              else Dump_loop wr logs (Suc k) (CFE_ES_SysLogReadData (SystemLog (logs (Suc k))) b) d
      else d)"
  by pat_completeness auto
termination
proof (relation "measure (\<lambda>(wr, logs, k, b, d). 2 * SizeLeft b + (if BlockSize b > 0 then 1 else 0))")
  fix wr :: "nat \<Rightarrow> nat \<Rightarrow> int" and logs :: "nat \<Rightarrow> CFE_ES_SysLog" and k and b :: CFE_ES_SysLogReadBuffer_t and d x :: syslog_dump
  assume "BlockSize b > 0"
  then show "((wr, logs, Suc k, CFE_ES_SysLogReadData (SystemLog (logs (Suc k))) b, x), wr, logs, k, b, d)
      \<in> measure (\<lambda>(wr, logs, k, b, d). 2 * SizeLeft b + (if BlockSize b > 0 then 1 else 0))"
    using SizeLeft_ReadData [of "SystemLog (logs (Suc k))" b] by auto
qed simp

declare Dump_loop.simps [simp del]

datatype syslog_event = Create_Error int | Byte_Count_Error nat int | Log_Written nat

text \<open>\<open>fd\<close> and \<open>hdr\<close> are the results of \<^verbatim>\<open>OS_creat\<close> and \<^verbatim>\<open>CFE_FS_WriteHeader\<close>.\<close>

definition CFE_ES_SysLogDump :: "int \<Rightarrow> int \<Rightarrow> (nat \<Rightarrow> nat \<Rightarrow> int) \<Rightarrow> (nat \<Rightarrow> CFE_ES_SysLog)
    \<Rightarrow> CFE_Status \<times> syslog_event \<times> u8 list" where
  "CFE_ES_SysLogDump fd hdr wr logs =
     (if fd < 0 then (CFE_ES_FILE_IO_ERR, Create_Error fd, [])
      else
        let d = \<lparr>File = [], Writes = 0, TotalSize = 0, LastReqSize = 64, Status = hdr\<rparr>;
            d = (if hdr \<ge> 0
                 then Dump_loop wr logs 0
                        (CFE_ES_SysLogReadData (SystemLog (logs 0)) (CFE_ES_SysLogReadStart_Unsync (logs 0)))
                        (d\<lparr>TotalSize := nat hdr\<rparr>)
                 else d)
        in if Status d \<le> 0 then (CFE_ES_FILE_IO_ERR, Byte_Count_Error (LastReqSize d) (Status d), File d)
           else (CFE_SUCCESS, Log_Written (TotalSize d), File d))"

end
