(* ===== verification/ES_LogText.thy ===== *)
theory ES_LogText
  imports ES_SysLog
begin

text \<open>
  What the system log holds.  The text of a history is all that has been stored since the log was
  cleared.  The invariant \<open>ring\<close> relates it to the buffer: the part from the start of the buffer up to the
  write index is the newest text, the part behind it up to the end index is the text before that, and
  the buffer starts at the start of a line.  A dump is then the end of the text, from the start of a
  line on.
\<close>

section \<open>The ring of text\<close>

definition seg :: "nat \<Rightarrow> nat \<Rightarrow> u8 list \<Rightarrow> u8 list" where
  "seg W E buf = take (E - W) (drop W buf)"

definition at_line_start :: "u8 list \<Rightarrow> bool" where
  "at_line_start t \<longleftrightarrow> t = [] \<or> last t = newline"

definition ring :: "nat \<Rightarrow> nat \<Rightarrow> u8 list \<Rightarrow> u8 list \<Rightarrow> bool" where
  "ring W E buf T \<longleftrightarrow> length buf = CFE_PLATFORM_ES_SYSTEM_LOG_SIZE \<and> W \<le> E \<and> E \<le> CFE_PLATFORM_ES_SYSTEM_LOG_SIZE
     \<and> at_line_start T
     \<and> (\<exists>pre. T = pre @ seg W E buf @ take W buf \<and> at_line_start (pre @ seg W E buf))"

lemma ring_wrap: "ring W E buf T \<Longrightarrow> ring 0 W buf T"
  by (auto simp: ring_def seg_def)

lemma ring_store:
  assumes "ring W E buf T" and "W + length t \<le> CFE_PLATFORM_ES_SYSTEM_LOG_SIZE" and "t \<noteq> []" and "last t = newline"
  shows "ring (W + length t) (max E (W + length t)) (take W buf @ t @ drop (W + length t) buf) (T @ t)"
proof -
  let ?n = "length t" and ?buf = "take W buf @ t @ drop (W + length t) buf"
  obtain pre where len: "length buf = 3072" "W \<le> E" "E \<le> 3072" and T: "T = pre @ seg W E buf @ take W buf"
    and line: "at_line_start (pre @ seg W E buf)"
    using assms(1) by (auto simp: ring_def)
  have seg: "seg (W + ?n) (max E (W + ?n)) ?buf = drop ?n (seg W E buf)"
    using len assms(2) by (simp add: seg_def max_def drop_take add.commute)
  have "T @ t = (pre @ take ?n (seg W E buf)) @ seg (W + ?n) (max E (W + ?n)) ?buf @ take (W + ?n) ?buf"
    using len assms(2) by (simp add: T seg)
  moreover have "at_line_start ((pre @ take ?n (seg W E buf)) @ seg (W + ?n) (max E (W + ?n)) ?buf)"
    using line by (simp add: seg)
  moreover have "at_line_start (T @ t)" using assms(3, 4) by (simp add: at_line_start_def)
  ultimately show ?thesis
    using len assms(2) unfolding ring_def by (intro conjI exI) (auto)
qed

section \<open>Histories of the log\<close>

datatype syslog_op = Op_Append "u8 list" | Op_SetMode u32 | Op_Clear

text \<open>The text that an append stores: the message up to the length the plan gives it, its last
  character replaced by a newline.\<close>

definition kept_text :: "u8 list \<Rightarrow> CFE_ES_SysLog \<Rightarrow> u8 list" where
  "kept_text m l = (case Append_plan m l of (_, n, _, _) \<Rightarrow>
     if m = [] \<or> n = 0 then [] else take (n - 1) m @ [newline])"

fun syslog_step :: "syslog_op \<Rightarrow> CFE_ES_SysLog \<times> u8 list \<Rightarrow> CFE_ES_SysLog \<times> u8 list" where
  "syslog_step (Op_Append m) (l, T) = (snd (CFE_ES_SysLogAppend_Unsync m l), T @ kept_text m l)"
| "syslog_step (Op_SetMode mode) (l, T) = (snd (CFE_ES_SysLogSetMode mode l), T)"
| "syslog_step Op_Clear (l, T) = (CFE_ES_SysLogClear_Unsync l, [])"

definition syslog_run :: "syslog_op list \<Rightarrow> CFE_ES_SysLog \<times> u8 list \<Rightarrow> CFE_ES_SysLog \<times> u8 list" where
  "syslog_run ops s = foldl (\<lambda>s op. syslog_step op s) s ops"

definition syslog_inv :: "CFE_ES_SysLog \<Rightarrow> u8 list \<Rightarrow> bool" where
  "syslog_inv l T \<longleftrightarrow> ring (SystemLogWriteIdx l) (SystemLogEndIdx l) (SystemLog l) T
     \<and> (length T \<le> CFE_PLATFORM_ES_SYSTEM_LOG_SIZE \<longrightarrow>
          SystemLogWriteIdx l = length T \<and> SystemLogEndIdx l = length T)"

lemma memcpy_newline:
  assumes "W + n \<le> length buf" and "0 < n" and "n \<le> length m"
  shows "(memcpy W (take (n - 1) m) buf)[W + n - 1 := newline] = take W buf @ (take (n - 1) m @ [newline]) @ drop (W + n) buf"
proof -
  have "drop (W + (n - 1)) buf = buf ! (W + (n - 1)) # drop (Suc (W + (n - 1))) buf"
    using assms by (intro Cons_nth_drop_Suc [symmetric]) simp
  then have "memcpy W (take (n - 1) m) buf
      = (take W buf @ take (n - 1) m) @ buf ! (W + n - 1) # drop (W + n) buf"
    using assms by (simp add: memcpy_def min_def)
  moreover have "length (take W buf @ take (n - 1) m) = W + n - 1" using assms by simp
  ultimately show ?thesis by (metis append.assoc append_Cons append_Nil list_update_length)
qed

lemma Append_plan_cases:
  assumes "Append_plan m l = (st, n, W, E)" and "SystemLogWriteIdx l \<le> 3072" and "0 < n"
  shows "n \<le> length m" and "W + n \<le> 3072"
    and "W = SystemLogWriteIdx l \<and> E = SystemLogEndIdx l
      \<or> W = 0 \<and> E = SystemLogWriteIdx l \<and> 3072 < SystemLogWriteIdx l + n"
  using assms by (auto simp: Append_plan_def Let_def split: if_splits)

lemma syslog_inv_append:
  assumes "syslog_inv l T"
  shows "syslog_inv (snd (CFE_ES_SysLogAppend_Unsync m l)) (T @ kept_text m l)"
proof -
  obtain st n W E where plan: "Append_plan m l = (st, n, W, E)" by (cases "Append_plan m l") auto
  show ?thesis
  proof (cases "m = [] \<or> n = 0")
    case False
    have R: "ring (SystemLogWriteIdx l) (SystemLogEndIdx l) (SystemLog l) T"
      and small: "length T \<le> 3072 \<Longrightarrow> SystemLogWriteIdx l = length T \<and> SystemLogEndIdx l = length T"
      using assms by (simp_all add: syslog_inv_def)
    have le: "SystemLogWriteIdx l \<le> 3072" "SystemLogWriteIdx l \<le> length T" "length (SystemLog l) = 3072"
      using R by (auto simp: ring_def)
    note c = Append_plan_cases [OF plan le(1)]
    define t where "t = take (n - 1) m @ [newline]"
    have n: "length t = n" "t \<noteq> []" "last t = newline" using c(1) False by (auto simp: t_def)
    have "ring W E (SystemLog l) T" using c(3) R ring_wrap [OF R] False by auto
    from ring_store [OF this, of t] c(2) n False have
      "ring (W + n) (max E (W + n)) (take W (SystemLog l) @ t @ drop (W + n) (SystemLog l)) (T @ t)" by simp
    moreover have "W + n = length (T @ t) \<and> max E (W + n) = length (T @ t)" if "length (T @ t) \<le> 3072"
      using that n small c(3) le False by auto
    moreover have "snd (CFE_ES_SysLogAppend_Unsync m l) = l\<lparr>SystemLog := take W (SystemLog l) @ t @ drop (W + n) (SystemLog l),
        SystemLogWriteIdx := W + n, SystemLogEndIdx := max E (W + n), SystemLogEntryNum := SystemLogEntryNum l + 1\<rparr>"
      using False plan c le memcpy_newline [of W n "SystemLog l" m]
      by (auto simp: CFE_ES_SysLogAppend_Unsync_def Let_def max_def t_def)
    moreover have "kept_text m l = t" using False plan by (simp add: kept_text_def t_def)
    ultimately show ?thesis by (auto simp: syslog_inv_def)
  qed (use assms plan in \<open>auto simp: CFE_ES_SysLogAppend_Unsync_def kept_text_def\<close>)
qed

lemma syslog_inv_clear:
  "length (SystemLog l) = CFE_PLATFORM_ES_SYSTEM_LOG_SIZE \<Longrightarrow> syslog_inv (CFE_ES_SysLogClear_Unsync l) []"
  by (simp add: syslog_inv_def ring_def seg_def at_line_start_def CFE_ES_SysLogClear_Unsync_def)

lemma syslog_inv_run:
  assumes "syslog_inv l T"
  shows "case syslog_run ops (l, T) of (l', T') \<Rightarrow> syslog_inv l' T'"
  using assms
proof (induction ops arbitrary: l T)
  case (Cons op ops)
  have "syslog_inv (fst (syslog_step op (l, T))) (snd (syslog_step op (l, T)))"
    using Cons.prems syslog_inv_append [OF Cons.prems] syslog_inv_clear [of l]
    by (cases op) (auto simp: CFE_ES_SysLogSetMode_def syslog_inv_def ring_def)
  then show ?case
    using Cons.IH [of "fst (syslog_step op (l, T))" "snd (syslog_step op (l, T))"]
    by (simp add: syslog_run_def)
qed (simp add: syslog_run_def)

section \<open>Reading back\<close>

lemma ReadStart_loop_skips:
  assumes "i \<le> E" and "E \<le> length buf" and "E - i \<le> n" and "newline \<in> set (seg i E buf)"
  shows "\<exists>a r. seg i E buf = a @ newline # r \<and> ReadStart_loop buf E i n = (i + length a + 1, n - (length a + 1))"
  using assms
proof (induction n arbitrary: i)
  case 0
  then show ?case by (simp add: seg_def)
next
  case (Suc n)
  then have "i < E" by (cases "i = E") (auto simp: seg_def)
  then have seg: "seg i E buf = buf ! i # seg (Suc i) E buf"
    using Suc.prems by (simp add: seg_def Cons_nth_drop_Suc [symmetric] Suc_diff_Suc [symmetric])
  show ?case
  proof (cases "buf ! i = newline")
    case True
    then have "seg i E buf = [] @ newline # seg (Suc i) E buf" using seg by simp
    moreover have "ReadStart_loop buf E i (Suc n) = (i + length ([]::u8 list) + 1, Suc n - (length ([]::u8 list) + 1))"
      using True \<open>i < E\<close> by simp
    ultimately show ?thesis by blast
  next
    case False
    have "Suc i \<le> E" "E - Suc i \<le> n" "newline \<in> set (seg (Suc i) E buf)"
      using Suc.prems False \<open>i < E\<close> seg by auto
    from Suc.IH [OF this(1) Suc.prems(2) this(2, 3)] obtain a r where "seg (Suc i) E buf = a @ newline # r"
      "ReadStart_loop buf E (Suc i) n = (Suc i + length a + 1, n - (length a + 1))" by blast
    then have "seg i E buf = (buf ! i # a) @ newline # r
      \<and> ReadStart_loop buf E i (Suc n) = (i + length (buf ! i # a) + 1, Suc n - (length (buf ! i # a) + 1))"
      using \<open>i < E\<close> seg False by simp
    then show ?thesis by blast
  qed
qed

text \<open>The text that a read buffer has still to deliver.\<close>

definition unread :: "u8 list \<Rightarrow> CFE_ES_SysLogReadBuffer_t \<Rightarrow> u8 list" where
  "unread buf b = (let off = (if LastOffset b \<ge> Buf_EndIdx b then 0 else LastOffset b); B = take (Buf_EndIdx b) buf
     in take (SizeLeft b) (drop off B @ B))"

lemma unread_advance:
  fixes b :: CFE_ES_SysLogReadBuffer_t
  defines "off \<equiv> (if LastOffset b \<ge> Buf_EndIdx b then 0 else LastOffset b)"
  assumes "Buf_EndIdx b \<le> length buf" and "SizeLeft b \<le> Buf_EndIdx b" and "n \<le> SizeLeft b" and "off + n \<le> Buf_EndIdx b"
    and "0 < n"
  shows "take n (drop off buf) = take n (unread buf b)"
    and "unread buf (b\<lparr>Data := D, BlockSize := k, LastOffset := off + n, SizeLeft := SizeLeft b - n\<rparr>) = drop n (unread buf b)"
proof -
  define B where "B = take (Buf_EndIdx b) buf"
  have B: "length B = Buf_EndIdx b" "n \<le> length (drop off B)" using assms(2, 5) by (simp_all add: B_def)
  have u: "unread buf b = take (SizeLeft b) (drop off B @ B)" by (simp add: unread_def off_def B_def Let_def)
  have "take n (drop off B) = take n (drop off buf)" using assms(5) by (simp add: B_def drop_take min_def)
  then show "take n (drop off buf) = take n (unread buf b)"
    using assms(4) B(2) by (simp add: u min_def)
  have d: "drop n (unread buf b) = take (SizeLeft b - n) (drop (off + n) B @ B)"
  proof -
    have "drop n (drop off B @ B) = drop (off + n) B @ B" using B by (simp add: add.commute)
    then show ?thesis by (simp only: u drop_take)
  qed
  show "unread buf (b\<lparr>Data := D, BlockSize := k, LastOffset := off + n, SizeLeft := SizeLeft b - n\<rparr>) = drop n (unread buf b)"
  proof (cases "off + n = Buf_EndIdx b")
    case True
    then show ?thesis unfolding d using assms(2, 3) by (simp add: unread_def B_def Let_def)
  next
    case False
    then show ?thesis unfolding d using assms(5) by (simp add: unread_def B_def Let_def)
  qed
qed

lemma ReadData_loop_reads:
  assumes "Buf_EndIdx b \<le> length buf" and "SizeLeft b \<le> Buf_EndIdx b" and "BlockSize b \<le> 444"
  shows "let b' = ReadData_loop buf b; n = min (444 - BlockSize b) (SizeLeft b)
    in Data b' = Data b @ take n (unread buf b) \<and> BlockSize b' = BlockSize b + n \<and> unread buf b' = drop n (unread buf b)
      \<and> Buf_EndIdx b' = Buf_EndIdx b"
  using assms
proof (induction "SizeLeft b" arbitrary: b rule: less_induct)
  case less
  define off where "off = (if LastOffset b \<ge> Buf_EndIdx b then 0 else LastOffset b)"
  define n where "n = min (min (444 - BlockSize b) (Buf_EndIdx b - off)) (SizeLeft b)"
  show ?case
  proof (cases "SizeLeft b > 0 \<and> BlockSize b < 444")
    case True
    then have off: "off < Buf_EndIdx b" using less.prems(2) by (auto simp: off_def)
    then have n: "0 < n" "off + n \<le> Buf_EndIdx b" "n \<le> SizeLeft b" "BlockSize b + n \<le> 444"
      using True by (auto simp: n_def)
    let ?b = "b\<lparr>Data := Data b @ take n (drop off buf), BlockSize := BlockSize b + n, LastOffset := off + n,
        SizeLeft := SizeLeft b - n\<rparr>"
    have "(let m = 444 - BlockSize b; m = (if off + m > Buf_EndIdx b then Buf_EndIdx b - off else m)
        in if m > SizeLeft b then SizeLeft b else m) = n"
      using off by (auto simp: n_def Let_def)
    then have step: "ReadData_loop buf b = ReadData_loop buf ?b"
      using True n(1) by (subst ReadData_loop.simps) (simp add: Let_def off_def [symmetric])
    note adv = unread_advance [of b buf n, folded off_def, OF less.prems(1, 2) n(3, 2, 1)]
    define k where "k = min (444 - BlockSize ?b) (SizeLeft ?b)"
    have k: "min (444 - BlockSize b) (SizeLeft b) = n + k" using n by (auto simp: k_def)
    have "let b' = ReadData_loop buf ?b; k = min (444 - BlockSize ?b) (SizeLeft ?b)
      in Data b' = Data ?b @ take k (unread buf ?b) \<and> BlockSize b' = BlockSize ?b + k
        \<and> unread buf b' = drop k (unread buf ?b) \<and> Buf_EndIdx b' = Buf_EndIdx ?b"
      using less.prems n True by (intro less.hyps) simp_all
    then have "Data (ReadData_loop buf ?b) = Data b @ take n (unread buf b) @ take k (drop n (unread buf b))"
      "BlockSize (ReadData_loop buf ?b) = BlockSize b + n + k"
      "unread buf (ReadData_loop buf ?b) = drop k (drop n (unread buf b))"
      "Buf_EndIdx (ReadData_loop buf ?b) = Buf_EndIdx b"
      unfolding adv(2) by (simp_all add: Let_def k_def adv(1))
    then show ?thesis
      unfolding step Let_def k take_add by (simp add: add.commute)
  next
    case False
    have "ReadData_loop buf b = b" by (subst ReadData_loop.simps, rule if_not_P) (rule False)
    moreover have "min (444 - BlockSize b) (SizeLeft b) = 0" using False less.prems(3) by auto
    ultimately show ?thesis by (simp add: Let_def)
  qed
qed

lemma ReadData_reads:
  assumes "Buf_EndIdx b \<le> length buf" and "SizeLeft b \<le> Buf_EndIdx b"
  shows "Data (CFE_ES_SysLogReadData buf b) @ unread buf (CFE_ES_SysLogReadData buf b) = unread buf b"
    and "length (Data (CFE_ES_SysLogReadData buf b)) = BlockSize (CFE_ES_SysLogReadData buf b)"
    and "BlockSize (CFE_ES_SysLogReadData buf b) = min 444 (SizeLeft b)"
    and "Buf_EndIdx (CFE_ES_SysLogReadData buf b) = Buf_EndIdx b"
    and "SizeLeft (CFE_ES_SysLogReadData buf b) \<le> Buf_EndIdx b"
proof -
  let ?b = "b\<lparr>BlockSize := 0, Data := []\<rparr>"
  have u: "unread buf ?b = unread buf b" by (simp add: unread_def)
  have len: "length (unread buf b) = SizeLeft b" using assms by (auto simp: unread_def Let_def)
  show "Data (CFE_ES_SysLogReadData buf b) @ unread buf (CFE_ES_SysLogReadData buf b) = unread buf b"
    "length (Data (CFE_ES_SysLogReadData buf b)) = BlockSize (CFE_ES_SysLogReadData buf b)"
    "BlockSize (CFE_ES_SysLogReadData buf b) = min 444 (SizeLeft b)"
    "Buf_EndIdx (CFE_ES_SysLogReadData buf b) = Buf_EndIdx b"
    using ReadData_loop_reads [of ?b buf] assms len
    by (auto simp: CFE_ES_SysLogReadData_def Let_def u)
  show "SizeLeft (CFE_ES_SysLogReadData buf b) \<le> Buf_EndIdx b"
    using SizeLeft_ReadData [of buf b] assms(2) by simp
qed

text \<open>Writes that make progress: every call writes at least one and at most the bytes asked for.\<close>

definition writes_progress :: "(nat \<Rightarrow> nat \<Rightarrow> int) \<Rightarrow> bool" where
  "writes_progress wr \<longleftrightarrow> (\<forall>k n. 0 < n \<longrightarrow> 0 < wr k n \<and> wr k n \<le> int n)"

lemma Dump_block_all:
  assumes "writes_progress wr" and "p \<le> length block" and "0 < Status d"
  shows "File (Dump_block wr block p d) = File d @ drop p block \<and> 0 < Status (Dump_block wr block p d)"
  using assms(2, 3)
proof (induction "length block - p" arbitrary: p d rule: less_induct)
  case less
  show ?case
  proof (cases "p < length block")
    case True
    define st where "st = wr (Writes d) (length block - p)"
    have "0 < st \<and> st \<le> int (length block - p)"
      using assms(1) True unfolding writes_progress_def st_def by (meson zero_less_diff)
    then have st: "0 < st" "nat st \<le> length block - p" by (simp_all add: nat_le_iff)
    let ?d = "d\<lparr>LastReqSize := length block - p, Writes := Writes d + 1, Status := st,
        File := File d @ take (nat st) (drop p block), TotalSize := TotalSize d + nat st\<rparr>"
    have "Dump_block wr block p d = Dump_block wr block (p + nat st) ?d"
      using True st(1) by (subst Dump_block.simps) (simp add: Let_def st_def)
    moreover have "File (Dump_block wr block (p + nat st) ?d) = File ?d @ drop (p + nat st) block
        \<and> 0 < Status (Dump_block wr block (p + nat st) ?d)"
      using st True by (intro less.hyps) simp_all
    moreover have "drop p block = take (nat st) (drop p block) @ drop (p + nat st) block"
      by (metis add.commute append_take_drop_id drop_drop)
    ultimately show ?thesis by simp
  next
    case False
    then show ?thesis using less.prems by (subst (1 2) Dump_block.simps) simp
  qed
qed

lemma Dump_loop_all:
  assumes "writes_progress wr" and "Buf_EndIdx b \<le> length (SystemLog l)" and "SizeLeft b \<le> Buf_EndIdx b"
    and "length (Data b) = BlockSize b" and "BlockSize b = 0 \<Longrightarrow> SizeLeft b = 0" and "0 < Status d"
  shows "File (Dump_loop wr (\<lambda>_. l) k b d) = File d @ Data b @ unread (SystemLog l) b
    \<and> 0 < Status (Dump_loop wr (\<lambda>_. l) k b d)"
  using assms(2-6)
proof (induction "SizeLeft b" arbitrary: k b d rule: less_induct)
  case less
  let ?next = "CFE_ES_SysLogReadData (SystemLog l) b"
  show ?case
  proof (cases "BlockSize b = 0")
    case True
    then show ?thesis
      using less.prems by (subst (1 2) Dump_loop.simps) (simp add: unread_def)
  next
    case False
    define d' where "d' = Dump_block wr (Data b) 0 d"
    have d': "File d' = File d @ Data b" "0 < Status d'"
      using Dump_block_all [OF assms(1), of 0 "Data b" d] less.prems(5) by (simp_all add: d'_def)
    have step: "Dump_loop wr (\<lambda>_. l) k b d = Dump_loop wr (\<lambda>_. l) (Suc k) ?next d'"
      using False d'(2) less.prems(3) by (subst Dump_loop.simps) (simp add: Let_def d'_def)
    note rd = ReadData_reads [OF less.prems(1, 2)]
    show ?thesis
    proof (cases "SizeLeft b = 0")
      case True
      then have "Dump_loop wr (\<lambda>_. l) (Suc k) ?next d' = d'" using rd(3) by (subst Dump_loop.simps) simp
      moreover have "unread (SystemLog l) b = []" using True by (simp add: unread_def)
      ultimately show ?thesis using step d' by simp
    next
      case False
      have "SizeLeft ?next < SizeLeft b" using SizeLeft_ReadData [of "SystemLog l" b] rd(3) False by simp
      then have "File (Dump_loop wr (\<lambda>_. l) (Suc k) ?next d') = File d' @ Data ?next @ unread (SystemLog l) ?next
          \<and> 0 < Status (Dump_loop wr (\<lambda>_. l) (Suc k) ?next d')"
        using less.prems(1) rd d'(2) False by (intro less.hyps) simp_all
      then show ?thesis using step d'(1) rd(1) by simp
    qed
  qed
qed

lemma ReadStart_text:
  assumes "ring W E buf T" and l: "buf = SystemLog l" "W = SystemLogWriteIdx l" "E = SystemLogEndIdx l"
  shows "\<exists>pre out. T = pre @ out \<and> at_line_start pre \<and> (W = E \<longrightarrow> out = take W buf) \<and> W \<le> length out
    \<and> unread buf (CFE_ES_SysLogReadStart_Unsync l) = out \<and> SizeLeft (CFE_ES_SysLogReadStart_Unsync l) \<le> E"
proof -
  obtain pre where len: "length buf = 3072" "W \<le> E" "E \<le> 3072" and T: "T = pre @ seg W E buf @ take W buf"
    and line: "at_line_start (pre @ seg W E buf)"
    using assms(1) by (auto simp: ring_def)
  show ?thesis
  proof (cases "W = E")
    case True
    then have "ReadStart_loop buf E E E = (E, E)" by (cases E) simp_all
    then have "unread buf (CFE_ES_SysLogReadStart_Unsync l) = take W buf"
      using True len l by (simp add: CFE_ES_SysLogReadStart_Unsync_def unread_def Let_def)
    moreover have "SizeLeft (CFE_ES_SysLogReadStart_Unsync l) = E"
      using \<open>ReadStart_loop buf E E E = (E, E)\<close> True l by (simp add: CFE_ES_SysLogReadStart_Unsync_def)
    ultimately show ?thesis
      using True len T line by (intro exI [of _ pre] exI [of _ "take W buf"]) (simp add: seg_def)
  next
    case False
    then have "length (seg W E buf) = E - W" "seg W E buf \<noteq> []" using len by (auto simp: seg_def)
    then have "newline \<in> set (seg W E buf)" using line by (auto simp: at_line_start_def) (metis last_in_set)
    from ReadStart_loop_skips [OF len(2) _ _ this, of E] len obtain a r where
      ar: "seg W E buf = a @ newline # r" and start: "ReadStart_loop buf E W E = (W + length a + 1, E - (length a + 1))"
      by auto
    have size: "E - W = length a + 1 + length r" using \<open>length (seg W E buf) = E - W\<close> ar by simp
    define B where "B = take E buf"
    have "drop W B = a @ newline # r" using ar by (simp add: B_def seg_def drop_take)
    then have "drop (length a + 1) (drop W B) = r" by simp
    then have r: "drop (W + length a + 1) B = r" by (simp add: add.commute add.left_commute)
    have "unread buf (CFE_ES_SysLogReadStart_Unsync l) = r @ take W buf"
    proof (cases "r = []")
      case True
      then have "W + length a + 1 = E" "E - (length a + 1) = W" using size len(2) by simp_all
      then show ?thesis using start l len True
        by (simp add: CFE_ES_SysLogReadStart_Unsync_def unread_def Let_def min_def)
    next
      case False
      then have lt: "W + length a + 1 < E" using size by (cases r) auto
      have "E - (length a + 1) = length r + W" using size len(2) by simp
      then have "take (E - (length a + 1)) (r @ B) = r @ take W buf" using len(2) by (simp add: B_def min_def)
      moreover have "unread buf (CFE_ES_SysLogReadStart_Unsync l)
          = take (E - (length a + 1)) (drop (W + length a + 1) B @ B)"
        using start l lt by (simp add: CFE_ES_SysLogReadStart_Unsync_def unread_def Let_def B_def)
      ultimately show ?thesis by (simp only: r)
    qed
    moreover have "SizeLeft (CFE_ES_SysLogReadStart_Unsync l) \<le> E"
      using start l by (simp add: CFE_ES_SysLogReadStart_Unsync_def)
    ultimately show ?thesis
      using T ar len False by (intro exI [of _ "pre @ a @ [newline]"] exI [of _ "r @ take W buf"])
        (simp add: at_line_start_def)
  qed
qed

section \<open>Property\<close>

text \<open>
  C39.  The system log over any history of appended messages, mode changes and clears: when the file can
  be created and every write makes progress, the dump succeeds, and its contents are the end of the
  text stored since the last clear, from the start of a line on; nothing is torn or out of order.  It is
  the whole text as long as that has not outgrown the buffer, and it never lacks what was stored since
  the write index last returned to the start of the buffer.
\<close>

theorem CFE_ES_SysLogDump_text:
  assumes "length (SystemLog l0) = CFE_PLATFORM_ES_SYSTEM_LOG_SIZE" and "0 \<le> fd" and "0 < hdr" and "writes_progress wr"
  shows "case syslog_run ops (CFE_ES_SysLogClear_Unsync l0, []) of (l, T) \<Rightarrow>
    case CFE_ES_SysLogDump fd hdr wr (\<lambda>_. l) of (st, ev, out) \<Rightarrow>
      st = CFE_SUCCESS \<and> (\<exists>pre. T = pre @ out \<and> at_line_start pre)
      \<and> (length T \<le> CFE_PLATFORM_ES_SYSTEM_LOG_SIZE \<longrightarrow> out = T) \<and> SystemLogWriteIdx l \<le> length out"
proof -
  obtain l T where run: "syslog_run ops (CFE_ES_SysLogClear_Unsync l0, []) = (l, T)" by fastforce
  have inv: "syslog_inv l T" using syslog_inv_run [OF syslog_inv_clear [OF assms(1)], of ops] run by simp
  then have R: "ring (SystemLogWriteIdx l) (SystemLogEndIdx l) (SystemLog l) T" by (simp add: syslog_inv_def)
  from ReadStart_text [OF R refl refl refl] obtain pre out where out: "T = pre @ out" "at_line_start pre"
    "SystemLogWriteIdx l = SystemLogEndIdx l \<longrightarrow> out = take (SystemLogWriteIdx l) (SystemLog l)"
    "SystemLogWriteIdx l \<le> length out" "unread (SystemLog l) (CFE_ES_SysLogReadStart_Unsync l) = out"
    "SizeLeft (CFE_ES_SysLogReadStart_Unsync l) \<le> SystemLogEndIdx l" by blast
  have buf: "Buf_EndIdx (CFE_ES_SysLogReadStart_Unsync l) = SystemLogEndIdx l"
    by (simp add: CFE_ES_SysLogReadStart_Unsync_def split: prod.split)
  have E: "SystemLogEndIdx l \<le> length (SystemLog l)" "length (SystemLog l) = 3072" using R by (auto simp: ring_def)
  let ?b = "CFE_ES_SysLogReadData (SystemLog l) (CFE_ES_SysLogReadStart_Unsync l)"
  let ?d = "\<lparr>File = [], Writes = 0, TotalSize = nat hdr, LastReqSize = 64, Status = hdr\<rparr>"
  note rd = ReadData_reads [of "CFE_ES_SysLogReadStart_Unsync l" "SystemLog l", unfolded buf, OF E(1) out(6)]
  have "SizeLeft ?b = 0" if "BlockSize ?b = 0"
    using that rd(3) SizeLeft_ReadData [of "SystemLog l" "CFE_ES_SysLogReadStart_Unsync l"] by (simp add: min_def split: if_splits)
  then have "File (Dump_loop wr (\<lambda>_. l) 0 ?b ?d) = out \<and> 0 < Status (Dump_loop wr (\<lambda>_. l) 0 ?b ?d)"
    using Dump_loop_all [OF assms(4), of ?b l ?d 0] rd E(1) assms(3) out(5) by simp
  then have "CFE_ES_SysLogDump fd hdr wr (\<lambda>_. l) = (CFE_SUCCESS, Log_Written (TotalSize (Dump_loop wr (\<lambda>_. l) 0 ?b ?d)), out)"
    using assms(2, 3) by (simp add: CFE_ES_SysLogDump_def Let_def)
  moreover have "out = T" if "length T \<le> 3072"
  proof -
    have "SystemLogWriteIdx l = length T" "SystemLogEndIdx l = length T" using that inv by (simp_all add: syslog_inv_def)
    then have "length out = length T" using out(3) E by simp
    then show ?thesis using out(1) by simp
  qed
  moreover have "\<exists>pre. T = pre @ out \<and> at_line_start pre" using out(1, 2) by blast
  ultimately show ?thesis using out(4) by (simp add: run)
qed

definition demo_syslog :: CFE_ES_SysLog where
  "demo_syslog = \<lparr>SystemLog = replicate 3072 0, SystemLogWriteIdx = 5, SystemLogEndIdx = 9, SystemLogMode = 1,
     SystemLogEntryNum = 3\<rparr>"

lemma demo_syslog_text:
  "snd (syslog_run [Op_SetMode 0, Op_Append [65, 66, newline], Op_Append [67, newline]]
     (CFE_ES_SysLogClear_Unsync demo_syslog, [])) = [65, 66, newline, 67, newline]"
  by (simp add: syslog_run_def demo_syslog_def kept_text_def Append_plan_def CFE_ES_SysLogAppend_Unsync_def
      CFE_ES_SysLogSetMode_def CFE_ES_SysLogClear_Unsync_def)

theorem CFE_ES_SysLogDump_text_witness:
  "case syslog_run [Op_SetMode 0, Op_Append [65, 66, newline], Op_Append [67, newline]]
      (CFE_ES_SysLogClear_Unsync demo_syslog, []) of (l, T) \<Rightarrow>
    case CFE_ES_SysLogDump 3 64 (\<lambda>k n. 1) (\<lambda>_. l) of (st, ev, out) \<Rightarrow>
      st = CFE_SUCCESS \<and> out = [65, 66, newline, 67, newline]"
  using CFE_ES_SysLogDump_text [of demo_syslog 3 64 "\<lambda>k n. 1"
      "[Op_SetMode 0, Op_Append [65, 66, newline], Op_Append [67, newline]]"] demo_syslog_text
  by (auto simp: demo_syslog_def writes_progress_def split: prod.splits)

end
