(* ===== verification/SC_State.thy ===== *)
theory SC_State
  imports TIME_Math
begin

text \<open>
  The stored command application (\<^verbatim>\<open>apps/sc\<close>): its data (\<^verbatim>\<open>sc_app.h\<close>, \<^verbatim>\<open>sc_tbldefs.h\<close>, \<^verbatim>\<open>sc_msg.h\<close>) and
  the routines of \<^verbatim>\<open>sc_utils.c\<close>.  The application sends the commands of two absolute time sequences
  (ATS A and B) and of 64 relative time sequences (RTS) when their time has come.

  \<^item> What the code keeps in arrays over the ATS index is one record \<open>sc_ats\<close> per ATS, and likewise
    \<open>sc_rts\<close> per RTS.  A table is the list of its 16-bit words; the table of a sequence that was
    never loaded (a \<^verbatim>\<open>NULL\<close> address) is empty.
  \<^item> Every operation returns an option: \<open>None\<close> is an access outside of an array or of a table.
  \<^item> \<open>ScTrace\<close> lists, newest first, the events (identifier and arguments, without the return code of a
    failed \<^verbatim>\<open>CFE_SB_SendMsg\<close>), the messages sent and the
    calls of table services.  A message sent from a sequence is tagged with the sequence and,
    for an ATS, the index of the command, for an RTS, its offset.
  \<^item> What the application calls is the record \<open>sc_env\<close>: the time, the results of \<^verbatim>\<open>CFE_SB_SendMsg\<close>, and
    the result of \<^verbatim>\<open>CFE_TBL_GetAddress\<close> with the words found at the address.
\<close>

unbundle bit_operations_syntax

section \<open>Constants\<close>

abbreviation (input) SC_MAX_CMDS_PER_SEC :: u16 where "SC_MAX_CMDS_PER_SEC \<equiv> 8"
abbreviation (input) SC_NUMBER_OF_RTS :: nat where "SC_NUMBER_OF_RTS \<equiv> 64"
abbreviation (input) SC_NUMBER_OF_ATS :: nat where "SC_NUMBER_OF_ATS \<equiv> 2"
abbreviation (input) SC_ATS_BUFF_SIZE :: nat where "SC_ATS_BUFF_SIZE \<equiv> 8000"
abbreviation (input) SC_APPEND_BUFF_SIZE :: nat where "SC_APPEND_BUFF_SIZE \<equiv> 4000"
abbreviation (input) SC_RTS_BUFF_SIZE :: nat where "SC_RTS_BUFF_SIZE \<equiv> 150"
abbreviation (input) SC_MAX_ATS_CMDS :: nat where "SC_MAX_ATS_CMDS \<equiv> 1000"
abbreviation (input) SC_LAST_RTS_WITH_EVENTS :: nat where "SC_LAST_RTS_WITH_EVENTS \<equiv> 20"
abbreviation (input) SC_PACKET_MIN_SIZE :: nat where "SC_PACKET_MIN_SIZE \<equiv> 8"
abbreviation (input) SC_PACKET_MAX_SIZE :: nat where "SC_PACKET_MAX_SIZE \<equiv> 250"
abbreviation (input) SC_MAX_TIME :: u32 where "SC_MAX_TIME \<equiv> 0xFFFFFFFF"
abbreviation (input) SC_CMD_MID :: u16 where "SC_CMD_MID \<equiv> 0x18A9"
abbreviation (input) SC_SEND_HK_MID :: u16 where "SC_SEND_HK_MID \<equiv> 0x18AA"
abbreviation (input) SC_1HZ_WAKEUP_MID :: u16 where "SC_1HZ_WAKEUP_MID \<equiv> 0x18AB"
abbreviation (input) SC_HK_TLM_MID :: u16 where "SC_HK_TLM_MID \<equiv> 0x08AA"
abbreviation (input) SC_NO_ATS :: u8 where "SC_NO_ATS \<equiv> 0"
abbreviation (input) SC_ATSA :: u8 where "SC_ATSA \<equiv> 1"
abbreviation (input) SC_ATSB :: u8 where "SC_ATSB \<equiv> 2"
abbreviation (input) SC_INVALID_RTS_NUMBER :: u16 where "SC_INVALID_RTS_NUMBER \<equiv> 0"
abbreviation (input) SC_ERROR :: int where "SC_ERROR \<equiv> - 1"
abbreviation (input) SC_DUP_TEST_UNUSED :: int where "SC_DUP_TEST_UNUSED \<equiv> - 1"

text \<open>An ATS entry is a command number, two time words and a command packet; an RTS entry is one time
  word and a command packet.  Sizes in 16-bit words: with the 8-byte packet header, and without.\<close>

abbreviation (input) SC_ATS_HDR_WORDS :: nat where "SC_ATS_HDR_WORDS \<equiv> 7"
abbreviation (input) SC_ATS_HDR_NOPKT_WORDS :: nat where "SC_ATS_HDR_NOPKT_WORDS \<equiv> 3"
abbreviation (input) SC_ATS_HEADER_SIZE :: nat where "SC_ATS_HEADER_SIZE \<equiv> 6"
abbreviation (input) SC_RTS_HDR_WORDS :: nat where "SC_RTS_HDR_WORDS \<equiv> 5"
abbreviation (input) SC_RTS_HEADER_SIZE :: u16 where "SC_RTS_HEADER_SIZE \<equiv> 2"

text \<open>The event identifiers (\<^verbatim>\<open>sc_events.h\<close>).\<close>

abbreviation (input) SC_LEN_ERR_EID :: u16 where "SC_LEN_ERR_EID \<equiv> 2"
abbreviation (input) SC_INIT_SB_CREATE_ERR_EID :: u16 where "SC_INIT_SB_CREATE_ERR_EID \<equiv> 3"
abbreviation (input) SC_INIT_SB_SUBSCRIBE_HK_ERR_EID :: u16 where "SC_INIT_SB_SUBSCRIBE_HK_ERR_EID \<equiv> 4"
abbreviation (input) SC_INIT_SB_SUBSCRIBE_1HZ_ERR_EID :: u16 where "SC_INIT_SB_SUBSCRIBE_1HZ_ERR_EID \<equiv> 5"
abbreviation (input) SC_INIT_SB_SUBSCRIBE_CMD_ERR_EID :: u16 where "SC_INIT_SB_SUBSCRIBE_CMD_ERR_EID \<equiv> 6"
abbreviation (input) SC_INIT_INF_EID :: u16 where "SC_INIT_INF_EID \<equiv> 9"
abbreviation (input) SC_REGISTER_RTS_TBL_ERR_EID :: u16 where "SC_REGISTER_RTS_TBL_ERR_EID \<equiv> 10"
abbreviation (input) SC_REGISTER_ATS_TBL_ERR_EID :: u16 where "SC_REGISTER_ATS_TBL_ERR_EID \<equiv> 11"
abbreviation (input) SC_REGISTER_RTS_INFO_TABLE_ERR_EID :: u16 where "SC_REGISTER_RTS_INFO_TABLE_ERR_EID \<equiv> 16"
abbreviation (input) SC_REGISTER_RTS_CTRL_BLK_TABLE_ERR_EID :: u16 where "SC_REGISTER_RTS_CTRL_BLK_TABLE_ERR_EID \<equiv> 17"
abbreviation (input) SC_REGISTER_ATS_INFO_TABLE_ERR_EID :: u16 where "SC_REGISTER_ATS_INFO_TABLE_ERR_EID \<equiv> 18"
abbreviation (input) SC_REGISTER_ATS_CTRL_BLK_TABLE_ERR_EID :: u16 where "SC_REGISTER_ATS_CTRL_BLK_TABLE_ERR_EID \<equiv> 19"
abbreviation (input) SC_REGISTER_ATS_CMD_STATUS_TABLE_ERR_EID :: u16 where "SC_REGISTER_ATS_CMD_STATUS_TABLE_ERR_EID \<equiv> 20"
abbreviation (input) SC_RTS_LOAD_COUNT_INFO_EID :: u16 where "SC_RTS_LOAD_COUNT_INFO_EID \<equiv> 21"
abbreviation (input) SC_STARTATS_CMD_INF_EID :: u16 where "SC_STARTATS_CMD_INF_EID \<equiv> 23"
abbreviation (input) SC_STARTATS_CMD_NOT_LDED_ERR_EID :: u16 where "SC_STARTATS_CMD_NOT_LDED_ERR_EID \<equiv> 24"
abbreviation (input) SC_STARTATS_CMD_NOT_IDLE_ERR_EID :: u16 where "SC_STARTATS_CMD_NOT_IDLE_ERR_EID \<equiv> 25"
abbreviation (input) SC_STARTATS_CMD_INVLD_ID_ERR_EID :: u16 where "SC_STARTATS_CMD_INVLD_ID_ERR_EID \<equiv> 26"
abbreviation (input) SC_STOPATS_CMD_INF_EID :: u16 where "SC_STOPATS_CMD_INF_EID \<equiv> 27"
abbreviation (input) SC_STOPATS_NO_ATS_INF_EID :: u16 where "SC_STOPATS_NO_ATS_INF_EID \<equiv> 28"
abbreviation (input) SC_ATS_SKP_ALL_ERR_EID :: u16 where "SC_ATS_SKP_ALL_ERR_EID \<equiv> 29"
abbreviation (input) SC_ATS_ERR_SKP_DBG_EID :: u16 where "SC_ATS_ERR_SKP_DBG_EID \<equiv> 30"
abbreviation (input) SC_SWITCH_ATS_CMD_INF_EID :: u16 where "SC_SWITCH_ATS_CMD_INF_EID \<equiv> 31"
abbreviation (input) SC_SWITCH_ATS_CMD_NOT_LDED_ERR_EID :: u16 where "SC_SWITCH_ATS_CMD_NOT_LDED_ERR_EID \<equiv> 32"
abbreviation (input) SC_SWITCH_ATS_CMD_IDLE_ERR_EID :: u16 where "SC_SWITCH_ATS_CMD_IDLE_ERR_EID \<equiv> 33"
abbreviation (input) SC_ATS_SERVICE_SWTCH_INF_EID :: u16 where "SC_ATS_SERVICE_SWTCH_INF_EID \<equiv> 34"
abbreviation (input) SC_SERVICE_SWITCH_ATS_CMD_LDED_ERR_EID :: u16 where "SC_SERVICE_SWITCH_ATS_CMD_LDED_ERR_EID \<equiv> 35"
abbreviation (input) SC_ATS_SERVICE_SWITCH_IDLE_ERR_EID :: u16 where "SC_ATS_SERVICE_SWITCH_IDLE_ERR_EID \<equiv> 36"
abbreviation (input) SC_ATS_INLINE_SWTCH_INF_EID :: u16 where "SC_ATS_INLINE_SWTCH_INF_EID \<equiv> 37"
abbreviation (input) SC_ATS_INLINE_SWTCH_NOT_LDED_ERR_EID :: u16 where "SC_ATS_INLINE_SWTCH_NOT_LDED_ERR_EID \<equiv> 38"
abbreviation (input) SC_JUMPATS_CMD_STOPPED_ERR_EID :: u16 where "SC_JUMPATS_CMD_STOPPED_ERR_EID \<equiv> 39"
abbreviation (input) SC_JUMP_ATS_INF_EID :: u16 where "SC_JUMP_ATS_INF_EID \<equiv> 40"
abbreviation (input) SC_JUMPATS_CMD_NOT_ACT_ERR_EID :: u16 where "SC_JUMPATS_CMD_NOT_ACT_ERR_EID \<equiv> 41"
abbreviation (input) SC_CONT_CMD_ERR_EID :: u16 where "SC_CONT_CMD_ERR_EID \<equiv> 42"
abbreviation (input) SC_CONT_CMD_DEB_EID :: u16 where "SC_CONT_CMD_DEB_EID \<equiv> 43"
abbreviation (input) SC_ATS_CHKSUM_ERR_EID :: u16 where "SC_ATS_CHKSUM_ERR_EID \<equiv> 44"
abbreviation (input) SC_ATS_ABT_ERR_EID :: u16 where "SC_ATS_ABT_ERR_EID \<equiv> 45"
abbreviation (input) SC_ATS_DIST_ERR_EID :: u16 where "SC_ATS_DIST_ERR_EID \<equiv> 46"
abbreviation (input) SC_ATS_MSMTCH_ERR_EID :: u16 where "SC_ATS_MSMTCH_ERR_EID \<equiv> 47"
abbreviation (input) SC_ATS_SKP_ERR_EID :: u16 where "SC_ATS_SKP_ERR_EID \<equiv> 48"
abbreviation (input) SC_RTS_DIST_ERR_EID :: u16 where "SC_RTS_DIST_ERR_EID \<equiv> 49"
abbreviation (input) SC_RTS_CHKSUM_ERR_EID :: u16 where "SC_RTS_CHKSUM_ERR_EID \<equiv> 50"
abbreviation (input) SC_RESET_DEB_EID :: u16 where "SC_RESET_DEB_EID \<equiv> 51"
abbreviation (input) SC_NOOP_INF_EID :: u16 where "SC_NOOP_INF_EID \<equiv> 52"
abbreviation (input) SC_RTS_INVLD_MID_ERR_EID :: u16 where "SC_RTS_INVLD_MID_ERR_EID \<equiv> 59"
abbreviation (input) SC_RTS_LEN_ERR_EID :: u16 where "SC_RTS_LEN_ERR_EID \<equiv> 60"
abbreviation (input) SC_RTS_LEN_BUFFER_ERR_EID :: u16 where "SC_RTS_LEN_BUFFER_ERR_EID \<equiv> 61"
abbreviation (input) SC_RTS_LEN_TOO_LONG_ERR_EID :: u16 where "SC_RTS_LEN_TOO_LONG_ERR_EID \<equiv> 62"
abbreviation (input) SC_MID_ERR_EID :: u16 where "SC_MID_ERR_EID \<equiv> 63"
abbreviation (input) SC_INVLD_CMD_ERR_EID :: u16 where "SC_INVLD_CMD_ERR_EID \<equiv> 64"
abbreviation (input) SC_GET_ADDRESS_RTS_INFO_ERR_EID :: u16 where "SC_GET_ADDRESS_RTS_INFO_ERR_EID \<equiv> 65"
abbreviation (input) SC_GET_ADDRESS_RTS_CTRL_BLCK_ERR_EID :: u16 where "SC_GET_ADDRESS_RTS_CTRL_BLCK_ERR_EID \<equiv> 66"
abbreviation (input) SC_GET_ADDRESS_ATS_INFO_ERR_EID :: u16 where "SC_GET_ADDRESS_ATS_INFO_ERR_EID \<equiv> 67"
abbreviation (input) SC_GET_ADDRESS_ATS_CTRL_BLCK_ERR_EID :: u16 where "SC_GET_ADDRESS_ATS_CTRL_BLCK_ERR_EID \<equiv> 68"
abbreviation (input) SC_GET_ADDRESS_ATS_CMD_STAT_ERR_EID :: u16 where "SC_GET_ADDRESS_ATS_CMD_STAT_ERR_EID \<equiv> 69"
abbreviation (input) SC_GET_ADDRESS_RTS_ERR_EID :: u16 where "SC_GET_ADDRESS_RTS_ERR_EID \<equiv> 70"
abbreviation (input) SC_GET_ADDRESS_ATS_ERR_EID :: u16 where "SC_GET_ADDRESS_ATS_ERR_EID \<equiv> 71"
abbreviation (input) SC_STARTRTS_CMD_DBG_EID :: u16 where "SC_STARTRTS_CMD_DBG_EID \<equiv> 72"
abbreviation (input) SC_RTS_START_INF_EID :: u16 where "SC_RTS_START_INF_EID \<equiv> 73"
abbreviation (input) SC_STARTRTS_CMD_INVLD_LEN_ERR_EID :: u16 where "SC_STARTRTS_CMD_INVLD_LEN_ERR_EID \<equiv> 74"
abbreviation (input) SC_STARTRTS_CMD_NOT_LDED_ERR_EID :: u16 where "SC_STARTRTS_CMD_NOT_LDED_ERR_EID \<equiv> 75"
abbreviation (input) SC_STARTRTS_CMD_DISABLED_ERR_EID :: u16 where "SC_STARTRTS_CMD_DISABLED_ERR_EID \<equiv> 76"
abbreviation (input) SC_STARTRTS_CMD_INVALID_ERR_EID :: u16 where "SC_STARTRTS_CMD_INVALID_ERR_EID \<equiv> 77"
abbreviation (input) SC_STOPRTS_CMD_INF_EID :: u16 where "SC_STOPRTS_CMD_INF_EID \<equiv> 78"
abbreviation (input) SC_STOPRTS_CMD_ERR_EID :: u16 where "SC_STOPRTS_CMD_ERR_EID \<equiv> 79"
abbreviation (input) SC_DISABLE_RTS_DEB_EID :: u16 where "SC_DISABLE_RTS_DEB_EID \<equiv> 80"
abbreviation (input) SC_DISRTS_CMD_ERR_EID :: u16 where "SC_DISRTS_CMD_ERR_EID \<equiv> 81"
abbreviation (input) SC_ENABLE_RTS_DEB_EID :: u16 where "SC_ENABLE_RTS_DEB_EID \<equiv> 82"
abbreviation (input) SC_ENARTS_CMD_ERR_EID :: u16 where "SC_ENARTS_CMD_ERR_EID \<equiv> 83"
abbreviation (input) SC_RTS_LNGTH_ERR_EID :: u16 where "SC_RTS_LNGTH_ERR_EID \<equiv> 84"
abbreviation (input) SC_RTS_CMD_LNGTH_ERR_EID :: u16 where "SC_RTS_CMD_LNGTH_ERR_EID \<equiv> 85"
abbreviation (input) SC_RTS_COMPL_INF_EID :: u16 where "SC_RTS_COMPL_INF_EID \<equiv> 86"
abbreviation (input) SC_ATS_COMPL_INF_EID :: u16 where "SC_ATS_COMPL_INF_EID \<equiv> 87"
abbreviation (input) SC_JUMP_ATS_SKIPPED_DBG_EID :: u16 where "SC_JUMP_ATS_SKIPPED_DBG_EID \<equiv> 88"
abbreviation (input) SC_REGISTER_APPEND_INFO_TABLE_ERR_EID :: u16 where "SC_REGISTER_APPEND_INFO_TABLE_ERR_EID \<equiv> 90"
abbreviation (input) SC_GET_ADDRESS_APPEND_INFO_ERR_EID :: u16 where "SC_GET_ADDRESS_APPEND_INFO_ERR_EID \<equiv> 91"
abbreviation (input) SC_GET_ADDRESS_APPEND_ERR_EID :: u16 where "SC_GET_ADDRESS_APPEND_ERR_EID \<equiv> 92"
abbreviation (input) SC_REGISTER_APPEND_TBL_ERR_EID :: u16 where "SC_REGISTER_APPEND_TBL_ERR_EID \<equiv> 93"
abbreviation (input) SC_UPDATE_APPEND_EID :: u16 where "SC_UPDATE_APPEND_EID \<equiv> 97"
abbreviation (input) SC_APPEND_CMD_INF_EID :: u16 where "SC_APPEND_CMD_INF_EID \<equiv> 98"
abbreviation (input) SC_APPEND_CMD_ARG_ERR_EID :: u16 where "SC_APPEND_CMD_ARG_ERR_EID \<equiv> 99"
abbreviation (input) SC_APPEND_CMD_TGT_ERR_EID :: u16 where "SC_APPEND_CMD_TGT_ERR_EID \<equiv> 100"
abbreviation (input) SC_APPEND_CMD_SRC_ERR_EID :: u16 where "SC_APPEND_CMD_SRC_ERR_EID \<equiv> 101"
abbreviation (input) SC_APPEND_CMD_FIT_ERR_EID :: u16 where "SC_APPEND_CMD_FIT_ERR_EID \<equiv> 102"
abbreviation (input) SC_VERIFY_ATS_EID :: u16 where "SC_VERIFY_ATS_EID \<equiv> 103"
abbreviation (input) SC_VERIFY_ATS_NUM_ERR_EID :: u16 where "SC_VERIFY_ATS_NUM_ERR_EID \<equiv> 104"
abbreviation (input) SC_VERIFY_ATS_END_ERR_EID :: u16 where "SC_VERIFY_ATS_END_ERR_EID \<equiv> 105"
abbreviation (input) SC_VERIFY_ATS_PKT_ERR_EID :: u16 where "SC_VERIFY_ATS_PKT_ERR_EID \<equiv> 106"
abbreviation (input) SC_VERIFY_ATS_BUF_ERR_EID :: u16 where "SC_VERIFY_ATS_BUF_ERR_EID \<equiv> 107"
abbreviation (input) SC_VERIFY_ATS_DUP_ERR_EID :: u16 where "SC_VERIFY_ATS_DUP_ERR_EID \<equiv> 109"
abbreviation (input) SC_VERIFY_ATS_MPT_ERR_EID :: u16 where "SC_VERIFY_ATS_MPT_ERR_EID \<equiv> 110"
abbreviation (input) SC_TABLE_MANAGE_ID_ERR_EID :: u16 where "SC_TABLE_MANAGE_ID_ERR_EID \<equiv> 111"
abbreviation (input) SC_TABLE_MANAGE_RTS_ERR_EID :: u16 where "SC_TABLE_MANAGE_RTS_ERR_EID \<equiv> 112"
abbreviation (input) SC_TABLE_MANAGE_ATS_ERR_EID :: u16 where "SC_TABLE_MANAGE_ATS_ERR_EID \<equiv> 113"
abbreviation (input) SC_TABLE_MANAGE_APPEND_ERR_EID :: u16 where "SC_TABLE_MANAGE_APPEND_ERR_EID \<equiv> 114"
abbreviation (input) SC_STARTRTSGRP_CMD_INF_EID :: u16 where "SC_STARTRTSGRP_CMD_INF_EID \<equiv> 115"
abbreviation (input) SC_STARTRTSGRP_CMD_ERR_EID :: u16 where "SC_STARTRTSGRP_CMD_ERR_EID \<equiv> 116"
abbreviation (input) SC_STOPRTSGRP_CMD_INF_EID :: u16 where "SC_STOPRTSGRP_CMD_INF_EID \<equiv> 117"
abbreviation (input) SC_STOPRTSGRP_CMD_ERR_EID :: u16 where "SC_STOPRTSGRP_CMD_ERR_EID \<equiv> 118"
abbreviation (input) SC_DISRTSGRP_CMD_INF_EID :: u16 where "SC_DISRTSGRP_CMD_INF_EID \<equiv> 119"
abbreviation (input) SC_DISRTSGRP_CMD_ERR_EID :: u16 where "SC_DISRTSGRP_CMD_ERR_EID \<equiv> 120"
abbreviation (input) SC_ENARTSGRP_CMD_INF_EID :: u16 where "SC_ENARTSGRP_CMD_INF_EID \<equiv> 121"
abbreviation (input) SC_ENARTSGRP_CMD_ERR_EID :: u16 where "SC_ENARTSGRP_CMD_ERR_EID \<equiv> 122"

section \<open>Data\<close>

datatype SC_Status =
    SC_EMPTY | SC_LOADED | SC_IDLE | SC_EXECUTED | SC_SKIPPED | SC_EXECUTING
  | SC_FAILED_CHECKSUM | SC_FAILED_DISTRIB | SC_STARTING

text \<open>The value that an event reports for a status.\<close>

fun status_num :: "SC_Status \<Rightarrow> int" where
  "status_num SC_EMPTY = 0" | "status_num SC_LOADED = 1" | "status_num SC_IDLE = 2"
| "status_num SC_EXECUTED = 3" | "status_num SC_SKIPPED = 4" | "status_num SC_EXECUTING = 5"
| "status_num SC_FAILED_CHECKSUM = 6" | "status_num SC_FAILED_DISTRIB = 7" | "status_num SC_STARTING = 8"

datatype SC_Proc = SC_ATP | SC_RTP | SC_NONE

record sc_ats =
  AtsTbl :: "u16 list"
  AtsUseCtr :: u16
  NumberOfCommands :: u16
  AtsSize :: u32
  AtsCmdStatus :: "SC_Status list"
  AtsTimeIndexBuffer :: "u16 list"
  AtsCmdIndexBuffer :: "int list"

record sc_rts =
  RtsTbl :: "u16 list"
  RtsStatus :: SC_Status
  DisabledFlag :: bool
  Rts_CmdCtr :: u8
  Rts_CmdErrCtr :: u8
  NextCommandTime :: u32
  NextCommandPtr :: u16
  UseCtr :: u16

record SC_HkTlm_t =
  Hk_AtsNumber :: u8
  Hk_AtpState :: SC_Status
  Hk_ContinueAtsOnFailureFlag :: bool
  Hk_CmdErrCtr :: u8
  Hk_CmdCtr :: u8
  Hk_SwitchPendFlag :: bool
  Hk_NumRtsActive :: u16
  Hk_RtsNumber :: u16
  Hk_RtsActiveCtr :: u16
  Hk_RtsActiveErrCtr :: u16
  Hk_AtsCmdCtr :: u16
  Hk_AtsCmdErrCtr :: u16
  Hk_RtsCmdCtr :: u16
  Hk_RtsCmdErrCtr :: u16
  Hk_LastAtsErrSeq :: u16
  Hk_LastAtsErrCmd :: u16
  Hk_LastRtsErrSeq :: u16
  Hk_LastRtsErrCmd :: u16
  Hk_AppendCmdArg :: u16
  Hk_AppendEntryCount :: u16
  Hk_AppendByteCount :: u16
  Hk_AppendLoadCount :: u16
  Hk_AtpCmdNumber :: u32
  Hk_AtpFreeBytes :: "u32 list"
  Hk_NextRtsTime :: u32
  Hk_NextAtsTime :: u32
  Hk_RtsExecutingStatus :: "u16 list"
  Hk_RtsDisabledStatus :: "u16 list"

datatype sc_table =
    Tbl_Ats nat | Tbl_Append | Tbl_Rts nat | Tbl_RtsInfo | Tbl_RtpCtrl | Tbl_AtsInfo
  | Tbl_AppendInfo | Tbl_AtpCtrl | Tbl_AtsCmdStatus nat

datatype sc_out =
    SC_Event u16 "int list"
  | Send_Ats nat nat "u16 list"
  | Send_Rts nat nat "u16 list"
  | Send_Hk SC_HkTlm_t
  | Send_StartRts u16
  | TBL_ReleaseAddress sc_table
  | TBL_Manage sc_table
  | TBL_Modified sc_table
  | TBL_Register sc_table
  | TBL_NotifyByMessage sc_table nat
  | SC_SysLog int

record SC_t =
  Ats :: "sc_ats list"
  Rts :: "sc_rts list"
  AtpState :: SC_Status
  AtsNumber :: u8
  CmdNumber :: u32
  TimeIndexPtr :: u16
  SwitchPendFlag :: bool
  NumRtsActive :: u16
  RtsNumber :: u16
  AtsDupTestArray :: "int list"
  NumCmdsSec :: u16
  ContinueAtsOnFailureFlag :: bool
  NextProcNumber :: SC_Proc
  NextAtpTime :: u32
  NextRtpTime :: u32
  CurrentTime :: u32
  Sc_CmdErrCtr :: u16
  Sc_CmdCtr :: u16
  RtsActiveErrCtr :: u16
  RtsActiveCtr :: u16
  AtsCmdCtr :: u16
  AtsCmdErrCtr :: u16
  RtsCmdCtr :: u16
  RtsCmdErrCtr :: u16
  LastAtsErrSeq :: u16
  LastAtsErrCmd :: u16
  LastRtsErrSeq :: u16
  LastRtsErrCmd :: u16
  AppendTbl :: "u16 list"
  AppendCmdArg :: u16
  AppendEntryCount :: u16
  AppendWordCount :: u16
  AppendLoadCount :: u16
  AutoStartRTS :: u16
  SbCalls :: nat
  ScTrace :: "sc_out list"

datatype tbl_status = TBL_SUCCESS | TBL_INFO_UPDATED | TBL_ERR_NEVER_LOADED | TBL_ERROR int

record sc_env =
  Env_Time :: u32
  Env_SendMsg :: "nat \<Rightarrow> CFE_Status"
  Env_Table :: "tbl_status \<times> u16 list"

definition sc_emit :: "sc_out \<Rightarrow> SC_t \<Rightarrow> SC_t" where
  "sc_emit e s = s\<lparr>ScTrace := e # ScTrace s\<rparr>"

abbreviation sc_event :: "u16 \<Rightarrow> int list \<Rightarrow> SC_t \<Rightarrow> SC_t" where
  "sc_event eid args \<equiv> sc_emit (SC_Event eid args)"

definition cmd_counted :: "SC_t \<Rightarrow> SC_t" where
  "cmd_counted s = s\<lparr>Sc_CmdCtr := Sc_CmdCtr s + 1\<rparr>"

definition cmd_error :: "SC_t \<Rightarrow> SC_t" where
  "cmd_error s = s\<lparr>Sc_CmdErrCtr := Sc_CmdErrCtr s + 1\<rparr>"

section \<open>Arrays and tables\<close>

definition arr_get :: "'a list \<Rightarrow> nat \<Rightarrow> 'a option" where
  "arr_get xs i = (if i < length xs then Some (xs ! i) else None)"

definition arr_set :: "'a list \<Rightarrow> nat \<Rightarrow> 'a \<Rightarrow> 'a list option" where
  "arr_set xs i v = (if i < length xs then Some (xs[i := v]) else None)"

definition get_ats :: "nat \<Rightarrow> SC_t \<Rightarrow> sc_ats option" where
  "get_ats AtsIndex s = arr_get (Ats s) AtsIndex"

definition set_ats :: "nat \<Rightarrow> sc_ats \<Rightarrow> SC_t \<Rightarrow> SC_t option" where
  "set_ats AtsIndex a s = map_option (\<lambda>l. s\<lparr>Ats := l\<rparr>) (arr_set (Ats s) AtsIndex a)"

definition get_rts :: "nat \<Rightarrow> SC_t \<Rightarrow> sc_rts option" where
  "get_rts RtsIndex s = arr_get (Rts s) RtsIndex"

definition set_rts :: "nat \<Rightarrow> sc_rts \<Rightarrow> SC_t \<Rightarrow> SC_t option" where
  "set_rts RtsIndex r s = map_option (\<lambda>l. s\<lparr>Rts := l\<rparr>) (arr_set (Rts s) RtsIndex r)"

text \<open>The bytes of a table, and the packet that begins at word \<open>i\<close> of it.  The functions below read a
  packet in a table: its length (bytes 4 and 5), its identifier (bytes 0 and 1), its function code, its
  checksum and the words that are sent, each only where all bytes it reads are in the table.\<close>

definition tbl_byte :: "u16 list \<Rightarrow> nat \<Rightarrow> u8" where
  "tbl_byte t n = (if even n then lo8 (t ! (n div 2)) else hi8 (t ! (n div 2)))"

definition tbl_pkt :: "u16 list \<Rightarrow> nat \<Rightarrow> bytes" where
  "tbl_pkt t i = (\<lambda>n. tbl_byte t (2 * i + n))"

definition pkt_length :: "u16 list \<Rightarrow> nat \<Rightarrow> u16 option" where
  "pkt_length t i = (if i + 2 < length t then Some (CFE_SB_GetTotalMsgLength (tbl_pkt t i)) else None)"

definition pkt_msgid :: "u16 list \<Rightarrow> nat \<Rightarrow> u16 option" where
  "pkt_msgid t i = (if i < length t then Some (CFE_SB_GetMsgId (tbl_pkt t i)) else None)"

definition pkt_cmdcode :: "u16 list \<Rightarrow> nat \<Rightarrow> u16 option" where
  "pkt_cmdcode t i = (if i + 3 < length t then Some (CFE_SB_GetCmdCode (tbl_pkt t i)) else None)"

definition pkt_fits :: "u16 list \<Rightarrow> nat \<Rightarrow> bool" where
  "pkt_fits t i \<longleftrightarrow> 2 * i + unat (CFE_SB_GetTotalMsgLength (tbl_pkt t i)) \<le> 2 * length t"

definition pkt_checksum :: "u16 list \<Rightarrow> nat \<Rightarrow> bool option" where
  "pkt_checksum t i =
     (if length t \<le> i + 2 then None
      else if CCSDS_RD_TYPE (tbl_pkt t i) = CCSDS_TLM \<or> CCSDS_RD_SHDR (tbl_pkt t i) = 0 then Some False
      else if pkt_fits t i then Some (CFE_SB_ValidateChecksum (tbl_pkt t i)) else None)"

definition pkt_words :: "u16 list \<Rightarrow> nat \<Rightarrow> u16 list option" where
  "pkt_words t i =
     (if i + 2 < length t \<and> pkt_fits t i
      then Some (take ((unat (CFE_SB_GetTotalMsgLength (tbl_pkt t i)) + 1) div 2) (drop i t)) else None)"

section \<open>Utilities (sc_utils.c)\<close>

definition SC_GetCurrentTime :: "sc_env \<Rightarrow> SC_t \<Rightarrow> SC_t" where
  "SC_GetCurrentTime env s = s\<lparr>CurrentTime := Env_Time env\<rparr>"

definition SC_GetAtsEntryTime :: "u16 list \<Rightarrow> nat \<Rightarrow> u32 option" where
  "SC_GetAtsEntryTime t i = (if i + 2 < length t then Some (get_le32 2 (tbl_pkt t i)) else None)"

definition SC_ComputeAbsTime :: "u16 \<Rightarrow> SC_t \<Rightarrow> u32" where
  "SC_ComputeAbsTime RelTime s =
     Seconds (CFE_TIME_Add (sys_time (CurrentTime s) 0) (sys_time (ucast RelTime) 0))"

definition SC_CompareAbsTime :: "u32 \<Rightarrow> u32 \<Rightarrow> bool" where
  "SC_CompareAbsTime AbsTime1 AbsTime2 \<longleftrightarrow>
     CFE_TIME_Compare (sys_time AbsTime1 0) (sys_time AbsTime2 0) = CFE_TIME_A_GT_B"

definition SC_VerifyCmdLength :: "bytes \<Rightarrow> u16 \<Rightarrow> SC_t \<Rightarrow> bool \<times> SC_t" where
  "SC_VerifyCmdLength msg ExpectedLength s =
     (let ActualLength = CFE_SB_GetTotalMsgLength msg in
      if ExpectedLength \<noteq> ActualLength
      then let CommandCode = CFE_SB_GetCmdCode msg; MessageID = CFE_SB_GetMsgId msg;
               s = sc_event SC_LEN_ERR_EID
                     [uint MessageID, uint CommandCode, uint ActualLength, uint ExpectedLength] s
           in (False, if MessageID = SC_CMD_MID then cmd_error s else s)
      else (True, s))"

end
