(* ===== verification/SC_Loads.thy ===== *)
theory SC_Loads
  imports SC_State
begin

text \<open>
  Stored commands: loading sequences (\<^verbatim>\<open>sc_loads.c\<close>), with \<^verbatim>\<open>SC_KillAts\<close> and \<^verbatim>\<open>SC_BeginAts\<close> of
  \<^verbatim>\<open>sc_atsrq.c\<close>, which the append operation calls.  The loops over a table are recursive functions on the
  word index; a loop that runs over all command numbers is a recursion on the list of the indices.
\<close>

section \<open>The tables of an ATS\<close>

definition SC_InitAtsTables :: "sc_ats \<Rightarrow> sc_ats" where
  "SC_InitAtsTables a =
     a\<lparr>AtsCmdIndexBuffer := replicate SC_MAX_ATS_CMDS SC_ERROR,
       AtsCmdStatus := replicate SC_MAX_ATS_CMDS SC_EMPTY,
       AtsTimeIndexBuffer := replicate SC_MAX_ATS_CMDS 0xFFFF,
       AtsSize := 0, NumberOfCommands := 0\<rparr>"

text \<open>The time of the command with index \<open>c\<close>, as the code finds it through the command index buffer;
  the negative entry of a command that is not loaded leads outside of the table.\<close>

definition ats_cmd_time :: "sc_ats \<Rightarrow> nat \<Rightarrow> u32 option" where
  "ats_cmd_time a c = do {
     EntryIndex \<leftarrow> arr_get (AtsCmdIndexBuffer a) c;
     if EntryIndex < 0 then None else SC_GetAtsEntryTime (AtsTbl a) (nat EntryIndex) }"

text \<open>The loop of \<^verbatim>\<open>SC_Insert\<close>; the argument is \<^verbatim>\<open>TimeBufIndex + 1\<close>, and so is the result.\<close>

fun Insert_loop :: "u32 \<Rightarrow> nat \<Rightarrow> sc_ats \<Rightarrow> (nat \<times> sc_ats) option" where
  "Insert_loop NewCmdTime 0 a = Some (0, a)"
| "Insert_loop NewCmdTime (Suc TimeBufIndex) a = do {
     CmdIndex \<leftarrow> arr_get (AtsTimeIndexBuffer a) TimeBufIndex;
     ListCmdTime \<leftarrow> ats_cmd_time a (unat CmdIndex);
     if SC_CompareAbsTime ListCmdTime NewCmdTime
     then do {
       b \<leftarrow> arr_set (AtsTimeIndexBuffer a) (Suc TimeBufIndex) CmdIndex;
       Insert_loop NewCmdTime TimeBufIndex (a\<lparr>AtsTimeIndexBuffer := b\<rparr>) }
     else Some (Suc TimeBufIndex, a) }"

definition SC_Insert :: "nat \<Rightarrow> nat \<Rightarrow> sc_ats \<Rightarrow> sc_ats option" where
  "SC_Insert NewCmdIndex ListLength a = do {
     NewCmdTime \<leftarrow> (if ListLength > 0 then ats_cmd_time a NewCmdIndex else Some 0);
     (p, a) \<leftarrow> Insert_loop NewCmdTime ListLength a;
     b \<leftarrow> arr_set (AtsTimeIndexBuffer a) p (of_nat NewCmdIndex);
     Some (a\<lparr>AtsTimeIndexBuffer := b\<rparr>) }"

fun Build_loop :: "nat list \<Rightarrow> nat \<Rightarrow> sc_ats \<Rightarrow> sc_ats option" where
  "Build_loop [] ListLength a = Some a"
| "Build_loop (i # is) ListLength a = do {
     EntryIndex \<leftarrow> arr_get (AtsCmdIndexBuffer a) i;
     if EntryIndex \<noteq> SC_ERROR
     then do { a \<leftarrow> SC_Insert i ListLength a; Build_loop is (Suc ListLength) a }
     else Build_loop is ListLength a }"

definition SC_BuildTimeIndexTable :: "sc_ats \<Rightarrow> sc_ats option" where
  "SC_BuildTimeIndexTable a =
     Build_loop [0..<SC_MAX_ATS_CMDS] 0 (a\<lparr>AtsTimeIndexBuffer := replicate SC_MAX_ATS_CMDS 0xFFFF\<rparr>)"

section \<open>Loading an ATS\<close>

definition ats_entry_words :: "u16 \<Rightarrow> nat" where
  "ats_entry_words len = (unat len + 1 + SC_ATS_HEADER_SIZE) div 2"

text \<open>The loop of \<^verbatim>\<open>SC_LoadAts\<close>; the result is whether it ended well, the index it reached and the
  tables of the ATS.\<close>

function LoadAts_loop :: "nat \<Rightarrow> sc_ats \<Rightarrow> (bool \<times> nat \<times> sc_ats) option" where
  "LoadAts_loop AtsEntryIndex a =
     (if AtsEntryIndex < SC_ATS_BUFF_SIZE then do {
        AtsCmdNum \<leftarrow> arr_get (AtsTbl a) AtsEntryIndex;
        if AtsCmdNum = 0 then Some (True, AtsEntryIndex, a)
        else if AtsEntryIndex > SC_ATS_BUFF_SIZE - SC_ATS_HDR_WORDS then Some (False, AtsEntryIndex, a)
        else if unat AtsCmdNum \<le> SC_MAX_ATS_CMDS then do {
          status \<leftarrow> arr_get (AtsCmdStatus a) (unat AtsCmdNum - 1);
          if status = SC_EMPTY then do {
            len \<leftarrow> pkt_length (AtsTbl a) (AtsEntryIndex + SC_ATS_HDR_NOPKT_WORDS);
            if SC_PACKET_MIN_SIZE \<le> unat len \<and> unat len \<le> SC_PACKET_MAX_SIZE then do {
              AtsEntryWords \<leftarrow> Some (ats_entry_words len);
              if AtsEntryIndex + AtsEntryWords \<le> SC_ATS_BUFF_SIZE then do {
                ib \<leftarrow> arr_set (AtsCmdIndexBuffer a) (unat AtsCmdNum - 1) (int AtsEntryIndex);
                sb \<leftarrow> arr_set (AtsCmdStatus a) (unat AtsCmdNum - 1) SC_LOADED;
                LoadAts_loop (AtsEntryIndex + ats_entry_words len)
                  (a\<lparr>AtsCmdIndexBuffer := ib, AtsCmdStatus := sb,
                     NumberOfCommands := NumberOfCommands a + 1\<rparr>) }
              else Some (False, AtsEntryIndex, a) }
            else Some (False, AtsEntryIndex, a) }
          else Some (False, AtsEntryIndex, a) }
        else Some (False, AtsEntryIndex, a) }
      else Some (AtsEntryIndex = SC_ATS_BUFF_SIZE, AtsEntryIndex, a))"
  by pat_completeness auto
termination
  by (relation "measure (\<lambda>(i, a). SC_ATS_BUFF_SIZE - i)") (auto simp: ats_entry_words_def)

declare LoadAts_loop.simps [simp del]

definition SC_LoadAts :: "sc_ats \<Rightarrow> sc_ats option" where
  "SC_LoadAts a = do {
     (ok, AtsEntryIndex, a) \<leftarrow> LoadAts_loop 0 (SC_InitAtsTables a);
     if ok \<and> NumberOfCommands a > 0
     then SC_BuildTimeIndexTable (a\<lparr>AtsSize := of_nat AtsEntryIndex\<rparr>)
     else Some (SC_InitAtsTables a) }"

section \<open>Loading an RTS\<close>

definition SC_LoadRts :: "sc_rts \<Rightarrow> sc_rts" where
  "SC_LoadRts r =
     r\<lparr>RtsStatus := SC_LOADED, UseCtr := 0, Rts_CmdCtr := 0, Rts_CmdErrCtr := 0,
       NextCommandTime := 0, NextCommandPtr := 0, DisabledFlag := True\<rparr>"

lemma rts_entry_words [termination_simp]:
  "\<not> (unat (len::u16) < 8 \<or> 250 < unat len) \<Longrightarrow> unat (len + 2) = unat len + 2"
  by (simp add: unat_word_ariths)

text \<open>The loop of \<^verbatim>\<open>SC_ParseRts\<close>; the result is \<^verbatim>\<open>!Error\<close> and the state with the events.\<close>

function ParseRts_loop :: "nat \<Rightarrow> u16 list \<Rightarrow> SC_t \<Rightarrow> (bool \<times> SC_t) option" where
  "ParseRts_loop i Buffer s =
     (if i \<le> SC_RTS_BUFF_SIZE - SC_RTS_HDR_WORDS then do {
        TimeTag \<leftarrow> arr_get Buffer i;
        mid \<leftarrow> pkt_msgid Buffer (i + 1);
        len \<leftarrow> pkt_length Buffer (i + 1);
        if TimeTag = 0 \<and> mid = 0 then Some (True, s)
        else if mid = 0 then Some (False, sc_event SC_RTS_INVLD_MID_ERR_EID [int i] s)
        else if unat len < SC_PACKET_MIN_SIZE \<or> unat len > SC_PACKET_MAX_SIZE
        then Some (False, sc_event SC_RTS_LEN_ERR_EID [int i, uint len] s)
        else if i + (unat (len + SC_RTS_HEADER_SIZE) + 1) div 2 > SC_RTS_BUFF_SIZE
        then Some (False, sc_event SC_RTS_LEN_BUFFER_ERR_EID [int i] s)
        else if i + (unat (len + SC_RTS_HEADER_SIZE) + 1) div 2 = SC_RTS_BUFF_SIZE
        then Some (True, s)
        else ParseRts_loop (i + (unat (len + SC_RTS_HEADER_SIZE) + 1) div 2) Buffer s }
      else do {
        w \<leftarrow> arr_get Buffer i;
        if w = 0 then Some (True, s)
        else Some (False, sc_event SC_RTS_LEN_TOO_LONG_ERR_EID [int i] s) })"
  by pat_completeness auto
termination
  by (relation "measure (\<lambda>(i, b, s). SC_RTS_BUFF_SIZE - i)") (auto simp: rts_entry_words)

declare ParseRts_loop.simps [simp del]

definition SC_ParseRts :: "u16 list \<Rightarrow> SC_t \<Rightarrow> (bool \<times> SC_t) option" where
  "SC_ParseRts Buffer s = ParseRts_loop 0 Buffer s"

definition SC_ValidateRts :: "u16 list \<Rightarrow> SC_t \<Rightarrow> (bool \<times> SC_t) option" where
  "SC_ValidateRts TableData s = SC_ParseRts TableData s"

section \<open>Verification of ATS tables\<close>

text \<open>The result of \<^verbatim>\<open>SC_VerifyAtsEntry\<close> is \<open>SC_ERROR\<close>, \<open>0\<close> (\<^verbatim>\<open>CFE_SUCCESS\<close>, the end of the table) or the
  size of the entry.\<close>

definition SC_VerifyAtsEntry :: "u16 list \<Rightarrow> nat \<Rightarrow> nat \<Rightarrow> SC_t \<Rightarrow> (int \<times> SC_t) option" where
  "SC_VerifyAtsEntry Buffer EntryIndex BufferWords s =
     (if EntryIndex \<ge> BufferWords then Some (0, s)
      else do {
        CmdNum \<leftarrow> arr_get Buffer EntryIndex;
        if CmdNum = 0 then Some (0, s)
        else if unat CmdNum > SC_MAX_ATS_CMDS
        then Some (SC_ERROR, sc_event SC_VERIFY_ATS_NUM_ERR_EID [int EntryIndex, uint CmdNum] s)
        else if EntryIndex + SC_ATS_HDR_WORDS > BufferWords
        then Some (SC_ERROR,
               sc_event SC_VERIFY_ATS_END_ERR_EID [int EntryIndex, uint CmdNum, int BufferWords] s)
        else do {
          len \<leftarrow> pkt_length Buffer (EntryIndex + SC_ATS_HDR_NOPKT_WORDS);
          let CommandWords = (unat len + 1) div 2 in
          if unat len < SC_PACKET_MIN_SIZE \<or> unat len > SC_PACKET_MAX_SIZE
          then Some (SC_ERROR,
                 sc_event SC_VERIFY_ATS_PKT_ERR_EID [int EntryIndex, uint CmdNum, uint len] s)
          else if EntryIndex + SC_ATS_HDR_NOPKT_WORDS + CommandWords > BufferWords
          then Some (SC_ERROR,
                 sc_event SC_VERIFY_ATS_BUF_ERR_EID [int EntryIndex, uint CmdNum, uint len] s)
          else do {
            dup \<leftarrow> arr_get (AtsDupTestArray s) (unat CmdNum - 1);
            if dup \<noteq> SC_DUP_TEST_UNUSED
            then Some (SC_ERROR,
                   sc_event SC_VERIFY_ATS_DUP_ERR_EID [int EntryIndex, uint CmdNum, dup] s)
            else do {
              d \<leftarrow> arr_set (AtsDupTestArray s) (unat CmdNum - 1) (int EntryIndex);
              Some (int (SC_ATS_HDR_NOPKT_WORDS + CommandWords), s\<lparr>AtsDupTestArray := d\<rparr>) } } } })"

lemma VerifyAtsEntry_result:
  "SC_VerifyAtsEntry b i w s = Some (r, s') \<Longrightarrow> r = - 1 \<or> r = 0 \<or> 0 < r \<and> i < w"
  by (auto simp: SC_VerifyAtsEntry_def Let_def bind_eq_Some_conv split: if_splits)

text \<open>The loop of \<^verbatim>\<open>SC_VerifyAtsTable\<close>: the last result, the index reached and the number of commands.\<close>

function VerifyAts_loop ::
    "u16 list \<Rightarrow> nat \<Rightarrow> nat \<Rightarrow> nat \<Rightarrow> SC_t \<Rightarrow> (int \<times> nat \<times> nat \<times> SC_t) option" where
  "VerifyAts_loop Buffer BufferWords BufferIndex CommandCount s =
     (case SC_VerifyAtsEntry Buffer BufferIndex BufferWords s of
        None \<Rightarrow> None
      | Some (Result, s) \<Rightarrow>
          if Result = SC_ERROR \<or> Result = 0 then Some (Result, BufferIndex, CommandCount, s)
          else VerifyAts_loop Buffer BufferWords (BufferIndex + nat Result) (Suc CommandCount) s)"
  by pat_completeness auto
termination
  by (relation "measure (\<lambda>(b, w, i, c, s). w - i)") (auto dest: VerifyAtsEntry_result)

declare VerifyAts_loop.simps [simp del]

definition SC_VerifyAtsTable :: "u16 list \<Rightarrow> nat \<Rightarrow> SC_t \<Rightarrow> (bool \<times> SC_t) option" where
  "SC_VerifyAtsTable Buffer BufferWords s = do {
     (Result, BufferIndex, CommandCount, s) \<leftarrow>
       VerifyAts_loop Buffer BufferWords 0 0
         (s\<lparr>AtsDupTestArray := replicate SC_MAX_ATS_CMDS SC_DUP_TEST_UNUSED\<rparr>);
     if Result \<noteq> 0 then Some (False, s)
     else if CommandCount = 0 then Some (False, sc_event SC_VERIFY_ATS_MPT_ERR_EID [] s)
     else Some (True, sc_event SC_VERIFY_ATS_EID [int CommandCount, int BufferIndex * 2] s) }"

definition SC_ValidateAts :: "u16 list \<Rightarrow> SC_t \<Rightarrow> (bool \<times> SC_t) option" where
  "SC_ValidateAts TableData s = SC_VerifyAtsTable TableData SC_ATS_BUFF_SIZE s"

definition SC_ValidateAppend :: "u16 list \<Rightarrow> SC_t \<Rightarrow> (bool \<times> SC_t) option" where
  "SC_ValidateAppend TableData s = SC_VerifyAtsTable TableData SC_APPEND_BUFF_SIZE s"

section \<open>Starting and stopping an ATS\<close>

definition SC_KillAts :: "SC_t \<Rightarrow> SC_t option" where
  "SC_KillAts s = do {
     s \<leftarrow> (if AtpState s \<noteq> SC_IDLE then do {
             a \<leftarrow> get_ats (unat (AtsNumber s - 1)) s;
             set_ats (unat (AtsNumber s - 1)) (a\<lparr>AtsUseCtr := AtsUseCtr a + 1\<rparr>) s }
           else Some s);
     Some (s\<lparr>AtpState := SC_IDLE, NextAtpTime := SC_MAX_TIME\<rparr>) }"

text \<open>The loop of \<^verbatim>\<open>SC_BeginAts\<close>: the arguments are the number of commands that are left and
  \<^verbatim>\<open>TimeIndex\<close>.  The result is the time index reached, the command and its time where the loop broke
  off, and the tables.\<close>

fun BeginAts_loop :: "u32 \<Rightarrow> nat \<Rightarrow> nat \<Rightarrow> sc_ats \<Rightarrow> (nat \<times> (u16 \<times> u32) option \<times> sc_ats) option" where
  "BeginAts_loop TimeToStartAts 0 TimeIndex a = Some (TimeIndex, None, a)"
| "BeginAts_loop TimeToStartAts (Suc n) TimeIndex a = do {
     CmdIndex \<leftarrow> arr_get (AtsTimeIndexBuffer a) TimeIndex;
     ListCmdTime \<leftarrow> ats_cmd_time a (unat CmdIndex);
     if SC_CompareAbsTime TimeToStartAts ListCmdTime
     then do {
       sb \<leftarrow> arr_set (AtsCmdStatus a) (unat CmdIndex) SC_SKIPPED;
       BeginAts_loop TimeToStartAts n (Suc TimeIndex) (a\<lparr>AtsCmdStatus := sb\<rparr>) }
     else Some (TimeIndex, Some (CmdIndex, ListCmdTime), a) }"

definition SC_BeginAts :: "nat \<Rightarrow> u16 \<Rightarrow> SC_t \<Rightarrow> (bool \<times> SC_t) option" where
  "SC_BeginAts AtsIndex TimeOffset s = do {
     a \<leftarrow> get_ats AtsIndex s;
     (TimeIndex, hit, a) \<leftarrow>
       BeginAts_loop (SC_ComputeAbsTime TimeOffset s) (unat (NumberOfCommands a)) 0 a;
     s \<leftarrow> set_ats AtsIndex a s;
     case hit of
       None \<Rightarrow> do {
         s \<leftarrow> SC_KillAts (sc_event SC_ATS_SKP_ALL_ERR_EID [] s);
         Some (False, s) }
     | Some (CmdIndex, ListCmdTime) \<Rightarrow>
         let s = s\<lparr>AtsNumber := of_nat (AtsIndex + 1), CmdNumber := ucast CmdIndex,
                   TimeIndexPtr := of_nat TimeIndex\<rparr>;
             s = sc_event SC_ATS_ERR_SKP_DBG_EID [int TimeIndex] s
         in Some (True, s\<lparr>NextAtpTime := ListCmdTime\<rparr>) }"

section \<open>Appending to an ATS\<close>

text \<open>The loop of \<^verbatim>\<open>SC_UpdateAppend\<close>: the word index and the number of entries.\<close>

function UpdateAppend_loop :: "u16 list \<Rightarrow> nat \<Rightarrow> nat \<Rightarrow> (nat \<times> nat) option" where
  "UpdateAppend_loop t EntryIndex EntryCount =
     (if EntryIndex \<ge> SC_APPEND_BUFF_SIZE then Some (EntryIndex, EntryCount)
      else do {
        CmdNum \<leftarrow> arr_get t EntryIndex;
        if CmdNum = 0 \<or> unat CmdNum > SC_MAX_ATS_CMDS then Some (EntryIndex, EntryCount)
        else do {
          len \<leftarrow> pkt_length t (EntryIndex + SC_ATS_HDR_NOPKT_WORDS);
          if unat len < SC_PACKET_MIN_SIZE \<or> unat len > SC_PACKET_MAX_SIZE
             \<or> EntryIndex + SC_ATS_HDR_NOPKT_WORDS + (unat len + 1) div 2 > SC_APPEND_BUFF_SIZE
          then Some (EntryIndex, EntryCount)
          else UpdateAppend_loop t (EntryIndex + (SC_ATS_HDR_NOPKT_WORDS + (unat len + 1) div 2))
                 (Suc EntryCount) } })"
  by pat_completeness auto
termination
  by (relation "measure (\<lambda>(t, i, c). SC_APPEND_BUFF_SIZE - i)") auto

declare UpdateAppend_loop.simps [simp del]

definition SC_UpdateAppend :: "SC_t \<Rightarrow> SC_t option" where
  "SC_UpdateAppend s = do {
     (EntryIndex, EntryCount) \<leftarrow> UpdateAppend_loop (AppendTbl s) 0 0;
     let s = s\<lparr>AppendLoadCount := AppendLoadCount s + 1, AppendEntryCount := of_nat EntryCount,
               AppendWordCount := of_nat EntryIndex\<rparr>
     in Some (sc_event SC_UPDATE_APPEND_EID
                [uint (AppendLoadCount s), int EntryCount, int EntryIndex * 2] s) }"

text \<open>\<^verbatim>\<open>CFE_PSP_MemCpy\<close> of \<open>n\<close> words to word \<open>i\<close> of a table.\<close>

definition copy_words :: "u16 list \<Rightarrow> nat \<Rightarrow> u16 list \<Rightarrow> nat \<Rightarrow> u16 list option" where
  "copy_words dst i src n =
     (if i + n \<le> length dst \<and> n \<le> length src
      then Some (take i dst @ take n src @ drop (i + n) dst) else None)"

fun Append_loop :: "nat \<Rightarrow> nat \<Rightarrow> sc_ats \<Rightarrow> sc_ats option" where
  "Append_loop 0 EntryIndex a = Some a"
| "Append_loop (Suc n) EntryIndex a = do {
     CmdNum \<leftarrow> arr_get (AtsTbl a) EntryIndex;
     let CmdIndex = unat (CmdNum - 1);
     status \<leftarrow> arr_get (AtsCmdStatus a) CmdIndex;
     let count = (if status = SC_EMPTY then NumberOfCommands a + 1 else NumberOfCommands a);
     ib \<leftarrow> arr_set (AtsCmdIndexBuffer a) CmdIndex (int EntryIndex);
     sb \<leftarrow> arr_set (AtsCmdStatus a) CmdIndex SC_LOADED;
     len \<leftarrow> pkt_length (AtsTbl a) (EntryIndex + SC_ATS_HDR_NOPKT_WORDS);
     Append_loop n (EntryIndex + (SC_ATS_HDR_NOPKT_WORDS + (unat len + 1) div 2))
       (a\<lparr>AtsCmdIndexBuffer := ib, AtsCmdStatus := sb, NumberOfCommands := count\<rparr>) }"

definition append_ats :: "u16 list \<Rightarrow> u16 \<Rightarrow> u16 \<Rightarrow> sc_ats \<Rightarrow> sc_ats option" where
  "append_ats src words count a = do {
     t \<leftarrow> copy_words (AtsTbl a) (unat (AtsSize a)) src (unat words);
     a' \<leftarrow> Append_loop (unat count) (unat (AtsSize a))
             (a\<lparr>AtsTbl := t, AtsSize := AtsSize a + ucast words\<rparr>);
     SC_BuildTimeIndexTable a' }"

definition SC_ProcessAppend :: "nat \<Rightarrow> SC_t \<Rightarrow> SC_t option" where
  "SC_ProcessAppend AtsIndex s = do {
     a \<leftarrow> get_ats AtsIndex s;
     a \<leftarrow> append_ats (AppendTbl s) (AppendWordCount s) (AppendEntryCount s) a;
     s \<leftarrow> set_ats AtsIndex a s;
     s \<leftarrow> (if AtpState s = SC_EXECUTING \<and> unat (AtsNumber s) = AtsIndex + 1
           then do {
             (begun, s) \<leftarrow> SC_BeginAts AtsIndex 0 s;
             Some (if begun then s\<lparr>AtpState := SC_EXECUTING\<rparr> else s) }
           else Some s);
     Some (sc_emit (TBL_Modified (Tbl_Ats AtsIndex)) s) }"

end
