(* ===== verification/SC_Ats.thy ===== *)
theory SC_Ats
  imports SC_Loads
begin

text \<open>
  Stored commands: the commands that control the absolute time sequences (\<^verbatim>\<open>sc_atsrq.c\<close>) and the
  commands that control the relative time sequences (\<^verbatim>\<open>sc_rtsrq.c\<close>).  The arguments of a command are
  read behind its 8-byte header.
\<close>

section \<open>ATS commands (sc_atsrq.c)\<close>

abbreviation (input) ats_char :: "nat \<Rightarrow> int" where
  "ats_char AtsIndex \<equiv> (if AtsIndex \<noteq> 0 then 66 else 65)"

definition SC_StartAtsCmd :: "bytes \<Rightarrow> SC_t \<Rightarrow> SC_t option" where
  "SC_StartAtsCmd CmdPacket s =
     (case SC_VerifyCmdLength CmdPacket 10 s of
        (False, s) \<Rightarrow> Some s
      | (True, s) \<Rightarrow>
          let AtsId = get_le16 8 CmdPacket; AtsIndex = unat (AtsId - 1) in
          if AtsIndex < SC_NUMBER_OF_ATS then
            (if AtpState s = SC_IDLE then do {
               a \<leftarrow> get_ats AtsIndex s;
               if NumberOfCommands a > 0 then do {
                 (begun, s) \<leftarrow> SC_BeginAts AtsIndex 0 s;
                 Some (if begun
                       then sc_event SC_STARTATS_CMD_INF_EID [ats_char AtsIndex]
                              (cmd_counted (s\<lparr>AtpState := SC_EXECUTING\<rparr>))
                       else cmd_error s) }
               else Some (cmd_error (sc_event SC_STARTATS_CMD_NOT_LDED_ERR_EID [ats_char AtsIndex] s)) }
             else Some (cmd_error (sc_event SC_STARTATS_CMD_NOT_IDLE_ERR_EID [] s)))
          else Some (cmd_error (sc_event SC_STARTATS_CMD_INVLD_ID_ERR_EID [uint AtsId] s)))"

definition SC_StopAtsCmd :: "bytes \<Rightarrow> SC_t \<Rightarrow> SC_t option" where
  "SC_StopAtsCmd CmdPacket s =
     (case SC_VerifyCmdLength CmdPacket 8 s of
        (False, s) \<Rightarrow> Some s
      | (True, s) \<Rightarrow> do {
          s \<leftarrow> SC_KillAts
                 (if AtsNumber s = SC_ATSA then sc_event SC_STOPATS_CMD_INF_EID [65] s
                  else if AtsNumber s = SC_ATSB then sc_event SC_STOPATS_CMD_INF_EID [66] s
                  else sc_event SC_STOPATS_NO_ATS_INF_EID [] s);
          Some (cmd_counted (s\<lparr>SwitchPendFlag := False\<rparr>)) })"

text \<open>\<^verbatim>\<open>AtsNumber - 1\<close> and \<^verbatim>\<open>1 - (AtsNumber - 1)\<close> as the \<^verbatim>\<open>uint16\<close> indices of the sequences.\<close>

definition curr_ats :: "SC_t \<Rightarrow> nat" where
  "curr_ats s = unat (ucast (AtsNumber s) - 1 :: u16)"

definition other_ats :: "SC_t \<Rightarrow> nat" where
  "other_ats s = unat (1 - (ucast (AtsNumber s) - 1) :: u16)"

definition SC_GroundSwitchCmd :: "bytes \<Rightarrow> SC_t \<Rightarrow> SC_t option" where
  "SC_GroundSwitchCmd CmdPacket s =
     (case SC_VerifyCmdLength CmdPacket 8 s of
        (False, s) \<Rightarrow> Some s
      | (True, s) \<Rightarrow>
          if AtpState s = SC_EXECUTING then do {
            a \<leftarrow> get_ats (other_ats s) s;
            Some (if NumberOfCommands a > 0
                  then sc_event SC_SWITCH_ATS_CMD_INF_EID [] (cmd_counted (s\<lparr>SwitchPendFlag := True\<rparr>))
                  else cmd_error (sc_event SC_SWITCH_ATS_CMD_NOT_LDED_ERR_EID [] s)\<lparr>SwitchPendFlag := False\<rparr>) }
          else Some (cmd_error (sc_event SC_SWITCH_ATS_CMD_IDLE_ERR_EID [] s)\<lparr>SwitchPendFlag := False\<rparr>))"

definition SC_ServiceSwitchPend :: "SC_t \<Rightarrow> SC_t option" where
  "SC_ServiceSwitchPend s =
     (if SC_CompareAbsTime (NextAtpTime s) (CurrentTime s) then do {
        s \<leftarrow> (if AtpState s = SC_EXECUTING then do {
                let OldAtsNum = curr_ats s; let NewAtsNum = other_ats s;
                a \<leftarrow> get_ats NewAtsNum s;
                if NumberOfCommands a > 0 then do {
                  s \<leftarrow> SC_KillAts s;
                  (begun, s) \<leftarrow> SC_BeginAts NewAtsNum 1 s;
                  Some (if begun
                        then sc_event SC_ATS_SERVICE_SWTCH_INF_EID [ats_char OldAtsNum, ats_char NewAtsNum]
                               (s\<lparr>AtpState := SC_EXECUTING\<rparr>)
                        else s) }
                else Some (sc_event SC_SERVICE_SWITCH_ATS_CMD_LDED_ERR_EID [] s) }
              else Some (sc_event SC_ATS_SERVICE_SWITCH_IDLE_ERR_EID [] s));
        Some (s\<lparr>SwitchPendFlag := False\<rparr>) }
      else Some s)"

definition SC_InlineSwitch :: "SC_t \<Rightarrow> (bool \<times> SC_t) option" where
  "SC_InlineSwitch s = do {
     let NewAtsNum = other_ats s; let OldAtsNum = curr_ats s;
     a \<leftarrow> get_ats NewAtsNum s;
     (ReturnCode, s) \<leftarrow>
       (if NumberOfCommands a > 0 then do {
          s \<leftarrow> SC_KillAts s;
          (begun, s) \<leftarrow> SC_BeginAts NewAtsNum 0 s;
          Some (if begun
                then (True, cmd_counted (sc_event SC_ATS_INLINE_SWTCH_INF_EID
                              [ats_char OldAtsNum, ats_char NewAtsNum] (s\<lparr>AtpState := SC_STARTING\<rparr>)))
                else (False, cmd_error s)) }
        else Some (False, cmd_error (sc_event SC_ATS_INLINE_SWTCH_NOT_LDED_ERR_EID [] s)));
     Some (ReturnCode, s\<lparr>SwitchPendFlag := False\<rparr>) }"

text \<open>The loop of \<^verbatim>\<open>SC_JumpAtsCmd\<close>; the second component of the result is \<^verbatim>\<open>NumSkipped\<close>.\<close>

fun JumpAts_loop ::
    "u32 \<Rightarrow> nat \<Rightarrow> nat \<Rightarrow> u16 \<Rightarrow> sc_ats \<Rightarrow> (nat \<times> u16 \<times> (u16 \<times> u32) option \<times> sc_ats) option" where
  "JumpAts_loop JumpTime 0 TimeIndex NumSkipped a = Some (TimeIndex, NumSkipped, None, a)"
| "JumpAts_loop JumpTime (Suc n) TimeIndex NumSkipped a = do {
     CmdIndex \<leftarrow> arr_get (AtsTimeIndexBuffer a) TimeIndex;
     ListCmdTime \<leftarrow> ats_cmd_time a (unat CmdIndex);
     if SC_CompareAbsTime JumpTime ListCmdTime
     then do {
       status \<leftarrow> arr_get (AtsCmdStatus a) (unat CmdIndex);
       if status = SC_LOADED
       then do {
         sb \<leftarrow> arr_set (AtsCmdStatus a) (unat CmdIndex) SC_SKIPPED;
         JumpAts_loop JumpTime n (Suc TimeIndex) (NumSkipped + 1) (a\<lparr>AtsCmdStatus := sb\<rparr>) }
       else JumpAts_loop JumpTime n (Suc TimeIndex) NumSkipped a }
     else Some (TimeIndex, NumSkipped, Some (CmdIndex, ListCmdTime), a) }"

definition SC_JumpAtsCmd :: "bytes \<Rightarrow> SC_t \<Rightarrow> SC_t option" where
  "SC_JumpAtsCmd CmdPacket s =
     (case SC_VerifyCmdLength CmdPacket 12 s of
        (False, s) \<Rightarrow> Some s
      | (True, s) \<Rightarrow>
          if AtpState s = SC_EXECUTING then do {
            let AtsIndex = curr_ats s;
            a \<leftarrow> get_ats AtsIndex s;
            (TimeIndex, NumSkipped, hit, a) \<leftarrow>
              JumpAts_loop (get_le32 8 CmdPacket) (unat (NumberOfCommands a)) 0 0 a;
            s \<leftarrow> set_ats AtsIndex a s;
            case hit of
              None \<Rightarrow> SC_KillAts (cmd_error (sc_event SC_JUMPATS_CMD_STOPPED_ERR_EID [] s))
            | Some (CmdIndex, ListCmdTime) \<Rightarrow>
                let s = cmd_counted (s\<lparr>CmdNumber := ucast CmdIndex, TimeIndexPtr := of_nat TimeIndex,
                                       NextAtpTime := ListCmdTime\<rparr>);
                    s = sc_event SC_JUMP_ATS_INF_EID (map uint (CFE_TIME_Print (sys_time ListCmdTime 0))) s
                in Some (if NumSkipped > 0
                         then sc_event SC_JUMP_ATS_SKIPPED_DBG_EID [uint NumSkipped] s else s) }
          else Some (cmd_error (sc_event SC_JUMPATS_CMD_NOT_ACT_ERR_EID [] s)))"

definition SC_ContinueAtsOnFailureCmd :: "bytes \<Rightarrow> SC_t \<Rightarrow> SC_t option" where
  "SC_ContinueAtsOnFailureCmd CmdPacket s =
     (case SC_VerifyCmdLength CmdPacket 10 s of
        (False, s) \<Rightarrow> Some s
      | (True, s) \<Rightarrow>
          let State = get_le16 8 CmdPacket in
          if State \<noteq> 1 \<and> State \<noteq> 0
          then Some (sc_event SC_CONT_CMD_ERR_EID [uint State] (cmd_error s))
          else Some (sc_event SC_CONT_CMD_DEB_EID [uint State]
                      (cmd_counted (s\<lparr>ContinueAtsOnFailureFlag := (State = 1)\<rparr>))))"

definition SC_AppendAtsCmd :: "bytes \<Rightarrow> SC_t \<Rightarrow> SC_t option" where
  "SC_AppendAtsCmd CmdPacket s =
     (case SC_VerifyCmdLength CmdPacket 10 s of
        (False, s) \<Rightarrow> Some s
      | (True, s) \<Rightarrow>
          let AtsId = get_le16 8 CmdPacket; AtsIndex = unat (AtsId - 1) in
          if AtsIndex \<ge> SC_NUMBER_OF_ATS
          then Some (sc_event SC_APPEND_CMD_ARG_ERR_EID [uint AtsId] (cmd_error s))
          else do {
            a \<leftarrow> get_ats AtsIndex s;
            if NumberOfCommands a = 0
            then Some (sc_event SC_APPEND_CMD_TGT_ERR_EID [65 + int AtsIndex] (cmd_error s))
            else if AppendEntryCount s = 0
            then Some (sc_event SC_APPEND_CMD_SRC_ERR_EID [65 + int AtsIndex] (cmd_error s))
            else if AtsSize a + ucast (AppendWordCount s) > of_nat SC_ATS_BUFF_SIZE
            then Some (sc_event SC_APPEND_CMD_FIT_ERR_EID
                        [65 + int AtsIndex, uint (AtsSize a), uint (AppendWordCount s), int SC_ATS_BUFF_SIZE]
                        (cmd_error s))
            else do {
              s \<leftarrow> SC_ProcessAppend AtsIndex (s\<lparr>AppendCmdArg := AtsId\<rparr>);
              Some (sc_event SC_APPEND_CMD_INF_EID [65 + int AtsIndex, uint (AppendEntryCount s)]
                     (cmd_counted s)) } })"

section \<open>RTS commands (sc_rtsrq.c)\<close>

definition SC_KillRts :: "nat \<Rightarrow> SC_t \<Rightarrow> SC_t option" where
  "SC_KillRts RtsIndex s = do {
     r \<leftarrow> get_rts RtsIndex s;
     if RtsStatus r = SC_EXECUTING
     then do {
       s \<leftarrow> set_rts RtsIndex (r\<lparr>RtsStatus := SC_LOADED, NextCommandTime := SC_MAX_TIME\<rparr>) s;
       Some (if NumRtsActive s > 0 then s\<lparr>NumRtsActive := NumRtsActive s - 1\<rparr> else s) }
     else Some s }"

text \<open>The assignments that start an RTS, with the time tag of its first entry.\<close>

definition start_rts :: "nat \<Rightarrow> sc_rts \<Rightarrow> SC_t \<Rightarrow> SC_t option" where
  "start_rts RtsIndex r s = do {
     TimeTag \<leftarrow> arr_get (RtsTbl r) 0;
     s \<leftarrow> set_rts RtsIndex
            (r\<lparr>RtsStatus := SC_EXECUTING, Rts_CmdCtr := 0, Rts_CmdErrCtr := 0, NextCommandPtr := 0,
               UseCtr := UseCtr r + 1, NextCommandTime := SC_ComputeAbsTime TimeTag s\<rparr>) s;
     Some (cmd_counted (s\<lparr>NumRtsActive := NumRtsActive s + 1, RtsActiveCtr := RtsActiveCtr s + 1\<rparr>)) }"

definition rts_start_error :: "SC_t \<Rightarrow> SC_t" where
  "rts_start_error s = s\<lparr>Sc_CmdErrCtr := Sc_CmdErrCtr s + 1, RtsActiveErrCtr := RtsActiveErrCtr s + 1\<rparr>"

definition SC_StartRtsCmd :: "bytes \<Rightarrow> SC_t \<Rightarrow> SC_t option" where
  "SC_StartRtsCmd CmdPacket s =
     (case SC_VerifyCmdLength CmdPacket 10 s of
        (False, s) \<Rightarrow> Some (s\<lparr>RtsActiveErrCtr := RtsActiveErrCtr s + 1\<rparr>)
      | (True, s) \<Rightarrow>
          let RtsId = get_le16 8 CmdPacket; RtsIndex = unat (RtsId - 1) in
          if RtsIndex < SC_NUMBER_OF_RTS then do {
            r \<leftarrow> get_rts RtsIndex s;
            if \<not> DisabledFlag r then
              (if RtsStatus r = SC_LOADED then do {
                 CmdLength \<leftarrow> pkt_length (RtsTbl r) 1;
                 if unat CmdLength \<ge> SC_PACKET_MIN_SIZE \<and> unat CmdLength \<le> SC_PACKET_MAX_SIZE
                 then do {
                   s \<leftarrow> start_rts RtsIndex r s;
                   Some (if unat RtsId \<le> SC_LAST_RTS_WITH_EVENTS
                         then sc_event SC_RTS_START_INF_EID [uint RtsId] s
                         else sc_event SC_STARTRTS_CMD_DBG_EID [uint RtsId] s) }
                 else Some (rts_start_error
                        (sc_event SC_STARTRTS_CMD_INVLD_LEN_ERR_EID [uint RtsId, uint CmdLength] s)) }
               else Some (rts_start_error (sc_event SC_STARTRTS_CMD_NOT_LDED_ERR_EID
                      [uint RtsId, status_num (RtsStatus r)] s)))
            else Some (rts_start_error (sc_event SC_STARTRTS_CMD_DISABLED_ERR_EID [uint RtsId] s)) }
          else Some (rts_start_error (sc_event SC_STARTRTS_CMD_INVALID_ERR_EID [uint RtsId] s)))"

definition SC_StopRtsCmd :: "bytes \<Rightarrow> SC_t \<Rightarrow> SC_t option" where
  "SC_StopRtsCmd CmdPacket s =
     (case SC_VerifyCmdLength CmdPacket 10 s of
        (False, s) \<Rightarrow> Some s
      | (True, s) \<Rightarrow>
          let RtsId = get_le16 8 CmdPacket; RtsIndex = unat (RtsId - 1) in
          if RtsIndex < SC_NUMBER_OF_RTS then do {
            s \<leftarrow> SC_KillRts RtsIndex s;
            Some (sc_event SC_STOPRTS_CMD_INF_EID [uint RtsId] (cmd_counted s)) }
          else Some (cmd_error (sc_event SC_STOPRTS_CMD_ERR_EID [uint RtsId] s)))"

definition set_disabled :: "bool \<Rightarrow> nat \<Rightarrow> SC_t \<Rightarrow> SC_t option" where
  "set_disabled flag RtsIndex s = do {
     r \<leftarrow> get_rts RtsIndex s;
     set_rts RtsIndex (r\<lparr>DisabledFlag := flag\<rparr>) s }"

definition SC_DisableRtsCmd :: "bytes \<Rightarrow> SC_t \<Rightarrow> SC_t option" where
  "SC_DisableRtsCmd CmdPacket s =
     (case SC_VerifyCmdLength CmdPacket 10 s of
        (False, s) \<Rightarrow> Some s
      | (True, s) \<Rightarrow>
          let RtsId = get_le16 8 CmdPacket; RtsIndex = unat (RtsId - 1) in
          if RtsIndex < SC_NUMBER_OF_RTS then do {
            s \<leftarrow> set_disabled True RtsIndex s;
            Some (sc_event SC_DISABLE_RTS_DEB_EID [uint RtsId] (cmd_counted s)) }
          else Some (cmd_error (sc_event SC_DISRTS_CMD_ERR_EID [uint RtsId] s)))"

definition SC_EnableRtsCmd :: "bytes \<Rightarrow> SC_t \<Rightarrow> SC_t option" where
  "SC_EnableRtsCmd CmdPacket s =
     (case SC_VerifyCmdLength CmdPacket 10 s of
        (False, s) \<Rightarrow> Some s
      | (True, s) \<Rightarrow>
          let RtsId = get_le16 8 CmdPacket; RtsIndex = unat (RtsId - 1) in
          if RtsIndex < SC_NUMBER_OF_RTS then do {
            s \<leftarrow> set_disabled False RtsIndex s;
            Some (sc_event SC_ENABLE_RTS_DEB_EID [uint RtsId] (cmd_counted s)) }
          else Some (cmd_error (sc_event SC_ENARTS_CMD_ERR_EID [uint RtsId] s)))"

section \<open>RTS group commands (sc_rtsrq.c)\<close>

text \<open>The loops over the RTS of a group; the number is the count of the modified ones.\<close>

fun StartGrp_loop :: "nat list \<Rightarrow> int \<Rightarrow> SC_t \<Rightarrow> (int \<times> SC_t) option" where
  "StartGrp_loop [] StartCount s = Some (StartCount, s)"
| "StartGrp_loop (i # is) StartCount s = do {
     r \<leftarrow> get_rts i s;
     if \<not> DisabledFlag r \<and> RtsStatus r = SC_LOADED
     then do { s \<leftarrow> start_rts i r s; StartGrp_loop is (StartCount + 1) s }
     else StartGrp_loop is StartCount s }"

fun StopGrp_loop :: "nat list \<Rightarrow> int \<Rightarrow> SC_t \<Rightarrow> (int \<times> SC_t) option" where
  "StopGrp_loop [] StopCount s = Some (StopCount, s)"
| "StopGrp_loop (i # is) StopCount s = do {
     r \<leftarrow> get_rts i s;
     if RtsStatus r = SC_EXECUTING
     then do { s \<leftarrow> SC_KillRts i s; StopGrp_loop is (StopCount + 1) s }
     else StopGrp_loop is StopCount s }"

fun FlagGrp_loop :: "bool \<Rightarrow> nat list \<Rightarrow> int \<Rightarrow> SC_t \<Rightarrow> (int \<times> SC_t) option" where
  "FlagGrp_loop flag [] count s = Some (count, s)"
| "FlagGrp_loop flag (i # is) count s = do {
     r \<leftarrow> get_rts i s;
     if DisabledFlag r \<noteq> flag
     then do { s \<leftarrow> set_disabled flag i s; FlagGrp_loop flag is (count + 1) s }
     else FlagGrp_loop flag is count s }"

text \<open>What the four group commands share: the length, the check of the range, the event and the
  counters around the loop.\<close>

definition rts_group :: "(nat list \<Rightarrow> int \<Rightarrow> SC_t \<Rightarrow> (int \<times> SC_t) option) \<Rightarrow> u16 \<Rightarrow> u16
    \<Rightarrow> bytes \<Rightarrow> SC_t \<Rightarrow> SC_t option" where
  "rts_group group_loop inf_eid err_eid CmdPacket s =
     (case SC_VerifyCmdLength CmdPacket 12 s of
        (False, s) \<Rightarrow> Some s
      | (True, s) \<Rightarrow>
          let FirstRtsId = get_le16 8 CmdPacket; LastRtsId = get_le16 10 CmdPacket;
              FirstIndex = unat (FirstRtsId - 1); LastIndex = unat (LastRtsId - 1) in
          if FirstIndex < SC_NUMBER_OF_RTS \<and> LastIndex < SC_NUMBER_OF_RTS \<and> FirstIndex \<le> LastIndex
          then do {
            (count, s) \<leftarrow> group_loop [FirstIndex..<Suc LastIndex] 0 s;
            Some (cmd_counted (sc_event inf_eid [uint FirstRtsId, uint LastRtsId, count] s)) }
          else Some (cmd_error (sc_event err_eid [uint FirstRtsId, uint LastRtsId] s)))"

definition SC_StartRtsGrpCmd :: "bytes \<Rightarrow> SC_t \<Rightarrow> SC_t option" where
  "SC_StartRtsGrpCmd =
     rts_group StartGrp_loop SC_STARTRTSGRP_CMD_INF_EID SC_STARTRTSGRP_CMD_ERR_EID"

definition SC_StopRtsGrpCmd :: "bytes \<Rightarrow> SC_t \<Rightarrow> SC_t option" where
  "SC_StopRtsGrpCmd =
     rts_group StopGrp_loop SC_STOPRTSGRP_CMD_INF_EID SC_STOPRTSGRP_CMD_ERR_EID"

definition SC_DisableRtsGrpCmd :: "bytes \<Rightarrow> SC_t \<Rightarrow> SC_t option" where
  "SC_DisableRtsGrpCmd =
     rts_group (FlagGrp_loop True) SC_DISRTSGRP_CMD_INF_EID SC_DISRTSGRP_CMD_ERR_EID"

definition SC_EnableRtsGrpCmd :: "bytes \<Rightarrow> SC_t \<Rightarrow> SC_t option" where
  "SC_EnableRtsGrpCmd =
     rts_group (FlagGrp_loop False) SC_ENARTSGRP_CMD_INF_EID SC_ENARTSGRP_CMD_ERR_EID"

text \<open>The start command that the application sends to itself after a reset.\<close>

definition SC_AutoStartRts :: "u16 \<Rightarrow> SC_t \<Rightarrow> SC_t" where
  "SC_AutoStartRts RtsNumber' s = sc_emit (Send_StartRts RtsNumber') (s\<lparr>SbCalls := SbCalls s + 1\<rparr>)"

end
