(* ===== verification/SC_Cmds.thy ===== *)
theory SC_Cmds
  imports SC_Ats
begin

text \<open>
  Stored commands: the choice of the next command (\<^verbatim>\<open>sc_state.c\<close>) and the processing of requests
  (\<^verbatim>\<open>sc_cmds.c\<close>).  The loop of the one hertz wake-up may run forever: it is a
  \<open>partial_function\<close> over its body \<open>wakeup_body\<close>.
\<close>

section \<open>The next command (sc_state.c)\<close>

text \<open>The loop of \<^verbatim>\<open>SC_GetNextRtsTime\<close>, over the RTS indices in decreasing order.\<close>

fun NextRts_loop :: "nat list \<Rightarrow> SC_t \<Rightarrow> u16 \<Rightarrow> u32 \<Rightarrow> (u16 \<times> u32) option" where
  "NextRts_loop [] s NextRts NextTime = Some (NextRts, NextTime)"
| "NextRts_loop (i # is) s NextRts NextTime = do {
     r \<leftarrow> get_rts i s;
     if RtsStatus r = SC_EXECUTING \<and> NextCommandTime r \<le> NextTime
     then NextRts_loop is s (of_nat i) (NextCommandTime r)
     else NextRts_loop is s NextRts NextTime }"

definition SC_GetNextRtsTime :: "SC_t \<Rightarrow> SC_t option" where
  "SC_GetNextRtsTime s = do {
     (NextRts, NextTime) \<leftarrow> NextRts_loop (rev [0..<SC_NUMBER_OF_RTS]) s 0xFFFF SC_MAX_TIME;
     Some (if NextRts = 0xFFFF
           then s\<lparr>RtsNumber := SC_INVALID_RTS_NUMBER, NextRtpTime := SC_MAX_TIME\<rparr>
           else s\<lparr>RtsNumber := NextRts + 1, NextRtpTime := NextTime\<rparr>) }"

definition SC_UpdateNextTime :: "SC_t \<Rightarrow> SC_t option" where
  "SC_UpdateNextTime s = do {
     s \<leftarrow> SC_GetNextRtsTime s;
     let s = s\<lparr>NextProcNumber := (if AtpState s = SC_EXECUTING then SC_ATP else SC_NONE)\<rparr>
     in Some (if RtsNumber s > 0 \<and> unat (RtsNumber s) \<le> SC_NUMBER_OF_RTS
                 \<and> NextRtpTime s < NextAtpTime s
              then s\<lparr>NextProcNumber := SC_RTP\<rparr> else s) }"

definition rts_error :: "nat \<Rightarrow> u16 \<Rightarrow> SC_t \<Rightarrow> SC_t option" where
  "rts_error RtsNum CmdOffset s = do {
     r \<leftarrow> get_rts RtsNum s;
     s \<leftarrow> set_rts RtsNum (r\<lparr>Rts_CmdErrCtr := Rts_CmdErrCtr r + 1\<rparr>) s;
     SC_KillRts RtsNum (s\<lparr>RtsCmdErrCtr := RtsCmdErrCtr s + 1, LastRtsErrSeq := RtsNumber s,
                          LastRtsErrCmd := CmdOffset\<rparr>) }"

definition rts_complete :: "nat \<Rightarrow> SC_t \<Rightarrow> SC_t option" where
  "rts_complete RtsNum s = do {
     s \<leftarrow> SC_KillRts RtsNum s;
     Some (if RtsNum + 1 \<le> SC_LAST_RTS_WITH_EVENTS
           then sc_event SC_RTS_COMPL_INF_EID [int RtsNum + 1] s else s) }"

definition SC_GetNextRtsCommand :: "SC_t \<Rightarrow> SC_t option" where
  "SC_GetNextRtsCommand s =
     (if RtsNumber s > 0 \<and> unat (RtsNumber s) \<le> SC_NUMBER_OF_RTS then do {
        let RtsNum = unat (RtsNumber s - 1);
        r \<leftarrow> get_rts RtsNum s;
        if RtsStatus r = SC_EXECUTING then do {
          len \<leftarrow> pkt_length (RtsTbl r) (unat (NextCommandPtr r) + 1);
          let CmdLength = len + SC_RTS_HEADER_SIZE;
          let CmdOffset = NextCommandPtr r + of_nat ((unat CmdLength + 1) div 2);
          if unat CmdOffset < SC_RTS_BUFF_SIZE - SC_RTS_HDR_WORDS then do {
            len \<leftarrow> pkt_length (RtsTbl r) (unat CmdOffset + 1);
            let CmdLength = len + SC_RTS_HEADER_SIZE;
            let PktLength = (ucast CmdLength - ucast SC_RTS_HEADER_SIZE :: u32);
            if unat PktLength \<ge> SC_PACKET_MIN_SIZE then
              (if unat PktLength \<le> SC_PACKET_MAX_SIZE then
                 (if unat CmdOffset + (unat CmdLength + 1) div 2 \<le> SC_RTS_BUFF_SIZE then do {
                    TimeTag \<leftarrow> arr_get (RtsTbl r) (unat CmdOffset);
                    set_rts RtsNum (r\<lparr>NextCommandTime := SC_ComputeAbsTime TimeTag s,
                                      NextCommandPtr := CmdOffset\<rparr>) s }
                  else do {
                    s \<leftarrow> rts_error RtsNum CmdOffset s;
                    Some (sc_event SC_RTS_LNGTH_ERR_EID [uint (RtsNumber s)] s) })
               else do {
                 s \<leftarrow> rts_error RtsNum CmdOffset s;
                 Some (sc_event SC_RTS_CMD_LNGTH_ERR_EID
                        [uint (RtsNumber s), uint PktLength, int SC_PACKET_MAX_SIZE] s) })
            else rts_complete RtsNum s }
          else rts_complete RtsNum s }
        else Some s }
      else Some s)"

definition SC_GetNextAtsCommand :: "SC_t \<Rightarrow> SC_t option" where
  "SC_GetNextAtsCommand s =
     (if AtpState s = SC_EXECUTING then do {
        let AtsIndex = curr_ats s; let TimeIndex = TimeIndexPtr s + 1;
        a \<leftarrow> get_ats AtsIndex s;
        if TimeIndex < NumberOfCommands a then do {
          c \<leftarrow> arr_get (AtsTimeIndexBuffer a) (unat TimeIndex);
          t \<leftarrow> ats_cmd_time a (unat c);
          Some (s\<lparr>TimeIndexPtr := TimeIndex, CmdNumber := ucast c, NextAtpTime := t\<rparr>) }
        else do {
          s \<leftarrow> SC_KillAts s;
          Some (sc_event SC_ATS_COMPL_INF_EID [ats_char AtsIndex] s\<lparr>SwitchPendFlag := False\<rparr>) } }
      else if AtpState s = SC_STARTING then Some (s\<lparr>AtpState := SC_EXECUTING\<rparr>)
      else Some s)"

section \<open>Sending the next command (sc_cmds.c)\<close>

definition set_cmd_status :: "nat \<Rightarrow> nat \<Rightarrow> SC_Status \<Rightarrow> SC_t \<Rightarrow> SC_t option" where
  "set_cmd_status AtsIndex CmdIndex st s = do {
     a \<leftarrow> get_ats AtsIndex s;
     sb \<leftarrow> arr_set (AtsCmdStatus a) CmdIndex st;
     set_ats AtsIndex (a\<lparr>AtsCmdStatus := sb\<rparr>) s }"

definition atp_error :: "SC_t \<Rightarrow> SC_t" where
  "atp_error s = s\<lparr>AtsCmdErrCtr := AtsCmdErrCtr s + 1, LastAtsErrSeq := ucast (AtsNumber s),
     LastAtsErrCmd := ucast (CmdNumber s + 1)\<rparr>"

definition ats_letter :: "SC_t \<Rightarrow> int" where
  "ats_letter s = (if AtsNumber s = SC_ATSA then 65 else if AtsNumber s = SC_ATSB then 66 else 32)"

text \<open>A command of an ATS whose status is \<open>SC_LOADED\<close>: the result is \<^verbatim>\<open>AbortATS\<close>, the letter of the ATS
  for the event, and the state.\<close>

definition atp_send :: "sc_env \<Rightarrow> nat \<Rightarrow> nat \<Rightarrow> u16 list \<Rightarrow> nat \<Rightarrow> SC_t \<Rightarrow> (bool \<times> int \<times> SC_t) option" where
  "atp_send env AtsIndex CmdIndex t EntryIndex s = do {
     num \<leftarrow> arr_get t EntryIndex;
     if unat num = CmdIndex + 1 then do {
       let p = EntryIndex + SC_ATS_HDR_NOPKT_WORDS;
       ok \<leftarrow> pkt_checksum t p;
       if ok then do {
         let s = s\<lparr>NumCmdsSec := NumCmdsSec s + 1\<rparr>;
         mid \<leftarrow> pkt_msgid t p;
         cc \<leftarrow> pkt_cmdcode t p;
         if mid = SC_CMD_MID \<and> cc = 8 then do {
           (switched, s) \<leftarrow> SC_InlineSwitch s;
           if switched then do {
             s \<leftarrow> set_cmd_status AtsIndex CmdIndex SC_EXECUTED s;
             Some (False, 32, s\<lparr>AtsCmdCtr := AtsCmdCtr s + 1\<rparr>) }
           else do {
             s \<leftarrow> set_cmd_status AtsIndex CmdIndex SC_FAILED_DISTRIB s;
             Some (False, 32, atp_error s) } }
         else do {
           w \<leftarrow> pkt_words t p;
           let Result = Env_SendMsg env (SbCalls s);
           let s = sc_emit (Send_Ats AtsIndex CmdIndex w) (s\<lparr>SbCalls := SbCalls s + 1\<rparr>);
           if Result = CFE_SUCCESS then do {
             s \<leftarrow> set_cmd_status AtsIndex CmdIndex SC_EXECUTED s;
             Some (False, 32, s\<lparr>AtsCmdCtr := AtsCmdCtr s + 1\<rparr>) }
           else do {
             s \<leftarrow> set_cmd_status AtsIndex CmdIndex SC_FAILED_DISTRIB s;
             let s = sc_event SC_ATS_DIST_ERR_EID [uint num] (atp_error s);
             Some (True, ats_letter s, s) } } }
       else do {
         s \<leftarrow> set_cmd_status AtsIndex CmdIndex SC_FAILED_CHECKSUM
                (atp_error (sc_event SC_ATS_CHKSUM_ERR_EID [uint num] s));
         Some (if \<not> ContinueAtsOnFailureFlag s then (True, ats_letter s, s) else (False, 32, s)) } }
     else do {
       s \<leftarrow> set_cmd_status AtsIndex CmdIndex SC_SKIPPED
              (atp_error (sc_event SC_ATS_MSMTCH_ERR_EID [int CmdIndex + 1, uint num] s));
       Some (True, ats_letter s, s) } }"

text \<open>The current command of the ATS: skipped with an error unless its status is \<open>SC_LOADED\<close>.\<close>

definition atp_command :: "sc_env \<Rightarrow> SC_t \<Rightarrow> (bool \<times> int \<times> SC_t) option" where
  "atp_command env s = do {
     let AtsIndex = unat (AtsNumber s - 1); let CmdIndex = unat (CmdNumber s);
     a \<leftarrow> get_ats AtsIndex s;
     EntryIndex \<leftarrow> arr_get (AtsCmdIndexBuffer a) CmdIndex;
     status \<leftarrow> arr_get (AtsCmdStatus a) CmdIndex;
     if status = SC_LOADED
     then if EntryIndex < 0 then None
          else atp_send env AtsIndex CmdIndex (AtsTbl a) (nat EntryIndex) s
     else Some (False, 32, atp_error (sc_event SC_ATS_SKP_ERR_EID [status_num status] s)) }"

definition SC_ProcessAtpCmd :: "sc_env \<Rightarrow> SC_t \<Rightarrow> SC_t option" where
  "SC_ProcessAtpCmd env s =
     (if \<not> SC_CompareAbsTime (NextAtpTime s) (CurrentTime s) \<and> NextProcNumber s = SC_ATP
         \<and> AtpState s = SC_EXECUTING
      then do {
        (AbortATS, TempAtsChar, s) \<leftarrow> atp_command env s;
        s \<leftarrow> (if AbortATS then do {
                s \<leftarrow> SC_KillAts (sc_event SC_ATS_ABT_ERR_EID [TempAtsChar] s);
                Some (s\<lparr>SwitchPendFlag := False\<rparr>) }
              else Some s);
        SC_GetNextAtsCommand s }
      else Some s)"

definition NextCmdTime :: "SC_t \<Rightarrow> SC_Proc \<Rightarrow> u32 option" where
  "NextCmdTime s p = (case p of SC_ATP \<Rightarrow> Some (NextAtpTime s) | SC_RTP \<Rightarrow> Some (NextRtpTime s)
     | SC_NONE \<Rightarrow> None)"

definition rtp_command :: "sc_env \<Rightarrow> SC_t \<Rightarrow> SC_t option" where
  "rtp_command env s = do {
     let s = s\<lparr>NumCmdsSec := NumCmdsSec s + 1\<rparr>;
     let RtsNum = unat (RtsNumber s - 1);
     r \<leftarrow> get_rts RtsNum s;
     let CmdOffset = NextCommandPtr r;
     ok \<leftarrow> pkt_checksum (RtsTbl r) (unat CmdOffset + 1);
     if ok then do {
       w \<leftarrow> pkt_words (RtsTbl r) (unat CmdOffset + 1);
       let Result = Env_SendMsg env (SbCalls s);
       let s = sc_emit (Send_Rts RtsNum (unat CmdOffset) w) (s\<lparr>SbCalls := SbCalls s + 1\<rparr>);
       if Result = CFE_SUCCESS then do {
         s \<leftarrow> set_rts RtsNum (r\<lparr>Rts_CmdCtr := Rts_CmdCtr r + 1\<rparr>)
                (s\<lparr>RtsCmdCtr := RtsCmdCtr s + 1\<rparr>);
         SC_GetNextRtsCommand s }
       else rts_error RtsNum CmdOffset (sc_event SC_RTS_DIST_ERR_EID [int RtsNum + 1] s) }
     else rts_error RtsNum CmdOffset (sc_event SC_RTS_CHKSUM_ERR_EID [int RtsNum + 1] s) }"

definition SC_ProcessRtpCommand :: "sc_env \<Rightarrow> SC_t \<Rightarrow> SC_t option" where
  "SC_ProcessRtpCommand env s = do {
     t \<leftarrow> NextCmdTime s (NextProcNumber s);
     if t \<le> CurrentTime s \<and> NextProcNumber s = SC_RTP
        \<and> RtsNumber s > 0 \<and> unat (RtsNumber s) \<le> SC_NUMBER_OF_RTS
     then do {
       r \<leftarrow> get_rts (unat (RtsNumber s - 1)) s;
       if RtsStatus r = SC_EXECUTING then rtp_command env s else Some s }
     else Some s }"

section \<open>Housekeeping and simple commands (sc_cmds.c)\<close>

text \<open>The loop over the RTS that sets the bits of the status words (\<^verbatim>\<open>CFE_SET\<close>).\<close>

definition set_bit_of :: "u16 list \<Rightarrow> nat \<Rightarrow> u16 list option" where
  "set_bit_of m i = do {
     w \<leftarrow> arr_get m (i div 16);
     arr_set m (i div 16) (w OR push_bit (i mod 16) 1) }"

fun Hk_loop :: "nat list \<Rightarrow> SC_t \<Rightarrow> u16 list \<Rightarrow> u16 list \<Rightarrow> (u16 list \<times> u16 list) option" where
  "Hk_loop [] s disabled executing = Some (disabled, executing)"
| "Hk_loop (i # is) s disabled executing = do {
     r \<leftarrow> get_rts i s;
     d \<leftarrow> (if DisabledFlag r then set_bit_of disabled i else Some disabled);
     e \<leftarrow> (if RtsStatus r = SC_EXECUTING then set_bit_of executing i else Some executing);
     Hk_loop is s d e }"

definition SC_SendHkPacket :: "SC_t \<Rightarrow> SC_t option" where
  "SC_SendHkPacket s = do {
     a \<leftarrow> get_ats 0 s;
     b \<leftarrow> get_ats 1 s;
     (disabled, executing) \<leftarrow> Hk_loop [0..<SC_NUMBER_OF_RTS] s (replicate 4 0) (replicate 4 0);
     let Hk = \<lparr>Hk_AtsNumber = AtsNumber s, Hk_AtpState = AtpState s,
       Hk_ContinueAtsOnFailureFlag = ContinueAtsOnFailureFlag s,
       Hk_CmdErrCtr = ucast (Sc_CmdErrCtr s), Hk_CmdCtr = ucast (Sc_CmdCtr s),
       Hk_SwitchPendFlag = SwitchPendFlag s, Hk_NumRtsActive = NumRtsActive s,
       Hk_RtsNumber = RtsNumber s, Hk_RtsActiveCtr = RtsActiveCtr s,
       Hk_RtsActiveErrCtr = RtsActiveErrCtr s, Hk_AtsCmdCtr = AtsCmdCtr s,
       Hk_AtsCmdErrCtr = AtsCmdErrCtr s, Hk_RtsCmdCtr = RtsCmdCtr s, Hk_RtsCmdErrCtr = RtsCmdErrCtr s,
       Hk_LastAtsErrSeq = LastAtsErrSeq s, Hk_LastAtsErrCmd = LastAtsErrCmd s,
       Hk_LastRtsErrSeq = LastRtsErrSeq s, Hk_LastRtsErrCmd = LastRtsErrCmd s,
       Hk_AppendCmdArg = AppendCmdArg s, Hk_AppendEntryCount = AppendEntryCount s,
       Hk_AppendByteCount = AppendWordCount s * 2, Hk_AppendLoadCount = AppendLoadCount s,
       Hk_AtpCmdNumber = CmdNumber s + 1,
       Hk_AtpFreeBytes = [16000 - AtsSize a * 2, 16000 - AtsSize b * 2],
       Hk_NextRtsTime = NextRtpTime s, Hk_NextAtsTime = NextAtpTime s,
       Hk_RtsExecutingStatus = executing, Hk_RtsDisabledStatus = disabled\<rparr>;
     Some (sc_emit (Send_Hk Hk) (s\<lparr>SbCalls := SbCalls s + 1\<rparr>)) }"

definition SC_ResetCountersCmd :: "bytes \<Rightarrow> SC_t \<Rightarrow> SC_t" where
  "SC_ResetCountersCmd CmdPacket s =
     (case SC_VerifyCmdLength CmdPacket 8 s of
        (False, s) \<Rightarrow> s
      | (True, s) \<Rightarrow>
          (sc_event SC_RESET_DEB_EID [] s)
            \<lparr>Sc_CmdCtr := 0, Sc_CmdErrCtr := 0, AtsCmdCtr := 0, AtsCmdErrCtr := 0, RtsCmdCtr := 0,
             RtsCmdErrCtr := 0, RtsActiveCtr := 0, RtsActiveErrCtr := 0\<rparr>)"

definition SC_NoOpCmd :: "bytes \<Rightarrow> SC_t \<Rightarrow> SC_t" where
  "SC_NoOpCmd CmdPacket s =
     (case SC_VerifyCmdLength CmdPacket 8 s of
        (False, s) \<Rightarrow> s
      | (True, s) \<Rightarrow> sc_event SC_NOOP_INF_EID [2, 5, 0, 0] (cmd_counted s))"

section \<open>Table management (sc_cmds.c)\<close>

definition SC_ManageRtsTable :: "sc_env \<Rightarrow> nat \<Rightarrow> SC_t \<Rightarrow> SC_t option" where
  "SC_ManageRtsTable env ArrayIndex s = do {
     let s = sc_emit (TBL_Manage (Tbl_Rts ArrayIndex)) (sc_emit (TBL_ReleaseAddress (Tbl_Rts ArrayIndex)) s);
     r \<leftarrow> get_rts ArrayIndex s;
     let (Result, t) = Env_Table env; let r = r\<lparr>RtsTbl := t\<rparr>;
     case Result of
       TBL_INFO_UPDATED \<Rightarrow> set_rts ArrayIndex (SC_LoadRts r) s
     | TBL_ERROR e \<Rightarrow> map_option (sc_event SC_TABLE_MANAGE_RTS_ERR_EID [int ArrayIndex + 1, e])
                         (set_rts ArrayIndex r s)
     | _ \<Rightarrow> set_rts ArrayIndex r s }"

definition SC_ManageAtsTable :: "sc_env \<Rightarrow> nat \<Rightarrow> SC_t \<Rightarrow> SC_t option" where
  "SC_ManageAtsTable env ArrayIndex s = do {
     let s = sc_emit (TBL_Manage (Tbl_Ats ArrayIndex)) (sc_emit (TBL_ReleaseAddress (Tbl_Ats ArrayIndex)) s);
     a \<leftarrow> get_ats ArrayIndex s;
     let (Result, t) = Env_Table env; let a = a\<lparr>AtsTbl := t\<rparr>;
     case Result of
       TBL_INFO_UPDATED \<Rightarrow> do { a \<leftarrow> SC_LoadAts a; set_ats ArrayIndex a s }
     | TBL_ERROR e \<Rightarrow> map_option (sc_event SC_TABLE_MANAGE_ATS_ERR_EID [int ArrayIndex + 1, e])
                         (set_ats ArrayIndex a s)
     | _ \<Rightarrow> set_ats ArrayIndex a s }"

definition SC_ManageAppendTable :: "sc_env \<Rightarrow> SC_t \<Rightarrow> SC_t option" where
  "SC_ManageAppendTable env s = do {
     let s = sc_emit (TBL_Manage Tbl_Append) (sc_emit (TBL_ReleaseAddress Tbl_Append) s);
     let (Result, t) = Env_Table env; let s = s\<lparr>AppendTbl := t\<rparr>;
     case Result of
       TBL_INFO_UPDATED \<Rightarrow> SC_UpdateAppend s
     | TBL_ERROR e \<Rightarrow> Some (sc_event SC_TABLE_MANAGE_APPEND_ERR_EID [e] s)
     | _ \<Rightarrow> Some s }"

text \<open>The table identifiers of \<^verbatim>\<open>sc_tbldefs.h\<close>: ATS 1 and 2, append 3, RTS 4 to 67, then the dump tables.\<close>

definition SC_TableManageCmd :: "sc_env \<Rightarrow> bytes \<Rightarrow> SC_t \<Rightarrow> SC_t option" where
  "SC_TableManageCmd env CmdPacket s =
     (let TableID = sint (get_le32 8 CmdPacket) in
      if TableID \<ge> 1 \<and> TableID < 3 then SC_ManageAtsTable env (nat (TableID - 1)) s
      else if TableID = 3 then SC_ManageAppendTable env s
      else if TableID \<ge> 4 \<and> TableID < 68 then SC_ManageRtsTable env (nat (TableID - 4)) s
      else if TableID = 68 then Some (sc_emit (TBL_Manage Tbl_RtsInfo) s)
      else if TableID = 69 then Some (sc_emit (TBL_Manage Tbl_RtpCtrl) s)
      else if TableID = 70 then Some (sc_emit (TBL_Manage Tbl_AtsInfo) s)
      else if TableID = 71 then Some (sc_emit (TBL_Manage Tbl_AppendInfo) s)
      else if TableID = 72 then Some (sc_emit (TBL_Manage Tbl_AtpCtrl) s)
      else if TableID \<ge> 73 \<and> TableID < 75
      then Some (sc_emit (TBL_Manage (Tbl_AtsCmdStatus (nat (TableID - 73)))) s)
      else Some (sc_event SC_TABLE_MANAGE_ID_ERR_EID [TableID] s))"

section \<open>Requests (sc_cmds.c)\<close>

definition SC_ProcessCommand :: "sc_env \<Rightarrow> bytes \<Rightarrow> SC_t \<Rightarrow> SC_t option" where
  "SC_ProcessCommand env CmdPacket s =
     (let CommandCode = CFE_SB_GetCmdCode CmdPacket in
      if CommandCode = 0 then Some (SC_NoOpCmd CmdPacket s)
      else if CommandCode = 1 then Some (SC_ResetCountersCmd CmdPacket s)
      else if CommandCode = 2 then SC_StartAtsCmd CmdPacket s
      else if CommandCode = 3 then SC_StopAtsCmd CmdPacket s
      else if CommandCode = 4 then SC_StartRtsCmd CmdPacket s
      else if CommandCode = 5 then SC_StopRtsCmd CmdPacket s
      else if CommandCode = 6 then SC_DisableRtsCmd CmdPacket s
      else if CommandCode = 7 then SC_EnableRtsCmd CmdPacket s
      else if CommandCode = 8 then SC_GroundSwitchCmd CmdPacket s
      else if CommandCode = 9 then SC_JumpAtsCmd CmdPacket s
      else if CommandCode = 10 then SC_ContinueAtsOnFailureCmd CmdPacket s
      else if CommandCode = 11 then SC_AppendAtsCmd CmdPacket s
      else if CommandCode = 12 then SC_TableManageCmd env CmdPacket s
      else if CommandCode = 13 then SC_StartRtsGrpCmd CmdPacket s
      else if CommandCode = 14 then SC_StopRtsGrpCmd CmdPacket s
      else if CommandCode = 15 then SC_DisableRtsGrpCmd CmdPacket s
      else if CommandCode = 16 then SC_EnableRtsGrpCmd CmdPacket s
      else Some (cmd_error (sc_event SC_INVLD_CMD_ERR_EID
                  [uint (CFE_SB_GetMsgId CmdPacket), uint CommandCode] s)))"

text \<open>One pass through the loop of the wake-up, with the condition of the loop.\<close>

definition wakeup_body :: "sc_env \<Rightarrow> SC_t \<Rightarrow> (bool \<times> SC_t) option" where
  "wakeup_body env s = do {
     s \<leftarrow> (if SwitchPendFlag s then SC_ServiceSwitchPend s else Some s);
     s \<leftarrow> (case NextProcNumber s of
             SC_ATP \<Rightarrow> SC_ProcessAtpCmd env s
           | SC_RTP \<Rightarrow> SC_ProcessRtpCommand env s
           | SC_NONE \<Rightarrow> Some s);
     s \<leftarrow> SC_UpdateNextTime s;
     idle \<leftarrow> (if NextProcNumber s = SC_NONE then Some True
              else map_option (\<lambda>t. t > CurrentTime s) (NextCmdTime s (NextProcNumber s)));
     Some (if idle then (False, s\<lparr>NumCmdsSec := 0\<rparr>)
           else if NumCmdsSec s \<ge> SC_MAX_CMDS_PER_SEC then (False, s\<lparr>NumCmdsSec := 0\<rparr>)
           else (True, s)) }"

partial_function (option) wakeup_loop :: "sc_env \<Rightarrow> SC_t \<Rightarrow> SC_t option" where
  "wakeup_loop env s = do {
     (more, s) \<leftarrow> wakeup_body env s;
     if more then wakeup_loop env s else Some s }"

text \<open>The request for housekeeping: the first one after a reset starts an RTS.\<close>

definition auto_start :: "SC_t \<Rightarrow> SC_t option" where
  "auto_start s =
     (if AutoStartRTS s \<noteq> 0 then do {
        r \<leftarrow> get_rts (unat (AutoStartRTS s - 1)) s;
        s \<leftarrow> (if RtsStatus r = SC_LOADED
              then set_disabled False (unat (AutoStartRTS s - 1)) s else Some s);
        Some ((SC_AutoStartRts (AutoStartRTS s) s)\<lparr>AutoStartRTS := 0\<rparr>) }
      else Some s)"

definition hk_request :: "bytes \<Rightarrow> SC_t \<Rightarrow> SC_t option" where
  "hk_request CmdPacket s =
     (case SC_VerifyCmdLength CmdPacket 8 s of
        (False, s) \<Rightarrow> Some s
      | (True, s) \<Rightarrow> do { s \<leftarrow> auto_start s; SC_SendHkPacket s })"

definition SC_ProcessRequest :: "sc_env \<Rightarrow> bytes \<Rightarrow> SC_t \<Rightarrow> SC_t option" where
  "SC_ProcessRequest env CmdPacket s =
     (let MessageID = CFE_SB_GetMsgId CmdPacket; s = SC_GetCurrentTime env s in
      if MessageID = SC_CMD_MID then SC_ProcessCommand env CmdPacket s
      else if MessageID = SC_SEND_HK_MID then hk_request CmdPacket s
      else if MessageID = SC_1HZ_WAKEUP_MID then wakeup_loop env s
      else Some (cmd_error (sc_event SC_MID_ERR_EID [uint MessageID] s)))"

end
