(* ===== verification/SC_Sort.thy ===== *)
theory SC_Sort
  imports SC_Cmds "HOL-Library.Multiset"
begin

text \<open>
  Stored commands: the time index of an ATS.  \<open>SC_Insert\<close> shifts the entries of the buffer that are later
  than the new one; \<open>ins_by\<close> is that insertion on lists.  The comparison wraps around with the seconds
  counter, so it orders times only within half of its range: the locale \<open>half_range_order\<close> states what the
  sorting needs of it.
\<close>

section \<open>Insertion from the end of a list\<close>

definition ins_by :: "('c \<Rightarrow> bool) \<Rightarrow> 'c \<Rightarrow> 'c list \<Rightarrow> 'c list" where
  "ins_by later x xs = rev (dropWhile later (rev xs)) @ x # rev (takeWhile later (rev xs))"

lemma ins_by_mset [simp]: "mset (ins_by later x xs) = add_mset x (mset xs)"
proof -
  have "mset (rev xs) = mset (takeWhile later (rev xs)) + mset (dropWhile later (rev xs))"
    by (metis mset_append takeWhile_dropWhile_id)
  then show ?thesis by (simp add: ins_by_def)
qed

lemma length_ins_by [simp]: "length (ins_by later x xs) = Suc (length xs)"
  by (metis ins_by_mset size_add_mset size_mset)

lemma set_ins_by [simp]: "set (ins_by later x xs) = insert x (set xs)"
  by (metis ins_by_mset set_mset_add_mset_insert set_mset_mset)

lemma ins_by_cong:
  "(\<And>c. c \<in> set xs \<Longrightarrow> f c = g c) \<Longrightarrow> ins_by f x xs = ins_by g x xs"
  unfolding ins_by_def
  by (intro arg_cong2 [where f = append] arg_cong2 [where f = Cons] arg_cong [where f = rev]
      takeWhile_cong dropWhile_cong) auto

lemma ins_by_map:
  "map h (ins_by (\<lambda>c. f (h c)) x xs) = ins_by f (h x) (map h xs)"
  by (simp add: ins_by_def rev_map takeWhile_map dropWhile_map comp_def)

fun sort_by :: "('c \<Rightarrow> 'c \<Rightarrow> bool) \<Rightarrow> 'c list \<Rightarrow> 'c list \<Rightarrow> 'c list" where
  "sort_by later [] acc = acc"
| "sort_by later (x # xs) acc = sort_by later xs (ins_by (\<lambda>c. later c x) x acc)"

section \<open>An order on half of a range\<close>

locale half_range_order =
  fixes later :: "'t \<Rightarrow> 't \<Rightarrow> bool" and dist :: "'t \<Rightarrow> 't \<Rightarrow> nat" and half :: nat
  assumes later_dist: "dist b s < half \<Longrightarrow> dist b t < half \<Longrightarrow> later s t \<longleftrightarrow> dist b t < dist b s"
begin

lemma ins_sorted:
  fixes tm :: "'c \<Rightarrow> 't"
  assumes "sorted (map (\<lambda>c. dist b (tm c)) ys)" and "\<forall>c \<in> insert x (set ys). dist b (tm c) < half"
  shows "sorted (map (\<lambda>c. dist b (tm c)) (ins_by (\<lambda>c. later (tm c) (tm x)) x ys))"
    and "[c \<leftarrow> ins_by (\<lambda>c. later (tm c) (tm x)) x ys. dist b (tm c) = k] =
         [c \<leftarrow> ys. dist b (tm c) = k] @ (if dist b (tm x) = k then [x] else [])"
proof -
  let ?k = "\<lambda>c. dist b (tm c)"
  let ?P = "\<lambda>c. later (tm c) (tm x)"
  define us where "us = rev (dropWhile ?P (rev ys))"
  define vs where "vs = rev (takeWhile ?P (rev ys))"
  have ys: "ys = us @ vs"
    by (metis us_def vs_def rev_append rev_rev_ident takeWhile_dropWhile_id)
  have P: "?P c \<longleftrightarrow> ?k x < ?k c" if "c \<in> set ys" for c
    using later_dist [of b "tm c" "tm x"] assms(2) that by simp
  have vs: "\<forall>c \<in> set vs. ?k x < ?k c"
    using P unfolding vs_def set_rev by (metis set_rev set_takeWhileD)
  have "us \<noteq> [] \<Longrightarrow> \<not> ?P (last us)"
    unfolding us_def by (metis hd_dropWhile last_rev rev_is_Nil_conv)
  moreover have "last us \<in> set ys" if "us \<noteq> []" using that ys by simp
  ultimately have "us \<noteq> [] \<Longrightarrow> ?k (last us) \<le> ?k x" using P by (meson linorder_not_less)
  moreover have "sorted (map ?k us)" using assms(1) ys by (simp add: sorted_append)
  then have "\<forall>c \<in> set us. ?k c \<le> ?k (last us)"
    by (cases us rule: rev_cases) (auto simp: sorted_append)
  ultimately have us: "\<forall>c \<in> set us. ?k c \<le> ?k x"
    by (metis empty_iff empty_set order_trans)
  show "sorted (map ?k (ins_by ?P x ys))"
    using assms(1) us vs unfolding ins_by_def us_def [symmetric] vs_def [symmetric] unfolding ys
    by (fastforce simp: sorted_append)
  show "[c \<leftarrow> ins_by ?P x ys. ?k c = k] = [c \<leftarrow> ys. ?k c = k] @ (if ?k x = k then [x] else [])"
  proof (cases "?k x = k")
    case True
    then have "[c \<leftarrow> vs. ?k c = k] = []" using vs by (auto simp: filter_empty_conv)
    then show ?thesis
      unfolding ins_by_def us_def [symmetric] vs_def [symmetric] using ys by simp
  next
    case False
    then show ?thesis
      unfolding ins_by_def us_def [symmetric] vs_def [symmetric] using ys by simp
  qed
qed

lemma sort_by_acc:
  fixes tm :: "'c \<Rightarrow> 't"
  assumes "\<forall>c \<in> set xs \<union> set zs. dist b (tm c) < half"
  shows "sort_by (\<lambda>c x. later (tm c) (tm x)) xs (sort_key (\<lambda>c. dist b (tm c)) zs) =
         sort_key (\<lambda>c. dist b (tm c)) (zs @ xs)"
  using assms
proof (induction xs arbitrary: zs)
  case Nil
  then show ?case by simp
next
  case (Cons x xs)
  let ?k = "\<lambda>c. dist b (tm c)"
  let ?ys = "sort_key ?k zs"
  have bnd: "\<forall>c \<in> insert x (set ?ys). ?k c < half" using Cons.prems by simp
  have "sort_key ?k (zs @ [x]) = ins_by (\<lambda>c. later (tm c) (tm x)) x ?ys"
  proof (rule properties_for_sort_key)
    show "mset (ins_by (\<lambda>c. later (tm c) (tm x)) x ?ys) = mset (zs @ [x])" by simp
    show "sorted (map ?k (ins_by (\<lambda>c. later (tm c) (tm x)) x ?ys))"
      by (rule ins_sorted(1)) (use bnd in auto)
    show "[c \<leftarrow> ins_by (\<lambda>c. later (tm c) (tm x)) x ?ys. ?k k = ?k c] = [c \<leftarrow> zs @ [x]. ?k k = ?k c]"
      for k
      using ins_sorted(2) [of b tm ?ys x "?k k"] bnd
      by (simp add: eq_commute [of "?k k"] sort_key_stable)
  qed
  then show ?case using Cons.IH [of "zs @ [x]"] Cons.prems by simp
qed

lemma sort_by_sort_key:
  fixes tm :: "'c \<Rightarrow> 't"
  assumes "\<forall>c \<in> set xs. dist b (tm c) < half"
  shows "sort_by (\<lambda>c x. later (tm c) (tm x)) xs [] = sort_key (\<lambda>c. dist b (tm c)) xs"
  using sort_by_acc [of xs "[]" b tm] assms by simp

end

lemma CompareAbsTime_refl [simp]: "\<not> SC_CompareAbsTime t t"
  by (simp add: SC_CompareAbsTime_def CFE_TIME_Compare_def)

lemma CompareAbsTime_ahead:
  assumes "unat (t - b) < unat (s - b)" "unat (s - b) < 2 ^ 31"
  shows "SC_CompareAbsTime s t" "\<not> SC_CompareAbsTime t s"
proof -
  have le: "t - b \<le> s - b" using assms(1) by (simp add: word_le_nat_alt)
  define d where "d = (s - b) - (t - b)"
  have "unat d = unat (s - b) - unat (t - b)" unfolding d_def using le by (rule unat_sub)
  then have d: "0 < d" "d < 0x80000000" using assms by (auto simp: word_less_nat_alt)
  have "CFE_TIME_Compare (sys_time t 0) (sys_time s 0) = CFE_TIME_A_LT_B"
    by (rule Compare_ahead [OF _ d]) (simp add: d_def)
  then show "SC_CompareAbsTime s t" "\<not> SC_CompareAbsTime t s"
    using Compare_flip [of "sys_time s 0" "sys_time t 0"]
    by (simp_all add: SC_CompareAbsTime_def flip_compare_def)
qed

interpretation sc_time: half_range_order SC_CompareAbsTime "\<lambda>b t. unat (t - b)" "2 ^ 31"
proof
  fix b s t :: u32
  assume "unat (s - b) < 2 ^ 31" "unat (t - b) < 2 ^ 31"
  moreover have "s = t" if "unat (s - b) = unat (t - b)"
    using that by (metis diff_add_cancel unsigned_word_eqI)
  ultimately show "SC_CompareAbsTime s t \<longleftrightarrow> unat (t - b) < unat (s - b)"
    using CompareAbsTime_ahead by (metis CompareAbsTime_refl linorder_neqE_nat)
qed

section \<open>Insertion into the time index buffer\<close>

lemma ats_cmd_time_upd [simp]:
  "ats_cmd_time (a\<lparr>AtsTimeIndexBuffer := b\<rparr>) = ats_cmd_time a"
  "ats_cmd_time (a\<lparr>AtsCmdStatus := st\<rparr>) = ats_cmd_time a"
  "ats_cmd_time (a\<lparr>AtsSize := z\<rparr>) = ats_cmd_time a"
  "ats_cmd_time (a\<lparr>NumberOfCommands := n\<rparr>) = ats_cmd_time a"
  "ats_cmd_time (a\<lparr>AtsUseCtr := u\<rparr>) = ats_cmd_time a"
  by (simp_all add: ats_cmd_time_def fun_eq_iff cong: if_cong)

abbreviation cmd_tm :: "sc_ats \<Rightarrow> nat \<Rightarrow> u32" where
  "cmd_tm a c \<equiv> the (ats_cmd_time a c)"

lemma Insert_loop_spec:
  assumes "n < length b" "\<forall>j<n. ats_cmd_time a (unat (b ! j)) \<noteq> None"
    and "p = length (dropWhile (\<lambda>c. SC_CompareAbsTime (cmd_tm a (unat c)) t) (rev (take n b)))"
  shows "\<exists>b'. Insert_loop t n (a\<lparr>AtsTimeIndexBuffer := b\<rparr>) = Some (p, a\<lparr>AtsTimeIndexBuffer := b'\<rparr>)
    \<and> length b' = length b \<and> b'[p := x] = take p b @ x # drop p (take n b) @ drop (Suc n) b"
  using assms
proof (induction n arbitrary: b p)
  case 0
  then show ?case by (intro exI [of _ b]) (simp add: upd_conv_take_nth_drop)
next
  case (Suc n)
  obtain t' where t': "ats_cmd_time a (unat (b ! n)) = Some t'" using Suc.prems(2) by fastforce
  have tk: "take (Suc n) b = take n b @ [b ! n]" using Suc.prems(1) by (simp add: take_Suc_conv_app_nth)
  show ?case
  proof (cases "SC_CompareAbsTime t' t")
    case True
    let ?b = "b[Suc n := b ! n]"
    let ?p = "length (dropWhile (\<lambda>c. SC_CompareAbsTime (cmd_tm a (unat c)) t) (rev (take n b)))"
    have "?p \<le> n" using Suc.prems(1) by (metis length_dropWhile_le length_rev length_take min.absorb2 less_imp_le_nat Suc_lessD)
    have p: "p = ?p" using Suc.prems(3) True t' tk by simp
    obtain b' where b': "Insert_loop t n (a\<lparr>AtsTimeIndexBuffer := ?b\<rparr>) = Some (?p, a\<lparr>AtsTimeIndexBuffer := b'\<rparr>)"
      "length b' = length b" "b'[?p := x] = take ?p ?b @ x # drop ?p (take n ?b) @ drop (Suc n) ?b"
      using Suc.IH [of ?b] Suc.prems by auto
    have "drop (Suc n) ?b = b ! n # drop (Suc (Suc n)) b"
      using Suc.prems(1) by (simp add: upd_conv_take_nth_drop)
    then have "b'[p := x] = take p b @ x # drop p (take (Suc n) b) @ drop (Suc (Suc n)) b"
      using b'(3) \<open>?p \<le> n\<close> Suc.prems(1) by (simp add: p tk)
    then show ?thesis
      using Suc.prems(1) True t' b' by (auto simp: arr_get_def arr_set_def p)
  next
    case False
    have "p = Suc n" using Suc.prems(1,3) False t' tk by simp
    then show ?thesis
      using Suc.prems(1) False t' by (auto simp: arr_get_def upd_conv_take_nth_drop)
  qed
qed

lemma SC_Insert_spec:
  assumes "n < length b" "\<forall>c \<in> set (map unat (take n b)). ats_cmd_time a c \<noteq> None"
    and "ats_cmd_time a c \<noteq> None" "c < 2 ^ 16"
  shows "\<exists>b'. SC_Insert c n (a\<lparr>AtsTimeIndexBuffer := b\<rparr>) = Some (a\<lparr>AtsTimeIndexBuffer := b'\<rparr>)
    \<and> length b' = length b
    \<and> map unat (take (Suc n) b') =
        ins_by (\<lambda>d. SC_CompareAbsTime (cmd_tm a d) (cmd_tm a c)) c (map unat (take n b))"
proof -
  define t where "t = (if 0 < n then cmd_tm a c else 0)"
  have nt: "(if 0 < n then ats_cmd_time a c else Some 0) = Some t"
    using assms(3) by (auto simp: t_def)
  let ?later = "\<lambda>d. SC_CompareAbsTime (cmd_tm a (unat d)) t"
  let ?x = "of_nat c :: u16"
  let ?p = "length (dropWhile ?later (rev (take n b)))"
  have tm: "\<forall>j<n. ats_cmd_time a (unat (b ! j)) \<noteq> None"
    using assms(1,2) by (force simp: in_set_conv_nth)
  obtain b' where b': "Insert_loop t n (a\<lparr>AtsTimeIndexBuffer := b\<rparr>) = Some (?p, a\<lparr>AtsTimeIndexBuffer := b'\<rparr>)"
    "length b' = length b" "b'[?p := ?x] = take ?p b @ ?x # drop ?p (take n b) @ drop (Suc n) b"
    using Insert_loop_spec [OF assms(1) tm refl, where x = ?x] by blast
  have pn: "?p \<le> n"
    using assms(1) by (metis length_dropWhile_le length_rev length_take min.absorb2 less_imp_le_nat)
  have sp: "take n b = rev (dropWhile ?later (rev (take n b))) @ rev (takeWhile ?later (rev (take n b)))"
    by (metis rev_append rev_rev_ident takeWhile_dropWhile_id)
  have "take ?p b = rev (dropWhile ?later (rev (take n b)))"
    using pn by (metis (no_types, lifting) append_eq_conv_conj length_rev min.absorb1 sp take_take)
  moreover have "drop ?p (take n b) = rev (takeWhile ?later (rev (take n b)))"
    by (metis (no_types, lifting) append_eq_conv_conj length_rev sp)
  ultimately have "b'[?p := ?x] = ins_by ?later ?x (take n b) @ drop (Suc n) b"
    unfolding b'(3) by (simp add: ins_by_def)
  then have "take (Suc n) (b'[?p := ?x]) = ins_by ?later ?x (take n b)"
    using assms(1) by simp
  then have "map unat (take (Suc n) (b'[?p := ?x])) =
      ins_by (\<lambda>d. SC_CompareAbsTime (cmd_tm a d) t) (unat ?x) (map unat (take n b))"
    using ins_by_map [where h = unat and f = "\<lambda>d. SC_CompareAbsTime (cmd_tm a d) t"] by metis
  moreover have "unat ?x = c" using assms(4) by (simp add: unsigned_of_nat take_bit_eq_mod)
  moreover have "ins_by (\<lambda>d. SC_CompareAbsTime (cmd_tm a d) t) c (map unat (take n b)) =
      ins_by (\<lambda>d. SC_CompareAbsTime (cmd_tm a d) (cmd_tm a c)) c (map unat (take n b))"
    by (rule ins_by_cong) (auto simp: t_def)
  moreover have "SC_Insert c n (a\<lparr>AtsTimeIndexBuffer := b\<rparr>) = Some (a\<lparr>AtsTimeIndexBuffer := b'[?p := ?x]\<rparr>)"
    unfolding SC_Insert_def ats_cmd_time_upd nt using b'(1,2) pn assms(1) by (simp add: arr_set_def)
  ultimately show ?thesis
    using b'(2) by (intro exI [of _ "b'[?p := ?x]"]) simp
qed

definition loaded_among :: "sc_ats \<Rightarrow> nat list \<Rightarrow> nat list" where
  "loaded_among a is = [c \<leftarrow> is. AtsCmdIndexBuffer a ! c \<noteq> - 1]"

lemma Build_loop_spec:
  assumes "set is \<subseteq> {..<length (AtsCmdIndexBuffer a)}" "length (AtsCmdIndexBuffer a) < 2 ^ 16"
    and "\<forall>c \<in> set (loaded_among a is) \<union> set (map unat (take n b)). ats_cmd_time a c \<noteq> None"
    and "n + length (loaded_among a is) \<le> length b"
  shows "\<exists>b'. Build_loop is n (a\<lparr>AtsTimeIndexBuffer := b\<rparr>) = Some (a\<lparr>AtsTimeIndexBuffer := b'\<rparr>)
    \<and> length b' = length b
    \<and> map unat (take (n + length (loaded_among a is)) b') =
        sort_by (\<lambda>d c. SC_CompareAbsTime (cmd_tm a d) (cmd_tm a c)) (loaded_among a is) (map unat (take n b))"
  using assms
proof (induction "is" arbitrary: n b)
  case Nil
  then show ?case by (auto simp: loaded_among_def)
next
  case (Cons i "is")
  show ?case
  proof (cases "AtsCmdIndexBuffer a ! i = - 1")
    case True
    then show ?thesis
      using Cons.IH [of n b] Cons.prems by (simp add: loaded_among_def arr_get_def)
  next
    case False
    then have lo: "loaded_among a (i # is) = i # loaded_among a is" by (simp add: loaded_among_def)
    obtain b1 where b1: "SC_Insert i n (a\<lparr>AtsTimeIndexBuffer := b\<rparr>) = Some (a\<lparr>AtsTimeIndexBuffer := b1\<rparr>)"
      "length b1 = length b"
      "map unat (take (Suc n) b1) =
        ins_by (\<lambda>d. SC_CompareAbsTime (cmd_tm a d) (cmd_tm a i)) i (map unat (take n b))"
      using SC_Insert_spec [of n b a i] Cons.prems by (auto simp: lo)
    have "set (map unat (take (Suc n) b1)) = insert i (set (map unat (take n b)))"
      unfolding b1(3) by simp
    then obtain b' where "Build_loop is (Suc n) (a\<lparr>AtsTimeIndexBuffer := b1\<rparr>) = Some (a\<lparr>AtsTimeIndexBuffer := b'\<rparr>)"
      "length b' = length b1"
      "map unat (take (Suc n + length (loaded_among a is)) b') =
        sort_by (\<lambda>d c. SC_CompareAbsTime (cmd_tm a d) (cmd_tm a c)) (loaded_among a is)
          (map unat (take (Suc n) b1))"
      using Cons.IH [of "Suc n" b1] Cons.prems b1(2) by (auto simp: lo)
    then show ?thesis
      using b1 False Cons.prems(1) by (auto simp: lo arr_get_def)
  qed
qed

abbreviation ats_loaded :: "sc_ats \<Rightarrow> nat list" where
  "ats_loaded a \<equiv> loaded_among a [0..<1000]"

abbreviation ats_order :: "sc_ats \<Rightarrow> nat list" where
  "ats_order a \<equiv> map unat (take (length (ats_loaded a)) (AtsTimeIndexBuffer a))"

lemma BuildTimeIndexTable_spec:
  assumes "length (AtsCmdIndexBuffer a) = 1000" "\<forall>c \<in> set (ats_loaded a). ats_cmd_time a c \<noteq> None"
  shows "\<exists>b. SC_BuildTimeIndexTable a = Some (a\<lparr>AtsTimeIndexBuffer := b\<rparr>) \<and> length b = 1000
    \<and> map unat (take (length (ats_loaded a)) b) =
        sort_by (\<lambda>d c. SC_CompareAbsTime (cmd_tm a d) (cmd_tm a c)) (ats_loaded a) []"
proof -
  have "length (ats_loaded a) \<le> 1000"
    by (metis diff_zero length_filter_le length_upt loaded_among_def)
  then show ?thesis
    using Build_loop_spec [of "[0..<1000]" a 0 "replicate 1000 0xFFFF"] assms
    by (auto simp: SC_BuildTimeIndexTable_def lessThan_atLeast0)
qed

end
