(* ===== verification/SC_Table.thy ===== *)
theory SC_Table
  imports SC_Sort
begin

text \<open>
  Stored commands: the format of an ATS table as an inductive predicate.  \<open>ats_table w t i es j\<close> says that
  the words of \<open>t\<close> from index \<open>i\<close> on are the entries \<open>es\<close> (command index and word index each), that the last
  one ends at word \<open>j\<close>, and that the table of \<open>w\<close> words ends there.  The verification of a table accepts
  exactly the non-empty tables of distinct commands; loading and appending enter all of their commands.
\<close>

definition entry_len :: "u16 list \<Rightarrow> nat \<Rightarrow> nat" where
  "entry_len t e = unat (CFE_SB_GetTotalMsgLength (tbl_pkt t (e + 3)))"

definition entry_size :: "u16 list \<Rightarrow> nat \<Rightarrow> nat" where
  "entry_size t e = 3 + (entry_len t e + 1) div 2"

definition entry_ok :: "nat \<Rightarrow> u16 list \<Rightarrow> nat \<Rightarrow> nat \<Rightarrow> bool" where
  "entry_ok w t c e \<longleftrightarrow> unat (t ! e) = Suc c \<and> c < 1000 \<and> e + 7 \<le> w
     \<and> 8 \<le> entry_len t e \<and> entry_len t e \<le> 250 \<and> e + entry_size t e \<le> w"

inductive ats_table :: "nat \<Rightarrow> u16 list \<Rightarrow> nat \<Rightarrow> (nat \<times> nat) list \<Rightarrow> nat \<Rightarrow> bool"
  for w :: nat and t :: "u16 list" where
  table_end: "i = w \<or> i < w \<and> t ! i = 0 \<Longrightarrow> ats_table w t i [] i"
| table_entry: "entry_ok w t c i \<Longrightarrow> ats_table w t (i + entry_size t i) es j
    \<Longrightarrow> ats_table w t i ((c, i) # es) j"

inductive_cases ats_table_NilE: "ats_table w t i [] j"
inductive_cases ats_table_ConsE: "ats_table w t i (e # es) j"

lemma entry_size_pos [simp]: "0 < entry_size t e" "entry_size t e \<noteq> 0"
  by (simp_all add: entry_size_def)

lemma entry_words_size: "ats_entry_words (CFE_SB_GetTotalMsgLength (tbl_pkt t (e + 3))) = entry_size t e"
  by (simp add: ats_entry_words_def entry_size_def entry_len_def)

lemma entry_ok_less: "entry_ok w t c e \<Longrightarrow> e < w"
  by (simp add: entry_ok_def)

lemma entry_ok_inj: "entry_ok w t c e \<Longrightarrow> entry_ok w' t d e \<Longrightarrow> c = d"
  by (simp add: entry_ok_def)

lemma ats_table_le: "ats_table w t i es j \<Longrightarrow> i \<le> j \<and> j \<le> w"
  by (induction rule: ats_table.induct) auto

lemma ats_table_entries:
  assumes "ats_table w t i es j" "(c, e) \<in> set es"
  shows "entry_ok w t c e" "i \<le> e" "e + entry_size t e \<le> j"
proof -
  have "entry_ok w t c e \<and> i \<le> e \<and> e + entry_size t e \<le> j"
    using assms by (induction rule: ats_table.induct) (auto dest: ats_table_le)
  then show "entry_ok w t c e" "i \<le> e" "e + entry_size t e \<le> j" by simp_all
qed

section \<open>Verification\<close>

lemma pkt_length_entry:
  "e + 5 < length t \<Longrightarrow> pkt_length t (e + 3) = Some (CFE_SB_GetTotalMsgLength (tbl_pkt t (e + 3)))"
  by (simp add: pkt_length_def)

text \<open>What one step of the verification decides.\<close>

lemma VerifyAtsEntry_entry:
  assumes "entry_ok w t c i" "w = length t" "length (AtsDupTestArray s) = 1000"
  shows "SC_VerifyAtsEntry t i w s =
    (if AtsDupTestArray s ! c = - 1
     then Some (int (entry_size t i), s\<lparr>AtsDupTestArray := (AtsDupTestArray s)[c := int i]\<rparr>)
     else Some (- 1, sc_event 109 [int i, 1 + int c, AtsDupTestArray s ! c] s))"
  using assms
  by (auto simp: SC_VerifyAtsEntry_def entry_ok_def arr_get_def arr_set_def pkt_length_entry Let_def
      entry_size_def entry_len_def uint_nat)

lemma VerifyAtsEntry_end:
  "i = w \<or> i < w \<and> t ! i = 0 \<Longrightarrow> w = length t \<Longrightarrow> SC_VerifyAtsEntry t i w s = Some (0, s)"
  by (auto simp: SC_VerifyAtsEntry_def arr_get_def)

lemma VerifyAtsEntry_other:
  assumes "i < w" "t ! i \<noteq> 0" "\<forall>c. \<not> entry_ok w t c i" "w = length t"
    "length (AtsDupTestArray s) = 1000"
  shows "\<exists>out. SC_VerifyAtsEntry t i w s = Some (- 1, sc_emit out s)"
proof -
  have "\<not> entry_ok w t (unat (t ! i) - 1) i" using assms(3) by blast
  moreover have "0 < unat (t ! i)" using assms(2) by (simp add: unat_gt_0)
  ultimately show ?thesis
    using assms(1,2,4,5)
    by (auto simp: SC_VerifyAtsEntry_def entry_ok_def arr_get_def arr_set_def pkt_length_entry Let_def
      entry_size_def entry_len_def)
qed

definition fresh_entries :: "int list \<Rightarrow> (nat \<times> nat) list \<Rightarrow> bool" where
  "fresh_entries dup es \<longleftrightarrow> distinct (map fst es) \<and> (\<forall>c \<in> fst ` set es. dup ! c = - 1)"

lemma fresh_entries_Nil [simp]: "fresh_entries dup []"
  by (simp add: fresh_entries_def)

lemma fresh_entries_Cons:
  "c < length dup \<Longrightarrow> v \<noteq> - 1 \<Longrightarrow>
     fresh_entries dup ((c, e) # es) \<longleftrightarrow> dup ! c = - 1 \<and> fresh_entries (dup[c := v]) es"
  by (auto simp: fresh_entries_def nth_list_update image_iff)

lemma VerifyAts_loop_spec:
  assumes "w = length t" "i \<le> w" "length (AtsDupTestArray s) = 1000"
  shows "\<exists>r j n d tr. VerifyAts_loop t w i k s =
      Some (r, j, n, s\<lparr>AtsDupTestArray := d, ScTrace := tr @ ScTrace s\<rparr>) \<and> length d = 1000
    \<and> (if r = 0 then \<exists>es. ats_table w t i es j \<and> fresh_entries (AtsDupTestArray s) es \<and> n = k + length es
       else \<forall>es j. ats_table w t i es j \<longrightarrow> \<not> fresh_entries (AtsDupTestArray s) es)"
  using assms
proof (induction "w - i" arbitrary: i k s rule: less_induct)
  case less
  have id: "s = s\<lparr>AtsDupTestArray := AtsDupTestArray s, ScTrace := [] @ ScTrace s\<rparr>" by simp
  consider (stop) "i = w \<or> i < w \<and> t ! i = 0" | (entry) c where "entry_ok w t c i"
    | (other) "i < w" "t ! i \<noteq> 0" "\<forall>c. \<not> entry_ok w t c i"
    using less.prems(2) by fastforce
  then show ?case
  proof cases
    case stop
    then have "VerifyAts_loop t w i k s = Some (0, i, k, s)"
      using less.prems(1) by (subst VerifyAts_loop.simps) (simp add: VerifyAtsEntry_end)
    then show ?thesis
      using less.prems(3) id table_end [OF stop]
      by (intro exI [of _ 0] exI [of _ i] exI [of _ k] exI [of _ "AtsDupTestArray s"] exI [of _ "[]"])
        (auto intro!: exI [of _ "[]"])
  next
    case entry
    have c: "c < 1000" "i < w" "i + entry_size t i \<le> w" using entry by (auto simp: entry_ok_def)
    have hd: "es = (c, i) # tl es \<and> ats_table w t (i + entry_size t i) (tl es) j"
      if "ats_table w t i es j" for es j
      using that by cases (use entry in \<open>auto simp: entry_ok_def\<close>)
    show ?thesis
    proof (cases "AtsDupTestArray s ! c = - 1")
      case True
      let ?s = "s\<lparr>AtsDupTestArray := (AtsDupTestArray s)[c := int i]\<rparr>"
      have eq: "VerifyAts_loop t w i k s = VerifyAts_loop t w (i + entry_size t i) (Suc k) ?s"
        using entry less.prems True by (subst VerifyAts_loop.simps) (simp add: VerifyAtsEntry_entry)
      have dec: "w - (i + entry_size t i) < w - i"
        using c entry_size_pos(1) [of t i] by linarith
      have fr: "fresh_entries (AtsDupTestArray s) ((c, i) # es) \<longleftrightarrow>
          fresh_entries ((AtsDupTestArray s)[c := int i]) es" for es
        using fresh_entries_Cons [of c "AtsDupTestArray s" "int i"] c(1) True less.prems(3) by simp
      obtain r j n d tr where ih: "VerifyAts_loop t w i k s =
            Some (r, j, n, s\<lparr>AtsDupTestArray := d, ScTrace := tr @ ScTrace s\<rparr>)" "length d = 1000"
          "if r = 0 then \<exists>es. ats_table w t (i + entry_size t i) es j
              \<and> fresh_entries ((AtsDupTestArray s)[c := int i]) es \<and> n = Suc k + length es
           else \<forall>es j. ats_table w t (i + entry_size t i) es j
              \<longrightarrow> \<not> fresh_entries ((AtsDupTestArray s)[c := int i]) es"
        using less.hyps [OF dec, of ?s "Suc k"] less.prems(1,3) c(3) unfolding eq
        by (simp cong: if_cong) blast
      have "if r = 0 then \<exists>es. ats_table w t i es j \<and> fresh_entries (AtsDupTestArray s) es \<and> n = k + length es
         else \<forall>es j. ats_table w t i es j \<longrightarrow> \<not> fresh_entries (AtsDupTestArray s) es"
      proof (cases "r = 0")
        case True
        then obtain es where "ats_table w t (i + entry_size t i) es j"
          "fresh_entries ((AtsDupTestArray s)[c := int i]) es" "n = Suc k + length es"
          using ih(3) by auto
        then show ?thesis
          using True table_entry [OF entry] fr by (auto intro!: exI [of _ "(c, i) # es"])
      next
        case False
        then show ?thesis using ih(3) hd fr by (metis (no_types, lifting))
      qed
      then show ?thesis using ih(1,2) by blast
    next
      case False
      let ?out = "SC_Event 109 [int i, 1 + int c, AtsDupTestArray s ! c]"
      have v: "VerifyAts_loop t w i k s = Some (- 1, i, k, sc_emit ?out s)"
        using entry less.prems False by (subst VerifyAts_loop.simps) (simp add: VerifyAtsEntry_entry)
      have "\<not> fresh_entries (AtsDupTestArray s) es" if "ats_table w t i es j" for es j
        using hd [OF that] False by (metis fresh_entries_def fst_conv image_eqI list.set_intros(1))
      then show ?thesis
        using less.prems(3) unfolding v sc_emit_def
        by (intro exI [of _ "- 1"] exI [of _ i] exI [of _ k] exI [of _ "AtsDupTestArray s"] exI [of _ "[?out]"])
          auto
    qed
  next
    case other
    then obtain out where "SC_VerifyAtsEntry t i w s = Some (- 1, sc_emit out s)"
      using VerifyAtsEntry_other less.prems by blast
    then have v: "VerifyAts_loop t w i k s = Some (- 1, i, k, sc_emit out s)"
      by (subst VerifyAts_loop.simps) simp
    have "\<not> ats_table w t i es j" for es j
      using other by (auto elim: ats_table.cases)
    then show ?thesis
      using less.prems(3) unfolding v sc_emit_def
      by (intro exI [of _ "- 1"] exI [of _ i] exI [of _ k] exI [of _ "AtsDupTestArray s"] exI [of _ "[out]"])
        auto
  qed
qed

lemma ats_table_det:
  "ats_table w t i es j \<Longrightarrow> ats_table w t i es' j' \<Longrightarrow> es' = es \<and> j' = j"
proof (induction arbitrary: es' j' rule: ats_table.induct)
  case (table_end i)
  from table_end.prems show ?case
    by cases (use table_end.hyps in \<open>auto simp: entry_ok_def\<close>)
next
  case (table_entry c i es j)
  from table_entry.prems table_entry.hyps(1) obtain es1 where
    "es' = (c, i) # es1" "ats_table w t (i + entry_size t i) es1 j'"
    by cases (auto simp: entry_ok_def)
  then show ?case using table_entry.IH by blast
qed

definition good_table :: "nat \<Rightarrow> u16 list \<Rightarrow> (nat \<times> nat) list \<Rightarrow> nat \<Rightarrow> bool" where
  "good_table w t es j \<longleftrightarrow> length t = w \<and> ats_table w t 0 es j \<and> distinct (map fst es) \<and> es \<noteq> []"

lemma ats_table_cmds: "ats_table w t i es j \<Longrightarrow> c \<in> fst ` set es \<Longrightarrow> c < 1000"
  by (auto dest!: ats_table_entries(1) simp: entry_ok_def)

lemma VerifyAtsTable_spec:
  assumes "length t = w"
  shows "\<exists>r d tr. SC_VerifyAtsTable t w s = Some (r, s\<lparr>AtsDupTestArray := d, ScTrace := tr @ ScTrace s\<rparr>)
    \<and> length d = 1000 \<and> (r \<longleftrightarrow> (\<exists>es j. good_table w t es j))"
proof -
  let ?s = "s\<lparr>AtsDupTestArray := replicate 1000 (- 1)\<rparr>"
  have fresh: "fresh_entries (replicate 1000 (- 1)) es \<longleftrightarrow> distinct (map fst es)"
    if "ats_table w t 0 es j" for es j
    using ats_table_cmds [OF that] by (auto simp: fresh_entries_def)
  obtain r j n d tr where v: "VerifyAts_loop t w 0 0 ?s =
      Some (r, j, n, ?s\<lparr>AtsDupTestArray := d, ScTrace := tr @ ScTrace ?s\<rparr>)" "length d = 1000"
    "if r = 0 then \<exists>es. ats_table w t 0 es j \<and> fresh_entries (replicate 1000 (- 1)) es \<and> n = 0 + length es
       else \<forall>es j. ats_table w t 0 es j \<longrightarrow> \<not> fresh_entries (replicate 1000 (- 1)) es"
    using VerifyAts_loop_spec [of w t 0 ?s 0] assms by (auto cong: if_cong)
  have good: "(\<exists>es j. good_table w t es j) \<longleftrightarrow> r = 0 \<and> n \<noteq> 0"
  proof (cases "r = 0")
    case True
    then obtain es where "ats_table w t 0 es j" "distinct (map fst es)" "n = length es"
      using v(3) fresh by auto
    then show ?thesis using True assms by (auto simp: good_table_def dest: ats_table_det)
  next
    case False
    then show ?thesis using v(3) fresh by (auto simp: good_table_def)
  qed
  define tr' where "tr' = (if r \<noteq> 0 then tr else if n = 0 then SC_Event 110 [] # tr
    else SC_Event 103 [int n, int j * 2] # tr)"
  have "SC_VerifyAtsTable t w s =
      Some (r = 0 \<and> n \<noteq> 0, s\<lparr>AtsDupTestArray := d, ScTrace := tr' @ ScTrace s\<rparr>)"
    using v(1) by (simp add: SC_VerifyAtsTable_def sc_emit_def tr'_def)
  then show ?thesis unfolding good using v(2) by blast
qed

section \<open>Entering commands\<close>

text \<open>What loading and appending do with one entry.\<close>

definition enter_cmd :: "nat \<Rightarrow> nat \<Rightarrow> sc_ats \<Rightarrow> sc_ats" where
  "enter_cmd c e a = a\<lparr>
     AtsCmdIndexBuffer := (AtsCmdIndexBuffer a)[c := int e],
     AtsCmdStatus := (AtsCmdStatus a)[c := SC_LOADED],
     NumberOfCommands := (if AtsCmdStatus a ! c = SC_EMPTY then NumberOfCommands a + 1 else NumberOfCommands a)\<rparr>"

fun enter_all :: "(nat \<times> nat) list \<Rightarrow> sc_ats \<Rightarrow> sc_ats" where
  "enter_all [] a = a"
| "enter_all ((c, e) # es) a = enter_all es (enter_cmd c e a)"

lemma enter_cmd_fields [simp]:
  "AtsTbl (enter_cmd c e a) = AtsTbl a" "AtsSize (enter_cmd c e a) = AtsSize a"
  "AtsUseCtr (enter_cmd c e a) = AtsUseCtr a"
  "AtsTimeIndexBuffer (enter_cmd c e a) = AtsTimeIndexBuffer a"
  "AtsCmdIndexBuffer (enter_cmd c e a) = (AtsCmdIndexBuffer a)[c := int e]"
  "AtsCmdStatus (enter_cmd c e a) = (AtsCmdStatus a)[c := SC_LOADED]"
  by (simp_all add: enter_cmd_def)

lemma enter_all_fields [simp]:
  "AtsTbl (enter_all es a) = AtsTbl a" "AtsSize (enter_all es a) = AtsSize a"
  "AtsUseCtr (enter_all es a) = AtsUseCtr a"
  "AtsTimeIndexBuffer (enter_all es a) = AtsTimeIndexBuffer a"
  "length (AtsCmdIndexBuffer (enter_all es a)) = length (AtsCmdIndexBuffer a)"
  "length (AtsCmdStatus (enter_all es a)) = length (AtsCmdStatus a)"
  by (induction es a rule: enter_all.induct) simp_all

lemma enter_all_other:
  "c \<notin> fst ` set es \<Longrightarrow> AtsCmdIndexBuffer (enter_all es a) ! c = AtsCmdIndexBuffer a ! c
     \<and> AtsCmdStatus (enter_all es a) ! c = AtsCmdStatus a ! c"
  by (induction es a rule: enter_all.induct) auto

lemma enter_all_index:
  "(c, e) \<in> set es \<Longrightarrow> distinct (map fst es) \<Longrightarrow> c < length (AtsCmdIndexBuffer a)
     \<Longrightarrow> AtsCmdIndexBuffer (enter_all es a) ! c = int e"
proof (induction es a rule: enter_all.induct)
  case (2 d e' es a)
  then show ?case using enter_all_other [of d es "enter_cmd d e' a"] by (auto simp: rev_image_eqI)
qed simp

lemma enter_all_status:
  "c \<in> fst ` set es \<Longrightarrow> c < length (AtsCmdStatus a) \<Longrightarrow> AtsCmdStatus (enter_all es a) ! c = SC_LOADED"
proof (induction es a rule: enter_all.induct)
  case (2 d e' es a)
  then show ?case
    using enter_all_other [of d es "enter_cmd d e' a"] by (cases "d \<in> fst ` set es") auto
qed simp

section \<open>The command index of an ATS\<close>

text \<open>The command index and the command status agree, the number of commands is that of the entries of
  the index, and each leads to an entry of the table with its number that ends at word \<open>z\<close> at the latest.\<close>

definition index_ok :: "nat \<Rightarrow> sc_ats \<Rightarrow> bool" where
  "index_ok z a \<longleftrightarrow> length (AtsCmdStatus a) = 1000 \<and> length (AtsCmdIndexBuffer a) = 1000
     \<and> unat (NumberOfCommands a) = length (ats_loaded a)
     \<and> (\<forall>c<1000. AtsCmdIndexBuffer a ! c = - 1 \<longleftrightarrow> AtsCmdStatus a ! c = SC_EMPTY)
     \<and> (\<forall>c<1000. AtsCmdIndexBuffer a ! c \<noteq> - 1 \<longrightarrow>
          (\<exists>e. AtsCmdIndexBuffer a ! c = int e \<and> entry_ok 8000 (AtsTbl a) c e
             \<and> e + entry_size (AtsTbl a) e \<le> z))"

lemma length_loaded: "length (ats_loaded a) = card {c. c < 1000 \<and> AtsCmdIndexBuffer a ! c \<noteq> - 1}"
proof -
  have "distinct (ats_loaded a)" by (simp add: loaded_among_def)
  moreover have "set (ats_loaded a) = {c. c < 1000 \<and> AtsCmdIndexBuffer a ! c \<noteq> - 1}"
    by (auto simp: loaded_among_def)
  ultimately show ?thesis by (metis distinct_card)
qed

lemma length_loaded_le: "length (ats_loaded a) \<le> 1000"
  by (metis diff_zero length_filter_le length_upt loaded_among_def)

lemma index_ok_enter:
  assumes ok: "index_ok z a" and e: "entry_ok 8000 (AtsTbl a) c e" "e + entry_size (AtsTbl a) e \<le> z"
  shows "index_ok z (enter_cmd c e a)"
proof -
  let ?L = "\<lambda>a. {c. c < 1000 \<and> AtsCmdIndexBuffer a ! c \<noteq> - 1}"
  have c: "c < 1000" using e(1) by (simp add: entry_ok_def)
  have L: "?L (enter_cmd c e a) = insert c (?L a)"
    using c ok by (auto simp: index_ok_def nth_list_update)
  have n: "unat (NumberOfCommands a) = card (?L a)"
    using ok length_loaded [of a] by (simp add: index_ok_def)
  have "unat (NumberOfCommands (enter_cmd c e a)) = card (?L (enter_cmd c e a))"
  proof (cases "AtsCmdStatus a ! c = SC_EMPTY")
    case True
    then have "c \<notin> ?L a" using c ok by (auto simp: index_ok_def)
    then have "card (?L (enter_cmd c e a)) = Suc (card (?L a))" unfolding L by simp
    moreover have "card (?L a) \<le> 1000" using length_loaded_le [of a] by (simp add: length_loaded)
    ultimately show ?thesis using True n by (simp add: enter_cmd_def unat_word_ariths)
  next
    case False
    then have "c \<in> ?L a" using c ok by (auto simp: index_ok_def)
    then show ?thesis using False n unfolding L by (simp add: enter_cmd_def insert_absorb)
  qed
  then show ?thesis
    using ok e c unfolding index_ok_def length_loaded by (auto simp: nth_list_update)
qed

lemma index_ok_enter_all:
  assumes "index_ok z a" "\<forall>(c, e) \<in> set es. entry_ok 8000 (AtsTbl a) c e \<and> e + entry_size (AtsTbl a) e \<le> z"
  shows "index_ok z (enter_all es a)"
  using assms
proof (induction es a rule: enter_all.induct)
  case (2 c e es a)
  then have "index_ok z (enter_cmd c e a)" by (intro index_ok_enter) auto
  then show ?case using 2 by auto
qed simp

end
