(* ===== verification/SC_Load.thy ===== *)
theory SC_Load
  imports SC_Table
begin

text \<open>
  Stored commands: loading and appending establish the invariant \<open>wf_ats\<close> of an ATS; a table that the
  verification accepted is loaded completely, in the order of time.
\<close>

lemma unat_ucast_u16 [simp]: "unat (ucast (w::u16) :: u32) = unat w"
proof -
  have "unat w < 2 ^ 16" using unsigned_less [of w] by simp
  then show ?thesis by (simp add: unsigned_ucast_eq take_bit_nat_eq_self)
qed

section \<open>The invariant of an ATS\<close>

definition wf_ats :: "sc_ats \<Rightarrow> bool" where
  "wf_ats a \<longleftrightarrow> index_ok (unat (AtsSize a)) a \<and> unat (AtsSize a) \<le> 8000
     \<and> (NumberOfCommands a > 0 \<longrightarrow> length (AtsTbl a) = 8000)
     \<and> length (AtsTimeIndexBuffer a) = 1000 \<and> mset (ats_order a) = mset (ats_loaded a)"

lemma sort_by_mset [simp]: "mset (sort_by later xs acc) = mset xs + mset acc"
  by (induction later xs acc rule: sort_by.induct) simp_all

lemma loaded_among_upd [simp]:
  "loaded_among (a\<lparr>AtsTimeIndexBuffer := b\<rparr>) is = loaded_among a is"
  "loaded_among (a\<lparr>AtsSize := z\<rparr>) is = loaded_among a is"
  "loaded_among (a\<lparr>AtsCmdStatus := st\<rparr>) is = loaded_among a is"
  "loaded_among (a\<lparr>AtsUseCtr := u\<rparr>) is = loaded_among a is"
  "loaded_among (a\<lparr>AtsTbl := t\<rparr>) is = loaded_among a is"
  by (simp_all add: loaded_among_def)

lemma set_loaded [simp]: "c \<in> set (ats_loaded a) \<longleftrightarrow> c < 1000 \<and> AtsCmdIndexBuffer a ! c \<noteq> - 1"
  by (auto simp: loaded_among_def)

lemma index_ok_upd [simp]:
  "index_ok z (a\<lparr>AtsTimeIndexBuffer := b\<rparr>) = index_ok z a"
  "index_ok z (a\<lparr>AtsSize := n\<rparr>) = index_ok z a"
  "index_ok z (a\<lparr>AtsUseCtr := u\<rparr>) = index_ok z a"
  by (simp_all add: index_ok_def)

lemma index_ok_time:
  assumes "index_ok z a" "length (AtsTbl a) = 8000" "c \<in> set (ats_loaded a)"
  shows "ats_cmd_time a c \<noteq> None"
proof -
  obtain e where "AtsCmdIndexBuffer a ! c = int e" "entry_ok 8000 (AtsTbl a) c e"
    using assms(1,3) by (auto simp: index_ok_def)
  then show ?thesis
    using assms by (auto simp: ats_cmd_time_def arr_get_def SC_GetAtsEntryTime_def index_ok_def entry_ok_def)
qed

lemma index_ok_build:
  assumes "index_ok z a" "length (AtsTbl a) = 8000"
  obtains b where "SC_BuildTimeIndexTable a = Some (a\<lparr>AtsTimeIndexBuffer := b\<rparr>)" "length b = 1000"
    "map unat (take (length (ats_loaded a)) b) =
       sort_by (\<lambda>d c. SC_CompareAbsTime (cmd_tm a d) (cmd_tm a c)) (ats_loaded a) []"
  using BuildTimeIndexTable_spec [of a] index_ok_time [OF assms] assms(1) by (auto simp: index_ok_def)

lemma wf_ats_build:
  assumes "index_ok (unat (AtsSize a)) a" "length (AtsTbl a) = 8000" "unat (AtsSize a) \<le> 8000"
  obtains b where "SC_BuildTimeIndexTable a = Some (a\<lparr>AtsTimeIndexBuffer := b\<rparr>)"
    "wf_ats (a\<lparr>AtsTimeIndexBuffer := b\<rparr>)"
    "map unat (take (length (ats_loaded a)) b) =
       sort_by (\<lambda>d c. SC_CompareAbsTime (cmd_tm a d) (cmd_tm a c)) (ats_loaded a) []"
proof -
  obtain b where b: "SC_BuildTimeIndexTable a = Some (a\<lparr>AtsTimeIndexBuffer := b\<rparr>)" "length b = 1000"
    "map unat (take (length (ats_loaded a)) b) =
       sort_by (\<lambda>d c. SC_CompareAbsTime (cmd_tm a d) (cmd_tm a c)) (ats_loaded a) []"
    using index_ok_build [OF assms(1,2)] by blast
  have "wf_ats (a\<lparr>AtsTimeIndexBuffer := b\<rparr>)"
    using assms b(2,3) by (simp add: wf_ats_def)
  then show ?thesis using that b by blast
qed

section \<open>Loading\<close>

lemma InitAtsTables_fields [simp]:
  "AtsTbl (SC_InitAtsTables a) = AtsTbl a" "AtsSize (SC_InitAtsTables a) = 0"
  "NumberOfCommands (SC_InitAtsTables a) = 0" "AtsUseCtr (SC_InitAtsTables a) = AtsUseCtr a"
  "AtsCmdStatus (SC_InitAtsTables a) = replicate 1000 SC_EMPTY"
  "AtsCmdIndexBuffer (SC_InitAtsTables a) = replicate 1000 (- 1)"
  "AtsTimeIndexBuffer (SC_InitAtsTables a) = replicate 1000 0xFFFF"
  by (simp_all add: SC_InitAtsTables_def)

lemma loaded_Init [simp]: "ats_loaded (SC_InitAtsTables a) = []"
  by (auto simp: loaded_among_def filter_empty_conv)

lemma index_ok_Init: "index_ok z (SC_InitAtsTables a)"
  by (simp add: index_ok_def)

lemma wf_ats_Init: "wf_ats (SC_InitAtsTables a)"
  by (simp add: wf_ats_def index_ok_Init)

lemma LoadAts_loop_spec:
  assumes "ats_table 8000 t i es j" "AtsTbl a = t" "length t = 8000" "distinct (map fst es)"
    "length (AtsCmdStatus a) = 1000" "length (AtsCmdIndexBuffer a) = 1000"
    "\<forall>c \<in> fst ` set es. AtsCmdStatus a ! c = SC_EMPTY"
  shows "LoadAts_loop i a = Some (True, j, enter_all es a)"
  using assms
proof (induction arbitrary: a rule: ats_table.induct)
  case (table_end i)
  then show ?case by (subst LoadAts_loop.simps) (auto simp: arr_get_def)
next
  case (table_entry c i es j)
  define len where "len = CFE_SB_GetTotalMsgLength (tbl_pkt t (i + 3))"
  have e: "i < 8000" "\<not> 7993 < i" "unat (t ! i) = Suc c" "c < 1000" "i + entry_size t i \<le> 8000"
      "8 \<le> unat len" "unat len \<le> 250"
    using table_entry.hyps(1) by (auto simp: entry_ok_def len_def entry_len_def)
  have "t ! i \<noteq> 0" "AtsCmdStatus a ! c = SC_EMPTY" using e(3) table_entry.prems(6) by auto
  moreover have "pkt_length t (i + 3) = Some len"
    using e(2) table_entry.prems(2) by (simp add: pkt_length_entry len_def)
  moreover have "ats_entry_words len = entry_size t i" by (simp add: len_def entry_words_size)
  ultimately have "LoadAts_loop i a = LoadAts_loop (i + entry_size t i) (enter_cmd c i a)"
    using e table_entry.prems(1,2,4,5)
    by (subst LoadAts_loop.simps) (simp add: arr_get_def arr_set_def enter_cmd_def)
  moreover have "c \<notin> fst ` set es" using table_entry.prems(3) by simp
  then have "\<forall>d \<in> fst ` set es. AtsCmdStatus (enter_cmd c i a) ! d = SC_EMPTY"
    using table_entry.prems(6) by (auto simp: nth_list_update image_iff)
  ultimately show ?case using table_entry.IH [of "enter_cmd c i a"] table_entry.prems by simp
qed

lemma loaded_enter_all:
  assumes "ats_table w t 0 es j" "distinct (map fst es)"
  shows "ats_loaded (enter_all es (SC_InitAtsTables a)) = sort (map fst es)"
proof (rule sorted_distinct_set_unique)
  let ?a = "enter_all es (SC_InitAtsTables a)"
  have "AtsCmdIndexBuffer ?a ! c \<noteq> - 1 \<longleftrightarrow> c \<in> fst ` set es" if "c < 1000" for c
    using that enter_all_other [of c es "SC_InitAtsTables a"]
      enter_all_index [OF _ assms(2), of c _ "SC_InitAtsTables a"] by (cases "c \<in> fst ` set es") auto
  then show "set (ats_loaded ?a) = set (sort (map fst es))"
    using ats_table_cmds [OF assms(1)] by (auto simp: set_eq_iff)
  show "sorted (ats_loaded ?a)" "distinct (ats_loaded ?a)"
    by (simp_all add: loaded_among_def sorted_wrt_filter)
qed (use assms(2) in auto)

lemma LoadAts_good:
  assumes "good_table 8000 (AtsTbl a) es j"
  defines "a1 \<equiv> enter_all es (SC_InitAtsTables a)\<lparr>AtsSize := of_nat j\<rparr>"
  obtains b where "SC_LoadAts a = Some (a1\<lparr>AtsTimeIndexBuffer := b\<rparr>)" "wf_ats (a1\<lparr>AtsTimeIndexBuffer := b\<rparr>)"
    "ats_loaded a1 = sort (map fst es)" "unat (NumberOfCommands a1) = length es"
    "map unat (take (length es) b) =
       sort_by (\<lambda>d c. SC_CompareAbsTime (cmd_tm a1 d) (cmd_tm a1 c)) (sort (map fst es)) []"
proof -
  note g = assms(1) [unfolded good_table_def]
  have t: "ats_table 8000 (AtsTbl a) 0 es j" "distinct (map fst es)" using g by auto
  let ?e = "enter_all es (SC_InitAtsTables a)"
  have loop: "LoadAts_loop 0 (SC_InitAtsTables a) = Some (True, j, ?e)"
    by (rule LoadAts_loop_spec [OF t(1)]) (use g ats_table_cmds [OF t(1)] in auto)
  have j: "j \<le> 8000" using ats_table_le [OF t(1)] by simp
  have lo: "ats_loaded ?e = sort (map fst es)" by (rule loaded_enter_all [OF t])
  have ok: "index_ok j ?e"
    by (rule index_ok_enter_all [OF index_ok_Init]) (use ats_table_entries [OF t(1)] in auto)
  then have n: "unat (NumberOfCommands ?e) = length es" using lo by (simp add: index_ok_def)
  then have pos: "NumberOfCommands ?e > 0" using g by (auto simp: word_less_nat_alt)
  have aj: "unat (AtsSize a1) = j" using j by (simp add: a1_def unsigned_of_nat take_bit_eq_mod)
  obtain b where "SC_BuildTimeIndexTable a1 = Some (a1\<lparr>AtsTimeIndexBuffer := b\<rparr>)"
    "wf_ats (a1\<lparr>AtsTimeIndexBuffer := b\<rparr>)"
    "map unat (take (length (ats_loaded a1)) b) =
       sort_by (\<lambda>d c. SC_CompareAbsTime (cmd_tm a1 d) (cmd_tm a1 c)) (ats_loaded a1) []"
    using wf_ats_build [of a1] ok j g aj by (auto simp: a1_def)
  then show ?thesis
    using that loop pos lo n by (auto simp: SC_LoadAts_def a1_def)
qed

section \<open>Appending\<close>

lemma UpdateAppend_loop_spec:
  assumes "ats_table 4000 t i es j" "length t = 4000"
  shows "UpdateAppend_loop t i n = Some (j, n + length es)"
  using assms
proof (induction arbitrary: n rule: ats_table.induct)
  case (table_end i)
  then show ?case by (subst UpdateAppend_loop.simps) (auto simp: arr_get_def)
next
  case (table_entry c i es j)
  define len where "len = CFE_SB_GetTotalMsgLength (tbl_pkt t (i + 3))"
  have e: "i < 4000" "i + 7 \<le> 4000" "unat (t ! i) = Suc c" "c < 1000" "8 \<le> unat len" "unat len \<le> 250"
    and sz: "entry_size t i = 3 + (unat len + 1) div 2" and fit: "i + entry_size t i \<le> 4000"
    using table_entry.hyps(1) by (auto simp: entry_ok_def len_def entry_len_def entry_size_def)
  have "t ! i \<noteq> 0" using e(3) by auto
  moreover have "pkt_length t (i + 3) = Some len"
    using e(2) table_entry.prems by (simp add: pkt_length_entry len_def)
  ultimately have "UpdateAppend_loop t i n = UpdateAppend_loop t (i + entry_size t i) (Suc n)"
    using e fit table_entry.prems unfolding sz
    by (subst UpdateAppend_loop.simps) (simp add: arr_get_def)
  then show ?case using table_entry.IH [of "Suc n"] table_entry.prems by simp
qed

lemma entry_len_cong: "t ! (e + 5) = t' ! (e' + 5) \<Longrightarrow> entry_len t e = entry_len t' e'"
  by (simp add: entry_len_def CFE_SB_GetTotalMsgLength_def CCSDS_RD_LEN_def tbl_pkt_def tbl_byte_def
      add.commute [of _ 5])

lemma entry_ok_moved:
  assumes "entry_ok w t c e" "e' + entry_size t e \<le> w'" "\<forall>k < entry_size t e. t' ! (e' + k) = t ! (e + k)"
  shows "entry_ok w' t' c e'" "entry_size t' e' = entry_size t e"
proof -
  have "8 \<le> entry_len t e" using assms(1) by (simp add: entry_ok_def)
  then have k: "5 < entry_size t e" "7 \<le> entry_size t e" by (auto simp: entry_size_def)
  have "entry_len t' e' = entry_len t e" using assms(3) k(1) by (intro entry_len_cong) simp
  then show "entry_size t' e' = entry_size t e" by (simp add: entry_size_def)
  moreover have "t' ! e' = t ! e" using assms(3) k by (metis add_0_right entry_size_pos(1))
  ultimately show "entry_ok w' t' c e'"
    using assms(1,2) k(2) \<open>entry_len t' e' = entry_len t e\<close> by (auto simp: entry_ok_def)
qed

definition shifted :: "nat \<Rightarrow> (nat \<times> nat) list \<Rightarrow> (nat \<times> nat) list" where
  "shifted z es = map (\<lambda>(c, e). (c, z + e)) es"

lemma fst_shifted [simp]: "map fst (shifted z es) = map fst es" "length (shifted z es) = length es"
  by (simp_all add: shifted_def comp_def case_prod_unfold)

lemma Append_loop_spec:
  assumes "ats_table w src i es j" "length (AtsTbl a) = 8000"
    "length (AtsCmdStatus a) = 1000" "length (AtsCmdIndexBuffer a) = 1000"
    "\<forall>k<j. AtsTbl a ! (z + k) = src ! k" "z + j \<le> 8000"
  shows "Append_loop (length es) (z + i) a = Some (enter_all (shifted z es) a)"
  using assms
proof (induction arbitrary: a rule: ats_table.induct)
  case (table_end i)
  then show ?case by (simp add: shifted_def)
next
  case (table_entry c i es j)
  let ?t = "AtsTbl a"
  have j: "i + entry_size src i \<le> j" using ats_table_le [OF table_entry.hyps(2)] by simp
  have "entry_ok 8000 ?t c (z + i)" "entry_size ?t (z + i) = entry_size src i"
    by (rule entry_ok_moved [OF table_entry.hyps(1)]; use table_entry.prems j in \<open>auto simp: add.assoc\<close>)+
  note m = this
  define len where "len = CFE_SB_GetTotalMsgLength (tbl_pkt ?t (z + i + 3))"
  have e: "z + i + 7 \<le> 8000" "unat (?t ! (z + i)) = Suc c" "c < 1000"
      and sz: "3 + (unat len + 1) div 2 = entry_size src i"
    using m by (auto simp: entry_ok_def entry_size_def entry_len_def len_def)
  have c: "unat (?t ! (z + i) - 1) = c"
    using e(2) by (subst unat_minus_one) auto
  have "pkt_length ?t (z + i + 3) = Some len"
    using e(1) table_entry.prems by (simp add: pkt_length_entry len_def)
  then have "Append_loop (length ((c, i) # es)) (z + i) a =
      Append_loop (length es) (z + (i + entry_size src i)) (enter_cmd c (z + i) a)"
    using e(1,3) table_entry.prems sz
    by (simp add: arr_get_def arr_set_def c enter_cmd_def Let_def add.assoc)
  then show ?case
    using table_entry.IH [of "enter_cmd c (z + i) a"] table_entry.prems by (simp add: shifted_def)
qed

lemma enter_all_upd:
  "enter_all es (a\<lparr>AtsTbl := t, AtsSize := n\<rparr>) = enter_all es a\<lparr>AtsTbl := t, AtsSize := n\<rparr>"
proof (induction es a rule: enter_all.induct)
  case (2 c e es a)
  have "enter_cmd c e (a\<lparr>AtsTbl := t, AtsSize := n\<rparr>) = enter_cmd c e a\<lparr>AtsTbl := t, AtsSize := n\<rparr>"
    by (simp add: enter_cmd_def)
  then show ?case using 2 by simp
qed simp

lemma append_ats_spec:
  assumes wf: "wf_ats a" "NumberOfCommands a > 0" and src: "good_table 4000 src es (unat words)"
    and n: "unat cnt = length es" and fit: "unat (AtsSize a) + unat words \<le> 8000"
  obtains a' where "append_ats src words cnt a = Some a'" "wf_ats a'"
    "ats_loaded a' = ats_loaded (enter_all (shifted (unat (AtsSize a)) es) a)"
    "AtsCmdStatus a' = AtsCmdStatus (enter_all (shifted (unat (AtsSize a)) es) a)"
proof -
  define z where "z = unat (AtsSize a)"
  define t where "t = take z (AtsTbl a) @ take (unat words) src @ drop (z + unat words) (AtsTbl a)"
  define a1 where "a1 = a\<lparr>AtsTbl := t, AtsSize := AtsSize a + ucast words\<rparr>"
  have st: "ats_table 4000 src 0 es (unat words)" "length src = 4000"
    using src by (auto simp: good_table_def)
  have len: "length (AtsTbl a) = 8000" using wf by (simp add: wf_ats_def)
  have words: "unat words \<le> 4000" using ats_table_le [OF st(1)] by simp
  have lt: "length t = 8000" using len fit words st(2) by (simp add: t_def z_def)
  have copy: "copy_words (AtsTbl a) z src (unat words) = Some t"
    using len fit words st(2) by (simp add: copy_words_def t_def z_def)
  have old: "\<forall>k<z. t ! k = AtsTbl a ! k" and new: "\<forall>k<unat words. t ! (z + k) = src ! k"
    using len fit words st(2) by (auto simp: t_def z_def nth_append)
  have sz: "unat (AtsSize a1) = z + unat words"
    using fit by (simp add: a1_def z_def unat_word_ariths)
  have ok: "index_ok (unat (AtsSize a1)) a1"
  proof -
    have ok: "index_ok z a" using wf by (simp add: wf_ats_def z_def)
    have "entry_ok 8000 t c e \<and> e + entry_size t e \<le> z + unat words"
      if "entry_ok 8000 (AtsTbl a) c e" "e + entry_size (AtsTbl a) e \<le> z" for c e
      using entry_ok_moved [OF that(1), of e 8000 t] that(2) old fit by (auto simp: z_def)
    then show ?thesis
      using ok unfolding sz by (fastforce simp: index_ok_def a1_def)
  qed
  have es: "\<forall>(c, e) \<in> set (shifted z es). entry_ok 8000 t c e \<and> e + entry_size t e \<le> unat (AtsSize a1)"
  proof -
    have "entry_ok 8000 t c (z + e) \<and> z + e + entry_size t (z + e) \<le> z + unat words" if "(c, e) \<in> set es" for c e
      using ats_table_entries [OF st(1) that] entry_ok_moved [of 4000 src c e "z + e" 8000 t] new fit
      by (auto simp: z_def add.assoc)
    then show ?thesis unfolding sz by (auto simp: shifted_def)
  qed
  let ?e = "enter_all (shifted z es) a1"
  have loop: "Append_loop (unat cnt) z a1 = Some ?e"
    using Append_loop_spec [OF st(1), of a1 z] lt wf(1) new fit n
    by (simp add: a1_def wf_ats_def index_ok_def z_def)
  have "index_ok (unat (AtsSize ?e)) ?e"
    using index_ok_enter_all [OF ok] es by (simp add: a1_def)
  moreover have "unat (AtsSize ?e) \<le> 8000" using sz fit by (simp add: z_def)
  ultimately obtain b where b: "SC_BuildTimeIndexTable ?e = Some (?e\<lparr>AtsTimeIndexBuffer := b\<rparr>)"
    "wf_ats (?e\<lparr>AtsTimeIndexBuffer := b\<rparr>)"
    using wf_ats_build [of ?e] lt by (auto simp: a1_def)
  show ?thesis
    using that [of "?e\<lparr>AtsTimeIndexBuffer := b\<rparr>"] b copy loop
    by (simp add: append_ats_def a1_def z_def enter_all_upd loaded_among_def)
qed

end
