(* ===== verification/SC_Inv.thy ===== *)
theory SC_Inv
  imports SC_Load
begin

text \<open>
  Stored commands: the invariant \<open>wf_sc\<close> of the application and the relation \<open>good_step\<close> between two states:
  the later one is well formed, and no command of an ATS was loaded or sent in between, except that a
  loaded command was sent and is not loaded any more.  \<open>yields\<close> is the weakest precondition of an
  operation: it returns, and its result has a property.
\<close>

section \<open>Operations that return\<close>

definition yields :: "'a option \<Rightarrow> ('a \<Rightarrow> bool) \<Rightarrow> bool" where
  "yields m P \<longleftrightarrow> (\<exists>x. m = Some x \<and> P x)"

lemma yields_Some [simp]: "yields (Some x) P = P x"
  by (simp add: yields_def)

lemma yields_None [simp]: "\<not> yields None P"
  by (simp add: yields_def)

lemma yields_bind [simp]: "yields (m \<bind> f) P = yields m (\<lambda>x. yields (f x) P)"
  by (cases m) simp_all

lemma yields_if [simp]: "yields (if b then m else n) P = (if b then yields m P else yields n P)"
  by simp

lemma yields_map [simp]: "yields (map_option f m) P = yields m (\<lambda>x. P (f x))"
  by (cases m) simp_all

lemma yields_mono: "yields m P \<Longrightarrow> (\<And>x. P x \<Longrightarrow> Q x) \<Longrightarrow> yields m Q"
  by (auto simp: yields_def)

lemma yields_arr_get [simp]: "yields (arr_get xs i) P \<longleftrightarrow> i < length xs \<and> P (xs ! i)"
  by (simp add: yields_def arr_get_def)

lemma yields_arr_set [simp]: "yields (arr_set xs i v) P \<longleftrightarrow> i < length xs \<and> P (xs[i := v])"
  by (simp add: yields_def arr_set_def)

lemma yields_ats [simp]:
  "yields (get_ats i s) P \<longleftrightarrow> i < length (Ats s) \<and> P (Ats s ! i)"
  "yields (set_ats i a s) Q \<longleftrightarrow> i < length (Ats s) \<and> Q (s\<lparr>Ats := (Ats s)[i := a]\<rparr>)"
  by (simp_all add: get_ats_def set_ats_def)

lemma yields_rts [simp]:
  "yields (get_rts i s) P' \<longleftrightarrow> i < length (Rts s) \<and> P' (Rts s ! i)"
  "yields (set_rts i r s) Q \<longleftrightarrow> i < length (Rts s) \<and> Q (s\<lparr>Rts := (Rts s)[i := r]\<rparr>)"
  by (simp_all add: get_rts_def set_rts_def)

section \<open>The invariant\<close>

text \<open>A sequence for which no table was loaded yet: the start-up clears its command index to zero, and not
  to \<open>SC_ERROR\<close>, but no command has a status.  The commands of a sequence:\<close>

definition unused_ats :: "sc_ats \<Rightarrow> bool" where
  "unused_ats a \<longleftrightarrow> NumberOfCommands a = 0 \<and> AtsCmdStatus a = replicate 1000 SC_EMPTY
     \<and> length (AtsCmdIndexBuffer a) = 1000"

definition wf_seq :: "sc_ats \<Rightarrow> bool" where
  "wf_seq a \<longleftrightarrow> wf_ats a \<or> unused_ats a"

definition ats_cmds :: "sc_ats \<Rightarrow> nat list" where
  "ats_cmds a = (if NumberOfCommands a = 0 then [] else ats_loaded a)"

lemma set_cmds [simp]:
  "c \<in> set (ats_cmds a) \<longleftrightarrow> 0 < NumberOfCommands a \<and> c < 1000 \<and> AtsCmdIndexBuffer a ! c \<noteq> - 1"
  by (auto simp: ats_cmds_def word_neq_0_conv)

lemma wf_seq_loaded: "wf_seq a \<Longrightarrow> 0 < NumberOfCommands a \<Longrightarrow> wf_ats a"
  by (auto simp: wf_seq_def unused_ats_def)

definition wf_rts :: "sc_rts \<Rightarrow> bool" where
  "wf_rts r \<longleftrightarrow> RtsStatus r \<in> {SC_EMPTY, SC_LOADED, SC_EXECUTING}
     \<and> (RtsStatus r \<noteq> SC_EMPTY \<longrightarrow> length (RtsTbl r) = 150 \<and> pkt_checksum (RtsTbl r) 1 \<noteq> None)
     \<and> (RtsStatus r = SC_EXECUTING \<longrightarrow> pkt_checksum (RtsTbl r) (unat (NextCommandPtr r) + 1) \<noteq> None)"

definition append_ok :: "SC_t \<Rightarrow> bool" where
  "append_ok s \<longleftrightarrow> AppendEntryCount s = 0 \<or>
     (\<exists>es. good_table 4000 (AppendTbl s) es (unat (AppendWordCount s))
        \<and> unat (AppendEntryCount s) = length es)"

definition wf_sc :: "SC_t \<Rightarrow> bool" where
  "wf_sc s \<longleftrightarrow> length (Ats s) = 2 \<and> list_all wf_seq (Ats s)
     \<and> length (Rts s) = 64 \<and> list_all wf_rts (Rts s) \<and> length (AtsDupTestArray s) = 1000
     \<and> AtpState s \<in> {SC_IDLE, SC_EXECUTING, SC_STARTING}
     \<and> (AtpState s \<noteq> SC_IDLE \<longrightarrow> AtsNumber s \<in> {1, 2} \<and> unat (CmdNumber s) < 1000
          \<and> unat (TimeIndexPtr s) < 1000)
     \<and> append_ok s \<and> unat (AutoStartRTS s) \<le> 64"

definition cmd_loaded :: "nat \<Rightarrow> nat \<Rightarrow> SC_t \<Rightarrow> bool" where
  "cmd_loaded i c s \<longleftrightarrow> i < length (Ats s) \<and> AtsCmdStatus (Ats s ! i) ! c = SC_LOADED"

definition sends :: "nat \<Rightarrow> nat \<Rightarrow> SC_t \<Rightarrow> nat" where
  "sends i c s = length [out \<leftarrow> ScTrace s. case out of Send_Ats i' c' w \<Rightarrow> i' = i \<and> c' = c | _ \<Rightarrow> False]"

definition budget :: "nat \<Rightarrow> nat \<Rightarrow> SC_t \<Rightarrow> nat" where
  "budget i c s = sends i c s + (if cmd_loaded i c s then 1 else 0)"

text \<open>An update of an ATS that loads no command.\<close>

definition no_load :: "sc_ats \<Rightarrow> sc_ats \<Rightarrow> bool" where
  "no_load a a' \<longleftrightarrow> AtsTbl a' = AtsTbl a \<and> AtsCmdIndexBuffer a' = AtsCmdIndexBuffer a
     \<and> AtsTimeIndexBuffer a' = AtsTimeIndexBuffer a \<and> NumberOfCommands a' = NumberOfCommands a
     \<and> (\<forall>c. AtsCmdStatus a' ! c = SC_LOADED \<longrightarrow> AtsCmdStatus a ! c = SC_LOADED)"

lemma no_load_refl [simp]: "no_load a a"
  by (simp add: no_load_def)

lemma no_load_trans: "no_load a b \<Longrightarrow> no_load b c \<Longrightarrow> no_load a c"
  by (simp add: no_load_def)

lemma no_load_cmd_time: "no_load a a' \<Longrightarrow> ats_cmd_time a' = ats_cmd_time a"
  by (simp add: no_load_def ats_cmd_time_def fun_eq_iff cong: if_cong)

lemma no_load_index:
  "no_load a a' \<Longrightarrow> AtsCmdIndexBuffer a' = AtsCmdIndexBuffer a"
  "no_load a a' \<Longrightarrow> NumberOfCommands a' = NumberOfCommands a"
  by (simp_all add: no_load_def)

lemma no_load_loaded: "no_load a a' \<Longrightarrow> ats_cmds a' = ats_cmds a"
  by (simp add: no_load_def ats_cmds_def loaded_among_def)

text \<open>The times of the loaded commands, and a step of the application that loads no command: the time of
  the next command is that of a loaded command or as before.\<close>

definition ats_times :: "SC_t \<Rightarrow> u32 set" where
  "ats_times s = {cmd_tm a c |a c. a \<in> set (Ats s) \<and> c \<in> set (ats_cmds a)}"

definition good_step :: "SC_t \<Rightarrow> SC_t \<Rightarrow> bool" where
  "good_step s s' \<longleftrightarrow> wf_sc s' \<and> (\<forall>i c. budget i c s' \<le> budget i c s)
     \<and> list_all2 no_load (Ats s) (Ats s') \<and> CurrentTime s' = CurrentTime s
     \<and> (AtpState s' \<noteq> SC_IDLE \<longrightarrow> NextAtpTime s' \<in> ats_times s
          \<or> AtpState s \<noteq> SC_IDLE \<and> NextAtpTime s' = NextAtpTime s)"

lemma no_load_times: "list_all2 no_load (Ats s) (Ats s') \<Longrightarrow> ats_times s' = ats_times s"
proof -
  assume l: "list_all2 no_load (Ats s) (Ats s')"
  have "(\<exists>a \<in> set (Ats s'). c \<in> set (ats_cmds a) \<and> t = cmd_tm a c) \<longleftrightarrow>
      (\<exists>a \<in> set (Ats s). c \<in> set (ats_cmds a) \<and> t = cmd_tm a c)" for t c
    using l by (induction rule: list_all2_induct) (auto simp: no_load_cmd_time no_load_index)
  then show ?thesis unfolding ats_times_def by blast
qed

lemma good_step_refl [simp]: "good_step s s \<longleftrightarrow> wf_sc s"
  by (auto simp: good_step_def intro: list_all2_refl)

lemma good_step_trans:
  assumes "good_step s s'" "good_step s' s''"
  shows "good_step s s''"
proof -
  have "ats_times s' = ats_times s" using assms(1) by (simp add: good_step_def no_load_times)
  moreover have "list_all2 no_load (Ats s) (Ats s'')"
    using no_load_trans list_all2_trans [of no_load no_load no_load "Ats s" "Ats s'" "Ats s''"] assms
    unfolding good_step_def by blast
  moreover have "budget i c s'' \<le> budget i c s" for i c
    using assms order_trans unfolding good_step_def by blast
  ultimately show ?thesis using assms unfolding good_step_def by auto
qed

lemma good_step_wf: "good_step s s' \<Longrightarrow> wf_sc s'"
  by (simp add: good_step_def)

lemma wf_sc_upd [simp]:
  "wf_sc (s\<lparr>SwitchPendFlag := x2\<rparr>) = wf_sc s"
  "wf_sc (s\<lparr>NumRtsActive := x3\<rparr>) = wf_sc s" "wf_sc (s\<lparr>RtsNumber := x3\<rparr>) = wf_sc s"
  "wf_sc (s\<lparr>NumCmdsSec := x3\<rparr>) = wf_sc s" "wf_sc (s\<lparr>ContinueAtsOnFailureFlag := x2\<rparr>) = wf_sc s"
  "wf_sc (s\<lparr>NextProcNumber := x4\<rparr>) = wf_sc s" "wf_sc (s\<lparr>NextAtpTime := x5\<rparr>) = wf_sc s"
  "wf_sc (s\<lparr>NextRtpTime := x5\<rparr>) = wf_sc s" "wf_sc (s\<lparr>CurrentTime := x5\<rparr>) = wf_sc s"
  "wf_sc (s\<lparr>Sc_CmdErrCtr := x3\<rparr>) = wf_sc s" "wf_sc (s\<lparr>Sc_CmdCtr := x3\<rparr>) = wf_sc s"
  "wf_sc (s\<lparr>RtsActiveErrCtr := x3\<rparr>) = wf_sc s" "wf_sc (s\<lparr>RtsActiveCtr := x3\<rparr>) = wf_sc s"
  "wf_sc (s\<lparr>AtsCmdCtr := x3\<rparr>) = wf_sc s" "wf_sc (s\<lparr>AtsCmdErrCtr := x3\<rparr>) = wf_sc s"
  "wf_sc (s\<lparr>RtsCmdCtr := x3\<rparr>) = wf_sc s" "wf_sc (s\<lparr>RtsCmdErrCtr := x3\<rparr>) = wf_sc s"
  "wf_sc (s\<lparr>LastAtsErrSeq := x3\<rparr>) = wf_sc s" "wf_sc (s\<lparr>LastAtsErrCmd := x3\<rparr>) = wf_sc s"
  "wf_sc (s\<lparr>LastRtsErrSeq := x3\<rparr>) = wf_sc s" "wf_sc (s\<lparr>LastRtsErrCmd := x3\<rparr>) = wf_sc s"
  "wf_sc (s\<lparr>AppendCmdArg := x3\<rparr>) = wf_sc s" "wf_sc (s\<lparr>AppendLoadCount := x3\<rparr>) = wf_sc s"
  "wf_sc (s\<lparr>SbCalls := x6\<rparr>) = wf_sc s" "wf_sc (s\<lparr>ScTrace := x7\<rparr>) = wf_sc s"
  by (simp_all add: wf_sc_def append_ok_def)

lemma budget_upd [simp]:
  "budget i c (s\<lparr>TimeIndexPtr := x1\<rparr>) = budget i c s" "budget i c (s\<lparr>SwitchPendFlag := x2\<rparr>) = budget i c s"
  "budget i c (s\<lparr>NumRtsActive := x3\<rparr>) = budget i c s" "budget i c (s\<lparr>RtsNumber := x3\<rparr>) = budget i c s"
  "budget i c (s\<lparr>NumCmdsSec := x3\<rparr>) = budget i c s"
  "budget i c (s\<lparr>ContinueAtsOnFailureFlag := x2\<rparr>) = budget i c s"
  "budget i c (s\<lparr>NextProcNumber := x4\<rparr>) = budget i c s" "budget i c (s\<lparr>NextAtpTime := x5\<rparr>) = budget i c s"
  "budget i c (s\<lparr>NextRtpTime := x5\<rparr>) = budget i c s" "budget i c (s\<lparr>CurrentTime := x5\<rparr>) = budget i c s"
  "budget i c (s\<lparr>Sc_CmdErrCtr := x3\<rparr>) = budget i c s" "budget i c (s\<lparr>Sc_CmdCtr := x3\<rparr>) = budget i c s"
  "budget i c (s\<lparr>RtsActiveErrCtr := x3\<rparr>) = budget i c s" "budget i c (s\<lparr>RtsActiveCtr := x3\<rparr>) = budget i c s"
  "budget i c (s\<lparr>AtsCmdCtr := x3\<rparr>) = budget i c s" "budget i c (s\<lparr>AtsCmdErrCtr := x3\<rparr>) = budget i c s"
  "budget i c (s\<lparr>RtsCmdCtr := x3\<rparr>) = budget i c s" "budget i c (s\<lparr>RtsCmdErrCtr := x3\<rparr>) = budget i c s"
  "budget i c (s\<lparr>LastAtsErrSeq := x3\<rparr>) = budget i c s" "budget i c (s\<lparr>LastAtsErrCmd := x3\<rparr>) = budget i c s"
  "budget i c (s\<lparr>LastRtsErrSeq := x3\<rparr>) = budget i c s" "budget i c (s\<lparr>LastRtsErrCmd := x3\<rparr>) = budget i c s"
  "budget i c (s\<lparr>AppendCmdArg := x3\<rparr>) = budget i c s" "budget i c (s\<lparr>AppendLoadCount := x3\<rparr>) = budget i c s"
  "budget i c (s\<lparr>SbCalls := x6\<rparr>) = budget i c s" "budget i c (s\<lparr>AutoStartRTS := x3\<rparr>) = budget i c s"
  "budget i c (s\<lparr>AtpState := x8\<rparr>) = budget i c s" "budget i c (s\<lparr>AtsNumber := x9\<rparr>) = budget i c s"
  "budget i c (s\<lparr>CmdNumber := x5\<rparr>) = budget i c s" "budget i c (s\<lparr>Rts := x10\<rparr>) = budget i c s"
  "budget i c (s\<lparr>AtsDupTestArray := x11\<rparr>) = budget i c s"
  by (simp_all add: budget_def sends_def cmd_loaded_def)

lemma emit_wf [simp]: "wf_sc (sc_emit out s) = wf_sc s"
  by (simp add: sc_emit_def)

lemma emit_budget [simp]:
  "budget i c (sc_event eid args s) = budget i c s" "budget i c (sc_emit (Send_Rts n p w) s) = budget i c s"
  "budget i c (sc_emit (Send_Hk hk) s) = budget i c s" "budget i c (sc_emit (Send_StartRts x) s) = budget i c s"
  "budget i c (sc_emit (TBL_ReleaseAddress tb) s) = budget i c s"
  "budget i c (sc_emit (TBL_Manage tb) s) = budget i c s"
  "budget i c (sc_emit (TBL_Modified tb) s) = budget i c s"
  by (simp_all add: sc_emit_def budget_def sends_def cmd_loaded_def)

lemma emit_fields [simp]:
  "Ats (sc_emit out s) = Ats s" "Rts (sc_emit out s) = Rts s" "AtpState (sc_emit out s) = AtpState s"
  "AtsNumber (sc_emit out s) = AtsNumber s" "CmdNumber (sc_emit out s) = CmdNumber s"
  "NextProcNumber (sc_emit out s) = NextProcNumber s" "NextAtpTime (sc_emit out s) = NextAtpTime s"
  "NextRtpTime (sc_emit out s) = NextRtpTime s" "CurrentTime (sc_emit out s) = CurrentTime s"
  "NumCmdsSec (sc_emit out s) = NumCmdsSec s" "TimeIndexPtr (sc_emit out s) = TimeIndexPtr s"
  "RtsNumber (sc_emit out s) = RtsNumber s" "SwitchPendFlag (sc_emit out s) = SwitchPendFlag s"
  "AppendTbl (sc_emit out s) = AppendTbl s" "AppendWordCount (sc_emit out s) = AppendWordCount s"
  "AppendEntryCount (sc_emit out s) = AppendEntryCount s" "AutoStartRTS (sc_emit out s) = AutoStartRTS s"
  "AtsDupTestArray (sc_emit out s) = AtsDupTestArray s"
  by (simp_all add: sc_emit_def)

lemma good_step_upd [simp]:
  "good_step s (s'\<lparr>SwitchPendFlag := x2\<rparr>) = good_step s s'"
  "good_step s (s'\<lparr>NumRtsActive := x3\<rparr>) = good_step s s'"
  "good_step s (s'\<lparr>RtsNumber := x3\<rparr>) = good_step s s'"
  "good_step s (s'\<lparr>NumCmdsSec := x3\<rparr>) = good_step s s'"
  "good_step s (s'\<lparr>ContinueAtsOnFailureFlag := x2\<rparr>) = good_step s s'"
  "good_step s (s'\<lparr>NextProcNumber := x4\<rparr>) = good_step s s'"
  "good_step s (s'\<lparr>NextRtpTime := x5\<rparr>) = good_step s s'"
  "good_step s (s'\<lparr>Sc_CmdErrCtr := x3\<rparr>) = good_step s s'"
  "good_step s (s'\<lparr>Sc_CmdCtr := x3\<rparr>) = good_step s s'"
  "good_step s (s'\<lparr>RtsActiveErrCtr := x3\<rparr>) = good_step s s'"
  "good_step s (s'\<lparr>RtsActiveCtr := x3\<rparr>) = good_step s s'"
  "good_step s (s'\<lparr>AtsCmdCtr := x3\<rparr>) = good_step s s'"
  "good_step s (s'\<lparr>AtsCmdErrCtr := x3\<rparr>) = good_step s s'"
  "good_step s (s'\<lparr>RtsCmdCtr := x3\<rparr>) = good_step s s'"
  "good_step s (s'\<lparr>RtsCmdErrCtr := x3\<rparr>) = good_step s s'"
  "good_step s (s'\<lparr>LastAtsErrSeq := x3\<rparr>) = good_step s s'"
  "good_step s (s'\<lparr>LastAtsErrCmd := x3\<rparr>) = good_step s s'"
  "good_step s (s'\<lparr>LastRtsErrSeq := x3\<rparr>) = good_step s s'"
  "good_step s (s'\<lparr>LastRtsErrCmd := x3\<rparr>) = good_step s s'"
  "good_step s (s'\<lparr>AppendCmdArg := x3\<rparr>) = good_step s s'"
  "good_step s (s'\<lparr>AppendLoadCount := x3\<rparr>) = good_step s s'"
  "good_step s (s'\<lparr>SbCalls := x6\<rparr>) = good_step s s'"
  by (simp_all add: good_step_def)

lemma good_step_upd_left [simp]:
  "good_step (s\<lparr>TimeIndexPtr := x3\<rparr>) s' = good_step s s'"
  "good_step (s\<lparr>SwitchPendFlag := x2\<rparr>) s' = good_step s s'"
  "good_step (s\<lparr>NumRtsActive := x3\<rparr>) s' = good_step s s'"
  "good_step (s\<lparr>RtsNumber := x3\<rparr>) s' = good_step s s'"
  "good_step (s\<lparr>NumCmdsSec := x3\<rparr>) s' = good_step s s'"
  "good_step (s\<lparr>ContinueAtsOnFailureFlag := x2\<rparr>) s' = good_step s s'"
  "good_step (s\<lparr>NextProcNumber := x4\<rparr>) s' = good_step s s'"
  "good_step (s\<lparr>NextRtpTime := x5\<rparr>) s' = good_step s s'"
  "good_step (s\<lparr>Sc_CmdErrCtr := x3\<rparr>) s' = good_step s s'"
  "good_step (s\<lparr>Sc_CmdCtr := x3\<rparr>) s' = good_step s s'"
  "good_step (s\<lparr>RtsActiveErrCtr := x3\<rparr>) s' = good_step s s'"
  "good_step (s\<lparr>RtsActiveCtr := x3\<rparr>) s' = good_step s s'"
  "good_step (s\<lparr>AtsCmdCtr := x3\<rparr>) s' = good_step s s'"
  "good_step (s\<lparr>AtsCmdErrCtr := x3\<rparr>) s' = good_step s s'"
  "good_step (s\<lparr>RtsCmdCtr := x3\<rparr>) s' = good_step s s'"
  "good_step (s\<lparr>RtsCmdErrCtr := x3\<rparr>) s' = good_step s s'"
  "good_step (s\<lparr>LastAtsErrSeq := x3\<rparr>) s' = good_step s s'"
  "good_step (s\<lparr>LastAtsErrCmd := x3\<rparr>) s' = good_step s s'"
  "good_step (s\<lparr>LastRtsErrSeq := x3\<rparr>) s' = good_step s s'"
  "good_step (s\<lparr>LastRtsErrCmd := x3\<rparr>) s' = good_step s s'"
  "good_step (s\<lparr>AppendCmdArg := x3\<rparr>) s' = good_step s s'"
  "good_step (s\<lparr>AppendLoadCount := x3\<rparr>) s' = good_step s s'"
  "good_step (s\<lparr>SbCalls := x6\<rparr>) s' = good_step s s'"
  by (simp_all add: good_step_def ats_times_def)

lemma good_step_emit_left [simp]:
  "good_step (sc_event eid args s) s' = good_step s s'"
  "good_step (sc_emit (Send_Rts n p w) s) s' = good_step s s'"
  by (simp_all add: good_step_def ats_times_def)

lemma good_step_emit [simp]:
  "good_step s (sc_event eid args s') = good_step s s'"
  "good_step s (sc_emit (Send_Rts n p w) s') = good_step s s'"
  "good_step s (sc_emit (Send_Hk hk) s') = good_step s s'"
  "good_step s (sc_emit (Send_StartRts x) s') = good_step s s'"
  "good_step s (sc_emit (TBL_ReleaseAddress tb) s') = good_step s s'"
  "good_step s (sc_emit (TBL_Manage tb) s') = good_step s s'"
  "good_step s (sc_emit (TBL_Modified tb) s') = good_step s s'"
  by (simp_all add: good_step_def)

lemma cmd_count_fields [simp]:
  "Ats (cmd_counted s) = Ats s" "Rts (cmd_counted s) = Rts s" "AtpState (cmd_counted s) = AtpState s"
  "AtsNumber (cmd_counted s) = AtsNumber s" "CmdNumber (cmd_counted s) = CmdNumber s"
  "Ats (cmd_error s) = Ats s" "Rts (cmd_error s) = Rts s" "AtpState (cmd_error s) = AtpState s"
  "AtsNumber (cmd_error s) = AtsNumber s" "CmdNumber (cmd_error s) = CmdNumber s"
  by (simp_all add: cmd_counted_def cmd_error_def)

lemma cmd_count_wf [simp]:
  "wf_sc (cmd_counted s) = wf_sc s" "wf_sc (cmd_error s) = wf_sc s"
  "budget i c (cmd_counted s) = budget i c s" "budget i c (cmd_error s) = budget i c s"
  "good_step s' (cmd_counted s) = good_step s' s" "good_step s' (cmd_error s) = good_step s' s"
  "good_step (cmd_counted s) s' = good_step s s'" "good_step (cmd_error s) s' = good_step s s'"
  by (simp_all add: cmd_counted_def cmd_error_def)

section \<open>Starting and stopping\<close>

lemma wf_seq_nth: "wf_sc s \<Longrightarrow> i < length (Ats s) \<Longrightarrow> wf_seq (Ats s ! i)"
  by (simp add: wf_sc_def list_all_length)

lemma wf_rts_nth: "wf_sc s \<Longrightarrow> i < length (Rts s) \<Longrightarrow> wf_rts (Rts s ! i)"
  by (simp add: wf_sc_def list_all_length)

lemma wf_sc_lengths: "wf_sc s \<Longrightarrow> length (Ats s) = 2" "wf_sc s \<Longrightarrow> length (Rts s) = 64"
  by (simp_all add: wf_sc_def)

lemma list_all_update: "list_all P xs \<Longrightarrow> P x \<Longrightarrow> list_all P (xs[i := x])"
  by (auto simp: list_all_iff dest!: set_update_subset_insert [THEN subsetD])

lemma wf_sc_set_ats: "wf_sc s \<Longrightarrow> wf_seq a \<Longrightarrow> wf_sc (s\<lparr>Ats := (Ats s)[i := a]\<rparr>)"
  by (simp add: wf_sc_def append_ok_def list_all_update)

lemma wf_sc_set_rts: "wf_sc s \<Longrightarrow> wf_rts r \<Longrightarrow> wf_sc (s\<lparr>Rts := (Rts s)[i := r]\<rparr>)"
  by (simp add: wf_sc_def append_ok_def list_all_update)

lemma good_set_ats:
  assumes "wf_sc s" "i < length (Ats s)" "wf_seq a" "no_load (Ats s ! i) a"
  shows "good_step s (s\<lparr>Ats := (Ats s)[i := a]\<rparr>)"
proof -
  have "budget j c (s\<lparr>Ats := (Ats s)[i := a]\<rparr>) \<le> budget j c s" for j c
    using assms(2,4)
    by (auto simp: budget_def sends_def cmd_loaded_def no_load_def nth_list_update)
  moreover have "list_all2 no_load (Ats s) ((Ats s)[i := a])"
    using assms(2,4) by (auto simp: list_all2_conv_all_nth nth_list_update)
  ultimately show ?thesis using wf_sc_set_ats [OF assms(1,3)] by (simp add: good_step_def)
qed

lemma good_set_rts: "wf_sc s \<Longrightarrow> wf_rts r \<Longrightarrow> good_step s (s\<lparr>Rts := (Rts s)[i := r]\<rparr>)"
  by (auto simp: good_step_def wf_sc_set_rts intro: list_all2_refl)

lemma wf_seq_UseCtr [simp]: "wf_seq (a\<lparr>AtsUseCtr := u\<rparr>) = wf_seq a"
  by (simp add: wf_seq_def wf_ats_def unused_ats_def)

lemma wf_sc_idle [simp]: "wf_sc s \<Longrightarrow> wf_sc (s\<lparr>AtpState := SC_IDLE\<rparr>)"
  by (simp add: wf_sc_def append_ok_def)

lemma wf_sc_begun:
  "wf_sc s \<Longrightarrow> i < 2 \<Longrightarrow> unat c < 1000 \<Longrightarrow> unat p < 1000 \<Longrightarrow>
     wf_sc (s\<lparr>AtsNumber := 1 + of_nat i, CmdNumber := c, TimeIndexPtr := p\<rparr>)"
  by (auto simp: wf_sc_def append_ok_def less_2_cases_iff)

lemma unat_AtsNumber: "wf_sc s \<Longrightarrow> AtpState s \<noteq> SC_IDLE \<Longrightarrow> unat (AtsNumber s - 1) < 2"
  by (auto simp: wf_sc_def)

lemma KillAts_ok:
  assumes "wf_sc s"
  shows "yields (SC_KillAts s) (\<lambda>s'. good_step s s' \<and> AtpState s' = SC_IDLE)"
proof (cases "AtpState s = SC_IDLE")
  case True
  then show ?thesis
    using assms by (auto simp: SC_KillAts_def good_step_def intro: list_all2_refl)
next
  case False
  let ?i = "unat (AtsNumber s - 1)"
  let ?a = "(Ats s ! ?i)\<lparr>AtsUseCtr := AtsUseCtr (Ats s ! ?i) + 1\<rparr>"
  have i: "?i < length (Ats s)" using unat_AtsNumber [OF assms False] wf_sc_lengths(1) [OF assms] by simp
  have "good_step s (s\<lparr>Ats := (Ats s)[?i := ?a]\<rparr>)"
    by (rule good_set_ats [OF assms i]) (use wf_seq_nth [OF assms i] in \<open>simp_all add: no_load_def\<close>)
  then show ?thesis using False i by (simp add: SC_KillAts_def good_step_def)
qed

lemma order_loaded:
  assumes "wf_seq a" "i < unat (NumberOfCommands a)"
  shows "i < length (AtsTimeIndexBuffer a)" "unat (AtsTimeIndexBuffer a ! i) \<in> set (ats_cmds a)"
proof -
  have pos: "0 < NumberOfCommands a" using assms(2) by (simp add: word_less_nat_alt)
  have wf: "wf_ats a" by (rule wf_seq_loaded [OF assms(1) pos])
  have n: "length (ats_loaded a) = unat (NumberOfCommands a)" "length (AtsTimeIndexBuffer a) = 1000"
    using wf by (auto simp: wf_ats_def index_ok_def)
  then show i: "i < length (AtsTimeIndexBuffer a)" using assms(2) length_loaded_le [of a] by simp
  have "set (ats_order a) = set (ats_loaded a)"
    using wf mset_eq_setD unfolding wf_ats_def by blast
  moreover have "ats_order a ! i \<in> set (ats_order a)"
    using assms(2) i n by (intro nth_mem) simp
  moreover have "ats_order a ! i = unat (AtsTimeIndexBuffer a ! i)"
    using assms(2) i n by simp
  ultimately have "unat (AtsTimeIndexBuffer a ! i) \<in> set (ats_loaded a)" by argo
  then show "unat (AtsTimeIndexBuffer a ! i) \<in> set (ats_cmds a)" using pos by simp
qed

lemma loaded_time:
  assumes "wf_seq a" "c \<in> set (ats_cmds a)"
  shows "ats_cmd_time a c = Some (cmd_tm a c)"
proof -
  have "wf_ats a" using wf_seq_loaded [OF assms(1)] assms(2) by simp
  then show ?thesis using index_ok_time [of "unat (AtsSize a)" a c] assms(2) by (auto simp: wf_ats_def)
qed

lemma wf_seq_status:
  assumes "wf_seq a" "c \<in> set (ats_cmds a)" "st \<noteq> SC_EMPTY"
  shows "wf_seq (a\<lparr>AtsCmdStatus := (AtsCmdStatus a)[c := st]\<rparr>)"
proof -
  have "wf_ats a" using wf_seq_loaded [OF assms(1)] assms(2) by simp
  then have "wf_ats (a\<lparr>AtsCmdStatus := (AtsCmdStatus a)[c := st]\<rparr>)"
    using assms by (auto simp: wf_ats_def index_ok_def nth_list_update)
  then show ?thesis by (simp add: wf_seq_def)
qed

lemma no_load_status:
  "c < length (AtsCmdStatus a) \<Longrightarrow> st \<noteq> SC_LOADED \<Longrightarrow> no_load a (a\<lparr>AtsCmdStatus := (AtsCmdStatus a)[c := st]\<rparr>)"
  by (auto simp: no_load_def nth_list_update)

lemma wf_seq_lengths:
  "wf_seq a \<Longrightarrow> length (AtsCmdStatus a) = 1000" "wf_seq a \<Longrightarrow> length (AtsCmdIndexBuffer a) = 1000"
  "wf_seq a \<Longrightarrow> unat (NumberOfCommands a) \<le> 1000"
  using length_loaded_le [of a] by (auto simp: wf_seq_def unused_ats_def wf_ats_def index_ok_def)

end
