(* ===== verification/SC_Steps.thy ===== *)
theory SC_Steps
  imports SC_Inv
begin

text \<open>
  Stored commands: every operation on a well-formed state returns a well-formed state.
\<close>

section \<open>The loops over the time index\<close>

text \<open>What a loop that skips commands leaves: the index it stopped at, and the command found there.\<close>

definition skip_post :: "sc_ats \<Rightarrow> nat \<Rightarrow> (u16 \<times> u32) option \<Rightarrow> sc_ats \<Rightarrow> bool" where
  "skip_post a j hit a' \<longleftrightarrow> wf_seq a' \<and> no_load a a' \<and>
     (\<forall>c u. hit = Some (c, u) \<longrightarrow> j < unat (NumberOfCommands a)
        \<and> unat c \<in> set (ats_cmds a) \<and> u = cmd_tm a (unat c))"

lemma skip_post_step: "no_load a b \<Longrightarrow> skip_post b j hit a' \<Longrightarrow> skip_post a j hit a'"
  by (auto simp: skip_post_def no_load_cmd_time no_load_index dest: no_load_trans)

lemma skipped_ok:
  assumes "wf_seq a" "i < unat (NumberOfCommands a)"
  defines "c \<equiv> unat (AtsTimeIndexBuffer a ! i)"
  shows "i < length (AtsTimeIndexBuffer a)" "c \<in> set (ats_cmds a)" "c < length (AtsCmdStatus a)"
    "ats_cmd_time a c = Some (cmd_tm a c)"
    "wf_seq (a\<lparr>AtsCmdStatus := (AtsCmdStatus a)[c := SC_SKIPPED]\<rparr>)"
    "no_load a (a\<lparr>AtsCmdStatus := (AtsCmdStatus a)[c := SC_SKIPPED]\<rparr>)"
proof -
  show c: "i < length (AtsTimeIndexBuffer a)" "c \<in> set (ats_cmds a)"
    unfolding c_def using order_loaded [OF assms(1,2)] by auto
  show l: "c < length (AtsCmdStatus a)" using c(2) wf_seq_lengths [OF assms(1)] by simp
  show "ats_cmd_time a c = Some (cmd_tm a c)" by (rule loaded_time [OF assms(1) c(2)])
  show "wf_seq (a\<lparr>AtsCmdStatus := (AtsCmdStatus a)[c := SC_SKIPPED]\<rparr>)"
    by (rule wf_seq_status [OF assms(1) c(2)]) simp
  show "no_load a (a\<lparr>AtsCmdStatus := (AtsCmdStatus a)[c := SC_SKIPPED]\<rparr>)"
    by (rule no_load_status [OF l]) simp
qed

lemma BeginAts_loop_ok:
  assumes "wf_seq a" "i + n = unat (NumberOfCommands a)"
  shows "yields (BeginAts_loop t n i a) (\<lambda>(j, hit, a'). skip_post a j hit a')"
  using assms
proof (induction n arbitrary: i a)
  case 0
  then show ?case by (simp add: skip_post_def)
next
  case (Suc n)
  let ?c = "unat (AtsTimeIndexBuffer a ! i)"
  let ?a = "a\<lparr>AtsCmdStatus := (AtsCmdStatus a)[?c := SC_SKIPPED]\<rparr>"
  have "i < unat (NumberOfCommands a)" using Suc.prems(2) by simp
  note k = skipped_ok [OF Suc.prems(1) this]
  have "yields (BeginAts_loop t n (Suc i) ?a) (\<lambda>(j, hit, a'). skip_post ?a j hit a')"
    using Suc.IH [of ?a "Suc i"] k(5) Suc.prems(2) by simp
  then have "yields (BeginAts_loop t n (Suc i) ?a) (\<lambda>(j, hit, a'). skip_post a j hit a')"
    by (rule yields_mono) (auto intro: skip_post_step [OF k(6)])
  moreover have "skip_post a i (Some (AtsTimeIndexBuffer a ! i, cmd_tm a ?c)) a"
    using k(2) Suc.prems by (simp add: skip_post_def)
  moreover obtain u where "ats_cmd_time a ?c = Some u" using k(4) by blast
  ultimately show ?case using k(1,3) by simp
qed

lemma JumpAts_loop_ok:
  assumes "wf_seq a" "i + n = unat (NumberOfCommands a)"
  shows "yields (JumpAts_loop t n i k a) (\<lambda>(j, m, hit, a'). skip_post a j hit a')"
  using assms
proof (induction n arbitrary: i k a)
  case 0
  then show ?case by (simp add: skip_post_def)
next
  case (Suc n)
  let ?c = "unat (AtsTimeIndexBuffer a ! i)"
  let ?a = "a\<lparr>AtsCmdStatus := (AtsCmdStatus a)[?c := SC_SKIPPED]\<rparr>"
  have "i < unat (NumberOfCommands a)" using Suc.prems(2) by simp
  note s = skipped_ok [OF Suc.prems(1) this]
  have "yields (JumpAts_loop t n (Suc i) (k + 1) ?a) (\<lambda>(j, m, hit, a'). skip_post ?a j hit a')"
    using Suc.IH [of ?a "Suc i" "k + 1"] s(5) Suc.prems(2) by simp
  then have "yields (JumpAts_loop t n (Suc i) (k + 1) ?a) (\<lambda>(j, m, hit, a'). skip_post a j hit a')"
    by (rule yields_mono) (auto intro: skip_post_step [OF s(6)])
  moreover have "yields (JumpAts_loop t n (Suc i) k a) (\<lambda>(j, m, hit, a'). skip_post a j hit a')"
    using Suc.IH [of a "Suc i" k] Suc.prems by simp
  moreover have "skip_post a i (Some (AtsTimeIndexBuffer a ! i, cmd_tm a ?c)) a"
    using s(2) Suc.prems by (simp add: skip_post_def)
  moreover obtain u where "ats_cmd_time a ?c = Some u" using s(4) by blast
  ultimately show ?case using s(1,3) by simp
qed

section \<open>Beginning an ATS\<close>

text \<open>After a successful start the number of the sequence, the command and its time are set, and the
  processor may be set to executing or starting.\<close>

definition begun :: "SC_t \<Rightarrow> nat \<Rightarrow> SC_t \<Rightarrow> bool" where
  "begun s i s' \<longleftrightarrow> good_step s s' \<and> AtsNumber s' = of_nat (i + 1) \<and> unat (CmdNumber s') < 1000
     \<and> NextAtpTime s' \<in> ats_times s \<and> unat (TimeIndexPtr s') < 1000
     \<and> unat (TimeIndexPtr s') < unat (NumberOfCommands (Ats s' ! i))"

lemma begun_state:
  assumes "begun s i s'" "i < 2" "st \<in> {SC_EXECUTING, SC_STARTING}"
  shows "good_step s (s'\<lparr>AtpState := st\<rparr>)"
proof -
  have "AtsNumber s' \<in> {1, 2}" using assms(1,2) by (auto simp: begun_def less_2_cases_iff)
  then have "wf_sc (s'\<lparr>AtpState := st\<rparr>)"
    using assms(1,3) by (auto simp: begun_def good_step_def wf_sc_def append_ok_def)
  then show ?thesis using assms(1) by (auto simp: begun_def good_step_def)
qed

lemma BeginAts_ok:
  assumes "wf_sc s" "i < 2"
  shows "yields (SC_BeginAts i off s)
    (\<lambda>(ok, s'). if ok then begun s i s' else good_step s s' \<and> AtpState s' = SC_IDLE)"
proof -
  let ?a = "Ats s ! i"
  have i: "i < length (Ats s)" using assms wf_sc_lengths by simp
  have wf: "wf_seq ?a" by (rule wf_seq_nth [OF assms(1) i])
  obtain j hit a' where l: "BeginAts_loop (SC_ComputeAbsTime off s) (unat (NumberOfCommands ?a)) 0 ?a =
      Some (j, hit, a')" "skip_post ?a j hit a'"
    using BeginAts_loop_ok [OF wf, of 0 "unat (NumberOfCommands ?a)" "SC_ComputeAbsTime off s"] by (auto simp: yields_def)
  define s1 where "s1 = s\<lparr>Ats := (Ats s)[i := a']\<rparr>"
  have g: "good_step s s1"
    unfolding s1_def by (rule good_set_ats [OF assms(1) i]) (use l(2) in \<open>auto simp: skip_post_def\<close>)
  have n: "unat (NumberOfCommands ?a) \<le> 1000" 
    by (rule wf_seq_lengths(3) [OF wf])
  show ?thesis
  proof (cases hit)
    case None
    have e: "good_step s (sc_event 29 [] s1)" using g by simp
    have "yields (SC_KillAts (sc_event 29 [] s1)) (\<lambda>s'. good_step s s' \<and> AtpState s' = SC_IDLE)"
      by (rule yields_mono [OF KillAts_ok [OF good_step_wf [OF e]]]) (auto intro: good_step_trans [OF e])
    then show ?thesis
      using None i l(1) by (simp add: SC_BeginAts_def s1_def case_prod_unfold)
  next
    case (Some h)
    obtain c u where h: "h = (c, u)" by (cases h)
    have c: "unat c \<in> set (ats_cmds ?a)" "u = cmd_tm ?a (unat c)" "j < unat (NumberOfCommands ?a)"
      using l(2) Some h by (auto simp: skip_post_def)
    then have "u \<in> ats_times s" using i by (auto simp: ats_times_def intro!: exI [of _ ?a])
    moreover have "NumberOfCommands a' = NumberOfCommands ?a" using l(2) by (simp add: skip_post_def no_load_def)
    moreover have "unat (of_nat j :: u16) = j" using c(3) n by (simp add: unsigned_of_nat take_bit_eq_mod)
    ultimately show ?thesis
      using Some h i l(1) g c n
      by (auto simp: SC_BeginAts_def s1_def begun_def good_step_def intro: wf_sc_begun [OF _ assms(2)])
  qed
qed

section \<open>Composition\<close>

lemma yields_step:
  assumes "good_step s0 s" "wf_sc s \<Longrightarrow> yields m (good_step s)" "\<And>s'. good_step s0 s' \<Longrightarrow> P s'"
  shows "yields m P"
  using assms good_step_trans good_step_wf by (metis yields_mono)

lemma verify_ok:
  assumes "wf_sc s" "yields (f s) (good_step s)"
  shows "yields (case SC_VerifyCmdLength msg n s of (False, s) \<Rightarrow> Some s | (True, s) \<Rightarrow> f s) (good_step s)"
  using assms by (simp add: SC_VerifyCmdLength_def Let_def)

lemma curr_other_ats:
  "wf_sc s \<Longrightarrow> AtpState s \<noteq> SC_IDLE \<Longrightarrow> curr_ats s < 2 \<and> other_ats s < 2"
  by (auto simp: wf_sc_def curr_ats_def other_ats_def)

lemma begin_ats_ok:
  assumes "good_step s0 s" "i < 2" "st \<in> {SC_EXECUTING, SC_STARTING}"
    and "\<And>s'. good_step s0 s' \<Longrightarrow> P False s'"
    and "\<And>s'. good_step s0 (s'\<lparr>AtpState := st\<rparr>) \<Longrightarrow> P True s'"
  shows "yields (SC_BeginAts i off s) (\<lambda>(ok, s'). P ok s')"
  using BeginAts_ok [OF good_step_wf [OF assms(1)] assms(2), of off]
proof (rule yields_mono)
  fix r :: "bool \<times> SC_t"
  assume r: "case r of (ok, s') \<Rightarrow> if ok then begun s i s' else good_step s s' \<and> AtpState s' = SC_IDLE"
  obtain ok s' where "r = (ok, s')" by (cases r)
  then show "case r of (ok, s') \<Rightarrow> P ok s'"
    using r assms(4,5) good_step_trans [OF assms(1)] begun_state [OF _ assms(2,3)] by (cases ok) auto
qed

section \<open>ATS commands\<close>

lemma StartAtsCmd_ok: "wf_sc s \<Longrightarrow> yields (SC_StartAtsCmd msg s) (good_step s)"
  unfolding SC_StartAtsCmd_def
  by (rule verify_ok)
    (auto simp: Let_def wf_sc_lengths case_prod_unfold
      intro!: begin_ats_ok [where st = SC_EXECUTING, unfolded case_prod_unfold])

lemma StopAtsCmd_ok: "wf_sc s \<Longrightarrow> yields (SC_StopAtsCmd msg s) (good_step s)"
  unfolding SC_StopAtsCmd_def
  by (rule verify_ok) (auto intro!: yields_mono [OF KillAts_ok])

lemma GroundSwitchCmd_ok: "wf_sc s \<Longrightarrow> yields (SC_GroundSwitchCmd msg s) (good_step s)"
  unfolding SC_GroundSwitchCmd_def
  by (rule verify_ok) (auto simp: wf_sc_lengths dest: curr_other_ats)

lemma ServiceSwitchPend_ok: "wf_sc s \<Longrightarrow> yields (SC_ServiceSwitchPend s) (good_step s)"
  unfolding SC_ServiceSwitchPend_def Let_def
  by (auto simp: wf_sc_lengths case_prod_unfold dest: curr_other_ats
      intro!: yields_mono [OF KillAts_ok] begin_ats_ok [where st = SC_EXECUTING, unfolded case_prod_unfold])

lemma InlineSwitch_ok:
  "wf_sc s \<Longrightarrow> AtpState s \<noteq> SC_IDLE \<Longrightarrow> yields (SC_InlineSwitch s) (\<lambda>(ok, s'). good_step s s')"
  unfolding SC_InlineSwitch_def Let_def
  by (auto simp: wf_sc_lengths case_prod_unfold dest: curr_other_ats
      intro!: yields_mono [OF KillAts_ok] begin_ats_ok [where st = SC_STARTING, unfolded case_prod_unfold])

lemma JumpAtsCmd_ok:
  assumes "wf_sc s"
  shows "yields (SC_JumpAtsCmd msg s) (good_step s)"
  unfolding SC_JumpAtsCmd_def
proof (rule verify_ok [OF assms], goal_cases)
  case 1
  show ?case
  proof (cases "AtpState s = SC_EXECUTING")
    case True
    let ?i = "curr_ats s"
    have i: "?i < length (Ats s)" using curr_other_ats [OF assms] True wf_sc_lengths(1) [OF assms] by simp
    have wf: "wf_seq (Ats s ! ?i)" by (rule wf_seq_nth [OF assms i])
    let ?n = "unat (NumberOfCommands (Ats s ! ?i))"
    obtain j m hit a' where l: "JumpAts_loop (get_le32 8 msg) ?n 0 0 (Ats s ! ?i) = Some (j, m, hit, a')"
      "skip_post (Ats s ! ?i) j hit a'"
      using JumpAts_loop_ok [OF wf, of 0 ?n "get_le32 8 msg" 0] by (auto simp: yields_def)
    define s1 where "s1 = s\<lparr>Ats := (Ats s)[?i := a']\<rparr>"
    have g: "good_step s s1"
      unfolding s1_def by (rule good_set_ats [OF assms i]) (use l(2) in \<open>auto simp: skip_post_def\<close>)
    have kill: "yields (SC_KillAts (cmd_error (sc_event 39 [] s1))) (good_step s)"
      by (rule yields_step [OF g]) (use KillAts_ok [of "cmd_error (sc_event 39 [] s1)"] in \<open>auto elim: yields_mono\<close>)
    have n: "?n \<le> 1000"
      by (rule wf_seq_lengths(3) [OF wf])
    have hit: "good_step s (s1\<lparr>CmdNumber := ucast c, TimeIndexPtr := of_nat j, NextAtpTime := u\<rparr>)"
      if "hit = Some (c, u)" for c u
    proof -
      have c: "unat c \<in> set (ats_cmds (Ats s ! ?i))" "u = cmd_tm (Ats s ! ?i) (unat c)"
        using l(2) that by (auto simp: skip_post_def)
      then have "u \<in> ats_times s" using i by (auto simp: ats_times_def intro!: exI [of _ "Ats s ! ?i"])
      moreover have "j < ?n" using l(2) that by (simp add: skip_post_def)
      then have "unat (of_nat j :: u16) < 1000" using n by (simp add: unsigned_of_nat take_bit_eq_mod)
      then have "wf_sc (s1\<lparr>CmdNumber := ucast c, TimeIndexPtr := of_nat j\<rparr>)"
        using g c(1) by (auto simp: good_step_def wf_sc_def append_ok_def)
      ultimately show ?thesis using g by (auto simp: good_step_def)
    qed
    show ?thesis
      using True i l(1) kill hit by (auto simp: Let_def s1_def split: option.splits)
  qed (use assms in simp)
qed

lemma ContinueAtsOnFailureCmd_ok: "wf_sc s \<Longrightarrow> yields (SC_ContinueAtsOnFailureCmd msg s) (good_step s)"
  unfolding SC_ContinueAtsOnFailureCmd_def
  by (rule verify_ok) (auto simp: Let_def)

end
