(* ===== verification/SC_Run.thy ===== *)
theory SC_Run
  imports SC_Steps
begin

text \<open>
  Stored commands: the operations of the relative time sequences, the sending of commands and the
  management of tables on a well-formed state.
\<close>

section \<open>Relative time sequences\<close>

lemma pkt_checksum_pos: "pkt_checksum t i \<noteq> None \<Longrightarrow> i + 2 < length t"
  by (auto simp: pkt_checksum_def split: if_splits)

lemma yields_pkt_checksum [simp]:
  "yields (pkt_checksum t i) P \<longleftrightarrow> pkt_checksum t i \<noteq> None \<and> P (the (pkt_checksum t i))"
  by (auto simp: yields_def)

lemma yields_pkt_length [simp]:
  "yields (pkt_length t i) P \<longleftrightarrow> i + 2 < length t \<and> P (CFE_SB_GetTotalMsgLength (tbl_pkt t i))"
  by (simp add: pkt_length_def yields_def)

lemma yields_pkt_header [simp]:
  "yields (pkt_msgid t i) P \<longleftrightarrow> i < length t \<and> P (CFE_SB_GetMsgId (tbl_pkt t i))"
  "yields (pkt_cmdcode t i) P \<longleftrightarrow> i + 3 < length t \<and> P (CFE_SB_GetCmdCode (tbl_pkt t i))"
  by (simp_all add: pkt_msgid_def pkt_cmdcode_def yields_def)

lemma pkt_checksum_fits: "pkt_checksum t i = Some True \<Longrightarrow> i + 2 < length t \<and> pkt_fits t i"
  by (auto simp: pkt_checksum_def CFE_SB_ValidateChecksum_def split: if_splits)

lemma yields_pkt_words: "pkt_checksum t i = Some True \<Longrightarrow> (\<And>w. P w) \<Longrightarrow> yields (pkt_words t i) P"
  by (drule pkt_checksum_fits) (simp add: pkt_words_def)

lemma fits_checksum: "i + 2 < length t \<Longrightarrow> pkt_fits t i \<Longrightarrow> pkt_checksum t i \<noteq> None"
  unfolding pkt_checksum_def by (auto split: if_splits)

lemma KillRts_ok: "wf_sc s \<Longrightarrow> i < 64 \<Longrightarrow> yields (SC_KillRts i s) (good_step s)"
  using wf_rts_nth [of s i]
  by (auto simp: SC_KillRts_def wf_sc_lengths wf_rts_def intro!: good_set_rts)

lemma set_disabled_ok: "wf_sc s \<Longrightarrow> i < 64 \<Longrightarrow> yields (set_disabled b i s) (good_step s)"
  using wf_rts_nth [of s i]
  by (auto simp: set_disabled_def wf_sc_lengths wf_rts_def intro!: good_set_rts)

lemma start_rts_ok:
  "wf_sc s \<Longrightarrow> i < 64 \<Longrightarrow> RtsStatus (Rts s ! i) = SC_LOADED \<Longrightarrow>
     yields (start_rts i (Rts s ! i) s) (good_step s)"
  using wf_rts_nth [of s i]
  by (auto simp: start_rts_def wf_sc_lengths wf_rts_def intro!: good_set_rts)

lemma rts_start_error_ok [simp]: "good_step s (rts_start_error s') = good_step s s'"
  by (simp add: rts_start_error_def)

lemma StartRtsCmd_ok:
  assumes "wf_sc s"
  shows "yields (SC_StartRtsCmd msg s) (good_step s)"
proof -
  have "length (RtsTbl (Rts s ! i)) = 150" if "i < 64" "RtsStatus (Rts s ! i) = SC_LOADED" for i
    using wf_rts_nth [OF assms, of i] that wf_sc_lengths(2) [OF assms] by (simp add: wf_rts_def)
  then show ?thesis
    using assms
    by (auto simp: SC_StartRtsCmd_def SC_VerifyCmdLength_def Let_def wf_sc_lengths
        intro!: yields_mono [OF start_rts_ok])
qed

lemma StopRtsCmd_ok: "wf_sc s \<Longrightarrow> yields (SC_StopRtsCmd msg s) (good_step s)"
  unfolding SC_StopRtsCmd_def
  by (rule verify_ok) (auto simp: Let_def intro!: yields_mono [OF KillRts_ok])

lemma DisableRtsCmd_ok: "wf_sc s \<Longrightarrow> yields (SC_DisableRtsCmd msg s) (good_step s)"
  unfolding SC_DisableRtsCmd_def
  by (rule verify_ok) (auto simp: Let_def intro!: yields_mono [OF set_disabled_ok])

lemma EnableRtsCmd_ok: "wf_sc s \<Longrightarrow> yields (SC_EnableRtsCmd msg s) (good_step s)"
  unfolding SC_EnableRtsCmd_def
  by (rule verify_ok) (auto simp: Let_def intro!: yields_mono [OF set_disabled_ok])

text \<open>The three loops over a group keep the contract of the operation they repeat.\<close>

locale rts_group_loop =
  fixes group_loop :: "nat list \<Rightarrow> int \<Rightarrow> SC_t \<Rightarrow> (int \<times> SC_t) option"
    and guard :: "sc_rts \<Rightarrow> bool" and act :: "nat \<Rightarrow> SC_t \<Rightarrow> SC_t option"
  assumes loop_Nil: "group_loop [] n s = Some (n, s)"
    and loop_Cons: "group_loop (i # is) n s = do {
      r \<leftarrow> get_rts i s;
      if guard r then do { s \<leftarrow> act i s; group_loop is (n + 1) s } else group_loop is n s }"
    and act_ok: "wf_sc s \<Longrightarrow> i < 64 \<Longrightarrow> guard (Rts s ! i) \<Longrightarrow> yields (act i s) (good_step s)"
begin

lemma loop_ok:
  "good_step s0 s \<Longrightarrow> set is \<subseteq> {..<64} \<Longrightarrow> yields (group_loop is n s) (\<lambda>(n, s'). good_step s0 s')"
proof (induction "is" arbitrary: n s)
  case (Cons i "is")
  have wf: "wf_sc s" by (rule good_step_wf [OF Cons.prems(1)])
  show ?case
  proof (cases "guard (Rts s ! i)")
    case True
    have "yields (act i s) (\<lambda>s. yields (group_loop is (n + 1) s) (\<lambda>(n, s'). good_step s0 s'))"
      by (rule yields_step [OF Cons.prems(1)]) (use act_ok True Cons in auto)
    then show ?thesis using True Cons.prems wf_sc_lengths(2) [OF wf] by (simp add: loop_Cons)
  next
    case False
    then show ?thesis using Cons wf_sc_lengths(2) [OF wf] by (simp add: loop_Cons)
  qed
qed (simp add: loop_Nil)

lemma group_ok:
  assumes "wf_sc s"
  shows "yields (rts_group group_loop inf_eid err_eid msg s) (good_step s)"
  unfolding rts_group_def
proof (rule verify_ok [OF assms], goal_cases)
  case 1
  have "yields (group_loop [i..<Suc j] 0 s) (\<lambda>(n, s'). good_step s s')" if "j < 64" for i j
    by (rule loop_ok) (use assms that in auto)
  then show ?case using assms by (simp add: Let_def case_prod_unfold del: upt_Suc)
qed

end

interpretation start_group: rts_group_loop StartGrp_loop "\<lambda>r. \<not> DisabledFlag r \<and> RtsStatus r = SC_LOADED"
  "\<lambda>i s. do { r \<leftarrow> get_rts i s; start_rts i r s }"
  by unfold_locales (auto simp: wf_sc_lengths start_rts_ok get_rts_def arr_get_def)

interpretation stop_group: rts_group_loop StopGrp_loop "\<lambda>r. RtsStatus r = SC_EXECUTING" SC_KillRts
  by unfold_locales (auto simp: KillRts_ok)

interpretation flag_group: rts_group_loop "FlagGrp_loop flag" "\<lambda>r. DisabledFlag r \<noteq> flag" "set_disabled flag"
  for flag
  by unfold_locales (auto simp: set_disabled_ok)

section \<open>The next command\<close>

lemma NextRts_loop_ok:
  "wf_sc s \<Longrightarrow> set is \<subseteq> {..<64} \<Longrightarrow> yields (NextRts_loop is s n t) (\<lambda>x. True)"
  by (induction "is" arbitrary: n t) (auto simp: wf_sc_lengths)

lemma GetNextRtsTime_ok: "wf_sc s \<Longrightarrow> yields (SC_GetNextRtsTime s) (good_step s)"
  by (auto simp: SC_GetNextRtsTime_def intro!: yields_mono [OF NextRts_loop_ok])

lemma UpdateNextTime_ok: "wf_sc s \<Longrightarrow> yields (SC_UpdateNextTime s) (good_step s)"
  by (auto simp: SC_UpdateNextTime_def Let_def intro!: yields_mono [OF GetNextRtsTime_ok])

lemma rts_error_ok:
  assumes "wf_sc s" "i < 64"
  shows "yields (rts_error i p s) (good_step s)"
proof -
  let ?s = "s\<lparr>Rts := (Rts s)[i := (Rts s ! i)\<lparr>Rts_CmdErrCtr := Rts_CmdErrCtr (Rts s ! i) + 1\<rparr>]\<rparr>"
  have g: "good_step s ?s"
    by (rule good_set_rts [OF assms(1)])
      (use wf_rts_nth [OF assms(1), of i] assms wf_sc_lengths(2) [OF assms(1)] in \<open>simp add: wf_rts_def\<close>)
  have "yields (SC_KillRts i (?s\<lparr>RtsCmdErrCtr := a, LastRtsErrSeq := b, LastRtsErrCmd := p\<rparr>)) (good_step s)" for a b
    by (rule yields_mono [OF KillRts_ok])
      (use good_step_wf [OF g] assms(2) in \<open>auto intro: good_step_trans [OF g]\<close>)
  then show ?thesis using assms wf_sc_lengths(2) [OF assms(1)] by (simp add: rts_error_def)
qed

lemma rts_complete_ok: "wf_sc s \<Longrightarrow> i < 64 \<Longrightarrow> yields (rts_complete i s) (good_step s)"
  by (auto simp: rts_complete_def intro!: yields_mono [OF KillRts_ok])

text \<open>A command that the check of its length and of its end admits lies in the table.\<close>

lemma next_cmd_fits:
  fixes len p :: u16
  assumes "len = CFE_SB_GetTotalMsgLength (tbl_pkt t (unat p + 1))" "length t = 150"
    and "unat (ucast (len + 2) - 2 :: u32) \<le> 250" "unat p + (unat (len + 2) + 1) div 2 \<le> 150"
    and "unat p < 145"
  shows "pkt_checksum t (unat p + 1) \<noteq> None"
proof -
  have ge: "2 \<le> unat (len + 2)"
    using assms(3) by (simp add: unat_sub_if' split: if_splits)
  have "unat len = unat ((len + 2) - 2)" by simp
  then have "unat len = unat (len + 2) - 2"
    using ge by (simp only: unat_sub_if') simp
  moreover have "n \<le> 2 * ((n + 1) div 2)" for n :: nat by simp
  then have "unat (len + 2) \<le> 2 * ((unat (len + 2) + 1) div 2)" .
  moreover have "2 * (k + 1) + l \<le> 300" if "l = v - 2" "v \<le> 2 * q" "k + q \<le> 150" "2 \<le> v" for l v q k :: nat
    using that by arith
  ultimately have "2 * (unat p + 1) + unat len \<le> 300" using assms(4) ge by blast
  then show ?thesis using assms by (intro fits_checksum) (simp_all add: pkt_fits_def)
qed

lemma rts_number:
  fixes n :: u16
  assumes "n > 0" "unat n \<le> 64"
  shows "unat (n - 1) < 64"
proof -
  have "unat (n - 1) = unat n - 1" using assms by (intro unat_minus_one) auto
  then show ?thesis using assms by (auto simp: word_less_nat_alt)
qed

lemma GetNextRtsCommand_ok:
  assumes "wf_sc s"
  shows "yields (SC_GetNextRtsCommand s) (good_step s)"
proof (cases "RtsNumber s > 0 \<and> unat (RtsNumber s) \<le> 64")
  case True
  define i where "i = unat (RtsNumber s - 1)"
  define r where "r = Rts s ! i"
  have i: "i < 64" using rts_number True by (auto simp: i_def)
  have r: "wf_rts r" using wf_rts_nth [OF assms, of i] i wf_sc_lengths(2) [OF assms] by (simp add: r_def)
  show ?thesis
  proof (cases "RtsStatus r = SC_EXECUTING")
    case ex: True
    define p where "p = NextCommandPtr r + of_nat ((unat (CFE_SB_GetTotalMsgLength
      (tbl_pkt (RtsTbl r) (unat (NextCommandPtr r) + 1)) + 2) + 1) div 2)"
    define len where "len = CFE_SB_GetTotalMsgLength (tbl_pkt (RtsTbl r) (unat p + 1))"
    have l: "length (RtsTbl r) = 150" "unat (NextCommandPtr r) + 3 < 150"
      using r ex pkt_checksum_pos [of "RtsTbl r" "unat (NextCommandPtr r) + 1"] by (auto simp: wf_rts_def)
    have next_ok: "good_step s (s\<lparr>Rts := (Rts s)[i := r\<lparr>NextCommandTime := u, NextCommandPtr := p\<rparr>]\<rparr>)"
      if "unat (ucast (len + 2) - 2 :: u32) \<le> 250" "unat p + (unat (len + 2) + 1) div 2 \<le> 150"
        "unat p < 145" for u
    proof (rule good_set_rts [OF assms])
      show "wf_rts (r\<lparr>NextCommandTime := u, NextCommandPtr := p\<rparr>)"
        using r ex next_cmd_fits [OF len_def l(1) that] by (simp add: wf_rts_def)
    qed
    show ?thesis
      using True ex l i next_ok rts_complete_ok [OF assms i] rts_error_ok [OF assms i, of p] wf_sc_lengths(2) [OF assms]
      unfolding SC_GetNextRtsCommand_def Let_def i_def [symmetric]
      by (auto simp: r_def [symmetric] p_def [symmetric] len_def [symmetric] simp del: One_nat_def)
  next
    case False
    then show ?thesis
      using True assms i wf_sc_lengths(2) [OF assms]
      by (simp add: SC_GetNextRtsCommand_def Let_def i_def [symmetric] r_def [symmetric])
  qed
qed (use assms in \<open>auto simp: SC_GetNextRtsCommand_def\<close>)

lemma GetNextAtsCommand_ok:
  assumes "wf_sc s"
  shows "yields (SC_GetNextAtsCommand s) (good_step s)"
proof (cases "AtpState s = SC_EXECUTING")
  case True
  let ?i = "curr_ats s"
  let ?a = "Ats s ! ?i"
  have i: "?i < length (Ats s)" using curr_other_ats [OF assms] True wf_sc_lengths(1) [OF assms] by simp
  have wf: "wf_seq ?a" by (rule wf_seq_nth [OF assms i])
  show ?thesis
  proof (cases "TimeIndexPtr s + 1 < NumberOfCommands ?a")
    case less: True
    let ?c = "AtsTimeIndexBuffer ?a ! unat (TimeIndexPtr s + 1)"
    have "unat (TimeIndexPtr s + 1) < unat (NumberOfCommands ?a)" using less by (simp add: word_less_nat_alt)
    note o = order_loaded [OF wf this]
    have p: "unat (TimeIndexPtr s + 1) < 1000"
      using less wf_seq_lengths(3) [OF wf] by (simp add: word_less_nat_alt)
    obtain u where u: "ats_cmd_time ?a (unat ?c) = Some u" using loaded_time [OF wf o(2)] by blast
    then have "u = cmd_tm ?a (unat ?c)" by simp
    then have "u \<in> ats_times s"
      unfolding ats_times_def using o(2) nth_mem [OF i] by blast
    moreover have "wf_sc (s\<lparr>TimeIndexPtr := TimeIndexPtr s + 1, CmdNumber := ucast ?c\<rparr>)"
      using assms o(2) p by (auto simp: wf_sc_def append_ok_def)
    ultimately have "good_step s (s\<lparr>TimeIndexPtr := TimeIndexPtr s + 1, CmdNumber := ucast ?c, NextAtpTime := u\<rparr>)"
      by (auto simp: good_step_def intro: list_all2_refl)
    then show ?thesis
      using True less i o(1) u by (simp add: SC_GetNextAtsCommand_def Let_def)
  next
    case False
    then show ?thesis
      using True i assms
      by (auto simp: SC_GetNextAtsCommand_def Let_def intro!: yields_mono [OF KillAts_ok])
  qed
next
  case False
  then show ?thesis
    using assms
    by (auto simp: SC_GetNextAtsCommand_def good_step_def wf_sc_def append_ok_def intro: list_all2_refl)
qed

section \<open>Sending the commands of an ATS\<close>

lemma entry_fits:
  assumes "entry_ok 8000 t c e" "length t = 8000"
  shows "e < length t" "e + 3 < length t" "e + 6 < length t" "pkt_checksum t (e + 3) \<noteq> None"
proof -
  have "2 * (e + 3) + entry_len t e \<le> 16000"
    using assms(1) by (auto simp: entry_ok_def entry_size_def)
  then show "pkt_checksum t (e + 3) \<noteq> None"
    using assms by (intro fits_checksum) (auto simp: pkt_fits_def entry_len_def entry_ok_def)
  show "e < length t" "e + 3 < length t" "e + 6 < length t" using assms by (auto simp: entry_ok_def)
qed

lemma good_step_loaded:
  assumes "good_step s s'" "i < length (Ats s)"
  shows "no_load (Ats s ! i) (Ats s' ! i)" "i < length (Ats s')" "ats_cmds (Ats s' ! i) = ats_cmds (Ats s ! i)"
proof -
  show l: "no_load (Ats s ! i) (Ats s' ! i)" and "i < length (Ats s')"
    using assms by (auto simp: good_step_def list_all2_conv_all_nth)
  show "ats_cmds (Ats s' ! i) = ats_cmds (Ats s ! i)" by (rule no_load_loaded [OF l])
qed

lemma set_status_ok:
  assumes "wf_sc s" "i < length (Ats s)" "c \<in> set (ats_cmds (Ats s ! i))" "st \<noteq> SC_EMPTY" "st \<noteq> SC_LOADED"
  shows "yields (set_cmd_status i c st s) (good_step s)"
proof -
  have wf: "wf_seq (Ats s ! i)" by (rule wf_seq_nth [OF assms(1,2)])
  have c: "c < length (AtsCmdStatus (Ats s ! i))" using wf_seq_lengths [OF wf] assms(3) by simp
  show ?thesis
    using assms c wf_seq_status [OF wf assms(3,4)] no_load_status [OF c assms(5)]
    by (auto simp: set_cmd_status_def intro!: good_set_ats)
qed

text \<open>Sending a loaded command uses up its budget, provided that its status changes.\<close>

lemma send_status_ok:
  assumes "wf_sc s" "i < length (Ats s)" "c \<in> set (ats_cmds (Ats s ! i))" "st \<noteq> SC_EMPTY" "st \<noteq> SC_LOADED"
    and "AtsCmdStatus (Ats s ! i) ! c = SC_LOADED"
  shows "yields (set_cmd_status i c st (sc_emit (Send_Ats i c w) s)) (good_step s)"
proof -
  let ?s = "sc_emit (Send_Ats i c w) s"
  let ?a = "(Ats s ! i)\<lparr>AtsCmdStatus := (AtsCmdStatus (Ats s ! i))[c := st]\<rparr>"
  let ?t = "?s\<lparr>Ats := (Ats s)[i := ?a]\<rparr>"
  have wf: "wf_seq (Ats s ! i)" by (rule wf_seq_nth [OF assms(1,2)])
  have c: "c < length (AtsCmdStatus (Ats s ! i))" using wf_seq_lengths [OF wf] assms(3) by simp
  have "yields (set_cmd_status i c st ?s) (good_step ?s)" by (rule set_status_ok) (use assms in simp_all)
  then have g: "good_step ?s ?t" using assms(2) c by (simp add: set_cmd_status_def)
  have "budget j d ?t \<le> budget j d s" for j d
    using assms(2,5,6) c
    by (auto simp: budget_def sends_def cmd_loaded_def sc_emit_def nth_list_update)
  then have "good_step s ?t" using g by (simp add: good_step_def ats_times_def)
  then show ?thesis using assms(2) c by (simp add: set_cmd_status_def)
qed

section \<open>Messages and their count\<close>

text \<open>\<open>msgs\<close> counts the messages sent from sequences.  An operation is quiet if it sends none of them and
  leaves the count of the current second alone.\<close>

definition msgs :: "SC_t \<Rightarrow> nat" where
  "msgs s = length [out \<leftarrow> ScTrace s. case out of Send_Ats i c w \<Rightarrow> True | Send_Rts i p w \<Rightarrow> True | _ \<Rightarrow> False]"

definition quiet :: "SC_t \<Rightarrow> SC_t \<Rightarrow> bool" where
  "quiet s s' \<longleftrightarrow> NumCmdsSec s' = NumCmdsSec s \<and> msgs s' = msgs s"

lemma quiet_refl [simp]: "quiet s s"
  by (simp add: quiet_def)

lemma quiet_trans: "quiet s s' \<Longrightarrow> quiet s' s'' \<Longrightarrow> quiet s s''"
  by (simp add: quiet_def)

lemma quiet_event [simp]: "quiet s (sc_event e l s') = quiet s s'" "quiet (sc_event e l s) s' = quiet s s'"
  by (simp_all add: quiet_def msgs_def sc_emit_def)

lemma quiet_counted [simp]:
  "quiet s (cmd_counted s') = quiet s s'" "quiet s (cmd_error s') = quiet s s'"
  by (simp_all add: quiet_def msgs_def cmd_counted_def cmd_error_def)

lemma quiet_set [simp]:
  "quiet s (s'\<lparr>Ats := x1\<rparr>) = quiet s s'" "quiet s (s'\<lparr>Rts := x2\<rparr>) = quiet s s'"
  "quiet s (s'\<lparr>AtpState := x3\<rparr>) = quiet s s'" "quiet s (s'\<lparr>AtsNumber := x4\<rparr>) = quiet s s'"
  "quiet s (s'\<lparr>CmdNumber := x5\<rparr>) = quiet s s'" "quiet s (s'\<lparr>TimeIndexPtr := x6\<rparr>) = quiet s s'"
  "quiet s (s'\<lparr>SwitchPendFlag := x7\<rparr>) = quiet s s'" "quiet s (s'\<lparr>NumRtsActive := x6\<rparr>) = quiet s s'"
  "quiet s (s'\<lparr>RtsNumber := x6\<rparr>) = quiet s s'" "quiet s (s'\<lparr>NextProcNumber := x8\<rparr>) = quiet s s'"
  "quiet s (s'\<lparr>NextAtpTime := x5\<rparr>) = quiet s s'" "quiet s (s'\<lparr>NextRtpTime := x5\<rparr>) = quiet s s'"
  "quiet s (s'\<lparr>AtsCmdErrCtr := x6\<rparr>) = quiet s s'" "quiet s (s'\<lparr>LastAtsErrSeq := x6\<rparr>) = quiet s s'"
  "quiet s (s'\<lparr>LastAtsErrCmd := x6\<rparr>) = quiet s s'" "quiet s (s'\<lparr>RtsCmdErrCtr := x6\<rparr>) = quiet s s'"
  "quiet s (s'\<lparr>LastRtsErrSeq := x6\<rparr>) = quiet s s'" "quiet s (s'\<lparr>LastRtsErrCmd := x6\<rparr>) = quiet s s'"
  "quiet s (s'\<lparr>AtsCmdCtr := x6\<rparr>) = quiet s s'"
  by (simp_all add: quiet_def msgs_def)

definition upholds :: "'a option \<Rightarrow> ('a \<Rightarrow> bool) \<Rightarrow> bool" where
  "upholds m P \<longleftrightarrow> (\<forall>x. m = Some x \<longrightarrow> P x)"

lemma upholds_simps [simp]:
  "upholds (Some x) P = P x" "upholds None P" "upholds m (\<lambda>_. True)"
  "upholds (if b then m else n) P = (if b then upholds m P else upholds n P)"
  by (auto simp: upholds_def)

lemma upholds_bind [simp]: "upholds (m \<bind> f) P = upholds m (\<lambda>x. upholds (f x) P)"
  by (auto simp: upholds_def bind_eq_Some_conv)

lemma upholds_mono: "upholds m P \<Longrightarrow> (\<And>x. P x \<Longrightarrow> Q x) \<Longrightarrow> upholds m Q"
  by (auto simp: upholds_def)

lemma upholds_any: "(\<And>x. P x) \<Longrightarrow> upholds m P"
  by (auto simp: upholds_def)

lemma yields_upholds: "yields m P \<Longrightarrow> upholds m Q \<Longrightarrow> yields m (\<lambda>x. P x \<and> Q x)"
  by (auto simp: yields_def upholds_def)

lemma upholds_set:
  "upholds (set_ats i a s) P \<longleftrightarrow> i < length (Ats s) \<longrightarrow> P (s\<lparr>Ats := (Ats s)[i := a]\<rparr>)"
  "upholds (set_rts i r s) P \<longleftrightarrow> i < length (Rts s) \<longrightarrow> P (s\<lparr>Rts := (Rts s)[i := r]\<rparr>)"
  by (simp_all add: upholds_def set_ats_def set_rts_def arr_set_def)

lemma upholds_get [simp]:
  "upholds (arr_get xs i) P \<longleftrightarrow> i < length xs \<longrightarrow> P (xs ! i)"
  "upholds (arr_set xs i v) Q \<longleftrightarrow> i < length xs \<longrightarrow> Q (xs[i := v])"
  "upholds (get_ats j s) R \<longleftrightarrow> j < length (Ats s) \<longrightarrow> R (Ats s ! j)"
  "upholds (get_rts j s) U \<longleftrightarrow> j < length (Rts s) \<longrightarrow> U (Rts s ! j)"
  "upholds (pkt_length t i) V \<longleftrightarrow> i + 2 < length t \<longrightarrow> V (CFE_SB_GetTotalMsgLength (tbl_pkt t i))"
  by (simp_all add: upholds_def arr_get_def arr_set_def get_ats_def get_rts_def pkt_length_def)

lemmas upholds_read [intro!] =
  upholds_any [where m = "ats_cmd_time a c" for a c]
  upholds_any [where m = "BeginAts_loop t n i a" for t n i a]
  upholds_any [where m = "NextRts_loop is s n t" for "is" s n t]

lemma KillAts_quiet: "quiet s0 s \<Longrightarrow> upholds (SC_KillAts s) (quiet s0)"
  by (auto simp: SC_KillAts_def upholds_set)

lemma BeginAts_quiet: "quiet s0 s \<Longrightarrow> upholds (SC_BeginAts i off s) (\<lambda>(b, s'). quiet s0 s')"
  by (auto simp: SC_BeginAts_def upholds_set Let_def split: option.splits
      intro!: upholds_mono [OF KillAts_quiet [of s0]])

lemma InlineSwitch_quiet: "quiet s0 s \<Longrightarrow> upholds (SC_InlineSwitch s) (\<lambda>(b, s'). quiet s0 s')"
  by (auto simp: SC_InlineSwitch_def Let_def
      intro!: upholds_mono [OF KillAts_quiet [of s0]] upholds_mono [OF BeginAts_quiet [of s0]])

lemma ServiceSwitchPend_quiet: "quiet s0 s \<Longrightarrow> upholds (SC_ServiceSwitchPend s) (quiet s0)"
  by (auto simp: SC_ServiceSwitchPend_def Let_def
      intro!: upholds_mono [OF KillAts_quiet [of s0]] upholds_mono [OF BeginAts_quiet [of s0]])

lemma KillRts_quiet: "quiet s0 s \<Longrightarrow> upholds (SC_KillRts i s) (quiet s0)"
  by (auto simp: SC_KillRts_def upholds_set)

lemma rts_error_quiet: "quiet s0 s \<Longrightarrow> upholds (rts_error i p s) (quiet s0)"
  by (auto simp: rts_error_def upholds_set intro!: KillRts_quiet)

lemma rts_complete_quiet: "quiet s0 s \<Longrightarrow> upholds (rts_complete i s) (quiet s0)"
  by (auto simp: rts_complete_def intro!: upholds_mono [OF KillRts_quiet [of s0]])

lemma GetNextRtsCommand_quiet: "quiet s0 s \<Longrightarrow> upholds (SC_GetNextRtsCommand s) (quiet s0)"
  by (simp add: SC_GetNextRtsCommand_def Let_def upholds_set rts_error_quiet rts_complete_quiet)

lemma GetNextAtsCommand_quiet: "quiet s0 s \<Longrightarrow> upholds (SC_GetNextAtsCommand s) (quiet s0)"
  by (auto simp: SC_GetNextAtsCommand_def Let_def intro!: upholds_mono [OF KillAts_quiet [of s0]])

lemma UpdateNextTime_quiet: "quiet s0 s \<Longrightarrow> upholds (SC_UpdateNextTime s) (quiet s0)"
  by (auto simp: SC_UpdateNextTime_def SC_GetNextRtsTime_def Let_def)

lemma set_status_quiet: "quiet s0 s \<Longrightarrow> upholds (set_cmd_status i c st s) (quiet s0)"
  by (auto simp: set_cmd_status_def upholds_set)

end
