(* ===== verification/SC_Send.thy ===== *)
theory SC_Send
  imports SC_Run
begin

text \<open>
  Stored commands: sending the next command on a well-formed state.  A pass of a processor either counts
  one command of the current second, with at most one message, or sends nothing and advances.
\<close>

section \<open>A command of an ATS\<close>

definition sc_counted :: "SC_t \<Rightarrow> SC_t \<Rightarrow> bool" where
  "sc_counted s s' \<longleftrightarrow> NumCmdsSec s' = NumCmdsSec s + 1 \<and> msgs s' \<le> msgs s + 1"

definition same_atp :: "SC_t \<Rightarrow> SC_t \<Rightarrow> bool" where
  "same_atp s s' \<longleftrightarrow> quiet s s' \<and> AtpState s' = AtpState s \<and> AtsNumber s' = AtsNumber s
     \<and> TimeIndexPtr s' = TimeIndexPtr s"

lemma atp_error_fields [simp]:
  "good_step s (atp_error s') = good_step s s'" "good_step (atp_error s) s' = good_step s s'"
  "quiet s (atp_error s') = quiet s s'" "wf_sc (atp_error s) = wf_sc s" "Ats (atp_error s) = Ats s"
  "AtpState (atp_error s) = AtpState s" "AtsNumber (atp_error s) = AtsNumber s"
  "TimeIndexPtr (atp_error s) = TimeIndexPtr s"
  by (simp_all add: atp_error_def)

lemma same_atp_refl [simp]: "same_atp s s"
  by (simp add: same_atp_def)

lemma same_atp_event [simp]:
  "same_atp s (sc_event e l s') = same_atp s s'" "same_atp s (atp_error s') = same_atp s s'"
  by (simp_all add: same_atp_def)

lemma set_status_same: "same_atp s0 s \<Longrightarrow> upholds (set_cmd_status i c st s) (same_atp s0)"
  by (auto simp: set_cmd_status_def upholds_set same_atp_def)

lemma counted_event [simp]:
  "sc_counted s (sc_event e l s') = sc_counted s s'" "sc_counted s (atp_error s') = sc_counted s s'"
  "sc_counted s (s'\<lparr>SwitchPendFlag := b\<rparr>) = sc_counted s s'"
  by (simp_all add: sc_counted_def msgs_def sc_emit_def atp_error_def)

lemma counted_quiet:
  "quiet (s\<lparr>NumCmdsSec := NumCmdsSec s + 1\<rparr>) s' \<Longrightarrow> sc_counted s s'"
  "quiet (sc_emit out (s\<lparr>NumCmdsSec := NumCmdsSec s + 1, SbCalls := n\<rparr>)) s' \<Longrightarrow> sc_counted s s'"
  by (auto simp: sc_counted_def quiet_def msgs_def sc_emit_def split: sc_out.splits)

definition atp_pass :: "SC_t \<Rightarrow> SC_t \<Rightarrow> bool" where
  "atp_pass s s' \<longleftrightarrow> good_step s s' \<and> (sc_counted s s' \<or> same_atp s s')"

lemma atp_pass_event [simp]: "atp_pass s (s'\<lparr>AtsCmdCtr := x\<rparr>) = atp_pass s s'"
  by (simp add: atp_pass_def sc_counted_def same_atp_def quiet_def msgs_def)

lemma atp_send_ok:
  assumes wf: "wf_sc s" "AtpState s \<noteq> SC_IDLE" and i: "i < length (Ats s)"
    and c: "c \<in> set (ats_cmds (Ats s ! i))" "AtsCmdStatus (Ats s ! i) ! c = SC_LOADED"
    and e: "entry_ok 8000 t c e" "length t = 8000"
  shows "yields (atp_send env i c t e s) (\<lambda>(ab, ch, s'). atp_pass s s')"
proof -
  let ?s1 = "s\<lparr>NumCmdsSec := NumCmdsSec s + 1\<rparr>"
  let ?s2 = "\<lambda>w. sc_emit (Send_Ats i c w) (?s1\<lparr>SbCalls := SbCalls s + 1\<rparr>)"
  note f = entry_fits [OF e]
  have num: "unat (t ! e) = c + 1" using e(1) by (simp add: entry_ok_def)
  have fail: "yields (set_cmd_status i c st (atp_error (sc_event eid l s))) (atp_pass s)"
    if "st \<noteq> SC_EMPTY" "st \<noteq> SC_LOADED" for st eid l
    using yields_upholds [OF set_status_ok [of "atp_error (sc_event eid l s)" i c st]
        set_status_same [of s "atp_error (sc_event eid l s)" i c st]] wf i c that
    by (auto simp: atp_pass_def elim: yields_mono)
  have sent: "yields (set_cmd_status i c st (?s2 w)) (\<lambda>s'. good_step s s' \<and> sc_counted s s')"
    if "st \<noteq> SC_EMPTY" "st \<noteq> SC_LOADED" for st w
    using yields_upholds [OF send_status_ok [of "?s1\<lparr>SbCalls := SbCalls s + 1\<rparr>" i c st w]
        set_status_quiet [of "?s2 w" "?s2 w" i c st]] wf i c that
    by (auto elim!: yields_mono dest: counted_quiet)
  have switched: "yields (set_cmd_status i c st s') (\<lambda>s'. good_step s s' \<and> sc_counted s s')"
    if "good_step s s'" "quiet ?s1 s'" "st \<noteq> SC_EMPTY" "st \<noteq> SC_LOADED" for s' st
    using yields_upholds [OF set_status_ok [of s' i c st] set_status_quiet [OF that(2), of i c st]]
      that good_step_wf [OF that(1)] good_step_loaded [OF that(1) i] c(1)
    by (auto elim!: yields_mono intro: good_step_trans counted_quiet)
  have switch: "yields (SC_InlineSwitch ?s1) (\<lambda>(b, s'). good_step s s' \<and> quiet ?s1 s')"
    using yields_upholds [OF InlineSwitch_ok [of ?s1] InlineSwitch_quiet [of ?s1 ?s1]] wf
    by (auto elim: yields_mono)
  have exec: "yields (set_cmd_status i c SC_EXECUTED s') (\<lambda>s'. atp_pass s s')"
      "yields (set_cmd_status i c SC_FAILED_DISTRIB s') (\<lambda>s'. atp_pass s (atp_error s'))"
    if "good_step s s'" "quiet ?s1 s'" for s'
    by (rule yields_mono [OF switched [OF that]]; auto simp: atp_pass_def)+
  have dist: "yields (set_cmd_status i c SC_EXECUTED (?s2 w)) (\<lambda>s'. atp_pass s s')"
      "yields (set_cmd_status i c SC_FAILED_DISTRIB (?s2 w)) (\<lambda>s'. atp_pass s (sc_event eid l (atp_error s')))" for w eid l
    by (rule yields_mono [OF sent]; auto simp: atp_pass_def)+
  show ?thesis
  proof (cases "the (pkt_checksum t (e + 3))")
    case True
    then have ck: "pkt_checksum t (e + 3) = Some True" using f(4) by auto
    show ?thesis
      using f num ck exec dist
      by (auto simp: atp_send_def Let_def intro!: yields_mono [OF switch] yields_pkt_words [OF ck])
  next
    case False
    then show ?thesis
      using f num by (auto simp: atp_send_def Let_def intro!: yields_mono [OF fail])
  qed
qed

lemma atp_command_ok:
  assumes wf: "wf_sc s" "AtpState s \<noteq> SC_IDLE"
  shows "yields (atp_command env s) (\<lambda>(ab, ch, s'). atp_pass s s')"
proof -
  define i where "i = unat (AtsNumber s - 1)"
  define c where "c = unat (CmdNumber s)"
  have i: "i < length (Ats s)"
    using unat_AtsNumber [OF wf] wf_sc_lengths(1) [OF wf(1)] by (simp add: i_def)
  have a: "wf_seq (Ats s ! i)" by (rule wf_seq_nth [OF wf(1) i])
  have c: "c < 1000" using wf by (simp add: wf_sc_def c_def)
  show ?thesis
  proof (cases "AtsCmdStatus (Ats s ! i) ! c = SC_LOADED")
    case True
    then have w: "wf_ats (Ats s ! i)" using a c by (auto simp: wf_seq_def unused_ats_def)
    then obtain e where e: "AtsCmdIndexBuffer (Ats s ! i) ! c = int e" "entry_ok 8000 (AtsTbl (Ats s ! i)) c e"
      using True c unfolding wf_ats_def index_ok_def by (metis SC_Status.distinct(1))
    have "c \<in> set (ats_loaded (Ats s ! i))" using c e(1) by simp
    then have pos: "0 < NumberOfCommands (Ats s ! i)" "length (AtsTbl (Ats s ! i)) = 8000"
      using w length_pos_if_in_set [of c "ats_loaded (Ats s ! i)"]
      by (auto simp: wf_ats_def index_ok_def word_less_nat_alt simp del: set_loaded)
    then have l: "c \<in> set (ats_cmds (Ats s ! i))" using c e(1) by simp
    show ?thesis
      using atp_send_ok [OF wf i l True e(2) pos(2)] i c e(1) True wf_seq_lengths [OF a]
      by (simp add: atp_command_def i_def [symmetric] c_def [symmetric])
  next
    case False
    then show ?thesis
      using wf i c wf_seq_lengths [OF a]
      by (simp add: atp_command_def i_def [symmetric] c_def [symmetric] atp_pass_def)
  qed
qed

section \<open>A pass of the processor of absolute time sequences\<close>

definition atp_done :: "SC_t \<Rightarrow> SC_t \<Rightarrow> bool" where
  "atp_done s s' \<longleftrightarrow> good_step s s' \<and> (sc_counted s s' \<or> quiet s s' \<and>
     (AtpState s' = SC_IDLE \<or> AtpState s' = SC_EXECUTING \<and> unat (TimeIndexPtr s') = unat (TimeIndexPtr s) + 1))"

lemma counted_then_quiet: "sc_counted s s' \<Longrightarrow> quiet s' s'' \<Longrightarrow> sc_counted s s''"
  by (simp add: sc_counted_def quiet_def)

lemma KillAts_idle: "upholds (SC_KillAts s) (\<lambda>s'. AtpState s' = SC_IDLE)"
  by (auto simp: SC_KillAts_def upholds_set)

lemma GetNextAts_idle: "AtpState s = SC_IDLE \<Longrightarrow> SC_GetNextAtsCommand s = Some s"
  by (simp add: SC_GetNextAtsCommand_def)

lemma GetNextAts_advance:
  assumes "wf_sc s" "AtpState s = SC_EXECUTING"
  shows "upholds (SC_GetNextAtsCommand s) (\<lambda>s'. AtpState s' = SC_IDLE \<or>
    AtpState s' = SC_EXECUTING \<and> unat (TimeIndexPtr s') = unat (TimeIndexPtr s) + 1)"
proof -
  have "unat (TimeIndexPtr s) < 1000" using assms by (simp add: wf_sc_def)
  then have "unat (TimeIndexPtr s + 1) = unat (TimeIndexPtr s) + 1" by (simp add: unat_word_ariths)
  then show ?thesis
    using assms(2) by (auto simp: SC_GetNextAtsCommand_def Let_def intro!: upholds_mono [OF KillAts_idle])
qed

lemma ProcessAtpCmd_ok:
  assumes wf: "wf_sc s"
  shows "yields (SC_ProcessAtpCmd env s) (\<lambda>s'. good_step s s' \<and>
    (if \<not> SC_CompareAbsTime (NextAtpTime s) (CurrentTime s) \<and> NextProcNumber s = SC_ATP
        \<and> AtpState s = SC_EXECUTING then atp_done s s' else s' = s))"
proof (cases "\<not> SC_CompareAbsTime (NextAtpTime s) (CurrentTime s) \<and> NextProcNumber s = SC_ATP
    \<and> AtpState s = SC_EXECUTING")
  case True
  have abort: "yields (SC_KillAts (sc_event e l s1)) (\<lambda>s2. yields (SC_GetNextAtsCommand (s2\<lparr>SwitchPendFlag := False\<rparr>)) (atp_done s))"
    if p: "atp_pass s s1" for s1 e l
  proof -
    let ?s1 = "sc_event e l s1"
    have g: "good_step s ?s1" using p by (simp add: atp_pass_def)
    have "yields (SC_KillAts ?s1) (\<lambda>s2. (good_step ?s1 s2 \<and> AtpState s2 = SC_IDLE) \<and> quiet ?s1 s2)"
      by (rule yields_upholds [OF KillAts_ok [OF good_step_wf [OF g]] KillAts_quiet]) simp
    then show ?thesis
      by (rule yields_mono)
        (use p in \<open>auto simp: GetNextAts_idle atp_done_def atp_pass_def same_atp_def
           intro: good_step_trans quiet_trans dest: counted_then_quiet\<close>)
  qed
  have on: "yields (SC_GetNextAtsCommand s1) (atp_done s)" if p: "atp_pass s s1" for s1
  proof -
    have g: "good_step s s1" using p by (simp add: atp_pass_def)
    note wf1 = good_step_wf [OF g]
    have y: "yields (SC_GetNextAtsCommand s1) (\<lambda>s2. good_step s1 s2 \<and> quiet s1 s2)"
      by (rule yields_upholds [OF GetNextAtsCommand_ok [OF wf1] GetNextAtsCommand_quiet]) simp
    show ?thesis
    proof (cases "sc_counted s s1")
      case True
      show ?thesis
        by (rule yields_mono [OF y]) (use True g in \<open>auto simp: atp_done_def intro: good_step_trans counted_then_quiet\<close>)
    next
      case False
      then have sa: "same_atp s s1" using p by (simp add: atp_pass_def)
      show ?thesis
        by (rule yields_mono [OF yields_upholds [OF y GetNextAts_advance [OF wf1]]])
          (use sa True g in \<open>auto simp: atp_done_def same_atp_def intro: good_step_trans quiet_trans\<close>)
    qed
  qed
  have "yields (SC_ProcessAtpCmd env s) (atp_done s)"
    using True
    by (auto simp: SC_ProcessAtpCmd_def intro!: yields_mono [OF atp_command_ok [OF wf]] abort on)
  then show ?thesis using True by (auto elim: yields_mono simp: atp_done_def)
qed (use wf in \<open>auto simp: SC_ProcessAtpCmd_def\<close>)

section \<open>A pass of the processor of relative time sequences\<close>

lemma rtp_command_ok:
  assumes wf: "wf_sc s" and n: "RtsNumber s > 0" "unat (RtsNumber s) \<le> 64"
    and ex: "RtsStatus (Rts s ! unat (RtsNumber s - 1)) = SC_EXECUTING"
  shows "yields (rtp_command env s) (\<lambda>s'. good_step s s' \<and> sc_counted s s')"
proof -
  define i where "i = unat (RtsNumber s - 1)"
  define r where "r = Rts s ! i"
  define p where "p = NextCommandPtr r"
  have i: "i < 64" using rts_number [OF n] by (simp add: i_def)
  have r: "wf_rts r" "pkt_checksum (RtsTbl r) (unat p + 1) \<noteq> None"
    using wf_rts_nth [OF wf, of i] i wf_sc_lengths(2) [OF wf] ex
    by (simp_all add: r_def p_def wf_rts_def i_def)
  let ?s1 = "s\<lparr>NumCmdsSec := NumCmdsSec s + 1\<rparr>"
  let ?s2 = "\<lambda>w. sc_emit (Send_Rts i (unat p) w) (?s1\<lparr>SbCalls := SbCalls s + 1\<rparr>)"
  have err: "yields (rts_error i p s') (\<lambda>s'. good_step s s' \<and> sc_counted s s')"
    if "good_step s s'" "sc_counted s s'" for s'
    by (rule yields_mono [OF yields_upholds [OF rts_error_ok [OF good_step_wf [OF that(1)] i] rts_error_quiet]])
      (use that in \<open>auto intro: good_step_trans counted_then_quiet\<close>)
  have go: "yields (SC_GetNextRtsCommand s') (\<lambda>s'. good_step s s' \<and> sc_counted s s')"
    if "good_step s s'" "sc_counted s s'" for s'
    by (rule yields_mono [OF yields_upholds [OF GetNextRtsCommand_ok [OF good_step_wf [OF that(1)]] GetNextRtsCommand_quiet]])
      (use that in \<open>auto intro: good_step_trans counted_then_quiet\<close>)
  have c: "sc_counted s ?s1" "sc_counted s (?s2 w)" for w
    by (simp_all add: sc_counted_def msgs_def sc_emit_def)
  have rw: "wf_rts (r\<lparr>Rts_CmdCtr := x\<rparr>)" for x using r(1) by (simp add: wf_rts_def)
  have sent: "good_step s ((?s2 w)\<lparr>RtsCmdCtr := y, Rts := (Rts s)[i := r\<lparr>Rts_CmdCtr := x\<rparr>]\<rparr>)" for w x y
    using good_set_rts [of "(?s2 w)\<lparr>RtsCmdCtr := y\<rparr>" "r\<lparr>Rts_CmdCtr := x\<rparr>" i] rw wf by simp
  have sent_c: "sc_counted s ((?s2 w)\<lparr>RtsCmdCtr := y, Rts := l\<rparr>)" for w y l
    using c(2) by (simp add: sc_counted_def msgs_def)
  show ?thesis
    using r(2) c err go sent sent_c i wf_sc_lengths(2) [OF wf] wf
    by (auto simp: rtp_command_def Let_def i_def [symmetric] r_def [symmetric] p_def [symmetric]
        intro!: yields_pkt_words)
qed

end
