(* ===== verification/SC_Wake.thy ===== *)
theory SC_Wake
  imports SC_Send
begin

text \<open>
  Stored commands: the loop of the one hertz wake-up.  After its first pass the processor that is next has
  a command; a pass then counts a command of the current second or moves to the next command of the ATS, so
  that the loop ends, provided that the plain comparison of times in its condition agrees with the
  comparison of \<^verbatim>\<open>SC_CompareAbsTime\<close>.
\<close>

section \<open>Loops that return\<close>

text \<open>A do-while loop over an operation that may fail: with an invariant \<open>inv\<close> and a measure \<open>m\<close>, the loop
  returns, and its result has the property \<open>post\<close>.\<close>

locale option_loop =
  fixes body :: "'s \<Rightarrow> (bool \<times> 's) option" and loop :: "'s \<Rightarrow> 's option"
    and inv post :: "'s \<Rightarrow> bool" and m :: "'s \<Rightarrow> nat"
  assumes loop_unfold: "loop s = do { (more, s) \<leftarrow> body s; if more then loop s else Some s }"
    and body_ok: "inv s \<Longrightarrow> yields (body s) (\<lambda>(more, s'). if more then inv s' \<and> m s' < m s else post s')"
begin

lemma loop_returns: "inv s \<Longrightarrow> yields (loop s) post"
proof (induction "m s" arbitrary: s rule: less_induct)
  case less
  have "yields (body s) (\<lambda>x. yields (case x of (again, s) \<Rightarrow> if again then loop s else Some s) post)"
    by (rule yields_mono [OF body_ok [OF less.prems]]) (use less.hyps in \<open>auto split: if_splits\<close>)
  then show ?case by (subst loop_unfold) simp
qed

lemma loop_after_first:
  assumes "yields (body s) (\<lambda>(more, s'). if more then inv s' else post s')"
  shows "yields (loop s) post"
proof -
  have "yields (body s) (\<lambda>x. yields (case x of (again, s) \<Rightarrow> if again then loop s else Some s) post)"
    by (rule yields_mono [OF assms]) (auto split: if_splits intro: loop_returns)
  then show ?thesis by (subst loop_unfold) simp
qed

end

section \<open>The next command\<close>

text \<open>What \<^verbatim>\<open>SC_UpdateNextTime\<close> establishes: the sequence that is next is executing.\<close>

definition fresh :: "SC_t \<Rightarrow> bool" where
  "fresh s \<longleftrightarrow> (case NextProcNumber s of SC_ATP \<Rightarrow> AtpState s = SC_EXECUTING
     | SC_RTP \<Rightarrow> RtsNumber s > 0 \<and> unat (RtsNumber s) \<le> 64
         \<and> RtsStatus (Rts s ! unat (RtsNumber s - 1)) = SC_EXECUTING
     | SC_NONE \<Rightarrow> True)"

definition same_clock :: "SC_t \<Rightarrow> SC_t \<Rightarrow> bool" where
  "same_clock s s' \<longleftrightarrow> AtpState s' = AtpState s \<and> TimeIndexPtr s' = TimeIndexPtr s"

lemma NextRts_loop_executing:
  "upholds (NextRts_loop is s n t) (\<lambda>(n', t'). n' = n \<or>
     (\<exists>i \<in> set is. n' = of_nat i \<and> RtsStatus (Rts s ! i) = SC_EXECUTING))"
proof (induction "is" arbitrary: n t)
  case (Cons i "is")
  show ?case by (auto intro!: upholds_mono [OF Cons.IH])
qed simp

lemma UpdateNextTime_fresh: "upholds (SC_UpdateNextTime s) (\<lambda>s'. same_clock s s' \<and> fresh s')"
proof -
  have "upholds (SC_GetNextRtsTime s) (\<lambda>s'. same_clock s s' \<and>
      (RtsNumber s' = 0 \<or> RtsStatus (Rts s' ! unat (RtsNumber s' - 1)) = SC_EXECUTING))"
    by (auto simp: SC_GetNextRtsTime_def same_clock_def unat_of_nat
        intro!: upholds_mono [OF NextRts_loop_executing])
  then show ?thesis
    by (auto simp: SC_UpdateNextTime_def Let_def same_clock_def fresh_def elim!: upholds_mono)
qed

lemma ProcessRtpCommand_ok:
  assumes wf: "wf_sc s" and n: "NextProcNumber s = SC_RTP"
  shows "yields (SC_ProcessRtpCommand env s) (\<lambda>s'. good_step s s' \<and>
    (if NextRtpTime s \<le> CurrentTime s \<and> fresh s then sc_counted s s' else sc_counted s s' \<or> s' = s))"
  using n wf wf_sc_lengths(2) [OF wf] rts_number [of "RtsNumber s"]
  by (auto simp: SC_ProcessRtpCommand_def NextCmdTime_def fresh_def
      intro!: yields_mono [OF rtp_command_ok [OF wf]])

section \<open>A pass of the loop\<close>

definition due :: "SC_t \<Rightarrow> bool" where
  "due s \<longleftrightarrow> (case NextCmdTime s (NextProcNumber s) of None \<Rightarrow> False | Some t \<Rightarrow> t \<le> CurrentTime s)"

text \<open>The two comparisons of times agree on the times that the ATS processor meets.\<close>

definition times_agree :: "SC_t \<Rightarrow> bool" where
  "times_agree s \<longleftrightarrow> (\<forall>t \<in> ats_times s \<union> (if AtpState s \<noteq> SC_IDLE then {NextAtpTime s} else {}).
     SC_CompareAbsTime t (CurrentTime s) \<longleftrightarrow> CurrentTime s < t)"

lemma good_step_agree: "good_step s s' \<Longrightarrow> times_agree s \<Longrightarrow> times_agree s'"
  using no_load_times [of s s'] unfolding good_step_def times_agree_def by auto

definition same_rtp :: "SC_t \<Rightarrow> SC_t \<Rightarrow> bool" where
  "same_rtp s s' \<longleftrightarrow> Rts s' = Rts s \<and> RtsNumber s' = RtsNumber s \<and> NextRtpTime s' = NextRtpTime s
     \<and> NextProcNumber s' = NextProcNumber s \<and> CurrentTime s' = CurrentTime s"

lemma same_rtp_refl [simp]: "same_rtp s s"
  by (simp add: same_rtp_def)

lemma same_rtp_upd [simp]:
  "same_rtp s (sc_event e l s') = same_rtp s s'" "same_rtp s (s'\<lparr>Ats := x1\<rparr>) = same_rtp s s'"
  "same_rtp s (s'\<lparr>AtpState := x2\<rparr>) = same_rtp s s'" "same_rtp s (s'\<lparr>AtsNumber := x3\<rparr>) = same_rtp s s'"
  "same_rtp s (s'\<lparr>CmdNumber := x4\<rparr>) = same_rtp s s'" "same_rtp s (s'\<lparr>NextAtpTime := x4\<rparr>) = same_rtp s s'"
  "same_rtp s (s'\<lparr>TimeIndexPtr := x5\<rparr>) = same_rtp s s'" "same_rtp s (s'\<lparr>SwitchPendFlag := x6\<rparr>) = same_rtp s s'"
  by (simp_all add: same_rtp_def)

lemma KillAts_rtp: "same_rtp s0 s \<Longrightarrow> upholds (SC_KillAts s) (same_rtp s0)"
  by (auto simp: SC_KillAts_def upholds_set)

lemma BeginAts_rtp: "same_rtp s0 s \<Longrightarrow> upholds (SC_BeginAts i off s) (\<lambda>(b, s'). same_rtp s0 s')"
  by (auto simp: SC_BeginAts_def upholds_set Let_def split: option.splits
      intro!: upholds_mono [OF KillAts_rtp [of s0]])

lemma ServiceSwitchPend_rtp: "same_rtp s0 s \<Longrightarrow> upholds (SC_ServiceSwitchPend s) (same_rtp s0)"
  by (auto simp: SC_ServiceSwitchPend_def Let_def
      intro!: upholds_mono [OF KillAts_rtp [of s0]] upholds_mono [OF BeginAts_rtp [of s0]])

text \<open>The switch that is pending is made before the next command, and not while a command of the ATS is due.\<close>

lemma pend_ok:
  assumes "wf_sc s"
  shows "yields (if SwitchPendFlag s then SC_ServiceSwitchPend s else Some s)
    (\<lambda>s'. good_step s s' \<and> quiet s s' \<and> same_rtp s s' \<and>
       (SC_CompareAbsTime (NextAtpTime s) (CurrentTime s) \<or> s' = s))"
proof -
  have "upholds (SC_ServiceSwitchPend s) (\<lambda>s'. SC_CompareAbsTime (NextAtpTime s) (CurrentTime s) \<or> s' = s)"
    by (cases "SC_CompareAbsTime (NextAtpTime s) (CurrentTime s)") (simp_all add: SC_ServiceSwitchPend_def)
  then show ?thesis
    using yields_upholds [OF ServiceSwitchPend_ok [OF assms] ServiceSwitchPend_quiet [of s s]]
      ServiceSwitchPend_rtp [of s s] assms
    by (auto simp: yields_def upholds_def)
qed

text \<open>The processors: a command is counted, or nothing is sent and, if a command is due, the ATS advances.\<close>

definition advance :: "SC_t \<Rightarrow> SC_t \<Rightarrow> bool" where
  "advance s s' \<longleftrightarrow> NextProcNumber s = SC_ATP \<and> AtpState s = SC_EXECUTING \<and>
     (AtpState s' = SC_IDLE \<or> AtpState s' = SC_EXECUTING \<and> unat (TimeIndexPtr s') = unat (TimeIndexPtr s) + 1)"

lemma process_ok:
  assumes wf: "wf_sc s"
  shows "yields (case NextProcNumber s of SC_ATP \<Rightarrow> SC_ProcessAtpCmd env s
      | SC_RTP \<Rightarrow> SC_ProcessRtpCommand env s | SC_NONE \<Rightarrow> Some s)
    (\<lambda>s'. good_step s s' \<and> (sc_counted s s' \<or> quiet s s') \<and>
       (fresh s \<and> due s \<and> times_agree s \<longrightarrow> sc_counted s s' \<or> advance s s'))"
proof (cases "NextProcNumber s")
  case SC_ATP
  have "\<not> SC_CompareAbsTime (NextAtpTime s) (CurrentTime s) \<and> AtpState s = SC_EXECUTING"
    if "fresh s" "due s" "times_agree s"
    using that SC_ATP by (auto simp: fresh_def due_def NextCmdTime_def times_agree_def)
  then show ?thesis
    using SC_ATP by (auto simp: atp_done_def advance_def split: if_splits
      intro!: yields_mono [OF ProcessAtpCmd_ok [OF wf]])
next
  case SC_RTP
  then show ?thesis
    by (auto simp: due_def NextCmdTime_def split: if_splits intro!: yields_mono [OF ProcessRtpCommand_ok [OF wf]])
next
  case SC_NONE
  then show ?thesis using wf by (simp add: due_def NextCmdTime_def)
qed

lemma counted_after_quiet: "quiet s s' \<Longrightarrow> sc_counted s' s'' \<Longrightarrow> sc_counted s s''"
  by (simp add: sc_counted_def quiet_def)

lemma pend_fresh:
  assumes "fresh s" "due s" "times_agree s" "good_step s s'" "same_rtp s s'"
    and "SC_CompareAbsTime (NextAtpTime s) (CurrentTime s) \<or> s' = s"
  shows "fresh s' \<and> due s' \<and> times_agree s' \<and> (NextProcNumber s' = SC_ATP \<longrightarrow> s' = s)"
proof (cases "NextProcNumber s = SC_ATP")
  case True
  then have "\<not> SC_CompareAbsTime (NextAtpTime s) (CurrentTime s)"
    using assms by (auto simp: fresh_def due_def NextCmdTime_def times_agree_def)
  then show ?thesis using assms by simp
next
  case False
  then show ?thesis
    using assms good_step_agree [OF assms(4)]
    by (auto simp: fresh_def due_def NextCmdTime_def same_rtp_def split: SC_Proc.splits)
qed

definition pass_measure :: "SC_t \<Rightarrow> nat" where
  "pass_measure s = (8 - unat (NumCmdsSec s)) * 1002
     + (if AtpState s = SC_EXECUTING then 1001 - unat (TimeIndexPtr s) else 0)"

lemma counted_measure:
  assumes "sc_counted s s'" "unat (NumCmdsSec s) < 8"
  shows "pass_measure s' < pass_measure s"
proof -
  have "unat (NumCmdsSec s') = unat (NumCmdsSec s) + 1"
    using assms by (simp add: sc_counted_def unat_word_ariths)
  then have "(8 - unat (NumCmdsSec s)) * 1002 = (8 - unat (NumCmdsSec s')) * 1002 + 1002"
    using assms(2) by simp
  then show ?thesis
    using diff_le_self [of 1001 "unat (TimeIndexPtr s')"] unfolding pass_measure_def by auto
qed

lemma advance_measure:
  "wf_sc s \<Longrightarrow> advance s s' \<Longrightarrow> quiet s s' \<Longrightarrow> pass_measure s' < pass_measure s"
  by (auto simp: pass_measure_def advance_def quiet_def wf_sc_def)

text \<open>A pass of the loop: what holds of the state when the loop goes on and when it ends.\<close>

definition pass_post :: "SC_t \<Rightarrow> bool \<Rightarrow> SC_t \<Rightarrow> bool" where
  "pass_post s again s' \<longleftrightarrow> good_step s s' \<and> msgs s' \<le> msgs s + 1 \<and>
     (if again then fresh s' \<and> due s' \<and> NumCmdsSec s' < 8 \<and> (sc_counted s s' \<or> quiet s s')
        \<and> (fresh s \<and> due s \<and> times_agree s \<and> NumCmdsSec s < 8 \<longrightarrow> pass_measure s' < pass_measure s)
      else NumCmdsSec s' = 0)"

lemma pass_chain:
  assumes wf: "wf_sc s" and g: "good_step s s1" "good_step s1 s2" "good_step s2 s3"
    and p: "quiet s s1" "same_rtp s s1" "SC_CompareAbsTime (NextAtpTime s) (CurrentTime s) \<or> s1 = s"
    and c: "sc_counted s1 s2 \<or> quiet s1 s2" "fresh s1 \<and> due s1 \<and> times_agree s1 \<longrightarrow> sc_counted s1 s2 \<or> advance s1 s2"
    and u: "quiet s2 s3" "same_clock s2 s3"
  shows "good_step s s3" "sc_counted s s3 \<or> quiet s s3"
    "fresh s \<and> due s \<and> times_agree s \<and> NumCmdsSec s < 8 \<longrightarrow> pass_measure s3 < pass_measure s"
proof -
  show "good_step s s3" using g by (blast intro: good_step_trans)
  have count: "sc_counted s1 s2 \<Longrightarrow> sc_counted s s3"
    using p(1) u(1) by (blast intro: counted_after_quiet counted_then_quiet)
  show "sc_counted s s3 \<or> quiet s s3"
    using c(1) count p(1) u(1) by (blast intro: quiet_trans)
  show "fresh s \<and> due s \<and> times_agree s \<and> NumCmdsSec s < 8 \<longrightarrow> pass_measure s3 < pass_measure s"
  proof
    assume f: "fresh s \<and> due s \<and> times_agree s \<and> NumCmdsSec s < 8"
    then have f1: "fresh s1 \<and> due s1 \<and> times_agree s1 \<and> (NextProcNumber s1 = SC_ATP \<longrightarrow> s1 = s)"
      using pend_fresh g(1) p(2,3) by blast
    then consider "sc_counted s s3" | "advance s1 s2" "quiet s1 s2" using c count by blast
    then show "pass_measure s3 < pass_measure s"
    proof cases
      case 1
      then show ?thesis using f by (auto intro: counted_measure simp: word_less_nat_alt)
    next
      case 2
      then have "s1 = s" using f1 by (simp add: advance_def)
      then have "advance s s3 \<and> quiet s s3" using 2 u by (auto simp: advance_def same_clock_def intro: quiet_trans)
      then show ?thesis using wf advance_measure by blast
    qed
  qed
qed

lemma counted_msgs: "sc_counted s s' \<or> quiet s s' \<Longrightarrow> msgs s' \<le> msgs s + 1"
  by (auto simp: sc_counted_def quiet_def)

lemma wakeup_end:
  assumes "good_step s s3" "sc_counted s s3 \<or> quiet s s3" "fresh s3"
    and "fresh s \<and> due s \<and> times_agree s \<and> NumCmdsSec s < 8 \<longrightarrow> pass_measure s3 < pass_measure s"
  shows "yields (if NextProcNumber s3 = SC_NONE then Some True
      else map_option (\<lambda>t. t > CurrentTime s3) (NextCmdTime s3 (NextProcNumber s3)))
    (\<lambda>idle. case if idle then (False, s3\<lparr>NumCmdsSec := 0\<rparr>)
      else if NumCmdsSec s3 \<ge> SC_MAX_CMDS_PER_SEC then (False, s3\<lparr>NumCmdsSec := 0\<rparr>)
      else (True, s3) of (again, s') \<Rightarrow> pass_post s again s')"
proof -
  have "msgs (s3\<lparr>NumCmdsSec := 0\<rparr>) = msgs s3" by (simp add: msgs_def)
  then show ?thesis
    using assms counted_msgs [OF assms(2)]
    by (cases "NextProcNumber s3") (auto simp: NextCmdTime_def pass_post_def due_def not_less not_le)
qed

lemma wakeup_body_ok:
  assumes wf: "wf_sc s"
  shows "yields (wakeup_body env s) (\<lambda>(again, s'). pass_post s again s')"
proof -
  have update: "yields (SC_UpdateNextTime s2) (\<lambda>s3. good_step s2 s3 \<and> quiet s2 s3 \<and> same_clock s2 s3 \<and> fresh s3)"
    if "wf_sc s2" for s2
    using yields_upholds [OF UpdateNextTime_ok [OF that] UpdateNextTime_quiet [of s2 s2]] UpdateNextTime_fresh [of s2]
    by (auto simp: yields_def upholds_def)
  show ?thesis
    unfolding wakeup_body_def yields_bind yields_Some
    apply (rule yields_mono [OF pend_ok [OF wf]])
    apply (elim conjE, rule yields_mono [OF process_ok], erule good_step_wf)
    apply (elim conjE, rule yields_mono [OF update], erule good_step_wf)
    apply (elim conjE, rule wakeup_end)
       apply (blast intro: good_step_trans)
    using pass_chain(2) [OF wf] apply blast
    apply assumption
    using pass_chain(3) [OF wf] apply blast
    done
qed

section \<open>The loop\<close>

definition wakeup_inv :: "SC_t \<Rightarrow> SC_t \<Rightarrow> bool" where
  "wakeup_inv s0 s \<longleftrightarrow> times_agree s0 \<and> good_step s0 s \<and> msgs s \<le> msgs s0 + unat (NumCmdsSec s)
     \<and> NumCmdsSec s < 8 \<and> fresh s \<and> due s"

definition wakeup_post :: "SC_t \<Rightarrow> SC_t \<Rightarrow> bool" where
  "wakeup_post s0 s \<longleftrightarrow> good_step s0 s \<and> msgs s \<le> msgs s0 + 8 \<and> NumCmdsSec s = 0"

lemma counted_total:
  "sc_counted s s' \<or> quiet s s' \<Longrightarrow> unat (NumCmdsSec s) < 8 \<Longrightarrow> msgs s \<le> n + unat (NumCmdsSec s) \<Longrightarrow>
     msgs s' \<le> n + unat (NumCmdsSec s')"
  by (auto simp: sc_counted_def quiet_def unat_word_ariths)

lemma wakeup_inv_step:
  assumes "wakeup_inv s0 s" "pass_post s again s'"
  shows "if again then wakeup_inv s0 s' \<and> pass_measure s' < pass_measure s else wakeup_post s0 s'"
proof -
  have l: "unat (NumCmdsSec s) < 8" using assms(1) by (simp add: wakeup_inv_def word_less_nat_alt)
  show ?thesis
    using assms l counted_total [of s s' "msgs s0"] good_step_agree [of s0 s]
    by (auto simp: wakeup_inv_def wakeup_post_def pass_post_def intro: good_step_trans)
qed

interpretation wakeup: option_loop "wakeup_body env" "wakeup_loop env" "wakeup_inv s0" "wakeup_post s0" pass_measure
  for env s0
proof
  show "wakeup_loop env s = do { (again, s) \<leftarrow> wakeup_body env s; if again then wakeup_loop env s else Some s }" for s
    by (rule wakeup_loop.simps)
  show "yields (wakeup_body env s) (\<lambda>(again, s'). if again then wakeup_inv s0 s' \<and> pass_measure s' < pass_measure s
      else wakeup_post s0 s')" if "wakeup_inv s0 s" for s
  proof -
    have "wf_sc s" using that good_step_wf unfolding wakeup_inv_def by blast
    from wakeup_body_ok [OF this] show ?thesis
      by (rule yields_mono) (use wakeup_inv_step [OF that] in auto)
  qed
qed

lemma wakeup_loop_ok:
  assumes wf: "wf_sc s" and a: "times_agree s" and n: "NumCmdsSec s = 0"
  shows "yields (wakeup_loop env s) (wakeup_post s)"
proof (rule wakeup.loop_after_first)
  show "yields (wakeup_body env s) (\<lambda>(again, s'). if again then wakeup_inv s s' else wakeup_post s s')"
    by (rule yields_mono [OF wakeup_body_ok [OF wf]])
      (use a n counted_total [of s _ "msgs s"] in \<open>auto simp: pass_post_def wakeup_inv_def wakeup_post_def\<close>)
qed

text \<open>Whenever the loop returns, no command of an ATS was sent twice.\<close>

lemma wakeup_loop_partial: "wf_sc s \<Longrightarrow> upholds (wakeup_loop env s) (\<lambda>s'. good_step s s' \<and> NumCmdsSec s' = 0)"
proof -
  have "wf_sc s \<longrightarrow> good_step s s' \<and> NumCmdsSec s' = 0" if "wakeup_loop env s = Some s'" for s'
  proof (rule wakeup_loop.raw_induct [OF _ that])
    fix loop :: "sc_env \<Rightarrow> SC_t \<Rightarrow> SC_t option" and env s s'
    assume ih: "\<And>env s s'. loop env s = Some s' \<Longrightarrow> wf_sc s \<longrightarrow> good_step s s' \<and> NumCmdsSec s' = 0"
      and r: "wakeup_body env s \<bind> (\<lambda>(again, s). if again then loop env s else Some s) = Some s'"
    show "wf_sc s \<longrightarrow> good_step s s' \<and> NumCmdsSec s' = 0"
    proof
      assume "wf_sc s"
      from wakeup_body_ok [OF this, of env] obtain again s1
        where s1: "wakeup_body env s = Some (again, s1)" "pass_post s again s1"
        by (auto simp: yields_def)
      then show "good_step s s' \<and> NumCmdsSec s' = 0"
        using r ih [of env s1 s'] good_step_wf [of s s1]
        by (auto simp: pass_post_def split: if_splits intro: good_step_trans)
    qed
  qed
  then show "wf_sc s \<Longrightarrow> ?thesis" by (auto simp: upholds_def)
qed

text \<open>A pass that leaves the state as it is and asks for another one is repeated forever.\<close>

lemma wakeup_loop_stuck: "wakeup_body env s = Some (True, s) \<Longrightarrow> wakeup_loop env s = None"
proof (rule ccontr)
  assume stuck: "wakeup_body env s = Some (True, s)" and "wakeup_loop env s \<noteq> None"
  then obtain s' where r: "wakeup_loop env s = Some s'" by auto
  have "wakeup_body env s \<noteq> Some (True, s)"
  proof (rule wakeup_loop.raw_induct [OF _ r])
    fix loop :: "sc_env \<Rightarrow> SC_t \<Rightarrow> SC_t option" and env s s'
    assume ih: "\<And>env s s'. loop env s = Some s' \<Longrightarrow> wakeup_body env s \<noteq> Some (True, s)"
      and r: "wakeup_body env s \<bind> (\<lambda>(again, s). if again then loop env s else Some s) = Some s'"
    show "wakeup_body env s \<noteq> Some (True, s)" using r ih by auto
  qed
  with stuck show False by blast
qed

end
