(* ===== verification/SC_App.thy ===== *)
theory SC_App
  imports SC_Cmds
begin

text \<open>
  Stored commands: the start-up of the application (\<^verbatim>\<open>sc_app.c\<close>).  The answers of the services it calls are
  the record \<open>sc_init\<close>; a result code is an integer, \<open>0\<close> for \<^verbatim>\<open>CFE_SUCCESS\<close>.  Table services hand out
  buffers that they have set to zero.
\<close>

record sc_init =
  Init_PowerOn :: bool
  Init_EvsRegister :: int
  Init_CreatePipe :: int
  Init_Subscribe :: "u16 \<Rightarrow> int"
  Init_Register :: "sc_table \<Rightarrow> int"
  Init_DumpAddress :: "sc_table \<Rightarrow> int"
  Init_FileOpens :: "nat \<Rightarrow> bool"
  Init_TblLoad :: "nat \<Rightarrow> int"
  Init_Address :: "sc_table \<Rightarrow> tbl_status \<times> u16 list"

section \<open>Tables (sc_app.c)\<close>

text \<open>Calls that return at the first error: each table with the event of its error and the arguments of
  the event before the result.\<close>

fun register_tables :: "sc_init \<Rightarrow> (sc_table \<times> u16 \<times> int list) list \<Rightarrow> SC_t \<Rightarrow> int \<times> SC_t" where
  "register_tables init [] s = (0, s)"
| "register_tables init ((tbl, eid, args) # rest) s =
     (let Result = Init_Register init tbl; s = sc_emit (TBL_Register tbl) s in
      if Result \<noteq> 0 then (Result, sc_event eid (args @ [Result]) s)
      else register_tables init rest s)"

definition SC_RegisterAllTables :: "sc_init \<Rightarrow> SC_t \<Rightarrow> int \<times> SC_t" where
  "SC_RegisterAllTables init s = register_tables init
     ([(Tbl_RtsInfo, SC_REGISTER_RTS_INFO_TABLE_ERR_EID, []),
       (Tbl_RtpCtrl, SC_REGISTER_RTS_CTRL_BLK_TABLE_ERR_EID, []),
       (Tbl_AtsInfo, SC_REGISTER_ATS_INFO_TABLE_ERR_EID, []),
       (Tbl_AppendInfo, SC_REGISTER_APPEND_INFO_TABLE_ERR_EID, []),
       (Tbl_AtpCtrl, SC_REGISTER_ATS_CTRL_BLK_TABLE_ERR_EID, [])]
      @ map (\<lambda>i. (Tbl_AtsCmdStatus i, SC_REGISTER_ATS_CMD_STATUS_TABLE_ERR_EID, [int i + 1])) [0..<SC_NUMBER_OF_ATS]
      @ map (\<lambda>i. (Tbl_Rts i, SC_REGISTER_RTS_TBL_ERR_EID, [int i + 1])) [0..<SC_NUMBER_OF_RTS]
      @ map (\<lambda>i. (Tbl_Ats i, SC_REGISTER_ATS_TBL_ERR_EID, [int i + 1])) [0..<SC_NUMBER_OF_ATS]
      @ [(Tbl_Append, SC_REGISTER_APPEND_TBL_ERR_EID, [])]) s"

fun dump_addresses :: "sc_init \<Rightarrow> (sc_table \<times> u16 \<times> int list) list \<Rightarrow> SC_t \<Rightarrow> int \<times> SC_t" where
  "dump_addresses init [] s = (0, s)"
| "dump_addresses init ((tbl, eid, args) # rest) s =
     (let Result = Init_DumpAddress init tbl in
      if Result \<noteq> 0 then (Result, sc_event eid (args @ [Result]) s)
      else dump_addresses init rest s)"

definition SC_GetDumpTablePointers :: "sc_init \<Rightarrow> SC_t \<Rightarrow> int \<times> SC_t" where
  "SC_GetDumpTablePointers init s = dump_addresses init
     ([(Tbl_RtsInfo, SC_GET_ADDRESS_RTS_INFO_ERR_EID, []),
       (Tbl_RtpCtrl, SC_GET_ADDRESS_RTS_CTRL_BLCK_ERR_EID, []),
       (Tbl_AtsInfo, SC_GET_ADDRESS_ATS_INFO_ERR_EID, []),
       (Tbl_AppendInfo, SC_GET_ADDRESS_APPEND_INFO_ERR_EID, []),
       (Tbl_AtpCtrl, SC_GET_ADDRESS_ATS_CTRL_BLCK_ERR_EID, [])]
      @ map (\<lambda>i. (Tbl_AtsCmdStatus i, SC_GET_ADDRESS_ATS_CMD_STAT_ERR_EID, [int i + 1])) [0..<SC_NUMBER_OF_ATS]) s"

text \<open>The result code of \<^verbatim>\<open>CFE_TBL_GetAddress\<close>, and whether the start-up goes on with it.\<close>

fun tbl_code :: "tbl_status \<Rightarrow> int" where
  "tbl_code TBL_SUCCESS = 0" | "tbl_code TBL_INFO_UPDATED = 0x4C00000E"
| "tbl_code TBL_ERR_NEVER_LOADED = - 0x33FFFFFB" | "tbl_code (TBL_ERROR e) = e"

definition at_start :: "tbl_status \<Rightarrow> bool" where
  "at_start st \<longleftrightarrow> st = TBL_ERR_NEVER_LOADED \<or> st = TBL_INFO_UPDATED"

text \<open>The loops over the ATS and RTS tables; the first component of the result is \<open>Some\<close> code when the
  function returns with that code.\<close>

fun ats_addresses :: "sc_init \<Rightarrow> nat list \<Rightarrow> SC_t \<Rightarrow> (int option \<times> SC_t) option" where
  "ats_addresses init [] s = Some (None, s)"
| "ats_addresses init (i # is) s = do {
     let (Result, t) = Init_Address init (Tbl_Ats i);
     a \<leftarrow> get_ats i s;
     s \<leftarrow> set_ats i (a\<lparr>AtsTbl := t\<rparr>) s;
     if at_start Result then ats_addresses init is s
     else Some (Some (tbl_code Result), sc_event SC_GET_ADDRESS_ATS_ERR_EID [int i + 1, tbl_code Result] s) }"

fun rts_addresses :: "sc_init \<Rightarrow> nat list \<Rightarrow> SC_t \<Rightarrow> (int option \<times> SC_t) option" where
  "rts_addresses init [] s = Some (None, s)"
| "rts_addresses init (i # is) s = do {
     let (Result, t) = Init_Address init (Tbl_Rts i);
     r \<leftarrow> get_rts i s;
     let r = r\<lparr>RtsTbl := t\<rparr>;
     if at_start Result
     then do {
       s \<leftarrow> set_rts i (if Result = TBL_INFO_UPDATED then SC_LoadRts r else r) s;
       rts_addresses init is s }
     else do {
       s \<leftarrow> set_rts i r s;
       Some (Some (tbl_code Result), sc_event SC_GET_ADDRESS_RTS_ERR_EID [int i + 1, tbl_code Result] s) } }"

definition SC_GetLoadTablePointers :: "sc_init \<Rightarrow> SC_t \<Rightarrow> (int \<times> SC_t) option" where
  "SC_GetLoadTablePointers init s = do {
     (ret, s) \<leftarrow> ats_addresses init [0..<SC_NUMBER_OF_ATS] s;
     case ret of
       Some Result \<Rightarrow> Some (Result, s)
     | None \<Rightarrow> do {
         let (Result, t) = Init_Address init Tbl_Append;
         let s = s\<lparr>AppendTbl := t\<rparr>;
         if at_start Result
         then do {
           (ret, s) \<leftarrow> rts_addresses init [0..<SC_NUMBER_OF_RTS] s;
           Some (case ret of Some Result \<Rightarrow> Result | None \<Rightarrow> 0, s) }
         else Some (tbl_code Result, sc_event SC_GET_ADDRESS_APPEND_ERR_EID [tbl_code Result] s) } }"

definition SC_LoadDefaultTables :: "sc_init \<Rightarrow> SC_t \<Rightarrow> SC_t" where
  "SC_LoadDefaultTables init s =
     (let RtsCount = length [i \<leftarrow> [0..<SC_NUMBER_OF_RTS]. Init_FileOpens init i \<and> Init_TblLoad init i = 0]
      in sc_event SC_RTS_LOAD_COUNT_INFO_EID [int RtsCount] s)"

text \<open>The messages that table services send when a table changes name it by its identifier.\<close>

fun notify_tables :: "(sc_table \<times> nat) list \<Rightarrow> SC_t \<Rightarrow> SC_t" where
  "notify_tables [] s = s"
| "notify_tables ((tbl, n) # rest) s = notify_tables rest (sc_emit (TBL_NotifyByMessage tbl n) s)"

definition SC_RegisterManageCmds :: "SC_t \<Rightarrow> SC_t" where
  "SC_RegisterManageCmds = notify_tables
     ([(Tbl_RtsInfo, 68), (Tbl_RtpCtrl, 69), (Tbl_AtsInfo, 70), (Tbl_AppendInfo, 71), (Tbl_AtpCtrl, 72),
       (Tbl_Append, 3)]
      @ concat (map (\<lambda>i. [(Tbl_AtsCmdStatus i, 73 + i), (Tbl_Ats i, 1 + i)]) [0..<SC_NUMBER_OF_ATS])
      @ map (\<lambda>i. (Tbl_Rts i, 4 + i)) [0..<SC_NUMBER_OF_RTS])"

definition SC_InitTables :: "sc_init \<Rightarrow> SC_t \<Rightarrow> (int \<times> SC_t) option" where
  "SC_InitTables init s =
     (let (Result, s) = SC_RegisterAllTables init s in
      if Result \<noteq> 0 then Some (Result, s)
      else let (Result, s) = SC_GetDumpTablePointers init s in
      if Result \<noteq> 0 then Some (Result, s)
      else do {
        let s = s\<lparr>AtpState := SC_IDLE, AtsNumber := SC_NO_ATS, CmdNumber := 0xFFFF,
                  NumRtsActive := 0, RtsNumber := SC_INVALID_RTS_NUMBER,
                  Ats := map (\<lambda>a. a\<lparr>AtsCmdStatus := replicate SC_MAX_ATS_CMDS SC_EMPTY\<rparr>) (Ats s),
                  Rts := map (\<lambda>r. r\<lparr>NextCommandTime := SC_MAX_TIME, NextCommandPtr := 0,
                                    RtsStatus := SC_EMPTY, DisabledFlag := True\<rparr>) (Rts s)\<rparr>;
        (Result, s) \<leftarrow> SC_GetLoadTablePointers init (SC_LoadDefaultTables init s);
        Some (if Result \<noteq> 0 then (Result, s) else (0, SC_RegisterManageCmds s)) })"

section \<open>The application (sc_app.c)\<close>

definition sc_zero :: SC_t where
  "sc_zero = \<lparr>
     Ats = replicate SC_NUMBER_OF_ATS \<lparr>AtsTbl = [], AtsUseCtr = 0, NumberOfCommands = 0, AtsSize = 0,
       AtsCmdStatus = replicate SC_MAX_ATS_CMDS SC_EMPTY, AtsTimeIndexBuffer = replicate SC_MAX_ATS_CMDS 0,
       AtsCmdIndexBuffer = replicate SC_MAX_ATS_CMDS 0\<rparr>,
     Rts = replicate SC_NUMBER_OF_RTS \<lparr>RtsTbl = [], RtsStatus = SC_EMPTY, DisabledFlag = False,
       Rts_CmdCtr = 0, Rts_CmdErrCtr = 0, NextCommandTime = 0, NextCommandPtr = 0, UseCtr = 0\<rparr>,
     AtpState = SC_EMPTY, AtsNumber = 0, CmdNumber = 0, TimeIndexPtr = 0, SwitchPendFlag = False,
     NumRtsActive = 0, RtsNumber = 0, AtsDupTestArray = replicate SC_MAX_ATS_CMDS 0, NumCmdsSec = 0,
     ContinueAtsOnFailureFlag = False, NextProcNumber = SC_ATP, NextAtpTime = 0, NextRtpTime = 0,
     CurrentTime = 0, Sc_CmdErrCtr = 0, Sc_CmdCtr = 0, RtsActiveErrCtr = 0, RtsActiveCtr = 0,
     AtsCmdCtr = 0, AtsCmdErrCtr = 0, RtsCmdCtr = 0, RtsCmdErrCtr = 0, LastAtsErrSeq = 0,
     LastAtsErrCmd = 0, LastRtsErrSeq = 0, LastRtsErrCmd = 0, AppendTbl = [], AppendCmdArg = 0,
     AppendEntryCount = 0, AppendWordCount = 0, AppendLoadCount = 0, AutoStartRTS = 0, SbCalls = 0,
     ScTrace = []\<rparr>"

definition SC_AppInit :: "sc_init \<Rightarrow> (int \<times> SC_t) option" where
  "SC_AppInit init =
     (let s = sc_zero\<lparr>ContinueAtsOnFailureFlag := True, NextProcNumber := SC_NONE,
                      NextAtpTime := SC_MAX_TIME, NextRtpTime := SC_MAX_TIME,
                      AutoStartRTS := (if Init_PowerOn init then 1 else 2)\<rparr>
      in if Init_EvsRegister init \<noteq> 0
         then Some (Init_EvsRegister init, sc_emit (SC_SysLog (Init_EvsRegister init)) s)
         else if Init_CreatePipe init \<noteq> 0
         then Some (Init_CreatePipe init, sc_event SC_INIT_SB_CREATE_ERR_EID [Init_CreatePipe init] s)
         else if Init_Subscribe init SC_SEND_HK_MID \<noteq> 0
         then Some (Init_Subscribe init SC_SEND_HK_MID,
                sc_event SC_INIT_SB_SUBSCRIBE_HK_ERR_EID [Init_Subscribe init SC_SEND_HK_MID] s)
         else if Init_Subscribe init SC_1HZ_WAKEUP_MID \<noteq> 0
         then Some (Init_Subscribe init SC_1HZ_WAKEUP_MID,
                sc_event SC_INIT_SB_SUBSCRIBE_1HZ_ERR_EID [Init_Subscribe init SC_1HZ_WAKEUP_MID] s)
         else if Init_Subscribe init SC_CMD_MID \<noteq> 0
         then Some (Init_Subscribe init SC_CMD_MID,
                sc_event SC_INIT_SB_SUBSCRIBE_CMD_ERR_EID [Init_Subscribe init SC_CMD_MID] s)
         else do {
           (Result, s) \<leftarrow> SC_InitTables init s;
           Some (if Result \<noteq> 0 then (Result, s) else (0, sc_event SC_INIT_INF_EID [2, 5, 0, 0] s)) })"

end
