(* ===== verification/SC_System.thy ===== *)
theory SC_System
  imports SC_Wake SC_App
begin

text \<open>
  Stored commands: the remaining requests on a well-formed state (housekeeping, the simple commands, the
  management of tables and the append command), the start-up, and histories of requests.
\<close>

section \<open>Housekeeping and simple commands\<close>

lemma set_bit_ok: "i < 64 \<Longrightarrow> length m = 4 \<Longrightarrow> yields (set_bit_of m i) (\<lambda>m'. length m' = 4)"
  by (simp add: set_bit_of_def less_mult_imp_div_less)

lemma Hk_loop_ok:
  "wf_sc s \<Longrightarrow> set is \<subseteq> {..<64} \<Longrightarrow> length d = 4 \<Longrightarrow> length e = 4 \<Longrightarrow> yields (Hk_loop is s d e) (\<lambda>_. True)"
proof (induction "is" arbitrary: d e)
  case (Cons i "is")
  then show ?case
    by (auto simp: wf_sc_lengths intro!: yields_mono [OF set_bit_ok])
qed simp

lemma SendHkPacket_ok: "wf_sc s \<Longrightarrow> yields (SC_SendHkPacket s) (good_step s)"
  by (auto simp: SC_SendHkPacket_def wf_sc_lengths Let_def simp del: upt_Suc intro!: yields_mono [OF Hk_loop_ok])

lemma ResetCountersCmd_ok: "wf_sc s \<Longrightarrow> good_step s (SC_ResetCountersCmd msg s)"
  by (simp add: SC_ResetCountersCmd_def SC_VerifyCmdLength_def Let_def)

lemma NoOpCmd_ok: "wf_sc s \<Longrightarrow> good_step s (SC_NoOpCmd msg s)"
  by (simp add: SC_NoOpCmd_def SC_VerifyCmdLength_def Let_def)

section \<open>Tables\<close>

text \<open>What table services promise when they hand out a table: it is the table that was there, or a new
  one of its size that the validation function of the table accepted; otherwise nothing was loaded.\<close>

definition validated :: "(u16 list \<Rightarrow> SC_t \<Rightarrow> (bool \<times> SC_t) option) \<Rightarrow> nat \<Rightarrow> u16 list \<Rightarrow> bool" where
  "validated validate n t \<longleftrightarrow> length t = n \<and> (\<exists>s s'. validate t s = Some (True, s'))"

definition table_served :: "tbl_status \<times> u16 list \<Rightarrow> u16 list \<Rightarrow> (u16 list \<Rightarrow> bool) \<Rightarrow> bool \<Rightarrow> bool" where
  "table_served answer old valid unused \<longleftrightarrow>
     (case answer of (TBL_SUCCESS, t) \<Rightarrow> t = old | (TBL_INFO_UPDATED, t) \<Rightarrow> valid t | _ \<Rightarrow> unused)"

lemma validated_verify:
  assumes "validated (\<lambda>t. SC_VerifyAtsTable t n) n t"
  shows "\<exists>es j. good_table n t es j"
proof -
  obtain s s' where "length t = n" "SC_VerifyAtsTable t n s = Some (True, s')"
    using assms by (auto simp: validated_def)
  then show ?thesis using VerifyAtsTable_spec [of t n s] by auto
qed

lemmas validated_ats = validated_verify [where n = 8000, folded SC_ValidateAts_def]
lemmas validated_append = validated_verify [where n = 4000, folded SC_ValidateAppend_def]

lemma msgid_zero_tlm: "CFE_SB_GetMsgId p = 0 \<Longrightarrow> CCSDS_RD_TYPE p = CCSDS_TLM"
  by (auto simp: CFE_SB_GetMsgId_def hdr_defs CCSDS_TLM_def word_blast)

lemma validated_rts:
  assumes "validated SC_ValidateRts 150 t"
  shows "length t = 150" "pkt_checksum t 1 \<noteq> None"
proof -
  show l: "length t = 150" using assms by (simp add: validated_def)
  let ?p = "tbl_pkt t 1"
  obtain s s' where "ParseRts_loop 0 t s = Some (True, s')"
    using assms by (auto simp: validated_def SC_ValidateRts_def SC_ParseRts_def)
  then consider "CFE_SB_GetMsgId ?p = 0" | "unat (CFE_SB_GetTotalMsgLength ?p) \<le> 250"
    by (subst (asm) ParseRts_loop.simps)
      (auto simp: bind_eq_Some_conv arr_get_def pkt_msgid_def pkt_length_def l split: if_splits)
  then show "pkt_checksum t 1 \<noteq> None"
  proof cases
    case 1
    then show ?thesis using msgid_zero_tlm [of ?p] l by (simp add: pkt_checksum_def)
  next
    case 2
    then show ?thesis using l by (intro fits_checksum) (simp_all add: pkt_fits_def)
  qed
qed

lemma validated_rts_load: "validated SC_ValidateRts 150 t \<Longrightarrow> wf_rts (SC_LoadRts (r\<lparr>RtsTbl := t\<rparr>))"
  using validated_rts by (simp add: SC_LoadRts_def wf_rts_def)

lemma validated_ats_load:
  assumes "validated SC_ValidateAts 8000 t"
  shows "yields (SC_LoadAts (a\<lparr>AtsTbl := t\<rparr>)) wf_seq"
proof -
  obtain es j where "good_table 8000 t es j"
    using validated_ats [of t] assms by (auto simp: validated_def SC_ValidateAts_def)
  then have "good_table 8000 (AtsTbl (a\<lparr>AtsTbl := t\<rparr>)) es j" by simp
  from LoadAts_good [OF this] show ?thesis by (metis wf_seq_def yields_def)
qed

lemma UpdateAppend_ok:
  assumes "wf_sc s" "validated SC_ValidateAppend 4000 t"
  shows "yields (SC_UpdateAppend (s\<lparr>AppendTbl := t\<rparr>)) wf_sc"
proof -
  obtain es j where g: "good_table 4000 t es j"
    using validated_append [of t] assms(2) by (auto simp: validated_def SC_ValidateAppend_def)
  then have t: "ats_table 4000 t 0 es j" "length t = 4000" "distinct (map fst es)"
    by (auto simp: good_table_def)
  have l: "UpdateAppend_loop t 0 0 = Some (j, length es)" using UpdateAppend_loop_spec [OF t(1,2), of 0] by simp
  have j: "unat (of_nat j :: u16) = j"
    using ats_table_le [OF t(1)] by (simp add: unsigned_of_nat take_bit_eq_mod)
  have "set (map fst es) \<subseteq> {..<1000}" using ats_table_cmds [OF t(1)] by auto
  then have "length es \<le> 1000"
    using distinct_card [OF t(3)] card_mono [of "{..<1000::nat}" "set (map fst es)"] by simp
  then have n: "unat (of_nat (length es) :: u16) = length es"
    by (simp add: unsigned_of_nat take_bit_eq_mod)
  have "append_ok (sc_event 97 l (s\<lparr>AppendTbl := t, AppendLoadCount := x, AppendEntryCount := of_nat (length es),
      AppendWordCount := of_nat j\<rparr>))" for l x
    using g j n by (auto simp: append_ok_def)
  then show ?thesis
    using assms(1) l by (simp add: SC_UpdateAppend_def Let_def) (simp add: wf_sc_def append_ok_def sc_emit_def)
qed

definition ats_served :: "sc_env \<Rightarrow> nat \<Rightarrow> SC_t \<Rightarrow> bool" where
  "ats_served env i s \<longleftrightarrow> table_served (Env_Table env) (AtsTbl (Ats s ! i)) (validated SC_ValidateAts 8000)
     (NumberOfCommands (Ats s ! i) = 0)"

definition append_served :: "sc_env \<Rightarrow> SC_t \<Rightarrow> bool" where
  "append_served env s \<longleftrightarrow> table_served (Env_Table env) (AppendTbl s) (validated SC_ValidateAppend 4000)
     (AppendEntryCount s = 0)"

definition rts_served :: "sc_env \<Rightarrow> nat \<Rightarrow> SC_t \<Rightarrow> bool" where
  "rts_served env i s \<longleftrightarrow> table_served (Env_Table env) (RtsTbl (Rts s ! i)) (validated SC_ValidateRts 150)
     (RtsStatus (Rts s ! i) = SC_EMPTY)"

lemma wf_seq_unloaded:
  assumes "wf_seq a" "NumberOfCommands a = 0"
  shows "wf_seq (a\<lparr>AtsTbl := t\<rparr>)"
proof (cases "unused_ats a")
  case False
  then have w: "wf_ats a" using assms(1) by (simp add: wf_seq_def)
  then have "ats_loaded a = []" using assms(2) by (simp add: wf_ats_def index_ok_def)
  then have "\<forall>c<1000. AtsCmdIndexBuffer a ! c = - 1" by (metis empty_iff list.set(1) set_loaded)
  then show ?thesis using w assms(2) by (simp add: wf_seq_def wf_ats_def index_ok_def)
qed (simp add: wf_seq_def unused_ats_def)

lemma set_ats_wf: "wf_sc s \<Longrightarrow> i < 2 \<Longrightarrow> wf_seq a \<Longrightarrow> yields (set_ats i a s) wf_sc"
  by (simp add: wf_sc_lengths wf_sc_set_ats)

lemma set_rts_wf: "wf_sc s \<Longrightarrow> i < 64 \<Longrightarrow> wf_rts r \<Longrightarrow> yields (set_rts i r s) wf_sc"
  by (simp add: wf_sc_lengths wf_sc_set_rts)

lemma ManageAtsTable_ok:
  assumes wf: "wf_sc s" "i < 2" and served: "ats_served env i s"
  shows "yields (SC_ManageAtsTable env i s) wf_sc"
proof -
  define s1 where "s1 = sc_emit (TBL_Manage (Tbl_Ats i)) (sc_emit (TBL_ReleaseAddress (Tbl_Ats i)) s)"
  have s1: "wf_sc s1" "Ats s1 = Ats s" using wf(1) by (simp_all add: s1_def)
  note a = wf_seq_nth [OF wf(1), of i] wf_sc_lengths(1) [OF wf(1)]
  obtain st t where e: "Env_Table env = (st, t)" by fastforce
  have "yields (SC_LoadAts ((Ats s ! i)\<lparr>AtsTbl := t\<rparr>)) (\<lambda>a. yields (set_ats i a s1) wf_sc)"
    if "st = TBL_INFO_UPDATED"
    by (rule yields_mono [OF validated_ats_load])
      (use that served e wf(2) s1 set_ats_wf in \<open>auto simp: ats_served_def table_served_def simp del: yields_ats\<close>)
  moreover have "yields (set_ats i ((Ats s ! i)\<lparr>AtsTbl := t\<rparr>) s1) wf_sc" if "st \<noteq> TBL_INFO_UPDATED"
    by (rule set_ats_wf [OF s1(1) wf(2)])
      (use that served e wf a wf_seq_unloaded [of "Ats s ! i" t] in
        \<open>auto simp: ats_served_def table_served_def split: tbl_status.splits\<close>)
  ultimately show ?thesis
    using e s1(2) a(2) wf(2)
    by (auto simp: SC_ManageAtsTable_def s1_def [symmetric] Let_def simp del: yields_ats(2) split: tbl_status.splits)
qed

lemma ManageRtsTable_ok:
  assumes wf: "wf_sc s" "i < 64" and served: "rts_served env i s"
  shows "yields (SC_ManageRtsTable env i s) wf_sc"
proof -
  define s1 where "s1 = sc_emit (TBL_Manage (Tbl_Rts i)) (sc_emit (TBL_ReleaseAddress (Tbl_Rts i)) s)"
  have s1: "wf_sc s1" "Rts s1 = Rts s" using wf(1) by (simp_all add: s1_def)
  note r = wf_rts_nth [OF wf(1), of i] wf_sc_lengths(2) [OF wf(1)]
  obtain st t where e: "Env_Table env = (st, t)" by fastforce
  have "yields (set_rts i (SC_LoadRts ((Rts s ! i)\<lparr>RtsTbl := t\<rparr>)) s1) wf_sc" if "st = TBL_INFO_UPDATED"
    by (rule set_rts_wf [OF s1(1) wf(2)])
      (use that served e validated_rts_load in \<open>auto simp: rts_served_def table_served_def\<close>)
  moreover have "yields (set_rts i ((Rts s ! i)\<lparr>RtsTbl := t\<rparr>) s1) wf_sc" if "st \<noteq> TBL_INFO_UPDATED"
    by (rule set_rts_wf [OF s1(1) wf(2)])
      (use that served e wf r in
        \<open>auto simp: rts_served_def table_served_def wf_rts_def split: tbl_status.splits\<close>)
  ultimately show ?thesis
    using e s1(2) r(2) wf(2)
    by (auto simp: SC_ManageRtsTable_def s1_def [symmetric] Let_def simp del: yields_rts(2) split: tbl_status.splits)
qed

lemma ManageAppendTable_ok:
  assumes wf: "wf_sc s" and served: "append_served env s"
  shows "yields (SC_ManageAppendTable env s) wf_sc"
proof -
  define s1 where "s1 = sc_emit (TBL_Manage Tbl_Append) (sc_emit (TBL_ReleaseAddress Tbl_Append) s)"
  have s1: "wf_sc s1" "AppendTbl s1 = AppendTbl s" "AppendEntryCount s1 = AppendEntryCount s"
    using wf by (simp_all add: s1_def)
  obtain st t where e: "Env_Table env = (st, t)" by fastforce
  have "yields (SC_UpdateAppend (s1\<lparr>AppendTbl := t\<rparr>)) wf_sc" if "st = TBL_INFO_UPDATED"
    by (rule UpdateAppend_ok [OF s1(1)]) (use that served e in \<open>simp add: append_served_def table_served_def\<close>)
  moreover have "wf_sc (s1\<lparr>AppendTbl := t\<rparr>)" if "st \<noteq> TBL_INFO_UPDATED"
    using that served e s1
    by (auto simp: append_served_def table_served_def wf_sc_def append_ok_def split: tbl_status.splits)
  ultimately show ?thesis
    using e by (auto simp: SC_ManageAppendTable_def s1_def [symmetric] Let_def split: tbl_status.splits)
qed

text \<open>The identifiers under which table services announce the tables that are loaded.\<close>

definition tables_served :: "sc_env \<Rightarrow> bytes \<Rightarrow> SC_t \<Rightarrow> bool" where
  "tables_served env msg s \<longleftrightarrow> (let n = sint (get_le32 8 msg) in
     (1 \<le> n \<and> n < 3 \<longrightarrow> ats_served env (nat (n - 1)) s) \<and> (n = 3 \<longrightarrow> append_served env s)
     \<and> (4 \<le> n \<and> n < 68 \<longrightarrow> rts_served env (nat (n - 4)) s))"

lemma TableManageCmd_ok:
  assumes "wf_sc s" "tables_served env msg s"
  shows "yields (SC_TableManageCmd env msg s) wf_sc"
proof -
  define n where "n = sint (get_le32 8 msg)"
  have sv: "1 \<le> n \<Longrightarrow> n < 3 \<Longrightarrow> ats_served env (nat (n - 1)) s" "n = 3 \<Longrightarrow> append_served env s"
    "4 \<le> n \<Longrightarrow> n < 68 \<Longrightarrow> rts_served env (nat (n - 4)) s"
    using assms(2) by (auto simp: tables_served_def Let_def n_def [symmetric])
  show ?thesis
    using assms(1) sv
    by (auto simp: SC_TableManageCmd_def Let_def n_def [symmetric] ManageAtsTable_ok ManageRtsTable_ok ManageAppendTable_ok)
qed

section \<open>The append command\<close>

lemma ProcessAppend_ok:
  assumes wf: "wf_sc s" "i < 2" and n: "NumberOfCommands (Ats s ! i) > 0" "AppendEntryCount s \<noteq> 0"
    and fit: "unat (AtsSize (Ats s ! i)) + unat (AppendWordCount s) \<le> 8000"
  shows "yields (SC_ProcessAppend i s) wf_sc"
proof -
  let ?a = "Ats s ! i"
  have i: "i < length (Ats s)" using wf wf_sc_lengths by simp
  have a: "wf_ats ?a" by (rule wf_seq_loaded [OF wf_seq_nth [OF wf(1) i] n(1)])
  obtain es where "good_table 4000 (AppendTbl s) es (unat (AppendWordCount s))"
    "unat (AppendEntryCount s) = length es"
    using wf(1) n(2) by (auto simp: wf_sc_def append_ok_def)
  then obtain a' where a': "append_ats (AppendTbl s) (AppendWordCount s) (AppendEntryCount s) ?a = Some a'" "wf_ats a'"
    using append_ats_spec [OF a n(1) _ _ fit] by blast
  define s1 where "s1 = s\<lparr>Ats := (Ats s)[i := a']\<rparr>"
  have s1: "wf_sc s1" unfolding s1_def by (rule wf_sc_set_ats [OF wf(1)]) (simp add: a' wf_seq_def)
  have "yields (SC_BeginAts i 0 s1) (\<lambda>(ok, s'). if ok then good_step s1 (s'\<lparr>AtpState := SC_EXECUTING\<rparr>) else good_step s1 s')"
    by (rule yields_mono [OF BeginAts_ok [OF s1 wf(2)]]) (auto intro: begun_state wf(2))
  then have "yields (SC_BeginAts i 0 s1) (\<lambda>x. wf_sc (case x of (ok, s') \<Rightarrow> if ok then s'\<lparr>AtpState := SC_EXECUTING\<rparr> else s'))"
    by (rule yields_mono) (auto dest: good_step_wf split: if_splits)
  then show ?thesis
    using i a'(1) s1
    by (auto simp: SC_ProcessAppend_def s1_def [symmetric] case_prod_unfold)
qed

lemma AppendAtsCmd_ok:
  assumes "wf_sc s"
  shows "yields (SC_AppendAtsCmd msg s) wf_sc"
proof -
  have le: "unat z + unat w \<le> 8000" if "\<not> z + ucast w > 8000" "unat z \<le> 8000" for z :: u32 and w :: u16
  proof -
    have "unat (ucast w :: u32) < 65536" using unsigned_less [of w] by simp
    then have "unat (z + ucast w) = unat z + unat w" using that(2) by (simp add: unat_word_ariths)
    then show ?thesis using that(1) by (simp add: word_less_nat_alt)
  qed
  have go: "yields (SC_ProcessAppend i (s\<lparr>AppendCmdArg := x\<rparr>)) wf_sc"
    if "i < 2" "NumberOfCommands (Ats s ! i) \<noteq> 0" "AppendEntryCount s \<noteq> 0"
      "\<not> AtsSize (Ats s ! i) + ucast (AppendWordCount s) > 8000" for i x
  proof -
    have pos: "NumberOfCommands (Ats s ! i) > 0" using that(2) by (simp add: word_gt_0)
    have "wf_seq (Ats s ! i)" by (rule wf_seq_nth [OF assms]) (use that(1) wf_sc_lengths(1) [OF assms] in simp)
    then have "unat (AtsSize (Ats s ! i)) \<le> 8000" using wf_seq_loaded [OF _ pos] by (simp add: wf_ats_def)
    then show ?thesis using le [OF that(4)] that pos assms by (intro ProcessAppend_ok) simp_all
  qed
  show ?thesis
    using assms wf_sc_lengths(1) [OF assms]
    by (auto simp: SC_AppendAtsCmd_def SC_VerifyCmdLength_def Let_def intro!: yields_mono [OF go])
qed

section \<open>Requests\<close>

text \<open>The hypothesis on the answer of table services concerns only the command that manages tables.\<close>

definition answers_ok :: "sc_env \<Rightarrow> bytes \<Rightarrow> SC_t \<Rightarrow> bool" where
  "answers_ok env msg s \<longleftrightarrow>
     (CFE_SB_GetMsgId msg = SC_CMD_MID \<and> CFE_SB_GetCmdCode msg = 12 \<longrightarrow> tables_served env msg s)"

definition loads :: "bytes \<Rightarrow> bool" where
  "loads msg \<longleftrightarrow> CFE_SB_GetMsgId msg = SC_CMD_MID \<and> CFE_SB_GetCmdCode msg \<in> {11, 12}"

lemma good_step_cases: "yields m (good_step s) \<Longrightarrow> yields m wf_sc"
  by (auto elim: yields_mono dest: good_step_wf)

lemma ProcessCommand_good:
  assumes wf: "wf_sc s" and c: "CFE_SB_GetCmdCode msg \<notin> {11, 12}"
  shows "yields (SC_ProcessCommand env msg s) (good_step s)"
  using c wf StartAtsCmd_ok [OF wf] StopAtsCmd_ok [OF wf] StartRtsCmd_ok [OF wf] StopRtsCmd_ok [OF wf]
    DisableRtsCmd_ok [OF wf] EnableRtsCmd_ok [OF wf] GroundSwitchCmd_ok [OF wf] JumpAtsCmd_ok [OF wf]
    ContinueAtsOnFailureCmd_ok [OF wf] NoOpCmd_ok [OF wf] ResetCountersCmd_ok [OF wf]
    start_group.group_ok [OF wf] stop_group.group_ok [OF wf] flag_group.group_ok [OF wf]
  unfolding SC_ProcessCommand_def Let_def SC_StartRtsGrpCmd_def SC_StopRtsGrpCmd_def
    SC_DisableRtsGrpCmd_def SC_EnableRtsGrpCmd_def
  by (simp split del: if_split) (simp split: if_split)

lemma ProcessCommand_load:
  assumes "wf_sc s" "CFE_SB_GetCmdCode msg \<in> {11, 12}"
    and "CFE_SB_GetCmdCode msg = 12 \<Longrightarrow> tables_served env msg s"
  shows "yields (SC_ProcessCommand env msg s) wf_sc"
  using assms by (auto simp: SC_ProcessCommand_def Let_def AppendAtsCmd_ok TableManageCmd_ok)

end
