(* ===== verification/SC_Quiet.thy ===== *)
theory SC_Quiet
  imports SC_System
begin

text \<open>
  Stored commands: no request but the wake-up sends a command of a sequence or touches the count of the
  commands of the current second.
\<close>

lemma quiet_more [simp]:
  "quiet s (s'\<lparr>RtsActiveCtr := x1\<rparr>) = quiet s s'" "quiet s (s'\<lparr>RtsActiveErrCtr := x1\<rparr>) = quiet s s'"
  "quiet s (s'\<lparr>Sc_CmdErrCtr := x1\<rparr>) = quiet s s'" "quiet s (s'\<lparr>Sc_CmdCtr := x1\<rparr>) = quiet s s'"
  "quiet s (s'\<lparr>RtsCmdCtr := x1\<rparr>) = quiet s s'" "quiet s (s'\<lparr>AppendCmdArg := x1\<rparr>) = quiet s s'"
  "quiet s (s'\<lparr>AppendTbl := x2\<rparr>) = quiet s s'" "quiet s (s'\<lparr>AppendEntryCount := x1\<rparr>) = quiet s s'"
  "quiet s (s'\<lparr>AppendWordCount := x1\<rparr>) = quiet s s'" "quiet s (s'\<lparr>AppendLoadCount := x1\<rparr>) = quiet s s'"
  "quiet s (s'\<lparr>SbCalls := x3\<rparr>) = quiet s s'" "quiet s (s'\<lparr>AutoStartRTS := x1\<rparr>) = quiet s s'"
  "quiet s (s'\<lparr>CurrentTime := x4\<rparr>) = quiet s s'" "quiet s (s'\<lparr>ContinueAtsOnFailureFlag := x5\<rparr>) = quiet s s'"
  by (simp_all add: quiet_def msgs_def)

lemma quiet_emit [simp]:
  "quiet s (sc_emit (Send_Hk hk) s') = quiet s s'" "quiet s (sc_emit (Send_StartRts n) s') = quiet s s'"
  "quiet s (sc_emit (TBL_ReleaseAddress tb) s') = quiet s s'" "quiet s (sc_emit (TBL_Manage tb) s') = quiet s s'"
  "quiet s (sc_emit (TBL_Modified tb) s') = quiet s s'" "quiet s (rts_start_error s') = quiet s s'"
  by (simp_all add: quiet_def msgs_def sc_emit_def rts_start_error_def)

lemmas upholds_read_more [intro!] =
  upholds_any [where m = "JumpAts_loop t n i k a" for t n i k a]
  upholds_any [where m = "append_ats src w n a" for src w n a]
  upholds_any [where m = "UpdateAppend_loop t i n" for t i n]
  upholds_any [where m = "Hk_loop is s d e" for "is" s d e]
  upholds_any [where m = "SC_LoadAts a" for a]

lemma verify_quiet:
  assumes "quiet s0 s" "\<And>s. quiet s0 s \<Longrightarrow> upholds (f s) (quiet s0)"
  shows "upholds (case SC_VerifyCmdLength msg n s of (False, s) \<Rightarrow> Some s | (True, s) \<Rightarrow> f s) (quiet s0)"
  using assms by (simp add: SC_VerifyCmdLength_def Let_def)

lemma StartAtsCmd_quiet: "quiet s0 s \<Longrightarrow> upholds (SC_StartAtsCmd msg s) (quiet s0)"
  unfolding SC_StartAtsCmd_def
  by (erule verify_quiet) (auto simp: Let_def intro!: upholds_mono [OF BeginAts_quiet])

lemma StopAtsCmd_quiet: "quiet s0 s \<Longrightarrow> upholds (SC_StopAtsCmd msg s) (quiet s0)"
  unfolding SC_StopAtsCmd_def
  by (erule verify_quiet) (auto intro!: upholds_mono [OF KillAts_quiet])

lemma GroundSwitchCmd_quiet: "quiet s0 s \<Longrightarrow> upholds (SC_GroundSwitchCmd msg s) (quiet s0)"
  unfolding SC_GroundSwitchCmd_def by (erule verify_quiet) auto

lemma JumpAtsCmd_quiet: "quiet s0 s \<Longrightarrow> upholds (SC_JumpAtsCmd msg s) (quiet s0)"
  unfolding SC_JumpAtsCmd_def
  by (erule verify_quiet)
    (auto simp: Let_def upholds_set split: option.splits intro!: KillAts_quiet)

lemma ContinueAtsOnFailureCmd_quiet: "quiet s0 s \<Longrightarrow> upholds (SC_ContinueAtsOnFailureCmd msg s) (quiet s0)"
  unfolding SC_ContinueAtsOnFailureCmd_def by (erule verify_quiet) (auto simp: Let_def)

lemma ProcessAppend_quiet: "quiet s0 s \<Longrightarrow> upholds (SC_ProcessAppend i s) (quiet s0)"
  by (auto simp: SC_ProcessAppend_def upholds_set intro!: upholds_mono [OF BeginAts_quiet])

lemma AppendAtsCmd_quiet: "quiet s0 s \<Longrightarrow> upholds (SC_AppendAtsCmd msg s) (quiet s0)"
  unfolding SC_AppendAtsCmd_def
  by (erule verify_quiet) (auto simp: Let_def intro!: upholds_mono [OF ProcessAppend_quiet])

lemma start_rts_quiet: "quiet s0 s \<Longrightarrow> upholds (start_rts i r s) (quiet s0)"
  by (auto simp: start_rts_def upholds_set)

lemma set_disabled_quiet: "quiet s0 s \<Longrightarrow> upholds (set_disabled b i s) (quiet s0)"
  by (auto simp: set_disabled_def upholds_set)

lemma StartRtsCmd_quiet: "quiet s0 s \<Longrightarrow> upholds (SC_StartRtsCmd msg s) (quiet s0)"
  by (auto simp: SC_StartRtsCmd_def SC_VerifyCmdLength_def Let_def intro!: upholds_mono [OF start_rts_quiet])

lemma StopRtsCmd_quiet: "quiet s0 s \<Longrightarrow> upholds (SC_StopRtsCmd msg s) (quiet s0)"
  unfolding SC_StopRtsCmd_def
  by (erule verify_quiet) (auto simp: Let_def intro!: upholds_mono [OF KillRts_quiet])

lemma flag_cmd_quiet:
  "quiet s0 s \<Longrightarrow> upholds (SC_DisableRtsCmd msg s) (quiet s0)"
  "quiet s0 s \<Longrightarrow> upholds (SC_EnableRtsCmd msg s) (quiet s0)"
  unfolding SC_DisableRtsCmd_def SC_EnableRtsCmd_def
  by (erule verify_quiet; auto simp: Let_def intro!: upholds_mono [OF set_disabled_quiet])+

lemma group_loop_quiet:
  "quiet s0 s \<Longrightarrow> upholds (StartGrp_loop is n s) (\<lambda>(n, s'). quiet s0 s')"
  "quiet s0 s \<Longrightarrow> upholds (StopGrp_loop is n s) (\<lambda>(n, s'). quiet s0 s')"
  "quiet s0 s \<Longrightarrow> upholds (FlagGrp_loop b is n s) (\<lambda>(n, s'). quiet s0 s')"
proof (induction "is" arbitrary: n s)
  case (Cons i "is")
  { case 1 then show ?case using Cons.IH(1) by (auto intro!: upholds_mono [OF start_rts_quiet]) }
  { case 2 then show ?case using Cons.IH(2) by (auto intro!: upholds_mono [OF KillRts_quiet]) }
  { case 3 then show ?case using Cons.IH(3) by (auto intro!: upholds_mono [OF set_disabled_quiet]) }
qed simp_all

lemma rts_group_quiet:
  assumes "\<And>is n s. quiet s0 s \<Longrightarrow> upholds (group_loop is n s) (\<lambda>(n, s'). quiet s0 s')" "quiet s0 s"
  shows "upholds (rts_group group_loop i e msg s) (quiet s0)"
  unfolding rts_group_def
  by (rule verify_quiet [OF assms(2)]) (auto simp: Let_def simp del: upt_Suc intro!: upholds_mono [OF assms(1)])

lemma group_cmd_quiet:
  assumes "quiet s0 s"
  shows "upholds (SC_StartRtsGrpCmd msg s) (quiet s0)" "upholds (SC_StopRtsGrpCmd msg s) (quiet s0)"
    "upholds (SC_DisableRtsGrpCmd msg s) (quiet s0)" "upholds (SC_EnableRtsGrpCmd msg s) (quiet s0)"
  unfolding SC_StartRtsGrpCmd_def SC_StopRtsGrpCmd_def SC_DisableRtsGrpCmd_def SC_EnableRtsGrpCmd_def
  by (rule rts_group_quiet [OF _ assms]; erule group_loop_quiet)+

lemma simple_cmd_quiet:
  "quiet s0 s \<Longrightarrow> quiet s0 (SC_NoOpCmd msg s)" "quiet s0 s \<Longrightarrow> quiet s0 (SC_ResetCountersCmd msg s)"
  by (simp_all add: SC_NoOpCmd_def SC_ResetCountersCmd_def SC_VerifyCmdLength_def Let_def)

lemma upholds_map [simp]: "upholds (map_option f m) P = upholds m (\<lambda>x. P (f x))"
  by (auto simp: upholds_def)

lemma manage_quiet:
  "quiet s0 s \<Longrightarrow> upholds (SC_ManageAtsTable env i s) (quiet s0)"
  "quiet s0 s \<Longrightarrow> upholds (SC_ManageRtsTable env i s) (quiet s0)"
  "quiet s0 s \<Longrightarrow> upholds (SC_ManageAppendTable env s) (quiet s0)"
  by (auto simp: SC_ManageAtsTable_def SC_ManageRtsTable_def SC_ManageAppendTable_def SC_UpdateAppend_def
      Let_def upholds_set split: prod.splits tbl_status.splits)

lemma TableManageCmd_quiet: "quiet s0 s \<Longrightarrow> upholds (SC_TableManageCmd env msg s) (quiet s0)"
  by (simp add: SC_TableManageCmd_def Let_def manage_quiet)

lemma ProcessCommand_quiet: "quiet s0 s \<Longrightarrow> upholds (SC_ProcessCommand env msg s) (quiet s0)"
  by (simp add: SC_ProcessCommand_def Let_def StartAtsCmd_quiet StopAtsCmd_quiet GroundSwitchCmd_quiet JumpAtsCmd_quiet
      ContinueAtsOnFailureCmd_quiet AppendAtsCmd_quiet StartRtsCmd_quiet StopRtsCmd_quiet flag_cmd_quiet
      group_cmd_quiet simple_cmd_quiet TableManageCmd_quiet)

lemma SendHkPacket_quiet: "quiet s0 s \<Longrightarrow> upholds (SC_SendHkPacket s) (quiet s0)"
  by (auto simp: SC_SendHkPacket_def Let_def)

section \<open>Requests\<close>

lemma auto_start_ok:
  assumes wf: "wf_sc s"
  shows "yields (auto_start s) (\<lambda>s'. good_step s s' \<and> quiet s s')"
proof -
  have clear: "good_step s (s'\<lparr>AutoStartRTS := 0\<rparr>)" if "good_step s s'" for s'
    using that by (simp add: good_step_def wf_sc_def append_ok_def)
  have n: "unat (AutoStartRTS s - 1) < 64" if "AutoStartRTS s \<noteq> 0"
    using that wf by (intro rts_number) (auto simp: wf_sc_def word_gt_0)
  have "yields (set_disabled False (unat (AutoStartRTS s - 1)) s) (\<lambda>s'. good_step s s' \<and> quiet s s')"
    if "AutoStartRTS s \<noteq> 0"
    by (rule yields_upholds [OF set_disabled_ok [OF wf n [OF that]] set_disabled_quiet]) simp
  then show ?thesis
    using n wf wf_sc_lengths(2) [OF wf]
    by (auto simp: auto_start_def SC_AutoStartRts_def elim!: yields_mono intro!: clear)
qed

lemma hk_request_ok:
  assumes "wf_sc s"
  shows "yields (hk_request msg s) (\<lambda>s'. good_step s s' \<and> quiet s s')"
proof -
  have hk: "yields (SC_SendHkPacket s') (\<lambda>s'. good_step s s' \<and> quiet s s')" if "good_step s s'" "quiet s s'" for s'
    by (rule yields_mono [OF yields_upholds [OF SendHkPacket_ok [OF good_step_wf [OF that(1)]] SendHkPacket_quiet]])
      (use that in \<open>auto intro: good_step_trans\<close>)
  show ?thesis
    using assms
    by (auto simp: hk_request_def SC_VerifyCmdLength_def Let_def intro!: yields_mono [OF auto_start_ok] hk)
qed

text \<open>The requests other than the wake-up return; only the commands 11 and 12 load commands of an ATS.\<close>

lemma answers_time: "answers_ok env msg (SC_GetCurrentTime env s) = answers_ok env msg s"
  by (simp add: answers_ok_def tables_served_def ats_served_def append_served_def rts_served_def SC_GetCurrentTime_def)

lemma request_ok:
  assumes wf: "wf_sc s" and m: "CFE_SB_GetMsgId msg \<noteq> SC_1HZ_WAKEUP_MID" and a: "answers_ok env msg s"
  shows "yields (SC_ProcessRequest env msg s) (\<lambda>s'. wf_sc s' \<and> quiet s s' \<and>
    (loads msg \<or> good_step (SC_GetCurrentTime env s) s'))"
proof -
  define s1 where "s1 = SC_GetCurrentTime env s"
  have s1: "wf_sc s1" "quiet s s1" using wf by (simp_all add: s1_def SC_GetCurrentTime_def)
  have a1: "answers_ok env msg s1" using a by (simp add: s1_def answers_time)
  have cmd: "yields (SC_ProcessCommand env msg s1) (\<lambda>s'. wf_sc s' \<and> quiet s s' \<and> (loads msg \<or> good_step s1 s'))"
    if "CFE_SB_GetMsgId msg = SC_CMD_MID"
  proof (cases "CFE_SB_GetCmdCode msg \<in> {11, 12}")
    case True
    then have "loads msg" using that by (simp add: loads_def)
    moreover have "yields (SC_ProcessCommand env msg s1) wf_sc"
      by (rule ProcessCommand_load [OF s1(1) True]) (use a1 that in \<open>simp add: answers_ok_def\<close>)
    ultimately show ?thesis
      using yields_upholds [OF _ ProcessCommand_quiet [OF s1(2)]] by (auto elim: yields_mono)
  next
    case False
    show ?thesis
      by (rule yields_mono [OF yields_upholds [OF ProcessCommand_good [OF s1(1) False] ProcessCommand_quiet [OF s1(2)]]])
        (auto dest: good_step_wf)
  qed
  show ?thesis
    using m s1 cmd yields_mono [OF hk_request_ok [OF s1(1), of msg]] good_step_wf [of s1] quiet_trans [OF s1(2)]
    by (auto simp: SC_ProcessRequest_def s1_def [symmetric] Let_def)
qed

end
