(* ===== verification/SC_Start.thy ===== *)
theory SC_Start
  imports SC_Quiet
begin

text \<open>
  Stored commands: the state after the start-up, histories of requests, and what holds after each of them.
\<close>

section \<open>The start-up\<close>

text \<open>The tables that are handed out as updated at the start were accepted by their validation.\<close>

definition init_served :: "sc_init \<Rightarrow> bool" where
  "init_served init \<longleftrightarrow> (\<forall>i<64. fst (Init_Address init (Tbl_Rts i)) = TBL_INFO_UPDATED \<longrightarrow>
     validated SC_ValidateRts 150 (snd (Init_Address init (Tbl_Rts i))))"

definition started :: "SC_t \<Rightarrow> bool" where
  "started s \<longleftrightarrow> length (Ats s) = 2 \<and> list_all unused_ats (Ats s) \<and> length (Rts s) = 64
     \<and> list_all wf_rts (Rts s) \<and> length (AtsDupTestArray s) = 1000 \<and> AppendEntryCount s = 0
     \<and> unat (AutoStartRTS s) \<le> 64 \<and> NumCmdsSec s = 0 \<and> AtpState s = SC_IDLE \<and> msgs s = 0"

lemma started_wf: "started s \<Longrightarrow> wf_sc s \<and> NumCmdsSec s = 0 \<and> msgs s = 0"
  by (auto simp: started_def wf_sc_def append_ok_def wf_seq_def list_all_iff)

lemma started_emit [simp]:
  "started (sc_event e l s) = started s" "started (sc_emit (TBL_NotifyByMessage tb n) s) = started s"
  "started (s\<lparr>AppendTbl := t\<rparr>) = started s"
  by (simp_all add: started_def msgs_def sc_emit_def)

lemma ats_addresses_ok:
  "started s \<Longrightarrow> set is \<subseteq> {..<2} \<Longrightarrow> yields (ats_addresses init is s) (\<lambda>(r, s'). started s')"
proof (induction "is" arbitrary: s)
  case (Cons i "is")
  obtain st t where a: "Init_Address init (Tbl_Ats i) = (st, t)" by fastforce
  have i: "i < length (Ats s)" "unused_ats (Ats s ! i)" using Cons.prems by (auto simp: started_def list_all_length)
  then have "started (s\<lparr>Ats := (Ats s)[i := (Ats s ! i)\<lparr>AtsTbl := t\<rparr>]\<rparr>)"
    using Cons.prems(1) by (auto simp: started_def msgs_def unused_ats_def intro!: list_all_update)
  then show ?case using Cons i(1) a by simp
qed simp

lemma rts_addresses_ok:
  assumes "init_served init"
  shows "started s \<Longrightarrow> set is \<subseteq> {..<64} \<Longrightarrow> \<forall>i \<in> set is. RtsStatus (Rts s ! i) = SC_EMPTY \<Longrightarrow> distinct is \<Longrightarrow>
    yields (rts_addresses init is s) (\<lambda>(r, s'). started s')"
proof (induction "is" arbitrary: s)
  case (Cons i "is")
  obtain st t where a: "Init_Address init (Tbl_Rts i) = (st, t)" by fastforce
  define r where "r = (Rts s ! i)\<lparr>RtsTbl := t\<rparr>"
  have i: "i < 64" "i < length (Rts s)" using Cons.prems by (auto simp: started_def)
  have up: "started (s\<lparr>Rts := (Rts s)[i := r']\<rparr>)" if "wf_rts r'" for r'
    using Cons.prems(1) that by (auto simp: started_def msgs_def intro!: list_all_update)
  have "wf_rts r" using Cons.prems(3) by (simp add: r_def wf_rts_def)
  moreover have "wf_rts (SC_LoadRts r)" if "st = TBL_INFO_UPDATED"
    using assms that a i(1) unfolding r_def init_served_def by (metis fst_conv snd_conv validated_rts_load)
  ultimately show ?case
    using Cons i(2) a up by (auto simp: Let_def r_def [symmetric] nth_list_update)
qed simp

lemma GetLoadTablePointers_ok:
  assumes "init_served init" "started s" "\<forall>i<64. RtsStatus (Rts s ! i) = SC_EMPTY"
  shows "yields (SC_GetLoadTablePointers init s) (\<lambda>(r, s'). started s')"
proof -
  have keep: "upholds (ats_addresses init is s) (\<lambda>(r, s'). Rts s' = Rts s)" for "is"
  proof -
    have "Rts s1 = Rts s \<Longrightarrow> upholds (ats_addresses init is s1) (\<lambda>(r, s'). Rts s' = Rts s)" for s1
      by (induction "is" arbitrary: s1) (auto simp: upholds_set split: prod.splits)
    then show ?thesis by simp
  qed
  have ats: "yields (ats_addresses init [0..<2] s) (\<lambda>(r, s'). started s' \<and> Rts s' = Rts s)"
    by (rule yields_mono [OF yields_upholds [OF ats_addresses_ok [OF assms(2)] keep]]) auto
  have rts: "yields (rts_addresses init [0..<64] s') (\<lambda>(r, s'). started s')" if "started s'" "Rts s' = Rts s" for s'
    by (rule rts_addresses_ok [OF assms(1)]) (use that assms(3) in \<open>auto simp del: upt_Suc\<close>)
  obtain st t where a: "Init_Address init Tbl_Append = (st, t)" by fastforce
  show ?thesis
    using rts a unfolding SC_GetLoadTablePointers_def
    by (auto simp: Let_def simp del: upt_Suc split: option.splits intro!: yields_mono [OF ats] yields_mono [OF rts])
qed

text \<open>Registration and the addresses of the dump tables only write the trace.\<close>

lemma register_tables_trace:
  "\<exists>r tr. register_tables init l s = (r, s\<lparr>ScTrace := tr @ ScTrace s\<rparr>)
     \<and> msgs (s\<lparr>ScTrace := tr @ ScTrace s\<rparr>) = msgs s"
proof (induction l arbitrary: s)
  case Nil
  then show ?case by (auto intro!: exI [of _ "[]"])
next
  case (Cons x l)
  obtain tbl eid args where x: "x = (tbl, eid, args)" by (cases x)
  let ?s = "sc_emit (TBL_Register tbl) s"
  obtain r tr where "register_tables init l ?s = (r, ?s\<lparr>ScTrace := tr @ ScTrace ?s\<rparr>)"
    "msgs (?s\<lparr>ScTrace := tr @ ScTrace ?s\<rparr>) = msgs ?s"
    using Cons.IH [of ?s] by blast
  then have "register_tables init l ?s = (r, s\<lparr>ScTrace := (tr @ [TBL_Register tbl]) @ ScTrace s\<rparr>)"
    "msgs (s\<lparr>ScTrace := (tr @ [TBL_Register tbl]) @ ScTrace s\<rparr>) = msgs s"
    by (simp_all add: sc_emit_def msgs_def)
  moreover have "sc_event e v ?s = s\<lparr>ScTrace := [SC_Event e v, TBL_Register tbl] @ ScTrace s\<rparr>"
    "msgs (s\<lparr>ScTrace := [SC_Event e v, TBL_Register tbl] @ ScTrace s\<rparr>) = msgs s" for e v
    by (simp_all add: sc_emit_def msgs_def)
  ultimately show ?case unfolding x register_tables.simps Let_def by (cases "Init_Register init tbl = 0") metis+
qed

lemma dump_addresses_trace:
  "\<exists>r tr. dump_addresses init l s = (r, s\<lparr>ScTrace := tr @ ScTrace s\<rparr>)
     \<and> msgs (s\<lparr>ScTrace := tr @ ScTrace s\<rparr>) = msgs s"
proof (induction l)
  case Nil
  then show ?case by (auto intro!: exI [of _ "[]"])
next
  case (Cons x l)
  obtain tbl eid args where x: "x = (tbl, eid, args)" by (cases x)
  have "sc_event e v s = s\<lparr>ScTrace := [SC_Event e v] @ ScTrace s\<rparr>"
    "msgs (s\<lparr>ScTrace := [SC_Event e v] @ ScTrace s\<rparr>) = msgs s" for e v
    by (simp_all add: sc_emit_def msgs_def)
  then show ?case using Cons unfolding x dump_addresses.simps Let_def by (cases "Init_DumpAddress init tbl = 0") metis+
qed

lemma notify_started [simp]: "started (notify_tables l s) = started s"
  by (induction l s rule: notify_tables.induct) simp_all

lemma InitTables_ok:
  assumes "init_served init" and z: "Ats s = Ats sc_zero" "Rts s = Rts sc_zero"
    "AtsDupTestArray s = AtsDupTestArray sc_zero" "AppendEntryCount s = 0" "NumCmdsSec s = 0"
    "unat (AutoStartRTS s) \<le> 64" "msgs s = 0"
  shows "yields (SC_InitTables init s) (\<lambda>(r, s'). r = 0 \<longrightarrow> started s')"
proof -
  obtain r1 tr1 where r: "SC_RegisterAllTables init s = (r1, s\<lparr>ScTrace := tr1 @ ScTrace s\<rparr>)"
    "msgs (s\<lparr>ScTrace := tr1 @ ScTrace s\<rparr>) = msgs s"
    unfolding SC_RegisterAllTables_def using register_tables_trace by blast
  define s1 where "s1 = s\<lparr>ScTrace := tr1 @ ScTrace s\<rparr>"
  obtain r2 tr2 where d: "SC_GetDumpTablePointers init s1 = (r2, s1\<lparr>ScTrace := tr2 @ ScTrace s1\<rparr>)"
    "msgs (s1\<lparr>ScTrace := tr2 @ ScTrace s1\<rparr>) = msgs s1"
    unfolding SC_GetDumpTablePointers_def using dump_addresses_trace by blast
  define s2 where "s2 = s1\<lparr>ScTrace := tr2 @ ScTrace s1\<rparr>"
  define s3 where "s3 = SC_LoadDefaultTables init (s2\<lparr>AtpState := SC_IDLE, AtsNumber := 0, CmdNumber := 0xFFFF,
     NumRtsActive := 0, RtsNumber := 0,
     Ats := map (\<lambda>a. a\<lparr>AtsCmdStatus := replicate 1000 SC_EMPTY\<rparr>) (Ats s2),
     Rts := map (\<lambda>r. r\<lparr>NextCommandTime := 0xFFFFFFFF, NextCommandPtr := 0,
       RtsStatus := SC_EMPTY, DisabledFlag := True\<rparr>) (Rts s2)\<rparr>)"
  have "msgs s2 = 0" using d(2) r(2) z(7) by (simp add: s2_def s1_def)
  then have "started s3"
    using z by (simp add: s3_def SC_LoadDefaultTables_def Let_def)
      (simp add: started_def s2_def s1_def sc_zero_def msgs_def list_all_iff unused_ats_def wf_rts_def)
  moreover have "\<forall>i<64. RtsStatus (Rts s3 ! i) = SC_EMPTY"
    using z by (simp add: s3_def SC_LoadDefaultTables_def Let_def s2_def s1_def sc_zero_def)
  ultimately have "yields (SC_GetLoadTablePointers init s3) (\<lambda>(r, s'). started s')"
    by (rule GetLoadTablePointers_ok [OF assms(1)])
  then have "yields (SC_GetLoadTablePointers init s3)
      (\<lambda>(r, s'). case if r \<noteq> 0 then (r, s') else (0, SC_RegisterManageCmds s') of (r, s') \<Rightarrow> r = 0 \<longrightarrow> started s')"
    by (rule yields_mono) (auto simp: SC_RegisterManageCmds_def)
  then show ?thesis
    using r(1) d(1)
    by (simp add: SC_InitTables_def Let_def s1_def [symmetric] s2_def [symmetric] s3_def [symmetric] case_prod_unfold)
qed

lemma AppInit_ok:
  assumes "init_served init"
  shows "yields (SC_AppInit init) (\<lambda>(r, s). r = 0 \<longrightarrow> started s)"
proof -
  define s where "s = sc_zero\<lparr>ContinueAtsOnFailureFlag := True, NextProcNumber := SC_NONE,
    NextAtpTime := 0xFFFFFFFF, NextRtpTime := 0xFFFFFFFF,
    AutoStartRTS := (if Init_PowerOn init then 1 else 2)\<rparr>"
  have "yields (SC_InitTables init s) (\<lambda>(r, s'). r = 0 \<longrightarrow> started s')"
    by (rule InitTables_ok [OF assms]) (simp_all add: s_def sc_zero_def msgs_def)
  then have "yields (SC_InitTables init s)
      (\<lambda>(r, s'). case if r \<noteq> 0 then (r, s') else (0, sc_event 9 [2, 5, 0, 0] s') of (r, s') \<Rightarrow> r = 0 \<longrightarrow> started s')"
    by (rule yields_mono) auto
  then show ?thesis
    by (simp add: SC_AppInit_def Let_def s_def [symmetric] case_prod_unfold)
qed

text \<open>The start-up succeeds if every service it calls does.\<close>

definition services_up :: "sc_init \<Rightarrow> bool" where
  "services_up init \<longleftrightarrow> Init_EvsRegister init = 0 \<and> Init_CreatePipe init = 0 \<and> (\<forall>m. Init_Subscribe init m = 0)
     \<and> (\<forall>tbl. Init_Register init tbl = 0 \<and> Init_DumpAddress init tbl = 0 \<and> at_start (fst (Init_Address init tbl)))"

lemma register_up: "services_up init \<Longrightarrow> fst (register_tables init l s) = 0"
  by (induction init l s rule: register_tables.induct) (simp_all add: services_up_def Let_def)

lemma dump_up: "services_up init \<Longrightarrow> fst (dump_addresses init l s) = 0"
  by (induction init l s rule: dump_addresses.induct) (simp_all add: services_up_def Let_def)

lemma addresses_up:
  assumes "services_up init"
  shows "upholds (ats_addresses init is s) (\<lambda>(r, s'). r = None)" "upholds (rts_addresses init is s) (\<lambda>(r, s'). r = None)"
proof -
  have up: "at_start st" if "Init_Address init tbl = (st, t)" for tbl st t
    using assms that unfolding services_up_def by (metis fst_conv)
  show "upholds (ats_addresses init is s) (\<lambda>(r, s'). r = None)"
    by (induction "is" arbitrary: s) (auto simp: upholds_set up split: prod.splits)
  show "upholds (rts_addresses init is s) (\<lambda>(r, s'). r = None)"
    by (induction "is" arbitrary: s) (auto simp: upholds_set up Let_def split: prod.splits)
qed

lemma AppInit_success:
  assumes "services_up init"
  shows "upholds (SC_AppInit init) (\<lambda>(r, s). r = 0)"
proof -
  have load: "upholds (SC_GetLoadTablePointers init s) (\<lambda>(r, s). r = 0)" for s
  proof -
    have "upholds (rts_addresses init is s) (\<lambda>(r, s'). (case r of None \<Rightarrow> 0 | Some x \<Rightarrow> x) = (0::int))" for "is" s
      by (rule upholds_mono [OF addresses_up(2) [OF assms]]) auto
    moreover have "at_start (fst (Init_Address init Tbl_Append))" using assms by (simp add: services_up_def)
    ultimately show ?thesis
      unfolding SC_GetLoadTablePointers_def
      by (auto simp: Let_def case_prod_unfold simp del: upt_Suc split: option.splits
          intro!: upholds_mono [OF addresses_up(1) [OF assms]])
  qed
  have "upholds (SC_InitTables init s) (\<lambda>(r, s). r = 0)" for s
  proof -
    have "fst (SC_RegisterAllTables init s) = 0" "fst (SC_GetDumpTablePointers init s) = 0" for s
      unfolding SC_RegisterAllTables_def SC_GetDumpTablePointers_def
      by (rule register_up [OF assms] dump_up [OF assms])+
    then show ?thesis
      by (auto simp: SC_InitTables_def Let_def case_prod_unfold intro!: upholds_mono [OF load])
  qed
  then show ?thesis
    using assms by (auto simp: SC_AppInit_def services_up_def Let_def case_prod_unfold elim!: upholds_mono)
qed

end
