(* ===== verification/SC_TimeIndex.thy ===== *)
theory SC_TimeIndex
  imports SC_Load
begin

text \<open>
  Stored commands: the time index of a loaded table as a sorting of its entries.
\<close>

section \<open>Loading a validated table\<close>

definition entry_time :: "u16 list \<Rightarrow> nat \<Rightarrow> u32" where
  "entry_time t e = get_le32 2 (tbl_pkt t e)"

lemma insort_key_map: "insort_key f (g x) (map g xs) = map g (insort_key (\<lambda>x. f (g x)) x xs)"
  by (induction xs) simp_all

lemma sort_key_map: "sort_key f (map g xs) = map g (sort_key (\<lambda>x. f (g x)) xs)"
  by (induction xs) (simp_all add: insort_key_map)

lemma insort_key_cong: "(\<And>y. y \<in> insert x (set xs) \<Longrightarrow> f y = g y) \<Longrightarrow> insort_key f x xs = insort_key g x xs"
  by (induction xs) auto

lemma sort_key_cong: "(\<And>x. x \<in> set xs \<Longrightarrow> f x = g x) \<Longrightarrow> sort_key f xs = sort_key g xs"
proof (induction xs)
  case (Cons x xs)
  then have "insort_key f x (sort_key g xs) = insort_key g x (sort_key g xs)" by (intro insort_key_cong) auto
  then show ?case using Cons by simp
qed simp

text \<open>The order of the entries of a table: by their time after \<open>b\<close>, and by their number where times are equal.\<close>

definition ats_sorted :: "u32 \<Rightarrow> u16 list \<Rightarrow> (nat \<times> nat) list \<Rightarrow> nat list" where
  "ats_sorted b t es = map fst (sort_key (\<lambda>(c, e). unat (entry_time t e - b)) (sort_key fst es))"

lemma LoadAts_sorted:
  assumes g: "good_table 8000 t es j" and b: "\<forall>(c, e) \<in> set es. unat (entry_time t e - b) < 2 ^ 31"
  obtains a' where "SC_LoadAts (a\<lparr>AtsTbl := t\<rparr>) = Some a'" "unat (NumberOfCommands a') = length es"
    "unat (AtsSize a') = j" "\<forall>(c, e) \<in> set es. AtsCmdIndexBuffer a' ! c = int e \<and> AtsCmdStatus a' ! c = SC_LOADED"
    "\<forall>c<1000. c \<notin> fst ` set es \<longrightarrow> AtsCmdStatus a' ! c = SC_EMPTY"
    "map unat (take (length es) (AtsTimeIndexBuffer a')) = ats_sorted b t es"
proof -
  let ?a = "a\<lparr>AtsTbl := t\<rparr>"
  define a1 where "a1 = enter_all es (SC_InitAtsTables ?a)\<lparr>AtsSize := of_nat j\<rparr>"
  have t: "ats_table 8000 t 0 es j" "distinct (map fst es)" "length t = 8000" using g by (auto simp: good_table_def)
  have ga: "good_table 8000 (AtsTbl ?a) es j" using g by simp
  obtain tb where tb: "SC_LoadAts ?a = Some (a1\<lparr>AtsTimeIndexBuffer := tb\<rparr>)" "unat (NumberOfCommands a1) = length es"
    "map unat (take (length es) tb) =
       sort_by (\<lambda>d c. SC_CompareAbsTime (cmd_tm a1 d) (cmd_tm a1 c)) (sort (map fst es)) []"
    by (rule LoadAts_good [OF ga, folded a1_def])
  have idx: "AtsCmdIndexBuffer a1 ! c = int e" "AtsCmdStatus a1 ! c = SC_LOADED" "c < 1000" if "(c, e) \<in> set es" for c e
    using that ats_table_cmds [OF t(1), of c] enter_all_index [OF that t(2)] enter_all_status [of c es] rev_image_eqI [OF that, of c fst]
    by (auto simp: a1_def)
  have tm: "cmd_tm a1 c = entry_time t e" if "(c, e) \<in> set es" for c e
  proof -
    have "e + 2 < 8000" using ats_table_entries(1) [OF t(1) that] by (simp add: entry_ok_def)
    then show ?thesis
      using idx [OF that] t(3)
      by (simp add: ats_cmd_time_def arr_get_def SC_GetAtsEntryTime_def entry_time_def a1_def)
  qed
  have "map unat (take (length es) tb) = sort_key (\<lambda>c. unat (cmd_tm a1 c - b)) (sort (map fst es))"
    unfolding tb(3) by (rule sc_time.sort_by_sort_key) (use b tm in fastforce)
  also have "sort (map fst es) = map fst (sort_key fst es)" by (simp add: sort_key_map)
  also have "sort_key (\<lambda>c. unat (cmd_tm a1 c - b)) (map fst (sort_key fst es)) = ats_sorted b t es"
    unfolding ats_sorted_def sort_key_map
    by (intro arg_cong [where f = "map fst"] sort_key_cong) (auto simp: tm)
  finally have sorted: "map unat (take (length es) tb) = ats_sorted b t es" .
  have "unat (AtsSize a1) = j"
    using ats_table_le [OF t(1)] by (simp add: a1_def unsigned_of_nat take_bit_eq_mod)
  moreover have "AtsCmdStatus a1 ! c = SC_EMPTY" if "c < 1000" "c \<notin> fst ` set es" for c
    using that enter_all_other [of c es "SC_InitAtsTables ?a"] by (simp add: a1_def)
  moreover have "\<forall>(c, e) \<in> set es. AtsCmdIndexBuffer a1 ! c = int e \<and> AtsCmdStatus a1 ! c = SC_LOADED"
    using idx by auto
  ultimately show ?thesis using that [of "a1\<lparr>AtsTimeIndexBuffer := tb\<rparr>"] tb(1,2) sorted by simp
qed


text \<open>A table with two commands, the later one first.\<close>

definition demo_words :: "u16 list" where
  "demo_words = [2, 5, 0, 0, 0, 0x0100, 0, 1, 3, 0, 0, 0, 0x0100, 0]"

definition demo_table :: "u16 list" where
  "demo_table = demo_words @ replicate 7986 0"

lemma demo_table_nth: "k < 14 \<Longrightarrow> demo_table ! k = demo_words ! k" "demo_table ! 14 = 0" "length demo_table = 8000"
proof -
  have "length demo_words = 14" by (simp add: demo_words_def)
  then show "k < 14 \<Longrightarrow> demo_table ! k = demo_words ! k" "demo_table ! 14 = 0" "length demo_table = 8000"
    by (simp_all add: demo_table_def nth_append)
qed

lemma demo_table_good: "good_table 8000 demo_table [(1, 0), (0, 7)] 14"
proof -
  have l: "entry_len demo_table 0 = 8" "entry_len demo_table 7 = 8"
    by (simp_all add: entry_len_def CFE_SB_GetTotalMsgLength_def CCSDS_RD_LEN_def tbl_pkt_def tbl_byte_def
        demo_table_nth demo_words_def hi8_def lo8_def)
  have z: "entry_size demo_table 0 = 7" "entry_size demo_table 7 = 7"
    using l by (simp_all add: entry_size_def)
  have e: "entry_ok 8000 demo_table 1 0" "entry_ok 8000 demo_table 0 7"
    using l z by (simp_all add: entry_ok_def demo_table_nth demo_words_def)
  have "ats_table 8000 demo_table 14 [] 14" by (rule table_end) (simp add: demo_table_nth)
  then have "ats_table 8000 demo_table 7 [(0, 7)] 14" using table_entry [OF e(2)] z by simp
  then have "ats_table 8000 demo_table 0 [(1, 0), (0, 7)] 14" using table_entry [OF e(1)] z by simp
  then show ?thesis by (simp add: good_table_def demo_table_nth)
qed

lemma demo_entry_times: "entry_time demo_table 0 = 5" "entry_time demo_table 7 = 3"
  by (simp_all add: entry_time_def get_le32_def tbl_pkt_def tbl_byte_def demo_table_nth demo_words_def hi8_def lo8_def)

end
