(* ===== verification/SC_Props.thy ===== *)
theory SC_Props
  imports SC_Start SC_TimeIndex
begin

text \<open>
  Stored commands: the properties of the application.  \<open>sc_reach\<close> are the states after the start-up and any
  requests, with table services that hand out validated tables.
\<close>

section \<open>Histories\<close>

inductive sc_reach :: "SC_t \<Rightarrow> bool" where
  reach_start: "init_served init \<Longrightarrow> SC_AppInit init = Some (0, s) \<Longrightarrow> sc_reach s"
| reach_request: "sc_reach s \<Longrightarrow> answers_ok env msg s \<Longrightarrow> SC_ProcessRequest env msg s = Some s' \<Longrightarrow> sc_reach s'"

lemma wakeup_request:
  "CFE_SB_GetMsgId msg = SC_1HZ_WAKEUP_MID \<Longrightarrow>
     SC_ProcessRequest env msg s = wakeup_loop env (SC_GetCurrentTime env s)"
  by (simp add: SC_ProcessRequest_def Let_def)

lemma time_fields [simp]:
  "wf_sc (SC_GetCurrentTime env s) = wf_sc s" "budget i c (SC_GetCurrentTime env s) = budget i c s"
  "NumCmdsSec (SC_GetCurrentTime env s) = NumCmdsSec s" "msgs (SC_GetCurrentTime env s) = msgs s"
  by (simp_all add: SC_GetCurrentTime_def msgs_def)

lemma sc_reach_wf: "sc_reach s \<Longrightarrow> wf_sc s \<and> NumCmdsSec s = 0"
proof (induction rule: sc_reach.induct)
  case (reach_start init s)
  then show ?case using AppInit_ok [of init] by (auto simp: yields_def dest: started_wf)
next
  case (reach_request s env msg s')
  then show ?case
    using request_ok [of s msg env] wakeup_loop_partial [of "SC_GetCurrentTime env s" env]
    by (cases "CFE_SB_GetMsgId msg = SC_1HZ_WAKEUP_MID")
      (auto simp: wakeup_request yields_def upholds_def quiet_def dest: good_step_wf)
qed

text \<open>The states at the head of the wake-up loop.\<close>

inductive wake_passes :: "sc_env \<Rightarrow> SC_t \<Rightarrow> SC_t \<Rightarrow> bool" for env :: sc_env where
  passes_none: "wake_passes env s s"
| passes_one: "wake_passes env s s' \<Longrightarrow> wakeup_body env s' = Some (True, s'') \<Longrightarrow> wake_passes env s s''"

lemma wake_passes_wf: "wake_passes env s s' \<Longrightarrow> wf_sc s \<Longrightarrow> wf_sc s'"
proof (induction rule: wake_passes.induct)
  case (passes_one s s' s'')
  then show ?case using wakeup_body_ok [of s' env] by (auto simp: yields_def pass_post_def dest: good_step_wf)
qed

section \<open>A start-up and requests\<close>

text \<open>A start of the application and a no-operation command, a housekeeping request and a wake-up.\<close>

definition demo_init :: sc_init where
  "demo_init = \<lparr>Init_PowerOn = True, Init_EvsRegister = 0, Init_CreatePipe = 0, Init_Subscribe = (\<lambda>_. 0),
     Init_Register = (\<lambda>_. 0), Init_DumpAddress = (\<lambda>_. 0), Init_FileOpens = (\<lambda>_. False), Init_TblLoad = (\<lambda>_. 0),
     Init_Address = (\<lambda>_. (TBL_ERR_NEVER_LOADED, []))\<rparr>"

definition demo_sc :: SC_t where
  "demo_sc = snd (the (SC_AppInit demo_init))"

lemma demo_sc_reach: "sc_reach demo_sc"
proof -
  have "init_served demo_init" by (simp add: init_served_def demo_init_def)
  moreover obtain r s where "SC_AppInit demo_init = Some (r, s)"
    using AppInit_ok [OF calculation] by (auto simp: yields_def)
  moreover have "services_up demo_init" by (simp add: services_up_def demo_init_def at_start_def)
  ultimately show ?thesis
    using AppInit_success [of demo_init] by (auto simp: upholds_def demo_sc_def intro: reach_start)
qed

lemma demo_sc_started: "started demo_sc"
proof -
  have "init_served demo_init" by (simp add: init_served_def demo_init_def)
  moreover have "services_up demo_init" by (simp add: services_up_def demo_init_def at_start_def)
  ultimately show ?thesis
    using AppInit_ok [of demo_init] AppInit_success [of demo_init] by (auto simp: upholds_def yields_def demo_sc_def)
qed

lemma started_agree: "started s \<Longrightarrow> times_agree (SC_GetCurrentTime env s)"
  by (auto simp: started_def times_agree_def ats_times_def SC_GetCurrentTime_def unused_ats_def list_all_iff)

definition demo_sc_env :: "tbl_status \<Rightarrow> u16 list \<Rightarrow> sc_env" where
  "demo_sc_env st t = \<lparr>Env_Time = 4, Env_SendMsg = (\<lambda>_. CFE_SUCCESS), Env_Table = (st, t)\<rparr>"

text \<open>The command that table services send for the table of the first ATS, and the wake-up.\<close>

definition demo_manage :: bytes where
  "demo_manage = (\<lambda>_. 0)(0 := 0x18, 1 := 0xA9, 5 := 5, 7 := 12, 8 := 1)"

definition demo_wakeup :: bytes where
  "demo_wakeup = (\<lambda>_. 0)(0 := 0x18, 1 := 0xAB, 5 := 1)"

lemma demo_msg_ids:
  "CFE_SB_GetMsgId demo_manage = SC_CMD_MID" "CFE_SB_GetCmdCode demo_manage = 12" "get_le32 8 demo_manage = 1"
  "CFE_SB_GetMsgId demo_wakeup = SC_1HZ_WAKEUP_MID"
  by (simp_all add: demo_manage_def demo_wakeup_def CFE_SB_GetMsgId_def CFE_SB_GetCmdCode_def hdr_defs get_le32_def
      CCSDS_TLM_def)

lemma demo_validated: "validated SC_ValidateAts 8000 demo_table"
proof -
  have "\<exists>es j. good_table 8000 demo_table es j" using demo_table_good by blast
  then have "\<exists>s'. SC_ValidateAts demo_table sc_zero = Some (True, s')"
    using VerifyAtsTable_spec [OF demo_table_nth(3), of sc_zero] unfolding SC_ValidateAts_def by auto
  then show ?thesis using demo_table_nth(3) unfolding validated_def by blast
qed

lemma demo_answers: "answers_ok (demo_sc_env TBL_INFO_UPDATED demo_table) demo_manage demo_sc"
  using demo_validated
  by (simp add: answers_ok_def tables_served_def demo_msg_ids ats_served_def table_served_def demo_sc_env_def)

section \<open>Loading a table\<close>



section \<open>Safety of the requests\<close>

text \<open>
  C12. In every state that the application reaches from its start-up by any requests, provided that table
  services hand out tables that were validated, no request accesses an array or a table outside of its
  bounds: a request other than the wake-up returns, and sends no command of a sequence; and every pass of
  the wake-up loop returns.
\<close>

theorem SC_requests_safe:
  assumes "sc_reach s" "answers_ok env msg s"
  shows "if CFE_SB_GetMsgId msg = SC_1HZ_WAKEUP_MID
     then \<forall>s'. wake_passes env (SC_GetCurrentTime env s) s' \<longrightarrow> (\<exists>again s''. wakeup_body env s' = Some (again, s''))
     else \<exists>s'. SC_ProcessRequest env msg s = Some s' \<and> msgs s' = msgs s"
proof -
  have wf: "wf_sc s" using sc_reach_wf [OF assms(1)] by simp
  have "\<exists>again s''. wakeup_body env s' = Some (again, s'')" if "wake_passes env (SC_GetCurrentTime env s) s'" for s'
    using wakeup_body_ok [OF wake_passes_wf [OF that], of env] wf by (auto simp: yields_def)
  then show ?thesis using request_ok [OF wf _ assms(2)] by (auto simp: yields_def quiet_def)
qed

theorem SC_requests_safe_witness:
  "sc_reach demo_sc \<and> answers_ok (demo_sc_env TBL_INFO_UPDATED demo_table) demo_manage demo_sc \<and>
   (\<exists>s'. SC_ProcessRequest (demo_sc_env TBL_INFO_UPDATED demo_table) demo_manage demo_sc = Some s' \<and> msgs s' = msgs demo_sc)"
  using SC_requests_safe [OF demo_sc_reach demo_answers] demo_sc_reach demo_answers by (simp add: demo_msg_ids)

section \<open>Every command of an ATS is sent at most once\<close>

fun sc_requests :: "(sc_env \<times> bytes) list \<Rightarrow> SC_t \<Rightarrow> SC_t option" where
  "sc_requests [] s = Some s"
| "sc_requests ((env, msg) # rs) s = do { s \<leftarrow> SC_ProcessRequest env msg s; sc_requests rs s }"

lemma request_budget:
  assumes wf: "wf_sc s" and "\<not> loads msg" "SC_ProcessRequest env msg s = Some s'"
  shows "wf_sc s' \<and> budget i c s' \<le> budget i c s"
proof -
  let ?s = "SC_GetCurrentTime env s"
  have "answers_ok env msg s" using assms(2) by (auto simp: answers_ok_def loads_def)
  then have "good_step ?s s'"
    using assms request_ok [OF wf, of msg env] wakeup_loop_partial [of ?s env]
    by (cases "CFE_SB_GetMsgId msg = SC_1HZ_WAKEUP_MID") (auto simp: wakeup_request yields_def upholds_def)
  then have "wf_sc s'" "budget i c s' \<le> budget i c ?s" by (auto simp: good_step_def)
  then show ?thesis by simp
qed

text \<open>
  C21. Between two loads of sequences (by a table or an append command) every command of an ATS is sent at most once,
  and only if it was loaded: over any requests, with any passage of time, switches, jumps and restarts of
  sequences, and with any results of the software bus.
\<close>

theorem SC_ats_command_once:
  assumes "sc_reach s" "sc_requests rs s = Some s'" "\<forall>(env, msg) \<in> set rs. \<not> loads msg"
  shows "sends i c s' \<le> sends i c s + (if cmd_loaded i c s then 1 else 0)"
proof -
  have "budget i c s' \<le> budget i c s" if "wf_sc s" using assms(2,3) that
  proof (induction rs s rule: sc_requests.induct)
    case (2 env msg rs s)
    then obtain s1 where s1: "SC_ProcessRequest env msg s = Some s1" "sc_requests rs s1 = Some s'"
      by (auto simp: bind_eq_Some_conv)
    then have "wf_sc s1 \<and> budget i c s1 \<le> budget i c s" using request_budget 2 by auto
    then show ?case using 2 s1 by fastforce
  qed simp
  then show ?thesis using sc_reach_wf [OF assms(1)] by (auto simp: budget_def split: if_splits)
qed

lemma demo_wakeup_returns: "\<exists>s'. sc_requests [(demo_sc_env TBL_SUCCESS [], demo_wakeup)] demo_sc = Some s'"
  using wakeup_loop_ok [of "SC_GetCurrentTime (demo_sc_env TBL_SUCCESS []) demo_sc" "demo_sc_env TBL_SUCCESS []"]
    started_wf [OF demo_sc_started] started_agree [OF demo_sc_started] wakeup_request [OF demo_msg_ids(4)]
  by (auto simp: yields_def)

theorem SC_ats_command_once_witness:
  "\<exists>s'. sc_reach demo_sc \<and> sc_requests [(demo_sc_env TBL_SUCCESS [], demo_wakeup)] demo_sc = Some s' \<and>
     (\<forall>i c. sends i c s' \<le> sends i c demo_sc + (if cmd_loaded i c demo_sc then 1 else 0))"
proof -
  obtain s' where s': "sc_requests [(demo_sc_env TBL_SUCCESS [], demo_wakeup)] demo_sc = Some s'"
    using demo_wakeup_returns by blast
  have "\<forall>(env, msg) \<in> set [(demo_sc_env TBL_SUCCESS [], demo_wakeup)]. \<not> loads msg" by (simp add: loads_def demo_msg_ids)
  from SC_ats_command_once [OF demo_sc_reach s' this] show ?thesis using s' demo_sc_reach by blast
qed

section \<open>The wake-up ends\<close>

text \<open>
  C40. A wake-up returns, and sends at most eight commands of sequences, if the comparison of times that
  allows for the roll-over of the clock agrees with the plain one on the times of the loaded commands and of the
  next one.
\<close>

theorem SC_wakeup_returns:
  assumes "sc_reach s" "CFE_SB_GetMsgId msg = SC_1HZ_WAKEUP_MID" "times_agree (SC_GetCurrentTime env s)"
  shows "\<exists>s'. SC_ProcessRequest env msg s = Some s' \<and> msgs s' \<le> msgs s + 8"
proof -
  have "wf_sc s \<and> NumCmdsSec s = 0" by (rule sc_reach_wf [OF assms(1)])
  then show ?thesis
    using wakeup_loop_ok [OF _ assms(3), of env] wakeup_request [OF assms(2), of env s]
    by (auto simp: yields_def wakeup_post_def)
qed

theorem SC_wakeup_returns_witness:
  "sc_reach demo_sc \<and> times_agree (SC_GetCurrentTime (demo_sc_env TBL_SUCCESS []) demo_sc) \<and>
   (\<exists>s'. SC_ProcessRequest (demo_sc_env TBL_SUCCESS []) demo_wakeup demo_sc = Some s' \<and> msgs s' \<le> msgs demo_sc + 8)"
  using SC_wakeup_returns [OF demo_sc_reach demo_msg_ids(4) started_agree [OF demo_sc_started]]
    demo_sc_reach started_agree [OF demo_sc_started] by blast

text \<open>Without the agreement the loop may run forever: a command that is not due by the comparison with
  roll-over, and due by the plain one, is neither sent nor passed over.\<close>

lemma SC_wakeup_rollover_hangs:
  assumes "AtpState s = SC_EXECUTING" "NextProcNumber s = SC_ATP" "SC_UpdateNextTime s = Some s"
    and "\<not> SwitchPendFlag s" "NumCmdsSec s < 8"
    and "SC_CompareAbsTime (NextAtpTime s) (CurrentTime s)" "NextAtpTime s \<le> CurrentTime s"
  shows "wakeup_loop env s = None"
  by (rule wakeup_loop_stuck)
    (use assms in \<open>auto simp: wakeup_body_def SC_ProcessAtpCmd_def NextCmdTime_def\<close>)

lemma NextRts_loop_idle:
  "set is \<subseteq> {..<length (Rts s)} \<Longrightarrow> \<forall>r \<in> set (Rts s). RtsStatus r \<noteq> SC_EXECUTING \<Longrightarrow> NextRts_loop is s n t = Some (n, t)"
  by (induction "is") (auto simp: get_rts_def arr_get_def)

text \<open>Shortly before the roll-over of the clock, with a next command shortly after it.\<close>

definition demo_rollover :: SC_t where
  "demo_rollover = sc_zero\<lparr>AtpState := SC_EXECUTING, AtsNumber := 1, NextAtpTime := 2, NextRtpTime := SC_MAX_TIME,
     CurrentTime := 0xFFFFFFF0\<rparr>"

lemma SC_wakeup_rollover_hangs_example: "wakeup_loop env demo_rollover = None"
proof -
  have "NextRts_loop (rev [0..<64]) demo_rollover 0xFFFF SC_MAX_TIME = Some (0xFFFF, SC_MAX_TIME)"
    by (rule NextRts_loop_idle) (auto simp: demo_rollover_def sc_zero_def)
  then have "SC_UpdateNextTime demo_rollover = Some demo_rollover"
    by (simp add: SC_UpdateNextTime_def SC_GetNextRtsTime_def demo_rollover_def sc_zero_def del: upt_Suc)
  moreover have "SC_CompareAbsTime 2 0xFFFFFFF0" by (rule CompareAbsTime_ahead(1) [where b = "0xFFFFFFF0"]) simp_all
  ultimately show ?thesis
    by (intro SC_wakeup_rollover_hangs) (simp_all add: demo_rollover_def sc_zero_def)
qed

end
