(* ===== verification/Spec2Isabelle.thy ===== *)
theory Spec2Isabelle
  imports SB_Delivery TIME_Version EVS_Props ES_LogText SC_Props
begin

text \<open>
  \<^bold>\<open>A verification of the flight software core in this repository.\<close>

  The repository holds the Core Flight System for a BeagleBone payload: the core Flight Executive
  (\<^verbatim>\<open>src/cfe\<close>), the OS abstraction layer (\<^verbatim>\<open>src/osal\<close>), platform support (\<^verbatim>\<open>src/psp\<close>) and applications
  (\<^verbatim>\<open>src/apps\<close>).  Applications exchange CCSDS packets over the software bus.  The bus keeps a routing
  table from message identifiers to pipes; a pipe is an OSAL message queue; the packets in transit and
  the destination descriptors live in an executive memory pool.  Time Services keep the spacecraft
  time that packets are stamped with.  Event Services filter, log and send the event messages of the
  applications.  The stored command application sends commands over the bus at the times given in tables.  The configuration is the one of the target \<^verbatim>\<open>arm-bbb\<close> in
  \<^verbatim>\<open>src/yonix_defs\<close>: 32-bit, little-endian, time server with internal clock.

  \<^bold>\<open>Theories.\<close>  Sources are relative to \<^verbatim>\<open>src/cfe/fsw/cfe-core/src\<close> unless they begin with \<^verbatim>\<open>osal\<close>
  or \<^verbatim>\<open>apps\<close>.

  \<^item> \<open>Prelude\<close>: machine integers as words, memory behind a pointer as a function from offsets to bytes,
    the return codes, bit-blasting lemmas.
  \<^item> \<open>CCSDS\<close> (\<^verbatim>\<open>inc/ccsds.h\<close>, \<^verbatim>\<open>sb/ccsds.c\<close>): the header field macros and the checksum.  The locale
    \<open>hdr_field\<close> states what a read/write pair of macros promises; every field is an interpretation.
  \<^item> \<open>SB_Msg\<close> (\<^verbatim>\<open>sb/cfe_sb_util.c\<close>, \<^verbatim>\<open>sb/cfe_sb_msg_id_util.c\<close>): the message utilities.  Initialisation builds
    the header asked for, lengths and times read back, corruption is found by the checksum, and string
    copies stay in bounds (C1, C2, C4, C5).
  \<^item> \<open>ES_MemPool\<close> (\<^verbatim>\<open>es/cfe_esmempool.c\<close>): the memory pool with its descriptors in pool memory.  It
    implements the locale \<open>block_allocator\<close>: live blocks are disjoint, a block is released once, requests
    are refused exactly when they cannot be met, and the size table is sorted (C6 to C9).
  \<^item> \<open>OS_IdMap\<close> (\<^verbatim>\<open>osal/src/os/shared/osapi-idmap.c\<close>): object identifiers, their lookup and their locks
    (C10, C11).
  \<^item> \<open>OS_Queue\<close> (\<^verbatim>\<open>osal/src/os/shared/osapi-queue.c\<close>, \<^verbatim>\<open>osal/src/os/posix/osapi.c\<close>): message queues over the POSIX
    calls; interruptions and failures of the kernel are a list of outcomes in the state.  They implement
    the locale \<open>queue_service\<close> (C13 to C15).
  \<^item> \<open>SB_Priv\<close>, \<open>SB_Api\<close> (\<^verbatim>\<open>sb/cfe_sb_priv.c\<close>, \<^verbatim>\<open>sb/cfe_sb_buf.c\<close>, \<^verbatim>\<open>sb/cfe_sb_init.c\<close>, \<^verbatim>\<open>sb/cfe_sb_api.c\<close>): the whole
    state of the bus as one record, over the pool and the queues above, and every function of its
    interface.  An operation that follows pointers returns an \<open>option\<close>; \<open>None\<close> is a dereference of \<^verbatim>\<open>NULL\<close>.
  \<^item> \<open>SB_Calls\<close>: any sequence of calls keeps the mutex balanced and the pool sound (C16, C17).
  \<^item> \<open>SB_Routing\<close>, \<open>SB_Subs\<close>: the linked lists of the routing table, and subscriptions as the refinement of
    an abstract registry, the locale \<open>subscription_registry\<close> (C18 to C20).
  \<^item> \<open>SB_Delivery\<close>: a message reaches exactly its receivers, one reception returns the oldest message, and a
    message sent is received as it was sent (C22 to C24).
  \<^item> \<open>TIME_Math\<close> (\<^verbatim>\<open>time/cfe_time_api.c\<close>): time arithmetic, comparison across roll-over, conversions and the
    printed date (C25 to C28).
  \<^item> \<open>TIME_State\<close>, \<open>TIME_Task\<close> (\<^verbatim>\<open>time/cfe_time_utils.c\<close>, \<^verbatim>\<open>time/cfe_time_tone.c\<close>, \<^verbatim>\<open>time/cfe_time_task.c\<close>): the state
    of Time Services and every operation on it, from the interrupt handlers to the ground commands.
  \<^item> \<open>TIME_Ref\<close>, \<open>TIME_Clock\<close>, \<open>TIME_Version\<close>: the time reference as published versions, the properties of the
    clock, and the lock-free readers interleaved with updates (C29 to C33).
  \<^item> \<open>EVS_State\<close>, \<open>EVS_Api\<close>, \<open>EVS_Task\<close> (\<^verbatim>\<open>evs/cfe_evs.c\<close>, \<^verbatim>\<open>evs/cfe_evs_utils.c\<close>, \<^verbatim>\<open>evs/cfe_evs_log.c\<close>,
    \<^verbatim>\<open>evs/cfe_evs_task.c\<close>): the data of Event Services, the filter decision with the events it sends in turn,
    the event log, the interface functions, start-up and every ground command, with the texts of the
    events.  The filter decision and the sending of an event call each other; that this ends is the
    termination proof of the two functions, on the room left in the filter counters.
  \<^item> \<open>EVS_Inv\<close>, \<open>EVS_Run\<close>: every operation keeps the data well formed.  \<open>EVS_Events\<close>: which messages are
    sent.  \<open>EVS_Log\<close>: the log ring as an instance of the locale \<open>bounded_log\<close>.  \<open>EVS_Props\<close>: the properties
    (C34 to C38).
  \<^item> \<open>ES_SysLog\<close>, \<open>ES_LogText\<close> (\<^verbatim>\<open>es/cfe_es_syslog.c\<close>): the system log, a text buffer that wraps, its reader and
    its dump to a file.  Over any history the dump is the end of the text stored (C39).
  \<^item> \<open>SC_State\<close>, \<open>SC_Loads\<close>, \<open>SC_Ats\<close>, \<open>SC_Cmds\<close>, \<open>SC_App\<close> (\<^verbatim>\<open>apps/sc/fsw/src\<close>: \<^verbatim>\<open>sc_utils.c\<close>, \<^verbatim>\<open>sc_loads.c\<close>,
    \<^verbatim>\<open>sc_atsrq.c\<close>, \<^verbatim>\<open>sc_rtsrq.c\<close>, \<^verbatim>\<open>sc_state.c\<close>, \<^verbatim>\<open>sc_cmds.c\<close>, \<^verbatim>\<open>sc_app.c\<close>): the stored command application, with
    two absolute time sequences (ATS) and 64 relative ones (RTS).  Tables are lists of 16-bit words that hold
    command packets, read with the functions of \<open>SB_Msg\<close>; times are compared with those of \<open>TIME_Math\<close>.
    \<open>None\<close> is an access out of bounds or, for the wake-up loop, a loop that does not end.
  \<^item> \<open>SC_Sort\<close>, \<open>SC_Table\<close>, \<open>SC_Load\<close>, \<open>SC_TimeIndex\<close>: the time index as a sorting within half of the range of the
    clock (locale \<open>half_range_order\<close>), the format of tables as an inductive predicate, validation and loading (C3).
  \<^item> \<open>SC_Inv\<close>, \<open>SC_Steps\<close>, \<open>SC_Run\<close>, \<open>SC_Send\<close>, \<open>SC_Wake\<close>, \<open>SC_System\<close>, \<open>SC_Quiet\<close>, \<open>SC_Start\<close>: the invariant of the application
    and what every operation keeps of it, by weakest preconditions; the loops over groups of RTS (locale
    \<open>rts_group_loop\<close>); the wake-up loop as an instance of the locale \<open>option_loop\<close>, with a measure.
  \<^item> \<open>SC_Props\<close>: histories of requests from the start-up on.  No access is out of bounds (C12), a command of an
    ATS is sent at most once per load (C21), and the wake-up returns (C40) unless the clock is about to roll
    over, where it may hang.

  \<^bold>\<open>Conventions.\<close>  C structures are records, enumerations are datatypes, arrays are lists or functions
  from the index, and addresses are 32-bit words.  Integers keep their width.  Loops that end by
  their structure are \<open>primrec\<close> or \<open>fun\<close>; the others are \<open>function\<close>s with a measure, or
  \<open>partial_function (option)\<close> for the walks along linked lists, where a cyclic list would not end, and for the
  wake-up loop of the stored command application; the properties of those loops state that they return.  \<open>CFE_TIME_GetReference\<close> retries four times as the code
  does.  Calls to code outside the repository are arguments or state: the local clock, the outcomes
  of POSIX calls, the identity of the calling task.  Table services, which are not modelled, are the
  answers in the records \<open>sc_env\<close> and \<open>sc_init\<close>; \<open>answers_ok\<close> and \<open>init_served\<close> state that a table handed out as
  updated has its size and was accepted by its validation function.

  \<^bold>\<open>Not modelled.\<close>  The texts of events and of the system log, except those of Event Services; performance
  markers; module loading and task
  control of the executive services, which are thin layers over the operating system; file input and
  output; table services; the sensor drivers, which are bus transfers and floating point formulas; the
  ground tools and the unit tests.  In Time Services, code that is not compiled for the target:
  external time sources and the client configuration.
\<close>

end
